(* ===== verification/QPrelude.thy ===== *)
theory QPrelude
  imports Complex_Main
begin

text \<open>
  Shared vocabulary of the development: identifiers and time stamps, the exceptions of the
  program as values, the result type of a stateful operation, and the SQL statements the code
  issues (\<open>SELECT\<close>, \<open>UPDATE\<close>, \<open>DELETE\<close>, \<open>ORDER BY\<close>) as functions on the list of a table's rows.
  A table is the list of its rows in insertion (rowid) order, which is the order SQLite
  returns them in and the order it keeps between equal sort keys.
  The lemma collection \<open>tbl\<close> holds the rewrite rules of these statements.
\<close>

section \<open>Basic types\<close>

text \<open>A date and time counts microseconds.\<close>

type_synonym ident = string
type_synonym datetime = int
type_synonym credits = rat

text \<open>
  Text of a JSON column is kept as the value it denotes, so that \<open>json.dumps\<close> and
  \<open>json.loads\<close> are the identity between the two sides of a column.
\<close>

datatype json =
    JNull
  | JBool bool
  | JInt int
  | JStr string
  | JList "json list"
  | JObj "(string \<times> json) list"

text \<open>The exceptions raised by the modelled code; message texts are reduced to short tags.\<close>

datatype py_error =
    IntegrityError string
  | OperationalError string
  | AttributeError string
  | ValueError string
  | TypeError string
  | RuntimeError string
  | WorkerNotFound ident
  | InvalidStateTransition string string "string list"
  | InvalidLifecycleState string string
  | InsufficientHiringAuthority string
  | MaxReportsExceeded int int
  | CircularDelegationError ident ident
  | DelegationNotFoundError ident
  | ConcurrentModificationError ident
  | BudgetExhaustedError ident credits credits
  | NoBudgetAllocationError ident
  | BudgetAllocationError string
  | ActiveSessionExistsError ident ident
  | ChannelAccessError ident ident string
  | StateTransitionConflictError ident
  | WorkerStorageNotFound ident
  | StorageAlreadyFrozen ident
  | PermissionDenied ident string ident int int string
  | NamedPermissionDenied ident "string list" "string list"
  | InvalidOrgTransition string string "string list"
  | InvalidBeadState ident string string
  | InvalidBeadTransition ident string string "string list"
  | CannotCloseBead ident string string
  | BeadBlocked ident "string list"
  | BeadPermissionError ident string int int "ident option"
  | OKRLinkRequired string
  | KeyError string
  | IndexError string
  | RuleSetLoadError string
  | ClickException string
  | ProviderSelectionError int "string list"
  | ProviderError string
  | FileNotFoundError string
  | SpawnFailedError string
  | OSError string
  | OrgSpecError string
  | TemplateSchemaError string
  | TemplateNotFound string
  | TemplateError string
  | TemplateMissingParent string
  | TemplateWrongParentType string string "string option"
  | TemplateParentTerminated string
  | ChannelNameCollision string
  | HireTeamRollbackFailed py_error "py_error list"

text \<open>
  A stateful operation returns its result together with the state it leaves, also when it
  raises: statements executed before an exception stay in effect.
\<close>

type_synonym ('s, 'a) outcome = "(py_error + 'a) \<times> 's"

abbreviation ok :: "'a \<Rightarrow> 's \<Rightarrow> ('s, 'a) outcome" where
  "ok x s \<equiv> (Inr x, s)"

abbreviation raise :: "py_error \<Rightarrow> 's \<Rightarrow> ('s, 'a) outcome" where
  "raise e s \<equiv> (Inl e, s)"

definition and_then :: "('s, 'a) outcome \<Rightarrow> ('a \<Rightarrow> 's \<Rightarrow> ('s, 'b) outcome) \<Rightarrow> ('s, 'b) outcome" where
  "and_then m k = (case m of (Inl e, s) \<Rightarrow> (Inl e, s) | (Inr x, s) \<Rightarrow> k x s)"

lemma and_then_simps [simp]:
  "and_then (Inl e, s) k = (Inl e, s)"
  "and_then (Inr x, s) k = k x s"
  by (simp_all add: and_then_def)

lemma and_then_InrD:
  assumes "and_then m k = (Inr y, s')"
  obtains x s where "m = (Inr x, s)" and "k x s = (Inr y, s')"
  using assms by (auto simp: and_then_def split: prod.splits sum.splits)

text \<open>Computations that may raise but keep no state, one after the other and along a list.\<close>

definition sum_then :: "'e + 'a \<Rightarrow> ('a \<Rightarrow> 'e + 'b) \<Rightarrow> 'e + 'b" where
  "sum_then m k = (case m of Inl e \<Rightarrow> Inl e | Inr x \<Rightarrow> k x)"

fun sum_map :: "('a \<Rightarrow> 'e + 'b) \<Rightarrow> 'a list \<Rightarrow> 'e + 'b list" where
  "sum_map f [] = Inr []"
| "sum_map f (x # xs) = sum_then (f x) (\<lambda>y. sum_then (sum_map f xs) (\<lambda>ys. Inr (y # ys)))"

lemma sum_then_simps [simp]:
  "sum_then (Inl e) k = Inl e"
  "sum_then (Inr x) k = k x"
  by (simp_all add: sum_then_def)

lemma sum_then_Inr_iff: "sum_then m k = Inr y \<longleftrightarrow> (\<exists>x. m = Inr x \<and> k x = Inr y)"
  by (cases m) simp_all

lemma sum_map_Inr_iff: "sum_map f xs = Inr ys \<longleftrightarrow> list_all2 (\<lambda>x y. f x = Inr y) xs ys"
  by (induction xs arbitrary: ys) (auto simp: sum_then_Inr_iff list_all2_Cons1)

lemma list_all2_mem2: "list_all2 P xs ys \<Longrightarrow> y \<in> set ys \<Longrightarrow> \<exists>x \<in> set xs. P x y"
  by (induction rule: list_all2_induct) auto

lemma sum_map_Inr_mem: "sum_map f xs = Inr ys \<Longrightarrow> y \<in> set ys \<Longrightarrow> \<exists>x \<in> set xs. f x = Inr y"
  using list_all2_mem2 [of "\<lambda>x y. f x = Inr y" xs ys y] by (simp add: sum_map_Inr_iff)

section \<open>SQL statements on tables\<close>

named_theorems tbl

definition fetchone :: "('r \<Rightarrow> bool) \<Rightarrow> 'r list \<Rightarrow> 'r option" where
  "fetchone p rows = List.find p rows"

definition fetchall :: "('r \<Rightarrow> bool) \<Rightarrow> 'r list \<Rightarrow> 'r list" where
  "fetchall p rows = filter p rows"

definition update_where :: "('r \<Rightarrow> bool) \<Rightarrow> ('r \<Rightarrow> 'r) \<Rightarrow> 'r list \<Rightarrow> 'r list" where
  "update_where p f rows = map (\<lambda>r. if p r then f r else r) rows"

definition delete_where :: "('r \<Rightarrow> bool) \<Rightarrow> 'r list \<Rightarrow> 'r list" where
  "delete_where p rows = filter (\<lambda>r. \<not> p r) rows"

definition rowcount :: "('r \<Rightarrow> bool) \<Rightarrow> 'r list \<Rightarrow> nat" where
  "rowcount p rows = length (filter p rows)"

definition order_by :: "('r \<Rightarrow> int) \<Rightarrow> 'r list \<Rightarrow> 'r list" where
  "order_by key rows = sort_key key rows"

definition order_by_desc :: "('r \<Rightarrow> int) \<Rightarrow> 'r list \<Rightarrow> 'r list" where
  "order_by_desc key rows = sort_key (\<lambda>r. - key r) rows"

lemmas tbl_defs = fetchone_def fetchall_def update_where_def delete_where_def rowcount_def
  order_by_def order_by_desc_def

lemma fetchone_Nil [simp]: "fetchone p [] = None"
  by (simp add: fetchone_def)

lemma fetchone_Cons [simp]: "fetchone p (r # rs) = (if p r then Some r else fetchone p rs)"
  by (simp add: fetchone_def)

lemma fetchone_append [simp]:
  "fetchone p (xs @ ys) = (case fetchone p xs of None \<Rightarrow> fetchone p ys | Some r \<Rightarrow> Some r)"
  by (induction xs) auto

lemma fetchone_SomeD:
  assumes "fetchone p rows = Some r"
  shows "r \<in> set rows" and "p r"
  using assms by (induction rows) (auto split: if_splits)

lemma fetchone_eq_None_iff: "fetchone p rows = None \<longleftrightarrow> (\<forall>r \<in> set rows. \<not> p r)"
  by (induction rows) auto

lemma fetchone_ex: "r \<in> set rows \<Longrightarrow> p r \<Longrightarrow> \<exists>r'. fetchone p rows = Some r'"
  by (metis fetchone_eq_None_iff not_None_eq)

lemma fetchall_set [simp]: "set (fetchall p rows) = {r \<in> set rows. p r}"
  by (auto simp: fetchall_def)

lemma order_by_set [simp]: "set (order_by k rows) = set rows"
  by (simp add: order_by_def)

lemma order_by_desc_set [simp]: "set (order_by_desc k rows) = set rows"
  by (simp add: order_by_desc_def)

lemma length_update_where [simp]: "length (update_where p f rows) = length rows"
  by (simp add: update_where_def)

lemma update_where_set: "set (update_where p f rows) = (\<lambda>r. if p r then f r else r) ` set rows"
  by (simp add: update_where_def)

lemma update_where_mem:
  "r \<in> set (update_where p f rows) \<Longrightarrow> \<exists>x \<in> set rows. r = (if p x then f x else x)"
  unfolding update_where_set by blast

lemma update_where_none: "(\<And>r. r \<in> set rows \<Longrightarrow> \<not> p r) \<Longrightarrow> update_where p f rows = rows"
  by (induction rows) (auto simp: update_where_def)

lemma update_where_append [simp]:
  "update_where p f (xs @ ys) = update_where p f xs @ update_where p f ys"
  by (simp add: update_where_def)

lemma update_where_Cons [simp]:
  "update_where p f (r # rs) = (if p r then f r else r) # update_where p f rs"
  by (simp add: update_where_def)

lemma update_where_Nil [simp]: "update_where p f [] = []"
  by (simp add: update_where_def)

lemma delete_where_set [simp]: "set (delete_where p rows) = {r \<in> set rows. \<not> p r}"
  by (auto simp: delete_where_def)

lemma rowcount_pos_iff: "0 < rowcount p rows \<longleftrightarrow> (\<exists>r \<in> set rows. p r)"
  by (auto simp: rowcount_def filter_empty_conv)

lemma fetchone_cong:
  "(\<And>r. r \<in> set rows \<Longrightarrow> p r = q r) \<Longrightarrow> fetchone p rows = fetchone q rows"
  by (induction rows) auto

subsection \<open>Updates that keep the column a lookup filters on\<close>

text \<open>
  Every \<open>UPDATE\<close> of the program changes other columns than the ones a later lookup selects on.
  The locale states that contract once: rows have a key the update function keeps. Its lemmas
  say what a lookup by key returns after the update, and that keys stay distinct.
\<close>

locale keyed_update =
  fixes key :: "'r \<Rightarrow> 'k" and upd :: "'r \<Rightarrow> 'r"
  assumes key_upd: "key (upd r) = key r"
begin

lemma lookup_update:
  "fetchone (\<lambda>r. key r = k) (update_where p upd rows) =
     map_option (\<lambda>r. if p r then upd r else r) (fetchone (\<lambda>r. key r = k) rows)"
  by (induction rows) (auto simp: key_upd)

lemma keys_update [simp]: "map key (update_where p upd rows) = map key rows"
  by (induction rows) (auto simp: key_upd)

lemma filter_update_other:
  assumes "\<And>r. q (upd r) = q r"
  shows "fetchall q (update_where p upd rows) = update_where p upd (fetchall q rows)"
  using assms by (induction rows) (auto simp: fetchall_def)

end

section \<open>Strings\<close>

definition ascii_lower_char :: "char \<Rightarrow> char" where
  "ascii_lower_char c =
     (let n = of_char c :: nat in if 65 \<le> n \<and> n \<le> 90 then char_of (n + 32) else c)"

definition ascii_lower :: "string \<Rightarrow> string" where
  "ascii_lower s = map ascii_lower_char s"

lemma ascii_lower_char_idem: "ascii_lower_char (ascii_lower_char c) = ascii_lower_char c"
proof (cases "65 \<le> (of_char c :: nat) \<and> (of_char c :: nat) \<le> 90")
  case True
  then have "of_char (char_of ((of_char c :: nat) + 32)) = (of_char c :: nat) + 32"
    by (simp add: of_char_of)
  then show ?thesis using True by (simp add: ascii_lower_char_def Let_def)
next
  case False
  then have "ascii_lower_char c = c" by (auto simp: ascii_lower_char_def Let_def)
  then show ?thesis by simp
qed

lemma ascii_lower_idem: "ascii_lower (ascii_lower s) = ascii_lower s"
  by (simp add: ascii_lower_def ascii_lower_char_idem)

fun contains_str :: "string \<Rightarrow> string \<Rightarrow> bool" where
  "contains_str sub [] = (sub = [])"
| "contains_str sub (c # cs) = (take (length sub) (c # cs) = sub \<or> contains_str sub cs)"

lemma contains_str_iff: "contains_str sub s \<longleftrightarrow> (\<exists>xs ys. s = xs @ sub @ ys)"
proof (induction s)
  case Nil
  show ?case by auto
next
  case (Cons c cs)
  show ?case
  proof
    assume "contains_str sub (c # cs)"
    then consider "take (length sub) (c # cs) = sub" | "contains_str sub cs" by auto
    then show "\<exists>xs ys. c # cs = xs @ sub @ ys"
    proof cases
      case 1
      then have "c # cs = [] @ sub @ drop (length sub) (c # cs)"
        by (metis append_Nil append_take_drop_id)
      then show ?thesis by blast
    next
      case 2
      then obtain xs ys where "cs = xs @ sub @ ys" using Cons.IH by blast
      then have "c # cs = (c # xs) @ sub @ ys" by simp
      then show ?thesis by blast
    qed
  next
    assume "\<exists>xs ys. c # cs = xs @ sub @ ys"
    then obtain xs ys where eq: "c # cs = xs @ sub @ ys" by blast
    show "contains_str sub (c # cs)"
    proof (cases xs)
      case Nil
      with eq have "take (length sub) (c # cs) = sub" by simp
      then show ?thesis by simp
    next
      case (Cons x xs')
      with eq have "cs = xs' @ sub @ ys" by simp
      then show ?thesis using \<open>contains_str sub cs \<longleftrightarrow> (\<exists>xs ys. cs = xs @ sub @ ys)\<close> by auto
    qed
  qed
qed

section \<open>Option and list facts\<close>

lemma distinct_map_filter: "distinct (map f xs) \<Longrightarrow> distinct (map f (filter p xs))"
  by (induction xs) auto

lemma distinct_map_unique:
  "distinct (map f xs) \<Longrightarrow> x \<in> set xs \<Longrightarrow> y \<in> set xs \<Longrightarrow> f x = f y \<Longrightarrow> x = y"
  by (auto simp: distinct_map inj_on_def)

lemma filter_key_unique:
  assumes "distinct (map key xs)" and "x \<in> set xs" and "P x"
  shows "filter (\<lambda>y. key y = key x \<and> P y) xs = [x]"
  using assms
proof (induction xs)
  case (Cons y ys)
  have "filter (\<lambda>z. key z = key x \<and> P z) ys = []" if "x = y"
    using that Cons.prems(1) by (auto simp: filter_empty_conv image_iff)
  then show ?case using Cons by (auto simp: image_iff)
qed simp

lemma fetchone_key_iff:
  assumes "distinct (map key rows)"
  shows "fetchone (\<lambda>r. key r = k) rows = Some r \<longleftrightarrow> r \<in> set rows \<and> key r = k"
  using assms by (induction rows) auto

lemma order_by_desc_hd:
  assumes "rows \<noteq> []"
  shows "\<exists>r rs. order_by_desc key rows = r # rs \<and> r \<in> set rows \<and> (\<forall>x \<in> set rows. key x \<le> key r)"
proof -
  obtain r rs where eq: "order_by_desc key rows = r # rs"
    using assms by (cases "order_by_desc key rows") (auto simp: order_by_desc_def dest: arg_cong [where f = length])
  have sorted: "sorted (map (\<lambda>r. - key r) (order_by_desc key rows))"
    by (simp add: order_by_desc_def)
  have mem: "set rows = insert r (set rs)"
    using order_by_desc_set [of key rows] by (simp add: eq)
  from sorted have "\<forall>x \<in> set rs. key x \<le> key r"
    by (auto simp: eq)
  then show ?thesis using eq mem by auto
qed

section \<open>Forests\<close>

definition forest :: "('a \<times> 'a) set \<Rightarrow> bool" where
  "forest R = (single_valued (R\<inverse>) \<and> acyclic R)"

lemma forest_common_descendant:
  assumes "forest R" and "(a, z) \<in> R\<^sup>*" and "(b, z) \<in> R\<^sup>*"
  shows "(a, b) \<in> R\<^sup>* \<or> (b, a) \<in> R\<^sup>*"
  using assms single_valued_confluent [of "R\<inverse>" z a b]
  by (auto simp: forest_def rtrancl_converse)

lemma forest_sibling_unreachable:
  assumes f: "forest R" and "(x, a) \<in> R" and "(x, b) \<in> R" and "a \<noteq> b"
  shows "(a, b) \<notin> R\<^sup>*"
proof
  assume "(a, b) \<in> R\<^sup>*"
  then obtain y where "(a, y) \<in> R\<^sup>*" "(y, b) \<in> R" using assms(4) by (metis rtranclE)
  then have "(a, x) \<in> R\<^sup>*" using f assms(3) by (auto simp: forest_def single_valued_def)
  then have "(x, x) \<in> R\<^sup>+" using assms(2) by (meson rtrancl_into_trancl2)
  then show False using f by (auto simp: forest_def acyclic_def)
qed

lemma forest_siblings_disjoint:
  assumes "forest R" and "(x, a) \<in> R" and "(x, b) \<in> R" and "a \<noteq> b"
  shows "R\<^sup>* `` {a} \<inter> R\<^sup>* `` {b} = {}"
  using forest_sibling_unreachable [OF assms] forest_sibling_unreachable [of R x b a] assms
    forest_common_descendant [OF assms(1), of a _ b] by auto

lemma forest_root_not_below:
  assumes "forest R" and "(x, a) \<in> R"
  shows "x \<notin> R\<^sup>* `` {a}"
  using assms by (auto simp: forest_def acyclic_def dest: rtrancl_into_trancl2)

lemma forest_subset: "forest R \<Longrightarrow> S \<subseteq> R \<Longrightarrow> forest S"
  unfolding forest_def by (meson acyclic_subset converse_mono single_valued_subset)

lemma rtrancl_Image_unfold: "R\<^sup>* `` {x} = {x} \<union> R\<^sup>* `` (R `` {x})"
  by (auto elim: converse_rtranclE intro: converse_rtrancl_into_rtrancl)

text \<open>Removing the edges into \<open>D\<close> keeps every subtree that does not meet \<open>D\<close>.\<close>

lemma rtrancl_Image_cut:
  assumes "S = {(a, b) \<in> R. b \<notin> D}" and "R\<^sup>* `` {y} \<inter> D = {}"
  shows "S\<^sup>* `` {y} = R\<^sup>* `` {y}"
proof -
  have "S\<^sup>* \<subseteq> R\<^sup>*" using assms(1) by (intro rtrancl_mono) auto
  moreover have "(y, z) \<in> S\<^sup>*" if "(y, z) \<in> R\<^sup>*" for z
    using that
  proof (induction rule: rtrancl_induct)
    case (step a b)
    then have "b \<notin> D" using assms(2) by (auto intro: rtrancl_into_rtrancl)
    then show ?case using step assms(1) by (auto intro: rtrancl_into_rtrancl)
  qed simp
  ultimately show ?thesis by auto
qed

end
