(* ===== verification/Worker_States.thy ===== *)
theory Worker_States
  imports QPrelude
begin

text \<open>
  The state machines of \<open>shared/state_machines.py\<close> (worker lifecycle, worker runtime,
  organisation, escalation) and the status classification of \<open>shared/status.py\<close>.
  Each machine is the transition table of the source; its steps form a relation, and the
  locale \<open>transition_table\<close> gives the facts every table shares.
\<close>

section \<open>The transition tables\<close>

datatype lifecycle_status = Pending | Onboarding | Active | Offboarding | Suspended | Terminated

fun lifecycle_name :: "lifecycle_status \<Rightarrow> string" where
  "lifecycle_name Pending = ''pending''"
| "lifecycle_name Onboarding = ''onboarding''"
| "lifecycle_name Active = ''active''"
| "lifecycle_name Offboarding = ''offboarding''"
| "lifecycle_name Suspended = ''suspended''"
| "lifecycle_name Terminated = ''terminated''"

fun LIFECYCLE_TRANSITIONS :: "lifecycle_status \<Rightarrow> lifecycle_status list" where
  "LIFECYCLE_TRANSITIONS Pending = [Onboarding, Terminated]"
| "LIFECYCLE_TRANSITIONS Onboarding = [Active, Terminated]"
| "LIFECYCLE_TRANSITIONS Active = [Offboarding, Suspended, Terminated]"
| "LIFECYCLE_TRANSITIONS Offboarding = [Terminated]"
| "LIFECYCLE_TRANSITIONS Suspended = [Active, Terminated]"
| "LIFECYCLE_TRANSITIONS Terminated = []"

datatype runtime_status = Starting | Running | Idle | Stopped | Crashed

fun runtime_name :: "runtime_status \<Rightarrow> string" where
  "runtime_name Starting = ''starting''"
| "runtime_name Running = ''running''"
| "runtime_name Idle = ''idle''"
| "runtime_name Stopped = ''stopped''"
| "runtime_name Crashed = ''crashed''"

fun RUNTIME_TRANSITIONS :: "runtime_status \<Rightarrow> runtime_status list" where
  "RUNTIME_TRANSITIONS Starting = [Running, Crashed, Stopped]"
| "RUNTIME_TRANSITIONS Running = [Idle, Stopped, Crashed]"
| "RUNTIME_TRANSITIONS Idle = [Running, Stopped]"
| "RUNTIME_TRANSITIONS Stopped = [Starting]"
| "RUNTIME_TRANSITIONS Crashed = [Starting]"

definition SESSION_ALLOWED_LIFECYCLES :: "lifecycle_status list" where
  "SESSION_ALLOWED_LIFECYCLES = [Onboarding, Active]"

datatype org_status = OrgUninitialized | OrgInitialized | OrgRunning | OrgStopped

fun ORG_TRANSITIONS :: "org_status \<Rightarrow> org_status list" where
  "ORG_TRANSITIONS OrgUninitialized = [OrgInitialized]"
| "ORG_TRANSITIONS OrgInitialized = [OrgRunning]"
| "ORG_TRANSITIONS OrgRunning = [OrgStopped]"
| "ORG_TRANSITIONS OrgStopped = [OrgRunning]"

datatype escalation_status = Normal | IdleWarning | EscalatedPending | EscalatedResolved

fun ESCALATION_TRANSITIONS :: "escalation_status \<Rightarrow> escalation_status list" where
  "ESCALATION_TRANSITIONS Normal = [IdleWarning, EscalatedPending]"
| "ESCALATION_TRANSITIONS IdleWarning = [Normal, EscalatedPending]"
| "ESCALATION_TRANSITIONS EscalatedPending = [EscalatedResolved, Normal]"
| "ESCALATION_TRANSITIONS EscalatedResolved = [Normal]"

section \<open>Status classification\<close>

datatype status_group = WORKING | IDLE | STOPPED

definition classify_status :: "string option \<Rightarrow> status_group" where
  "classify_status s =
     (if s = Some ''starting'' \<or> s = Some ''running'' then WORKING
      else if s = Some ''idle'' then IDLE
      else STOPPED)"

definition is_working :: "string option \<Rightarrow> bool" where
  "is_working s = (classify_status s = WORKING)"

definition is_idle :: "string option \<Rightarrow> bool" where
  "is_idle s = (classify_status s = IDLE)"

definition has_session :: "string option \<Rightarrow> bool" where
  "has_session s = (s \<in> {Some ''starting'', Some ''running'', Some ''idle''})"

definition is_stopped :: "string option \<Rightarrow> bool" where
  "is_stopped s = (classify_status s = STOPPED)"

definition get_display_status :: "string option \<Rightarrow> string" where
  "get_display_status s =
     (if is_working s then ''Working'' else if is_idle s then ''Idle'' else ''Stopped'')"

lemmas status_defs = classify_status_def is_working_def is_idle_def has_session_def is_stopped_def
  get_display_status_def

section \<open>Facts shared by every table\<close>

text \<open>
  \<open>goal\<close> is a state every state can reach within the rank \<open>measure_to\<close>: each state other than
  the goal has a successor of smaller rank. The validator of the source accepts a target iff
  it is listed; a run is a chain of accepted targets.
\<close>

locale transition_table =
  fixes next_states :: "'s \<Rightarrow> 's list" and goal :: 's and rank :: "'s \<Rightarrow> nat"
  assumes progress: "s \<noteq> goal \<Longrightarrow> \<exists>t \<in> set (next_states s). rank t < rank s"
begin

inductive reaches :: "'s \<Rightarrow> 's \<Rightarrow> bool" where
  refl: "reaches s s"
| step: "reaches s t \<Longrightarrow> u \<in> set (next_states t) \<Longrightarrow> reaches s u"

fun run_ok :: "'s \<Rightarrow> 's list \<Rightarrow> bool" where
  "run_ok s [] = True"
| "run_ok s (t # ts) = (t \<in> set (next_states s) \<and> run_ok t ts)"

lemma reaches_trans: "reaches t u \<Longrightarrow> reaches s t \<Longrightarrow> reaches s u"
  by (induction rule: reaches.induct) (auto intro: reaches.step)

lemma reaches_goal: "reaches s goal"
proof (induction s rule: measure_induct_rule [where f = rank])
  case (less s)
  show ?case
  proof (cases "s = goal")
    case True
    then show ?thesis by (simp add: reaches.refl)
  next
    case False
    then obtain t where t: "t \<in> set (next_states s)" "rank t < rank s"
      using progress by blast
    then have "reaches t goal" by (intro less)
    moreover have "reaches s t" using t(1) by (blast intro: reaches.intros)
    ultimately show ?thesis by (rule reaches_trans)
  qed
qed

lemma run_ok_reaches: "run_ok s ts \<Longrightarrow> reaches s (last (s # ts))"
proof (induction ts arbitrary: s)
  case Nil
  then show ?case by (simp add: reaches.refl)
next
  case (Cons t ts)
  then have "reaches t (last (t # ts))" by simp
  moreover have "reaches s t"
    using Cons.prems by (auto intro: reaches.intros)
  ultimately show ?case by (auto intro: reaches_trans)
qed

lemma reaches_run: "reaches s t \<Longrightarrow> \<exists>ts. run_ok s ts \<and> last (s # ts) = t"
proof (induction rule: reaches.induct)
  case (refl s)
  show ?case by (rule exI [of _ "[]"]) simp
next
  case (step s t u)
  then obtain ts where ts: "run_ok s ts" "last (s # ts) = t" by blast
  have "run_ok s (ts @ [u])"
    using ts step.hyps(2)
  proof (induction ts arbitrary: s)
    case Nil
    then show ?case by simp
  next
    case (Cons a ts)
    then show ?case by (cases ts) auto
  qed
  then show ?case by (intro exI [of _ "ts @ [u]"]) simp
qed

lemma invariant_reaches:
  assumes "reaches s t" and "P s" and "\<And>a b. P a \<Longrightarrow> b \<in> set (next_states a) \<Longrightarrow> P b"
  shows "P t"
  using assms by (induction rule: reaches.induct) auto

end

fun lifecycle_rank :: "lifecycle_status \<Rightarrow> nat" where
  "lifecycle_rank Terminated = 0"
| "lifecycle_rank _ = 1"

fun runtime_rank :: "runtime_status \<Rightarrow> nat" where
  "runtime_rank Running = 0"
| "runtime_rank Starting = 1"
| "runtime_rank Idle = 1"
| "runtime_rank Stopped = 2"
| "runtime_rank Crashed = 2"

fun org_rank :: "org_status \<Rightarrow> nat" where
  "org_rank OrgRunning = 0"
| "org_rank OrgInitialized = 1"
| "org_rank OrgStopped = 1"
| "org_rank OrgUninitialized = 2"

fun escalation_rank :: "escalation_status \<Rightarrow> nat" where
  "escalation_rank Normal = 0"
| "escalation_rank _ = 1"

interpretation lifecycle: transition_table LIFECYCLE_TRANSITIONS Terminated lifecycle_rank
proof
  fix s assume "s \<noteq> Terminated"
  then show "\<exists>t \<in> set (LIFECYCLE_TRANSITIONS s). lifecycle_rank t < lifecycle_rank s"
    by (cases s) auto
qed

interpretation runtime: transition_table RUNTIME_TRANSITIONS Running runtime_rank
proof
  fix s assume "s \<noteq> Running"
  then show "\<exists>t \<in> set (RUNTIME_TRANSITIONS s). runtime_rank t < runtime_rank s"
    by (cases s) auto
qed

interpretation orgm: transition_table ORG_TRANSITIONS OrgRunning org_rank
proof
  fix s assume "s \<noteq> OrgRunning"
  then show "\<exists>t \<in> set (ORG_TRANSITIONS s). org_rank t < org_rank s"
    by (cases s) auto
qed

interpretation escal: transition_table ESCALATION_TRANSITIONS Normal escalation_rank
proof
  fix s assume "s \<noteq> Normal"
  then show "\<exists>t \<in> set (ESCALATION_TRANSITIONS s). escalation_rank t < escalation_rank s"
    by (cases s) auto
qed

section \<open>The worker lifecycle and runtime machines\<close>

lemma lifecycle_from_terminated: "lifecycle.reaches Terminated t \<Longrightarrow> t = Terminated"
  using lifecycle.invariant_reaches [of Terminated t "\<lambda>s. s = Terminated"] by auto

lemma lifecycle_never_pending:
  assumes "s \<noteq> Pending" and "lifecycle.reaches s t"
  shows "t \<noteq> Pending"
proof (rule lifecycle.invariant_reaches [OF assms(2), where P = "\<lambda>s. s \<noteq> Pending"])
  fix a b
  assume "b \<in> set (LIFECYCLE_TRANSITIONS a)"
  then show "b \<noteq> Pending" by (cases a) auto
qed (use assms(1) in simp)

lemma lifecycle_offboarding_final:
  assumes "lifecycle.reaches Offboarding t"
  shows "t = Offboarding \<or> t = Terminated"
proof (rule lifecycle.invariant_reaches [OF assms, where P = "\<lambda>s. s = Offboarding \<or> s = Terminated"])
  fix a b
  assume "a = Offboarding \<or> a = Terminated" "b \<in> set (LIFECYCLE_TRANSITIONS a)"
  then show "b = Offboarding \<or> b = Terminated" by auto
qed simp

text \<open>
  In the worker lifecycle machine of \<open>shared/state_machines.py\<close> every state can reach
  \<open>terminated\<close>, nothing is reachable from \<open>terminated\<close> but itself, no worker ever comes back to
  \<open>pending\<close>, and an offboarding worker can only stay or end terminated.
\<close>

theorem lifecycle_machine_shape:
  "lifecycle.reaches s Terminated
   \<and> (lifecycle.reaches Terminated t \<longleftrightarrow> t = Terminated)
   \<and> (lifecycle.reaches s Pending \<longleftrightarrow> s = Pending)
   \<and> (lifecycle.reaches Offboarding t \<longleftrightarrow> t \<in> {Offboarding, Terminated})"
proof (intro conjI iffI)
  show "lifecycle.reaches s Terminated" by (rule lifecycle.reaches_goal)
  show "lifecycle.reaches Terminated t \<Longrightarrow> t = Terminated"
    by (rule lifecycle_from_terminated)
  show "t = Terminated \<Longrightarrow> lifecycle.reaches Terminated t"
    by (simp add: lifecycle.reaches.refl)
  show "lifecycle.reaches s Pending \<Longrightarrow> s = Pending"
    using lifecycle_never_pending by blast
  show "s = Pending \<Longrightarrow> lifecycle.reaches s Pending"
    by (simp add: lifecycle.reaches.refl)
  show "lifecycle.reaches Offboarding t \<Longrightarrow> t \<in> {Offboarding, Terminated}"
    using lifecycle_offboarding_final by blast
  show "t \<in> {Offboarding, Terminated} \<Longrightarrow> lifecycle.reaches Offboarding t"
    by (auto intro: lifecycle.reaches.refl lifecycle.reaches_goal)
qed

lemma runtime_all_connected: "runtime.reaches s t"
proof -
  have "runtime.reaches Running t"
  proof (cases t)
    case Running
    then show ?thesis by (simp add: runtime.reaches.refl)
  next
    case Starting
    have "runtime.reaches Running Stopped" by (rule runtime.reaches.intros(2) [OF runtime.reaches.refl]) simp
    then have "runtime.reaches Running Starting" by (rule runtime.reaches.intros(2)) simp
    then show ?thesis by (simp add: Starting)
  qed (auto intro: runtime.reaches.intros(2) [OF runtime.reaches.refl])
  then show ?thesis using runtime.reaches_goal [of s] by (rule runtime.reaches_trans)
qed

text \<open>
  The runtime machine is strongly connected (a stopped or crashed session can always be
  started again and every status stays reachable), an idle session never crashes directly,
  and the only way into \<open>starting\<close> is from a dead session; the statuses with an open session
  are exactly those \<open>shared/status.py\<close> groups as working or idle.
\<close>

theorem runtime_machine_shape:
  "runtime.reaches s t
   \<and> Crashed \<notin> set (RUNTIME_TRANSITIONS Idle)
   \<and> (Starting \<in> set (RUNTIME_TRANSITIONS s) \<longleftrightarrow> classify_status (Some (runtime_name s)) = STOPPED)
   \<and> (has_session (Some (runtime_name s)) \<longleftrightarrow> classify_status (Some (runtime_name s)) \<noteq> STOPPED)"
  by (cases s) (simp_all add: runtime_all_connected status_defs)

text \<open>
  For every status text, known or not, exactly one of working, idle and stopped holds,
  \<open>has_session\<close> is working-or-idle, and a missing session counts as stopped.
\<close>

theorem status_classification_partition:
  "(is_working s \<and> \<not> is_idle s \<and> \<not> is_stopped s \<or>
    \<not> is_working s \<and> is_idle s \<and> \<not> is_stopped s \<or>
    \<not> is_working s \<and> \<not> is_idle s \<and> is_stopped s)
   \<and> has_session s = (is_working s \<or> is_idle s)
   \<and> is_stopped None
   \<and> (get_display_status s = ''Stopped'') = is_stopped s"
  by (auto simp: status_defs)

end
