(* ===== verification/Database.thy ===== *)
theory Database
  imports Worker_States
begin

text \<open>
  The tables of \<open>cli/core/db/schema.py\<close> the modelled components use, with their constraints and
  triggers. A row is a record with the columns of its table; a table is the list of its rows.
  The \<open>env\<close> record carries what a statement reads from outside the database: the Python clock
  (\<open>datetime.now\<close>), SQLite's \<open>CURRENT_TIMESTAMP\<close>, and whether the global event bus is set.
\<close>

section \<open>Rows\<close>

record worker_row =
  w_id :: ident
  w_name :: string
  w_role :: string
  w_team_id :: ident
  w_manager_id :: "ident option"
  w_status :: lifecycle_status
  w_skills :: "(string \<times> int) list"
  w_cost :: int
  w_hiring_authority_scope :: "json option"
  w_delegated_budget :: int
  w_max_reports :: int
  w_delegation_version :: int
  w_delegated_by :: "ident option"
  w_delegation_expires_at :: "datetime option"
  w_offboarding_ask_bead_id :: "ident option"
  w_preferred_provider :: "string option"
  w_tools :: "json option"
  w_created_at :: datetime
  w_updated_at :: datetime

record worker_state_row =
  ws_worker_id :: ident
  ws_runtime_status :: runtime_status
  ws_current_task_id :: "ident option"
  ws_pid :: "int option"
  ws_started_at :: "datetime option"
  ws_last_activity :: "datetime option"
  ws_tasks_completed :: int
  ws_tasks_failed :: int
  ws_updated_at :: datetime

record session_row =
  ss_id :: ident
  ss_worker_id :: ident
  ss_provider :: string
  ss_model :: "string option"
  ss_command :: string
  ss_args :: "string list option"
  ss_working_directory :: "string option"
  ss_tmux_session_name :: "string option"
  ss_pid :: "int option"
  ss_state :: runtime_status
  ss_state_version :: int
  ss_started_at :: "datetime option"
  ss_stopped_at :: "datetime option"
  ss_created_at :: datetime
  ss_updated_at :: datetime

record team_row =
  t_id :: ident
  t_name :: string
  t_parent_team_id :: "ident option"
  t_lead_id :: "ident option"
  t_channel_id :: "ident option"
  t_created_at :: datetime
  t_template_type :: "string option"
  t_ttl_hours :: "int option"
  t_ttl_started_at :: "datetime option"
  t_status :: string

record team_member_row =
  tm_team_id :: ident
  tm_worker_id :: ident
  tm_role :: string
  tm_joined_at :: datetime

datatype channel_type = TeamChannel | TopicChannel | DirectChannel

record channel_row =
  c_id :: ident
  c_name :: string
  c_type :: channel_type
  c_team_id :: "ident option"
  c_created_at :: datetime

record subscription_row =
  cs_channel_id :: ident
  cs_worker_id :: ident
  cs_subscribed_at :: datetime

record grant_row =
  g_id :: ident
  g_delegator_id :: ident
  g_delegate_id :: ident
  g_scope :: json
  g_budget_amount :: int
  g_granted_at :: datetime
  g_expires_at :: "datetime option"
  g_revoked_at :: "datetime option"
  g_revoked_by :: "ident option"
  g_revoke_reason :: "string option"
  g_granted_by_cli_user :: "string option"
  g_metadata :: "json option"

datatype audit_event =
    Granted | Revoked | Expired | CascadeRevoked | Modified | TerminatedRevoked

record audit_row =
  a_event_type :: audit_event
  a_delegator_id :: ident
  a_delegate_id :: ident
  a_delegation_grant_id :: "ident option"
  a_scope_after :: "json option"
  a_budget_after :: "int option"
  a_performed_by :: ident
  a_reason :: "string option"
  a_timestamp :: datetime

record status_change_row =
  sc_entity_type :: string
  sc_entity_id :: ident
  sc_old_status :: string
  sc_new_status :: string
  sc_changed_at :: datetime

record event_row =
  e_event_type :: string
  e_entity_type :: string
  e_entity_id :: ident
  e_payload :: json
  e_actor_id :: "ident option"
  e_created_at :: datetime

record pool_row =
  p_id :: ident
  p_name :: string
  p_total_credits :: credits
  p_period_start :: datetime
  p_period_end :: datetime
  p_created_at :: datetime
  p_updated_at :: datetime

record allocation_row =
  al_id :: ident
  al_worker_id :: ident
  al_source_worker_id :: "ident option"
  al_pool_id :: "ident option"
  al_allocated_credits :: credits
  al_spent_credits :: credits
  al_reserved_credits :: credits
  al_period_start :: datetime
  al_period_end :: datetime
  al_can_delegate :: bool
  al_delegation_limit :: "credits option"
  al_created_at :: datetime
  al_updated_at :: datetime

datatype txn_type =
    TxAllocation | TxSpend | TxReserve | TxRelease | TxTransferOut | TxTransferIn
  | TxAdjustment | TxRefund

record txn_row =
  tx_id :: ident
  tx_allocation_id :: ident
  tx_worker_id :: ident
  tx_type :: txn_type
  tx_amount :: credits
  tx_provider :: "string option"
  tx_model :: "string option"
  tx_input_tokens :: "int option"
  tx_output_tokens :: "int option"
  tx_reference_type :: "string option"
  tx_reference_id :: "string option"
  tx_created_at :: datetime

record balance_row =
  b_allocation_id :: ident
  b_worker_id :: ident
  b_allocated :: credits
  b_spent :: credits
  b_reserved :: credits
  b_available :: credits
  b_delegated :: credits
  b_period_start :: datetime
  b_period_end :: datetime
  b_updated_at :: datetime

record permission_row =
  pm_id :: ident
  pm_bead_id :: "ident option"
  pm_grantee_type :: string
  pm_grantee_id :: ident
  pm_level :: int
  pm_granted_by :: "ident option"
  pm_granted_at :: datetime

record effective_row =
  ep_worker_id :: ident
  ep_bead_id :: ident
  ep_level :: int
  ep_computed_at :: datetime

record permission_audit_row =
  pa_id :: ident
  pa_action :: string
  pa_bead_id :: ident
  pa_worker_id :: ident
  pa_level :: "int option"
  pa_details :: "json option"
  pa_created_at :: datetime

text \<open>A key result as the JSON column of an OKR holds it.\<close>

record key_result =
  kr_metric :: string
  kr_target :: rat
  kr_current :: rat
  kr_unit :: string

record okr_row =
  ok_id :: ident
  ok_title :: string
  ok_description :: "string option"
  ok_owner_worker_id :: ident
  ok_parent_okr_id :: "ident option"
  ok_status :: string
  ok_key_results :: "key_result list"
  ok_due_date :: "int option"
  ok_created_at :: datetime
  ok_updated_at :: datetime

record okr_link_row =
  ol_work_id :: ident
  ol_okr_id :: ident
  ol_link_type :: string
  ol_created_at :: datetime

text \<open>The single row \<open>default\<close> of \<open>org_state\<close>.\<close>

record org_state_row =
  os_status :: org_status
  os_ceo_worker_id :: "ident option"
  os_started_at :: "datetime option"
  os_stopped_at :: "datetime option"
  os_updated_at :: datetime

text \<open>Messages, the references they carry, activity signals and notifications.\<close>

record message_row =
  m_id :: ident
  m_channel_id :: ident
  m_thread_id :: "ident option"
  m_parent_id :: "ident option"
  m_from_worker_id :: ident
  m_content :: string
  m_priority :: int
  m_time_sensitivity :: string
  m_created_at :: datetime

record message_ref_row =
  mr_message_id :: ident
  mr_ref_type :: string
  mr_ref_id :: ident

record signal_row =
  sg_id :: int
  sg_worker_id :: ident
  sg_activity_type :: string
  sg_signal_strength :: int
  sg_metadata :: "json option"
  sg_created_at :: datetime

datatype notif_status = NPending | NRead | NActioned | NClosed

record notif_row =
  n_id :: ident
  n_worker_id :: ident
  n_message_id :: ident
  n_channel_id :: ident
  n_status :: notif_status
  n_priority :: int
  n_created_at :: datetime
  n_read_at :: "datetime option"
  n_actioned_at :: "datetime option"
  n_closed_at :: "datetime option"
  n_expires_at :: "datetime option"

record resume_row =
  re_id :: ident
  re_worker_id :: ident
  re_current_task_id :: "ident option"
  re_current_task_context :: json
  re_last_activity_at :: "datetime option"
  re_tasks_completed :: int
  re_tasks_failed :: int
  re_session_provider :: "string option"
  re_session_model :: "string option"
  re_working_directory :: "string option"
  re_wrapup_requested_at :: "datetime option"
  re_wrapup_acked_at :: "datetime option"
  re_ack_message :: "string option"
  re_created_at :: datetime
  re_expires_at :: datetime
  re_consumed_at :: "datetime option"

record db =
  workers :: "worker_row list"
  worker_states :: "worker_state_row list"
  teams :: "team_row list"
  team_members :: "team_member_row list"
  channels :: "channel_row list"
  subscriptions :: "subscription_row list"
  grants :: "grant_row list"
  audits :: "audit_row list"
  status_changes :: "status_change_row list"
  events :: "event_row list"
  pools :: "pool_row list"
  allocations :: "allocation_row list"
  txns :: "txn_row list"
  balances :: "balance_row list"
  sessions :: "session_row list"
  permissions :: "permission_row list"
  effective_permissions :: "effective_row list"
  permission_audits :: "permission_audit_row list"
  okrs :: "okr_row list"
  okr_links :: "okr_link_row list"
  org_state :: "org_state_row option"
  messages :: "message_row list"
  message_refs :: "message_ref_row list"
  activity_signals :: "signal_row list"
  notification_beads :: "notif_row list"
  worker_resume_states :: "resume_row list"

definition empty_db :: db where
  "empty_db = \<lparr>workers = [], worker_states = [], teams = [], team_members = [], channels = [],
     subscriptions = [], grants = [], audits = [], status_changes = [], events = [],
     pools = [], allocations = [], txns = [], balances = [], sessions = [],
     permissions = [], effective_permissions = [], permission_audits = [], okrs = [], okr_links = [],
     org_state = None, messages = [], message_refs = [], activity_signals = [], notification_beads = [],
     worker_resume_states = []\<rparr>"

record env =
  now :: datetime
  current_timestamp :: datetime
  bus_set :: bool

section \<open>Keys and references\<close>

definition worker_exists :: "db \<Rightarrow> ident \<Rightarrow> bool" where
  "worker_exists d i = (i \<in> w_id ` set (workers d))"

definition team_exists :: "db \<Rightarrow> ident \<Rightarrow> bool" where
  "team_exists d i = (i \<in> t_id ` set (teams d))"

definition channel_exists :: "db \<Rightarrow> ident \<Rightarrow> bool" where
  "channel_exists d i = (i \<in> c_id ` set (channels d))"

section \<open>Workers: insertion and the triggers on status changes\<close>

text \<open>
  \<open>INSERT INTO workers\<close>: the primary key, the cost range and the two foreign keys of the
  schema. A worker may name itself as manager, because SQLite checks the key after the row
  is in.
\<close>

definition insert_worker_row :: "worker_row \<Rightarrow> db \<Rightarrow> (db, unit) outcome" where
  "insert_worker_row r d =
     (if worker_exists d (w_id r) then raise (IntegrityError ''workers.id'') d
      else if w_cost r < 0 \<or> 100 < w_cost r then raise (IntegrityError ''workers.cost'') d
      else if \<not> team_exists d (w_team_id r) then raise (IntegrityError ''workers.team_id'') d
      else if (case w_manager_id r of None \<Rightarrow> False
               | Some m \<Rightarrow> m \<noteq> w_id r \<and> \<not> worker_exists d m)
           then raise (IntegrityError ''workers.manager_id'') d
      else ok () (d\<lparr>workers := workers d @ [r]\<rparr>))"

text \<open>The trigger \<open>log_delegation_revoke\<close>: one audit row per grant that becomes revoked.\<close>

definition revoke_event_type :: "string option \<Rightarrow> audit_event" where
  "revoke_event_type reason =
     (case reason of None \<Rightarrow> Revoked
      | Some s \<Rightarrow>
          if take 7 (ascii_lower s) = ''cascade'' then CascadeRevoked
          else if contains_str ''terminated'' (ascii_lower s) then TerminatedRevoked
          else Revoked)"

definition log_delegation_revoke ::
  "datetime \<Rightarrow> ident \<Rightarrow> string option \<Rightarrow> grant_row \<Rightarrow> audit_row" where
  "log_delegation_revoke ts by reason g =
     \<lparr>a_event_type = revoke_event_type reason, a_delegator_id = g_delegator_id g,
      a_delegate_id = g_delegate_id g, a_delegation_grant_id = Some (g_id g),
      a_scope_after = None, a_budget_after = None, a_performed_by = by, a_reason = reason,
      a_timestamp = ts\<rparr>"

definition mark_revoked :: "datetime \<Rightarrow> ident \<Rightarrow> string option \<Rightarrow> grant_row \<Rightarrow> grant_row" where
  "mark_revoked ts by reason g =
     g\<lparr>g_revoked_at := Some ts, g_revoked_by := Some by, g_revoke_reason := reason\<rparr>"

text \<open>\<open>UPDATE delegation_grants SET revoked_at, revoked_by, revoke_reason WHERE p\<close>.\<close>

definition revoke_grants_where ::
  "(grant_row \<Rightarrow> bool) \<Rightarrow> datetime \<Rightarrow> ident \<Rightarrow> string option \<Rightarrow> db \<Rightarrow> db" where
  "revoke_grants_where p ts by reason d =
     d\<lparr>grants := update_where p (mark_revoked ts by reason) (grants d),
       audits := audits d @
         map (log_delegation_revoke ts by reason)
           (filter (\<lambda>g. p g \<and> g_revoked_at g = None) (grants d))\<rparr>"

text \<open>The statement that clears the delegated authority columns of one worker.\<close>

definition clear_row_authority :: "datetime \<Rightarrow> worker_row \<Rightarrow> worker_row" where
  "clear_row_authority ts r =
     r\<lparr>w_hiring_authority_scope := None, w_delegated_budget := 0, w_delegated_by := None,
       w_delegation_expires_at := None, w_delegation_version := w_delegation_version r + 1,
       w_updated_at := ts\<rparr>"

definition clear_authority :: "datetime \<Rightarrow> ident \<Rightarrow> db \<Rightarrow> db" where
  "clear_authority ts i d =
     d\<lparr>workers := update_where (\<lambda>r. w_id r = i) (clear_row_authority ts) (workers d)\<rparr>"

text \<open>The trigger \<open>revoke_delegations_on_termination\<close>.\<close>

definition revoke_delegations_on_termination :: "env \<Rightarrow> ident \<Rightarrow> db \<Rightarrow> db" where
  "revoke_delegations_on_termination e i d =
     (let ts = current_timestamp e;
          d1 = revoke_grants_where (\<lambda>g. g_delegator_id g = i \<and> g_revoked_at g = None)
                 ts ''system'' (Some ''delegator terminated'') d;
          d2 = revoke_grants_where (\<lambda>g. g_delegate_id g = i \<and> g_revoked_at g = None)
                 ts ''system'' (Some ''delegate terminated'') d1
      in clear_authority ts i d2)"

text \<open>The triggers \<open>log_worker_status_change\<close> and \<open>log_worker_runtime_status_change\<close>.\<close>

definition log_status_change ::
  "env \<Rightarrow> string \<Rightarrow> ident \<Rightarrow> string \<Rightarrow> string \<Rightarrow> db \<Rightarrow> db" where
  "log_status_change e kind i old new d =
     (if old = new then d
      else d\<lparr>status_changes := status_changes d @
        [\<lparr>sc_entity_type = kind, sc_entity_id = i, sc_old_status = old, sc_new_status = new,
          sc_changed_at = current_timestamp e\<rparr>]\<rparr>)"

text \<open>
  \<open>UPDATE workers SET status = ?, updated_at = ? WHERE id = ?\<close> with both triggers. The id is
  the primary key, so at most one row changes; when there is none nothing happens.
\<close>

definition set_worker_status_row :: "env \<Rightarrow> ident \<Rightarrow> lifecycle_status \<Rightarrow> db \<Rightarrow> db" where
  "set_worker_status_row e i st d =
     (case fetchone (\<lambda>r. w_id r = i) (workers d) of
        None \<Rightarrow> d
      | Some r \<Rightarrow>
          let d1 = d\<lparr>workers := update_where (\<lambda>r. w_id r = i)
                       (\<lambda>r. r\<lparr>w_status := st, w_updated_at := now e\<rparr>) (workers d)\<rparr>;
              d2 = log_status_change e ''worker'' i (lifecycle_name (w_status r)) (lifecycle_name st) d1
          in if st = Terminated \<and> w_status r \<noteq> Terminated
             then revoke_delegations_on_termination e i d2 else d2)"

section \<open>Delegation grants: insertion with its audit trigger\<close>

definition log_delegation_grant :: "grant_row \<Rightarrow> audit_row" where
  "log_delegation_grant g =
     \<lparr>a_event_type = Granted, a_delegator_id = g_delegator_id g, a_delegate_id = g_delegate_id g,
      a_delegation_grant_id = Some (g_id g), a_scope_after = Some (g_scope g),
      a_budget_after = Some (g_budget_amount g), a_performed_by = g_delegator_id g,
      a_reason = Some ''delegation granted'', a_timestamp = g_granted_at g\<rparr>"

definition insert_grant_row :: "grant_row \<Rightarrow> db \<Rightarrow> (db, unit) outcome" where
  "insert_grant_row g d =
     (if g_id g \<in> g_id ` set (grants d) then raise (IntegrityError ''delegation_grants.id'') d
      else if g_delegator_id g = g_delegate_id g
        then raise (IntegrityError ''delegation_grants.self'') d
      else if g_budget_amount g < 0 then raise (IntegrityError ''delegation_grants.budget'') d
      else if \<not> worker_exists d (g_delegator_id g) \<or> \<not> worker_exists d (g_delegate_id g)
        then raise (IntegrityError ''delegation_grants.worker'') d
      else ok () (d\<lparr>grants := grants d @ [g], audits := audits d @ [log_delegation_grant g]\<rparr>))"

text \<open>
  \<open>DELETE FROM delegation_grants WHERE id = ?\<close>. The audit table references grants with
  \<open>ON DELETE SET NULL\<close>; nulling the reference is an update of an audit row, which the trigger
  \<open>prevent_delegation_audit_modification\<close> aborts. So a grant with an audit row cannot be deleted.
\<close>

definition delete_grant_row :: "ident \<Rightarrow> db \<Rightarrow> (db, unit) outcome" where
  "delete_grant_row i d =
     (if i \<in> g_id ` set (grants d) \<and> (\<exists>a \<in> set (audits d). a_delegation_grant_id a = Some i)
      then raise (IntegrityError ''Delegation audit records are immutable'') d
      else ok () (d\<lparr>grants := delete_where (\<lambda>g. g_id g = i) (grants d)\<rparr>))"

section \<open>Events\<close>

definition ENTITY_TYPES :: "string list" where
  "ENTITY_TYPES = [''org'', ''worker'', ''session'', ''team'', ''okr'', ''message'', ''work'',
     ''offboarding'', ''budget'', ''delegation'']"

text \<open>
  \<open>EventBus.publish\<close>: \<open>Event.__post_init__\<close> validates the entity type, then the event is
  persisted. Handlers subscribed by other code run afterwards; their errors are swallowed.
\<close>

definition bus_publish ::
  "env \<Rightarrow> string \<Rightarrow> string \<Rightarrow> ident \<Rightarrow> json \<Rightarrow> ident option \<Rightarrow> db \<Rightarrow> (db, unit) outcome" where
  "bus_publish e ty ety eid payload actor d =
     (if ety \<notin> set ENTITY_TYPES then raise (ValueError ''Invalid entity_type'') d
      else ok () (d\<lparr>events := events d @
        [\<lparr>e_event_type = ty, e_entity_type = ety, e_entity_id = eid, e_payload = payload,
          e_actor_id = actor, e_created_at = now e\<rparr>]\<rparr>))"

section \<open>Well-formed databases\<close>

text \<open>
  What the constraints of the schema keep true: primary keys are unique, costs are in range,
  the foreign keys of workers, grants and audit rows hold, no grant is a self-delegation and no
  delegated budget is negative.
\<close>

definition grant_ok :: "db \<Rightarrow> grant_row \<Rightarrow> bool" where
  "grant_ok d g = (g_delegator_id g \<noteq> g_delegate_id g \<and> 0 \<le> g_budget_amount g
     \<and> worker_exists d (g_delegator_id g) \<and> worker_exists d (g_delegate_id g))"

definition worker_ok :: "db \<Rightarrow> worker_row \<Rightarrow> bool" where
  "worker_ok d r = (0 \<le> w_cost r \<and> w_cost r \<le> 100 \<and> team_exists d (w_team_id r)
     \<and> (case w_manager_id r of None \<Rightarrow> True | Some m \<Rightarrow> worker_exists d m))"

definition db_wf :: "db \<Rightarrow> bool" where
  "db_wf d = (distinct (map w_id (workers d)) \<and> distinct (map g_id (grants d))
     \<and> (\<forall>r \<in> set (workers d). worker_ok d r) \<and> (\<forall>g \<in> set (grants d). grant_ok d g)
     \<and> (\<forall>g \<in> set (grants d). \<exists>a \<in> set (audits d). a_delegation_grant_id a = Some (g_id g)))"

lemma db_wfI:
  assumes "distinct (map w_id (workers d))" and "distinct (map g_id (grants d))"
    and "\<And>r. r \<in> set (workers d) \<Longrightarrow> worker_ok d r"
    and "\<And>g. g \<in> set (grants d) \<Longrightarrow> grant_ok d g"
    and "\<And>g. g \<in> set (grants d) \<Longrightarrow> \<exists>a \<in> set (audits d). a_delegation_grant_id a = Some (g_id g)"
  shows "db_wf d"
  using assms by (auto simp: db_wf_def)

subsection \<open>Updates of single tables\<close>

text \<open>
  A statement that rewrites rows of \<open>workers\<close> without touching the id, the team, the manager
  or the cost keeps the database well-formed; so does one that rewrites grants without touching
  their ids, parties and budget and only appends to the audit log.
\<close>

definition worker_upd_ok :: "(worker_row \<Rightarrow> worker_row) \<Rightarrow> bool" where
  "worker_upd_ok f = (\<forall>r. w_id (f r) = w_id r \<and> w_team_id (f r) = w_team_id r
     \<and> w_manager_id (f r) = w_manager_id r \<and> w_cost (f r) = w_cost r)"

definition grant_upd_ok :: "(grant_row \<Rightarrow> grant_row) \<Rightarrow> bool" where
  "grant_upd_ok f = (\<forall>g. g_id (f g) = g_id g \<and> g_delegator_id (f g) = g_delegator_id g
     \<and> g_delegate_id (f g) = g_delegate_id g \<and> g_budget_amount (f g) = g_budget_amount g)"

lemma worker_ids_update:
  assumes "worker_upd_ok f"
  shows "map w_id (update_where p f rows) = map w_id rows"
  using assms by (induction rows) (auto simp: worker_upd_ok_def)

lemma grant_ids_update:
  assumes "grant_upd_ok f"
  shows "map g_id (update_where p f rows) = map g_id rows"
  using assms by (induction rows) (auto simp: grant_upd_ok_def)

lemma image_w_id: "w_id ` set rows = set (map w_id rows)"
  by simp

lemma worker_exists_update [simp]:
  assumes "worker_upd_ok f"
  shows "worker_exists (d\<lparr>workers := update_where p f (workers d)\<rparr>) i = worker_exists d i"
  unfolding worker_exists_def image_w_id by (simp add: worker_ids_update [OF assms])

lemma wf_workers_update:
  assumes wf: "db_wf d" and f: "worker_upd_ok f"
  shows "db_wf (d\<lparr>workers := update_where p f (workers d)\<rparr>)" (is "db_wf ?d")
proof (rule db_wfI)
  show "distinct (map w_id (workers ?d))"
    using wf by (simp add: db_wf_def worker_ids_update [OF f])
  show "distinct (map g_id (grants ?d))" using wf by (simp add: db_wf_def)
next
  fix r assume "r \<in> set (workers ?d)"
  then obtain r0 where r0: "r0 \<in> set (workers d)" and r: "r = (if p r0 then f r0 else r0)"
    by (auto simp: update_where_set)
  have "worker_ok d r0" using wf r0 by (auto simp: db_wf_def)
  moreover have "w_team_id r = w_team_id r0" "w_manager_id r = w_manager_id r0" "w_cost r = w_cost r0"
    using f by (auto simp: r worker_upd_ok_def)
  ultimately show "worker_ok ?d r"
    by (auto simp: worker_ok_def team_exists_def worker_exists_update [OF f] split: option.splits)
next
  fix g assume "g \<in> set (grants ?d)"
  then have g: "g \<in> set (grants d)" by simp
  then show "grant_ok ?d g"
    using wf by (auto simp: db_wf_def grant_ok_def worker_exists_update [OF f])
  from g show "\<exists>a \<in> set (audits ?d). a_delegation_grant_id a = Some (g_id g)"
    using wf by (simp add: db_wf_def)
qed

lemma wf_grants_update:
  assumes wf: "db_wf d" and f: "grant_upd_ok f"
  shows "db_wf (d\<lparr>grants := update_where p f (grants d), audits := audits d @ new\<rparr>)" (is "db_wf ?d")
proof (rule db_wfI)
  show "distinct (map w_id (workers ?d))" using wf by (simp add: db_wf_def)
  show "distinct (map g_id (grants ?d))"
    using wf by (simp add: db_wf_def grant_ids_update [OF f])
next
  fix r assume "r \<in> set (workers ?d)"
  then show "worker_ok ?d r"
    using wf by (auto simp: db_wf_def worker_ok_def worker_exists_def team_exists_def split: option.splits)
next
  fix g assume "g \<in> set (grants ?d)"
  then obtain g0 where g0: "g0 \<in> set (grants d)" and g: "g = (if p g0 then f g0 else g0)"
    by (auto simp: update_where_set)
  have same: "g_id g = g_id g0" "g_delegator_id g = g_delegator_id g0"
    "g_delegate_id g = g_delegate_id g0" "g_budget_amount g = g_budget_amount g0"
    using f by (auto simp: g grant_upd_ok_def)
  have "grant_ok d g0" using wf g0 by (auto simp: db_wf_def)
  then show "grant_ok ?d g" by (auto simp: grant_ok_def same worker_exists_def)
  have "\<exists>a \<in> set (audits d). a_delegation_grant_id a = Some (g_id g0)"
    using wf g0 by (auto simp: db_wf_def)
  then show "\<exists>a \<in> set (audits ?d). a_delegation_grant_id a = Some (g_id g)"
    by (auto simp: same)
qed

lemma mark_revoked_ok [simp]: "grant_upd_ok (mark_revoked ts by reason)"
  by (simp add: grant_upd_ok_def mark_revoked_def)

lemma clear_row_authority_ok [simp]: "worker_upd_ok (clear_row_authority ts)"
  by (simp add: worker_upd_ok_def clear_row_authority_def)

lemma wf_revoke_grants_where: "db_wf d \<Longrightarrow> db_wf (revoke_grants_where p ts by reason d)"
  by (simp add: revoke_grants_where_def wf_grants_update)

lemma wf_clear_authority: "db_wf d \<Longrightarrow> db_wf (clear_authority ts i d)"
  by (simp add: clear_authority_def wf_workers_update)

lemma db_wf_unrelated [simp]:
  "db_wf (d\<lparr>status_changes := x1\<rparr>) = db_wf d"
  "db_wf (d\<lparr>events := x2\<rparr>) = db_wf d"
  "db_wf (d\<lparr>team_members := x3\<rparr>) = db_wf d"
  "db_wf (d\<lparr>subscriptions := x4\<rparr>) = db_wf d"
  "db_wf (d\<lparr>worker_states := x5\<rparr>) = db_wf d"
  "db_wf (d\<lparr>channels := x6\<rparr>) = db_wf d"
  "db_wf (d\<lparr>pools := x7\<rparr>) = db_wf d"
  "db_wf (d\<lparr>allocations := x8\<rparr>) = db_wf d"
  "db_wf (d\<lparr>txns := x9\<rparr>) = db_wf d"
  "db_wf (d\<lparr>balances := x10\<rparr>) = db_wf d"
  "db_wf (d\<lparr>sessions := x11\<rparr>) = db_wf d"
  "db_wf (d\<lparr>permissions := x12\<rparr>) = db_wf d"
  "db_wf (d\<lparr>effective_permissions := x13\<rparr>) = db_wf d"
  "db_wf (d\<lparr>permission_audits := x14\<rparr>) = db_wf d"
  "db_wf (d\<lparr>okrs := x15\<rparr>) = db_wf d"
  "db_wf (d\<lparr>okr_links := x16\<rparr>) = db_wf d"
  "db_wf (d\<lparr>org_state := x17\<rparr>) = db_wf d"
  by (simp_all add: db_wf_def worker_ok_def grant_ok_def worker_exists_def team_exists_def
        cong: option.case_cong)

lemma wf_log_status_change: "db_wf (log_status_change e k i old new d) = db_wf d"
  by (simp add: log_status_change_def)

lemma wf_set_worker_status_row:
  assumes "db_wf d"
  shows "db_wf (set_worker_status_row e i st d)"
proof -
  have "worker_upd_ok (\<lambda>r. r\<lparr>w_status := st, w_updated_at := now e\<rparr>)"
    by (simp add: worker_upd_ok_def)
  then show ?thesis using assms
    by (auto simp: set_worker_status_row_def Let_def revoke_delegations_on_termination_def
        wf_log_status_change
        intro!: wf_workers_update wf_clear_authority wf_revoke_grants_where split: option.splits)
qed

end
