(* ===== verification/Worker_Queries.thy ===== *)
theory Worker_Queries
  imports Database
begin

text \<open>
  \<open>cli/core/queries/worker.py\<close>: creating, looking up and updating workers and their runtime
  state. Functions that read the clock take \<open>env\<close>; the id \<open>generate_id\<close> would draw is the argument
  \<open>fresh\<close>. Each function that writes returns its outcome with the database it leaves.
\<close>

section \<open>Data\<close>

record worker =
  wk_id :: ident
  wk_name :: string
  wk_role :: string
  wk_team_id :: ident
  wk_manager_id :: "ident option"
  wk_status :: lifecycle_status
  wk_skills :: "(string \<times> int) list"
  wk_cost :: int
  wk_hiring_authority_scope :: "json option"
  wk_delegated_budget :: int
  wk_max_reports :: int
  wk_preferred_provider :: "string option"
  wk_created_at :: datetime
  wk_updated_at :: datetime

definition row_to_worker :: "worker_row \<Rightarrow> worker" where
  "row_to_worker r =
     \<lparr>wk_id = w_id r, wk_name = w_name r, wk_role = w_role r, wk_team_id = w_team_id r,
      wk_manager_id = w_manager_id r, wk_status = w_status r, wk_skills = w_skills r,
      wk_cost = w_cost r, wk_hiring_authority_scope = w_hiring_authority_scope r,
      wk_delegated_budget = w_delegated_budget r, wk_max_reports = w_max_reports r,
      wk_preferred_provider = w_preferred_provider r, wk_created_at = w_created_at r,
      wk_updated_at = w_updated_at r\<rparr>"

record new_worker =
  nw_name :: string
  nw_role :: string
  nw_team_id :: ident
  nw_cost :: int
  nw_manager_id :: "ident option"
  nw_skills :: "(string \<times> int) list option"
  nw_worker_id :: "ident option"
  nw_hiring_authority_scope :: "json option"
  nw_delegated_budget :: int
  nw_max_reports :: int
  nw_preferred_provider :: "string option"

section \<open>Creating and finding workers\<close>

definition create_worker :: "env \<Rightarrow> ident \<Rightarrow> new_worker \<Rightarrow> db \<Rightarrow> (db, worker) outcome" where
  "create_worker e fresh a d =
     (let i = (case nw_worker_id a of None \<Rightarrow> fresh | Some i \<Rightarrow> i);
          sk = (case nw_skills a of None \<Rightarrow> [] | Some s \<Rightarrow> s);
          r = \<lparr>w_id = i, w_name = nw_name a, w_role = nw_role a, w_team_id = nw_team_id a,
               w_manager_id = nw_manager_id a, w_status = Pending, w_skills = sk,
               w_cost = nw_cost a, w_hiring_authority_scope = nw_hiring_authority_scope a,
               w_delegated_budget = nw_delegated_budget a, w_max_reports = nw_max_reports a,
               w_delegation_version = 0, w_delegated_by = None, w_delegation_expires_at = None,
               w_offboarding_ask_bead_id = None, w_preferred_provider = nw_preferred_provider a,
               w_tools = None, w_created_at = now e, w_updated_at = now e\<rparr>
      in and_then (insert_worker_row r d) (\<lambda>_ d1. ok (row_to_worker r) d1))"

definition get_worker :: "db \<Rightarrow> ident \<Rightarrow> worker option" where
  "get_worker d i = map_option row_to_worker (fetchone (\<lambda>r. w_id r = i) (workers d))"

definition get_worker_by_name :: "db \<Rightarrow> string \<Rightarrow> worker option" where
  "get_worker_by_name d nm =
     map_option row_to_worker (fetchone (\<lambda>r. ascii_lower (w_name r) = ascii_lower nm) (workers d))"

definition get_workers_by_role :: "db \<Rightarrow> string \<Rightarrow> worker list" where
  "get_workers_by_role d role =
     map row_to_worker (fetchall (\<lambda>r. ascii_lower (w_role r) = ascii_lower role) (workers d))"

definition resolve_worker :: "db \<Rightarrow> string \<Rightarrow> worker option" where
  "resolve_worker d sel =
     (case get_worker d sel of Some w \<Rightarrow> Some w
      | None \<Rightarrow>
          (case get_worker_by_name d sel of Some w \<Rightarrow> Some w
           | None \<Rightarrow> (case get_workers_by_role d sel of [w] \<Rightarrow> Some w | _ \<Rightarrow> None)))"

definition get_workers_by_status :: "db \<Rightarrow> lifecycle_status \<Rightarrow> worker list" where
  "get_workers_by_status d st = map row_to_worker (fetchall (\<lambda>r. w_status r = st) (workers d))"

definition get_workers_by_manager :: "db \<Rightarrow> ident \<Rightarrow> worker list" where
  "get_workers_by_manager d m =
     map row_to_worker (fetchall (\<lambda>r. w_manager_id r = Some m) (workers d))"

definition get_team_workers :: "db \<Rightarrow> ident \<Rightarrow> worker list" where
  "get_team_workers d t = map row_to_worker (fetchall (\<lambda>r. w_team_id r = t) (workers d))"

definition is_worker_manager :: "db \<Rightarrow> ident \<Rightarrow> bool" where
  "is_worker_manager d i = (fetchone (\<lambda>r. w_manager_id r = Some i) (workers d) \<noteq> None)"

definition get_root_worker :: "db \<Rightarrow> worker option" where
  "get_root_worker d =
     (case fetchone (\<lambda>r. w_manager_id r = None \<and> w_status r \<noteq> Terminated) (workers d) of
        Some r \<Rightarrow> Some (row_to_worker r)
      | None \<Rightarrow> map_option row_to_worker (fetchone (\<lambda>r. w_manager_id r = None) (workers d)))"

definition get_all_workers_for_topology ::
  "db \<Rightarrow> (ident \<times> string \<times> ident option \<times> string) list" where
  "get_all_workers_for_topology d =
     map (\<lambda>r. (w_id r, w_name r, w_manager_id r, w_role r)) (workers d)"

section \<open>Lifecycle status\<close>

definition status_payload :: "env \<Rightarrow> string \<Rightarrow> string \<Rightarrow> ident \<Rightarrow> json" where
  "status_payload e old new i =
     JObj [(''old_status'', JStr old), (''new_status'', JStr new), (''worker_id'', JStr i),
           (''changed_at'', JInt (now e))]"

definition update_worker_status ::
  "env \<Rightarrow> ident \<Rightarrow> lifecycle_status \<Rightarrow> db \<Rightarrow> (db, unit) outcome" where
  "update_worker_status e i st d =
     (let old = map_option w_status (fetchone (\<lambda>r. w_id r = i) (workers d));
          d1 = set_worker_status_row e i st d
      in case old of
           Some os \<Rightarrow>
             if os \<noteq> st \<and> bus_set e
             then bus_publish e ''worker.status_changed'' ''worker'' i
                    (status_payload e (lifecycle_name os) (lifecycle_name st) i) None d1
             else ok () d1
         | None \<Rightarrow> ok () d1)"

section \<open>Runtime state\<close>

definition insert_worker_state_row :: "worker_state_row \<Rightarrow> db \<Rightarrow> (db, unit) outcome" where
  "insert_worker_state_row s d =
     (if ws_worker_id s \<in> ws_worker_id ` set (worker_states d)
        then raise (IntegrityError ''worker_state.worker_id'') d
      else if \<not> worker_exists d (ws_worker_id s)
        then raise (IntegrityError ''worker_state.worker_id fk'') d
      else ok () (d\<lparr>worker_states := worker_states d @ [s]\<rparr>))"

definition create_worker_state ::
  "env \<Rightarrow> ident \<Rightarrow> int option \<Rightarrow> db \<Rightarrow> (db, worker_state_row) outcome" where
  "create_worker_state e i pid d =
     (let s = \<lparr>ws_worker_id = i, ws_runtime_status = Starting, ws_current_task_id = None,
               ws_pid = pid, ws_started_at = Some (now e), ws_last_activity = Some (now e),
               ws_tasks_completed = 0, ws_tasks_failed = 0, ws_updated_at = now e\<rparr>
      in and_then (insert_worker_state_row s d) (\<lambda>_ d1. ok s d1))"

definition get_worker_state :: "db \<Rightarrow> ident \<Rightarrow> worker_state_row option" where
  "get_worker_state d i = fetchone (\<lambda>s. ws_worker_id s = i) (worker_states d)"

definition set_runtime_row ::
  "env \<Rightarrow> runtime_status \<Rightarrow> ident option \<Rightarrow> worker_state_row \<Rightarrow> worker_state_row" where
  "set_runtime_row e rs task s =
     s\<lparr>ws_runtime_status := rs, ws_current_task_id := task, ws_last_activity := Some (now e),
       ws_updated_at := now e\<rparr>"

definition update_worker_runtime_status ::
  "env \<Rightarrow> ident \<Rightarrow> runtime_status \<Rightarrow> ident option \<Rightarrow> db \<Rightarrow> (db, unit) outcome" where
  "update_worker_runtime_status e i rs task d =
     (let publish = (\<lambda>old d. if bus_set e \<and> old \<noteq> Some rs
            then bus_publish e ''worker.runtime_status_changed'' ''worker'' i
                   (status_payload e (case old of None \<Rightarrow> ''none'' | Some os \<Rightarrow> runtime_name os)
                      (runtime_name rs) i) None d
            else ok () d)
      in case get_worker_state d i of
           Some s \<Rightarrow>
             publish (Some (ws_runtime_status s))
               (log_status_change e ''worker_state'' i (runtime_name (ws_runtime_status s)) (runtime_name rs)
                  (d\<lparr>worker_states := update_where (\<lambda>s. ws_worker_id s = i)
                        (set_runtime_row e rs task) (worker_states d)\<rparr>))
         | None \<Rightarrow>
             and_then (insert_worker_state_row
                 \<lparr>ws_worker_id = i, ws_runtime_status = rs, ws_current_task_id = task,
                  ws_pid = None, ws_started_at = Some (now e), ws_last_activity = Some (now e),
                  ws_tasks_completed = 0, ws_tasks_failed = 0, ws_updated_at = now e\<rparr> d)
               (\<lambda>_ d1. publish None d1))"

definition record_worker_heartbeat :: "env \<Rightarrow> ident \<Rightarrow> db \<Rightarrow> db" where
  "record_worker_heartbeat e i d =
     d\<lparr>worker_states := update_where (\<lambda>s. ws_worker_id s = i)
         (\<lambda>s. s\<lparr>ws_last_activity := Some (now e), ws_updated_at := now e\<rparr>) (worker_states d)\<rparr>"

definition increment_worker_task_count :: "env \<Rightarrow> ident \<Rightarrow> bool \<Rightarrow> db \<Rightarrow> db" where
  "increment_worker_task_count e i completed d =
     (if completed
      then d\<lparr>worker_states := update_where (\<lambda>s. ws_worker_id s = i)
             (\<lambda>s. s\<lparr>ws_tasks_completed := ws_tasks_completed s + 1, ws_updated_at := now e\<rparr>)
             (worker_states d)\<rparr>
      else d\<lparr>worker_states := update_where (\<lambda>s. ws_worker_id s = i)
             (\<lambda>s. s\<lparr>ws_tasks_failed := ws_tasks_failed s + 1, ws_updated_at := now e\<rparr>)
             (worker_states d)\<rparr>)"

definition get_workers_by_runtime_status :: "db \<Rightarrow> runtime_status \<Rightarrow> worker_state_row list" where
  "get_workers_by_runtime_status d rs = fetchall (\<lambda>s. ws_runtime_status s = rs) (worker_states d)"

section \<open>Providers, tools and continuation context\<close>

definition update_worker_preferred_provider :: "env \<Rightarrow> ident \<Rightarrow> string option \<Rightarrow> db \<Rightarrow> db" where
  "update_worker_preferred_provider e i p d =
     d\<lparr>workers := update_where (\<lambda>r. w_id r = i)
         (\<lambda>r. r\<lparr>w_preferred_provider := p, w_updated_at := now e\<rparr>) (workers d)\<rparr>"

definition get_worker_preferred_provider :: "db \<Rightarrow> ident \<Rightarrow> string option" where
  "get_worker_preferred_provider d i =
     (case fetchone (\<lambda>r. w_id r = i) (workers d) of None \<Rightarrow> None | Some r \<Rightarrow> w_preferred_provider r)"

definition set_worker_tools :: "env \<Rightarrow> ident \<Rightarrow> json list \<Rightarrow> db \<Rightarrow> db" where
  "set_worker_tools e i tools d =
     d\<lparr>workers := update_where (\<lambda>r. w_id r = i)
         (\<lambda>r. r\<lparr>w_tools := Some (JList tools), w_updated_at := now e\<rparr>) (workers d)\<rparr>"

definition get_worker_tools :: "db \<Rightarrow> ident \<Rightarrow> json" where
  "get_worker_tools d i =
     (case fetchone (\<lambda>r. w_id r = i) (workers d) of
        None \<Rightarrow> JList []
      | Some r \<Rightarrow> (case w_tools r of None \<Rightarrow> JList [] | Some t \<Rightarrow> t))"

record continuation_context =
  cc_worker_id :: ident
  cc_worker_name :: string
  cc_manager_id :: string
  cc_team_channel :: string
  cc_current_task_id :: string

text \<open>Python's \<open>x or default\<close> on an optional string: \<open>None\<close> and the empty string fall through.\<close>

definition or_default :: "string option \<Rightarrow> string \<Rightarrow> string" where
  "or_default s dflt = (case s of None \<Rightarrow> dflt | Some t \<Rightarrow> if t = [] then dflt else t)"

definition get_worker_continuation_context :: "db \<Rightarrow> ident \<Rightarrow> continuation_context" where
  "get_worker_continuation_context d i =
     (case fetchone (\<lambda>r. w_id r = i) (workers d) of
        None \<Rightarrow> \<lparr>cc_worker_id = i, cc_worker_name = ''Worker'', cc_manager_id = ''ceo'',
                 cc_team_channel = ''general'', cc_current_task_id = ''your-task''\<rparr>
      | Some r \<Rightarrow>
          (let st = get_worker_state d (w_id r);
               tm = fetchone (\<lambda>t. t_id t = w_team_id r) (teams d)
           in \<lparr>cc_worker_id = i, cc_worker_name = w_name r,
               cc_manager_id = or_default (w_manager_id r) ''ceo'',
               cc_team_channel = or_default (map_option t_name tm) ''general'',
               cc_current_task_id =
                 or_default (case st of None \<Rightarrow> None | Some s \<Rightarrow> ws_current_task_id s) ''your-task''\<rparr>))"

lemmas wq_defs = get_worker_def get_worker_by_name_def get_workers_by_role_def
  get_workers_by_manager_def get_worker_state_def

section \<open>Lookup laws\<close>

lemma insert_worker_row_ok:
  assumes "insert_worker_row r d = (Inr u, d')"
  shows "d' = d\<lparr>workers := workers d @ [r]\<rparr>" and "\<not> worker_exists d (w_id r)"
    and "0 \<le> w_cost r" and "w_cost r \<le> 100" and "team_exists d (w_team_id r)"
    and "case w_manager_id r of None \<Rightarrow> True | Some m \<Rightarrow> m = w_id r \<or> worker_exists d m"
  using assms by (auto simp: insert_worker_row_def split: if_splits option.splits)

lemma insert_worker_row_err:
  assumes "insert_worker_row r d = (Inl x, d')"
  shows "d' = d"
  using assms by (auto simp: insert_worker_row_def split: if_splits)

lemma wf_insert_worker:
  assumes wf: "db_wf d" and ins: "insert_worker_row r d = (Inr u, d')"
  shows "db_wf d'"
proof -
  note i = insert_worker_row_ok [OF ins]
  have ex: "worker_exists d' j \<longleftrightarrow> j = w_id r \<or> worker_exists d j" for j
    by (auto simp: i(1) worker_exists_def)
  have tm: "team_exists d' j = team_exists d j" for j by (simp add: i(1) team_exists_def)
  show ?thesis
  proof (rule db_wfI)
    show "distinct (map w_id (workers d'))"
      using wf i(2) by (auto simp: i(1) db_wf_def worker_exists_def)
    show "distinct (map g_id (grants d'))" using wf by (simp add: i(1) db_wf_def)
  next
    fix x assume "x \<in> set (workers d')"
    then show "worker_ok d' x"
      using wf i(3-6) by (auto simp: i(1) [THEN arg_cong [where f = workers]] worker_ok_def db_wf_def ex tm
          split: option.splits)
  next
    fix g assume "g \<in> set (grants d')"
    then have g: "g \<in> set (grants d)" by (simp add: i(1))
    then show "grant_ok d' g" using wf by (auto simp: db_wf_def grant_ok_def ex)
    from g show "\<exists>a \<in> set (audits d'). a_delegation_grant_id a = Some (g_id g)"
      using wf by (simp add: db_wf_def i(1))
  qed
qed

lemma get_worker_None_iff: "get_worker d i = None \<longleftrightarrow> \<not> worker_exists d i"
  by (auto simp: get_worker_def worker_exists_def fetchone_eq_None_iff)

text \<open>
  \<open>create_worker\<close> either raises an integrity error and leaves the database unchanged, or
  adds a worker in state \<open>pending\<close> that \<open>get_worker\<close> then returns; every other worker keeps its
  record and a well-formed database stays well-formed.
\<close>

theorem create_worker_correct:
  assumes "db_wf d"
  shows "case create_worker e fresh a d of
           (Inl x, d') \<Rightarrow> d' = d \<and> (\<exists>c. x = IntegrityError c)
         | (Inr w, d') \<Rightarrow>
             wk_id w = (case nw_worker_id a of None \<Rightarrow> fresh | Some i \<Rightarrow> i)
             \<and> wk_status w = Pending \<and> wk_cost w = nw_cost a \<and> 0 \<le> wk_cost w \<and> wk_cost w \<le> 100
             \<and> get_worker d (wk_id w) = None \<and> get_worker d' (wk_id w) = Some w
             \<and> (\<forall>j. j \<noteq> wk_id w \<longrightarrow> get_worker d' j = get_worker d j)
             \<and> db_wf d'"
proof -
  define i where "i = (case nw_worker_id a of None \<Rightarrow> fresh | Some i \<Rightarrow> i)"
  define r where "r = \<lparr>w_id = i, w_name = nw_name a, w_role = nw_role a, w_team_id = nw_team_id a,
               w_manager_id = nw_manager_id a, w_status = Pending,
               w_skills = (case nw_skills a of None \<Rightarrow> [] | Some s \<Rightarrow> s),
               w_cost = nw_cost a, w_hiring_authority_scope = nw_hiring_authority_scope a,
               w_delegated_budget = nw_delegated_budget a, w_max_reports = nw_max_reports a,
               w_delegation_version = 0, w_delegated_by = None, w_delegation_expires_at = None,
               w_offboarding_ask_bead_id = None, w_preferred_provider = nw_preferred_provider a,
               w_tools = None, w_created_at = now e, w_updated_at = now e\<rparr>"
  have eq: "create_worker e fresh a d =
      and_then (insert_worker_row r d) (\<lambda>_ d1. ok (row_to_worker r) d1)"
    by (simp add: create_worker_def Let_def r_def i_def)
  show ?thesis
  proof (cases "insert_worker_row r d")
    case (Pair res d')
    show ?thesis
    proof (cases res)
      case (Inl x)
      then show ?thesis
        using Pair by (auto simp: eq insert_worker_row_def split: if_splits)
    next
      case (Inr u)
      note ins = insert_worker_row_ok [OF Pair [unfolded Inr]]
      have fresh: "\<not> worker_exists d i" using ins(2) by (simp add: r_def)
      then have none: "fetchone (\<lambda>x. w_id x = i) (workers d) = None"
        by (auto simp: worker_exists_def fetchone_eq_None_iff)
      have "db_wf d'" by (rule wf_insert_worker [OF assms Pair [unfolded Inr]])
      moreover have "0 \<le> nw_cost a" "nw_cost a \<le> 100" using ins(3,4) by (simp_all add: r_def)
      moreover have "get_worker d i = None" using fresh by (simp add: get_worker_None_iff)
      moreover have "get_worker d' i = Some (row_to_worker r)"
        using none by (simp add: get_worker_def ins(1) r_def)
      moreover have "\<forall>j. j \<noteq> i \<longrightarrow> get_worker d' j = get_worker d j"
        by (auto simp: get_worker_def ins(1) r_def split: option.splits)
      moreover have "wk_id (row_to_worker r) = i" "wk_status (row_to_worker r) = Pending"
        "wk_cost (row_to_worker r) = nw_cost a" by (simp_all add: row_to_worker_def r_def)
      ultimately show ?thesis
        using Pair Inr by (simp add: eq i_def [symmetric])
    qed
  qed
qed

definition witness_team :: team_row where
  "witness_team = \<lparr>t_id = ''team-1'', t_name = ''Core'', t_parent_team_id = None,
     t_lead_id = None, t_channel_id = None, t_created_at = 0, t_template_type = None, t_ttl_hours = None,
     t_ttl_started_at = None, t_status = ''active''\<rparr>"

definition witness_db :: db where
  "witness_db = empty_db\<lparr>teams := [witness_team]\<rparr>"

definition witness_args :: new_worker where
  "witness_args = \<lparr>nw_name = ''Ada'', nw_role = ''CEO'', nw_team_id = ''team-1'', nw_cost = 100,
     nw_manager_id = None, nw_skills = None, nw_worker_id = None, nw_hiring_authority_scope = None,
     nw_delegated_budget = 0, nw_max_reports = 10, nw_preferred_provider = None\<rparr>"

definition witness_env :: env where
  "witness_env = \<lparr>now = 100, current_timestamp = 100, bus_set = False\<rparr>"

lemma witness_db_wf: "db_wf witness_db"
  by (simp add: witness_db_def empty_db_def db_wf_def)

theorem create_worker_correct_witness:
  "\<exists>w d'. create_worker witness_env ''wrkr-1'' witness_args witness_db = (Inr w, d')
     \<and> wk_status w = Pending \<and> get_worker d' ''wrkr-1'' = Some w \<and> db_wf d'"
proof -
  obtain w d' where eq: "create_worker witness_env ''wrkr-1'' witness_args witness_db = (Inr w, d')"
    by (auto simp: create_worker_def witness_args_def witness_db_def insert_worker_row_def empty_db_def
        worker_exists_def team_exists_def witness_team_def Let_def)
  have nwid: "nw_worker_id witness_args = None" by (simp add: witness_args_def)
  have "wk_id w = ''wrkr-1''" "wk_status w = Pending" "get_worker d' (wk_id w) = Some w" "db_wf d'"
    using create_worker_correct [OF witness_db_wf, where e = witness_env and fresh = "''wrkr-1''" and a = witness_args]
    by (auto simp: eq nwid)
  then show ?thesis using eq by auto
qed


section \<open>Status updates\<close>

lemma revoke_grants_where_workers [simp]:
  "workers (revoke_grants_where p ts by reason d) = workers d"
  by (simp add: revoke_grants_where_def)

lemma log_status_change_frame [simp]:
  "workers (log_status_change e k i old new d) = workers d"
  "grants (log_status_change e k i old new d) = grants d"
  "audits (log_status_change e k i old new d) = audits d"
  by (simp_all add: log_status_change_def)

interpretation clr: keyed_update w_id "clear_row_authority ts"
  by unfold_locales (simp add: clear_row_authority_def)

interpretation setst: keyed_update w_id "\<lambda>r. r\<lparr>w_status := st, w_updated_at := t\<rparr>"
  by unfold_locales simp

interpretation rtrow: keyed_update ws_worker_id "set_runtime_row e rs task"
  by unfold_locales (simp add: set_runtime_row_def)

definition live_grants_of :: "db \<Rightarrow> ident \<Rightarrow> grant_row list" where
  "live_grants_of d i =
     filter (\<lambda>g. (g_delegator_id g = i \<or> g_delegate_id g = i) \<and> g_revoked_at g = None) (grants d)"

lemma live_after_revoke_both:
  "live_grants_of (revoke_delegations_on_termination e i d) i = []"
  by (auto simp: live_grants_of_def revoke_delegations_on_termination_def Let_def clear_authority_def
      revoke_grants_where_def mark_revoked_def update_where_set filter_empty_conv split: if_splits)

lemma grants_of_others_kept:
  assumes "g \<in> set (grants d)" and "g_delegator_id g \<noteq> i" and "g_delegate_id g \<noteq> i"
  shows "g \<in> set (grants (revoke_delegations_on_termination e i d))"
proof -
  have "g \<in> set (update_where (\<lambda>g. g_delegator_id g = i \<and> g_revoked_at g = None) f (grants d))" for f
    using assms by (force simp: update_where_set image_iff)
  then show ?thesis
    using assms by (force simp: revoke_delegations_on_termination_def Let_def clear_authority_def
        revoke_grants_where_def update_where_set image_iff)
qed

lemma update_worker_status_db:
  "snd (update_worker_status e i st d) = set_worker_status_row e i st d
   \<or> (\<exists>ev. snd (update_worker_status e i st d) =
        (set_worker_status_row e i st d)\<lparr>events := events (set_worker_status_row e i st d) @ [ev]\<rparr>)"
  by (auto simp: update_worker_status_def bus_publish_def Let_def ENTITY_TYPES_def split: option.splits)

lemma update_worker_status_result: "fst (update_worker_status e i st d) = Inr ()"
  by (auto simp: update_worker_status_def bus_publish_def Let_def ENTITY_TYPES_def split: option.splits)

lemma update_worker_status_tables:
  "workers (snd (update_worker_status e i st d)) = workers (set_worker_status_row e i st d)"
  "grants (snd (update_worker_status e i st d)) = grants (set_worker_status_row e i st d)"
  "audits (snd (update_worker_status e i st d)) = audits (set_worker_status_row e i st d)"
  "status_changes (snd (update_worker_status e i st d)) = status_changes (set_worker_status_row e i st d)"
  "db_wf (snd (update_worker_status e i st d)) = db_wf (set_worker_status_row e i st d)"
  using update_worker_status_db [of e i st d] by auto

lemma set_status_row_lookup:
  assumes "fetchone (\<lambda>r. w_id r = i) (workers d) = Some r"
  shows "fetchone (\<lambda>r. w_id r = j) (workers (set_worker_status_row e i st d)) =
     (if j = i then Some (let r1 = r\<lparr>w_status := st, w_updated_at := now e\<rparr>
                          in if st = Terminated \<and> w_status r \<noteq> Terminated
                             then clear_row_authority (current_timestamp e) r1 else r1)
      else fetchone (\<lambda>r. w_id r = j) (workers d))"
proof -
  have wid: "\<And>x. fetchone (\<lambda>r. w_id r = j) (workers d) = Some x \<Longrightarrow> w_id x = j"
    by (auto dest: fetchone_SomeD(2))
  show ?thesis
  proof (cases "fetchone (\<lambda>r. w_id r = j) (workers d)")
    case None
    then show ?thesis using assms
      by (auto simp: set_worker_status_row_def Let_def revoke_delegations_on_termination_def
          clear_authority_def setst.lookup_update clr.lookup_update)
  next
    case (Some x)
    then show ?thesis using assms wid [OF Some]
      by (auto simp: set_worker_status_row_def Let_def revoke_delegations_on_termination_def
          clear_authority_def setst.lookup_update clr.lookup_update)
  qed
qed

lemma get_worker_after_status:
  assumes "get_worker d i = Some w"
  shows "\<exists>w'. get_worker (snd (update_worker_status e i st d)) i = Some w'
     \<and> wk_status w' = st \<and> wk_id w' = wk_id w \<and> wk_name w' = wk_name w \<and> wk_role w' = wk_role w
     \<and> wk_team_id w' = wk_team_id w \<and> wk_manager_id w' = wk_manager_id w \<and> wk_cost w' = wk_cost w"
    and "j \<noteq> i \<Longrightarrow> get_worker (snd (update_worker_status e i st d)) j = get_worker d j"
proof -
  obtain r where r: "fetchone (\<lambda>r. w_id r = i) (workers d) = Some r" "w = row_to_worker r"
    using assms by (auto simp: get_worker_def)
  show "\<exists>w'. get_worker (snd (update_worker_status e i st d)) i = Some w'
     \<and> wk_status w' = st \<and> wk_id w' = wk_id w \<and> wk_name w' = wk_name w \<and> wk_role w' = wk_role w
     \<and> wk_team_id w' = wk_team_id w \<and> wk_manager_id w' = wk_manager_id w \<and> wk_cost w' = wk_cost w"
    by (simp add: get_worker_def update_worker_status_tables set_status_row_lookup [OF r(1)] r(2)
        row_to_worker_def Let_def clear_row_authority_def)
  show "j \<noteq> i \<Longrightarrow> get_worker (snd (update_worker_status e i st d)) j = get_worker d j"
    by (simp add: get_worker_def update_worker_status_tables set_status_row_lookup [OF r(1)])
qed

lemma live_grants_cong: "grants d = grants d' \<Longrightarrow> live_grants_of d i = live_grants_of d' i"
  by (simp add: live_grants_of_def)

lemma live_after_terminating:
  assumes "get_worker d i = Some w" and "wk_status w \<noteq> Terminated"
  shows "live_grants_of (snd (update_worker_status e i Terminated d)) i = []"
    and "g \<in> set (grants d) \<Longrightarrow> g_delegator_id g \<noteq> i \<Longrightarrow> g_delegate_id g \<noteq> i \<Longrightarrow>
         g \<in> set (grants (snd (update_worker_status e i Terminated d)))"
proof -
  obtain r where r: "fetchone (\<lambda>r. w_id r = i) (workers d) = Some r" "w = row_to_worker r"
    using assms(1) by (auto simp: get_worker_def)
  have ne: "w_status r \<noteq> Terminated" using assms(2) r(2) by (simp add: row_to_worker_def)
  define d2 where "d2 = log_status_change e ''worker'' i (lifecycle_name (w_status r)) (lifecycle_name Terminated)
     (d\<lparr>workers := update_where (\<lambda>r. w_id r = i)
                       (\<lambda>r. r\<lparr>w_status := Terminated, w_updated_at := now e\<rparr>) (workers d)\<rparr>)"
  have row: "set_worker_status_row e i Terminated d = revoke_delegations_on_termination e i d2"
    using r(1) ne by (simp add: set_worker_status_row_def Let_def d2_def)
  have g2: "grants d2 = grants d" by (simp add: d2_def)
  show "live_grants_of (snd (update_worker_status e i Terminated d)) i = []"
    using live_after_revoke_both [of e i d2]
    by (simp add: live_grants_of_def update_worker_status_tables row)
  show "g \<in> set (grants d) \<Longrightarrow> g_delegator_id g \<noteq> i \<Longrightarrow> g_delegate_id g \<noteq> i \<Longrightarrow>
         g \<in> set (grants (snd (update_worker_status e i Terminated d)))"
    using grants_of_others_kept [of g d2 i e] by (simp add: update_worker_status_tables row g2)
qed

text \<open>
  Terminating a worker auto-revokes every delegation grant it issued or received and clears
  its own hiring authority, while grants between other workers and all other workers' records
  are untouched, and the database stays well-formed.
\<close>

theorem termination_revokes_delegations:
  assumes "db_wf d" and "get_worker d i = Some w" and "wk_status w \<noteq> Terminated"
  shows "let d' = snd (update_worker_status e i Terminated d) in
     live_grants_of d' i = []
     \<and> (\<exists>w'. get_worker d' i = Some w' \<and> wk_status w' = Terminated
            \<and> wk_hiring_authority_scope w' = None \<and> wk_delegated_budget w' = 0)
     \<and> (\<forall>j. j \<noteq> i \<longrightarrow> get_worker d' j = get_worker d j)
     \<and> (\<forall>g \<in> set (grants d). g_delegator_id g \<noteq> i \<longrightarrow> g_delegate_id g \<noteq> i \<longrightarrow> g \<in> set (grants d'))
     \<and> db_wf d'"
proof -
  obtain r where r: "fetchone (\<lambda>r. w_id r = i) (workers d) = Some r" "w = row_to_worker r"
    using assms(2) by (auto simp: get_worker_def)
  have ne: "w_status r \<noteq> Terminated" using assms(3) r(2) by (simp add: row_to_worker_def)
  have "\<exists>w'. get_worker (snd (update_worker_status e i Terminated d)) i = Some w'
      \<and> wk_status w' = Terminated \<and> wk_hiring_authority_scope w' = None \<and> wk_delegated_budget w' = 0"
    using ne by (simp add: get_worker_def update_worker_status_tables set_status_row_lookup [OF r(1)]
        row_to_worker_def Let_def clear_row_authority_def)
  moreover have "db_wf (snd (update_worker_status e i Terminated d))"
    using wf_set_worker_status_row [OF assms(1)] by (simp add: update_worker_status_tables)
  ultimately show ?thesis
    using live_after_terminating [OF assms(2,3)] get_worker_after_status(2) [OF assms(2)]
    by (auto simp: Let_def)
qed

text \<open>A small organisation for witnesses: a CEO, a manager and an engineer.\<close>

definition org_worker :: "ident \<Rightarrow> string \<Rightarrow> string \<Rightarrow> ident option \<Rightarrow> json option \<Rightarrow> int \<Rightarrow> worker_row" where
  "org_worker i nm role mgr scope budget =
     \<lparr>w_id = i, w_name = nm, w_role = role, w_team_id = ''team-1'', w_manager_id = mgr,
      w_status = Active, w_skills = [], w_cost = 50, w_hiring_authority_scope = scope,
      w_delegated_budget = budget, w_max_reports = 10, w_delegation_version = 0,
      w_delegated_by = None, w_delegation_expires_at = None, w_offboarding_ask_bead_id = None,
      w_preferred_provider = None, w_tools = None, w_created_at = 0, w_updated_at = 0\<rparr>"

definition all_roles_scope :: json where
  "all_roles_scope = JObj [(''allowed_roles'', JList [JStr ''*'']), (''max_cost'', JInt 100),
     (''max_total_budget'', JInt 0)]"

definition org_grant :: grant_row where
  "org_grant = \<lparr>g_id = ''deleg-1'', g_delegator_id = ''ceo'', g_delegate_id = ''mgr'',
     g_scope = all_roles_scope, g_budget_amount = 10, g_granted_at = 1, g_expires_at = None,
     g_revoked_at = None, g_revoked_by = None, g_revoke_reason = None,
     g_granted_by_cli_user = None, g_metadata = None\<rparr>"

definition org_db :: db where
  "org_db = empty_db\<lparr>teams := [witness_team],
     workers := [org_worker ''ceo'' ''Ada'' ''CEO'' None (Some all_roles_scope) 100,
                 org_worker ''mgr'' ''Bob'' ''manager'' (Some ''ceo'') (Some all_roles_scope) 10,
                 org_worker ''eng'' ''Eve'' ''engineer'' (Some ''mgr'') None 0],
     grants := [org_grant], audits := [log_delegation_grant org_grant]\<rparr>"

lemmas org_defs = org_db_def org_worker_def org_grant_def empty_db_def witness_team_def
  log_delegation_grant_def

lemma org_db_wf: "db_wf org_db"
  by (simp add: org_defs db_wf_def worker_ok_def grant_ok_def worker_exists_def team_exists_def)

theorem termination_revokes_delegations_witness:
  "live_grants_of org_db ''mgr'' = [org_grant]
   \<and> live_grants_of (snd (update_worker_status witness_env ''mgr'' Terminated org_db)) ''mgr'' = []"
proof -
  have w: "get_worker org_db ''mgr'' =
      Some (row_to_worker (org_worker ''mgr'' ''Bob'' ''manager'' (Some ''ceo'') (Some all_roles_scope) 10))"
    by (simp add: get_worker_def org_defs)
  have st: "wk_status (row_to_worker (org_worker ''mgr'' ''Bob'' ''manager'' (Some ''ceo'')
      (Some all_roles_scope) 10)) \<noteq> Terminated"
    by (simp add: row_to_worker_def org_worker_def)
  have "live_grants_of org_db ''mgr'' = [org_grant]"
    by (simp add: live_grants_of_def org_defs)
  then show ?thesis
    using termination_revokes_delegations [OF org_db_wf w st, of witness_env] by (simp add: Let_def)
qed

section \<open>Runtime status\<close>

definition states_wf :: "db \<Rightarrow> bool" where
  "states_wf d = (distinct (map ws_worker_id (worker_states d))
     \<and> (\<forall>s \<in> set (worker_states d). worker_exists d (ws_worker_id s)))"

lemma log_status_change_states [simp]:
  "worker_states (log_status_change e k i old new d) = worker_states d"
  by (simp add: log_status_change_def)

lemma bus_publish_frame:
  "worker_states (snd (bus_publish e ty ety eid pl ac d)) = worker_states d"
  "workers (snd (bus_publish e ty ety eid pl ac d)) = workers d"
  by (simp_all add: bus_publish_def)

lemma runtime_update_existing:
  assumes "get_worker_state d i = Some s"
  shows "fst (update_worker_runtime_status e i rs task d) = Inr ()"
    and "worker_states (snd (update_worker_runtime_status e i rs task d)) =
         update_where (\<lambda>s. ws_worker_id s = i) (set_runtime_row e rs task) (worker_states d)"
    and "workers (snd (update_worker_runtime_status e i rs task d)) = workers d"
  using assms
  by (simp_all add: update_worker_runtime_status_def Let_def bus_publish_def ENTITY_TYPES_def
      log_status_change_def)

lemma runtime_update_new:
  assumes "get_worker_state d i = None" and "worker_exists d i"
  shows "fst (update_worker_runtime_status e i rs task d) = Inr ()"
    and "worker_states (snd (update_worker_runtime_status e i rs task d)) = worker_states d @
          [\<lparr>ws_worker_id = i, ws_runtime_status = rs, ws_current_task_id = task,
                  ws_pid = None, ws_started_at = Some (now e), ws_last_activity = Some (now e),
                  ws_tasks_completed = 0, ws_tasks_failed = 0, ws_updated_at = now e\<rparr>]"
    and "workers (snd (update_worker_runtime_status e i rs task d)) = workers d"
proof -
  have "i \<notin> ws_worker_id ` set (worker_states d)"
    using assms(1) by (auto simp: get_worker_state_def fetchone_eq_None_iff)
  then have ins: "insert_worker_state_row s d = ok () (d\<lparr>worker_states := worker_states d @ [s]\<rparr>)"
    if "ws_worker_id s = i" for s
    using assms(2) that by (simp add: insert_worker_state_row_def)
  show "fst (update_worker_runtime_status e i rs task d) = Inr ()"
    "worker_states (snd (update_worker_runtime_status e i rs task d)) = worker_states d @
          [\<lparr>ws_worker_id = i, ws_runtime_status = rs, ws_current_task_id = task,
                  ws_pid = None, ws_started_at = Some (now e), ws_last_activity = Some (now e),
                  ws_tasks_completed = 0, ws_tasks_failed = 0, ws_updated_at = now e\<rparr>]"
    "workers (snd (update_worker_runtime_status e i rs task d)) = workers d"
    by (simp_all add: update_worker_runtime_status_def Let_def assms(1) ins bus_publish_def
        ENTITY_TYPES_def)
qed

lemma runtime_update_unknown:
  assumes "get_worker_state d i = None" and "\<not> worker_exists d i"
  shows "update_worker_runtime_status e i rs task d =
     raise (IntegrityError ''worker_state.worker_id fk'') d"
proof -
  have "i \<notin> ws_worker_id ` set (worker_states d)"
    using assms(1) by (auto simp: get_worker_state_def fetchone_eq_None_iff)
  then show ?thesis
    using assms by (simp add: update_worker_runtime_status_def Let_def insert_worker_state_row_def)
qed

lemma runtime_update_facts:
  assumes "states_wf d"
  shows "case update_worker_runtime_status e i rs task d of
      (Inl x, d') \<Rightarrow> x = IntegrityError ''worker_state.worker_id fk'' \<and> d' = d \<and> \<not> worker_exists d i
    | (Inr u, d') \<Rightarrow> worker_exists d i \<and> states_wf d' \<and>
        (\<exists>s'. get_worker_state d' i = Some s' \<and> ws_runtime_status s' = rs
            \<and> ws_current_task_id s' = task
            \<and> ws_tasks_completed s' = (case get_worker_state d i of None \<Rightarrow> 0 | Some s \<Rightarrow> ws_tasks_completed s)
            \<and> ws_tasks_failed s' = (case get_worker_state d i of None \<Rightarrow> 0 | Some s \<Rightarrow> ws_tasks_failed s))
        \<and> (\<forall>j. j \<noteq> i \<longrightarrow> get_worker_state d' j = get_worker_state d j)"
proof (cases "get_worker_state d i")
  case (Some s)
  note u = runtime_update_existing [OF Some, of e rs task]
  obtain d' where out: "update_worker_runtime_status e i rs task d = (Inr (), d')"
    using u(1) by (cases "update_worker_runtime_status e i rs task d") auto
  have st: "worker_states d' =
      update_where (\<lambda>s. ws_worker_id s = i) (set_runtime_row e rs task) (worker_states d)"
    and wk: "workers d' = workers d" using u(2,3) out by simp_all
  have sid: "ws_worker_id s = i" and mem: "s \<in> set (worker_states d)"
    using Some by (auto simp: get_worker_state_def dest: fetchone_SomeD)
  have ex: "worker_exists d i" using assms mem sid by (auto simp: states_wf_def)
  have keys: "map ws_worker_id (worker_states d') = map ws_worker_id (worker_states d)"
    by (simp add: st rtrow.keys_update)
  then have kset: "ws_worker_id ` set (worker_states d') = ws_worker_id ` set (worker_states d)"
    by (metis list.set_map)
  have "states_wf d'"
    unfolding states_wf_def keys
  proof (intro conjI ballI)
    show "distinct (map ws_worker_id (worker_states d))" using assms by (simp add: states_wf_def)
    fix x assume "x \<in> set (worker_states d')"
    then have "ws_worker_id x \<in> ws_worker_id ` set (worker_states d)" using kset by auto
    then show "worker_exists d' (ws_worker_id x)"
      using assms by (auto simp: states_wf_def worker_exists_def wk)
  qed
  moreover have "get_worker_state d' j =
      map_option (\<lambda>r. if ws_worker_id r = i then set_runtime_row e rs task r else r) (get_worker_state d j)" for j
    by (simp add: get_worker_state_def st rtrow.lookup_update)
  moreover have "get_worker_state d' j = get_worker_state d j" if "j \<noteq> i" for j
    using that calculation(2) [of j]
    by (cases "get_worker_state d j") (auto simp: get_worker_state_def dest: fetchone_SomeD(2))
  ultimately show ?thesis
    using Some sid ex by (auto simp: out set_runtime_row_def)
next
  case None
  show ?thesis
  proof (cases "worker_exists d i")
    case True
    note u = runtime_update_new [OF None True, of e rs task]
    obtain d' where out: "update_worker_runtime_status e i rs task d = (Inr (), d')"
      using u(1) by (cases "update_worker_runtime_status e i rs task d") auto
    have notin: "i \<notin> ws_worker_id ` set (worker_states d)"
      using None by (auto simp: get_worker_state_def fetchone_eq_None_iff)
    have wk: "workers d' = workers d" using u(3) out by simp
    show ?thesis
      using assms u(2) out None True notin
      by (auto simp: states_wf_def worker_exists_def wk get_worker_state_def split: option.splits)
  next
    case False
    then show ?thesis by (simp add: runtime_update_unknown [OF None])
  qed
qed

text \<open>
  \<open>update_worker_runtime_status\<close> is an upsert: for an existing worker it succeeds, the
  stored status and task are the given ones, completed and failed counters survive (and start
  at zero for a new row), other workers' rows are unchanged and rows stay unique per worker;
  for an unknown worker it raises an integrity error and changes nothing.
\<close>

theorem runtime_status_upsert:
  assumes "states_wf d"
  shows "case update_worker_runtime_status e i rs task d of
      (Inl x, d') \<Rightarrow> x = IntegrityError ''worker_state.worker_id fk'' \<and> d' = d \<and> \<not> worker_exists d i
    | (Inr u, d') \<Rightarrow> worker_exists d i \<and> states_wf d' \<and>
        (\<exists>s'. get_worker_state d' i = Some s' \<and> ws_runtime_status s' = rs
            \<and> ws_current_task_id s' = task
            \<and> ws_tasks_completed s' = (case get_worker_state d i of None \<Rightarrow> 0 | Some s \<Rightarrow> ws_tasks_completed s)
            \<and> ws_tasks_failed s' = (case get_worker_state d i of None \<Rightarrow> 0 | Some s \<Rightarrow> ws_tasks_failed s))
        \<and> (\<forall>j. j \<noteq> i \<longrightarrow> get_worker_state d' j = get_worker_state d j)"
  using runtime_update_facts [OF assms] .

theorem runtime_status_upsert_witness:
  "\<exists>s'. get_worker_state (snd (update_worker_runtime_status witness_env ''eng'' Running (Some ''t1'') org_db))
      ''eng'' = Some s' \<and> ws_runtime_status s' = Running"
proof -
  have wf: "states_wf org_db" by (simp add: states_wf_def org_defs)
  have ex: "worker_exists org_db ''eng''" by (simp add: worker_exists_def org_defs)
  show ?thesis
    using runtime_status_upsert [OF wf, where e = witness_env and i = "''eng''" and rs = Running
        and task = "Some ''t1''"] ex
    by (cases "update_worker_runtime_status witness_env ''eng'' Running (Some ''t1'') org_db")
      (auto split: sum.splits)
qed

section \<open>Resolving a selector\<close>

text \<open>
  \<open>resolve_worker\<close> prefers an exact id over a case-insensitive name over a role, only accepts
  a role held by exactly one worker, and fails exactly when no id and no name match and the
  role is held by none or by several.
\<close>

theorem resolve_worker_correct:
  "(\<forall>w. get_worker d sel = Some w \<longrightarrow> resolve_worker d sel = Some w)
   \<and> (\<forall>w. get_worker d sel = None \<longrightarrow> get_worker_by_name d sel = Some w \<longrightarrow> resolve_worker d sel = Some w)
   \<and> (resolve_worker d sel = None \<longleftrightarrow>
        \<not> worker_exists d sel
        \<and> (\<forall>r \<in> set (workers d). ascii_lower (w_name r) \<noteq> ascii_lower sel)
        \<and> rowcount (\<lambda>r. ascii_lower (w_role r) = ascii_lower sel) (workers d) \<noteq> 1)"
proof -
  have role: "(case get_workers_by_role d sel of [w] \<Rightarrow> Some w | _ \<Rightarrow> None) = None \<longleftrightarrow>
      rowcount (\<lambda>r. ascii_lower (w_role r) = ascii_lower sel) (workers d) \<noteq> 1"
    by (auto simp: get_workers_by_role_def fetchall_def rowcount_def length_Suc_conv split: list.splits)
  have name: "get_worker_by_name d sel = None \<longleftrightarrow>
      (\<forall>r \<in> set (workers d). ascii_lower (w_name r) \<noteq> ascii_lower sel)"
    by (simp add: get_worker_by_name_def fetchone_eq_None_iff)
  show ?thesis
    using role name by (auto simp: resolve_worker_def get_worker_None_iff [symmetric] split: option.splits)
qed

theorem resolve_worker_correct_witness:
  "resolve_worker org_db ''mgr'' = get_worker org_db ''mgr'' \<and> get_worker org_db ''mgr'' \<noteq> None"
  using resolve_worker_correct [of org_db "''mgr''"]
  by (auto simp: get_worker_def org_defs)

end
