(* ===== verification/Delegation_Queries.thy ===== *)
theory Delegation_Queries
  imports Worker_Queries
begin

text \<open>
  \<open>cli/core/queries/delegation.py\<close>: delegation grants, their revocation with and without cascade,
  expiry, the delegation chain, the subtree search and the cycle check. The delegation relation
  \<open>delegates\<close> (delegator to delegate over the unrevoked grants) is the specification the loops are
  compared with.
\<close>

section \<open>Reading grants\<close>

definition is_active :: "env \<Rightarrow> grant_row \<Rightarrow> bool" where
  "is_active e g =
     (if g_revoked_at g \<noteq> None then False
      else case g_expires_at g of None \<Rightarrow> True | Some x \<Rightarrow> \<not> x < now e)"

definition get_delegation_grant :: "env \<Rightarrow> db \<Rightarrow> ident \<Rightarrow> grant_row option" where
  "get_delegation_grant e d delegate =
     (case fetchone (\<lambda>g. g_delegate_id g = delegate \<and> g_revoked_at g = None) (grants d) of
        None \<Rightarrow> None
      | Some g \<Rightarrow> if is_active e g then Some g else None)"

definition get_delegation_grant_by_id :: "db \<Rightarrow> ident \<Rightarrow> grant_row option" where
  "get_delegation_grant_by_id d i = fetchone (\<lambda>g. g_id g = i) (grants d)"

definition get_delegations_by_delegator :: "db \<Rightarrow> ident \<Rightarrow> bool \<Rightarrow> grant_row list" where
  "get_delegations_by_delegator d delegator include_revoked =
     (if include_revoked
      then order_by g_granted_at (fetchall (\<lambda>g. g_delegator_id g = delegator) (grants d))
      else order_by g_granted_at
             (fetchall (\<lambda>g. g_delegator_id g = delegator \<and> g_revoked_at g = None) (grants d)))"

section \<open>Creating and revoking\<close>

definition create_delegation_grant ::
  "env \<Rightarrow> ident \<Rightarrow> ident \<Rightarrow> ident \<Rightarrow> json \<Rightarrow> int \<Rightarrow> string option \<Rightarrow> datetime option \<Rightarrow>
   ident option \<Rightarrow> db \<Rightarrow> (db, grant_row) outcome" where
  "create_delegation_grant e fresh delegator delegate scope budget cli expires gid d =
     (let i = (case gid of None \<Rightarrow> fresh | Some i \<Rightarrow> i)
      in case get_delegation_grant e d delegate of
           Some _ \<Rightarrow> raise (ValueError ''already has an active delegation'') d
         | None \<Rightarrow>
             (let g = \<lparr>g_id = i, g_delegator_id = delegator, g_delegate_id = delegate,
                       g_scope = scope, g_budget_amount = budget, g_granted_at = now e,
                       g_expires_at = expires, g_revoked_at = None, g_revoked_by = None,
                       g_revoke_reason = None, g_granted_by_cli_user = cli, g_metadata = None\<rparr>
              in and_then (insert_grant_row g d) (\<lambda>_ d1. ok g d1)))"

record revoke_result =
  rr_revoked_grant_ids :: "ident list"
  rr_cascade_count :: int
  rr_affected_workers :: "ident list"

definition empty_result :: revoke_result where
  "empty_result = \<lparr>rr_revoked_grant_ids = [], rr_cascade_count = 0, rr_affected_workers = []\<rparr>"

text \<open>
  The recursive function, with the depth of the call stack as fuel: \<open>None\<close> means that the
  recursion did not come back within it. The \<open>for\<close> loop over the sub-delegations is
  \<open>revoke_each\<close>, which stops at the first exception and keeps what was done before it.
\<close>

fun revoke_each ::
  "(grant_row \<Rightarrow> db \<Rightarrow> (db, revoke_result) outcome option) \<Rightarrow> grant_row list \<Rightarrow> revoke_result \<Rightarrow> db
   \<Rightarrow> (db, revoke_result) outcome option" where
  "revoke_each f [] acc d = Some (ok acc d)"
| "revoke_each f (s # ss) acc d =
     (case f s d of
        None \<Rightarrow> None
      | Some (Inl x, d1) \<Rightarrow> Some (raise x d1)
      | Some (Inr sub, d1) \<Rightarrow>
          revoke_each f ss
            \<lparr>rr_revoked_grant_ids = rr_revoked_grant_ids acc @ rr_revoked_grant_ids sub,
             rr_cascade_count = rr_cascade_count acc + 1 + rr_cascade_count sub,
             rr_affected_workers = rr_affected_workers acc @ rr_affected_workers sub\<rparr> d1)"

fun revoke_delegation_grant ::
  "nat \<Rightarrow> env \<Rightarrow> ident \<Rightarrow> ident \<Rightarrow> string option \<Rightarrow> bool \<Rightarrow> db \<Rightarrow> (db, revoke_result) outcome option" where
  "revoke_delegation_grant 0 e delegate by reason cascade d = None"
| "revoke_delegation_grant (Suc n) e delegate by reason cascade d =
     (case get_delegation_grant e d delegate of
        None \<Rightarrow> Some (raise (ValueError ''No active delegation found'') d)
      | Some g \<Rightarrow>
          (case (if cascade
                 then revoke_each
                        (\<lambda>s d. revoke_delegation_grant n e (g_delegate_id s) by
                                 (Some ''cascade: parent delegation revoked'') True d)
                        (get_delegations_by_delegator d delegate False) empty_result d
                 else Some (ok empty_result d)) of
             None \<Rightarrow> None
           | Some (Inl x, d1) \<Rightarrow> Some (raise x d1)
           | Some (Inr res, d1) \<Rightarrow>
               (let d2 = revoke_grants_where (\<lambda>h. g_id h = g_id g) (now e) by reason d1;
                    d3 = clear_authority (now e) delegate d2
                in Some (ok (res\<lparr>rr_revoked_grant_ids := rr_revoked_grant_ids res @ [g_id g],
                                 rr_affected_workers := rr_affected_workers res @ [delegate]\<rparr>) d3))))"

section \<open>Expiry\<close>

definition expired :: "env \<Rightarrow> grant_row \<Rightarrow> bool" where
  "expired e g = (case g_expires_at g of None \<Rightarrow> False
                  | Some x \<Rightarrow> x \<le> now e \<and> g_revoked_at g = None)"

definition expire_one :: "env \<Rightarrow> grant_row \<Rightarrow> db \<Rightarrow> db" where
  "expire_one e g d =
     clear_authority (now e) (g_delegate_id g)
       (revoke_grants_where (\<lambda>h. g_id h = g_id g) (now e) ''system'' (Some ''expired'') d)"

definition expire_delegations :: "env \<Rightarrow> db \<Rightarrow> ident list \<times> db" where
  "expire_delegations e d =
     (let rows = fetchall (expired e) (grants d)
      in (map g_id rows, fold (expire_one e) rows d))"

section \<open>Chain, subtree and cycle check\<close>

definition delegate_ids :: "db \<Rightarrow> ident set" where
  "delegate_ids d = g_delegate_id ` set (grants d)"

lemma finite_delegate_ids [simp]: "finite (delegate_ids d)"
  by (simp add: delegate_ids_def)

lemma get_delegation_grantD:
  assumes "get_delegation_grant e d x = Some g"
  shows "g \<in> set (grants d)" and "g_delegate_id g = x" and "g_revoked_at g = None" and "is_active e g"
  using assms by (auto simp: get_delegation_grant_def split: option.splits if_splits dest: fetchone_SomeD)

text \<open>The loop of \<open>get_delegation_chain\<close>: \<open>current\<close> is never \<open>None\<close> once started.\<close>

function chain_loop :: "env \<Rightarrow> db \<Rightarrow> ident list \<Rightarrow> ident \<Rightarrow> grant_row list" where
  "chain_loop e d visited current =
     (if current \<in> set visited then []
      else case get_delegation_grant e d current of
             None \<Rightarrow> []
           | Some g \<Rightarrow> g # chain_loop e d (current # visited) (g_delegator_id g))"
  by pat_completeness auto
termination
proof (relation "measure (\<lambda>(e, d, visited, current). card (delegate_ids d - set visited))")
  fix e d visited current g
  assume "current \<notin> set visited" and "get_delegation_grant e d current = Some g"
  then have "current \<in> delegate_ids d - set visited"
    using get_delegation_grantD [of e d current g] by (auto simp: delegate_ids_def)
  then have "card (delegate_ids d - set (current # visited)) < card (delegate_ids d - set visited)"
    by (intro psubset_card_mono) auto
  then show "((e, d, current # visited, g_delegator_id g), e, d, visited, current)
      \<in> measure (\<lambda>(e, d, visited, current). card (delegate_ids d - set visited))"
    by simp
qed simp

declare chain_loop.simps [simp del]

definition get_delegation_chain :: "env \<Rightarrow> db \<Rightarrow> ident \<Rightarrow> grant_row list" where
  "get_delegation_chain e d i = chain_loop e d [] i"

text \<open>
  The loop of \<open>_get_delegation_subtree\<close>: the stack \<open>to_visit\<close> has its top (the end of the Python
  list) at the head; \<open>visit_grants\<close> is the inner loop over one worker's delegations.
\<close>

fun visit_grants :: "grant_row list \<Rightarrow> ident list \<times> ident list \<Rightarrow> ident list \<times> ident list" where
  "visit_grants [] (subtree, stack) = (subtree, stack)"
| "visit_grants (g # gs) (subtree, stack) =
     (if g_delegate_id g \<in> set subtree then visit_grants gs (subtree, stack)
      else visit_grants gs (g_delegate_id g # subtree, g_delegate_id g # stack))"

lemma visit_grants_props:
  assumes "visit_grants gs (st, sk) = (st', sk')"
  shows "set st' = set st \<union> g_delegate_id ` set gs"
    and "\<exists>new. sk' = new @ sk \<and> set new = g_delegate_id ` set gs - set st \<and> distinct new"
  using assms
proof (induction gs arbitrary: st sk)
  case Nil
  { case 1 then show ?case by auto }
  { case 2 then show ?case by auto }
next
  case (Cons g gs)
  { case 1
    then show ?case using Cons.IH(1) by (auto split: if_splits) }
  { case 2
    show ?case
    proof (cases "g_delegate_id g \<in> set st")
      case True
      then have "visit_grants gs (st, sk) = (st', sk')" using 2 by simp
      from Cons.IH(2) [OF this] show ?thesis using True by auto
    next
      case False
      then have "visit_grants gs (g_delegate_id g # st, g_delegate_id g # sk) = (st', sk')" using 2 by simp
      from Cons.IH(2) [OF this] obtain new where
        "sk' = new @ g_delegate_id g # sk" "set new = g_delegate_id ` set gs - set (g_delegate_id g # st)"
        "distinct new" by blast
      then have "sk' = (new @ [g_delegate_id g]) @ sk \<and>
          set (new @ [g_delegate_id g]) = g_delegate_id ` set (g # gs) - set st \<and>
          distinct (new @ [g_delegate_id g])" using False by auto
      then show ?thesis by blast
    qed }
qed

lemma get_delegations_by_delegator_set:
  "set (get_delegations_by_delegator d x False) =
     {g \<in> set (grants d). g_delegator_id g = x \<and> g_revoked_at g = None}"
  by (auto simp: get_delegations_by_delegator_def)

function subtree_loop :: "db \<Rightarrow> ident list \<Rightarrow> ident list \<Rightarrow> ident list" where
  "subtree_loop d subtree [] = subtree"
| "subtree_loop d subtree (x # stack) =
     (case visit_grants (get_delegations_by_delegator d x False) (subtree, stack) of
        (subtree', stack') \<Rightarrow> subtree_loop d subtree' stack')"
  by pat_completeness auto
termination
proof (relation "measures [\<lambda>(d, subtree, stack). card (delegate_ids d - set subtree),
                           \<lambda>(d, subtree, stack). length stack]")
  fix d subtree x stack st' sk'
  define gs where "gs = get_delegations_by_delegator d x False"
  assume "(st', sk') = visit_grants (get_delegations_by_delegator d x False) (subtree, stack)"
  then have v: "visit_grants gs (subtree, stack) = (st', sk')" by (simp add: gs_def)
  obtain new where new: "sk' = new @ stack" "set new = g_delegate_id ` set gs - set subtree"
    using visit_grants_props(2) [OF v] by blast
  have st: "set st' = set subtree \<union> g_delegate_id ` set gs" by (rule visit_grants_props(1) [OF v])
  have sub: "g_delegate_id ` set gs \<subseteq> delegate_ids d"
    by (auto simp: gs_def get_delegations_by_delegator_set delegate_ids_def)
  show "((d, st', sk'), d, subtree, x # stack)
      \<in> measures [\<lambda>(d, subtree, stack). card (delegate_ids d - set subtree),
                  \<lambda>(d, subtree, stack). length stack]"
  proof (cases "new = []")
    case True
    then have "delegate_ids d - set st' = delegate_ids d - set subtree" using new(2) st by auto
    then show ?thesis using True new(1) by simp
  next
    case False
    then obtain y where "y \<in> g_delegate_id ` set gs - set subtree"
      by (metis equals0I new(2) set_empty)
    then have "y \<in> delegate_ids d - set subtree" and "y \<notin> delegate_ids d - set st'"
      using st sub by auto
    then have "delegate_ids d - set st' \<subset> delegate_ids d - set subtree" using st by auto
    then have "card (delegate_ids d - set st') < card (delegate_ids d - set subtree)"
      by (intro psubset_card_mono) auto
    then show ?thesis by simp
  qed
qed simp

definition get_delegation_subtree :: "db \<Rightarrow> ident \<Rightarrow> ident list" where
  "get_delegation_subtree d root_id = subtree_loop d [root_id] [root_id]"

definition check_delegation_cycle :: "env \<Rightarrow> db \<Rightarrow> ident \<Rightarrow> ident \<Rightarrow> bool" where
  "check_delegation_cycle e d delegator delegate =
     (let chain_ids = delegator # map g_delegate_id (get_delegation_chain e d delegator)
      in if delegate \<in> set chain_ids then True
         else if delegator \<in> set (get_delegation_subtree d delegate) then True
         else False)"

section \<open>Versions and audit\<close>

definition get_worker_delegation_version :: "db \<Rightarrow> ident \<Rightarrow> int" where
  "get_worker_delegation_version d i =
     (case fetchone (\<lambda>r. w_id r = i) (workers d) of None \<Rightarrow> 0 | Some r \<Rightarrow> w_delegation_version r)"

definition set_row_delegation ::
  "env \<Rightarrow> json option \<Rightarrow> int \<Rightarrow> ident option \<Rightarrow> datetime option \<Rightarrow> worker_row \<Rightarrow> worker_row" where
  "set_row_delegation e scope budget by expires r =
     r\<lparr>w_hiring_authority_scope := scope, w_delegated_budget := budget, w_delegated_by := by,
       w_delegation_expires_at := expires, w_delegation_version := w_delegation_version r + 1,
       w_updated_at := now e\<rparr>"

definition update_worker_delegation ::
  "env \<Rightarrow> ident \<Rightarrow> json option \<Rightarrow> int \<Rightarrow> ident option \<Rightarrow> datetime option \<Rightarrow> int \<Rightarrow> db \<Rightarrow> bool \<times> db" where
  "update_worker_delegation e i scope budget by expires expected d =
     (let p = (\<lambda>r. w_id r = i \<and> w_delegation_version r = expected)
      in (0 < rowcount p (workers d),
          d\<lparr>workers := update_where p (set_row_delegation e scope budget by expires) (workers d)\<rparr>))"

definition get_delegation_audit :: "db \<Rightarrow> ident option \<Rightarrow> nat \<Rightarrow> audit_row list" where
  "get_delegation_audit d worker limit =
     (case worker of
        Some w \<Rightarrow> if w = [] then take limit (order_by_desc a_timestamp (audits d))
          else take limit (order_by_desc a_timestamp
                 (fetchall (\<lambda>a. a_delegator_id a = w \<or> a_delegate_id a = w) (audits d)))
      | None \<Rightarrow> take limit (order_by_desc a_timestamp (audits d)))"

end
