(* ===== verification/Delegation_Laws.thy ===== *)
theory Delegation_Laws
  imports Delegation_Queries
begin

text \<open>
  What the delegation queries guarantee. \<open>delegates\<close> is the relation from delegator to delegate
  over the grants that are not revoked; the stack search computes its reflexive-transitive
  closure, the cycle check decides it, cascade revocation removes exactly one subtree of it, and
  the expiry sweep leaves no expired grant behind.
\<close>

section \<open>The delegation relation\<close>

definition live :: "db \<Rightarrow> grant_row set" where
  "live d = {g \<in> set (grants d). g_revoked_at g = None}"

definition delegates :: "db \<Rightarrow> (ident \<times> ident) set" where
  "delegates d = (\<lambda>g. (g_delegator_id g, g_delegate_id g)) ` live d"

lemma finite_live [simp]: "finite (live d)"
  by (simp add: live_def)

lemma finite_delegates [simp]: "finite (delegates d)"
  by (simp add: delegates_def)

lemma delegates_Image: "delegates d `` {x} = g_delegate_id ` set (get_delegations_by_delegator d x False)"
  by (auto simp: delegates_def live_def get_delegations_by_delegator_set)

lemma delegates_edge: "g \<in> live d \<Longrightarrow> (g_delegator_id g, g_delegate_id g) \<in> delegates d"
  by (auto simp: delegates_def)

lemma subtree_bound: "(delegates d)\<^sup>* `` {x} \<subseteq> insert x (g_delegate_id ` live d)"
proof
  fix y assume "y \<in> (delegates d)\<^sup>* `` {x}"
  then have "(x, y) \<in> (delegates d)\<^sup>*" by simp
  then show "y \<in> insert x (g_delegate_id ` live d)"
    by (cases rule: rtranclE) (auto simp: delegates_def)
qed

lemma finite_subtree [simp]: "finite ((delegates d)\<^sup>* `` {x})"
  using subtree_bound by (rule finite_subset) simp

section \<open>Subtree search and cycle check\<close>

lemma rtrancl_Image_closed: "R `` A \<subseteq> A \<Longrightarrow> R\<^sup>* `` A = A"
  by (metis Image_closed_trancl)

lemma rtrancl_Image_add_successors:
  assumes "x \<in> A"
  shows "R\<^sup>* `` (A \<union> R `` {x}) = R\<^sup>* `` A"
  using assms by (auto intro: converse_rtrancl_into_rtrancl)

lemma subtree_loop_closure:
  assumes "set sk \<subseteq> set st" and "delegates d `` (set st - set sk) \<subseteq> set st"
  shows "set (subtree_loop d st sk) = (delegates d)\<^sup>* `` set st"
  using assms
proof (induction d st sk rule: subtree_loop.induct)
  case (1 d st)
  then show ?case using rtrancl_Image_closed [of "delegates d" "set st"] by simp
next
  case (2 d st x sk)
  define gs where "gs = get_delegations_by_delegator d x False"
  obtain st' sk' where v: "visit_grants gs (st, sk) = (st', sk')" by fastforce
  have st': "set st' = set st \<union> delegates d `` {x}"
    using visit_grants_props(1) [OF v] by (simp add: gs_def delegates_Image)
  obtain new where new: "sk' = new @ sk" "set new = delegates d `` {x} - set st"
    using visit_grants_props(2) [OF v] by (auto simp: gs_def delegates_Image)
  have "set sk' \<subseteq> set st'" using 2(2) new st' by auto
  moreover have "delegates d `` (set st' - set sk') \<subseteq> set st'"
    using 2(3) new st' by auto
  ultimately have "set (subtree_loop d st' sk') = (delegates d)\<^sup>* `` set st'"
    using 2(1) [OF v [unfolded gs_def, symmetric]] by simp
  moreover have "(delegates d)\<^sup>* `` set st' = (delegates d)\<^sup>* `` set st"
    unfolding st' using 2(2) by (intro rtrancl_Image_add_successors) auto
  ultimately show ?case using v by (simp add: gs_def)
qed

lemma get_delegation_subtree_closure:
  "set (get_delegation_subtree d x) = (delegates d)\<^sup>* `` {x}"
  using subtree_loop_closure [of "[x]" "[x]" d] by (simp add: get_delegation_subtree_def del: subtree_loop.simps)

lemma chain_loop_ancestors:
  "g \<in> set (chain_loop e d vis cur) \<Longrightarrow> (g_delegate_id g, cur) \<in> (delegates d)\<^sup>*"
proof (induction e d vis cur rule: chain_loop.induct)
  case (1 e d vis cur)
  from 1(2) obtain h where h: "cur \<notin> set vis" "get_delegation_grant e d cur = Some h"
    and g: "g = h \<or> g \<in> set (chain_loop e d (cur # vis) (g_delegator_id h))"
    unfolding chain_loop.simps [of e d vis cur]
    by (cases "get_delegation_grant e d cur") (auto split: if_splits)
  note hd = get_delegation_grantD [OF h(2)]
  have edge: "(g_delegator_id h, cur) \<in> delegates d"
    using hd by (auto simp: delegates_def live_def)
  show ?case
    using g 1(1) [OF h] hd(2) edge by (auto intro: rtrancl_into_rtrancl)
qed

lemma check_delegation_cycle_iff:
  "check_delegation_cycle e d a b \<longleftrightarrow> (b, a) \<in> (delegates d)\<^sup>*"
proof -
  have "(b, a) \<in> (delegates d)\<^sup>*" if "b \<in> set (a # map g_delegate_id (get_delegation_chain e d a))"
    using that chain_loop_ancestors [of _ e d "[]" a] by (auto simp: get_delegation_chain_def)
  then show ?thesis
    using get_delegation_subtree_closure [of d b] by (auto simp: check_delegation_cycle_def Let_def)
qed

section \<open>Cascade revocation\<close>

text \<open>
  The state the manager keeps: grant ids are unique, no worker holds two unrevoked grants, no
  unrevoked grant has run out (the sweep ran), and delegations are acyclic.
\<close>

definition delegation_inv :: "env \<Rightarrow> db \<Rightarrow> bool" where
  "delegation_inv e d = (distinct (map g_id (grants d)) \<and> inj_on g_delegate_id (live d)
     \<and> (\<forall>g \<in> live d. is_active e g) \<and> acyclic (delegates d))"

lemma delegation_inv_forest:
  assumes "delegation_inv e d"
  shows "forest (delegates d)"
proof -
  have "single_valued ((delegates d)\<inverse>)"
  proof (rule single_valuedI)
    fix x y z assume "(x, y) \<in> (delegates d)\<inverse>" and "(x, z) \<in> (delegates d)\<inverse>"
    then obtain g h where "g \<in> live d" "h \<in> live d" "g_delegate_id g = x" "g_delegate_id h = x"
      and yz: "y = g_delegator_id g" "z = g_delegator_id h"
      by (auto simp: delegates_def)
    then have "g = h" using assms by (auto simp: delegation_inv_def dest: inj_onD)
    then show "y = z" by (simp add: yz)
  qed
  then show ?thesis using assms by (simp add: forest_def delegation_inv_def)
qed

lemma get_delegation_grant_live:
  assumes "delegation_inv e d" and "g \<in> live d" and "g_delegate_id g = x"
  shows "get_delegation_grant e d x = Some g"
proof -
  have "g \<in> set (grants d)" "g_revoked_at g = None" using assms(2) by (auto simp: live_def)
  then obtain h where h: "fetchone (\<lambda>g. g_delegate_id g = x \<and> g_revoked_at g = None) (grants d) = Some h"
    using fetchone_ex [of g "grants d" "\<lambda>g. g_delegate_id g = x \<and> g_revoked_at g = None"] assms(3) by auto
  then have "h \<in> live d" "g_delegate_id h = x" by (auto simp: live_def dest: fetchone_SomeD)
  then have "h = g" using assms by (auto simp: delegation_inv_def inj_on_def)
  then show ?thesis using h assms by (simp add: get_delegation_grant_def delegation_inv_def)
qed

lemma children_distinct:
  assumes "delegation_inv e d"
  shows "distinct (map g_delegate_id (get_delegations_by_delegator d x False))"
proof -
  have "distinct (grants d)" using assms by (auto simp: delegation_inv_def distinct_map)
  then have "distinct (get_delegations_by_delegator d x False)"
    by (simp add: get_delegations_by_delegator_def order_by_def fetchall_def)
  moreover have "inj_on g_delegate_id (set (get_delegations_by_delegator d x False))"
    using assms by (auto simp: delegation_inv_def get_delegations_by_delegator_set live_def
        intro: inj_on_subset)
  ultimately show ?thesis by (simp add: distinct_map)
qed

text \<open>
  \<open>cut_off e A d d'\<close>: from \<open>d\<close> to \<open>d'\<close> exactly the grants to the workers in \<open>A\<close> were revoked and
  exactly those workers lost their authority.
\<close>

definition cut_off :: "env \<Rightarrow> ident set \<Rightarrow> db \<Rightarrow> db \<Rightarrow> bool" where
  "cut_off e A d d' = (map g_id (grants d') = map g_id (grants d)
     \<and> live d' = {g \<in> live d. g_delegate_id g \<notin> A}
     \<and> workers d' = map (\<lambda>r. if w_id r \<in> A then clear_row_authority (now e) r else r) (workers d))"

lemma cut_delegates: "cut_off e A d d' \<Longrightarrow> delegates d' = {(a, b) \<in> delegates d. b \<notin> A}"
  by (auto simp: cut_off_def delegates_def)

lemma cut_refl: "cut_off e {} d d"
  by (simp add: cut_off_def)

lemma clear_row_id [simp]: "w_id (clear_row_authority ts r) = w_id r"
  by (simp add: clear_row_authority_def)

lemma cut_trans:
  assumes "cut_off e A d d1" and "cut_off e B d1 d2" and "A \<inter> B = {}"
  shows "cut_off e (A \<union> B) d d2"
proof -
  have "workers d2 = map ((\<lambda>r. if w_id r \<in> B then clear_row_authority (now e) r else r) \<circ>
      (\<lambda>r. if w_id r \<in> A then clear_row_authority (now e) r else r)) (workers d)"
    using assms(1,2) by (simp add: cut_off_def)
  also have "\<dots> = map (\<lambda>r. if w_id r \<in> A \<union> B then clear_row_authority (now e) r else r) (workers d)"
    using assms(3) by (intro map_cong refl) (auto simp: clear_row_id)
  finally show ?thesis using assms(1,2) by (auto simp: cut_off_def)
qed

lemma cut_inv: "delegation_inv e d \<Longrightarrow> cut_off e A d d' \<Longrightarrow> delegation_inv e d'"
  using acyclic_subset [of "delegates d" "delegates d'"] cut_delegates [of e A d d']
  by (auto simp: delegation_inv_def cut_off_def inj_on_def)

lemma live_revoke_where:
  "live (revoke_grants_where p ts by reason d) = {h \<in> live d. \<not> p h}"
proof -
  have "(if p h then mark_revoked ts by reason h else h) = h" if "\<not> p h" for h
    using that by simp
  then show ?thesis
    by (force simp: live_def revoke_grants_where_def update_where_set mark_revoked_def split: if_splits)
qed

lemma live_revoke_id:
  "live (clear_authority ts x (revoke_grants_where (\<lambda>h. g_id h = i) ts by reason d)) =
     {h \<in> set (grants d). g_revoked_at h = None \<and> g_id h \<noteq> i}"
proof -
  have "live (clear_authority ts x d1) = live d1" for d1
    by (simp add: live_def clear_authority_def)
  then show ?thesis by (auto simp: live_revoke_where) (auto simp: live_def)
qed

lemma cut_one:
  assumes inv: "delegation_inv e d" and g: "g \<in> live d"
  shows "cut_off e {g_delegate_id g} d (clear_authority (now e) (g_delegate_id g)
           (revoke_grants_where (\<lambda>h. g_id h = g_id g) (now e) by reason d))"
proof -
  have same: "h = g" if "h \<in> set (grants d)" "g_id h = g_id g" for h
    using that inv g distinct_map_unique [of g_id "grants d" h g]
    by (auto simp: delegation_inv_def live_def)
  have only: "h = g" if "h \<in> live d" "g_delegate_id h = g_delegate_id g" for h
    using that inv g by (auto simp: delegation_inv_def inj_on_def)
  show ?thesis
    unfolding cut_off_def
  proof (intro conjI)
    have iff: "h \<in> live d \<and> g_delegate_id h \<noteq> g_delegate_id g \<longleftrightarrow>
        h \<in> set (grants d) \<and> g_revoked_at h = None \<and> g_id h \<noteq> g_id g" for h
      using same only g by (auto simp: live_def)
    have "live (clear_authority (now e) (g_delegate_id g)
        (revoke_grants_where (\<lambda>h. g_id h = g_id g) (now e) by reason d)) =
        {h \<in> set (grants d). g_revoked_at h = None \<and> g_id h \<noteq> g_id g}" (is "live ?d' = _")
      by (rule live_revoke_id)
    then show "live ?d' = {h \<in> live d. g_delegate_id h \<notin> {g_delegate_id g}}"
      using iff by simp
  qed (simp_all add: clear_authority_def revoke_grants_where_def grant_ids_update [OF mark_revoked_ok]
      update_where_def [where f = "clear_row_authority _"])
qed

text \<open>
  \<open>reports d A k res\<close>: the result lists every worker of \<open>A\<close> once and the ids of their grants; its
  cascade count is the number of workers less \<open>k\<close>, the number of top-level revocations.
\<close>

definition reports :: "db \<Rightarrow> ident set \<Rightarrow> int \<Rightarrow> revoke_result \<Rightarrow> bool" where
  "reports d A k res = (distinct (rr_affected_workers res) \<and> set (rr_affected_workers res) = A
     \<and> rr_cascade_count res + k = int (length (rr_affected_workers res))
     \<and> set (rr_revoked_grant_ids res) = g_id ` {g \<in> live d. g_delegate_id g \<in> A})"

lemma reports_append:
  assumes "reports d A 0 acc" and "reports d B 1 sub" and "A \<inter> B = {}"
  shows "reports d (A \<union> B) 0
    \<lparr>rr_revoked_grant_ids = rr_revoked_grant_ids acc @ rr_revoked_grant_ids sub,
     rr_cascade_count = rr_cascade_count acc + 1 + rr_cascade_count sub,
     rr_affected_workers = rr_affected_workers acc @ rr_affected_workers sub\<rparr>"
  using assms by (auto simp: reports_def)

lemma reports_cut:
  assumes "cut_off e D d d1" and "D \<inter> A = {}" and "reports d1 A k res"
  shows "reports d A k res"
proof -
  have "{g \<in> live d1. g_delegate_id g \<in> A} = {g \<in> live d. g_delegate_id g \<in> A}"
    using assms(1,2) by (auto simp: cut_off_def)
  then show ?thesis using assms(3) by (simp add: reports_def)
qed

text \<open>The loop over the children, relative to the database \<open>d\<close> it started from.\<close>

lemma revoke_each_cut:
  assumes inv: "delegation_inv e d"
    and call: "\<And>s dd. s \<in> set ss \<Longrightarrow> delegation_inv e dd \<Longrightarrow> s \<in> live dd \<Longrightarrow>
        (delegates dd)\<^sup>* `` {g_delegate_id s} = (delegates d)\<^sup>* `` {g_delegate_id s} \<Longrightarrow>
        \<exists>sub d'. f s dd = Some (Inr sub, d')
          \<and> cut_off e ((delegates d)\<^sup>* `` {g_delegate_id s}) dd d'
          \<and> reports dd ((delegates d)\<^sup>* `` {g_delegate_id s}) 1 sub"
    and "cut_off e D d dd" and "reports d D 0 acc"
    and "distinct (map g_delegate_id ss)"
    and "\<And>s. s \<in> set ss \<Longrightarrow> s \<in> live d \<and> g_delegator_id s = x
          \<and> (delegates d)\<^sup>* `` {g_delegate_id s} \<inter> D = {}"
  shows "\<exists>res d'. revoke_each f ss acc dd = Some (Inr res, d')
      \<and> cut_off e (D \<union> (delegates d)\<^sup>* `` (g_delegate_id ` set ss)) d d'
      \<and> reports d (D \<union> (delegates d)\<^sup>* `` (g_delegate_id ` set ss)) 0 res"
  using assms(2-)
proof (induction ss arbitrary: D dd acc)
  case Nil
  then show ?case by simp
next
  case (Cons s ss)
  let ?R = "delegates d" and ?B = "(delegates d)\<^sup>* `` {g_delegate_id s}"
  have s: "s \<in> live d" "g_delegator_id s = x" "?B \<inter> D = {}" using Cons.prems(5) by auto
  have inv': "delegation_inv e dd" using cut_inv [OF inv Cons.prems(2)] .
  have self: "g_delegate_id s \<in> ?B" by auto
  then have "s \<in> live dd" using s Cons.prems(2) by (auto simp: cut_off_def)
  moreover have "(delegates dd)\<^sup>* `` {g_delegate_id s} = ?B"
    using rtrancl_Image_cut [OF cut_delegates [OF Cons.prems(2)] s(3)] .
  ultimately obtain sub d1 where f: "f s dd = Some (Inr sub, d1)" and c: "cut_off e ?B dd d1"
    and r: "reports dd ?B 1 sub"
    using Cons.prems(1) [of s dd] inv' by auto
  define acc' where "acc' = \<lparr>rr_revoked_grant_ids = rr_revoked_grant_ids acc @ rr_revoked_grant_ids sub,
     rr_cascade_count = rr_cascade_count acc + 1 + rr_cascade_count sub,
     rr_affected_workers = rr_affected_workers acc @ rr_affected_workers sub\<rparr>"
  have DB: "D \<inter> ?B = {}" using s(3) by auto
  have c1: "cut_off e (D \<union> ?B) d d1" using cut_trans [OF Cons.prems(2) c DB] .
  have r1: "reports d (D \<union> ?B) 0 acc'"
    unfolding acc'_def using reports_append [OF Cons.prems(3) reports_cut [OF Cons.prems(2) DB r] DB] .
  have rest: "s' \<in> live d \<and> g_delegator_id s' = x
      \<and> ?R\<^sup>* `` {g_delegate_id s'} \<inter> (D \<union> ?B) = {}" if "s' \<in> set ss" for s'
  proof -
    have s': "s' \<in> live d" "g_delegator_id s' = x" "?R\<^sup>* `` {g_delegate_id s'} \<inter> D = {}"
      using Cons.prems(5) that by auto
    have "(x, g_delegate_id s') \<in> ?R" "(x, g_delegate_id s) \<in> ?R"
      using s s' delegates_edge by metis+
    moreover have "g_delegate_id s' \<noteq> g_delegate_id s" using Cons.prems(4) that by (auto simp: image_iff)
    ultimately show ?thesis
      using s' forest_siblings_disjoint [OF delegation_inv_forest [OF inv]] by blast
  qed
  have "\<exists>res d'. revoke_each f ss acc' d1 = Some (Inr res, d')
      \<and> cut_off e (D \<union> ?B \<union> ?R\<^sup>* `` (g_delegate_id ` set ss)) d d'
      \<and> reports d (D \<union> ?B \<union> ?R\<^sup>* `` (g_delegate_id ` set ss)) 0 res"
  proof (rule Cons.IH [OF _ c1 r1 _ rest])
    show "distinct (map g_delegate_id ss)" using Cons.prems(4) by simp
  qed (rule Cons.prems(1), simp_all)
  moreover have "D \<union> ?B \<union> ?R\<^sup>* `` (g_delegate_id ` set ss) = D \<union> ?R\<^sup>* `` (g_delegate_id ` set (s # ss))"
    by auto
  ultimately show ?case using f by (simp add: acc'_def)
qed

lemma revoke_cascade_enough:
  assumes "delegation_inv e d" and "g \<in> live d" and "g_delegate_id g = x"
    and "card ((delegates d)\<^sup>* `` {x}) \<le> n"
  shows "\<exists>res d'. revoke_delegation_grant n e x by reason True d = Some (Inr res, d')
      \<and> cut_off e ((delegates d)\<^sup>* `` {x}) d d' \<and> reports d ((delegates d)\<^sup>* `` {x}) 1 res"
  using assms
proof (induction n arbitrary: d g x reason)
  case 0
  then have "(delegates d)\<^sup>* `` {x} = {}" by simp
  then show ?case by auto
next
  case (Suc n)
  let ?R = "delegates d" and ?cs = "get_delegations_by_delegator d x False"
  note inv = Suc.prems(1) and g = Suc.prems(2,3)
  have cs: "s \<in> live d \<and> g_delegator_id s = x \<and> (x, g_delegate_id s) \<in> ?R" if "s \<in> set ?cs" for s
    using that by (auto simp: get_delegations_by_delegator_set delegates_def live_def)
  have small: "card (?R\<^sup>* `` {g_delegate_id s}) \<le> n" if "s \<in> set ?cs" for s
  proof -
    have "?R\<^sup>* `` {g_delegate_id s} \<subset> ?R\<^sup>* `` {x}"
      using cs [OF that] forest_root_not_below [OF delegation_inv_forest [OF inv], of x "g_delegate_id s"]
      by (auto intro: converse_rtrancl_into_rtrancl)
    then have "card (?R\<^sup>* `` {g_delegate_id s}) < card (?R\<^sup>* `` {x})" by (intro psubset_card_mono) simp_all
    then show ?thesis using Suc.prems(4) by simp
  qed
  let ?f = "\<lambda>s dd. revoke_delegation_grant n e (g_delegate_id s) by
                     (Some ''cascade: parent delegation revoked'') True dd"
  have "\<exists>res d'. revoke_each ?f ?cs empty_result d = Some (Inr res, d')
      \<and> cut_off e ({} \<union> ?R\<^sup>* `` (g_delegate_id ` set ?cs)) d d'
      \<and> reports d ({} \<union> ?R\<^sup>* `` (g_delegate_id ` set ?cs)) 0 res"
  proof (rule revoke_each_cut [OF inv, where x = x])
    fix s dd assume "s \<in> set ?cs" and "delegation_inv e dd" and "s \<in> live dd"
      and eq: "(delegates dd)\<^sup>* `` {g_delegate_id s} = ?R\<^sup>* `` {g_delegate_id s}"
    then show "\<exists>sub d'. ?f s dd = Some (Inr sub, d') \<and> cut_off e (?R\<^sup>* `` {g_delegate_id s}) dd d'
        \<and> reports dd (?R\<^sup>* `` {g_delegate_id s}) 1 sub"
      using Suc.IH [of dd s "g_delegate_id s"] small by auto
  qed (use cs cut_refl children_distinct [OF inv] in \<open>auto simp: reports_def empty_result_def\<close>)
  then obtain res d1 where loop: "revoke_each ?f ?cs empty_result d = Some (Inr res, d1)"
    and c: "cut_off e (?R\<^sup>* `` (?R `` {x})) d d1" and r: "reports d (?R\<^sup>* `` (?R `` {x})) 0 res"
    by (auto simp: delegates_Image)
  have notbelow: "x \<notin> ?R\<^sup>* `` (?R `` {x})"
    using forest_root_not_below [OF delegation_inv_forest [OF inv], of x] by auto
  have tree: "?R\<^sup>* `` {x} = ?R\<^sup>* `` (?R `` {x}) \<union> {x}" using rtrancl_Image_unfold [of ?R x] by auto
  have "g \<in> live d1" using c g notbelow by (auto simp: cut_off_def)
  then have "cut_off e {x} d1 (clear_authority (now e) x
      (revoke_grants_where (\<lambda>h. g_id h = g_id g) (now e) by reason d1))" (is "cut_off e {x} d1 ?d'")
    using cut_one [OF cut_inv [OF inv c], of g] g(2) by simp
  then have "cut_off e (?R\<^sup>* `` {x}) d ?d'"
    unfolding tree by (rule cut_trans [OF c]) (use notbelow in simp)
  moreover have "reports d (?R\<^sup>* `` {x}) 1
      (res\<lparr>rr_revoked_grant_ids := rr_revoked_grant_ids res @ [g_id g],
           rr_affected_workers := rr_affected_workers res @ [x]\<rparr>)"
  proof -
    have "{h \<in> live d. g_delegate_id h = x} = {g}"
      using g inv by (auto simp: delegation_inv_def inj_on_def)
    then have "g_id ` {h \<in> live d. g_delegate_id h \<in> ?R\<^sup>* `` {x}} =
        insert (g_id g) (g_id ` {h \<in> live d. g_delegate_id h \<in> ?R\<^sup>* `` (?R `` {x})})"
      unfolding tree by auto
    then show ?thesis using r notbelow unfolding tree by (auto simp: reports_def)
  qed
  ultimately show ?case
    using loop get_delegation_grant_live [OF inv g] by simp
qed

lemma subtree_card_grants:
  assumes "g \<in> live d" and "g_delegate_id g = x"
  shows "card ((delegates d)\<^sup>* `` {x}) \<le> length (grants d)"
proof -
  have "(delegates d)\<^sup>* `` {x} \<subseteq> g_delegate_id ` live d" using subtree_bound [of d x] assms by auto
  then have "card ((delegates d)\<^sup>* `` {x}) \<le> card (g_delegate_id ` live d)" by (intro card_mono) simp_all
  also have "\<dots> \<le> card (live d)" by (rule card_image_le) simp
  also have "\<dots> \<le> card (set (grants d))" by (intro card_mono) (auto simp: live_def)
  also have "\<dots> \<le> length (grants d)" by (rule card_length)
  finally show ?thesis .
qed

text \<open>
  C2: The cycle check decides reachability in the delegation relation: it answers true exactly
  when the proposed delegator is already reachable from the proposed delegate (or is the delegate
  itself), which is exactly when adding the grant to an acyclic relation would close a cycle.
\<close>

theorem cycle_check_correct:
  "(check_delegation_cycle e d delegator delegate \<longleftrightarrow> (delegate, delegator) \<in> (delegates d)\<^sup>*)
   \<and> set (get_delegation_subtree d delegate) = (delegates d)\<^sup>* `` {delegate}
   \<and> (acyclic (insert (delegator, delegate) (delegates d)) \<longleftrightarrow>
        acyclic (delegates d) \<and> \<not> check_delegation_cycle e d delegator delegate)"
  by (simp add: check_delegation_cycle_iff get_delegation_subtree_closure acyclic_insert)

lemma create_delegation_grant_ok:
  assumes "create_delegation_grant e fresh a b scope budget cli expires gid d = (Inr g, d')"
  shows "get_delegation_grant e d b = None"
    and "d' = d\<lparr>grants := grants d @ [g], audits := audits d @ [log_delegation_grant g]\<rparr>"
    and "g_delegator_id g = a" and "g_delegate_id g = b" and "g_revoked_at g = None"
    and "g_expires_at g = expires" and "g_scope g = scope" and "g_budget_amount g = budget"
    and "g_id g \<notin> g_id ` set (grants d)" and "a \<noteq> b" and "0 \<le> budget"
    and "worker_exists d a" and "worker_exists d b"
  using assms
  by (auto simp: create_delegation_grant_def Let_def insert_grant_row_def split: option.splits if_splits)

lemma create_delegation_grant_wf:
  assumes "db_wf d" and "create_delegation_grant e fresh a b scope budget cli expires gid d = (Inr g, d')"
  shows "db_wf d'"
proof -
  note c = create_delegation_grant_ok [OF assms(2)]
  have ex: "worker_exists d' = worker_exists d" "team_exists d' = team_exists d"
    by (auto simp: c(2) worker_exists_def team_exists_def)
  have tabs: "grants d' = grants d @ [g]" "audits d' = audits d @ [log_delegation_grant g]"
    "workers d' = workers d" by (simp_all add: c(2))
  show ?thesis
  proof (rule db_wfI)
    fix h assume "h \<in> set (grants d')"
    then have "h = g \<or> h \<in> set (grants d)" by (auto simp: tabs)
    then show "grant_ok d' h" and "\<exists>x \<in> set (audits d'). a_delegation_grant_id x = Some (g_id h)"
      using assms(1) c(3-) by (auto simp: db_wf_def grant_ok_def ex tabs log_delegation_grant_def)
  next
    fix r assume "r \<in> set (workers d')"
    then show "worker_ok d' r" using assms(1) by (auto simp: tabs db_wf_def worker_ok_def ex split: option.splits)
  qed (use assms(1) c(9) in \<open>auto simp: c(2) db_wf_def\<close>)
qed

lemma create_grant_facts:
  assumes "delegation_inv e d" and "db_wf d"
    and "\<not> check_delegation_cycle e d delegator delegate"
    and "case expires of None \<Rightarrow> True | Some x \<Rightarrow> now e \<le> x"
    and "create_delegation_grant e fresh delegator delegate scope budget cli expires gid d = (Inr g, d')"
  shows "delegation_inv e d' \<and> db_wf d' \<and> get_delegation_grant e d' delegate = Some g
    \<and> delegates d' = insert (delegator, delegate) (delegates d) \<and> live d' = insert g (live d)"
proof -
  note c = create_delegation_grant_ok [OF assms(5)]
  have live': "live d' = insert g (live d)" using c(5) by (auto simp: live_def c(2))
  have del': "delegates d' = insert (delegator, delegate) (delegates d)"
    using c(3,4) by (simp add: delegates_def live')
  have act: "is_active e g" using assms(4) c(5,6) by (auto simp: is_active_def split: option.splits)
  have none: "\<forall>h \<in> live d. g_delegate_id h \<noteq> delegate"
    using get_delegation_grant_live [OF assms(1)] c(1) by fastforce
  have "acyclic (delegates d')"
    using assms(1,3) by (simp add: del' acyclic_insert check_delegation_cycle_iff delegation_inv_def)
  moreover have "inj_on g_delegate_id (live d')"
    using assms(1) none c(4) by (auto simp: live' delegation_inv_def)
  ultimately have inv: "delegation_inv e d'"
    using assms(1) act c(9) by (auto simp: delegation_inv_def c(2) live' [unfolded c(2)])
  then show ?thesis
    using get_delegation_grant_live [OF inv _ c(4)] create_delegation_grant_wf [OF assms(2,5)]
      del' live' by simp
qed

text \<open>
  On a swept database, a grant that passes the cycle check and is created keeps the
  delegation invariant (unique ids, one unrevoked grant per worker, none run out, no cycle) and the
  schema's invariant; it is then the active grant of the delegate and adds exactly one edge.
\<close>

theorem create_grant_keeps_invariant:
  assumes "delegation_inv e d" and "db_wf d"
    and "\<not> check_delegation_cycle e d delegator delegate"
    and "case expires of None \<Rightarrow> True | Some x \<Rightarrow> now e \<le> x"
    and "create_delegation_grant e fresh delegator delegate scope budget cli expires gid d = (Inr g, d')"
  shows "delegation_inv e d' \<and> db_wf d' \<and> get_delegation_grant e d' delegate = Some g
    \<and> delegates d' = insert (delegator, delegate) (delegates d) \<and> live d' = insert g (live d)"
  using create_grant_facts [OF assms] .

lemma acyclic_empty [simp]: "acyclic {}"
  by (simp add: acyclic_def)

lemma org_db_live: "live org_db = {org_grant}"
proof -
  have "g_revoked_at org_grant = None" by (simp add: org_grant_def)
  then show ?thesis by (auto simp: live_def org_db_def)
qed

lemma org_db_delegates: "delegates org_db = {(''ceo'', ''mgr'')}"
  by (simp add: delegates_def org_db_live) (simp add: org_grant_def)

lemma org_db_delegation_inv: "delegation_inv witness_env org_db"
proof -
  have "acyclic (delegates org_db)" by (simp add: org_db_delegates acyclic_insert)
  moreover have "distinct (map g_id (grants org_db))" by (simp add: org_defs)
  moreover have "is_active witness_env org_grant" by (simp add: is_active_def org_grant_def)
  ultimately show ?thesis by (simp add: delegation_inv_def org_db_live)
qed

definition sub_grant :: grant_row where
  "sub_grant = \<lparr>g_id = ''deleg-2'', g_delegator_id = ''mgr'', g_delegate_id = ''eng'',
     g_scope = all_roles_scope, g_budget_amount = 5, g_granted_at = now witness_env, g_expires_at = None,
     g_revoked_at = None, g_revoked_by = None, g_revoke_reason = None,
     g_granted_by_cli_user = None, g_metadata = None\<rparr>"

definition tree_db :: db where
  "tree_db = org_db\<lparr>grants := [org_grant, sub_grant],
     audits := [log_delegation_grant org_grant, log_delegation_grant sub_grant]\<rparr>"

lemma tree_db_created:
  "create_delegation_grant witness_env ''deleg-2'' ''mgr'' ''eng'' all_roles_scope 5 None None None org_db =
     (Inr sub_grant, tree_db)"
  by (simp add: create_delegation_grant_def get_delegation_grant_def insert_grant_row_def worker_exists_def
      tree_db_def sub_grant_def org_defs Let_def)

lemma org_db_no_cycle: "\<not> check_delegation_cycle witness_env org_db ''mgr'' ''eng''"
  by (auto simp: check_delegation_cycle_iff org_db_delegates elim: converse_rtranclE)

theorem create_grant_keeps_invariant_witness:
  "delegation_inv witness_env tree_db \<and> get_delegation_grant witness_env tree_db ''eng'' = Some sub_grant"
  using create_grant_keeps_invariant [OF org_db_delegation_inv org_db_wf org_db_no_cycle _ tree_db_created]
  by simp

lemma tree_db_live: "live tree_db = {org_grant, sub_grant}"
proof -
  have "g_revoked_at org_grant = None" "g_revoked_at sub_grant = None"
    by (simp_all add: org_grant_def sub_grant_def)
  then show ?thesis by (auto simp: live_def tree_db_def)
qed

lemma tree_db_delegates: "delegates tree_db = {(''ceo'', ''mgr''), (''mgr'', ''eng'')}"
  by (simp add: delegates_def tree_db_live) (simp add: org_grant_def sub_grant_def)

lemma tree_db_delegation_inv: "delegation_inv witness_env tree_db"
proof -
  note l = tree_db_live
  have "acyclic (delegates tree_db)"
    by (auto simp: tree_db_delegates acyclic_insert elim: converse_rtranclE)
  moreover have "distinct (map g_id (grants tree_db))"
    by (simp add: tree_db_def org_grant_def sub_grant_def)
  moreover have "is_active witness_env org_grant" "is_active witness_env sub_grant"
    by (simp_all add: is_active_def org_grant_def sub_grant_def)
  ultimately show ?thesis by (simp add: delegation_inv_def l org_grant_def sub_grant_def)
qed



section \<open>Expiry\<close>

lemma expire_one_frame:
  "grants (expire_one e g d) = update_where (\<lambda>h. g_id h = g_id g)
     (mark_revoked (now e) ''system'' (Some ''expired'')) (grants d)"
  "workers (expire_one e g d) = update_where (\<lambda>r. w_id r = g_delegate_id g)
     (clear_row_authority (now e)) (workers d)"
  by (simp_all add: expire_one_def clear_authority_def revoke_grants_where_def)

lemma expire_fold_grants:
  "grants (fold (expire_one e) gs d) =
     map (\<lambda>h. if g_id h \<in> g_id ` set gs then mark_revoked (now e) ''system'' (Some ''expired'') h else h)
       (grants d)"
proof (induction gs arbitrary: d)
  case Nil
  show ?case by simp
next
  case (Cons g gs)
  have idem: "mark_revoked t b r (mark_revoked t b r h) = mark_revoked t b r h"
    and keep: "g_id (mark_revoked t b r h) = g_id h" for t b r h
    by (simp_all add: mark_revoked_def)
  show ?case
    by (auto simp: Cons.IH expire_one_frame update_where_def idem keep)
qed

lemma expire_fold_workers:
  "\<exists>f. workers (fold (expire_one e) gs d) = map f (workers d)
     \<and> (\<forall>r. w_id r \<notin> g_delegate_id ` set gs \<longrightarrow> f r = r)
     \<and> (\<forall>r. w_id r \<in> g_delegate_id ` set gs \<longrightarrow>
          w_hiring_authority_scope (f r) = None \<and> w_delegated_budget (f r) = 0)
     \<and> (\<forall>r. w_id (f r) = w_id r \<and> w_delegation_version r \<le> w_delegation_version (f r))"
proof (induction gs arbitrary: d)
  case Nil
  show ?case by (rule exI [of _ id]) simp
next
  case (Cons g gs)
  let ?c = "\<lambda>r. if w_id r = g_delegate_id g then clear_row_authority (now e) r else r"
  from Cons.IH [of "expire_one e g d"] obtain f where
    f: "workers (fold (expire_one e) gs (expire_one e g d)) = map f (workers (expire_one e g d))"
      "\<And>r. w_id r \<notin> g_delegate_id ` set gs \<Longrightarrow> f r = r"
      "\<And>r. w_id r \<in> g_delegate_id ` set gs \<Longrightarrow>
          w_hiring_authority_scope (f r) = None \<and> w_delegated_budget (f r) = 0"
      "\<And>r. w_id (f r) = w_id r \<and> w_delegation_version r \<le> w_delegation_version (f r)"
    by blast
  have c: "w_id (?c r) = w_id r" "w_delegation_version r \<le> w_delegation_version (?c r)" for r
    by (simp_all add: clear_row_authority_def)
  show ?case
  proof (intro exI [of _ "f \<circ> ?c"] conjI allI impI)
    show "workers (fold (expire_one e) (g # gs) d) = map (f \<circ> ?c) (workers d)"
      by (simp add: f(1) expire_one_frame(2) update_where_def)
  next
    fix r :: worker_row assume "w_id r \<notin> g_delegate_id ` set (g # gs)"
    then show "(f \<circ> ?c) r = r" using f(2) by simp
  next
    fix r :: worker_row assume r: "w_id r \<in> g_delegate_id ` set (g # gs)"
    show "w_hiring_authority_scope ((f \<circ> ?c) r) = None" and "w_delegated_budget ((f \<circ> ?c) r) = 0"
      using r f(2) [of "?c r"] f(3) [of "?c r"] c(1) [of r]
      by (cases "w_id r \<in> g_delegate_id ` set gs"; simp add: clear_row_authority_def)+
  next
    fix r :: worker_row
    show "w_id ((f \<circ> ?c) r) = w_id r" using f(4) c(1) by simp
    show "w_delegation_version r \<le> w_delegation_version ((f \<circ> ?c) r)"
      using f(4) [of "?c r"] c(2) [of r] by simp
  qed
qed

lemma expire_fold_audits:
  assumes "distinct (map g_id gs)" and "set gs \<subseteq> live d" and "distinct (map g_id (grants d))"
  shows "audits (fold (expire_one e) gs d) =
     audits d @ map (log_delegation_revoke (now e) ''system'' (Some ''expired'')) gs"
  using assms
proof (induction gs arbitrary: d)
  case Nil
  show ?case by simp
next
  case (Cons g gs)
  have g: "g \<in> set (grants d)" "g_revoked_at g = None" using Cons.prems(2) by (auto simp: live_def)
  have one: "filter (\<lambda>h. g_id h = g_id g \<and> g_revoked_at h = None) (grants d) = [g]"
    using filter_key_unique [OF Cons.prems(3) g(1), of "\<lambda>h. g_revoked_at h = None"] g(2) by simp
  have "live (expire_one e g d) = {h \<in> live d. g_id h \<noteq> g_id g}"
    unfolding expire_one_def live_revoke_id by (auto simp: live_def)
  moreover have "g_id h \<noteq> g_id g" if "h \<in> set gs" for h using Cons.prems(1) that by (auto simp: image_iff)
  ultimately have "set gs \<subseteq> live (expire_one e g d)" using Cons.prems(2) by auto
  moreover have "distinct (map g_id (grants (expire_one e g d)))"
    using Cons.prems(3) by (simp add: expire_one_frame(1) grant_ids_update)
  moreover have "audits (expire_one e g d) =
      audits d @ [log_delegation_revoke (now e) ''system'' (Some ''expired'') g]"
    by (simp add: expire_one_def clear_authority_def revoke_grants_where_def one)
  ultimately show ?case using Cons.IH [of "expire_one e g d"] Cons.prems(1) by simp
qed

lemma expire_delegations_facts:
  assumes "db_wf d" and "expire_delegations e d = (ids, d')"
  shows "ids = map g_id (filter (expired e) (grants d))
    \<and> live d' = {g \<in> live d. \<not> expired e g}
    \<and> (\<forall>g \<in> live d'. is_active e g)
    \<and> audits d' = audits d @ map (log_delegation_revoke (now e) ''system'' (Some ''expired''))
                               (filter (expired e) (grants d))
    \<and> (\<forall>j w. get_worker d j = Some w \<longrightarrow> (\<exists>w'. get_worker d' j = Some w'
          \<and> (if \<exists>g \<in> live d. expired e g \<and> g_delegate_id g = j
             then wk_hiring_authority_scope w' = None \<and> wk_delegated_budget w' = 0 else w' = w)))
    \<and> expire_delegations e d' = ([], d')"
proof -
  define rows where "rows = filter (expired e) (grants d)"
  have d': "d' = fold (expire_one e) rows d" and ids: "ids = map g_id rows"
    using assms(2) by (simp_all add: expire_delegations_def rows_def fetchall_def Let_def)
  have dist: "distinct (map g_id (grants d))" using assms(1) by (simp add: db_wf_def)
  have exp_live: "g \<in> live d" if "g \<in> set rows" for g
    using that by (auto simp: rows_def live_def expired_def split: option.splits)
  have in_rows: "g_id g \<in> g_id ` set rows \<longleftrightarrow> expired e g" if "g \<in> set (grants d)" for g
    using that distinct_map_unique [OF dist] by (auto simp: rows_def image_iff)
  have live': "live d' = {g \<in> live d. \<not> expired e g}"
    using in_rows unfolding live_def d' expire_fold_grants by (auto simp: mark_revoked_def image_iff)
  have act: "\<forall>g \<in> live d'. is_active e g"
    unfolding live' by (auto simp: live_def expired_def is_active_def split: option.splits)
  have aud: "audits d' = audits d @ map (log_delegation_revoke (now e) ''system'' (Some ''expired'')) rows"
    unfolding d' using exp_live dist
    by (intro expire_fold_audits) (auto simp: rows_def distinct_map_filter)
  have again: "expire_delegations e d' = ([], d')"
  proof -
    have "filter (expired e) (grants d') = []"
      using live' by (auto simp: filter_empty_conv live_def expired_def split: option.splits)
    then show ?thesis by (simp add: expire_delegations_def fetchall_def)
  qed
  have del: "(j \<in> g_delegate_id ` set rows) = (\<exists>g \<in> live d. expired e g \<and> g_delegate_id g = j)" for j
    using exp_live by (auto simp: rows_def live_def)
  obtain f where f: "workers d' = map f (workers d)"
    "\<And>r. w_id r \<notin> g_delegate_id ` set rows \<Longrightarrow> f r = r"
    "\<And>r. w_id r \<in> g_delegate_id ` set rows \<Longrightarrow>
        w_hiring_authority_scope (f r) = None \<and> w_delegated_budget (f r) = 0"
    "\<And>r. w_id (f r) = w_id r"
    using expire_fold_workers [of e rows d] unfolding d' by blast
  have "\<exists>w'. get_worker d' j = Some w'
      \<and> (if j \<in> g_delegate_id ` set rows
         then wk_hiring_authority_scope w' = None \<and> wk_delegated_budget w' = 0 else w' = w)"
    if w: "get_worker d j = Some w" for j w
  proof -
    obtain r where r: "fetchone (\<lambda>r. w_id r = j) (workers d) = Some r" "w = row_to_worker r"
      using w by (auto simp: get_worker_def)
    have "fetchone (\<lambda>r. w_id r = j) (map f rs) = map_option f (fetchone (\<lambda>r. w_id r = j) rs)" for rs
      by (induction rs) (auto simp: f(4))
    then have "get_worker d' j = Some (row_to_worker (f r))" by (simp add: get_worker_def f(1) r(1))
    moreover have "w_id r = j" using r(1) by (auto dest: fetchone_SomeD)
    ultimately show ?thesis using f(2,3) [of r] r(2) by (auto simp: row_to_worker_def)
  qed
  then show ?thesis using ids live' act aud again unfolding rows_def [symmetric] del by blast
qed

lemma expire_get_worker:
  assumes "db_wf d" and "expire_delegations e d = (ids, d')" and "get_worker d j = Some w"
  shows "\<exists>w'. get_worker d' j = Some w'
    \<and> (if \<exists>g \<in> live d. expired e g \<and> g_delegate_id g = j
       then wk_hiring_authority_scope w' = None \<and> wk_delegated_budget w' = 0 else w' = w)"
  using expire_delegations_facts [OF assms(1,2), THEN conjunct2, THEN conjunct2, THEN conjunct2,
      THEN conjunct2, THEN conjunct1, rule_format, OF assms(3)] .

text \<open>
  After the expiry sweep no unrevoked grant has an expiry date in the past; exactly the
  expired grants were revoked, each with one audit row, in order; exactly their delegates lost
  their hiring authority; and a second sweep at the same time finds nothing.
\<close>

theorem expiry_sweep_correct:
  assumes "db_wf d" and "expire_delegations e d = (ids, d')"
  shows "ids = map g_id (filter (expired e) (grants d))
    \<and> live d' = {g \<in> live d. \<not> expired e g}
    \<and> (\<forall>g \<in> live d'. is_active e g)
    \<and> audits d' = audits d @ map (log_delegation_revoke (now e) ''system'' (Some ''expired''))
                               (filter (expired e) (grants d))
    \<and> (\<forall>j w. get_worker d j = Some w \<longrightarrow> (\<exists>w'. get_worker d' j = Some w'
          \<and> (if \<exists>g \<in> live d. expired e g \<and> g_delegate_id g = j
             then wk_hiring_authority_scope w' = None \<and> wk_delegated_budget w' = 0 else w' = w)))
    \<and> expire_delegations e d' = ([], d')"
  using expire_delegations_facts [OF assms] .

text \<open>A database whose only grant ran out an hour ago.\<close>

definition stale_db :: db where
  "stale_db = org_db\<lparr>grants := [org_grant\<lparr>g_expires_at := Some (now witness_env - 3600)\<rparr>]\<rparr>"

lemma stale_db_wf: "db_wf stale_db"
  by (simp add: stale_db_def org_defs db_wf_def worker_ok_def grant_ok_def worker_exists_def team_exists_def)

theorem expiry_sweep_correct_witness:
  "fst (expire_delegations witness_env stale_db) = [''deleg-1'']
   \<and> live (snd (expire_delegations witness_env stale_db)) = {}"
proof -
  have ex: "filter (expired witness_env) (grants stale_db) =
      [org_grant\<lparr>g_expires_at := Some (now witness_env - 3600)\<rparr>]"
    by (simp add: stale_db_def expired_def org_grant_def)
  have "{g \<in> live stale_db. \<not> expired witness_env g} = {}"
    by (auto simp: live_def stale_db_def expired_def org_grant_def)
  then show ?thesis
    using expiry_sweep_correct [OF stale_db_wf, of witness_env "fst (expire_delegations witness_env stale_db)"
        "snd (expire_delegations witness_env stale_db)"] ex
    by (simp add: org_grant_def)
qed

section \<open>Optimistic locking\<close>

interpretation setdel: keyed_update w_id "set_row_delegation e scope budget by expires"
  by unfold_locales (simp add: set_row_delegation_def)

lemma update_delegation_facts:
  assumes "db_wf d"
  shows "case update_worker_delegation e i scope budget granter expires v d of (done, d') \<Rightarrow>
      (done \<longleftrightarrow> worker_exists d i \<and> get_worker_delegation_version d i = v)
      \<and> (\<not> done \<longrightarrow> d' = d)
      \<and> (done \<longrightarrow> get_worker_delegation_version d' i = v + 1
           \<and> (\<exists>w. get_worker d' i = Some w \<and> wk_hiring_authority_scope w = scope
                   \<and> wk_delegated_budget w = budget)
           \<and> update_worker_delegation e' i scope' budget' granter' expires' v d' = (False, d'))
      \<and> (\<forall>j. j \<noteq> i \<longrightarrow> get_worker d' j = get_worker d j)"
proof -
  define p where "p = (\<lambda>r :: worker_row. w_id r = i \<and> w_delegation_version r = v)"
  define d' where "d' = d\<lparr>workers := update_where p (set_row_delegation e scope budget granter expires) (workers d)\<rparr>"
  have u: "update_worker_delegation e i scope budget granter expires v d = (0 < rowcount p (workers d), d')"
    by (simp add: update_worker_delegation_def p_def d'_def Let_def)
  have dist: "distinct (map w_id (workers d))" using assms by (simp add: db_wf_def)
  have look: "fetchone (\<lambda>r. w_id r = j) (workers d') =
      map_option (\<lambda>r. if p r then set_row_delegation e scope budget granter expires r else r)
        (fetchone (\<lambda>r. w_id r = j) (workers d))" for j
    by (simp add: d'_def setdel.lookup_update)
  have hit: "0 < rowcount p (workers d) \<longleftrightarrow> worker_exists d i \<and> get_worker_delegation_version d i = v"
  proof (cases "fetchone (\<lambda>r. w_id r = i) (workers d)")
    case None
    then show ?thesis by (auto simp: rowcount_pos_iff p_def worker_exists_def fetchone_eq_None_iff)
  next
    case (Some r)
    then have r: "r \<in> set (workers d)" "w_id r = i" by (auto dest: fetchone_SomeD)
    then have "worker_exists d i" by (auto simp: worker_exists_def)
    moreover have "0 < rowcount p (workers d) \<longleftrightarrow> w_delegation_version r = v"
      unfolding rowcount_pos_iff p_def using r by (metis distinct_map_unique [OF dist])
    ultimately show ?thesis by (simp add: get_worker_delegation_version_def Some)
  qed
  have miss: "d' = d" if "\<not> 0 < rowcount p (workers d)"
  proof -
    have "update_where p f (workers d) = workers d" for f
      using that by (intro update_where_none) (auto simp: rowcount_pos_iff)
    then show ?thesis by (simp add: d'_def)
  qed
  have other: "get_worker d' j = get_worker d j" if "j \<noteq> i" for j
    using that by (cases "fetchone (\<lambda>r. w_id r = j) (workers d)")
      (auto simp: get_worker_def look p_def dest: fetchone_SomeD)
  have won: "get_worker_delegation_version d' i = v + 1
      \<and> (\<exists>w. get_worker d' i = Some w \<and> wk_hiring_authority_scope w = scope \<and> wk_delegated_budget w = budget)"
    if "0 < rowcount p (workers d)"
  proof -
    have "worker_exists d i" using that hit by simp
    then have "fetchone (\<lambda>r. w_id r = i) (workers d) \<noteq> None"
      by (auto simp: fetchone_eq_None_iff worker_exists_def)
    then obtain r where r: "fetchone (\<lambda>r. w_id r = i) (workers d) = Some r" by blast
    then have "p r" using that hit by (auto simp: p_def get_worker_delegation_version_def dest: fetchone_SomeD)
    then show ?thesis
      by (simp add: get_worker_delegation_version_def get_worker_def look r set_row_delegation_def
          row_to_worker_def p_def)
  qed
  have lost: "update_worker_delegation e' i scope' budget' granter' expires' v d' = (False, d')"
    if "0 < rowcount p (workers d)"
  proof -
    have none: "\<not> (w_id r = i \<and> w_delegation_version r = v)" if "r \<in> set (workers d')" for r
    proof -
      obtain x where "r = (if p x then set_row_delegation e scope budget granter expires x else x)"
        using \<open>r \<in> set (workers d')\<close> update_where_mem [of r p _ "workers d"]
        unfolding d'_def by auto
      then show ?thesis by (cases "p x") (simp_all add: p_def set_row_delegation_def)
    qed
    then show ?thesis
      by (auto simp: update_worker_delegation_def Let_def rowcount_pos_iff update_where_none)
  qed
  show ?thesis using u hit miss won lost other by auto
qed

text \<open>
  \<open>update_worker_delegation\<close> is a compare-and-swap on the delegation version: it succeeds
  exactly when the worker exists at the expected version, then writes the scope, budget and
  delegator, raises the version by one and touches no other worker; otherwise it changes nothing.
  So of two updates that read the same version the second fails without effect.
\<close>

theorem delegation_version_cas:
  assumes "db_wf d"
  shows "case update_worker_delegation e i scope budget granter expires v d of (done, d') \<Rightarrow>
      (done \<longleftrightarrow> worker_exists d i \<and> get_worker_delegation_version d i = v)
      \<and> (\<not> done \<longrightarrow> d' = d)
      \<and> (done \<longrightarrow> get_worker_delegation_version d' i = v + 1
           \<and> (\<exists>w. get_worker d' i = Some w \<and> wk_hiring_authority_scope w = scope
                   \<and> wk_delegated_budget w = budget)
           \<and> update_worker_delegation e' i scope' budget' granter' expires' v d' = (False, d'))
      \<and> (\<forall>j. j \<noteq> i \<longrightarrow> get_worker d' j = get_worker d j)"
  using update_delegation_facts [OF assms] .

theorem delegation_version_cas_witness:
  "fst (update_worker_delegation witness_env ''eng'' (Some all_roles_scope) 5 (Some ''mgr'') None 0 org_db)
   \<and> \<not> fst (update_worker_delegation witness_env ''eng'' None 0 None None 0
          (snd (update_worker_delegation witness_env ''eng'' (Some all_roles_scope) 5 (Some ''mgr'') None 0 org_db)))"
proof -
  have "worker_exists org_db ''eng''" "get_worker_delegation_version org_db ''eng'' = 0"
    by (simp_all add: worker_exists_def get_worker_delegation_version_def org_defs)
  then show ?thesis
    using delegation_version_cas [OF org_db_wf, where e = witness_env and i = "''eng''"
        and scope = "Some all_roles_scope" and budget = 5 and granter = "Some ''mgr''" and expires = None
        and v = 0 and e' = witness_env and scope' = None and budget' = 0 and granter' = None and expires' = None]
    by (auto split: prod.splits)
qed

section \<open>A cascade blocked by an expired sub-delegation\<close>

text \<open>
  When the oldest sub-delegation of a delegate has run out without having been swept, its
  holder has no active grant, so the cascade raises \<open>ValueError\<close> before the parent is revoked:
  the parent's grant stays in force and nothing is changed.
\<close>

theorem cascade_blocked_by_expired:
  assumes "get_delegation_grant e d x = Some g"
    and "get_delegations_by_delegator d x False = s # ss"
    and "get_delegation_grant e d (g_delegate_id s) = None"
  shows "revoke_delegation_grant (Suc (Suc n)) e x by reason True d =
     Some (raise (ValueError ''No active delegation found'') d)"
  using assms by simp

definition blocked_db :: db where
  "blocked_db = tree_db\<lparr>grants := [org_grant, sub_grant\<lparr>g_expires_at := Some (now witness_env - 1)\<rparr>]\<rparr>"

theorem cascade_blocked_by_expired_witness:
  "revoke_delegation_grant 2 witness_env ''mgr'' ''ceo'' None True blocked_db =
     Some (raise (ValueError ''No active delegation found'') blocked_db)
   \<and> get_delegation_grant witness_env blocked_db ''mgr'' = Some org_grant"
proof -
  have a: "get_delegation_grant witness_env blocked_db ''mgr'' = Some org_grant"
    by (simp add: get_delegation_grant_def blocked_db_def org_grant_def sub_grant_def is_active_def)
  have b: "get_delegations_by_delegator blocked_db ''mgr'' False =
      [sub_grant\<lparr>g_expires_at := Some (now witness_env - 1)\<rparr>]"
    by (simp add: get_delegations_by_delegator_def blocked_db_def org_grant_def sub_grant_def fetchall_def
        order_by_def)
  have c: "get_delegation_grant witness_env blocked_db
      (g_delegate_id (sub_grant\<lparr>g_expires_at := Some (now witness_env - 1)\<rparr>)) = None"
    by (simp add: get_delegation_grant_def blocked_db_def org_grant_def sub_grant_def is_active_def)
  show ?thesis
    using cascade_blocked_by_expired [OF a b c, of 0 "''ceo''" None] a by (simp add: numeral_2_eq_2)
qed

end
