(* ===== verification/Teams_Channels.thy ===== *)
theory Teams_Channels
  imports Worker_Queries "HOL-Library.Char_ord" "HOL-Library.List_Lexorder"
begin

text \<open>
  \<open>cli/core/queries/team.py\<close> and \<open>cli/core/queries/channels.py\<close>: teams, team membership, channels
  and subscriptions, with the access rules for subscribing to team, topic and direct channels.
  Columns of \<open>teams\<close> that these functions never name (template type, time to live, status) are not
  in the row. An unordered \<open>SELECT\<close> over a table with a composite key is modelled in insertion
  order; the statements proved below only speak of membership and counts there.
\<close>

section \<open>Channels\<close>

definition channel_type_of :: "string \<Rightarrow> channel_type option" where
  "channel_type_of s =
     (if s = ''team'' then Some TeamChannel else if s = ''topic'' then Some TopicChannel
      else if s = ''direct'' then Some DirectChannel else None)"

definition create_channel ::
  "env \<Rightarrow> ident \<Rightarrow> string \<Rightarrow> string \<Rightarrow> ident option \<Rightarrow> ident option \<Rightarrow> db \<Rightarrow> (db, channel_row) outcome" where
  "create_channel e fresh nm ty team cid d =
     (let i = (case cid of None \<Rightarrow> fresh | Some i \<Rightarrow> i)
      in case channel_type_of ty of
           None \<Rightarrow> raise (IntegrityError ''channels.type'') d
         | Some t \<Rightarrow>
             if channel_exists d i then raise (IntegrityError ''channels.id'') d
             else if (case team of None \<Rightarrow> False | Some tm \<Rightarrow> \<not> team_exists d tm)
               then raise (IntegrityError ''channels.team_id'') d
             else (let c = \<lparr>c_id = i, c_name = nm, c_type = t, c_team_id = team, c_created_at = now e\<rparr>
                   in ok c (d\<lparr>channels := channels d @ [c]\<rparr>)))"

definition get_channel :: "db \<Rightarrow> ident \<Rightarrow> channel_row option" where
  "get_channel d i = fetchone (\<lambda>c. c_id c = i) (channels d)"

definition get_channel_by_name :: "db \<Rightarrow> string \<Rightarrow> channel_row option" where
  "get_channel_by_name d nm = fetchone (\<lambda>c. ascii_lower (c_name c) = ascii_lower nm) (channels d)"

definition get_channel_subscribers :: "db \<Rightarrow> ident \<Rightarrow> ident list" where
  "get_channel_subscribers d i =
     map cs_worker_id (fetchall (\<lambda>s. cs_channel_id s = i) (subscriptions d))"

definition is_subscribed_to_channel :: "db \<Rightarrow> ident \<Rightarrow> ident \<Rightarrow> bool" where
  "is_subscribed_to_channel d c w =
     (fetchone (\<lambda>s. cs_channel_id s = c \<and> cs_worker_id s = w) (subscriptions d) \<noteq> None)"

definition can_subscribe_to_channel :: "db \<Rightarrow> ident \<Rightarrow> ident \<Rightarrow> bool \<times> string" where
  "can_subscribe_to_channel d cid wid =
     (case get_channel d cid of
        None \<Rightarrow> (False, ''Channel not found'')
      | Some c \<Rightarrow>
          (case get_worker d wid of
             None \<Rightarrow> (False, ''Worker not found'')
           | Some w \<Rightarrow>
               (case c_type c of
                  TopicChannel \<Rightarrow> (True, ''Topic channels are open to all'')
                | TeamChannel \<Rightarrow>
                    (case c_team_id c of
                       None \<Rightarrow> (False, ''Team channel has no team_id'')
                     | Some t \<Rightarrow>
                         if t = [] then (False, ''Team channel has no team_id'')
                         else if wk_team_id w = t then (True, ''Worker is in the team'')
                         else if fetchone (\<lambda>m. tm_team_id m = t \<and> tm_worker_id m = wid) (team_members d) \<noteq> None
                           then (True, ''Worker is a team member'')
                         else (False, ''Worker is not a member of the team''))
                | DirectChannel \<Rightarrow>
                    (let subs = get_channel_subscribers d cid
                     in if length subs < 2 \<and> length subs = 0
                          then (True, ''First participant in direct channel'')
                        else if length subs < 2 \<and> length subs = 1 \<and> wid \<notin> set subs
                          then (True, ''Second participant in direct channel'')
                        else if length subs < 2 \<and> wid \<in> set subs then (True, ''Already subscribed'')
                        else if wid \<in> set subs
                          then (True, ''Worker is a direct channel participant'')
                        else (False, ''Worker is not a participant in this direct channel'')))))"

text \<open>
  \<open>INSERT OR IGNORE\<close>: a row with the same key is kept as it is, but a foreign key that does not
  hold is still an error.
\<close>

definition insert_subscription :: "env \<Rightarrow> ident \<Rightarrow> ident \<Rightarrow> db \<Rightarrow> (db, unit) outcome" where
  "insert_subscription e c w d =
     (if is_subscribed_to_channel d c w then ok () d
      else if \<not> channel_exists d c \<or> \<not> worker_exists d w
        then raise (IntegrityError ''channel_subscriptions fk'') d
      else ok () (d\<lparr>subscriptions := subscriptions d @
             [\<lparr>cs_channel_id = c, cs_worker_id = w, cs_subscribed_at = now e\<rparr>]\<rparr>))"

definition subscribe_to_channel :: "env \<Rightarrow> ident \<Rightarrow> ident \<Rightarrow> bool \<Rightarrow> db \<Rightarrow> (db, unit) outcome" where
  "subscribe_to_channel e c w skip_validation d =
     (if skip_validation then insert_subscription e c w d
      else case can_subscribe_to_channel d c w of
             (False, reason) \<Rightarrow> raise (ChannelAccessError w c reason) d
           | (True, _) \<Rightarrow> insert_subscription e c w d)"

definition unsubscribe_from_channel :: "ident \<Rightarrow> ident \<Rightarrow> db \<Rightarrow> db" where
  "unsubscribe_from_channel c w d =
     d\<lparr>subscriptions := delete_where (\<lambda>s. cs_channel_id s = c \<and> cs_worker_id s = w) (subscriptions d)\<rparr>"

definition unsubscribe_from_all_channels :: "ident \<Rightarrow> db \<Rightarrow> nat \<times> db" where
  "unsubscribe_from_all_channels w d =
     (rowcount (\<lambda>s. cs_worker_id s = w) (subscriptions d),
      d\<lparr>subscriptions := delete_where (\<lambda>s. cs_worker_id s = w) (subscriptions d)\<rparr>)"

definition get_worker_channels :: "db \<Rightarrow> ident \<Rightarrow> channel_row list" where
  "get_worker_channels d w =
     concat (map (\<lambda>s. fetchall (\<lambda>c. c_id c = cs_channel_id s) (channels d))
       (fetchall (\<lambda>s. cs_worker_id s = w) (subscriptions d)))"

definition dm_name :: "ident \<Rightarrow> ident \<Rightarrow> string" where
  "dm_name a b =
     (let (x, y) = (if b < a then (b, a) else (a, b))
      in ''dm-'' @ take 8 x @ ''-'' @ take 8 y)"

definition create_direct_channel ::
  "env \<Rightarrow> ident \<Rightarrow> ident \<Rightarrow> ident \<Rightarrow> ident option \<Rightarrow> db \<Rightarrow> (db, channel_row) outcome" where
  "create_direct_channel e fresh a b cid d =
     (if get_worker d a = None then raise (ChannelAccessError a ''new'' ''Worker not found'') d
      else if get_worker d b = None then raise (ChannelAccessError b ''new'' ''Worker not found'') d
      else case get_channel_by_name d (dm_name a b) of
             Some c \<Rightarrow> ok c d
           | None \<Rightarrow>
               and_then (create_channel e fresh (dm_name a b) ''direct'' None cid d) (\<lambda>c d1.
               and_then (subscribe_to_channel e (c_id c) a True d1) (\<lambda>_ d2.
               and_then (subscribe_to_channel e (c_id c) b True d2) (\<lambda>_ d3. ok c d3))))"

definition get_or_create_direct_channel ::
  "env \<Rightarrow> ident \<Rightarrow> ident \<Rightarrow> ident \<Rightarrow> db \<Rightarrow> (db, channel_row) outcome" where
  "get_or_create_direct_channel e fresh a b d =
     (case get_channel_by_name d (dm_name a b) of
        Some c \<Rightarrow> ok c d
      | None \<Rightarrow> create_direct_channel e fresh a b None d)"

definition default_channels :: "(string \<times> string) list" where
  "default_channels = [(''general'', ''topic''), (''escalations'', ''topic''), (''activity-feed'', ''topic'')]"

text \<open>The loop, with the ids the calls to \<open>generate_id\<close> would draw as a function of the name.\<close>

fun create_missing_channels ::
  "env \<Rightarrow> (string \<Rightarrow> ident) \<Rightarrow> (string \<times> string) list \<Rightarrow> db \<Rightarrow> (db, channel_row list) outcome" where
  "create_missing_channels e fresh [] d = ok [] d"
| "create_missing_channels e fresh ((nm, ty) # rest) d =
     (case get_channel_by_name d nm of
        Some _ \<Rightarrow> create_missing_channels e fresh rest d
      | None \<Rightarrow> and_then (create_channel e (fresh nm) nm ty None None d) (\<lambda>c d1.
                and_then (create_missing_channels e fresh rest d1) (\<lambda>cs d2. ok (c # cs) d2)))"

definition create_default_org_channels ::
  "env \<Rightarrow> (string \<Rightarrow> ident) \<Rightarrow> db \<Rightarrow> (db, channel_row list) outcome" where
  "create_default_org_channels e fresh d = create_missing_channels e fresh default_channels d"

section \<open>Teams\<close>

definition insert_team_row :: "team_row \<Rightarrow> db \<Rightarrow> (db, unit) outcome" where
  "insert_team_row t d =
     (if team_exists d (t_id t) then raise (IntegrityError ''teams.id'') d
      else if (case t_parent_team_id t of None \<Rightarrow> False | Some p \<Rightarrow> p \<noteq> t_id t \<and> \<not> team_exists d p)
        then raise (IntegrityError ''teams.parent_team_id'') d
      else if (case t_lead_id t of None \<Rightarrow> False | Some w \<Rightarrow> \<not> worker_exists d w)
        then raise (IntegrityError ''teams.lead_id'') d
      else ok () (d\<lparr>teams := teams d @ [t]\<rparr>))"

definition team_channel_name :: "string \<Rightarrow> string" where
  "team_channel_name nm = map (\<lambda>c. if c = CHR '' '' then CHR ''-'' else c) (ascii_lower nm)"

definition create_team ::
  "env \<Rightarrow> ident \<Rightarrow> ident \<Rightarrow> string \<Rightarrow> ident option \<Rightarrow> ident option \<Rightarrow> ident option \<Rightarrow> bool \<Rightarrow> db
   \<Rightarrow> (db, team_row) outcome" where
  "create_team e fresh fresh_channel nm parent lead tid auto_create_channel d =
     (let i = (case tid of None \<Rightarrow> fresh | Some i \<Rightarrow> i);
          t = \<lparr>t_id = i, t_name = nm, t_parent_team_id = parent, t_lead_id = lead,
               t_channel_id = None, t_created_at = now e, t_template_type = None, t_ttl_hours = None,
               t_ttl_started_at = None, t_status = ''active''\<rparr>
      in and_then (insert_team_row t d) (\<lambda>_ d1.
           if auto_create_channel
           then and_then (create_channel e fresh_channel (team_channel_name nm) ''team'' (Some i) None d1)
                  (\<lambda>c d2. ok (t\<lparr>t_channel_id := Some (c_id c)\<rparr>)
                     (d2\<lparr>teams := update_where (\<lambda>t. t_id t = i)
                           (\<lambda>t. t\<lparr>t_channel_id := Some (c_id c)\<rparr>) (teams d2)\<rparr>))
           else ok t d1))"

definition get_team :: "db \<Rightarrow> ident \<Rightarrow> team_row option" where
  "get_team d i = fetchone (\<lambda>t. t_id t = i) (teams d)"

definition get_team_channel :: "db \<Rightarrow> ident \<Rightarrow> channel_row option" where
  "get_team_channel d i = fetchone (\<lambda>c. c_team_id c = Some i \<and> c_type c = TeamChannel) (channels d)"

definition get_team_children :: "db \<Rightarrow> ident \<Rightarrow> team_row list" where
  "get_team_children d i = fetchall (\<lambda>t. t_parent_team_id t = Some i) (teams d)"

definition get_all_teams :: "db \<Rightarrow> team_row list" where
  "get_all_teams d = order_by t_created_at (teams d)"

definition MEMBER_ROLES :: "string list" where
  "MEMBER_ROLES = [''member'', ''lead'', ''admin'']"

definition get_team_member :: "db \<Rightarrow> ident \<Rightarrow> ident \<Rightarrow> team_member_row option" where
  "get_team_member d t w = fetchone (\<lambda>m. tm_team_id m = t \<and> tm_worker_id m = w) (team_members d)"

definition add_team_member ::
  "env \<Rightarrow> ident \<Rightarrow> ident \<Rightarrow> string \<Rightarrow> db \<Rightarrow> (db, team_member_row) outcome" where
  "add_team_member e t w role d =
     (let m = \<lparr>tm_team_id = t, tm_worker_id = w, tm_role = role, tm_joined_at = now e\<rparr>
      in if role \<notin> set MEMBER_ROLES then raise (IntegrityError ''team_members.role'') d
         else if get_team_member d t w \<noteq> None then raise (IntegrityError ''team_members.key'') d
         else if \<not> team_exists d t \<or> \<not> worker_exists d w
           then raise (IntegrityError ''team_members fk'') d
         else ok m (d\<lparr>team_members := team_members d @ [m]\<rparr>))"

text \<open>An update to a role the \<open>CHECK\<close> refuses fails only when a row is updated.\<close>

definition update_team_member_role :: "ident \<Rightarrow> ident \<Rightarrow> string \<Rightarrow> db \<Rightarrow> (db, unit) outcome" where
  "update_team_member_role t w role d =
     (if role \<notin> set MEMBER_ROLES \<and> get_team_member d t w \<noteq> None
      then raise (IntegrityError ''team_members.role'') d
      else ok () (d\<lparr>team_members := update_where (\<lambda>m. tm_team_id m = t \<and> tm_worker_id m = w)
             (\<lambda>m. m\<lparr>tm_role := role\<rparr>) (team_members d)\<rparr>))"

definition remove_team_member :: "ident \<Rightarrow> ident \<Rightarrow> db \<Rightarrow> bool \<times> db" where
  "remove_team_member t w d =
     (0 < rowcount (\<lambda>m. tm_team_id m = t \<and> tm_worker_id m = w) (team_members d),
      d\<lparr>team_members := delete_where (\<lambda>m. tm_team_id m = t \<and> tm_worker_id m = w) (team_members d)\<rparr>)"

definition get_team_members_list :: "db \<Rightarrow> ident \<Rightarrow> team_member_row list" where
  "get_team_members_list d t = fetchall (\<lambda>m. tm_team_id m = t) (team_members d)"

definition get_worker_team_memberships :: "db \<Rightarrow> ident \<Rightarrow> team_member_row list" where
  "get_worker_team_memberships d w = fetchall (\<lambda>m. tm_worker_id m = w) (team_members d)"

definition get_team_members_by_role :: "db \<Rightarrow> ident \<Rightarrow> string \<Rightarrow> team_member_row list" where
  "get_team_members_by_role d t role = fetchall (\<lambda>m. tm_team_id m = t \<and> tm_role m = role) (team_members d)"

section \<open>Access to channels\<close>

lemma is_subscribed_iff: "is_subscribed_to_channel d c w \<longleftrightarrow> w \<in> set (get_channel_subscribers d c)"
  unfolding is_subscribed_to_channel_def
  by (auto simp: fetchone_eq_None_iff get_channel_subscribers_def)

lemma subscribers_append:
  "get_channel_subscribers (d\<lparr>subscriptions := subscriptions d @ [s]\<rparr>) c =
     get_channel_subscribers d c @ (if cs_channel_id s = c then [cs_worker_id s] else [])"
  by (simp add: get_channel_subscribers_def fetchall_def)

lemma get_channel_exists: "get_channel d c = Some ch \<Longrightarrow> channel_exists d c"
  by (auto simp: get_channel_def channel_exists_def dest: fetchone_SomeD)

lemma get_worker_exists: "get_worker d i = Some w \<Longrightarrow> worker_exists d i"
  by (auto simp: get_worker_def worker_exists_def dest: fetchone_SomeD)

text \<open>Who may join a channel, stated without the order of the code's tests.\<close>

definition may_join :: "db \<Rightarrow> channel_row \<Rightarrow> worker \<Rightarrow> bool" where
  "may_join d ch w =
     (case c_type ch of
        TopicChannel \<Rightarrow> True
      | TeamChannel \<Rightarrow> (\<exists>t. c_team_id ch = Some t \<and> t \<noteq> []
           \<and> (wk_team_id w = t \<or> get_team_member d t (wk_id w) \<noteq> None))
      | DirectChannel \<Rightarrow> length (get_channel_subscribers d (c_id ch)) < 2
           \<or> is_subscribed_to_channel d (c_id ch) (wk_id w))"

lemma can_subscribe_iff:
  "fst (can_subscribe_to_channel d c i) \<longleftrightarrow>
     (\<exists>ch w. get_channel d c = Some ch \<and> get_worker d i = Some w \<and> may_join d ch w)"
proof (cases "get_channel d c")
  case None
  then show ?thesis by (simp add: can_subscribe_to_channel_def)
next
  case (Some ch)
  note ch = Some
  have cid: "c_id ch = c" using Some by (auto simp: get_channel_def dest: fetchone_SomeD)
  show ?thesis
  proof (cases "get_worker d i")
    case None
    then show ?thesis by (simp add: can_subscribe_to_channel_def ch)
  next
    case (Some w)
    have wid: "wk_id w = i"
      using Some by (auto simp: get_worker_def row_to_worker_def dest: fetchone_SomeD)
    show ?thesis
    proof (cases "c_type ch")
      case TeamChannel
      then show ?thesis
        by (auto simp: can_subscribe_to_channel_def ch Some may_join_def wid get_team_member_def
            split: option.splits)
    next
      case TopicChannel
      then show ?thesis by (simp add: can_subscribe_to_channel_def ch Some may_join_def)
    next
      case DirectChannel
      have one: "length subs < 2 \<longleftrightarrow> length subs = 0 \<or> length subs = 1" for subs :: "ident list"
        by linarith
      show ?thesis
        using DirectChannel one [of "get_channel_subscribers d c"]
        by (auto simp: can_subscribe_to_channel_def ch Some may_join_def wid cid is_subscribed_iff Let_def)
    qed
  qed
qed

text \<open>
  A validated subscription succeeds exactly for an existing worker and channel the rules
  admit it to (topic: anyone; team: home team or team members; direct: a free seat or already in). After a
  success the worker is subscribed, a direct channel still has at most two participants and no
  other subscription changed; a refusal raises \<open>ChannelAccessError\<close> and changes nothing.
\<close>

theorem subscription_access_control:
  "case subscribe_to_channel e c i False d of
     (Inl x, d') \<Rightarrow> d' = d \<and> (\<exists>reason. x = ChannelAccessError i c reason)
        \<and> \<not> (\<exists>ch w. get_channel d c = Some ch \<and> get_worker d i = Some w \<and> may_join d ch w)
   | (Inr u, d') \<Rightarrow>
        (\<exists>ch w. get_channel d c = Some ch \<and> get_worker d i = Some w \<and> may_join d ch w
           \<and> (c_type ch = DirectChannel \<and> length (get_channel_subscribers d c) \<le> 2 \<longrightarrow>
                length (get_channel_subscribers d' c) \<le> 2))
        \<and> is_subscribed_to_channel d' c i
        \<and> (\<forall>c' i'. (c', i') \<noteq> (c, i) \<longrightarrow>
             is_subscribed_to_channel d' c' i' = is_subscribed_to_channel d c' i')"
proof (cases "can_subscribe_to_channel d c i")
  case (Pair can reason)
  show ?thesis
  proof (cases can)
    case False
    then show ?thesis
      using Pair can_subscribe_iff [of d c i] by (simp add: subscribe_to_channel_def)
  next
    case True
    then obtain ch w where cw: "get_channel d c = Some ch" "get_worker d i = Some w" "may_join d ch w"
      using Pair can_subscribe_iff [of d c i] by auto
    have cid: "c_id ch = c" using cw(1) by (auto simp: get_channel_def dest: fetchone_SomeD)
    have wid: "wk_id w = i"
      using cw(2) by (auto simp: get_worker_def row_to_worker_def dest: fetchone_SomeD)
    have sub: "subscribe_to_channel e c i False d = insert_subscription e c i d"
      using Pair True by (simp add: subscribe_to_channel_def)
    show ?thesis
    proof (cases "is_subscribed_to_channel d c i")
      case True
      then show ?thesis using cw by (simp add: sub insert_subscription_def)
    next
      case False
      let ?s = "\<lparr>cs_channel_id = c, cs_worker_id = i, cs_subscribed_at = now e\<rparr>"
      have out: "insert_subscription e c i d = ok () (d\<lparr>subscriptions := subscriptions d @ [?s]\<rparr>)"
        using False get_channel_exists [OF cw(1)] get_worker_exists [OF cw(2)]
        by (simp add: insert_subscription_def)
      have two: "length (get_channel_subscribers d c) < 2" if "c_type ch = DirectChannel"
        using that cw(3) False by (simp add: may_join_def cid wid)
      show ?thesis
        using cw two by (auto simp: sub out is_subscribed_iff subscribers_append)
    qed
  qed
qed

definition topic_db :: db where
  "topic_db = org_db\<lparr>channels := [\<lparr>c_id = ''chan-g'', c_name = ''general'', c_type = TopicChannel,
      c_team_id = None, c_created_at = 0\<rparr>]\<rparr>"

theorem subscription_access_control_witness:
  "is_subscribed_to_channel (snd (subscribe_to_channel witness_env ''chan-g'' ''eng'' False topic_db))
     ''chan-g'' ''eng''"
proof -
  have "\<exists>ch w. get_channel topic_db ''chan-g'' = Some ch \<and> get_worker topic_db ''eng'' = Some w
      \<and> may_join topic_db ch w"
    by (simp add: get_channel_def get_worker_def may_join_def topic_db_def org_defs)
  then show ?thesis
    using subscription_access_control [where e = witness_env and c = "''chan-g''" and i = "''eng''"
        and d = topic_db]
    by (auto split: prod.splits sum.splits)
qed

section \<open>Direct channels\<close>

definition subscriptions_wf :: "db \<Rightarrow> bool" where
  "subscriptions_wf d = (\<forall>s \<in> set (subscriptions d). channel_exists d (cs_channel_id s)
     \<and> worker_exists d (cs_worker_id s))"

lemma dm_name_commute: "dm_name a b = dm_name b a"
  by (auto simp: dm_name_def)

lemma get_channel_by_name_append:
  assumes "get_channel_by_name d nm = None" and "c_name c = nm"
  shows "get_channel_by_name (d\<lparr>channels := channels d @ [c]\<rparr>) nm = Some c"
  using assms by (simp add: get_channel_by_name_def)

text \<open>
  Asking for the direct channel of two distinct workers that have none creates one whose
  participants are exactly these two, and asking again, in either order, returns the same
  channel and changes nothing.
\<close>

theorem direct_channel_created:
  assumes "subscriptions_wf d" and "get_worker d a \<noteq> None" and "get_worker d b \<noteq> None" and "a \<noteq> b"
    and "get_channel_by_name d (dm_name a b) = None" and "\<not> channel_exists d fresh"
  shows "\<exists>c d'. get_or_create_direct_channel e fresh a b d = ok c d'
     \<and> c_type c = DirectChannel \<and> get_channel_subscribers d' (c_id c) = [a, b]
     \<and> get_or_create_direct_channel e fresh' a b d' = ok c d'
     \<and> get_or_create_direct_channel e fresh' b a d' = ok c d'"
proof -
  define c where "c = \<lparr>c_id = fresh, c_name = dm_name a b, c_type = DirectChannel,
      c_team_id = None, c_created_at = now e\<rparr>"
  define d1 where "d1 = d\<lparr>channels := channels d @ [c]\<rparr>"
  define s where "s = (\<lambda>w. \<lparr>cs_channel_id = fresh, cs_worker_id = w, cs_subscribed_at = now e\<rparr>)"
  define d3 where "d3 = d1\<lparr>subscriptions := subscriptions d @ [s a, s b]\<rparr>"
  have cr: "create_channel e fresh (dm_name a b) ''direct'' None None d = ok c d1"
    using assms(6) by (simp add: create_channel_def channel_type_of_def c_def d1_def Let_def)
  have none: "get_channel_subscribers d fresh = []"
    using assms(1,6) by (auto simp: get_channel_subscribers_def fetchall_def subscriptions_wf_def
        filter_empty_conv)
  have ex: "worker_exists d w" if "get_worker d w \<noteq> None" for w
    using that get_worker_exists by blast
  have sa: "subscribe_to_channel e fresh a True d1 = ok () (d1\<lparr>subscriptions := subscriptions d @ [s a]\<rparr>)"
    using none ex [OF assms(2)]
    by (simp add: subscribe_to_channel_def insert_subscription_def is_subscribed_iff d1_def
        channel_exists_def c_def s_def worker_exists_def get_channel_subscribers_def)
  have sb: "subscribe_to_channel e fresh b True (d1\<lparr>subscriptions := subscriptions d @ [s a]\<rparr>) = ok () d3"
    using none ex [OF assms(3)] assms(4)
    by (simp add: subscribe_to_channel_def insert_subscription_def is_subscribed_iff d1_def d3_def
        channel_exists_def c_def s_def worker_exists_def get_channel_subscribers_def fetchall_def)
  have "get_or_create_direct_channel e fresh a b d = ok c d3"
    using assms(2,3,5) cr sa sb by (simp add: get_or_create_direct_channel_def create_direct_channel_def c_def)
  moreover have "get_channel_by_name d3 (dm_name a b) = Some c"
    using get_channel_by_name_append [OF assms(5), of c]
    by (simp add: d3_def d1_def c_def get_channel_by_name_def)
  moreover have "get_channel_subscribers d3 fresh = [a, b]"
    using none by (simp add: d3_def d1_def get_channel_subscribers_def fetchall_def s_def)
  ultimately show ?thesis
    by (intro exI [of _ c] exI [of _ d3])
      (simp add: get_or_create_direct_channel_def dm_name_commute [of b a] c_def)
qed

lemma org_db_subscriptions_wf: "subscriptions_wf org_db"
  by (simp add: subscriptions_wf_def org_defs)

theorem direct_channel_created_witness:
  "\<exists>c d'. get_or_create_direct_channel witness_env ''chan-1'' ''mgr'' ''eng'' org_db = ok c d'
     \<and> get_channel_subscribers d' (c_id c) = [''mgr'', ''eng'']"
proof -
  have "get_worker org_db ''mgr'' \<noteq> None" "get_worker org_db ''eng'' \<noteq> None"
    "get_channel_by_name org_db (dm_name ''mgr'' ''eng'') = None" "\<not> channel_exists org_db ''chan-1''"
    by (simp_all add: get_worker_def get_channel_by_name_def channel_exists_def org_defs)
  then show ?thesis
    using direct_channel_created [OF org_db_subscriptions_wf, of "''mgr''" "''eng''" "''chan-1''" witness_env
        "''x''"]
    by auto
qed

text \<open>
  The name of a direct channel only keeps the first eight characters of each worker id. For
  two other workers whose ids agree with the first pair's on them, the call returns the first
  pair's channel, and neither of the two is added to it.
\<close>

theorem direct_channel_prefix_collision:
  assumes "get_channel_by_name d (dm_name a b) = Some c" and "a < b" and "a' < b'"
    and "take 8 a' = take 8 a" and "take 8 b' = take 8 b"
  shows "get_or_create_direct_channel e fresh a' b' d = ok c d"
proof -
  have "dm_name a' b' = dm_name a b" using assms(2-) by (auto simp: dm_name_def)
  then show ?thesis using assms(1) by (simp add: get_or_create_direct_channel_def)
qed

definition dm_db :: db where
  "dm_db = org_db\<lparr>channels := [\<lparr>c_id = ''chan-1'', c_name = ''dm-wrkr-1a2-wrkr-7f0'', c_type = DirectChannel,
      c_team_id = None, c_created_at = 0\<rparr>],
    subscriptions := [\<lparr>cs_channel_id = ''chan-1'', cs_worker_id = ''wrkr-1a2b3c4d'', cs_subscribed_at = 0\<rparr>,
      \<lparr>cs_channel_id = ''chan-1'', cs_worker_id = ''wrkr-7f0e1d2c'', cs_subscribed_at = 0\<rparr>]\<rparr>"

theorem direct_channel_prefix_collision_witness:
  "get_or_create_direct_channel witness_env ''x'' ''wrkr-1a2fffff'' ''wrkr-7f0fffff'' dm_db =
     ok (hd (channels dm_db)) dm_db
   \<and> \<not> is_subscribed_to_channel dm_db ''chan-1'' ''wrkr-1a2fffff''"
proof -
  have lt: "''wrkr-1a2b3c4d'' < ''wrkr-7f0e1d2c''" "''wrkr-1a2fffff'' < ''wrkr-7f0fffff''"
    by (simp_all add: less_char_def)
  have nm: "get_channel_by_name dm_db (dm_name ''wrkr-1a2b3c4d'' ''wrkr-7f0e1d2c'') = Some (hd (channels dm_db))"
    using lt(1) by (simp add: get_channel_by_name_def dm_db_def dm_name_def less_char_def)
  have "\<not> is_subscribed_to_channel dm_db ''chan-1'' ''wrkr-1a2fffff''"
    by (simp add: is_subscribed_to_channel_def dm_db_def)
  then show ?thesis
    using direct_channel_prefix_collision [OF nm lt, where e = witness_env and fresh = "''x''"] by simp
qed

section \<open>Creating a team\<close>

interpretation setchan: keyed_update t_id "\<lambda>t. t\<lparr>t_channel_id := c\<rparr>"
  by unfold_locales simp

definition channels_wf :: "db \<Rightarrow> bool" where
  "channels_wf d = (\<forall>c \<in> set (channels d). case c_team_id c of None \<Rightarrow> True | Some t \<Rightarrow> team_exists d t)"

text \<open>
  Creating a team with its channel succeeds when the id is new and parent and lead exist;
  the stored team is the returned one, \<open>get_team_channel\<close> finds the new channel under the
  lower-cased, dashed name, its id is stored in the team, and everyone whose home team this is
  may subscribe to it. Other teams and channels are unchanged.
\<close>

theorem create_team_correct:
  assumes "channels_wf d" and "\<not> team_exists d i" and "i \<noteq> []" and "\<not> channel_exists d ch"
    and "case parent of None \<Rightarrow> True | Some p \<Rightarrow> team_exists d p"
    and "case lead of None \<Rightarrow> True | Some w \<Rightarrow> worker_exists d w"
  shows "\<exists>t c d'. create_team e fresh ch nm parent lead (Some i) True d = ok t d'
     \<and> get_team d' i = Some t \<and> t_name t = nm \<and> t_channel_id t = Some ch
     \<and> get_team_channel d' i = Some c \<and> c_id c = ch \<and> c_name c = team_channel_name nm
     \<and> (\<forall>w. wk_team_id w = i \<longrightarrow> may_join d' c w)
     \<and> (\<forall>j. j \<noteq> i \<longrightarrow> get_team d' j = get_team d j \<and> get_team_channel d' j = get_team_channel d j)
     \<and> channels_wf d'"
proof -
  define t where "t = \<lparr>t_id = i, t_name = nm, t_parent_team_id = parent, t_lead_id = lead,
      t_channel_id = None, t_created_at = now e, t_template_type = None, t_ttl_hours = None,
               t_ttl_started_at = None, t_status = ''active''\<rparr>"
  define c where "c = \<lparr>c_id = ch, c_name = team_channel_name nm, c_type = TeamChannel,
      c_team_id = Some i, c_created_at = now e\<rparr>"
  define upd where "upd = (\<lambda>t :: team_row. t\<lparr>t_channel_id := Some ch\<rparr>)"
  define d1 where "d1 = d\<lparr>teams := teams d @ [t]\<rparr>"
  define d' where "d' = d1\<lparr>channels := channels d @ [c], teams := update_where (\<lambda>t. t_id t = i) upd (teams d @ [t])\<rparr>"
  have ins: "insert_team_row t d = ok () d1"
    using assms(2,5,6) by (auto simp: insert_team_row_def t_def d1_def split: option.splits)
  have cr: "create_channel e ch (team_channel_name nm) ''team'' (Some i) None d1 =
      ok c (d1\<lparr>channels := channels d @ [c]\<rparr>)"
    using assms(4) by (simp add: create_channel_def channel_type_of_def d1_def channel_exists_def
        team_exists_def t_def c_def Let_def)
  have out: "create_team e fresh ch nm parent lead (Some i) True d = ok (upd t) d'"
  proof -
    have "create_team e fresh ch nm parent lead (Some i) True d =
        ok (upd t) (d1\<lparr>channels := channels d @ [c],
             teams := update_where (\<lambda>t. t_id t = i) upd (teams d1)\<rparr>)"
      using ins cr by (simp add: create_team_def t_def [symmetric] Let_def) (simp add: upd_def c_def t_def)
    then show ?thesis by (simp add: d'_def d1_def)
  qed
  have none: "fetchone (\<lambda>t. t_id t = i) (teams d) = None"
    using assms(2) by (auto simp: fetchone_eq_None_iff team_exists_def)
  have teams': "get_team d' j = map_option (\<lambda>r. if t_id r = i then upd r else r) (get_team d1 j)" for j
    using setchan.lookup_update [of j "\<lambda>t. t_id t = i" "Some ch" "teams d @ [t]"]
    unfolding get_team_def d'_def d1_def upd_def by (simp del: update_where_append fetchone_append)
  have own: "get_team d' i = Some (upd t)"
    using none teams' [of i] by (simp add: get_team_def d1_def t_def)
  have other: "get_team d' j = get_team d j" if "j \<noteq> i" for j
    using that teams' [of j]
    by (cases "get_team d j") (auto simp: get_team_def d1_def t_def dest: fetchone_SomeD split: option.splits)
  have nochan: "fetchone (\<lambda>c. c_team_id c = Some i \<and> c_type c = TeamChannel) (channels d) = None"
    using assms(1,2) by (auto simp: fetchone_eq_None_iff channels_wf_def)
  have chan: "get_team_channel d' i = Some c"
    using nochan by (simp add: get_team_channel_def d'_def c_def)
  have chan_other: "get_team_channel d' j = get_team_channel d j" if "j \<noteq> i" for j
    using that by (simp add: get_team_channel_def d'_def c_def split: option.splits)
  have ids: "team_exists d' j \<longleftrightarrow> j = i \<or> team_exists d j" for j
  proof -
    have "teams d' = update_where (\<lambda>t. t_id t = i) (\<lambda>t. t\<lparr>t_channel_id := Some ch\<rparr>) (teams d @ [t])"
      by (simp add: d'_def upd_def)
    then have "map t_id (teams d') = map t_id (teams d @ [t])" using setchan.keys_update by metis
    then have "t_id ` set (teams d') = t_id ` set (teams d @ [t])" by (metis list.set_map)
    then show ?thesis by (auto simp: team_exists_def t_def)
  qed
  have wf: "channels_wf d'"
  proof -
    have "channels d' = channels d @ [c]" by (simp add: d'_def)
    then show ?thesis
      using assms(1) unfolding channels_wf_def by (auto simp: ids c_def split: option.splits)
  qed
  have "\<forall>w. wk_team_id w = i \<longrightarrow> may_join d' c w"
    using assms(3) by (simp add: may_join_def c_def)
  then show ?thesis
    using out own other chan chan_other wf by (intro exI) (auto simp: upd_def t_def c_def)
qed

theorem create_team_correct_witness:
  "\<exists>t d'. create_team witness_env ''x'' ''chan-p'' ''Platform Team'' (Some ''team-1'') (Some ''mgr'')
      (Some ''team-2'') True org_db = ok t d' \<and> t_channel_id t = Some ''chan-p''"
proof -
  have "channels_wf org_db" "\<not> team_exists org_db ''team-2''" "\<not> channel_exists org_db ''chan-p''"
    "team_exists org_db ''team-1''" "worker_exists org_db ''mgr''"
    by (simp_all add: channels_wf_def team_exists_def channel_exists_def worker_exists_def org_defs)
  then show ?thesis
    using create_team_correct [of org_db "''team-2''" "''chan-p''" "Some ''team-1''" "Some ''mgr''"
        witness_env "''x''" "''Platform Team''"] by auto
qed

end
