(* ===== verification/Hiring.thy ===== *)
theory Hiring
  imports Delegation_Laws Teams_Channels
begin

text \<open>
  \<open>cli/core/worker/hiring.py\<close> and the cached worker object of \<open>cli/core/worker/base.py\<close>. A
  \<open>Worker\<close> object is its id and the row it cached (\<open>_worker_data\<close>), which is only refreshed when it
  was dropped; operations take and return it beside the database. Creating the new worker's
  storage directory is the argument \<open>storage\<close>: the exception it raises, if any. Writing and
  committing the org chart file happens outside the database and its failures are swallowed.
\<close>

section \<open>Worker objects\<close>

record wobj =
  wo_id :: ident
  wo_data :: "worker option"

definition load_worker :: "db \<Rightarrow> wobj \<Rightarrow> (wobj, worker) outcome" where
  "load_worker d ob =
     (case get_worker d (wo_id ob) of
        None \<Rightarrow> raise (WorkerNotFound (wo_id ob)) (ob\<lparr>wo_data := None\<rparr>)
      | Some w \<Rightarrow> ok w (ob\<lparr>wo_data := Some w\<rparr>))"

text \<open>Every property getter: the cached row, loaded first when there is none.\<close>

definition worker_data :: "db \<Rightarrow> wobj \<Rightarrow> (wobj, worker) outcome" where
  "worker_data d ob = (case wo_data ob of None \<Rightarrow> load_worker d ob | Some w \<Rightarrow> ok w ob)"

lemma worker_data_id:
  assumes "worker_data d ob = (r, ob')"
  shows "wo_id ob' = wo_id ob"
  using assms by (auto simp: worker_data_def load_worker_def split: option.splits)

definition can_work :: "db \<Rightarrow> wobj \<Rightarrow> runtime_status option \<Rightarrow> (wobj, bool) outcome" where
  "can_work d ob runtime =
     and_then (worker_data d ob) (\<lambda>w ob1.
       if wk_status w \<noteq> Active then ok False ob1
       else case runtime of None \<Rightarrow> ok True ob1
            | Some rs \<Rightarrow> ok (rs \<noteq> Stopped \<and> rs \<noteq> Crashed) ob1)"

section \<open>Hiring scope\<close>

text \<open>The set of allowed roles is the list of its elements in iteration order.\<close>

record hiring_scope =
  hs_allowed_roles :: "string list"
  hs_max_cost :: int
  hs_max_total_budget :: int

definition to_json :: "hiring_scope \<Rightarrow> json" where
  "to_json s = JObj [(''allowed_roles'', JList (map JStr (hs_allowed_roles s))),
     (''max_cost'', JInt (hs_max_cost s)), (''max_total_budget'', JInt (hs_max_total_budget s))]"

fun json_str :: "json \<Rightarrow> string option" where
  "json_str (JStr s) = Some s"
| "json_str _ = None"

fun json_strs :: "json list \<Rightarrow> string list option" where
  "json_strs [] = Some []"
| "json_strs (j # js) =
     (case (json_str j, json_strs js) of (Some s, Some ss) \<Rightarrow> Some (s # ss) | _ \<Rightarrow> None)"

text \<open>
  \<open>from_json\<close>. Roles have to be a list of strings and the limits integers, as \<open>to_json\<close> writes
  them; a value of another shape is a type error (the code meets it when it uses the field).
\<close>

definition from_json :: "json option \<Rightarrow> py_error + hiring_scope" where
  "from_json j =
     (case j of
        None \<Rightarrow> Inr \<lparr>hs_allowed_roles = [], hs_max_cost = 0, hs_max_total_budget = 0\<rparr>
      | Some (JObj kv) \<Rightarrow>
          (let get = (\<lambda>k dflt. case map_of kv k of None \<Rightarrow> dflt | Some v \<Rightarrow> v)
           in case (get ''allowed_roles'' (JList []), get ''max_cost'' (JInt 0),
                    get ''max_total_budget'' (JInt 0)) of
                (JList rs, JInt c, JInt b) \<Rightarrow>
                  (case json_strs rs of
                     None \<Rightarrow> Inl (TypeError ''allowed_roles'')
                   | Some roles \<Rightarrow> Inr \<lparr>hs_allowed_roles = remdups roles, hs_max_cost = c,
                                       hs_max_total_budget = b\<rparr>)
              | _ \<Rightarrow> Inl (TypeError ''hiring scope''))
      | Some _ \<Rightarrow> Inl (AttributeError ''get''))"

definition can_hire_role :: "hiring_scope \<Rightarrow> string \<Rightarrow> bool" where
  "can_hire_role s role =
     (if ''*'' \<in> set (hs_allowed_roles s) then True else role \<in> set (hs_allowed_roles s))"

definition can_afford_cost :: "hiring_scope \<Rightarrow> int \<Rightarrow> bool" where
  "can_afford_cost s cost = (cost \<le> hs_max_cost s)"

section \<open>May a worker hire\<close>

datatype hire_reason =
    HireOK
  | NoAllowedRoles
  | RoleNotAllowed string "string list"
  | CostExceeds int int
  | MaxReportsReached int int
  | BudgetExceeded int int int

definition get_direct_reports_count :: "db \<Rightarrow> ident \<Rightarrow> int" where
  "get_direct_reports_count d i = int (length (get_workers_by_manager d i))"

text \<open>\<open>SELECT COALESCE(SUM(cost), 0) FROM workers WHERE manager_id = ? AND status != 'terminated'\<close>.\<close>

definition cumulative_cost :: "db \<Rightarrow> ident \<Rightarrow> int" where
  "cumulative_cost d i =
     sum_list (map w_cost (fetchall (\<lambda>r. w_manager_id r = Some i \<and> w_status r \<noteq> Terminated) (workers d)))"

definition hire_decision :: "db \<Rightarrow> ident \<Rightarrow> worker \<Rightarrow> hiring_scope \<Rightarrow> string \<Rightarrow> int \<Rightarrow> hire_reason" where
  "hire_decision d i w scope role cost =
     (if hs_allowed_roles scope = [] then NoAllowedRoles
      else if \<not> can_hire_role scope role then RoleNotAllowed role (hs_allowed_roles scope)
      else if \<not> can_afford_cost scope cost then CostExceeds cost (hs_max_cost scope)
      else let current = get_direct_reports_count d i
           in if wk_max_reports w \<le> current then MaxReportsReached current (wk_max_reports w)
              else if 0 < hs_max_total_budget scope
                      \<and> hs_max_total_budget scope < cumulative_cost d i + cost
                then BudgetExceeded (cumulative_cost d i) cost (hs_max_total_budget scope)
              else HireOK)"

definition can_hire ::
  "env \<Rightarrow> string \<Rightarrow> int \<Rightarrow> db \<times> wobj \<Rightarrow> (db \<times> wobj, hire_reason) outcome" where
  "can_hire e role cost st =
     (case st of (d, ob) \<Rightarrow>
        let d1 = snd (expire_delegations e d)
        in case worker_data d1 (ob\<lparr>wo_data := None\<rparr>) of
             (Inl x, ob1) \<Rightarrow> raise x (d1, ob1)
           | (Inr w, ob1) \<Rightarrow>
               (case from_json (wk_hiring_authority_scope w) of
                  Inl x \<Rightarrow> raise x (d1, ob1)
                | Inr scope \<Rightarrow> ok (hire_decision d1 (wo_id ob) w scope role cost) (d1, ob1)))"

text \<open>
  The text of a refusal contains \<open>Max reports\<close> when it is that refusal, but also when the role
  asked for or one of the allowed roles has these words, because the message quotes them.
\<close>

definition mentions_max_reports :: "hire_reason \<Rightarrow> bool" where
  "mentions_max_reports r =
     (case r of
        MaxReportsReached _ _ \<Rightarrow> True
      | RoleNotAllowed role roles \<Rightarrow> contains_str ''Max reports'' role
          \<or> (\<exists>x \<in> set roles. contains_str ''Max reports'' x)
      | _ \<Rightarrow> False)"

definition hire_reason_tag :: "hire_reason \<Rightarrow> string" where
  "hire_reason_tag r =
     (case r of HireOK \<Rightarrow> ''OK'' | NoAllowedRoles \<Rightarrow> ''no allowed roles''
      | RoleNotAllowed _ _ \<Rightarrow> ''role not allowed'' | CostExceeds _ _ \<Rightarrow> ''cost exceeds max allowed cost''
      | MaxReportsReached _ _ \<Rightarrow> ''Max reports reached'' | BudgetExceeded _ _ _ \<Rightarrow> ''Budget exceeded'')"

section \<open>Hiring\<close>

definition hire_payload :: "worker \<Rightarrow> string \<Rightarrow> string \<Rightarrow> ident \<Rightarrow> int \<Rightarrow> json" where
  "hire_payload w nm role mgr cost =
     JObj [(''worker_id'', JStr (wk_id w)), (''name'', JStr nm), (''role'', JStr role),
           (''manager_id'', JStr mgr), (''cost'', JInt cost)]"

text \<open>The part of \<open>hire\<close> after the worker and its storage exist.\<close>

definition enroll_hire :: "env \<Rightarrow> ident \<Rightarrow> ident \<Rightarrow> json \<Rightarrow> db \<Rightarrow> (db, unit) outcome" where
  "enroll_hire e team i payload d =
     and_then (add_team_member e team i ''member'' d) (\<lambda>_ d3.
     and_then (case get_team_channel d3 team of
                 None \<Rightarrow> ok () d3
               | Some c \<Rightarrow> subscribe_to_channel e (c_id c) i False d3) (\<lambda>_ d4.
     if bus_set e then bus_publish e ''worker.hired'' ''worker'' i payload None d4
     else ok () d4))"

definition hire ::
  "env \<Rightarrow> ident \<Rightarrow> (ident \<Rightarrow> py_error option) \<Rightarrow> string \<Rightarrow> string \<Rightarrow> (string \<times> int) list \<Rightarrow> int
   \<Rightarrow> db \<times> wobj \<Rightarrow> (db \<times> wobj, wobj) outcome" where
  "hire e fresh storage nm role skills cost st =
     and_then (can_hire e role cost st) (\<lambda>reason st1.
       case st1 of (d1, ob) \<Rightarrow>
       (case worker_data d1 ob of
          (Inl x, ob1) \<Rightarrow> raise x (d1, ob1)
        | (Inr w, ob1) \<Rightarrow>
          if reason \<noteq> HireOK
          then if mentions_max_reports reason
               then raise (MaxReportsExceeded (get_direct_reports_count d1 (wo_id ob1)) (wk_max_reports w))
                      (d1, ob1)
               else raise (InsufficientHiringAuthority (hire_reason_tag reason)) (d1, ob1)
          else
            (case create_worker e fresh
                    \<lparr>nw_name = nm, nw_role = role, nw_team_id = wk_team_id w, nw_cost = cost,
                     nw_manager_id = Some (wo_id ob1), nw_skills = Some skills, nw_worker_id = None,
                     nw_hiring_authority_scope = None, nw_delegated_budget = 0, nw_max_reports = 10,
                     nw_preferred_provider = None\<rparr> d1 of
               (Inl x, d2) \<Rightarrow> raise x (d2, ob1)
             | (Inr nw, d2) \<Rightarrow>
                 (case storage (wk_id nw) of
                    Some x \<Rightarrow> raise x (d2, ob1)
                  | None \<Rightarrow>
                      (case enroll_hire e (wk_team_id w) (wk_id nw)
                              (hire_payload nw nm role (wo_id ob1) cost) d2 of
                         (Inl x, d5) \<Rightarrow> raise x (d5, ob1)
                       | (Inr _, d5) \<Rightarrow> ok \<lparr>wo_id = wk_id nw, wo_data = Some nw\<rparr> (d5, ob1))))))"

section \<open>Scope round trip\<close>

lemma json_strs_map [simp]: "json_strs (map JStr rs) = Some rs"
  by (induction rs) auto

text \<open>
  A hiring scope survives the trip through its JSON column, whatever the order of its
  roles; a missing column is the empty scope, which allows no role at all.
\<close>

theorem hiring_scope_roundtrip:
  assumes "distinct (hs_allowed_roles s)"
  shows "from_json (Some (to_json s)) = Inr s
    \<and> (\<exists>s0. from_json None = Inr s0 \<and> (\<forall>role. \<not> can_hire_role s0 role))"
  using assms by (simp add: from_json_def to_json_def Let_def can_hire_role_def distinct_remdups_id)

theorem hiring_scope_roundtrip_witness:
  "from_json (Some (to_json \<lparr>hs_allowed_roles = [''engineer'', ''analyst''], hs_max_cost = 60,
      hs_max_total_budget = 200\<rparr>)) =
    Inr \<lparr>hs_allowed_roles = [''engineer'', ''analyst''], hs_max_cost = 60, hs_max_total_budget = 200\<rparr>"
proof -
  have "distinct (hs_allowed_roles \<lparr>hs_allowed_roles = [''engineer'', ''analyst''], hs_max_cost = 60,
      hs_max_total_budget = 200\<rparr>)" by simp
  from hiring_scope_roundtrip [OF this] show ?thesis by blast
qed

section \<open>What a successful hire did\<close>

lemma add_team_member_ok:
  assumes "add_team_member e t w role d = (Inr m, d')"
  shows "d' = d\<lparr>team_members := team_members d @ [m]\<rparr>"
    and "tm_team_id m = t" and "tm_worker_id m = w" and "tm_role m = role"
  using assms by (auto simp: add_team_member_def Let_def split: if_splits)

lemma subscribe_frame:
  "\<exists>subs. snd (subscribe_to_channel e c w skip d) = d\<lparr>subscriptions := subs\<rparr>"
proof -
  have self: "\<exists>subs. d = d\<lparr>subscriptions := subs\<rparr>" by (rule exI [of _ "subscriptions d"]) simp
  then show ?thesis
    by (auto simp: subscribe_to_channel_def insert_subscription_def split: prod.splits bool.splits)
qed

lemma subscribe_false_subscribed:
  assumes "subscribe_to_channel e c w False d = (Inr u, d')"
  shows "is_subscribed_to_channel d' c w"
  using assms by (auto simp: subscribe_to_channel_def insert_subscription_def is_subscribed_iff
      subscribers_append split: prod.splits bool.splits if_splits)

lemma expire_delegations_frame:
  "teams (snd (expire_delegations e d)) = teams d"
  "channels (snd (expire_delegations e d)) = channels d"
  "team_members (snd (expire_delegations e d)) = team_members d"
  "subscriptions (snd (expire_delegations e d)) = subscriptions d"
proof -
  have one: "teams (expire_one e g x) = teams x" "channels (expire_one e g x) = channels x"
    "team_members (expire_one e g x) = team_members x" "subscriptions (expire_one e g x) = subscriptions x"
    for g x by (simp_all add: expire_one_def clear_authority_def revoke_grants_where_def)
  have "teams (fold (expire_one e) gs x) = teams x \<and> channels (fold (expire_one e) gs x) = channels x
      \<and> team_members (fold (expire_one e) gs x) = team_members x
      \<and> subscriptions (fold (expire_one e) gs x) = subscriptions x" for gs x
    by (induction gs arbitrary: x) (simp_all add: one)
  then show "teams (snd (expire_delegations e d)) = teams d"
    "channels (snd (expire_delegations e d)) = channels d"
    "team_members (snd (expire_delegations e d)) = team_members d"
    "subscriptions (snd (expire_delegations e d)) = subscriptions d"
    by (simp_all add: expire_delegations_def Let_def)
qed

lemma expire_delegations_wf:
  assumes "db_wf d"
  shows "db_wf (snd (expire_delegations e d))"
proof -
  have "db_wf x \<Longrightarrow> db_wf (fold (expire_one e) gs x)" for gs x
    by (induction gs arbitrary: x) (simp_all add: expire_one_def wf_clear_authority wf_revoke_grants_where)
  then show ?thesis using assms by (simp add: expire_delegations_def Let_def)
qed

lemma can_hire_ok:
  assumes "can_hire e role cost (d, ob) = (Inr reason, st1)"
  obtains w scope where "get_worker (snd (expire_delegations e d)) (wo_id ob) = Some w"
    and "from_json (wk_hiring_authority_scope w) = Inr scope"
    and "reason = hire_decision (snd (expire_delegations e d)) (wo_id ob) w scope role cost"
    and "st1 = (snd (expire_delegations e d), \<lparr>wo_id = wo_id ob, wo_data = Some w\<rparr>)"
  using assms
  by (cases ob) (auto simp: can_hire_def worker_data_def load_worker_def Let_def
      split: prod.splits option.splits sum.splits)

lemma hire_decision_OK:
  assumes "hire_decision d i w scope role cost = HireOK"
  shows "can_hire_role scope role" and "cost \<le> hs_max_cost scope"
    and "get_direct_reports_count d i < wk_max_reports w"
    and "0 < hs_max_total_budget scope \<Longrightarrow> cumulative_cost d i + cost \<le> hs_max_total_budget scope"
  using assms by (auto simp: hire_decision_def Let_def can_afford_cost_def split: if_splits)

definition hired_row :: "env \<Rightarrow> ident \<Rightarrow> ident \<Rightarrow> worker \<Rightarrow> string \<Rightarrow> string \<Rightarrow> (string \<times> int) list \<Rightarrow> int \<Rightarrow> worker_row" where
  "hired_row e fresh mgr w nm role skills cost =
     \<lparr>w_id = fresh, w_name = nm, w_role = role, w_team_id = wk_team_id w, w_manager_id = Some mgr,
      w_status = Pending, w_skills = skills, w_cost = cost, w_hiring_authority_scope = None,
      w_delegated_budget = 0, w_max_reports = 10, w_delegation_version = 0, w_delegated_by = None,
      w_delegation_expires_at = None, w_offboarding_ask_bead_id = None, w_preferred_provider = None,
      w_tools = None, w_created_at = now e, w_updated_at = now e\<rparr>"

lemma enroll_hire_ok:
  assumes "enroll_hire e team i payload d = (Inr u, d')"
  shows "workers d' = workers d" and "grants d' = grants d" and "db_wf d' = db_wf d"
    and "get_team_member d' team i \<noteq> None"
    and "channels d' = channels d"
    and "\<And>c. get_team_channel d team = Some c \<Longrightarrow> is_subscribed_to_channel d' (c_id c) i"
proof -
  obtain m d3 where m: "add_team_member e team i ''member'' d = (Inr m, d3)"
    using assms by (auto simp: enroll_hire_def and_then_def split: sum.splits prod.splits)
  note mem = add_team_member_ok [OF m]
  have chan: "get_team_channel d3 team = get_team_channel d team"
    by (simp add: mem(1) get_team_channel_def)
  define sub where "sub = (case get_team_channel d team of None \<Rightarrow> ok () d3
      | Some c \<Rightarrow> subscribe_to_channel e (c_id c) i False d3)"
  have eq: "enroll_hire e team i payload d = and_then sub
      (\<lambda>_ d4. if bus_set e then bus_publish e ''worker.hired'' ''worker'' i payload None d4 else ok () d4)"
    by (simp add: enroll_hire_def m sub_def chan)
  then obtain d4 where s: "sub = (Inr (), d4)"
    using assms by (cases sub) (auto simp: and_then_def split: sum.splits)
  obtain evs where d': "d' = d4\<lparr>events := evs\<rparr>"
    using assms [unfolded eq s] that [of "events d4"]
    by (auto simp: bus_publish_def ENTITY_TYPES_def split: if_splits)
  obtain subs where d4: "d4 = d3\<lparr>subscriptions := subs\<rparr>"
  proof (cases "get_team_channel d team")
    case None
    then show ?thesis using s that [of "subscriptions d3"] by (simp add: sub_def)
  next
    case (Some c)
    then show ?thesis using s that subscribe_frame [of e "c_id c" i False d3] by (auto simp: sub_def)
  qed
  show "workers d' = workers d" "grants d' = grants d" "db_wf d' = db_wf d" "channels d' = channels d"
    by (simp_all add: d' d4 mem(1))
  have "team_members d' = team_members d @ [m]" by (simp add: d' d4 mem(1))
  then show "get_team_member d' team i \<noteq> None"
    using mem(2,3) by (simp add: get_team_member_def split: option.splits)
  show "is_subscribed_to_channel d' (c_id c) i" if "get_team_channel d team = Some c" for c
  proof -
    have "is_subscribed_to_channel d4 (c_id c) i"
      using s that subscribe_false_subscribed [of e "c_id c" i d3 "()" d4] by (simp add: sub_def)
    then show ?thesis by (simp add: d' is_subscribed_to_channel_def)
  qed
qed

lemma hire_ok:
  assumes "hire e fresh storage nm role skills cost (d, ob) = (Inr nob, (d', ob'))"
  obtains w scope d1 r d2 payload where
    "d1 = snd (expire_delegations e d)" and "get_worker d1 (wo_id ob) = Some w"
    and "from_json (wk_hiring_authority_scope w) = Inr scope"
    and "hire_decision d1 (wo_id ob) w scope role cost = HireOK"
    and "r = hired_row e fresh (wo_id ob) w nm role skills cost"
    and "insert_worker_row r d1 = (Inr (), d2)"
    and "enroll_hire e (wk_team_id w) fresh payload d2 = (Inr (), d')"
    and "nob = \<lparr>wo_id = fresh, wo_data = Some (row_to_worker r)\<rparr>"
proof -
  from assms obtain reason st1 where c: "can_hire e role cost (d, ob) = (Inr reason, st1)"
    unfolding hire_def by (cases "can_hire e role cost (d, ob)") (auto simp: and_then_def split: sum.splits)
  define d1 where "d1 = snd (expire_delegations e d)"
  obtain w scope where w: "get_worker d1 (wo_id ob) = Some w"
    "from_json (wk_hiring_authority_scope w) = Inr scope"
    "reason = hire_decision d1 (wo_id ob) w scope role cost"
    and st1: "st1 = (d1, \<lparr>wo_id = wo_id ob, wo_data = Some w\<rparr>)"
    using can_hire_ok [OF c] unfolding d1_def by blast
  define r where "r = hired_row e fresh (wo_id ob) w nm role skills cost"
  have ok: "reason = HireOK"
    using assms by (auto simp: hire_def c st1 worker_data_def split: if_splits)
  have cw: "create_worker e fresh
        \<lparr>nw_name = nm, nw_role = role, nw_team_id = wk_team_id w, nw_cost = cost,
         nw_manager_id = Some (wo_id ob), nw_skills = Some skills, nw_worker_id = None,
         nw_hiring_authority_scope = None, nw_delegated_budget = 0, nw_max_reports = 10,
         nw_preferred_provider = None\<rparr> d1 =
      and_then (insert_worker_row r d1) (\<lambda>_ d2. ok (row_to_worker r) d2)"
    by (simp add: create_worker_def Let_def r_def hired_row_def)
  have id: "wk_id (row_to_worker r) = fresh" by (simp add: row_to_worker_def r_def hired_row_def)
  obtain d2 where ins: "insert_worker_row r d1 = (Inr (), d2)"
    using assms by (auto simp: hire_def c st1 worker_data_def ok cw and_then_def split: sum.splits prod.splits)
  have "enroll_hire e (wk_team_id w) fresh (hire_payload (row_to_worker r) nm role (wo_id ob) cost) d2 =
      (Inr (), d') \<and> nob = \<lparr>wo_id = fresh, wo_data = Some (row_to_worker r)\<rparr>"
    using assms by (auto simp: hire_def c st1 worker_data_def ok cw ins id
        split: sum.splits prod.splits option.splits)
  then show thesis using that [OF d1_def w(1,2) _ r_def ins] w(3) ok by blast
qed

lemma insert_hired_facts:
  assumes "insert_worker_row r d1 = (Inr (), d2)" and "w_manager_id r = Some m" and "w_status r = Pending"
  shows "get_worker d2 (w_id r) = Some (row_to_worker r)"
    and "get_direct_reports_count d2 m = get_direct_reports_count d1 m + 1"
    and "cumulative_cost d2 m = cumulative_cost d1 m + w_cost r"
proof -
  note i = insert_worker_row_ok [OF assms(1)]
  have "fetchone (\<lambda>x. w_id x = w_id r) (workers d1) = None"
    using i(2) by (auto simp: fetchone_eq_None_iff worker_exists_def image_iff)
  then show "get_worker d2 (w_id r) = Some (row_to_worker r)" by (simp add: get_worker_def i(1))
  show "get_direct_reports_count d2 m = get_direct_reports_count d1 m + 1"
    using assms(2) by (simp add: get_direct_reports_count_def get_workers_by_manager_def fetchall_def i(1))
  show "cumulative_cost d2 m = cumulative_cost d1 m + w_cost r"
    using assms(2,3) by (simp add: cumulative_cost_def fetchall_def i(1))
qed

lemma hire_queries_frame:
  assumes "workers d' = workers d"
  shows "get_worker d' i = get_worker d i"
    and "get_direct_reports_count d' m = get_direct_reports_count d m"
    and "cumulative_cost d' m = cumulative_cost d m"
  using assms by (simp_all add: get_worker_def get_direct_reports_count_def get_workers_by_manager_def
      cumulative_cost_def)

text \<open>
  C3: A hire that succeeds stayed within the manager's authority as it stands after the expiry
  sweep: the role is allowed, the cost is within the limit, afterwards the manager has at most
  its maximum of reports and, when the scope has a total budget, the reports that are not
  terminated cost at most that much together. The new worker is pending, reports to the
  manager in the manager's team, is a member of that team and subscribed to its channel, and
  the database is still well-formed.
\<close>

theorem hire_respects_authority:
  assumes "db_wf d" and "hire e fresh storage nm role skills cost (d, ob) = (Inr nob, (d', ob'))"
  shows "\<exists>w scope nw. get_worker (snd (expire_delegations e d)) (wo_id ob) = Some w
      \<and> from_json (wk_hiring_authority_scope w) = Inr scope
      \<and> can_hire_role scope role \<and> cost \<le> hs_max_cost scope
      \<and> get_direct_reports_count d' (wo_id ob) \<le> wk_max_reports w
      \<and> (0 < hs_max_total_budget scope \<longrightarrow> cumulative_cost d' (wo_id ob) \<le> hs_max_total_budget scope)
      \<and> get_worker d' (wo_id nob) = Some nw \<and> wo_data nob = Some nw
      \<and> wk_status nw = Pending \<and> wk_role nw = role \<and> wk_cost nw = cost
      \<and> wk_manager_id nw = Some (wo_id ob) \<and> wk_team_id nw = wk_team_id w
      \<and> get_team_member d' (wk_team_id w) (wo_id nob) \<noteq> None
      \<and> (\<forall>c. get_team_channel d (wk_team_id w) = Some c \<longrightarrow> is_subscribed_to_channel d' (c_id c) (wo_id nob))
      \<and> db_wf d'"
proof -
  obtain w scope d1 r d2 payload where d1: "d1 = snd (expire_delegations e d)"
    and w: "get_worker d1 (wo_id ob) = Some w" and sc: "from_json (wk_hiring_authority_scope w) = Inr scope"
    and dec: "hire_decision d1 (wo_id ob) w scope role cost = HireOK"
    and r: "r = hired_row e fresh (wo_id ob) w nm role skills cost"
    and ins: "insert_worker_row r d1 = (Inr (), d2)"
    and enr: "enroll_hire e (wk_team_id w) fresh payload d2 = (Inr (), d')"
    and nob: "nob = \<lparr>wo_id = fresh, wo_data = Some (row_to_worker r)\<rparr>"
    using hire_ok [OF assms(2)] by metis
  note f = insert_hired_facts [OF ins, of "wo_id ob"] and en = enroll_hire_ok [OF enr]
    and dc = hire_decision_OK [OF dec]
  have rw: "w_id r = fresh" "w_manager_id r = Some (wo_id ob)" "w_status r = Pending" "w_cost r = cost"
    "w_role r = role" "w_team_id r = wk_team_id w"
    by (simp_all add: r hired_row_def)
  have chan: "get_team_channel d2 (wk_team_id w) = get_team_channel d (wk_team_id w)"
    using insert_worker_row_ok(1) [OF ins]
    by (simp add: get_team_channel_def d1 expire_delegations_frame)
  have "db_wf d'"
    using wf_insert_worker [OF expire_delegations_wf [OF assms(1), of e, folded d1] ins] en(3) by simp
  moreover have "get_worker d' fresh = Some (row_to_worker r)"
    using f(1) rw hire_queries_frame [OF en(1)] by simp
  moreover have "get_direct_reports_count d' (wo_id ob) \<le> wk_max_reports w"
    using f(2) rw dc(3) hire_queries_frame [OF en(1)] by simp
  moreover have "cumulative_cost d' (wo_id ob) \<le> hs_max_total_budget scope" if "0 < hs_max_total_budget scope"
    using f(3) rw dc(4) [OF that] hire_queries_frame [OF en(1)] by simp
  ultimately show ?thesis
    using w sc dc(1,2) en(4,6) chan rw
    by (intro exI [of _ w] exI [of _ scope] exI [of _ "row_to_worker r"])
      (simp add: d1 [symmetric] nob row_to_worker_def)
qed

lemma org_db_sweep: "expire_delegations witness_env org_db = ([], org_db)"
  by (simp add: expire_delegations_def fetchall_def expired_def org_defs)

text \<open>The engineer's manager hires a second engineer.\<close>

definition org_mgr :: worker where
  "org_mgr = row_to_worker (org_worker ''mgr'' ''Bob'' ''manager'' (Some ''ceo'') (Some all_roles_scope) 10)"

lemma org_db_can_hire:
  "can_hire witness_env ''engineer'' 20 (org_db, \<lparr>wo_id = ''mgr'', wo_data = None\<rparr>) =
     ok HireOK (org_db, \<lparr>wo_id = ''mgr'', wo_data = Some org_mgr\<rparr>)"
proof -
  have w: "get_worker org_db ''mgr'' = Some org_mgr"
    by (simp add: get_worker_def org_mgr_def org_db_def org_worker_def)
  have sc: "from_json (wk_hiring_authority_scope org_mgr) =
      Inr \<lparr>hs_allowed_roles = [''*''], hs_max_cost = 100, hs_max_total_budget = 0\<rparr>"
    by (simp add: from_json_def org_mgr_def org_worker_def row_to_worker_def all_roles_scope_def)
  have "hire_decision org_db ''mgr'' org_mgr
      \<lparr>hs_allowed_roles = [''*''], hs_max_cost = 100, hs_max_total_budget = 0\<rparr> ''engineer'' 20 = HireOK"
    by (simp add: hire_decision_def can_hire_role_def can_afford_cost_def get_direct_reports_count_def
        get_workers_by_manager_def fetchall_def org_defs org_mgr_def row_to_worker_def)
  then show ?thesis
    by (simp add: can_hire_def org_db_sweep worker_data_def load_worker_def w sc)
qed

lemma org_db_hire:
  "\<exists>d'. hire witness_env ''wrkr-new'' (\<lambda>_. None) ''Max'' ''engineer'' [] 20
      (org_db, \<lparr>wo_id = ''mgr'', wo_data = None\<rparr>) = (Inr \<lparr>wo_id = ''wrkr-new'', wo_data =
        Some (row_to_worker (hired_row witness_env ''wrkr-new'' ''mgr'' org_mgr ''Max'' ''engineer'' [] 20))\<rparr>,
        (d', \<lparr>wo_id = ''mgr'', wo_data = Some org_mgr\<rparr>))"
proof -
  define r where "r = hired_row witness_env ''wrkr-new'' ''mgr'' org_mgr ''Max'' ''engineer'' [] 20"
  define d2 where "d2 = org_db\<lparr>workers := workers org_db @ [r]\<rparr>"
  have cw: "create_worker witness_env ''wrkr-new''
        \<lparr>nw_name = ''Max'', nw_role = ''engineer'', nw_team_id = wk_team_id org_mgr, nw_cost = 20,
         nw_manager_id = Some ''mgr'', nw_skills = Some [], nw_worker_id = None,
         nw_hiring_authority_scope = None, nw_delegated_budget = 0, nw_max_reports = 10,
         nw_preferred_provider = None\<rparr> org_db = ok (row_to_worker r) d2"
    by (simp add: create_worker_def insert_worker_row_def worker_exists_def team_exists_def org_defs
        r_def hired_row_def d2_def org_mgr_def row_to_worker_def Let_def)
  have id: "wk_id (row_to_worker r) = ''wrkr-new''" by (simp add: row_to_worker_def r_def hired_row_def)
  have "\<exists>d'. enroll_hire witness_env (wk_team_id org_mgr) ''wrkr-new'' p d2 = ok () d'" for p
    by (simp add: enroll_hire_def add_team_member_def MEMBER_ROLES_def get_team_member_def
        get_team_channel_def witness_env_def d2_def org_defs team_exists_def worker_exists_def
        r_def hired_row_def org_mgr_def row_to_worker_def Let_def)
  then obtain d' where "enroll_hire witness_env (wk_team_id org_mgr) ''wrkr-new''
      (hire_payload (row_to_worker r) ''Max'' ''engineer'' ''mgr'' 20) d2 = ok () d'" by blast
  then show ?thesis
    by (simp add: hire_def org_db_can_hire worker_data_def cw id) (simp add: r_def)
qed

theorem hire_respects_authority_witness:
  "\<exists>nob d' ob'. hire witness_env ''wrkr-new'' (\<lambda>_. None) ''Max'' ''engineer'' [] 20
      (org_db, \<lparr>wo_id = ''mgr'', wo_data = None\<rparr>) = (Inr nob, (d', ob'))
    \<and> get_worker d' (wo_id nob) = wo_data nob \<and> db_wf d'"
proof -
  obtain nob d' ob' where h: "hire witness_env ''wrkr-new'' (\<lambda>_. None) ''Max'' ''engineer'' [] 20
      (org_db, \<lparr>wo_id = ''mgr'', wo_data = None\<rparr>) = (Inr nob, (d', ob'))"
    using org_db_hire by blast
  from hire_respects_authority [OF org_db_wf h] show ?thesis using h by auto
qed

text \<open>
  A manager whose delegation has run out cannot hire, even before any sweep and even with a
  worker object that still caches the old authority: the attempt raises
  \<open>InsufficientHiringAuthority\<close>, no worker is created, and what remains is the swept database.
\<close>

theorem expired_authority_cannot_hire:
  assumes "db_wf d" and "get_worker d (wo_id ob) = Some w0"
    and "g \<in> live d" and "g_delegate_id g = wo_id ob" and "expired e g"
  shows "\<exists>ob'. hire e fresh storage nm role skills cost (d, ob) =
      (Inl (InsufficientHiringAuthority ''no allowed roles''), (snd (expire_delegations e d), ob'))
    \<and> map w_id (workers (snd (expire_delegations e d))) = map w_id (workers d)"
proof -
  define d1 where "d1 = snd (expire_delegations e d)"
  have d1: "expire_delegations e d = (fst (expire_delegations e d), d1)" by (simp add: d1_def)
  have ex: "\<exists>g \<in> live d. expired e g \<and> g_delegate_id g = wo_id ob" using assms(3-5) by blast
  then obtain w where w: "get_worker d1 (wo_id ob) = Some w" "wk_hiring_authority_scope w = None"
    using expire_get_worker [OF assms(1) d1 assms(2)] by auto
  obtain f where f: "workers d1 = map f (workers d)" "\<And>r. w_id (f r) = w_id r"
  proof -
    have "d1 = fold (expire_one e) (filter (expired e) (grants d)) d"
      by (simp add: d1_def expire_delegations_def Let_def fetchall_def)
    then show ?thesis using expire_fold_workers [of e "filter (expired e) (grants d)" d] that by metis
  qed
  have "map w_id (workers d1) = map w_id (workers d)" by (simp add: f)
  moreover have "hire e fresh storage nm role skills cost (d, ob) =
      (Inl (InsufficientHiringAuthority ''no allowed roles''), (d1, ob\<lparr>wo_data := Some w\<rparr>))"
    using w by (simp add: hire_def can_hire_def d1_def [symmetric] Let_def worker_data_def load_worker_def
        from_json_def hire_decision_def mentions_max_reports_def hire_reason_tag_def)
  ultimately show ?thesis by (auto simp: d1_def)
qed

theorem expired_authority_cannot_hire_witness:
  "\<exists>st. hire witness_env ''wrkr-new'' (\<lambda>_. None) ''Max'' ''engineer'' [] 20
      (stale_db, \<lparr>wo_id = ''mgr'', wo_data = get_worker stale_db ''mgr''\<rparr>) =
      (Inl (InsufficientHiringAuthority ''no allowed roles''), st)"
proof -
  define g where "g = org_grant\<lparr>g_expires_at := Some (now witness_env - 3600)\<rparr>"
  define ob where "ob = \<lparr>wo_id = ''mgr'', wo_data = get_worker stale_db ''mgr''\<rparr>"
  have w: "get_worker stale_db (wo_id ob) =
      Some (row_to_worker (org_worker ''mgr'' ''Bob'' ''manager'' (Some ''ceo'') (Some all_roles_scope) 10))"
    by (simp add: ob_def get_worker_def stale_db_def org_defs)
  have "g \<in> live stale_db" "g_delegate_id g = wo_id ob" "expired witness_env g"
    by (simp_all add: g_def live_def stale_db_def expired_def org_grant_def ob_def)
  from expired_authority_cannot_hire [OF stale_db_wf w this] show ?thesis unfolding ob_def by blast
qed

end
