(* ===== verification/Sessions.thy ===== *)
theory Sessions
  imports Hiring
begin

text \<open>
  \<open>cli/core/sessions/persistence.py\<close> (the \<open>sessions\<close> table: at most one row per worker, a version
  that every state change raises) and the runtime part of \<open>cli/core/worker/session_manager.py\<close>
  (the worker's runtime state machine). Whether the terminal session of a worker is alive is the
  answer of \<open>TmuxSession.exists\<close>, the argument \<open>alive\<close>. The Boolean the persistence functions return
  is \<open>connection.total_changes > 0\<close>, so the number of changes the connection made before is an
  argument, \<open>changes\<close>.
\<close>

section \<open>Session records\<close>

definition active_session_states :: "runtime_status list" where
  "active_session_states = [Starting, Running, Idle]"

definition create_session_record ::
  "env \<Rightarrow> ident \<Rightarrow> ident \<Rightarrow> string \<Rightarrow> string \<Rightarrow> string list option \<Rightarrow> string option \<Rightarrow> string option
   \<Rightarrow> runtime_status \<Rightarrow> db \<Rightarrow> (db, session_row) outcome" where
  "create_session_record e sid wid provider command args wdir tmux state d =
     (let s = \<lparr>ss_id = sid, ss_worker_id = wid, ss_provider = provider, ss_model = None, ss_command = command,
               ss_args = (case args of None \<Rightarrow> None | Some [] \<Rightarrow> None | Some (x # xs) \<Rightarrow> Some (x # xs)),
               ss_working_directory = wdir, ss_tmux_session_name = tmux, ss_pid = None,
               ss_state = state, ss_state_version = 0, ss_started_at = Some (now e),
               ss_stopped_at = None, ss_created_at = now e, ss_updated_at = now e\<rparr>
      in if sid \<in> ss_id ` set (sessions d) then raise (IntegrityError ''sessions.id'') d
         else if wid \<in> ss_worker_id ` set (sessions d)
           then raise (IntegrityError ''sessions.worker_id'') d
         else if \<not> worker_exists d wid then raise (IntegrityError ''sessions.worker_id fk'') d
         else ok s (d\<lparr>sessions := sessions d @ [s]\<rparr>))"

definition get_session_by_id :: "db \<Rightarrow> ident \<Rightarrow> session_row option" where
  "get_session_by_id d sid = fetchone (\<lambda>s. ss_id s = sid) (sessions d)"

definition get_session_for_worker :: "db \<Rightarrow> ident \<Rightarrow> session_row option" where
  "get_session_for_worker d wid = fetchone (\<lambda>s. ss_worker_id s = wid) (sessions d)"

text \<open>The statement that changes one session's state, with the trigger \<open>log_session_state_change\<close>.\<close>

definition set_session_row ::
  "env \<Rightarrow> ident \<Rightarrow> runtime_status \<Rightarrow> (session_row \<Rightarrow> session_row) \<Rightarrow> db \<Rightarrow> db" where
  "set_session_row e sid state f d =
     (case get_session_by_id d sid of
        None \<Rightarrow> d
      | Some s \<Rightarrow>
          log_status_change e ''session'' sid (runtime_name (ss_state s)) (runtime_name state)
            (d\<lparr>sessions := update_where (\<lambda>s. ss_id s = sid) f (sessions d)\<rparr>))"

definition session_transition_row ::
  "env \<Rightarrow> runtime_status \<Rightarrow> int option \<Rightarrow> datetime option \<Rightarrow> session_row \<Rightarrow> session_row" where
  "session_transition_row e state pid stopped s =
     (case pid of
        Some p \<Rightarrow> s\<lparr>ss_state := state, ss_pid := Some p, ss_stopped_at := stopped, ss_updated_at := now e,
                    ss_state_version := ss_state_version s + 1\<rparr>
      | None \<Rightarrow> s\<lparr>ss_state := state, ss_stopped_at := stopped, ss_updated_at := now e,
                  ss_state_version := ss_state_version s + 1\<rparr>)"

definition update_session_state ::
  "env \<Rightarrow> nat \<Rightarrow> ident \<Rightarrow> runtime_status \<Rightarrow> int option \<Rightarrow> datetime option \<Rightarrow> db \<Rightarrow> bool \<times> db" where
  "update_session_state e changes sid state pid stopped d =
     (0 < changes + rowcount (\<lambda>s. ss_id s = sid) (sessions d),
      set_session_row e sid state (session_transition_row e state pid stopped) d)"

text \<open>The compare-and-swap runs inside one transaction, so nothing can interleave with it.\<close>

definition atomic_transition_session_state ::
  "env \<Rightarrow> ident \<Rightarrow> runtime_status \<Rightarrow> runtime_status option \<Rightarrow> int option \<Rightarrow> int option \<Rightarrow> datetime option
   \<Rightarrow> db \<Rightarrow> (db, bool \<times> int) outcome" where
  "atomic_transition_session_state e sid state expected_state expected_version pid stopped d =
     (case get_session_by_id d sid of
        None \<Rightarrow> ok (False, 0) d
      | Some s \<Rightarrow>
          if expected_state \<noteq> None \<and> Some (ss_state s) \<noteq> expected_state
            then raise (StateTransitionConflictError sid) d
          else if expected_version \<noteq> None \<and> Some (ss_state_version s) \<noteq> expected_version
            then raise (StateTransitionConflictError sid) d
          else ok (True, ss_state_version s + 1)
                 (set_session_row e sid state (session_transition_row e state pid stopped) d))"

definition get_session_state_and_version :: "db \<Rightarrow> ident \<Rightarrow> (runtime_status \<times> int) option" where
  "get_session_state_and_version d sid =
     map_option (\<lambda>s. (ss_state s, ss_state_version s)) (get_session_by_id d sid)"

definition update_session_pid :: "env \<Rightarrow> nat \<Rightarrow> ident \<Rightarrow> int \<Rightarrow> db \<Rightarrow> bool \<times> db" where
  "update_session_pid e changes sid pid d =
     (0 < changes + rowcount (\<lambda>s. ss_id s = sid) (sessions d),
      d\<lparr>sessions := update_where (\<lambda>s. ss_id s = sid)
          (\<lambda>s. s\<lparr>ss_pid := Some pid, ss_updated_at := now e\<rparr>) (sessions d)\<rparr>)"

definition update_session_tmux_name :: "env \<Rightarrow> nat \<Rightarrow> ident \<Rightarrow> string \<Rightarrow> db \<Rightarrow> bool \<times> db" where
  "update_session_tmux_name e changes sid nm d =
     (0 < changes + rowcount (\<lambda>s. ss_id s = sid) (sessions d),
      d\<lparr>sessions := update_where (\<lambda>s. ss_id s = sid)
          (\<lambda>s. s\<lparr>ss_tmux_session_name := Some nm, ss_updated_at := now e\<rparr>) (sessions d)\<rparr>)"

definition get_active_sessions :: "db \<Rightarrow> session_row list" where
  "get_active_sessions d =
     order_by_desc (\<lambda>s. case ss_started_at s of None \<Rightarrow> 0 | Some t \<Rightarrow> t)
       (fetchall (\<lambda>s. ss_state s \<in> set active_session_states) (sessions d))"

definition get_all_sessions :: "db \<Rightarrow> session_row list" where
  "get_all_sessions d = order_by_desc ss_created_at (sessions d)"

definition count_active_sessions :: "db \<Rightarrow> nat" where
  "count_active_sessions d = rowcount (\<lambda>s. ss_state s \<in> set active_session_states) (sessions d)"

definition delete_session_record :: "nat \<Rightarrow> ident \<Rightarrow> db \<Rightarrow> bool \<times> db" where
  "delete_session_record changes sid d =
     (0 < changes + rowcount (\<lambda>s. ss_id s = sid) (sessions d),
      d\<lparr>sessions := delete_where (\<lambda>s. ss_id s = sid) (sessions d)\<rparr>)"

definition delete_session_for_worker :: "nat \<Rightarrow> ident \<Rightarrow> db \<Rightarrow> bool \<times> db" where
  "delete_session_for_worker changes wid d =
     (0 < changes + rowcount (\<lambda>s. ss_worker_id s = wid) (sessions d),
      d\<lparr>sessions := delete_where (\<lambda>s. ss_worker_id s = wid) (sessions d)\<rparr>)"

section \<open>The session manager's runtime operations\<close>

text \<open>
  The manager's view of its worker: the worker object, the cached runtime state (\<open>_state_data\<close>) and
  the attached session object, of which only the id matters here.
\<close>

record smgr =
  sm_worker :: wobj
  sm_state :: "worker_state_row option"
  sm_session :: "ident option"

abbreviation sm_id :: "smgr \<Rightarrow> ident" where
  "sm_id m \<equiv> wo_id (sm_worker m)"

text \<open>\<open>runtime_status\<close>: the cached state, loaded when there is none.\<close>

definition load_state :: "db \<Rightarrow> smgr \<Rightarrow> smgr" where
  "load_state d m = (if sm_state m = None then m\<lparr>sm_state := get_worker_state d (sm_id m)\<rparr> else m)"

definition runtime_status_of :: "db \<Rightarrow> smgr \<Rightarrow> runtime_status option" where
  "runtime_status_of d m = map_option ws_runtime_status (sm_state (load_state d m))"

definition validate_runtime_transition :: "db \<Rightarrow> smgr \<Rightarrow> runtime_status \<Rightarrow> py_error option" where
  "validate_runtime_transition d m new =
     (case runtime_status_of d m of
        None \<Rightarrow> if new \<noteq> Starting
                then Some (InvalidStateTransition ''(none)'' (runtime_name new) [''starting'']) else None
      | Some cur \<Rightarrow>
          if new \<notin> set (RUNTIME_TRANSITIONS cur)
          then Some (InvalidStateTransition (runtime_name cur) (runtime_name new)
                       (map runtime_name (RUNTIME_TRANSITIONS cur)))
          else None)"

definition validate_session_allowed :: "db \<Rightarrow> smgr \<Rightarrow> (smgr, unit) outcome" where
  "validate_session_allowed d m =
     (case worker_data d (sm_worker m) of
        (Inl x, ob) \<Rightarrow> raise x (m\<lparr>sm_worker := ob\<rparr>)
      | (Inr w, ob) \<Rightarrow>
          if wk_status w \<notin> set SESSION_ALLOWED_LIFECYCLES
          then raise (InvalidLifecycleState ''start session'' (lifecycle_name (wk_status w)))
                 (m\<lparr>sm_worker := ob\<rparr>)
          else ok () (m\<lparr>sm_worker := ob\<rparr>))"

type_synonym dbm = "db \<times> smgr"

text \<open>A validated status update followed by dropping the cached state.\<close>

definition guarded_update ::
  "env \<Rightarrow> runtime_status \<Rightarrow> ident option \<Rightarrow> dbm \<Rightarrow> (dbm, unit) outcome" where
  "guarded_update e rs task st =
     (case st of (d, m) \<Rightarrow>
      case validate_runtime_transition d m rs of
        Some x \<Rightarrow> raise x (d, load_state d m)
      | None \<Rightarrow>
          (case update_worker_runtime_status e (sm_id m) rs task d of
             (Inl x, d1) \<Rightarrow> raise x (d1, load_state d m)
           | (Inr _, d1) \<Rightarrow> ok () (d1, (load_state d m)\<lparr>sm_state := None\<rparr>)))"

definition start_session :: "env \<Rightarrow> int option \<Rightarrow> dbm \<Rightarrow> (dbm, unit) outcome" where
  "start_session e pid st =
     (case st of (d, m) \<Rightarrow>
      case validate_session_allowed d m of
        (Inl x, m1) \<Rightarrow> raise x (d, m1)
      | (Inr _, m1) \<Rightarrow>
          (let m2 = load_state d m1
           in case sm_state m2 of
                None \<Rightarrow>
                  (case create_worker_state e (sm_id m2) pid d of
                     (Inl x, d1) \<Rightarrow> raise x (d1, m2)
                   | (Inr _, d1) \<Rightarrow> ok () (d1, m2\<lparr>sm_state := None\<rparr>))
              | Some _ \<Rightarrow>
                  and_then (guarded_update e Starting None (d, m2)) (\<lambda>_ st1.
                    case st1 of (d1, m3) \<Rightarrow>
                      (case pid of
                         None \<Rightarrow> ok () (d1, m3)
                       | Some p \<Rightarrow>
                           ok () (d1\<lparr>worker_states := update_where (\<lambda>s. ws_worker_id s = sm_id m3)
                                       (\<lambda>s. s\<lparr>ws_pid := Some p\<rparr>) (worker_states d1)\<rparr>, m3)))))"

definition session_ready :: "env \<Rightarrow> dbm \<Rightarrow> (dbm, unit) outcome" where
  "session_ready e st = guarded_update e Running None st"

definition begin_work :: "env \<Rightarrow> ident \<Rightarrow> dbm \<Rightarrow> (dbm, unit) outcome" where
  "begin_work e task st = guarded_update e Running (Some task) st"

definition finish_work :: "env \<Rightarrow> bool \<Rightarrow> dbm \<Rightarrow> (dbm, unit) outcome" where
  "finish_work e success st =
     and_then (guarded_update e Idle None st) (\<lambda>_ st1.
       case st1 of (d1, m1) \<Rightarrow> ok () (increment_worker_task_count e (sm_id m1) success d1, m1))"

text \<open>The session record follows the runtime state when a session stops or crashes.\<close>

definition close_session_record :: "env \<Rightarrow> ident \<Rightarrow> runtime_status \<Rightarrow> db \<Rightarrow> db" where
  "close_session_record e wid state d =
     (case get_session_for_worker d wid of
        None \<Rightarrow> d
      | Some s \<Rightarrow> snd (update_session_state e 0 (ss_id s) state None (Some (now e)) d))"

definition stop_session :: "env \<Rightarrow> dbm \<Rightarrow> (dbm, unit) outcome" where
  "stop_session e st =
     and_then (guarded_update e Stopped None st) (\<lambda>_ st1.
       case st1 of (d1, m1) \<Rightarrow> ok () (close_session_record e (sm_id m1) Stopped d1, m1))"

definition mark_crashed :: "env \<Rightarrow> dbm \<Rightarrow> (dbm, unit) outcome" where
  "mark_crashed e st =
     (case st of (d, m) \<Rightarrow>
      case runtime_status_of d m of
        None \<Rightarrow> ok () (d, load_state d m)
      | Some rs \<Rightarrow>
          if rs \<in> set active_session_states
          then (case update_worker_runtime_status e (sm_id m) Crashed None d of
                  (Inl x, d1) \<Rightarrow> raise x (d1, load_state d m)
                | (Inr _, d1) \<Rightarrow>
                    ok () (close_session_record e (sm_id m) Crashed d1, (load_state d m)\<lparr>sm_state := None\<rparr>))
          else ok () (d, load_state d m))"

definition heartbeat :: "env \<Rightarrow> dbm \<Rightarrow> (dbm, unit) outcome" where
  "heartbeat e st = (case st of (d, m) \<Rightarrow> ok () (record_worker_heartbeat e (sm_id m) d, m\<lparr>sm_state := None\<rparr>))"

definition DEFAULT_HEARTBEAT_THRESHOLD :: int where
  "DEFAULT_HEARTBEAT_THRESHOLD = 60"

definition is_heartbeat_stale :: "env \<Rightarrow> int \<Rightarrow> db \<Rightarrow> smgr \<Rightarrow> bool" where
  "is_heartbeat_stale e threshold d m =
     (case sm_state (load_state d m) of
        None \<Rightarrow> True
      | Some s \<Rightarrow> (case ws_last_activity s of None \<Rightarrow> True | Some t \<Rightarrow> t < now e - threshold))"

text \<open>
  \<open>is_session_active\<close> repairs what it finds: a crashed worker whose terminal is alive becomes idle,
  and a worker that claims to run without an active session record becomes stopped.
\<close>

definition repair_to :: "env \<Rightarrow> runtime_status \<Rightarrow> bool \<Rightarrow> dbm \<Rightarrow> (dbm, bool) outcome" where
  "repair_to e rs answer st =
     (case st of (d, m) \<Rightarrow>
      case update_worker_runtime_status e (sm_id m) rs None d of
        (Inl x, d1) \<Rightarrow> raise x (d1, m)
      | (Inr _, d1) \<Rightarrow> ok answer (d1, m\<lparr>sm_state := None\<rparr>))"

definition is_session_active :: "env \<Rightarrow> bool \<Rightarrow> dbm \<Rightarrow> (dbm, bool) outcome" where
  "is_session_active e alive st =
     (case st of (d, m) \<Rightarrow>
      if sm_session m \<noteq> None then ok True st
      else let m1 = load_state d m; rt = runtime_status_of d m
           in case get_session_for_worker d (sm_id m) of
                Some s \<Rightarrow>
                  if ss_state s \<in> set active_session_states then ok True st
                  else if rt = Some Crashed \<and> alive then repair_to e Idle True (d, m1)
                  else if rt \<in> Some ` set active_session_states then repair_to e Stopped False (d, m1)
                  else ok False (d, m1)
              | None \<Rightarrow>
                  if rt \<in> Some ` set active_session_states then repair_to e Stopped False (d, m1)
                  else ok False (d, m1))"

text \<open>\<open>reconcile_runtime_states\<close>: one pass over the workers that are not terminated.\<close>

definition reconcile_one :: "env \<Rightarrow> (ident \<Rightarrow> bool) \<Rightarrow> ident \<times> runtime_status option \<Rightarrow> nat \<times> db \<Rightarrow> nat \<times> db" where
  "reconcile_one e alive row acc =
     (case (row, acc) of ((i, rt), (n, d)) \<Rightarrow>
        if rt \<in> Some ` set active_session_states \<and> \<not> alive i
          then (n + 1, snd (update_worker_runtime_status e i Stopped None d))
        else if rt = Some Crashed \<and> alive i
          then (n + 1, snd (update_worker_runtime_status e i Idle None d))
        else (n, d))"

definition reconcile_runtime_states :: "env \<Rightarrow> (ident \<Rightarrow> bool) \<Rightarrow> db \<Rightarrow> nat \<times> db" where
  "reconcile_runtime_states e alive d =
     fold (reconcile_one e alive)
       (map (\<lambda>r. (w_id r, map_option ws_runtime_status (get_worker_state d (w_id r))))
          (fetchall (\<lambda>r. w_status r \<noteq> Terminated) (workers d)))
       (0, d)"

text \<open>\<open>stop\<close> of the session object may raise (\<open>stop_error\<close>); the record is deleted either way.\<close>

definition terminate_session :: "py_error option \<Rightarrow> dbm \<Rightarrow> (dbm, unit) outcome" where
  "terminate_session stop_error st =
     (case st of (d, m) \<Rightarrow>
      case sm_session m of
        None \<Rightarrow> ok () st
      | Some sid \<Rightarrow>
          (let st1 = (snd (delete_session_record 0 sid d), m\<lparr>sm_session := None\<rparr>)
           in case stop_error of None \<Rightarrow> ok () st1 | Some x \<Rightarrow> raise x st1))"

definition validate_spawn_preconditions :: "env \<Rightarrow> dbm \<Rightarrow> (dbm, unit) outcome" where
  "validate_spawn_preconditions e st =
     (case st of (d, m) \<Rightarrow>
      let after = (\<lambda>d. let m1 = load_state d m
             in case sm_state m1 of
                  None \<Rightarrow> (case create_worker_state e (sm_id m) None d of
                             (Inl x, d1) \<Rightarrow> raise x (d1, m1)
                           | (Inr _, d1) \<Rightarrow> ok () (d1, m1\<lparr>sm_state := None\<rparr>))
                | Some _ \<Rightarrow> ok () (d, m1))
      in case get_session_for_worker d (sm_id m) of
           None \<Rightarrow> after d
         | Some s \<Rightarrow>
             if ss_state s \<in> set active_session_states
             then raise (ActiveSessionExistsError (sm_id m) (ss_id s)) st
             else after (snd (delete_session_for_worker 0 (sm_id m) d)))"

section \<open>Compare-and-swap on session records\<close>

definition sessions_wf :: "db \<Rightarrow> bool" where
  "sessions_wf d = (distinct (map ss_id (sessions d)) \<and> distinct (map ss_worker_id (sessions d)))"

lemma session_transition_row_simps [simp]:
  "ss_id (session_transition_row e st pid stopped s) = ss_id s"
  "ss_worker_id (session_transition_row e st pid stopped s) = ss_worker_id s"
  "ss_state (session_transition_row e st pid stopped s) = st"
  "ss_state_version (session_transition_row e st pid stopped s) = ss_state_version s + 1"
  by (simp_all add: session_transition_row_def split: option.splits)

interpretation sesskey: keyed_update ss_id "session_transition_row e st pid stopped"
  by unfold_locales simp

interpretation sessworker: keyed_update ss_worker_id "session_transition_row e st pid stopped"
  by unfold_locales simp

lemma log_status_change_sessions [simp]:
  "sessions (log_status_change e k i old new d) = sessions d"
  by (simp add: log_status_change_def)

lemma set_session_row_sessions:
  "sessions (set_session_row e sid state (session_transition_row e state pid stopped) d) =
     update_where (\<lambda>s. ss_id s = sid) (session_transition_row e state pid stopped) (sessions d)"
proof (cases "get_session_by_id d sid")
  case None
  then have "update_where (\<lambda>s. ss_id s = sid) f (sessions d) = sessions d" for f
    by (intro update_where_none) (auto simp: get_session_by_id_def fetchone_eq_None_iff)
  then show ?thesis using None by (simp add: set_session_row_def)
next
  case (Some s)
  then show ?thesis by (simp add: set_session_row_def)
qed

lemma set_session_row_lookup:
  "get_session_by_id (set_session_row e sid state (session_transition_row e state pid stopped) d) j =
     map_option (\<lambda>s. if ss_id s = sid then session_transition_row e state pid stopped s else s)
       (get_session_by_id d j)"
  by (simp add: get_session_by_id_def set_session_row_sessions sesskey.lookup_update)

lemma set_session_row_wf:
  "sessions_wf (set_session_row e sid state (session_transition_row e state pid stopped) d) = sessions_wf d"
  by (simp add: sessions_wf_def set_session_row_sessions sesskey.keys_update sessworker.keys_update)

text \<open>
  \<open>atomic_transition_session_state\<close> is a compare-and-swap on state and version: a mismatch
  raises a conflict and changes nothing, a missing session is reported without a change, and a
  transition that went through stored the new state under the next version and left every other
  session alone, so that a second caller still expecting the old version gets the conflict.
\<close>

theorem session_state_cas:
  "case atomic_transition_session_state e sid state es ev pid stopped d of
     (Inl x, d') \<Rightarrow> x = StateTransitionConflictError sid \<and> d' = d
        \<and> (\<exists>s v. get_session_state_and_version d sid = Some (s, v) \<and> (es \<notin> {None, Some s} \<or> ev \<notin> {None, Some v}))
   | (Inr (moved, v'), d') \<Rightarrow>
        (if moved
         then \<exists>s v. get_session_state_and_version d sid = Some (s, v) \<and> es \<in> {None, Some s} \<and> ev \<in> {None, Some v}
            \<and> v' = v + 1 \<and> get_session_state_and_version d' sid = Some (state, v + 1)
            \<and> atomic_transition_session_state e' sid state' es' (Some v) pid' stopped' d' =
                raise (StateTransitionConflictError sid) d'
         else d' = d \<and> get_session_state_and_version d sid = None)
        \<and> (\<forall>j. j \<noteq> sid \<longrightarrow> get_session_by_id d' j = get_session_by_id d j)
        \<and> sessions_wf d' = sessions_wf d"
proof (cases "get_session_by_id d sid")
  case None
  then show ?thesis by (simp add: atomic_transition_session_state_def get_session_state_and_version_def)
next
  case (Some s)
  then have id: "ss_id s = sid" by (auto simp: get_session_by_id_def dest: fetchone_SomeD)
  let ?d = "set_session_row e sid state (session_transition_row e state pid stopped) d"
  have other: "get_session_by_id ?d j = get_session_by_id d j" if "j \<noteq> sid" for j
    using that by (cases "get_session_by_id d j")
      (auto simp: set_session_row_lookup, auto simp: get_session_by_id_def dest: fetchone_SomeD)
  have own: "get_session_by_id ?d sid = Some (session_transition_row e state pid stopped s)"
    using Some id by (simp add: set_session_row_lookup)
  show ?thesis
    using Some own other set_session_row_wf
    by (auto simp: atomic_transition_session_state_def get_session_state_and_version_def)
qed

definition sess_db :: db where
  "sess_db = org_db\<lparr>
     sessions := [\<lparr>ss_id = ''sess-1'', ss_worker_id = ''eng'', ss_provider = ''claude_code'', ss_model = None,
       ss_command = ''claude'', ss_args = None, ss_working_directory = None,
       ss_tmux_session_name = Some ''qn-eng'', ss_pid = Some 42, ss_state = Idle, ss_state_version = 3,
       ss_started_at = Some 5, ss_stopped_at = None, ss_created_at = 5, ss_updated_at = 5\<rparr>],
     worker_states := [\<lparr>ws_worker_id = ''eng'', ws_runtime_status = Idle, ws_current_task_id = None,
       ws_pid = Some 42, ws_started_at = Some 5, ws_last_activity = Some 90, ws_tasks_completed = 2,
       ws_tasks_failed = 0, ws_updated_at = 90\<rparr>]\<rparr>"

theorem session_state_cas_witness:
  "get_session_state_and_version sess_db ''sess-1'' = Some (Idle, 3)
   \<and> atomic_transition_session_state witness_env ''sess-1'' Running None (Some 3) None None
       (snd (atomic_transition_session_state witness_env ''sess-1'' Running (Some Idle) (Some 3) None None sess_db)) =
     raise (StateTransitionConflictError ''sess-1'')
       (snd (atomic_transition_session_state witness_env ''sess-1'' Running (Some Idle) (Some 3) None None sess_db))"
proof -
  have v: "get_session_state_and_version sess_db ''sess-1'' = Some (Idle, 3)"
    by (simp add: get_session_state_and_version_def get_session_by_id_def sess_db_def)
  then show ?thesis
    using session_state_cas [where e = witness_env and sid = "''sess-1''" and state = Running and
        es = "Some Idle" and ev = "Some 3" and pid = None and stopped = None and d = sess_db and
        e' = witness_env and state' = Running and es' = None and pid' = None and stopped' = None]
    by (auto split: prod.splits sum.splits if_splits)
qed

section \<open>The runtime state machine\<close>

datatype session_op =
    OpStart "int option" | OpReady | OpBegin ident | OpFinish bool | OpStop

fun run_session_op :: "env \<Rightarrow> session_op \<Rightarrow> dbm \<Rightarrow> (dbm, unit) outcome" where
  "run_session_op e (OpStart pid) st = start_session e pid st"
| "run_session_op e OpReady st = session_ready e st"
| "run_session_op e (OpBegin task) st = begin_work e task st"
| "run_session_op e (OpFinish success) st = finish_work e success st"
| "run_session_op e OpStop st = stop_session e st"

fun op_target :: "session_op \<Rightarrow> runtime_status" where
  "op_target (OpStart pid) = Starting"
| "op_target OpReady = Running"
| "op_target (OpBegin task) = Running"
| "op_target (OpFinish success) = Idle"
| "op_target OpStop = Stopped"

text \<open>What the table allows next; a worker that never had a session can only start one.\<close>

definition runtime_allowed :: "runtime_status option \<Rightarrow> runtime_status \<Rightarrow> bool" where
  "runtime_allowed cur new =
     (case cur of None \<Rightarrow> new = Starting | Some rs \<Rightarrow> new \<in> set (RUNTIME_TRANSITIONS rs))"

definition stored_runtime :: "db \<Rightarrow> ident \<Rightarrow> runtime_status option" where
  "stored_runtime d i = map_option ws_runtime_status (get_worker_state d i)"

text \<open>A cache is coherent when it is empty or holds the stored row.\<close>

definition coherent :: "dbm \<Rightarrow> bool" where
  "coherent st = (case st of (d, m) \<Rightarrow> sm_state m = None \<or> sm_state m = get_worker_state d (sm_id m))"

lemma coherent_runtime: "coherent (d, m) \<Longrightarrow> runtime_status_of d m = stored_runtime d (sm_id m)"
  by (auto simp: coherent_def runtime_status_of_def load_state_def stored_runtime_def)

lemma load_state_simps [simp]:
  "sm_worker (load_state d m) = sm_worker m" "sm_session (load_state d m) = sm_session m"
  by (simp_all add: load_state_def)

lemma validate_runtime_None:
  "validate_runtime_transition d m new = None \<longleftrightarrow> runtime_allowed (runtime_status_of d m) new"
  by (simp add: validate_runtime_transition_def runtime_allowed_def split: option.splits)

lemma update_runtime_ok:
  assumes "states_wf d" and "update_worker_runtime_status e i rs task d = (Inr u, d')"
  shows "states_wf d'" and "stored_runtime d' i = Some rs"
    and "\<And>j. j \<noteq> i \<Longrightarrow> stored_runtime d' j = stored_runtime d j" and "worker_exists d i"
  using runtime_update_facts [OF assms(1), where e = e and i = i and rs = rs and task = task] assms(2)
  by (auto simp: stored_runtime_def)

lemma update_runtime_err:
  assumes "update_worker_runtime_status e i rs task d = (Inl x, d')"
  shows "d' = d"
  using assms runtime_update_existing(1) [of d i _ e rs task] runtime_update_new(1) [of d i e rs task]
    runtime_update_unknown [of d i e rs task]
  by (cases "get_worker_state d i"; cases "worker_exists d i") auto

text \<open>The outcome of a guarded update, on both branches.\<close>

lemma guarded_update_cases:
  assumes "states_wf d" and "coherent (d, m)"
  shows "case guarded_update e rs task (d, m) of
      (Inl x, (d', m')) \<Rightarrow> d' = d \<and> sm_id m' = sm_id m
    | (Inr u, (d', m')) \<Rightarrow> runtime_allowed (stored_runtime d (sm_id m)) rs
        \<and> stored_runtime d' (sm_id m) = Some rs
        \<and> (\<forall>j. j \<noteq> sm_id m \<longrightarrow> stored_runtime d' j = stored_runtime d j)
        \<and> states_wf d' \<and> m' = m\<lparr>sm_state := None\<rparr>"
proof (cases "validate_runtime_transition d m rs")
  case None
  then have allowed: "runtime_allowed (stored_runtime d (sm_id m)) rs"
    using validate_runtime_None coherent_runtime [OF assms(2)] by simp
  have m': "(load_state d m)\<lparr>sm_state := None\<rparr> = m\<lparr>sm_state := None\<rparr>" by (simp add: load_state_def)
  obtain r d1 where u: "update_worker_runtime_status e (sm_id m) rs task d = (r, d1)" by fastforce
  show ?thesis
  proof (cases r)
    case (Inl x)
    then show ?thesis using None u update_runtime_err [of e "sm_id m" rs task d x d1]
      by (simp add: guarded_update_def)
  next
    case (Inr y)
    note k = update_runtime_ok [OF assms(1) u [unfolded Inr]]
    show ?thesis using None u Inr allowed k by (simp add: guarded_update_def m')
  qed
next
  case (Some x)
  then show ?thesis by (simp add: guarded_update_def)
qed

lemma stored_runtime_cong: "worker_states d' = worker_states d \<Longrightarrow> stored_runtime d' = stored_runtime d"
  by (auto simp: stored_runtime_def get_worker_state_def)

lemma states_wf_cong:
  "worker_states d' = worker_states d \<Longrightarrow> workers d' = workers d \<Longrightarrow> states_wf d' = states_wf d"
  by (simp add: states_wf_def worker_exists_def)

text \<open>An update of a worker's state row that keeps owner and status.\<close>

lemma state_row_update:
  assumes "\<And>s. ws_worker_id (f s) = ws_worker_id s" and "\<And>s. ws_runtime_status (f s) = ws_runtime_status s"
  shows "stored_runtime (d\<lparr>worker_states := update_where p f (worker_states d)\<rparr>) = stored_runtime d"
    and "states_wf (d\<lparr>worker_states := update_where p f (worker_states d)\<rparr>) = states_wf d"
proof -
  have "fetchone (\<lambda>s. ws_worker_id s = i) (update_where p f rows) =
      map_option (\<lambda>s. if p s then f s else s) (fetchone (\<lambda>s. ws_worker_id s = i) rows)" for i rows
    by (induction rows) (auto simp: assms(1))
  then show "stored_runtime (d\<lparr>worker_states := update_where p f (worker_states d)\<rparr>) = stored_runtime d"
    by (auto simp: stored_runtime_def get_worker_state_def assms(2) option.map_comp fun_eq_iff
        intro!: option.map_cong)
  have keys: "map ws_worker_id (update_where p f rows) = map ws_worker_id rows" for rows
    by (induction rows) (auto simp: assms(1))
  have own: "(\<forall>s \<in> set (update_where p f rows). P (ws_worker_id s)) = (\<forall>s \<in> set rows. P (ws_worker_id s))" for P rows
    by (induction rows) (auto simp: assms(1))
  show "states_wf (d\<lparr>worker_states := update_where p f (worker_states d)\<rparr>) = states_wf d"
    using own [of "worker_states d" "\<lambda>i. i \<in> w_id ` set (workers d)"]
    by (simp add: states_wf_def keys worker_exists_def)
qed

lemma close_session_record_frame:
  "worker_states (close_session_record e i st d) = worker_states d"
  "workers (close_session_record e i st d) = workers d"
  by (simp_all add: close_session_record_def update_session_state_def set_session_row_def
      log_status_change_def split: option.splits)

lemma close_session_record_runtime:
  "stored_runtime (close_session_record e i st d) = stored_runtime d"
  "states_wf (close_session_record e i st d) = states_wf d"
  by (rule stored_runtime_cong, rule close_session_record_frame)
    (rule states_wf_cong; rule close_session_record_frame)

lemma increment_task_frame:
  "stored_runtime (increment_worker_task_count e i done d) = stored_runtime d"
  "states_wf (increment_worker_task_count e i done d) = states_wf d"
  by (simp_all add: increment_worker_task_count_def state_row_update)

text \<open>One operation: on success it moved along the table, on failure nothing was stored.\<close>

definition op_effect :: "session_op \<Rightarrow> dbm \<Rightarrow> (dbm, unit) outcome \<Rightarrow> bool" where
  "op_effect op st out =
     (case (st, out) of
        ((d, m), (Inl x, (d', m'))) \<Rightarrow> d' = d \<and> sm_id m' = sm_id m
      | ((d, m), (Inr u, (d', m'))) \<Rightarrow>
          runtime_allowed (stored_runtime d (sm_id m)) (op_target op)
          \<and> stored_runtime d' (sm_id m) = Some (op_target op)
          \<and> (\<forall>j. j \<noteq> sm_id m \<longrightarrow> stored_runtime d' j = stored_runtime d j)
          \<and> states_wf d' \<and> sm_id m' = sm_id m \<and> sm_state m' = None)"

lemma start_session_effect:
  assumes "states_wf d" and "coherent (d, m)"
  shows "op_effect (OpStart pid) (d, m) (start_session e pid (d, m))"
proof -
  obtain r m1 where v: "validate_session_allowed d m = (r, m1)" by fastforce
  have m1: "sm_id m1 = sm_id m" "sm_state m1 = sm_state m"
  proof -
    obtain wr ob where w: "worker_data d (sm_worker m) = (wr, ob)" by fastforce
    have "m1 = m\<lparr>sm_worker := ob\<rparr>"
      using v w by (auto simp: validate_session_allowed_def split: sum.splits if_splits)
    then show "sm_id m1 = sm_id m" "sm_state m1 = sm_state m" using worker_data_id [OF w] by simp_all
  qed
  show ?thesis
  proof (cases r)
    case (Inl x)
    then show ?thesis using v m1 by (simp add: start_session_def op_effect_def)
  next
    case (Inr u)
    define m2 where "m2 = load_state d m1"
    have m2: "sm_id m2 = sm_id m" "coherent (d, m2)" "sm_state m2 = get_worker_state d (sm_id m)"
      using assms(2) m1 by (auto simp: m2_def coherent_def load_state_def)
    have none: "stored_runtime d (sm_id m) = None" if "sm_state m2 = None"
      using that m2 by (simp add: stored_runtime_def)
    show ?thesis
    proof (cases "sm_state m2")
      case None
      define s where "s = \<lparr>ws_worker_id = sm_id m, ws_runtime_status = Starting, ws_current_task_id = None,
               ws_pid = pid, ws_started_at = Some (now e), ws_last_activity = Some (now e),
               ws_tasks_completed = 0, ws_tasks_failed = 0, ws_updated_at = now e\<rparr>"
      have c: "create_worker_state e (sm_id m) pid d = and_then (insert_worker_state_row s d) (\<lambda>_ d1. ok s d1)"
        by (simp add: create_worker_state_def s_def Let_def)
      have fresh: "fetchone (\<lambda>s. ws_worker_id s = sm_id m) (worker_states d) = None"
        using None m2(3) by (simp add: get_worker_state_def)
      then have notin: "sm_id m \<notin> ws_worker_id ` set (worker_states d)"
        by (auto simp: fetchone_eq_None_iff)
      show ?thesis
      proof (cases "worker_exists d (sm_id m)")
        case True
        have "start_session e pid (d, m) =
            ok () (d\<lparr>worker_states := worker_states d @ [s]\<rparr>, m2\<lparr>sm_state := None\<rparr>)"
          using Inr v None m2(1) c notin True
          by (simp add: start_session_def m2_def [symmetric] insert_worker_state_row_def s_def)
        moreover have "states_wf (d\<lparr>worker_states := worker_states d @ [s]\<rparr>)"
          using assms(1) notin True by (auto simp: states_wf_def worker_exists_def s_def)
        ultimately show ?thesis
          using none [OF None] fresh m2(1)
          by (auto simp: op_effect_def runtime_allowed_def stored_runtime_def get_worker_state_def s_def
              split: option.splits)
      next
        case False
        then show ?thesis
          using Inr v None m2(1) c notin
          by (simp add: start_session_def m2_def [symmetric] insert_worker_state_row_def s_def op_effect_def)
      qed
    next
      case (Some row)
      obtain gr d1 m3 where g: "guarded_update e Starting None (d, m2) = (gr, (d1, m3))" by (metis surj_pair)
      note k = guarded_update_cases [OF assms(1) m2(2), where e = e and rs = Starting and task = None]
      have "start_session e pid (d, m) = and_then (gr, (d1, m3)) (\<lambda>_ st1.
          case st1 of (d1, m3) \<Rightarrow> (case pid of None \<Rightarrow> ok () (d1, m3)
            | Some p \<Rightarrow> ok () (d1\<lparr>worker_states := update_where (\<lambda>s. ws_worker_id s = sm_id m3)
                (\<lambda>s. s\<lparr>ws_pid := Some p\<rparr>) (worker_states d1)\<rparr>, m3)))"
        using Inr v Some g by (simp add: start_session_def m2_def [symmetric])
      then show ?thesis
        using k g m2(1)
        by (cases gr; cases pid) (auto simp: op_effect_def state_row_update)
    qed
  qed
qed

lemma guarded_op_effect:
  assumes "states_wf d" and "coherent (d, m)" and "op_target op = rs"
    and "\<And>d1. stored_runtime (f d1) = stored_runtime d1" and "\<And>d1. states_wf (f d1) = states_wf d1"
  shows "op_effect op (d, m)
     (and_then (guarded_update e rs task (d, m)) (\<lambda>_ st1. case st1 of (d1, m1) \<Rightarrow> ok () (f d1, m1)))"
proof -
  obtain gr d1 m1 where g: "guarded_update e rs task (d, m) = (gr, (d1, m1))" by (metis surj_pair)
  show ?thesis
    using guarded_update_cases [OF assms(1,2), where e = e and rs = rs and task = task] assms(3-)
    by (cases gr) (simp_all add: g op_effect_def)
qed

lemma guarded_update_plain:
  "guarded_update e rs task st =
     and_then (guarded_update e rs task st) (\<lambda>_ st1. case st1 of (d1, m1) \<Rightarrow> ok () (id d1, m1))"
  by (cases "guarded_update e rs task st") (auto simp: and_then_def split: sum.splits)

lemma session_op_effect:
  assumes "states_wf d" and "coherent (d, m)"
  shows "op_effect op (d, m) (run_session_op e op (d, m))"
proof (cases op)
  case (OpStart pid)
  then show ?thesis using start_session_effect [OF assms] by simp
next
  case OpReady
  then show ?thesis
    unfolding OpReady run_session_op.simps session_ready_def
    by (subst guarded_update_plain) (rule guarded_op_effect [OF assms], simp_all)
next
  case (OpBegin task)
  then show ?thesis
    unfolding OpBegin run_session_op.simps begin_work_def
    by (subst guarded_update_plain) (rule guarded_op_effect [OF assms], simp_all)
next
  case (OpFinish success)
  have "sm_id m1 = sm_id m"
    if "guarded_update e Idle None (d, m) = (Inr u, (d1, m1))" for u d1 m1
    using that guarded_update_cases [OF assms, where e = e and rs = Idle and task = None] by simp
  then have "finish_work e success (d, m) = and_then (guarded_update e Idle None (d, m))
      (\<lambda>_ st1. case st1 of (d1, m1) \<Rightarrow> ok () (increment_worker_task_count e (sm_id m) success d1, m1))"
    by (cases "guarded_update e Idle None (d, m)") (auto simp: finish_work_def and_then_def split: sum.split)
  moreover have "op_effect op (d, m) \<dots>"
    by (rule guarded_op_effect [OF assms]) (simp_all add: OpFinish increment_task_frame)
  ultimately show ?thesis by (simp add: OpFinish)
next
  case OpStop
  have "sm_id m1 = sm_id m"
    if "guarded_update e Stopped None (d, m) = (Inr u, (d1, m1))" for u d1 m1
    using that guarded_update_cases [OF assms, where e = e and rs = Stopped and task = None] by simp
  then have "stop_session e (d, m) = and_then (guarded_update e Stopped None (d, m))
      (\<lambda>_ st1. case st1 of (d1, m1) \<Rightarrow> ok () (close_session_record e (sm_id m) Stopped d1, m1))"
    by (cases "guarded_update e Stopped None (d, m)") (auto simp: stop_session_def and_then_def split: sum.split)
  moreover have "op_effect op (d, m) \<dots>"
    by (rule guarded_op_effect [OF assms])
      (simp_all add: OpStop close_session_record_runtime)
  ultimately show ?thesis by (simp add: OpStop)
qed

text \<open>Runs of operations that all succeed, by any number of managers of the same worker.\<close>

inductive session_steps :: "env \<Rightarrow> dbm \<Rightarrow> session_op list \<Rightarrow> dbm \<Rightarrow> bool" for e where
  finish: "session_steps e st [] st"
| step: "run_session_op e op st = (Inr (), st') \<Longrightarrow> session_steps e st' ops st''
         \<Longrightarrow> session_steps e st (op # ops) st''"

inductive_cases session_steps_NilE: "session_steps e st [] st'"

fun runtime_path :: "runtime_status option \<Rightarrow> runtime_status list \<Rightarrow> bool" where
  "runtime_path cur [] = True"
| "runtime_path cur (s # ss) = (runtime_allowed cur s \<and> runtime_path (Some s) ss)"

lemma session_steps_path:
  assumes "session_steps e st ops st'"
  shows "case (st, st') of ((d, m), (d', m')) \<Rightarrow> states_wf d \<longrightarrow> coherent (d, m) \<longrightarrow>
     runtime_path (stored_runtime d (sm_id m)) (map op_target ops) \<and> states_wf d'
     \<and> (ops \<noteq> [] \<longrightarrow> stored_runtime d' (sm_id m) = Some (op_target (last ops)))
     \<and> (\<forall>j. j \<noteq> sm_id m \<longrightarrow> stored_runtime d' j = stored_runtime d j)"
  using assms
proof (induction rule: session_steps.induct)
  case (finish st)
  show ?case by (auto split: prod.splits)
next
  case (step op st st' ops st'')
  obtain d m d1 m1 d2 m2 where st: "st = (d, m)" "st' = (d1, m1)" "st'' = (d2, m2)" by (metis surj_pair)
  show ?case
    unfolding st prod.case
  proof (intro impI)
    assume wf: "states_wf d" and co: "coherent (d, m)"
    have eff: "op_effect op (d, m) (Inr (), (d1, m1))"
      using session_op_effect [OF wf co, of op e] step.hyps(1) st by simp
    then have "coherent (d1, m1)" by (simp add: op_effect_def coherent_def)
    then show "runtime_path (stored_runtime d (sm_id m)) (map op_target (op # ops)) \<and> states_wf d2
        \<and> (op # ops \<noteq> [] \<longrightarrow> stored_runtime d2 (sm_id m) = Some (op_target (last (op # ops))))
        \<and> (\<forall>j. j \<noteq> sm_id m \<longrightarrow> stored_runtime d2 j = stored_runtime d j)"
      using step.IH step.hyps(2) eff unfolding st
      by (cases ops) (auto simp: op_effect_def elim: session_steps_NilE)
  qed
qed


definition eng_mgr :: smgr where
  "eng_mgr = \<lparr>sm_worker = \<lparr>wo_id = ''eng'', wo_data = None\<rparr>, sm_state = None, sm_session = None\<rparr>"

lemma sess_db_states_wf: "states_wf sess_db"
  by (simp add: states_wf_def worker_exists_def sess_db_def org_defs)


text \<open>
  \<open>mark_crashed\<close> does not consult the table: an idle worker becomes crashed, a step that
  \<open>RUNTIME_TRANSITIONS\<close> does not list.
\<close>

theorem mark_crashed_leaves_table:
  assumes "states_wf d" and "coherent (d, m)" and "stored_runtime d (sm_id m) = Some Idle"
  shows "\<exists>d' m'. mark_crashed e (d, m) = (Inr (), (d', m')) \<and> stored_runtime d' (sm_id m) = Some Crashed
    \<and> Crashed \<notin> set (RUNTIME_TRANSITIONS Idle)"
proof -
  have rt: "runtime_status_of d m = Some Idle" using coherent_runtime [OF assms(2)] assms(3) by simp
  obtain s where s: "get_worker_state d (sm_id m) = Some s" using assms(3) by (auto simp: stored_runtime_def)
  obtain d1 where u: "update_worker_runtime_status e (sm_id m) Crashed None d = (Inr (), d1)"
    using runtime_update_existing(1) [OF s, of e Crashed None]
    by (cases "update_worker_runtime_status e (sm_id m) Crashed None d") auto
  have "mark_crashed e (d, m) =
      (Inr (), (close_session_record e (sm_id m) Crashed d1, (load_state d m)\<lparr>sm_state := None\<rparr>))"
    by (simp add: mark_crashed_def rt u active_session_states_def)
  then show ?thesis
    using update_runtime_ok(2) [OF assms(1) u] by (simp add: close_session_record_runtime)
qed

theorem mark_crashed_leaves_table_witness:
  "\<exists>st. mark_crashed witness_env (sess_db, eng_mgr) = (Inr (), st) \<and> stored_runtime (fst st) ''eng'' = Some Crashed"
proof -
  have id: "sm_id eng_mgr = ''eng''" by (simp add: eng_mgr_def)
  have "coherent (sess_db, eng_mgr)" "stored_runtime sess_db (sm_id eng_mgr) = Some Idle"
    by (simp_all add: coherent_def eng_mgr_def stored_runtime_def get_worker_state_def sess_db_def)
  from mark_crashed_leaves_table [OF sess_db_states_wf this, of witness_env]
  show ?thesis unfolding id by auto
qed

lemma repair_to_effect:
  assumes "states_wf d" and "stored_runtime d (sm_id m) \<noteq> None"
  shows "\<exists>d'. repair_to e rs b (d, m) = ok b (d', m\<lparr>sm_state := None\<rparr>)
    \<and> stored_runtime d' (sm_id m) = Some rs \<and> states_wf d' \<and> sessions d' = sessions d"
proof -
  obtain s where s: "get_worker_state d (sm_id m) = Some s" using assms(2) by (auto simp: stored_runtime_def)
  obtain d1 where u: "update_worker_runtime_status e (sm_id m) rs None d = (Inr (), d1)"
    using runtime_update_existing(1) [OF s, of e rs None]
    by (cases "update_worker_runtime_status e (sm_id m) rs None d") auto
  have "sessions d1 = sessions d"
    using u s by (auto simp: update_worker_runtime_status_def Let_def bus_publish_def log_status_change_def
        split: if_splits)
  then show ?thesis using update_runtime_ok [OF assms(1) u] by (simp add: repair_to_def u)
qed

text \<open>
  \<open>is_session_active\<close> always answers and leaves a consistent picture: after the answer no, the
  worker has no active session record and its stored runtime status does not claim a session;
  after the answer yes without an attached session object there is an active session record or
  the stored status is idle.
\<close>

theorem session_active_repairs:
  assumes "states_wf d" and "coherent (d, m)"
  shows "\<exists>b d' m'. is_session_active e alive (d, m) = ok b (d', m') \<and> states_wf d' \<and> sessions d' = sessions d
    \<and> (\<not> b \<longrightarrow> sm_session m = None
         \<and> (\<forall>s. get_session_for_worker d' (sm_id m) = Some s \<longrightarrow> ss_state s \<notin> set active_session_states)
         \<and> stored_runtime d' (sm_id m) \<notin> Some ` set active_session_states)
    \<and> (b \<and> sm_session m = None \<longrightarrow>
         (\<exists>s. get_session_for_worker d' (sm_id m) = Some s \<and> ss_state s \<in> set active_session_states)
         \<or> stored_runtime d' (sm_id m) = Some Idle)"
proof -
  have rt: "runtime_status_of d m = stored_runtime d (sm_id m)" using coherent_runtime [OF assms(2)] .
  have sess: "get_session_for_worker d' i = get_session_for_worker d i" if "sessions d' = sessions d" for d' i
    using that by (simp add: get_session_for_worker_def)
  have stop: "Some Stopped \<notin> Some ` set active_session_states"
    by (simp add: active_session_states_def image_iff)
  show ?thesis
  proof (cases "sm_session m = None")
    case False
    then show ?thesis
      using assms(1) by (intro exI [of _ True] exI [of _ d] exI [of _ m]) (auto simp: is_session_active_def)
  next
    case True
    note none = this
    define act where "act = (\<exists>s. get_session_for_worker d (sm_id m) = Some s \<and> ss_state s \<in> set active_session_states)"
    define has_rec where "has_rec = (get_session_for_worker d (sm_id m) \<noteq> None)"
    let ?rt = "stored_runtime d (sm_id m)" and ?m = "load_state d m"
    have eq: "is_session_active e alive (d, m) =
        (if act then ok True (d, m)
         else if has_rec \<and> ?rt = Some Crashed \<and> alive then repair_to e Idle True (d, ?m)
         else if ?rt \<in> Some ` set active_session_states then repair_to e Stopped False (d, ?m)
         else ok False (d, ?m))"
      using none by (auto simp: is_session_active_def act_def has_rec_def rt Let_def split: option.splits)
    note rep = repair_to_effect [OF assms(1), of ?m, unfolded load_state_simps]
    consider "act" | "\<not> act" "has_rec \<and> ?rt = Some Crashed \<and> alive"
      | "\<not> act" "\<not> (has_rec \<and> ?rt = Some Crashed \<and> alive)" "?rt \<in> Some ` set active_session_states"
      | "\<not> act" "\<not> (has_rec \<and> ?rt = Some Crashed \<and> alive)" "?rt \<notin> Some ` set active_session_states" by blast
    then show ?thesis
    proof cases
      case 1
      then show ?thesis using eq assms(1) by (auto simp: act_def)
    next
      case 2
      then obtain d' where r: "repair_to e Idle True (d, ?m) = ok True (d', ?m\<lparr>sm_state := None\<rparr>)"
        "stored_runtime d' (sm_id m) = Some Idle" "states_wf d'" "sessions d' = sessions d"
        using rep [of e Idle True] by auto
      show ?thesis using 2 eq r none by auto
    next
      case 3
      then obtain d' where r: "repair_to e Stopped False (d, ?m) = ok False (d', ?m\<lparr>sm_state := None\<rparr>)"
        "stored_runtime d' (sm_id m) = Some Stopped" "states_wf d'" "sessions d' = sessions d"
        using rep [of e Stopped False] by auto
      show ?thesis using 3 eq r none stop sess [OF r(4)] by (auto simp: act_def)
    next
      case 4
      then show ?thesis using eq none assms(1) by (auto simp: act_def)
    qed
  qed
qed

theorem session_active_repairs_witness:
  "\<exists>b d' m'. is_session_active witness_env False (sess_db, eng_mgr) = ok b (d', m')
     \<and> states_wf d' \<and> sessions d' = sessions sess_db"
proof -
  have co: "coherent (sess_db, eng_mgr)" by (simp add: coherent_def eng_mgr_def)
  from session_active_repairs [OF sess_db_states_wf co, of witness_env False] show ?thesis by blast
qed

end
