(* ===== verification/Lifecycle_Manager.thy ===== *)
theory Lifecycle_Manager
  imports Sessions
begin

text \<open>
  \<open>cli/core/worker/lifecycle_manager.py\<close>: onboarding, suspension, offboarding and termination of a
  worker. The state is the database, the worker's manager object and, per worker, which of its
  two storage directories exist: the plain one and the one with the frozen suffix
  (\<open>cli/core/storage.py\<close>, without the nesting of the directories). Arguments stand for what comes
  from outside: \<open>prep\<close>, an exception of the onboarding files; \<open>bead\<close>, the id the beads tool
  returned; \<open>alive\<close>, whether the terminal exists; \<open>stop_error\<close>, an exception of stopping it.
  Messages to channels and managers, the org chart file and log lines are left out.
\<close>

section \<open>Storage directories\<close>

record store =
  sd_plain :: bool
  sd_frozen :: bool

definition ensure_worker_storage :: "store \<Rightarrow> store" where
  "ensure_worker_storage s = s\<lparr>sd_plain := True\<rparr>"

definition freeze_worker :: "ident \<Rightarrow> store \<Rightarrow> (store, unit) outcome" where
  "freeze_worker i s =
     (if sd_frozen s then raise (StorageAlreadyFrozen i) s
      else if \<not> sd_plain s then raise (WorkerStorageNotFound i) s
      else ok () \<lparr>sd_plain = False, sd_frozen = True\<rparr>)"

definition delete_worker_storage :: "store \<Rightarrow> bool \<times> store" where
  "delete_worker_storage s =
     (if sd_frozen s then (True, s\<lparr>sd_frozen := False\<rparr>)
      else if sd_plain s then (True, s\<lparr>sd_plain := False\<rparr>)
      else (False, s))"

section \<open>Lifecycle operations\<close>

record wstate =
  st_db :: db
  st_sm :: smgr
  st_store :: store

abbreviation st_id :: "wstate \<Rightarrow> ident" where
  "st_id s \<equiv> sm_id (st_sm s)"

definition set_obj :: "wobj \<Rightarrow> wstate \<Rightarrow> wstate" where
  "set_obj ob s = s\<lparr>st_sm := (st_sm s)\<lparr>sm_worker := ob\<rparr>\<rparr>"

definition drop_cache :: "wstate \<Rightarrow> wstate" where
  "drop_cache s = set_obj ((sm_worker (st_sm s))\<lparr>wo_data := None\<rparr>) s"

text \<open>A property getter of the worker: the cached row, loaded when there is none.\<close>

definition read_worker :: "wstate \<Rightarrow> (wstate, worker) outcome" where
  "read_worker s =
     (case worker_data (st_db s) (sm_worker (st_sm s)) of
        (Inl x, ob) \<Rightarrow> raise x (set_obj ob s)
      | (Inr w, ob) \<Rightarrow> ok w (set_obj ob s))"

definition validate_lifecycle_transition :: "lifecycle_status \<Rightarrow> wstate \<Rightarrow> (wstate, worker) outcome" where
  "validate_lifecycle_transition new s =
     and_then (read_worker s) (\<lambda>w s1.
       if new \<notin> set (LIFECYCLE_TRANSITIONS (wk_status w))
       then raise (InvalidStateTransition (lifecycle_name (wk_status w)) (lifecycle_name new)
                     (map lifecycle_name (LIFECYCLE_TRANSITIONS (wk_status w)))) s1
       else ok w s1)"

definition set_status :: "env \<Rightarrow> lifecycle_status \<Rightarrow> wstate \<Rightarrow> (wstate, unit) outcome" where
  "set_status e new s =
     (case update_worker_status e (st_id s) new (st_db s) of (r, d) \<Rightarrow> (r, s\<lparr>st_db := d\<rparr>))"

text \<open>The log line at the end reads the worker's name, which reloads a dropped cache.\<close>

definition log_lifecycle :: "wstate \<Rightarrow> (wstate, unit) outcome" where
  "log_lifecycle s = and_then (read_worker s) (\<lambda>_ s1. ok () s1)"

definition start_onboarding :: "env \<Rightarrow> py_error option \<Rightarrow> wstate \<Rightarrow> (wstate, unit) outcome" where
  "start_onboarding e prep s =
     and_then (validate_lifecycle_transition Onboarding s) (\<lambda>_ s1.
       let s2 = s1\<lparr>st_store := ensure_worker_storage (st_store s1)\<rparr>
       in case prep of
            Some x \<Rightarrow> raise x s2
          | None \<Rightarrow> and_then (set_status e Onboarding s2) (\<lambda>_ s3. log_lifecycle (drop_cache s3)))"

definition complete_onboarding :: "env \<Rightarrow> wstate \<Rightarrow> (wstate, unit) outcome" where
  "complete_onboarding e s =
     and_then (validate_lifecycle_transition Active s) (\<lambda>_ s1.
     and_then (set_status e Active s1) (\<lambda>_ s2. log_lifecycle (drop_cache s2)))"

definition fail_onboarding :: "env \<Rightarrow> wstate \<Rightarrow> (wstate, unit) outcome" where
  "fail_onboarding e s =
     and_then (validate_lifecycle_transition Terminated s) (\<lambda>_ s1.
     let s2 = s1\<lparr>st_store := snd (delete_worker_storage (st_store s1))\<rparr>
     in and_then (set_status e Terminated s2) (\<lambda>_ s3. log_lifecycle (drop_cache s3)))"

text \<open>\<open>_store_offboarding_ask_bead_id\<close>: the column, then an event on a bus of its own.\<close>

definition store_offboarding_ask_bead_id :: "env \<Rightarrow> ident \<Rightarrow> worker \<Rightarrow> wstate \<Rightarrow> wstate" where
  "store_offboarding_ask_bead_id e bead w s =
     (let d1 = (st_db s)\<lparr>workers := update_where (\<lambda>r. w_id r = st_id s)
                  (\<lambda>r. r\<lparr>w_offboarding_ask_bead_id := Some bead, w_updated_at := now e\<rparr>) (workers (st_db s))\<rparr>
      in s\<lparr>st_db := snd (bus_publish e ''offboarding.ask_created'' ''offboarding'' bead
             (JObj [(''worker_id'', JStr (st_id s)), (''worker_name'', JStr (wk_name w)),
                    (''manager_id'', case wk_manager_id w of None \<Rightarrow> JNull | Some m \<Rightarrow> JStr m),
                    (''bead_id'', JStr bead)]) None d1)\<rparr>)"

definition get_offboarding_ask_bead_id :: "db \<Rightarrow> ident \<Rightarrow> ident option" where
  "get_offboarding_ask_bead_id d i =
     (case fetchone (\<lambda>r. w_id r = i) (workers d) of
        None \<Rightarrow> None
      | Some r \<Rightarrow> (case w_offboarding_ask_bead_id r of None \<Rightarrow> None | Some b \<Rightarrow> if b = [] then None else Some b))"

definition create_offboarding_ask_bead :: "env \<Rightarrow> ident option \<Rightarrow> worker \<Rightarrow> wstate \<Rightarrow> wstate" where
  "create_offboarding_ask_bead e bead w s =
     (case wk_manager_id w of
        None \<Rightarrow> s
      | Some m \<Rightarrow>
          if m = [] then s
          else (case bead of None \<Rightarrow> s
                | Some b \<Rightarrow> if b = [] then s else store_offboarding_ask_bead_id e b w s))"

definition start_offboarding :: "env \<Rightarrow> ident option \<Rightarrow> wstate \<Rightarrow> (wstate, unit) outcome" where
  "start_offboarding e bead s =
     and_then (validate_lifecycle_transition Offboarding s) (\<lambda>w s1.
     let s2 = s1\<lparr>st_store := snd (freeze_worker (st_id s1) (st_store s1))\<rparr>;
         s3 = create_offboarding_ask_bead e bead w s2
     in and_then (set_status e Offboarding s3) (\<lambda>_ s4. log_lifecycle (drop_cache s4)))"

definition suspend :: "env \<Rightarrow> bool \<Rightarrow> wstate \<Rightarrow> (wstate, unit) outcome" where
  "suspend e alive s =
     and_then (validate_lifecycle_transition Suspended s) (\<lambda>_ s1.
     case is_session_active e alive (st_db s1, st_sm s1) of
       (Inl x, (d, m)) \<Rightarrow> raise x (s1\<lparr>st_db := d, st_sm := m\<rparr>)
     | (Inr active, (d, m)) \<Rightarrow>
         (case (if active then stop_session e (d, m) else ok () (d, m)) of
            (Inl x, (d1, m1)) \<Rightarrow> raise x (s1\<lparr>st_db := d1, st_sm := m1\<rparr>)
          | (Inr _, (d1, m1)) \<Rightarrow>
              and_then (set_status e Suspended (s1\<lparr>st_db := d1, st_sm := m1\<rparr>)) (\<lambda>_ s2.
              and_then (log_lifecycle s2) (\<lambda>_ s3. ok () (drop_cache s3)))))"

definition unsuspend :: "env \<Rightarrow> wstate \<Rightarrow> (wstate, unit) outcome" where
  "unsuspend e s =
     and_then (validate_lifecycle_transition Active s) (\<lambda>_ s1.
     and_then (set_status e Active s1) (\<lambda>_ s2.
     and_then (log_lifecycle s2) (\<lambda>_ s3. ok () (drop_cache s3))))"

definition leave_teams :: "ident \<Rightarrow> db \<Rightarrow> db" where
  "leave_teams i d =
     fold (\<lambda>m d. snd (remove_team_member (tm_team_id m) i d)) (get_worker_team_memberships d i) d"

definition terminate :: "env \<Rightarrow> py_error option \<Rightarrow> wstate \<Rightarrow> (wstate, unit) outcome" where
  "terminate e stop_error s =
     and_then (read_worker s) (\<lambda>_ s1.
     case terminate_session stop_error (st_db s1, st_sm s1) of
       (Inl x, (d, m)) \<Rightarrow> raise x (s1\<lparr>st_db := d, st_sm := m\<rparr>)
     | (Inr _, (d, m)) \<Rightarrow>
         (let i = sm_id m;
              d1 = leave_teams i (snd (unsubscribe_from_all_channels i d));
              s2 = s1\<lparr>st_db := d1, st_sm := m, st_store := snd (freeze_worker i (st_store s1))\<rparr>
          in and_then (validate_lifecycle_transition Terminated s2) (\<lambda>w s3.
             and_then (set_status e Terminated s3) (\<lambda>_ s4.
             ok () (drop_cache (s4\<lparr>st_db := snd (bus_publish e ''worker.fired'' ''worker'' i
                      (JObj [(''name'', JStr (wk_name w)), (''role'', JStr (wk_role w))]) None (st_db s4))\<rparr>))))))"

section \<open>Steps that leave the worker table alone\<close>

definition same_core :: "db \<Rightarrow> db \<Rightarrow> bool" where
  "same_core d d' = (workers d' = workers d \<and> grants d' = grants d \<and> audits d' = audits d \<and> teams d' = teams d)"

lemma same_core_refl [simp]: "same_core d d"
  by (simp add: same_core_def)

lemma same_core_trans: "same_core d d1 \<Longrightarrow> same_core d1 d2 \<Longrightarrow> same_core d d2"
  by (simp add: same_core_def)

lemma same_core_facts:
  assumes "same_core d d'"
  shows "get_worker d' i = get_worker d i" and "db_wf d' = db_wf d" and "live_grants_of d' i = live_grants_of d i"
proof -
  have ex: "worker_exists d' = worker_exists d" "team_exists d' = team_exists d"
    using assms by (auto simp: same_core_def worker_exists_def team_exists_def)
  have "worker_ok d' = worker_ok d" "grant_ok d' = grant_ok d"
    by (simp_all add: fun_eq_iff worker_ok_def grant_ok_def ex split: option.split)
  then show "db_wf d' = db_wf d" using assms by (simp add: db_wf_def same_core_def)
  show "get_worker d' i = get_worker d i" using assms by (simp add: get_worker_def same_core_def)
  show "live_grants_of d' i = live_grants_of d i"
    using assms by (simp add: live_grants_of_def same_core_def)
qed

lemma same_core_upd [simp]:
  "same_core d (d\<lparr>subscriptions := x1\<rparr>)" "same_core d (d\<lparr>team_members := x2\<rparr>)"
  "same_core d (d\<lparr>sessions := x3\<rparr>)" "same_core d (d\<lparr>worker_states := x4\<rparr>)"
  "same_core d (d\<lparr>events := x5\<rparr>)" "same_core d (d\<lparr>status_changes := x6\<rparr>)"
  by (simp_all add: same_core_def)

lemma same_core_log [simp]: "same_core d (log_status_change e k i old new d') = same_core d d'"
  by (simp add: log_status_change_def same_core_def)

lemma same_core_publish: "same_core d (snd (bus_publish e ty ety eid pl ac d))"
  by (simp add: bus_publish_def)

lemma same_core_runtime: "same_core d (snd (update_worker_runtime_status e i rs task d))"
  by (auto simp: update_worker_runtime_status_def Let_def bus_publish_def insert_worker_state_row_def
      same_core_def log_status_change_def split: option.splits)

lemma same_core_close: "same_core d (close_session_record e i st d)"
  by (simp add: close_session_record_def update_session_state_def set_session_row_def split: option.splits)

text \<open>A session step keeps the worker object and the core tables.\<close>

definition quiet :: "dbm \<Rightarrow> dbm \<Rightarrow> bool" where
  "quiet st st' = (same_core (fst st) (fst st') \<and> sm_worker (snd st') = sm_worker (snd st))"

lemma quiet_guarded: "quiet (d, m) (snd (guarded_update e rs task (d, m)))"
  using same_core_runtime [of d e "sm_id m" rs task]
  by (auto simp: guarded_update_def quiet_def split: option.splits prod.splits sum.splits)

lemma quiet_stop: "quiet (d, m) (snd (stop_session e (d, m)))"
proof -
  obtain r d1 m1 where g: "guarded_update e Stopped None (d, m) = (r, (d1, m1))" by (metis surj_pair)
  then have "quiet (d, m) (d1, m1)" using quiet_guarded [of d m e Stopped None] by simp
  then show ?thesis
    using same_core_close same_core_trans by (cases r) (auto simp: stop_session_def g quiet_def)
qed

lemma quiet_repair: "quiet (d, m) (snd (repair_to e rs b (d, m)))"
  using same_core_runtime [of d e "sm_id m" rs None]
  by (auto simp: repair_to_def quiet_def split: prod.splits sum.splits)

lemma quiet_active: "quiet (d, m) (snd (is_session_active e alive (d, m)))"
proof -
  have r: "quiet (d, m) (snd (repair_to e rs b (d, load_state d m)))" for rs b
    using quiet_repair [of d "load_state d m" e rs b] by (simp add: quiet_def)
  have "quiet (d, m) (d, m)" "quiet (d, m) (d, load_state d m)" by (simp_all add: quiet_def)
  then show ?thesis using r by (simp add: is_session_active_def Let_def split: option.splits)
qed

lemma leave_teams_core: "same_core d (leave_teams i d)"
proof -
  have "same_core d (fold (\<lambda>m d. snd (remove_team_member (tm_team_id m) i d)) ms d)" for ms
  proof (induction ms arbitrary: d)
    case (Cons m ms)
    have "same_core d (snd (remove_team_member (tm_team_id m) i d))" by (simp add: remove_team_member_def)
    then show ?case using Cons.IH same_core_trans by auto
  qed simp
  then show ?thesis by (simp add: leave_teams_def)
qed

lemma terminate_session_quiet: "quiet st (snd (terminate_session x st))"
  by (auto simp: terminate_session_def quiet_def delete_session_record_def Let_def
      split: prod.splits option.splits)

section \<open>Validation and the status update\<close>

definition status_of :: "db \<Rightarrow> ident \<Rightarrow> lifecycle_status option" where
  "status_of d i = map_option wk_status (get_worker d i)"

definition lc_coherent :: "wstate \<Rightarrow> bool" where
  "lc_coherent s = (wo_data (sm_worker (st_sm s)) = None
     \<or> wo_data (sm_worker (st_sm s)) = get_worker (st_db s) (st_id s))"

lemma set_obj_simps [simp]:
  "st_db (set_obj ob s) = st_db s" "st_store (set_obj ob s) = st_store s"
  "sm_worker (st_sm (set_obj ob s)) = ob" "sm_session (st_sm (set_obj ob s)) = sm_session (st_sm s)"
  "sm_state (st_sm (set_obj ob s)) = sm_state (st_sm s)"
  by (simp_all add: set_obj_def)

lemma drop_cache_simps [simp]:
  "st_db (drop_cache s) = st_db s" "st_store (drop_cache s) = st_store s" "st_id (drop_cache s) = st_id s"
  "lc_coherent (drop_cache s)"
  by (simp_all add: drop_cache_def lc_coherent_def)

lemma read_worker_cases:
  assumes "read_worker s = (r, s1)"
  shows "st_db s1 = st_db s" and "st_store s1 = st_store s" and "st_id s1 = st_id s"
    and "sm_session (st_sm s1) = sm_session (st_sm s)"
    and "lc_coherent s \<Longrightarrow> lc_coherent s1"
    and "r = Inr w \<Longrightarrow> lc_coherent s \<Longrightarrow> get_worker (st_db s) (st_id s) = Some w"
    and "r = Inr w \<Longrightarrow> wo_data (sm_worker (st_sm s)) = Some v \<Longrightarrow> w = v"
  using assms by (auto simp: read_worker_def worker_data_def load_worker_def lc_coherent_def
      split: option.splits)

lemma validate_cases:
  assumes "validate_lifecycle_transition new s = (r, s1)"
  shows "st_db s1 = st_db s" and "st_store s1 = st_store s" and "st_id s1 = st_id s"
    and "sm_session (st_sm s1) = sm_session (st_sm s)" and "lc_coherent s \<Longrightarrow> lc_coherent s1"
    and "r = Inr w \<Longrightarrow> lc_coherent s \<Longrightarrow> get_worker (st_db s) (st_id s) = Some w"
    and "r = Inr w \<Longrightarrow> new \<in> set (LIFECYCLE_TRANSITIONS (wk_status w))"
proof -
  obtain rr s0 where rw: "read_worker s = (rr, s0)" by fastforce
  have s1: "s1 = s0" and r: "r = Inr w \<Longrightarrow> rr = Inr w \<and> new \<in> set (LIFECYCLE_TRANSITIONS (wk_status w))"
    using assms by (auto simp: validate_lifecycle_transition_def rw and_then_def split: sum.splits if_splits)
  note k = read_worker_cases [OF rw]
  show "st_db s1 = st_db s" "st_store s1 = st_store s" "st_id s1 = st_id s"
    "sm_session (st_sm s1) = sm_session (st_sm s)" "lc_coherent s \<Longrightarrow> lc_coherent s1"
    "r = Inr w \<Longrightarrow> lc_coherent s \<Longrightarrow> get_worker (st_db s) (st_id s) = Some w"
    "r = Inr w \<Longrightarrow> new \<in> set (LIFECYCLE_TRANSITIONS (wk_status w))"
    using k s1 r by auto
qed

lemma set_status_effect:
  assumes "get_worker (st_db s) (st_id s) = Some w"
  obtains s' where "set_status e t s = (Inr (), s')" and "status_of (st_db s') (st_id s) = Some t"
    and "\<And>j. j \<noteq> st_id s \<Longrightarrow> get_worker (st_db s') j = get_worker (st_db s) j"
    and "db_wf (st_db s) \<Longrightarrow> db_wf (st_db s')" and "st_sm s' = st_sm s" and "st_store s' = st_store s"
    and "st_db s' = snd (update_worker_status e (st_id s) t (st_db s))"
proof -
  let ?d = "snd (update_worker_status e (st_id s) t (st_db s))"
  have "set_status e t s = (Inr (), s\<lparr>st_db := ?d\<rparr>)"
    using update_worker_status_result [of e "st_id s" t "st_db s"]
    by (cases "update_worker_status e (st_id s) t (st_db s)") (simp add: set_status_def)
  moreover have "status_of ?d (st_id s) = Some t"
    using get_worker_after_status(1) [OF assms, of e t] by (auto simp: status_of_def)
  moreover have "db_wf (st_db s) \<Longrightarrow> db_wf ?d"
    by (simp add: update_worker_status_tables wf_set_worker_status_row)
  ultimately show thesis
    using that [of "s\<lparr>st_db := ?d\<rparr>"] get_worker_after_status(2) [OF assms] by simp
qed

lemma log_lifecycle_ok:
  assumes "lc_coherent s" and "get_worker (st_db s) (st_id s) = Some w"
  obtains s' where "log_lifecycle s = (Inr (), s')" and "st_db s' = st_db s" and "st_id s' = st_id s"
    and "st_store s' = st_store s" and "lc_coherent s'"
proof -
  obtain r s1 where rw: "read_worker s = (r, s1)" by fastforce
  have "r = Inr w"
    using rw assms by (auto simp: read_worker_def worker_data_def load_worker_def lc_coherent_def
        split: option.splits)
  then show thesis using that [of s1] rw read_worker_cases [OF rw] assms(1) by (simp add: log_lifecycle_def)
qed

section \<open>Every operation follows the lifecycle table\<close>

datatype lifecycle_op =
    LStart "py_error option" | LComplete | LFail | LOffboard "ident option"
  | LSuspend bool | LUnsuspend | LTerminate "py_error option"

fun run_lifecycle_op :: "env \<Rightarrow> lifecycle_op \<Rightarrow> wstate \<Rightarrow> (wstate, unit) outcome" where
  "run_lifecycle_op e (LStart prep) s = start_onboarding e prep s"
| "run_lifecycle_op e LComplete s = complete_onboarding e s"
| "run_lifecycle_op e LFail s = fail_onboarding e s"
| "run_lifecycle_op e (LOffboard bead) s = start_offboarding e bead s"
| "run_lifecycle_op e (LSuspend alive) s = suspend e alive s"
| "run_lifecycle_op e LUnsuspend s = unsuspend e s"
| "run_lifecycle_op e (LTerminate stop_error) s = terminate e stop_error s"

fun lifecycle_target :: "lifecycle_op \<Rightarrow> lifecycle_status" where
  "lifecycle_target (LStart prep) = Onboarding"
| "lifecycle_target LComplete = Active"
| "lifecycle_target LFail = Terminated"
| "lifecycle_target (LOffboard bead) = Offboarding"
| "lifecycle_target (LSuspend alive) = Suspended"
| "lifecycle_target LUnsuspend = Active"
| "lifecycle_target (LTerminate stop_error) = Terminated"

text \<open>
  The effect of an operation on the lifecycle of all workers, relative to the state \<open>s\<close> before
  it: a move of this worker along the table, or no move at all.
\<close>

definition moved :: "lifecycle_status \<Rightarrow> wstate \<Rightarrow> (wstate, unit) outcome \<Rightarrow> bool" where
  "moved t s out =
     (case out of
        (Inl x, s') \<Rightarrow> (\<forall>j. status_of (st_db s') j = status_of (st_db s) j)
      | (Inr u, s') \<Rightarrow>
          (\<exists>old. status_of (st_db s) (st_id s) = Some old \<and> t \<in> set (LIFECYCLE_TRANSITIONS old))
          \<and> status_of (st_db s') (st_id s) = Some t
          \<and> (\<forall>j. j \<noteq> st_id s \<longrightarrow> status_of (st_db s') j = status_of (st_db s) j)
          \<and> (db_wf (st_db s) \<longrightarrow> db_wf (st_db s')) \<and> st_id s' = st_id s \<and> lc_coherent s')"

text \<open>
  Every operation validates first and ends with the status update; \<open>prepared\<close> describes the state
  in between: the same workers, the same object.
\<close>

definition prepared :: "wstate \<Rightarrow> wstate \<Rightarrow> bool" where
  "prepared s s2 = ((\<forall>j. status_of (st_db s2) j = status_of (st_db s) j)
     \<and> (db_wf (st_db s) \<longrightarrow> db_wf (st_db s2)) \<and> st_id s2 = st_id s)"

lemma prepared_core:
  assumes "same_core (st_db s) (st_db s2)" and "st_id s2 = st_id s"
  shows "prepared s s2"
  using assms same_core_facts [OF assms(1)] by (auto simp: prepared_def status_of_def)

lemma moved_err: "prepared s s2 \<Longrightarrow> moved t s (Inl x, s2)"
  by (simp add: moved_def prepared_def)

lemma moved_by_status:
  assumes "get_worker (st_db s) (st_id s) = Some w" and "t \<in> set (LIFECYCLE_TRANSITIONS (wk_status w))"
    and "prepared s s2"
    and "\<And>s3. st_sm s3 = st_sm s2 \<Longrightarrow> \<exists>v. get_worker (st_db s3) (st_id s3) = Some v \<Longrightarrow>
           \<exists>s4. k () s3 = (Inr (), s4) \<and> same_core (st_db s3) (st_db s4) \<and> st_id s4 = st_id s3 \<and> lc_coherent s4"
  shows "moved t s (and_then (set_status e t s2) k)"
proof -
  have id: "st_id s2 = st_id s" using assms(3) by (simp add: prepared_def)
  have "status_of (st_db s2) (st_id s2) = Some (wk_status w)"
    using assms(1,3) by (simp add: prepared_def) (simp add: status_of_def)
  then obtain w2 where w2: "get_worker (st_db s2) (st_id s2) = Some w2" by (auto simp: status_of_def)
  obtain s3 where u: "set_status e t s2 = (Inr (), s3)" "status_of (st_db s3) (st_id s2) = Some t"
    "\<And>j. j \<noteq> st_id s2 \<Longrightarrow> get_worker (st_db s3) j = get_worker (st_db s2) j"
    "db_wf (st_db s2) \<Longrightarrow> db_wf (st_db s3)" "st_sm s3 = st_sm s2"
    using set_status_effect [OF w2, of e t] by metis
  have "\<exists>v. get_worker (st_db s3) (st_id s3) = Some v" using u(2,5) by (auto simp: status_of_def)
  then obtain s4 where k: "k () s3 = (Inr (), s4)" "same_core (st_db s3) (st_db s4)" "st_id s4 = st_id s3"
    "lc_coherent s4" using assms(4) [OF u(5)] by blast
  have st4: "status_of (st_db s4) = status_of (st_db s3)"
    using same_core_facts(1) [OF k(2)] by (simp add: status_of_def fun_eq_iff)
  have oth: "status_of (st_db s3) j = status_of (st_db s) j" if "j \<noteq> st_id s" for j
    using that u(3) [of j] assms(3) by (simp add: id prepared_def) (simp add: status_of_def)
  have old: "status_of (st_db s) (st_id s) = Some (wk_status w)" using assms(1) by (simp add: status_of_def)
  show ?thesis
    using assms(2,3) u(1,2,4,5) k same_core_facts(2) [OF k(2)] st4 oth old id
    by (auto simp: moved_def prepared_def)
qed

text \<open>The two endings: log with a dropped cache, or log and then drop the cache.\<close>

lemma ending_reload:
  assumes "\<exists>v. get_worker (st_db s3) (st_id s3) = Some v"
  shows "\<exists>s4. log_lifecycle (drop_cache s3) = (Inr (), s4) \<and> same_core (st_db s3) (st_db s4)
    \<and> st_id s4 = st_id s3 \<and> lc_coherent s4"
proof -
  obtain v where v: "get_worker (st_db (drop_cache s3)) (st_id (drop_cache s3)) = Some v" using assms by auto
  obtain s4 where "log_lifecycle (drop_cache s3) = (Inr (), s4)" "st_db s4 = st_db (drop_cache s3)"
    "st_id s4 = st_id (drop_cache s3)" "lc_coherent s4"
    by (rule log_lifecycle_ok [OF drop_cache_simps(4) v])
  then show ?thesis by simp
qed

lemma ending_drop:
  assumes "\<exists>v. get_worker (st_db s3) (st_id s3) = Some v"
  shows "\<exists>s4. and_then (log_lifecycle s3) (\<lambda>_ s4. ok () (drop_cache s4)) = (Inr (), s4)
    \<and> same_core (st_db s3) (st_db s4) \<and> st_id s4 = st_id s3 \<and> lc_coherent s4"
proof -
  obtain r s4 where rw: "read_worker s3 = (r, s4)" by fastforce
  have "\<exists>w. r = Inr w" using rw assms
    by (auto simp: read_worker_def worker_data_def load_worker_def split: option.splits)
  then show ?thesis using rw read_worker_cases [OF rw] by (auto simp: log_lifecycle_def)
qed

lemma moved_reload:
  assumes "get_worker (st_db s) (st_id s) = Some w" and "t \<in> set (LIFECYCLE_TRANSITIONS (wk_status w))"
    and "prepared s s2"
  shows "moved t s (and_then (set_status e t s2) (\<lambda>_ s3. log_lifecycle (drop_cache s3)))"
  by (rule moved_by_status [OF assms]) (rule ending_reload)

lemma moved_drop:
  assumes "get_worker (st_db s) (st_id s) = Some w" and "t \<in> set (LIFECYCLE_TRANSITIONS (wk_status w))"
    and "prepared s s2"
  shows "moved t s (and_then (set_status e t s2) (\<lambda>_ s3.
           and_then (log_lifecycle s3) (\<lambda>_ s4. ok () (drop_cache s4))))"
  by (rule moved_by_status [OF assms]) (rule ending_drop)

lemma moved_validated:
  assumes "lc_coherent s"
    and "\<And>w s1. get_worker (st_db s) (st_id s) = Some w \<Longrightarrow> t \<in> set (LIFECYCLE_TRANSITIONS (wk_status w)) \<Longrightarrow>
           st_db s1 = st_db s \<Longrightarrow> st_id s1 = st_id s \<Longrightarrow> lc_coherent s1 \<Longrightarrow> moved t s (k w s1)"
  shows "moved t s (and_then (validate_lifecycle_transition t s) k)"
proof -
  obtain r s1 where v: "validate_lifecycle_transition t s = (r, s1)" by fastforce
  note c = validate_cases [OF v]
  show ?thesis
  proof (cases r)
    case (Inl x)
    then show ?thesis using v c by (simp add: moved_err prepared_def)
  next
    case (Inr w)
    then show ?thesis using v c assms by simp
  qed
qed

lemma suspend_moved:
  assumes "lc_coherent s"
  shows "moved Suspended s (suspend e alive s)"
  unfolding suspend_def
proof (rule moved_validated [OF assms])
  fix w s1
  assume w: "get_worker (st_db s) (st_id s) = Some w" "Suspended \<in> set (LIFECYCLE_TRANSITIONS (wk_status w))"
    and s1: "st_db s1 = st_db s" "st_id s1 = st_id s" "lc_coherent s1"
  obtain r d m where a: "is_session_active e alive (st_db s1, st_sm s1) = (r, (d, m))" by (metis surj_pair)
  have q: "quiet (st_db s1, st_sm s1) (d, m)" using quiet_active [of "st_db s1" "st_sm s1" e alive] a by simp
  have prep: "prepared s (s1\<lparr>st_db := d', st_sm := m'\<rparr>)" if "quiet (st_db s1, st_sm s1) (d', m')" for d' m'
    using that s1 by (intro prepared_core) (simp_all add: quiet_def)
  show "moved Suspended s (case is_session_active e alive (st_db s1, st_sm s1) of
       (Inl x, (d, m)) \<Rightarrow> raise x (s1\<lparr>st_db := d, st_sm := m\<rparr>)
     | (Inr active, (d, m)) \<Rightarrow>
         (case (if active then stop_session e (d, m) else ok () (d, m)) of
            (Inl x, (d1, m1)) \<Rightarrow> raise x (s1\<lparr>st_db := d1, st_sm := m1\<rparr>)
          | (Inr _, (d1, m1)) \<Rightarrow>
              and_then (set_status e Suspended (s1\<lparr>st_db := d1, st_sm := m1\<rparr>)) (\<lambda>_ s2.
              and_then (log_lifecycle s2) (\<lambda>_ s3. ok () (drop_cache s3)))))"
  proof (cases r)
    case (Inl x)
    then show ?thesis using a prep [OF q] by (simp add: moved_err)
  next
    case (Inr active)
    obtain r1 d1 m1 where st: "(if active then stop_session e (d, m) else ok () (d, m)) = (r1, (d1, m1))"
      by (metis surj_pair)
    have "quiet (d, m) (d1, m1)"
      using st quiet_stop [of d m e] by (cases active) (auto simp: quiet_def)
    then have p: "prepared s (s1\<lparr>st_db := d1, st_sm := m1\<rparr>)"
      using q same_core_trans by (intro prep) (auto simp: quiet_def)
    show ?thesis
    proof (cases r1)
      case (Inl x)
      then show ?thesis using a Inr st p by (simp add: moved_err)
    next
      case (Inr u)
      then show ?thesis
        using a \<open>r = Inr active\<close> st moved_drop [OF w p] by simp
    qed
  qed
qed

lemma terminate_moved:
  assumes "lc_coherent s"
  shows "moved Terminated s (terminate e x s)"
proof -
  obtain r s1 where rw: "read_worker s = (r, s1)" by fastforce
  note k = read_worker_cases [OF rw]
  obtain rt d m where t: "terminate_session x (st_db s1, st_sm s1) = (rt, (d, m))" by (metis surj_pair)
  have q: "same_core (st_db s) d" "sm_worker m = sm_worker (st_sm s1)"
    using terminate_session_quiet [of "(st_db s1, st_sm s1)" x] t k by (simp_all add: quiet_def)
  define s2 where "s2 = s1\<lparr>st_db := leave_teams (sm_id m) (snd (unsubscribe_from_all_channels (sm_id m) d)),
      st_sm := m, st_store := snd (freeze_worker (sm_id m) (st_store s1))\<rparr>"
  have c2: "same_core (st_db s) (st_db s2)"
    using q(1) leave_teams_core [of "snd (unsubscribe_from_all_channels (sm_id m) d)" "sm_id m"] same_core_trans
    by (auto simp: s2_def unsubscribe_from_all_channels_def same_core_def)
  have id2: "st_id s2 = st_id s" using q(2) k(3) by (simp add: s2_def)
  have p2: "prepared s s2" using c2 id2 by (rule prepared_core)
  have co2: "lc_coherent s2"
    using k(5) [OF assms] same_core_facts(1) [OF c2] k(1,3) q(2) by (auto simp: lc_coherent_def s2_def)
  show ?thesis
  proof (cases r)
    case (Inl y)
    then show ?thesis using rw k by (simp add: terminate_def moved_err prepared_def)
  next
    case (Inr w0)
    show ?thesis
    proof (cases rt)
      case (Inl y)
      have "prepared s (s1\<lparr>st_db := d, st_sm := m\<rparr>)" using q k(3) by (intro prepared_core) simp_all
      then show ?thesis using rw \<open>r = Inr w0\<close> t Inl by (simp add: terminate_def moved_err)
    next
      case (Inr u)
      define tail where "tail = (\<lambda>(w :: worker) s3. and_then (set_status e Terminated s3) (\<lambda>_ s4.
          ok () (drop_cache (s4\<lparr>st_db := snd (bus_publish e ''worker.fired'' ''worker'' (sm_id m)
             (JObj [(''name'', JStr (wk_name w)), (''role'', JStr (wk_role w))]) None (st_db s4))\<rparr>))))"
      have eq: "terminate e x s = and_then (validate_lifecycle_transition Terminated s2) tail"
        using rw \<open>r = Inr w0\<close> t Inr by (simp add: terminate_def Let_def s2_def tail_def)
      have "moved Terminated s2 (and_then (validate_lifecycle_transition Terminated s2) tail)"
      proof (rule moved_validated [OF co2])
        fix w s3
        assume w: "get_worker (st_db s2) (st_id s2) = Some w" "Terminated \<in> set (LIFECYCLE_TRANSITIONS (wk_status w))"
          and s3: "st_db s3 = st_db s2" "st_id s3 = st_id s2"
        show "moved Terminated s2 (tail w s3)"
          unfolding tail_def
          by (rule moved_by_status [OF w]) (auto simp: prepared_def s3 same_core_publish)
      qed
      then show ?thesis
        using p2 by (auto simp: eq moved_def prepared_def split: prod.splits sum.splits)
    qed
  qed
qed

interpretation askrow: keyed_update w_id "\<lambda>r. r\<lparr>w_offboarding_ask_bead_id := b, w_updated_at := t\<rparr>"
  by unfold_locales simp

lemma ask_bead_prepared:
  "prepared s2 (create_offboarding_ask_bead e bead w s2)"
proof -
  have store: "prepared s2 (store_offboarding_ask_bead_id e b w s2)" for b
  proof -
    let ?f = "\<lambda>r. r\<lparr>w_offboarding_ask_bead_id := Some b, w_updated_at := now e\<rparr>"
    define d1 where "d1 = (st_db s2)\<lparr>workers := update_where (\<lambda>r. w_id r = st_id s2) ?f (workers (st_db s2))\<rparr>"
    have "worker_upd_ok ?f" by (simp add: worker_upd_ok_def)
    then have wf: "db_wf (st_db s2) \<Longrightarrow> db_wf d1" unfolding d1_def by (intro wf_workers_update)
    have "get_worker d1 j = map_option row_to_worker (map_option (\<lambda>r. if w_id r = st_id s2 then ?f r else r)
        (fetchone (\<lambda>r. w_id r = j) (workers (st_db s2))))" for j
      by (simp add: get_worker_def d1_def askrow.lookup_update)
    then have st: "status_of d1 j = status_of (st_db s2) j" for j
      by (cases "fetchone (\<lambda>r. w_id r = j) (workers (st_db s2))")
        (auto simp: status_of_def get_worker_def row_to_worker_def)
    have eq: "\<exists>evs. store_offboarding_ask_bead_id e b w s2 = s2\<lparr>st_db := d1\<lparr>events := evs\<rparr>\<rparr>"
      by (simp add: store_offboarding_ask_bead_id_def Let_def d1_def [symmetric] bus_publish_def ENTITY_TYPES_def)
        (rule exI, rule refl)
    have "status_of (d1\<lparr>events := evs\<rparr>) = status_of d1" for evs
      by (simp add: status_of_def get_worker_def fun_eq_iff)
    then show ?thesis using wf st eq by (auto simp: prepared_def)
  qed
  have "prepared s2 s2" by (simp add: prepared_def)
  then show ?thesis using store by (simp add: create_offboarding_ask_bead_def split: option.split)
qed

lemma lifecycle_op_moved:
  assumes "lc_coherent s"
  shows "moved (lifecycle_target op) s (run_lifecycle_op e op s)"
proof (cases op)
  case (LStart prep)
  show ?thesis
    unfolding LStart run_lifecycle_op.simps lifecycle_target.simps start_onboarding_def
  proof (rule moved_validated [OF assms])
    fix w s1
    assume w: "get_worker (st_db s) (st_id s) = Some w" "Onboarding \<in> set (LIFECYCLE_TRANSITIONS (wk_status w))"
      and "st_db s1 = st_db s" "st_id s1 = st_id s"
    then have "prepared s (s1\<lparr>st_store := ensure_worker_storage (st_store s1)\<rparr>)" by (simp add: prepared_def)
    then show "moved Onboarding s (let s2 = s1\<lparr>st_store := ensure_worker_storage (st_store s1)\<rparr>
       in case prep of Some x \<Rightarrow> raise x s2
          | None \<Rightarrow> and_then (set_status e Onboarding s2) (\<lambda>_ s3. log_lifecycle (drop_cache s3)))"
      using moved_err moved_reload [OF w] by (simp add: Let_def split: option.split)
  qed
next
  case LComplete
  show ?thesis
    unfolding LComplete run_lifecycle_op.simps lifecycle_target.simps complete_onboarding_def
    by (rule moved_validated [OF assms], rule moved_reload) (simp_all add: prepared_def)
next
  case LFail
  show ?thesis
    unfolding LFail run_lifecycle_op.simps lifecycle_target.simps fail_onboarding_def Let_def
    by (rule moved_validated [OF assms], rule moved_reload) (simp_all add: prepared_def)
next
  case (LOffboard bead)
  show ?thesis
    unfolding LOffboard run_lifecycle_op.simps lifecycle_target.simps start_offboarding_def Let_def
  proof (rule moved_validated [OF assms], rule moved_reload)
    fix w s1 assume "st_db s1 = st_db s" and "st_id s1 = st_id s"
    then show "prepared s (create_offboarding_ask_bead e bead w
        (s1\<lparr>st_store := snd (freeze_worker (st_id s1) (st_store s1))\<rparr>))"
      using ask_bead_prepared [of "s1\<lparr>st_store := snd (freeze_worker (st_id s1) (st_store s1))\<rparr>" e bead w]
      by (simp add: prepared_def)
  qed
next
  case (LSuspend alive)
  then show ?thesis using suspend_moved [OF assms] by simp
next
  case LUnsuspend
  show ?thesis
    unfolding LUnsuspend run_lifecycle_op.simps lifecycle_target.simps unsuspend_def
    by (rule moved_validated [OF assms], rule moved_drop) (simp_all add: prepared_def)
next
  case (LTerminate stop_error)
  then show ?thesis using terminate_moved [OF assms] by simp
qed

inductive lifecycle_steps :: "env \<Rightarrow> wstate \<Rightarrow> lifecycle_op list \<Rightarrow> wstate \<Rightarrow> bool" for e where
  lc_finish: "lifecycle_steps e s [] s"
| lc_step: "run_lifecycle_op e op s = (Inr (), s') \<Longrightarrow> lifecycle_steps e s' ops s''
            \<Longrightarrow> lifecycle_steps e s (op # ops) s''"

fun lifecycle_path :: "lifecycle_status \<Rightarrow> lifecycle_status list \<Rightarrow> bool" where
  "lifecycle_path cur [] = True"
| "lifecycle_path cur (t # ts) = (t \<in> set (LIFECYCLE_TRANSITIONS cur) \<and> lifecycle_path t ts)"

lemma lifecycle_steps_path:
  assumes "lifecycle_steps e s ops s'"
  shows "lc_coherent s \<Longrightarrow> status_of (st_db s) (st_id s) = Some old \<Longrightarrow>
     lifecycle_path old (map lifecycle_target ops)
     \<and> status_of (st_db s') (st_id s) = Some (last (old # map lifecycle_target ops))
     \<and> (\<forall>j. j \<noteq> st_id s \<longrightarrow> status_of (st_db s') j = status_of (st_db s) j)
     \<and> (db_wf (st_db s) \<longrightarrow> db_wf (st_db s'))"
  using assms
proof (induction arbitrary: old rule: lifecycle_steps.induct)
  case (lc_finish s)
  then show ?case by simp
next
  case (lc_step op s s1 ops s2)
  have "moved (lifecycle_target op) s (Inr (), s1)"
    using lifecycle_op_moved [OF lc_step.prems(1), of op e] lc_step.hyps(1) by simp
  then have m: "lifecycle_target op \<in> set (LIFECYCLE_TRANSITIONS old)"
    "status_of (st_db s1) (st_id s) = Some (lifecycle_target op)" "st_id s1 = st_id s" "lc_coherent s1"
    "\<forall>j. j \<noteq> st_id s \<longrightarrow> status_of (st_db s1) j = status_of (st_db s) j"
    "db_wf (st_db s) \<longrightarrow> db_wf (st_db s1)"
    using lc_step.prems(2) by (auto simp: moved_def)
  from lc_step.IH [OF m(4), of "lifecycle_target op"] m show ?case by simp
qed


definition eng_state :: wstate where
  "eng_state = \<lparr>st_db = org_db, st_sm = eng_mgr, st_store = \<lparr>sd_plain = True, sd_frozen = False\<rparr>\<rparr>"

lemma eng_state_facts:
  "lc_coherent eng_state" "st_id eng_state = ''eng''" "st_db eng_state = org_db"
  "status_of (st_db eng_state) (st_id eng_state) = Some Active"
  by (simp_all add: eng_state_def eng_mgr_def lc_coherent_def status_of_def get_worker_def org_defs row_to_worker_def)


section \<open>What termination leaves behind\<close>

lemma leave_teams_members:
  "team_members (leave_teams i d) = delete_where (\<lambda>m. tm_worker_id m = i) (team_members d)"
proof -
  have fold: "team_members (fold (\<lambda>m d. snd (remove_team_member (tm_team_id m) i d)) ms x) =
      filter (\<lambda>m. \<not> (tm_worker_id m = i \<and> tm_team_id m \<in> tm_team_id ` set ms)) (team_members x)" for ms x
    by (induction ms arbitrary: x)
      (auto simp: remove_team_member_def delete_where_def intro!: filter_cong)
  show ?thesis
    unfolding leave_teams_def fold
    by (auto simp: delete_where_def get_worker_team_memberships_def intro!: filter_cong)
qed

lemma set_worker_status_frame:
  "subscriptions (snd (update_worker_status e i t d)) = subscriptions d"
  "team_members (snd (update_worker_status e i t d)) = team_members d"
  "sessions (snd (update_worker_status e i t d)) = sessions d"
  using update_worker_status_db [of e i t d]
  by (auto simp: set_worker_status_row_def Let_def revoke_delegations_on_termination_def clear_authority_def
      revoke_grants_where_def log_status_change_def split: option.splits)

text \<open>The state just before the final validation of \<open>terminate\<close>.\<close>

definition stripped :: "wstate \<Rightarrow> db" where
  "stripped s = leave_teams (st_id s) (snd (unsubscribe_from_all_channels (st_id s)
     (case sm_session (st_sm s) of None \<Rightarrow> st_db s | Some sid \<Rightarrow> snd (delete_session_record 0 sid (st_db s)))))"

lemma stripped_facts:
  "same_core (st_db s) (stripped s)"
  "filter (\<lambda>x. cs_worker_id x = st_id s) (subscriptions (stripped s)) = []"
  "filter (\<lambda>m. tm_worker_id m = st_id s) (team_members (stripped s)) = []"
proof -
  have "same_core (st_db s) (snd (unsubscribe_from_all_channels (st_id s)
     (case sm_session (st_sm s) of None \<Rightarrow> st_db s | Some sid \<Rightarrow> snd (delete_session_record 0 sid (st_db s)))))"
    by (auto simp: unsubscribe_from_all_channels_def delete_session_record_def same_core_def split: option.splits)
  then show "same_core (st_db s) (stripped s)"
    using leave_teams_core same_core_trans unfolding stripped_def by blast
  have subs: "subscriptions (leave_teams i d) = subscriptions d" for i d
  proof -
    have "subscriptions (fold (\<lambda>m d. snd (remove_team_member (tm_team_id m) i d)) ms x) = subscriptions x" for ms x
      by (induction ms arbitrary: x) (simp_all add: remove_team_member_def)
    then show ?thesis by (simp add: leave_teams_def)
  qed
  show "filter (\<lambda>x. cs_worker_id x = st_id s) (subscriptions (stripped s)) = []"
    by (auto simp: stripped_def subs unsubscribe_from_all_channels_def delete_where_def filter_empty_conv)
  show "filter (\<lambda>m. tm_worker_id m = st_id s) (team_members (stripped s)) = []"
    by (auto simp: stripped_def leave_teams_members delete_where_def filter_empty_conv)
qed

definition fire_tail :: "env \<Rightarrow> ident \<Rightarrow> worker \<Rightarrow> wstate \<Rightarrow> (wstate, unit) outcome" where
  "fire_tail e i w s3 = and_then (set_status e Terminated s3) (\<lambda>_ s4.
     ok () (drop_cache (s4\<lparr>st_db := snd (bus_publish e ''worker.fired'' ''worker'' i
        (JObj [(''name'', JStr (wk_name w)), (''role'', JStr (wk_role w))]) None (st_db s4))\<rparr>)))"

lemma terminate_unfold:
  assumes "lc_coherent s" and "get_worker (st_db s) (st_id s) = Some w"
  obtains s2 where "st_db s2 = stripped s" and "st_id s2 = st_id s" and "sm_session (st_sm s2) = None"
    and "st_store s2 = snd (freeze_worker (st_id s) (st_store s))" and "lc_coherent s2"
    and "terminate e None s = and_then (validate_lifecycle_transition Terminated s2) (fire_tail e (st_id s))"
proof -
  obtain r s1 where rw: "read_worker s = (r, s1)" by fastforce
  note k = read_worker_cases [OF rw]
  have r: "r = Inr w"
    using rw assms by (auto simp: read_worker_def worker_data_def load_worker_def lc_coherent_def
        split: option.splits)
  define m where "m = (st_sm s1)\<lparr>sm_session := None\<rparr>"
  define s2 where "s2 = s1\<lparr>st_db := stripped s, st_sm := m, st_store := snd (freeze_worker (st_id s) (st_store s))\<rparr>"
  have mid: "sm_id m = st_id s" "sm_session m = None" using k(3) by (simp_all add: m_def)
  have ts: "terminate_session None (st_db s1, st_sm s1) =
      ok () (case sm_session (st_sm s) of None \<Rightarrow> st_db s | Some sid \<Rightarrow> snd (delete_session_record 0 sid (st_db s)), m)"
    using k(1,4) by (cases "sm_session (st_sm s)") (simp_all add: terminate_session_def m_def)
  have eq: "terminate e None s = and_then (validate_lifecycle_transition Terminated s2) (fire_tail e (st_id s))"
    using rw r ts mid k(2) by (simp add: terminate_def Let_def s2_def stripped_def fire_tail_def [abs_def])
  have "lc_coherent s2"
    using k(5) [OF assms(1)] same_core_facts(1) [OF stripped_facts(1) [of s]] k(1,3)
    by (simp add: lc_coherent_def s2_def m_def)
  then show thesis using that [of s2] mid eq by (simp add: s2_def)
qed



text \<open>
  \<open>terminate\<close> validates last. Called again on a worker that is already terminated it raises
  \<open>InvalidStateTransition\<close>, but by then subscriptions and team memberships recorded for it are
  deleted and its storage is frozen.
\<close>

theorem terminate_validates_last:
  assumes "lc_coherent s" and "get_worker (st_db s) (st_id s) = Some w" and "wk_status w = Terminated"
  shows "\<exists>s'. terminate e None s = (Inl (InvalidStateTransition ''terminated'' ''terminated'' []), s')
    \<and> st_db s' = stripped s \<and> st_store s' = snd (freeze_worker (st_id s) (st_store s))
    \<and> filter (\<lambda>m. tm_worker_id m = st_id s) (team_members (st_db s')) = []"
proof -
  obtain s2 where s2: "st_db s2 = stripped s" "st_id s2 = st_id s"
    "st_store s2 = snd (freeze_worker (st_id s) (st_store s))" "lc_coherent s2"
    and eq: "terminate e None s = and_then (validate_lifecycle_transition Terminated s2) (fire_tail e (st_id s))"
    by (rule terminate_unfold [OF assms(1,2)])
  have w2: "get_worker (stripped s) (st_id s) = Some w"
    using same_core_facts(1) [OF stripped_facts(1) [of s]] assms(2) by simp
  obtain r s3 where v: "validate_lifecycle_transition Terminated s2 = (r, s3)" by fastforce
  have "r = Inl (InvalidStateTransition ''terminated'' ''terminated'' [])"
    using v s2 w2 assms(3) by (auto simp: validate_lifecycle_transition_def read_worker_def worker_data_def
        load_worker_def lc_coherent_def split: option.splits if_splits)
  then show ?thesis using eq v validate_cases(1,2) [OF v] s2 stripped_facts(3) [of s] by simp
qed

definition gone_state :: wstate where
  "gone_state = eng_state\<lparr>st_db := org_db\<lparr>workers := [(org_worker ''eng'' ''Eve'' ''engineer'' None None 0)
     \<lparr>w_status := Terminated\<rparr>]\<rparr>\<rparr>"

theorem terminate_validates_last_witness:
  "\<exists>s'. terminate witness_env None gone_state = (Inl (InvalidStateTransition ''terminated'' ''terminated'' []), s')
     \<and> sd_frozen (st_store s')"
proof -
  have "lc_coherent gone_state" by (simp add: gone_state_def eng_state_def eng_mgr_def lc_coherent_def)
  moreover have "\<exists>w. get_worker (st_db gone_state) (st_id gone_state) = Some w \<and> wk_status w = Terminated"
    by (simp add: gone_state_def eng_state_def eng_mgr_def get_worker_def org_worker_def row_to_worker_def)
  moreover have "sd_frozen (snd (freeze_worker (st_id gone_state) (st_store gone_state)))"
    by (simp add: gone_state_def eng_state_def freeze_worker_def)
  ultimately show ?thesis using terminate_validates_last [of gone_state _ witness_env] by auto
qed

text \<open>
  The validation trusts the object's cached status. An object that cached the status suspended
  while another process terminated the worker brings it back: \<open>unsuspend\<close> succeeds and stores the
  status active, a step the lifecycle table excludes.
\<close>

theorem stale_cache_revives_terminated:
  assumes "wo_data (sm_worker (st_sm s)) = Some w" and "wk_status w = Suspended"
    and "status_of (st_db s) (st_id s) = Some Terminated"
  shows "\<exists>s'. unsuspend e s = (Inr (), s') \<and> status_of (st_db s') (st_id s) = Some Active
    \<and> Active \<notin> set (LIFECYCLE_TRANSITIONS Terminated)"
proof -
  have self: "set_obj (sm_worker (st_sm s)) s = s" by (simp add: set_obj_def)
  have v: "validate_lifecycle_transition Active s = (Inr w, s)"
    using assms(1,2) by (simp add: validate_lifecycle_transition_def read_worker_def worker_data_def self)
  obtain w0 where w0: "get_worker (st_db s) (st_id s) = Some w0" using assms(3) by (auto simp: status_of_def)
  obtain s3 where s3: "set_status e Active s = (Inr (), s3)" "status_of (st_db s3) (st_id s) = Some Active"
    "st_sm s3 = st_sm s"
    using set_status_effect [OF w0, of e Active] by metis
  have ex: "\<exists>v. get_worker (st_db s3) (st_id s3) = Some v" using s3 by (auto simp: status_of_def)
  obtain s4 where s4: "and_then (log_lifecycle s3) (\<lambda>_ s4. ok () (drop_cache s4)) = (Inr (), s4)"
    "same_core (st_db s3) (st_db s4)" using ending_drop [OF ex] by blast
  have "status_of (st_db s4) (st_id s) = Some Active"
    using same_core_facts(1) [OF s4(2)] s3(2) by (simp add: status_of_def)
  then show ?thesis using v s3(1) s4(1) by (simp add: unsuspend_def)
qed

definition stale_state :: wstate where
  "stale_state = set_obj \<lparr>wo_id = ''eng'', wo_data = Some (row_to_worker
     ((org_worker ''eng'' ''Eve'' ''engineer'' None None 0)\<lparr>w_status := Suspended\<rparr>))\<rparr> gone_state"

theorem stale_cache_revives_terminated_witness:
  "\<exists>s'. unsuspend witness_env stale_state = (Inr (), s') \<and> status_of (st_db s') ''eng'' = Some Active"
proof -
  define w where "w = row_to_worker ((org_worker ''eng'' ''Eve'' ''engineer'' None None 0)\<lparr>w_status := Suspended\<rparr>)"
  have c: "wo_data (sm_worker (st_sm stale_state)) = Some w" "wk_status w = Suspended" "st_id stale_state = ''eng''"
    by (simp_all add: stale_state_def w_def row_to_worker_def)
  have "status_of (st_db stale_state) (st_id stale_state) = Some Terminated"
    by (simp add: stale_state_def gone_state_def status_of_def get_worker_def org_worker_def row_to_worker_def)
  from stale_cache_revives_terminated [OF c(1,2) this, of witness_env] show ?thesis unfolding c(3) by blast
qed

end
