(* ===== verification/Budget_Queries.thy ===== *)
theory Budget_Queries
  imports Hiring
begin

text \<open>
  \<open>cli/core/queries/budget/\<close>: budget pools, allocations, the transaction ledger and the balances the
  schema's trigger maintains from it. Credits are exact rationals; the rounding of the program's
  floating point numbers is not modelled. Description and metadata texts of a transaction are
  left out.
\<close>

section \<open>Pools\<close>

definition create_budget_pool ::
  "env \<Rightarrow> ident \<Rightarrow> string \<Rightarrow> credits \<Rightarrow> datetime \<Rightarrow> datetime \<Rightarrow> ident option \<Rightarrow> db \<Rightarrow> (db, pool_row) outcome" where
  "create_budget_pool e fresh nm credits_total st en pid d =
     (if credits_total \<le> 0 then raise (ValueError ''Total credits must be positive'') d
      else let i = (case pid of None \<Rightarrow> fresh | Some i \<Rightarrow> i);
               p = \<lparr>p_id = i, p_name = nm, p_total_credits = credits_total, p_period_start = st, p_period_end = en,
                    p_created_at = now e, p_updated_at = now e\<rparr>
           in if i \<in> p_id ` set (pools d) then raise (IntegrityError ''budget_pools.id'') d
              else ok p (d\<lparr>pools := pools d @ [p]\<rparr>))"

definition get_budget_pool :: "db \<Rightarrow> ident \<Rightarrow> pool_row option" where
  "get_budget_pool d i = fetchone (\<lambda>p. p_id p = i) (pools d)"

definition get_all_budget_pools :: "db \<Rightarrow> pool_row list" where
  "get_all_budget_pools d = order_by_desc p_created_at (pools d)"

definition update_budget_pool :: "env \<Rightarrow> ident \<Rightarrow> credits option \<Rightarrow> string option \<Rightarrow> db \<Rightarrow> db" where
  "update_budget_pool e i credits_total nm d =
     d\<lparr>pools := update_where (\<lambda>p. p_id p = i)
         (\<lambda>p. p\<lparr>p_updated_at := now e,
                 p_total_credits := (case credits_total of None \<Rightarrow> p_total_credits p | Some t \<Rightarrow> t),
                 p_name := (case nm of None \<Rightarrow> p_name p | Some n \<Rightarrow> n)\<rparr>) (pools d)\<rparr>"

section \<open>Allocations\<close>

text \<open>\<open>_row_to_allocation\<close>: a delegation limit of zero reads as none.\<close>

definition row_to_allocation :: "allocation_row \<Rightarrow> allocation_row" where
  "row_to_allocation a =
     a\<lparr>al_delegation_limit := (case al_delegation_limit a of None \<Rightarrow> None
          | Some l \<Rightarrow> if l = 0 then None else Some l)\<rparr>"

definition pool_exists :: "db \<Rightarrow> ident \<Rightarrow> bool" where
  "pool_exists d i = (i \<in> p_id ` set (pools d))"

definition insert_allocation_row :: "allocation_row \<Rightarrow> db \<Rightarrow> (db, unit) outcome" where
  "insert_allocation_row a d =
     (if al_id a \<in> al_id ` set (allocations d) then raise (IntegrityError ''budget_allocations.id'') d
      else if (al_source_worker_id a = None) = (al_pool_id a = None)
        then raise (IntegrityError ''budget_allocations.source'') d
      else if al_allocated_credits a < al_spent_credits a + al_reserved_credits a
        then raise (IntegrityError ''budget_allocations.spent'') d
      else if \<not> worker_exists d (al_worker_id a)
        then raise (IntegrityError ''budget_allocations.worker_id'') d
      else if (case al_source_worker_id a of None \<Rightarrow> False | Some w \<Rightarrow> \<not> worker_exists d w)
        then raise (IntegrityError ''budget_allocations.source_worker_id'') d
      else if (case al_pool_id a of None \<Rightarrow> False | Some p \<Rightarrow> \<not> pool_exists d p)
        then raise (IntegrityError ''budget_allocations.pool_id'') d
      else ok () (d\<lparr>allocations := allocations d @ [a]\<rparr>))"

record new_allocation =
  na_worker_id :: ident
  na_allocated_credits :: credits
  na_period_start :: datetime
  na_period_end :: datetime
  na_source_worker_id :: "ident option"
  na_pool_id :: "ident option"
  na_can_delegate :: bool
  na_delegation_limit :: "credits option"

definition create_budget_allocation :: "env \<Rightarrow> ident \<Rightarrow> new_allocation \<Rightarrow> db \<Rightarrow> (db, allocation_row) outcome" where
  "create_budget_allocation e i n d =
     (if na_allocated_credits n \<le> 0 then raise (ValueError ''Allocated credits must be positive'') d
      else if (case na_delegation_limit n of None \<Rightarrow> False | Some l \<Rightarrow> l \<le> 0)
        then raise (ValueError ''Delegation limit must be positive'') d
      else let a = \<lparr>al_id = i, al_worker_id = na_worker_id n, al_source_worker_id = na_source_worker_id n,
                    al_pool_id = na_pool_id n, al_allocated_credits = na_allocated_credits n,
                    al_spent_credits = 0, al_reserved_credits = 0, al_period_start = na_period_start n,
                    al_period_end = na_period_end n, al_can_delegate = na_can_delegate n,
                    al_delegation_limit = na_delegation_limit n, al_created_at = now e, al_updated_at = now e\<rparr>
           in and_then (insert_allocation_row a d) (\<lambda>_ d1. ok a d1))"

definition get_budget_allocation :: "db \<Rightarrow> ident \<Rightarrow> allocation_row option" where
  "get_budget_allocation d i = map_option row_to_allocation (fetchone (\<lambda>a. al_id a = i) (allocations d))"

definition get_worker_allocations :: "db \<Rightarrow> ident \<Rightarrow> allocation_row list" where
  "get_worker_allocations d w =
     map row_to_allocation (order_by_desc al_period_start (fetchall (\<lambda>a. al_worker_id a = w) (allocations d)))"

definition list_head :: "'a list \<Rightarrow> 'a option" where
  "list_head xs = (case xs of [] \<Rightarrow> None | x # _ \<Rightarrow> Some x)"

definition get_current_allocation :: "env \<Rightarrow> db \<Rightarrow> ident \<Rightarrow> allocation_row option" where
  "get_current_allocation e d w =
     map_option row_to_allocation (list_head (order_by_desc al_period_start
       (fetchall (\<lambda>a. al_worker_id a = w \<and> al_period_start a \<le> now e \<and> now e \<le> al_period_end a)
          (allocations d))))"

definition get_allocations_by_pool :: "db \<Rightarrow> ident \<Rightarrow> allocation_row list" where
  "get_allocations_by_pool d p = map row_to_allocation (fetchall (\<lambda>a. al_pool_id a = Some p) (allocations d))"

text \<open>An update that breaks \<open>CHECK (spent_credits + reserved_credits <= allocated_credits)\<close> fails.\<close>

definition update_allocation_spend :: "env \<Rightarrow> ident \<Rightarrow> credits \<Rightarrow> credits \<Rightarrow> db \<Rightarrow> (db, unit) outcome" where
  "update_allocation_spend e i spent reserved d =
     (if \<exists>a \<in> set (allocations d). al_id a = i \<and> al_allocated_credits a < spent + reserved
      then raise (IntegrityError ''budget_allocations.spent'') d
      else ok () (d\<lparr>allocations := update_where (\<lambda>a. al_id a = i)
             (\<lambda>a. a\<lparr>al_spent_credits := spent, al_reserved_credits := reserved, al_updated_at := now e\<rparr>)
             (allocations d)\<rparr>))"

text \<open>Deletions cascade along the foreign keys: a pool to its allocations, an allocation to its rows.\<close>

definition delete_allocations_where :: "(allocation_row \<Rightarrow> bool) \<Rightarrow> db \<Rightarrow> db" where
  "delete_allocations_where p d =
     (let ids = al_id ` set (filter p (allocations d))
      in d\<lparr>allocations := delete_where p (allocations d),
           txns := delete_where (\<lambda>t. tx_allocation_id t \<in> ids) (txns d),
           balances := delete_where (\<lambda>b. b_allocation_id b \<in> ids) (balances d)\<rparr>)"

definition delete_budget_allocation :: "ident \<Rightarrow> db \<Rightarrow> db" where
  "delete_budget_allocation i d = delete_allocations_where (\<lambda>a. al_id a = i) d"

definition delete_budget_pool :: "ident \<Rightarrow> db \<Rightarrow> db" where
  "delete_budget_pool i d =
     delete_allocations_where (\<lambda>a. al_pool_id a = Some i)
       (d\<lparr>pools := delete_where (\<lambda>p. p_id p = i) (pools d)\<rparr>)"

definition set_allocation_can_delegate :: "env \<Rightarrow> ident \<Rightarrow> bool \<Rightarrow> db \<Rightarrow> bool \<times> db" where
  "set_allocation_can_delegate e w flag d =
     (let p = (\<lambda>a. al_worker_id a = w \<and> al_period_start a \<le> now e \<and> now e \<le> al_period_end a)
      in (0 < rowcount p (allocations d),
          d\<lparr>allocations := update_where p (\<lambda>a. a\<lparr>al_can_delegate := flag, al_updated_at := now e\<rparr>)
              (allocations d)\<rparr>))"

definition get_pool_allocated_total :: "db \<Rightarrow> ident \<Rightarrow> credits" where
  "get_pool_allocated_total d p =
     sum_list (map al_allocated_credits (fetchall (\<lambda>a. al_pool_id a = Some p) (allocations d)))"

text \<open>Two helpers that name columns the table does not have.\<close>

definition get_worker_delegation_authority :: "db \<Rightarrow> ident \<Rightarrow> (db, bool option) outcome" where
  "get_worker_delegation_authority d w = raise (OperationalError ''no such column: revoked_at'') d"

definition get_worker_allocated_budget :: "db \<Rightarrow> ident \<Rightarrow> (db, credits) outcome" where
  "get_worker_allocated_budget d w = raise (OperationalError ''no such column: allocated'') d"

section \<open>Balances\<close>

definition create_budget_balance ::
  "env \<Rightarrow> ident \<Rightarrow> ident \<Rightarrow> credits \<Rightarrow> datetime \<Rightarrow> datetime \<Rightarrow> db \<Rightarrow> (db, balance_row) outcome" where
  "create_budget_balance e i w allocated st en d =
     (let b = \<lparr>b_allocation_id = i, b_worker_id = w, b_allocated = allocated, b_spent = 0, b_reserved = 0,
               b_available = allocated, b_delegated = 0, b_period_start = st, b_period_end = en,
               b_updated_at = now e\<rparr>
      in if i \<in> b_allocation_id ` set (balances d) then raise (IntegrityError ''budget_balances.allocation_id'') d
         else if i \<notin> al_id ` set (allocations d) \<or> \<not> worker_exists d w
           then raise (IntegrityError ''budget_balances fk'') d
         else ok b (d\<lparr>balances := balances d @ [b]\<rparr>))"

definition get_budget_balance :: "db \<Rightarrow> ident \<Rightarrow> balance_row option" where
  "get_budget_balance d i = fetchone (\<lambda>b. b_allocation_id b = i) (balances d)"

definition get_worker_balance :: "env \<Rightarrow> db \<Rightarrow> ident \<Rightarrow> balance_row option" where
  "get_worker_balance e d w =
     list_head (order_by_desc b_period_start
       (fetchall (\<lambda>b. b_worker_id b = w \<and> b_period_start b \<le> now e \<and> now e \<le> b_period_end b) (balances d)))"

definition delete_budget_balance :: "ident \<Rightarrow> db \<Rightarrow> db" where
  "delete_budget_balance i d = d\<lparr>balances := delete_where (\<lambda>b. b_allocation_id b = i) (balances d)\<rparr>"

section \<open>The ledger and its trigger\<close>

definition d_spent :: "txn_row \<Rightarrow> credits" where
  "d_spent t = (case tx_type t of TxSpend \<Rightarrow> \<bar>tx_amount t\<bar> | TxRefund \<Rightarrow> - \<bar>tx_amount t\<bar> | _ \<Rightarrow> 0)"

definition d_reserved :: "txn_row \<Rightarrow> credits" where
  "d_reserved t = (case tx_type t of TxReserve \<Rightarrow> \<bar>tx_amount t\<bar> | TxRelease \<Rightarrow> - \<bar>tx_amount t\<bar> | _ \<Rightarrow> 0)"

definition d_delegated :: "txn_row \<Rightarrow> credits" where
  "d_delegated t = (case tx_type t of TxTransferOut \<Rightarrow> \<bar>tx_amount t\<bar> | _ \<Rightarrow> 0)"

definition d_allocated :: "txn_row \<Rightarrow> credits" where
  "d_allocated t = (case tx_type t of TxAllocation \<Rightarrow> tx_amount t | TxTransferIn \<Rightarrow> tx_amount t
                    | TxAdjustment \<Rightarrow> tx_amount t | _ \<Rightarrow> 0)"

text \<open>The trigger \<open>update_budget_balance_on_transaction\<close>; right-hand sides read the old row.\<close>

definition apply_txn :: "env \<Rightarrow> txn_row \<Rightarrow> balance_row \<Rightarrow> balance_row" where
  "apply_txn e t b =
     b\<lparr>b_spent := b_spent b + d_spent t,
       b_reserved := b_reserved b + d_reserved t,
       b_delegated := b_delegated b + d_delegated t,
       b_allocated := b_allocated b + d_allocated t,
       b_available := (b_allocated b + d_allocated t) - (b_spent b + d_spent t)
                      - (b_reserved b + d_reserved t) - (b_delegated b + d_delegated t),
       b_updated_at := current_timestamp e\<rparr>"

record txn_info =
  ti_provider :: "string option"
  ti_model :: "string option"
  ti_input_tokens :: "int option"
  ti_output_tokens :: "int option"
  ti_reference_type :: "string option"
  ti_reference_id :: "string option"

definition no_info :: txn_info where
  "no_info = \<lparr>ti_provider = None, ti_model = None, ti_input_tokens = None, ti_output_tokens = None,
     ti_reference_type = None, ti_reference_id = None\<rparr>"

definition create_budget_transaction ::
  "env \<Rightarrow> ident \<Rightarrow> ident \<Rightarrow> ident \<Rightarrow> txn_type \<Rightarrow> credits \<Rightarrow> txn_info \<Rightarrow> db \<Rightarrow> (db, txn_row) outcome" where
  "create_budget_transaction e i alloc w ty amount info d =
     (let t = \<lparr>tx_id = i, tx_allocation_id = alloc, tx_worker_id = w, tx_type = ty, tx_amount = amount,
               tx_provider = ti_provider info, tx_model = ti_model info, tx_input_tokens = ti_input_tokens info,
               tx_output_tokens = ti_output_tokens info, tx_reference_type = ti_reference_type info,
               tx_reference_id = ti_reference_id info, tx_created_at = now e\<rparr>
      in if i \<in> tx_id ` set (txns d) then raise (IntegrityError ''budget_transactions.id'') d
         else if alloc \<notin> al_id ` set (allocations d) \<or> \<not> worker_exists d w
           then raise (IntegrityError ''budget_transactions fk'') d
         else ok t (d\<lparr>txns := txns d @ [t],
                      balances := update_where (\<lambda>b. b_allocation_id b = alloc) (apply_txn e t) (balances d)\<rparr>))"

definition get_budget_transaction :: "db \<Rightarrow> ident \<Rightarrow> txn_row option" where
  "get_budget_transaction d i = fetchone (\<lambda>t. tx_id t = i) (txns d)"

definition get_transactions_by_allocation :: "db \<Rightarrow> ident \<Rightarrow> nat \<Rightarrow> nat \<Rightarrow> txn_row list" where
  "get_transactions_by_allocation d a limit offset =
     take limit (drop offset (order_by_desc tx_created_at (fetchall (\<lambda>t. tx_allocation_id t = a) (txns d))))"

definition get_transactions_by_worker ::
  "db \<Rightarrow> ident \<Rightarrow> txn_type option \<Rightarrow> datetime option \<Rightarrow> nat \<Rightarrow> nat \<Rightarrow> txn_row list" where
  "get_transactions_by_worker d w ty since limit offset =
     take limit (drop offset (order_by_desc tx_created_at
       (fetchall (\<lambda>t. tx_worker_id t = w \<and> (ty = None \<or> ty = Some (tx_type t))
          \<and> (case since of None \<Rightarrow> True | Some s \<Rightarrow> s \<le> tx_created_at t)) (txns d))))"

section \<open>Balances are the sums of the ledger\<close>

text \<open>
  The contract between the trigger and the ledger: a column of the balance moves with every
  transaction by an amount that only depends on the transaction. Then it is the start value plus
  the sum over the transactions applied.
\<close>

locale ledger_column =
  fixes post :: "'t \<Rightarrow> 'b \<Rightarrow> 'b" and column :: "'b \<Rightarrow> rat" and delta :: "'t \<Rightarrow> rat"
  assumes post_column: "column (post t b) = column b + delta t"
begin

lemma column_fold: "column (fold post ts b) = column b + sum_list (map delta ts)"
  by (induction ts arbitrary: b) (simp_all add: post_column)

end

interpretation spent_col: ledger_column "apply_txn e" b_spent d_spent
  by unfold_locales (simp add: apply_txn_def)

interpretation reserved_col: ledger_column "apply_txn e" b_reserved d_reserved
  by unfold_locales (simp add: apply_txn_def)

interpretation delegated_col: ledger_column "apply_txn e" b_delegated d_delegated
  by unfold_locales (simp add: apply_txn_def)

interpretation allocated_col: ledger_column "apply_txn e" b_allocated d_allocated
  by unfold_locales (simp add: apply_txn_def)

definition txns_of :: "db \<Rightarrow> ident \<Rightarrow> txn_row list" where
  "txns_of d i = filter (\<lambda>t. tx_allocation_id t = i) (txns d)"

definition ledger_sum :: "(txn_row \<Rightarrow> credits) \<Rightarrow> db \<Rightarrow> ident \<Rightarrow> credits" where
  "ledger_sum f d i = sum_list (map f (txns_of d i))"

text \<open>
  A balance row is created with an opening amount (zero in \<open>BudgetService\<close>, the initial budget for
  the first worker of an organisation); from then on it is that amount plus the ledger's sums.
\<close>

definition balance_ok :: "(ident \<Rightarrow> credits) \<Rightarrow> db \<Rightarrow> balance_row \<Rightarrow> bool" where
  "balance_ok opened d b =
     (b_allocated b = opened (b_allocation_id b) + ledger_sum d_allocated d (b_allocation_id b)
      \<and> b_spent b = ledger_sum d_spent d (b_allocation_id b)
      \<and> b_reserved b = ledger_sum d_reserved d (b_allocation_id b)
      \<and> b_delegated b = ledger_sum d_delegated d (b_allocation_id b)
      \<and> b_available b = b_allocated b - b_spent b - b_reserved b - b_delegated b)"

text \<open>
  The budget tables of a database: unique allocation ids, one balance per allocation, created with
  it for the same worker and period, transactions of existing allocations only, and every balance
  equal to its opening amount plus the sums of its ledger.
\<close>

definition same_frame :: "allocation_row \<Rightarrow> balance_row \<Rightarrow> bool" where
  "same_frame a b = (b_allocation_id b = al_id a \<and> b_worker_id b = al_worker_id a
     \<and> b_period_start b = al_period_start a \<and> b_period_end b = al_period_end a)"

definition budget_wf :: "(ident \<Rightarrow> credits) \<Rightarrow> db \<Rightarrow> bool" where
  "budget_wf opened d = (distinct (map al_id (allocations d))
     \<and> list_all2 same_frame (allocations d) (balances d)
     \<and> (\<forall>t \<in> set (txns d). tx_allocation_id t \<in> al_id ` set (allocations d))
     \<and> (\<forall>b \<in> set (balances d). balance_ok opened d b))"

lemma budget_wfI:
  assumes "distinct (map al_id (allocations d))" and "list_all2 same_frame (allocations d) (balances d)"
    and "\<And>t. t \<in> set (txns d) \<Longrightarrow> tx_allocation_id t \<in> al_id ` set (allocations d)"
    and "\<And>b. b \<in> set (balances d) \<Longrightarrow> balance_ok opened d b"
  shows "budget_wf opened d"
  using assms by (simp add: budget_wf_def)

lemma balance_keys:
  assumes "list_all2 same_frame as bs"
  shows "map b_allocation_id bs = map al_id as"
  using assms by (induction rule: list_all2_induct) (simp_all add: same_frame_def)

lemma frames_update:
  assumes "list_all2 same_frame as bs"
  shows "list_all2 same_frame as (update_where p (apply_txn e t) bs)"
  using assms by (induction rule: list_all2_induct) (simp_all add: same_frame_def apply_txn_def)

interpretation baltx: keyed_update b_allocation_id "apply_txn e t"
  by unfold_locales (simp add: apply_txn_def)

lemma ledger_sum_snoc:
  "ledger_sum f (d\<lparr>txns := txns d @ [t], balances := bs\<rparr>) i =
     ledger_sum f d i + (if tx_allocation_id t = i then f t else 0)"
  by (simp add: ledger_sum_def txns_of_def)

text \<open>Posting a transaction keeps every balance equal to its ledger.\<close>

lemma balance_ok_post:
  assumes "balance_ok opened d b"
  shows "balance_ok opened (d\<lparr>txns := txns d @ [t], balances := bs\<rparr>)
           (if b_allocation_id b = tx_allocation_id t then apply_txn e t b else b)"
  using assms by (simp add: balance_ok_def ledger_sum_snoc apply_txn_def)

lemma create_budget_transaction_facts:
  assumes wf: "budget_wf opened d"
    and res: "create_budget_transaction e i al w ty amount info d = (Inr t, d')"
  shows "budget_wf opened d'" and "tx_type t = ty" and "tx_amount t = amount"
    and "d' = d\<lparr>txns := txns d @ [t],
               balances := update_where (\<lambda>b. b_allocation_id b = al) (apply_txn e t) (balances d)\<rparr>"
proof -
  from res have t: "tx_allocation_id t = al" "tx_type t = ty" "tx_amount t = amount"
    and al: "al \<in> al_id ` set (allocations d)"
    and d': "d' = d\<lparr>txns := txns d @ [t],
               balances := update_where (\<lambda>b. b_allocation_id b = al) (apply_txn e t) (balances d)\<rparr>"
    by (auto simp: create_budget_transaction_def Let_def split: if_splits)
  show "tx_type t = ty" "tx_amount t = amount" by (fact t)+
  show "d' = d\<lparr>txns := txns d @ [t],
               balances := update_where (\<lambda>b. b_allocation_id b = al) (apply_txn e t) (balances d)\<rparr>"
    by (fact d')
  show "budget_wf opened d'"
  proof (rule budget_wfI)
    show "distinct (map al_id (allocations d'))" using wf by (simp add: budget_wf_def d')
    show "list_all2 same_frame (allocations d') (balances d')"
      using wf by (simp add: budget_wf_def d' frames_update)
  next
    fix t' assume "t' \<in> set (txns d')"
    then show "tx_allocation_id t' \<in> al_id ` set (allocations d')"
      using wf al t by (auto simp: budget_wf_def d')
  next
    fix b assume "b \<in> set (balances d')"
    then obtain b0 where b0: "b0 \<in> set (balances d)"
      and b: "b = (if b_allocation_id b0 = al then apply_txn e t b0 else b0)"
      by (auto simp: d' dest: update_where_mem)
    have "balance_ok opened d b0" using wf b0 by (auto simp: budget_wf_def)
    from balance_ok_post [OF this, where t = t and e = e] show "balance_ok opened d' b"
      by (simp add: b t d')
  qed
qed

text \<open>Creating an allocation together with its balance keeps the tables in step.\<close>

lemma ledger_sum_unused:
  assumes "budget_wf opened d" and "i \<notin> al_id ` set (allocations d)"
  shows "ledger_sum f d i = 0"
proof -
  have "txns_of d i = []" using assms by (force simp: budget_wf_def txns_of_def filter_empty_conv)
  then show ?thesis by (simp add: ledger_sum_def)
qed

lemma create_budget_allocation_facts:
  assumes "create_budget_allocation e i n d = (Inr a, d')"
  shows "d' = d\<lparr>allocations := allocations d @ [a]\<rparr>" and "i \<notin> al_id ` set (allocations d)"
    and "al_id a = i" and "al_worker_id a = na_worker_id n" and "al_allocated_credits a = na_allocated_credits n"
    and "al_pool_id a = na_pool_id n" and "al_source_worker_id a = na_source_worker_id n"
    and "al_period_start a = na_period_start n" and "al_period_end a = na_period_end n"
    and "worker_exists d (na_worker_id n)" and "0 < na_allocated_credits n"
  using assms
  by (auto simp: create_budget_allocation_def insert_allocation_row_def Let_def split: if_splits option.splits)

lemma create_budget_balance_facts:
  assumes "create_budget_balance e i w amount st en d = (Inr b, d')"
  shows "d' = d\<lparr>balances := balances d @ [b]\<rparr>" and "i \<notin> b_allocation_id ` set (balances d)"
    and "b_allocation_id b = i" and "b_worker_id b = w" and "b_period_start b = st" and "b_period_end b = en"
    and "b_allocated b = amount" and "b_spent b = 0" and "b_reserved b = 0" and "b_delegated b = 0"
    and "b_available b = amount"
  using assms by (auto simp: create_budget_balance_def Let_def split: if_splits)

lemma budget_wf_keys:
  assumes "budget_wf opened d"
  shows "distinct (map b_allocation_id (balances d))"
    and "b_allocation_id ` set (balances d) = al_id ` set (allocations d)"
proof -
  have "map b_allocation_id (balances d) = map al_id (allocations d)"
    using assms balance_keys by (auto simp: budget_wf_def)
  moreover have "distinct (map al_id (allocations d))" using assms by (simp add: budget_wf_def)
  ultimately show "distinct (map b_allocation_id (balances d))"
    and "b_allocation_id ` set (balances d) = al_id ` set (allocations d)"
    by (simp, metis list.set_map)
qed

lemma open_allocation_wf:
  assumes wf: "budget_wf opened d" and fresh: "al_id a \<notin> al_id ` set (allocations d)"
    and frame: "same_frame a b" and zero: "b_spent b = 0" "b_reserved b = 0" "b_delegated b = 0"
    and avail: "b_allocated b = amount" "b_available b = amount"
  shows "budget_wf (opened(al_id a := amount)) (d\<lparr>allocations := allocations d @ [a], balances := balances d @ [b]\<rparr>)"
    (is "budget_wf ?o ?d")
proof (rule budget_wfI)
  show "distinct (map al_id (allocations ?d))" using wf fresh by (auto simp: budget_wf_def)
  show "list_all2 same_frame (allocations ?d) (balances ?d)"
    using wf frame by (auto simp: budget_wf_def list_all2_appendI)
next
  fix t assume "t \<in> set (txns ?d)"
  then show "tx_allocation_id t \<in> al_id ` set (allocations ?d)" using wf by (auto simp: budget_wf_def)
next
  fix b' assume b': "b' \<in> set (balances ?d)"
  have same: "ledger_sum f ?d i = ledger_sum f d i" for f i by (simp add: ledger_sum_def txns_of_def)
  note keys = budget_wf_keys(2) [OF wf]
  show "balance_ok ?o ?d b'"
  proof (cases "b' \<in> set (balances d)")
    case True
    then have "b_allocation_id b' \<noteq> al_id a" using keys fresh by (metis imageI)
    moreover have "balance_ok opened d b'" using True wf by (auto simp: budget_wf_def)
    ultimately show ?thesis by (simp add: balance_ok_def same)
  next
    case False
    then have "b' = b" using b' by simp
    then show ?thesis using frame zero avail ledger_sum_unused [OF wf fresh]
      by (simp add: balance_ok_def same same_frame_def)
  qed
qed

end
