(* ===== verification/Messages.thy ===== *)
theory Messages
  imports Teams_Channels
begin

text \<open>
  \<open>cli/core/queries/messages.py\<close>, \<open>cli/core/queries/activity.py\<close>,
  \<open>cli/core/queries/notification.py\<close> and the fan-out of \<open>cli/core/notifications/utils.py\<close>:
  messages in channels, activity signals, the notifications of the readers, and the preparation of
  full-text queries. Two things are arguments: \<open>fts\<close>, SQLite's full-text index, which maps a query
  to the matching messages in the order of their rank, and \<open>bd\<close>, whether the external beads tool
  accepts a notification for a worker.
\<close>

section \<open>Activity signals\<close>

definition ACTIVITY_TYPES :: "string list" where
  "ACTIVITY_TYPES = [''bead_update'', ''message_sent'', ''code_commit'', ''file_change'', ''session_output'', ''heartbeat'']"

definition touch_worker_state :: "env \<Rightarrow> ident \<Rightarrow> db \<Rightarrow> db" where
  "touch_worker_state e w d =
     d\<lparr>worker_states := update_where (\<lambda>s. ws_worker_id s = w)
         (\<lambda>s. s\<lparr>ws_last_activity := Some (now e), ws_updated_at := now e\<rparr>) (worker_states d)\<rparr>"

text \<open>The id is the row number \<open>AUTOINCREMENT\<close> draws, so it is given.\<close>

definition record_activity_signal ::
  "env \<Rightarrow> int \<Rightarrow> ident \<Rightarrow> string \<Rightarrow> int \<Rightarrow> json option \<Rightarrow> db \<Rightarrow> (db, unit) outcome" where
  "record_activity_signal e i w ty strength metadata d =
     (if ty \<notin> set ACTIVITY_TYPES then raise (ValueError ''Invalid activity_type'') d
      else if \<not> (1 \<le> strength \<and> strength \<le> 5) then raise (ValueError ''signal_strength must be between 1 and 5'') d
      else if \<not> worker_exists d w then raise (IntegrityError ''activity_signals.worker_id'') d
      else let d1 = d\<lparr>activity_signals := activity_signals d @
                 [\<lparr>sg_id = i, sg_worker_id = w, sg_activity_type = ty, sg_signal_strength = strength,
                   sg_metadata = metadata, sg_created_at = now e\<rparr>]\<rparr>
           in ok () (if 3 \<le> strength then touch_worker_state e w d1 else d1))"

definition get_worker_last_activity :: "db \<Rightarrow> ident \<Rightarrow> int \<Rightarrow> datetime option" where
  "get_worker_last_activity d w min_strength =
     (case order_by_desc sg_created_at
             (fetchall (\<lambda>r. sg_worker_id r = w \<and> min_strength \<le> sg_signal_strength r) (activity_signals d)) of
        [] \<Rightarrow> None
      | r # _ \<Rightarrow> Some (sg_created_at r))"

text \<open>Time spans, in microseconds.\<close>

definition second :: int where
  "second = 1000000"

definition minute :: int where
  "minute = 60000000"

definition hour :: int where
  "hour = 60 * minute"

definition get_recent_signals :: "env \<Rightarrow> db \<Rightarrow> ident \<Rightarrow> int \<Rightarrow> signal_row list" where
  "get_recent_signals e d w minutes =
     order_by_desc sg_created_at
       (fetchall (\<lambda>r. sg_worker_id r = w \<and> now e - minutes * minute \<le> sg_created_at r) (activity_signals d))"

definition cleanup_old_signals :: "env \<Rightarrow> int \<Rightarrow> db \<Rightarrow> nat \<times> db" where
  "cleanup_old_signals e retention_hours d =
     (let old = (\<lambda>r. sg_created_at r < now e - retention_hours * hour)
      in (rowcount old (activity_signals d), d\<lparr>activity_signals := delete_where old (activity_signals d)\<rparr>))"

section \<open>Messages\<close>

definition TIME_SENSITIVITIES :: "string list" where
  "TIME_SENSITIVITIES = [''immediate'', ''hours'', ''days'', ''weeks'', ''whenever'']"

definition insert_message_row :: "message_row \<Rightarrow> db \<Rightarrow> (db, unit) outcome" where
  "insert_message_row m d =
     (if m_id m \<in> m_id ` set (messages d) then raise (IntegrityError ''messages.id'') d
      else if m_priority m < 0 \<or> 4 < m_priority m then raise (IntegrityError ''messages.priority'') d
      else if m_time_sensitivity m \<notin> set TIME_SENSITIVITIES then raise (IntegrityError ''messages.time_sensitivity'') d
      else if \<not> channel_exists d (m_channel_id m) then raise (IntegrityError ''messages.channel_id'') d
      else if \<not> worker_exists d (m_from_worker_id m) then raise (IntegrityError ''messages.from_worker_id'') d
      else if (case m_parent_id m of None \<Rightarrow> False | Some p \<Rightarrow> p \<noteq> m_id m \<and> p \<notin> m_id ` set (messages d))
        then raise (IntegrityError ''messages.parent_id'') d
      else ok () (d\<lparr>messages := messages d @ [m]\<rparr>))"

record new_message =
  nm_channel_id :: ident
  nm_from_worker_id :: ident
  nm_content :: string
  nm_thread_id :: "ident option"
  nm_parent_id :: "ident option"
  nm_priority :: int
  nm_time_sensitivity :: string
  nm_message_id :: "ident option"

definition SIGNAL_STRENGTH_MESSAGE_SENT :: int where
  "SIGNAL_STRENGTH_MESSAGE_SENT = 4"

definition create_message :: "env \<Rightarrow> ident \<Rightarrow> int \<Rightarrow> new_message \<Rightarrow> db \<Rightarrow> (db, message_row) outcome" where
  "create_message e fresh sid n d =
     (let i = (case nm_message_id n of None \<Rightarrow> fresh | Some i \<Rightarrow> i);
          m = \<lparr>m_id = i, m_channel_id = nm_channel_id n, m_thread_id = nm_thread_id n, m_parent_id = nm_parent_id n,
               m_from_worker_id = nm_from_worker_id n, m_content = nm_content n, m_priority = nm_priority n,
               m_time_sensitivity = nm_time_sensitivity n, m_created_at = now e\<rparr>
      in and_then (insert_message_row m d) (\<lambda>_ d1.
         and_then (record_activity_signal e sid (nm_from_worker_id n) ''message_sent'' SIGNAL_STRENGTH_MESSAGE_SENT
             (Some (JObj [(''channel_id'', JStr (nm_channel_id n)), (''message_id'', JStr i)])) d1) (\<lambda>_ d2.
         ok m d2)))"

definition get_message :: "db \<Rightarrow> ident \<Rightarrow> message_row option" where
  "get_message d i = fetchone (\<lambda>m. m_id m = i) (messages d)"

definition get_channel_messages :: "db \<Rightarrow> ident \<Rightarrow> nat \<Rightarrow> nat \<Rightarrow> message_row list" where
  "get_channel_messages d c limit offset =
     take limit (drop offset (order_by_desc m_created_at (fetchall (\<lambda>m. m_channel_id m = c) (messages d))))"

definition get_thread_messages :: "db \<Rightarrow> ident \<Rightarrow> message_row list" where
  "get_thread_messages d t = order_by m_created_at (fetchall (\<lambda>m. m_thread_id m = Some t) (messages d))"

definition add_message_ref :: "ident \<Rightarrow> string \<Rightarrow> ident \<Rightarrow> db \<Rightarrow> (db, unit) outcome" where
  "add_message_ref i ty rid d =
     (let r = \<lparr>mr_message_id = i, mr_ref_type = ty, mr_ref_id = rid\<rparr>
      in if r \<in> set (message_refs d) then ok () d
         else if i \<notin> m_id ` set (messages d) then raise (IntegrityError ''message_refs.message_id'') d
         else ok () (d\<lparr>message_refs := message_refs d @ [r]\<rparr>))"

definition get_message_refs :: "db \<Rightarrow> ident \<Rightarrow> (string \<times> ident) list" where
  "get_message_refs d i =
     map (\<lambda>r. (mr_ref_type r, mr_ref_id r)) (fetchall (\<lambda>r. mr_message_id r = i) (message_refs d))"

section \<open>Fan-out to the beads tool\<close>

text \<open>The workers for which \<open>bd create\<close> is run: the subscribers in turn, the sender left out.\<close>

definition notified_workers :: "db \<Rightarrow> ident \<Rightarrow> ident \<Rightarrow> ident list" where
  "notified_workers d c from_worker = filter (\<lambda>w. w \<noteq> from_worker) (get_channel_subscribers d c)"

text \<open>A bead that was created is answered with the message id.\<close>

definition create_notifications_for_message ::
  "(ident \<Rightarrow> bool) \<Rightarrow> db \<Rightarrow> ident \<Rightarrow> ident \<Rightarrow> ident \<Rightarrow> ident list" where
  "create_notifications_for_message bd d mid c from_worker =
     (if mid = [] then [] else map (\<lambda>_. mid) (filter bd (notified_workers d c from_worker)))"

text \<open>The second component collects the workers the beads tool was asked to notify.\<close>

definition create_message_with_notifications ::
  "env \<Rightarrow> ident \<Rightarrow> int \<Rightarrow> new_message \<Rightarrow> db \<Rightarrow> (db, message_row \<times> ident list) outcome" where
  "create_message_with_notifications e fresh sid n d =
     and_then (create_message e fresh sid n d) (\<lambda>m d1.
       ok (m, notified_workers d1 (nm_channel_id n) (nm_from_worker_id n)) d1)"

section \<open>Full-text queries\<close>

definition py_space :: "char \<Rightarrow> bool" where
  "py_space c =
     (let n = of_char c :: nat in 9 \<le> n \<and> n \<le> 13 \<or> 28 \<le> n \<and> n \<le> 32 \<or> n = 133 \<or> n = 160)"

definition py_strip :: "string \<Rightarrow> string" where
  "py_strip s = rev (dropWhile py_space (rev (dropWhile py_space s)))"

function py_split :: "string \<Rightarrow> string list" where
  "py_split s =
     (let r = dropWhile py_space s
      in if r = [] then []
         else takeWhile (\<lambda>c. \<not> py_space c) r # py_split (dropWhile (\<lambda>c. \<not> py_space c) r))"
  by auto

termination
proof (relation "measure length")
  fix s r assume r: "r = dropWhile py_space s" and "r \<noteq> []"
  then have "\<not> py_space (hd r)" using hd_dropWhile [of py_space s] by simp
  then have "length (dropWhile (\<lambda>c. \<not> py_space c) r) < length r"
    using \<open>r \<noteq> []\<close> length_dropWhile_le [of "\<lambda>c. \<not> py_space c" "tl r"] by (cases r) auto
  moreover have "length r \<le> length s" using r length_dropWhile_le by simp
  ultimately show "(dropWhile (\<lambda>c. \<not> py_space c) r, s) \<in> measure length" by simp
qed simp

declare py_split.simps [simp del]

definition FTS_OPERATORS :: "string list" where
  "FTS_OPERATORS = [''AND'', ''OR'', ''NOT'', ''NEAR'']"

definition quote :: char where
  "quote = char_of (34::nat)"

definition backslash :: char where
  "backslash = char_of (92::nat)"

definition FTS_SPECIAL_CHARS :: "char list" where
  "FTS_SPECIAL_CHARS = ''-+*'' @ [quote] @ ''():^@#$%&!?/'' @ [backslash] @ ''<>={};,~''"

definition double_quotes :: "string \<Rightarrow> string" where
  "double_quotes s = concat (map (\<lambda>c. if c = quote then [quote, quote] else [c]) s)"

definition sanitize_fts_query :: "string \<Rightarrow> string" where
  "sanitize_fts_query query =
     (let stripped = py_strip query
      in if stripped = [] then stripped
         else if list_ex (\<lambda>tok. tok \<in> set FTS_OPERATORS) (py_split stripped) then stripped
         else if list_ex (\<lambda>ch. ch \<in> set FTS_SPECIAL_CHARS) stripped
           then [quote] @ double_quotes stripped @ [quote]
         else stripped)"

definition search_messages ::
  "(string \<Rightarrow> message_row list \<Rightarrow> message_row list) \<Rightarrow> db \<Rightarrow> string \<Rightarrow> ident option \<Rightarrow> nat \<Rightarrow> nat \<Rightarrow> message_row list" where
  "search_messages fts d query channel limit offset =
     take limit (drop offset
       (filter (\<lambda>m. case channel of None \<Rightarrow> True | Some c \<Rightarrow> c = [] \<or> m_channel_id m = c)
          (fts (sanitize_fts_query query) (messages d))))"

section \<open>Notifications\<close>

definition create_notification_bead ::
  "env \<Rightarrow> ident \<Rightarrow> ident \<Rightarrow> ident \<Rightarrow> ident \<Rightarrow> int \<Rightarrow> ident option \<Rightarrow> datetime option \<Rightarrow> db \<Rightarrow> (db, notif_row) outcome" where
  "create_notification_bead e fresh w mid c priority nid expires d =
     (let i = (case nid of None \<Rightarrow> fresh | Some i \<Rightarrow> i);
          r = \<lparr>n_id = i, n_worker_id = w, n_message_id = mid, n_channel_id = c, n_status = NPending,
               n_priority = priority, n_created_at = now e, n_read_at = None, n_actioned_at = None,
               n_closed_at = None, n_expires_at = expires\<rparr>
      in if i \<in> n_id ` set (notification_beads d) then raise (IntegrityError ''notification_beads.id'') d
         else if (\<exists>x \<in> set (notification_beads d). n_worker_id x = w \<and> n_message_id x = mid)
           then raise (IntegrityError ''notification_beads.worker_id, notification_beads.message_id'') d
         else if priority < 0 \<or> 4 < priority then raise (IntegrityError ''notification_beads.priority'') d
         else if \<not> worker_exists d w \<or> mid \<notin> m_id ` set (messages d) \<or> \<not> channel_exists d c
           then raise (IntegrityError ''notification_beads fk'') d
         else ok r (d\<lparr>notification_beads := notification_beads d @ [r]\<rparr>))"

definition get_notification_bead :: "db \<Rightarrow> ident \<Rightarrow> notif_row option" where
  "get_notification_bead d i = fetchone (\<lambda>r. n_id r = i) (notification_beads d)"

text \<open>\<open>ORDER BY priority ASC, created_at DESC\<close>: sorting by the minor key first is the same, sorts being stable.\<close>

definition get_worker_notifications ::
  "db \<Rightarrow> ident \<Rightarrow> notif_status option \<Rightarrow> nat \<Rightarrow> nat \<Rightarrow> notif_row list" where
  "get_worker_notifications d w st limit offset =
     take limit (drop offset (order_by n_priority (order_by_desc n_created_at
       (fetchall (\<lambda>r. n_worker_id r = w \<and> (case st of None \<Rightarrow> True | Some s \<Rightarrow> n_status r = s)) (notification_beads d)))))"

definition count_pending_notifications :: "db \<Rightarrow> ident \<Rightarrow> nat" where
  "count_pending_notifications d w =
     rowcount (\<lambda>r. n_worker_id r = w \<and> n_status r = NPending) (notification_beads d)"

definition coalesce :: "'a option \<Rightarrow> 'a \<Rightarrow> 'a option" where
  "coalesce x y = (case x of None \<Rightarrow> Some y | Some z \<Rightarrow> Some z)"

definition set_read :: "datetime \<Rightarrow> notif_row \<Rightarrow> notif_row" where
  "set_read t r = r\<lparr>n_status := NRead, n_read_at := Some t\<rparr>"

definition set_actioned :: "datetime \<Rightarrow> notif_row \<Rightarrow> notif_row" where
  "set_actioned t r = r\<lparr>n_status := NActioned, n_actioned_at := Some t, n_read_at := coalesce (n_read_at r) t\<rparr>"

definition set_closed :: "datetime \<Rightarrow> notif_row \<Rightarrow> notif_row" where
  "set_closed t r = r\<lparr>n_status := NClosed, n_closed_at := Some t, n_read_at := coalesce (n_read_at r) t,
     n_actioned_at := coalesce (n_actioned_at r) t\<rparr>"

definition update_notifications ::
  "(notif_row \<Rightarrow> bool) \<Rightarrow> (notif_row \<Rightarrow> notif_row) \<Rightarrow> db \<Rightarrow> nat \<times> db" where
  "update_notifications p f d =
     (rowcount p (notification_beads d), d\<lparr>notification_beads := update_where p f (notification_beads d)\<rparr>)"

definition mark_notification_read :: "env \<Rightarrow> ident \<Rightarrow> db \<Rightarrow> bool \<times> db" where
  "mark_notification_read e i d =
     (case update_notifications (\<lambda>r. n_id r = i \<and> n_status r = NPending) (set_read (now e)) d of
        (n, d') \<Rightarrow> (0 < n, d'))"

definition mark_notification_actioned :: "env \<Rightarrow> ident \<Rightarrow> db \<Rightarrow> bool \<times> db" where
  "mark_notification_actioned e i d =
     (case update_notifications (\<lambda>r. n_id r = i \<and> n_status r \<in> {NPending, NRead}) (set_actioned (now e)) d of
        (n, d') \<Rightarrow> (0 < n, d'))"

definition close_notification :: "env \<Rightarrow> ident \<Rightarrow> db \<Rightarrow> bool \<times> db" where
  "close_notification e i d =
     (case update_notifications (\<lambda>r. n_id r = i \<and> n_status r \<noteq> NClosed) (set_closed (now e)) d of
        (n, d') \<Rightarrow> (0 < n, d'))"

definition close_notifications_for_message :: "env \<Rightarrow> ident \<Rightarrow> ident \<Rightarrow> db \<Rightarrow> nat \<times> db" where
  "close_notifications_for_message e w mid d =
     update_notifications (\<lambda>r. n_worker_id r = w \<and> n_message_id r = mid \<and> n_status r \<noteq> NClosed) (set_closed (now e)) d"

definition delete_notifications :: "(notif_row \<Rightarrow> bool) \<Rightarrow> db \<Rightarrow> nat \<times> db" where
  "delete_notifications p d =
     (rowcount p (notification_beads d), d\<lparr>notification_beads := delete_where p (notification_beads d)\<rparr>)"

definition cleanup_old_notifications :: "env \<Rightarrow> int \<Rightarrow> db \<Rightarrow> nat \<times> db" where
  "cleanup_old_notifications e retention_days d =
     delete_notifications (\<lambda>r. n_status r = NClosed \<and>
       (case n_closed_at r of None \<Rightarrow> False | Some t \<Rightarrow> t < now e - retention_days * (24 * hour))) d"

definition cleanup_expired_notifications :: "env \<Rightarrow> db \<Rightarrow> nat \<times> db" where
  "cleanup_expired_notifications e d =
     delete_notifications (\<lambda>r. case n_expires_at r of None \<Rightarrow> False | Some t \<Rightarrow> t < now e) d"

definition cleanup_orphaned_notifications :: "db \<Rightarrow> nat \<times> db" where
  "cleanup_orphaned_notifications d =
     (case delete_notifications (\<lambda>r. n_message_id r \<notin> m_id ` set (messages d)) d of
        (n1, d1) \<Rightarrow>
          (case delete_notifications (\<lambda>r. \<not> worker_exists d1 (n_worker_id r)) d1 of (n2, d2) \<Rightarrow> (n1 + n2, d2)))"

end
