(* ===== verification/Messages_Laws.thy ===== *)
theory Messages_Laws
  imports Messages
begin

text \<open>
  What sending a message leaves behind and whom it notifies, the life of a notification, and that a
  sanitised full-text query denotes the text that was asked for.
\<close>

section \<open>Sending\<close>

definition sub_keys_distinct :: "db \<Rightarrow> bool" where
  "sub_keys_distinct d = distinct (map (\<lambda>s. (cs_channel_id s, cs_worker_id s)) (subscriptions d))"

lemma insert_subscription_keys:
  assumes "sub_keys_distinct d" and "insert_subscription e c w d = (r, d')"
  shows "sub_keys_distinct d'"
proof -
  have "(c, w) \<notin> (\<lambda>s. (cs_channel_id s, cs_worker_id s)) ` set (subscriptions d)"
    if "\<not> is_subscribed_to_channel d c w"
    using that by (auto simp: is_subscribed_to_channel_def fetchone_eq_None_iff)
  then show ?thesis
    using assms by (auto simp: insert_subscription_def sub_keys_distinct_def split: if_splits)
qed

lemma subscribers_distinct:
  assumes "sub_keys_distinct d"
  shows "distinct (get_channel_subscribers d c)"
proof -
  have "distinct (map (\<lambda>s. (cs_channel_id s, cs_worker_id s)) (fetchall (\<lambda>s. cs_channel_id s = c) (subscriptions d)))"
    using assms by (simp add: sub_keys_distinct_def fetchall_def distinct_map_filter)
  then show ?thesis
    by (force simp: get_channel_subscribers_def distinct_map inj_on_def)
qed

lemma subscribers_set: "set (get_channel_subscribers d c) = {w. is_subscribed_to_channel d c w}"
  by (auto simp: get_channel_subscribers_def is_subscribed_to_channel_def fetchone_eq_None_iff image_iff
      simp del: not_None_eq)

lemma touch_worker_state_simps [simp]:
  "messages (touch_worker_state e w d) = messages d" "subscriptions (touch_worker_state e w d) = subscriptions d"
  "activity_signals (touch_worker_state e w d) = activity_signals d"
  by (simp_all add: touch_worker_state_def)

definition sent_signal :: "env \<Rightarrow> int \<Rightarrow> message_row \<Rightarrow> signal_row" where
  "sent_signal e sid m =
     \<lparr>sg_id = sid, sg_worker_id = m_from_worker_id m, sg_activity_type = ''message_sent'', sg_signal_strength = 4,
      sg_metadata = Some (JObj [(''channel_id'', JStr (m_channel_id m)), (''message_id'', JStr (m_id m))]),
      sg_created_at = now e\<rparr>"

lemma insert_message_cases:
  assumes "insert_message_row m d = (r, d')"
  shows "case r of Inl x \<Rightarrow> d' = d
    | Inr _ \<Rightarrow> d' = d\<lparr>messages := messages d @ [m]\<rparr> \<and> m_id m \<notin> m_id ` set (messages d)
        \<and> 0 \<le> m_priority m \<and> m_priority m \<le> 4 \<and> worker_exists d (m_from_worker_id m)"
  using assms by (auto simp: insert_message_row_def split: if_splits)

lemma record_sent:
  assumes "worker_exists d w"
  shows "record_activity_signal e sid w ''message_sent'' SIGNAL_STRENGTH_MESSAGE_SENT md d =
    ok () (touch_worker_state e w (d\<lparr>activity_signals := activity_signals d @
      [\<lparr>sg_id = sid, sg_worker_id = w, sg_activity_type = ''message_sent'', sg_signal_strength = 4,
        sg_metadata = md, sg_created_at = now e\<rparr>]\<rparr>))"
  using assms by (simp add: record_activity_signal_def ACTIVITY_TYPES_def SIGNAL_STRENGTH_MESSAGE_SENT_def)

text \<open>The message and its signal go in together: every check of the second is one of the first.\<close>

lemma create_message_cases:
  assumes "create_message e fresh sid n d = (r, d')"
  shows "case r of Inl x \<Rightarrow> d' = d
    | Inr m \<Rightarrow> m_id m \<notin> m_id ` set (messages d) \<and> m_channel_id m = nm_channel_id n
        \<and> m_from_worker_id m = nm_from_worker_id n \<and> m_content m = nm_content n
        \<and> 0 \<le> m_priority m \<and> m_priority m \<le> 4
        \<and> d' = touch_worker_state e (nm_from_worker_id n)
              (d\<lparr>messages := messages d @ [m], activity_signals := activity_signals d @ [sent_signal e sid m]\<rparr>)"
proof -
  define m where "m = \<lparr>m_id = (case nm_message_id n of None \<Rightarrow> fresh | Some i \<Rightarrow> i), m_channel_id = nm_channel_id n,
      m_thread_id = nm_thread_id n, m_parent_id = nm_parent_id n, m_from_worker_id = nm_from_worker_id n,
      m_content = nm_content n, m_priority = nm_priority n, m_time_sensitivity = nm_time_sensitivity n, m_created_at = now e\<rparr>"
  obtain r1 d1 where ins: "insert_message_row m d = (r1, d1)" by (metis surj_pair)
  show ?thesis
  proof (cases r1)
    case (Inl x)
    then show ?thesis using assms insert_message_cases [OF ins] ins
      by (auto simp: create_message_def Let_def m_def)
  next
    case (Inr u)
    note k = insert_message_cases [OF ins, unfolded Inr, simplified]
    have w: "worker_exists d1 (nm_from_worker_id n)" using k by (simp add: worker_exists_def m_def)
    have "create_message e fresh sid n d = ok m (touch_worker_state e (nm_from_worker_id n)
        (d1\<lparr>activity_signals := activity_signals d1 @ [sent_signal e sid m]\<rparr>))"
      using ins Inr record_sent [OF w] by (simp add: create_message_def Let_def m_def sent_signal_def)
    then show ?thesis using assms k by (auto simp: m_def)
  qed
qed

lemma last_activity_ge:
  assumes "sg \<in> set (activity_signals d)" and "sg_worker_id sg = w" and "s \<le> sg_signal_strength sg"
  shows "\<exists>t. get_worker_last_activity d w s = Some t \<and> sg_created_at sg \<le> t"
proof -
  let ?rows = "fetchall (\<lambda>r. sg_worker_id r = w \<and> s \<le> sg_signal_strength r) (activity_signals d)"
  have sg: "sg \<in> set ?rows" using assms by simp
  then have "?rows \<noteq> []" by (metis empty_iff empty_set)
  then obtain r rs where "order_by_desc sg_created_at ?rows = r # rs" "\<forall>x \<in> set ?rows. sg_created_at x \<le> sg_created_at r"
    using order_by_desc_hd by blast
  then show ?thesis using sg by (simp add: get_worker_last_activity_def)
qed

text \<open>
  Sending a message either fails and changes nothing, or stores exactly that message, counts as recent
  activity of its sender, and asks for one notification for every subscriber of the channel other than
  the sender and for nobody else.
\<close>

theorem message_fanout:
  assumes "sub_keys_distinct d" and "create_message_with_notifications e fresh sid n d = (r, d')"
  shows "case r of Inl x \<Rightarrow> d' = d
    | Inr (m, ws) \<Rightarrow> messages d' = messages d @ [m] \<and> get_message d' (m_id m) = Some m
        \<and> m_channel_id m = nm_channel_id n \<and> m_from_worker_id m = nm_from_worker_id n \<and> m_content m = nm_content n
        \<and> (\<exists>t. get_worker_last_activity d' (m_from_worker_id m) 3 = Some t \<and> now e \<le> t)
        \<and> distinct ws
        \<and> set ws = {w. is_subscribed_to_channel d (m_channel_id m) w \<and> w \<noteq> m_from_worker_id m}"
proof -
  obtain r1 d1 where out: "create_message e fresh sid n d = (r1, d1)" by (metis surj_pair)
  show ?thesis
  proof (cases r1)
    case (Inl x)
    then show ?thesis
      using assms(2) create_message_cases [OF out] by (auto simp: create_message_with_notifications_def out)
  next
    case (Inr m)
    from create_message_cases [OF out] Inr have
      m: "m_id m \<notin> m_id ` set (messages d)" "m_channel_id m = nm_channel_id n"
        "m_from_worker_id m = nm_from_worker_id n" "m_content m = nm_content n"
      and d1: "d1 = touch_worker_state e (nm_from_worker_id n)
                 (d\<lparr>messages := messages d @ [m], activity_signals := activity_signals d @ [sent_signal e sid m]\<rparr>)"
      by auto
    have subs: "get_channel_subscribers d1 c = get_channel_subscribers d c" for c
      by (simp add: d1 get_channel_subscribers_def)
    have "fetchone (\<lambda>x. m_id x = m_id m) (messages d) = None"
      using m(1) by (auto simp: fetchone_eq_None_iff image_iff)
    then have "get_message d1 (m_id m) = Some m" by (simp add: get_message_def d1)
    moreover have "\<exists>t. get_worker_last_activity d1 (m_from_worker_id m) 3 = Some t \<and> now e \<le> t"
      using last_activity_ge [of "sent_signal e sid m" d1 "m_from_worker_id m" 3] by (simp add: d1 sent_signal_def)
    moreover have "messages d1 = messages d @ [m]" by (simp add: d1)
    moreover have "r = Inr (m, notified_workers d1 (nm_channel_id n) (nm_from_worker_id n))" "d' = d1"
      using assms(2) by (auto simp: create_message_with_notifications_def out Inr)
    ultimately show ?thesis
      using m subscribers_distinct [OF assms(1)] subscribers_set by (simp add: notified_workers_def subs)
  qed
qed

definition news :: new_message where
  "news = \<lparr>nm_channel_id = ''chan'', nm_from_worker_id = ''mgr'', nm_content = ''hello'', nm_thread_id = None,
     nm_parent_id = None, nm_priority = 2, nm_time_sensitivity = ''whenever'', nm_message_id = None\<rparr>"

definition news_db :: db where
  "news_db = org_db\<lparr>channels := [\<lparr>c_id = ''chan'', c_name = ''general'', c_type = TopicChannel, c_team_id = None, c_created_at = 0\<rparr>],
     subscriptions := map (\<lambda>w. \<lparr>cs_channel_id = ''chan'', cs_worker_id = w, cs_subscribed_at = 0\<rparr>) [''mgr'', ''eng'']\<rparr>"

theorem message_fanout_witness:
  "\<exists>m d'. create_message_with_notifications witness_env ''m'' 1 news news_db = (Inr (m, [''eng'']), d')
     \<and> get_message d' (m_id m) = Some m"
proof -
  have k: "sub_keys_distinct news_db" by (simp add: sub_keys_distinct_def news_db_def)
  obtain m d' where out: "create_message_with_notifications witness_env ''m'' 1 news news_db = (Inr (m, [''eng'']), d')"
    by (simp add: create_message_with_notifications_def create_message_def insert_message_row_def record_activity_signal_def
        Let_def news_def news_db_def notified_workers_def get_channel_subscribers_def fetchall_def touch_worker_state_def
        channel_exists_def worker_exists_def org_defs TIME_SENSITIVITIES_def ACTIVITY_TYPES_def SIGNAL_STRENGTH_MESSAGE_SENT_def)
  show ?thesis using message_fanout [OF k out] out by simp
qed

section \<open>Sanitised queries\<close>

text \<open>
  A string literal of the full-text query language: it stands between quotes, and a quote inside it
  is written twice.
\<close>

fun fts_literal_body :: "string \<Rightarrow> string option" where
  "fts_literal_body [] = None"
| "fts_literal_body (c # cs) =
     (if c \<noteq> quote then map_option (Cons c) (fts_literal_body cs)
      else case cs of
        [] \<Rightarrow> Some []
      | c' # cs' \<Rightarrow> if c' = quote then map_option (Cons quote) (fts_literal_body cs') else None)"

definition fts_literal :: "string \<Rightarrow> string option" where
  "fts_literal s = (case s of [] \<Rightarrow> None | c # cs \<Rightarrow> if c = quote then fts_literal_body cs else None)"

lemma fts_literal_body_doubled: "fts_literal_body (double_quotes s @ [quote]) = Some s"
  by (induction s) (auto simp: double_quotes_def)

lemma quote_special: "quote \<in> set FTS_SPECIAL_CHARS"
  by (simp add: FTS_SPECIAL_CHARS_def)

text \<open>
  A query without an operator word comes out either unchanged but for surrounding space, and
  then has no character the query language treats specially, or as a single string literal that denotes exactly the
  stripped query. A query with an operator word is passed on as it is, special characters included.
\<close>

theorem sanitised_query_denotes_text:
  "let s = py_strip q; r = sanitize_fts_query q in
     if list_ex (\<lambda>t. t \<in> set FTS_OPERATORS) (py_split s) then r = s
     else if list_ex (\<lambda>c. c \<in> set FTS_SPECIAL_CHARS) s then fts_literal r = Some s
     else r = s \<and> fts_literal r = None"
proof -
  have "fts_literal ([quote] @ double_quotes s @ [quote]) = Some s" for s
    using fts_literal_body_doubled by (simp add: fts_literal_def)
  moreover have "fts_literal s = None" if "\<not> list_ex (\<lambda>c. c \<in> set FTS_SPECIAL_CHARS) s" for s
    using that quote_special by (cases s) (auto simp: fts_literal_def)
  ultimately show ?thesis
    by (simp add: sanitize_fts_query_def Let_def)
qed

section \<open>The life of a notification\<close>

fun notif_rank :: "notif_status \<Rightarrow> nat" where
  "notif_rank NPending = 0"
| "notif_rank NRead = 1"
| "notif_rank NActioned = 2"
| "notif_rank NClosed = 3"

text \<open>Exactly the stamps its status calls for, each no earlier than the one before.\<close>

definition stamps_ok :: "datetime \<Rightarrow> notif_row \<Rightarrow> bool" where
  "stamps_ok t r =
     (case (n_status r, n_read_at r, n_actioned_at r, n_closed_at r) of
        (NPending, None, None, None) \<Rightarrow> n_created_at r \<le> t
      | (NRead, Some a, None, None) \<Rightarrow> n_created_at r \<le> a \<and> a \<le> t
      | (NActioned, Some a, Some b, None) \<Rightarrow> n_created_at r \<le> a \<and> a \<le> b \<and> b \<le> t
      | (NClosed, Some a, Some b, Some c) \<Rightarrow> n_created_at r \<le> a \<and> a \<le> b \<and> b \<le> c \<and> c \<le> t
      | _ \<Rightarrow> False)"

definition notif_wf :: "datetime \<Rightarrow> db \<Rightarrow> bool" where
  "notif_wf t d =
     (distinct (map n_id (notification_beads d))
      \<and> distinct (map (\<lambda>r. (n_worker_id r, n_message_id r)) (notification_beads d))
      \<and> (\<forall>r \<in> set (notification_beads d). stamps_ok t r \<and> 0 \<le> n_priority r \<and> n_priority r \<le> 4
           \<and> worker_exists d (n_worker_id r) \<and> n_message_id r \<in> m_id ` set (messages d)))"

text \<open>The steps of the table, at the time of the environment.\<close>

inductive notif_step :: "env \<Rightarrow> db \<Rightarrow> db \<Rightarrow> bool" where
  st_create: "create_notification_bead e fresh w mid c pr nid ex d = (r, d') \<Longrightarrow> notif_step e d d'"
| st_read: "mark_notification_read e i d = (b, d') \<Longrightarrow> notif_step e d d'"
| st_action: "mark_notification_actioned e i d = (b, d') \<Longrightarrow> notif_step e d d'"
| st_close: "close_notification e i d = (b, d') \<Longrightarrow> notif_step e d d'"
| st_close_msg: "close_notifications_for_message e w mid d = (n, d') \<Longrightarrow> notif_step e d d'"
| st_old: "cleanup_old_notifications e days d = (n, d') \<Longrightarrow> notif_step e d d'"
| st_expired: "cleanup_expired_notifications e d = (n, d') \<Longrightarrow> notif_step e d d'"
| st_orphaned: "cleanup_orphaned_notifications d = (n, d') \<Longrightarrow> notif_step e d d'"

definition notif_kept :: "notif_row \<Rightarrow> notif_row \<Rightarrow> bool" where
  "notif_kept r r' =
     (n_id r' = n_id r \<and> n_worker_id r' = n_worker_id r \<and> n_message_id r' = n_message_id r
      \<and> n_channel_id r' = n_channel_id r \<and> n_priority r' = n_priority r \<and> n_created_at r' = n_created_at r
      \<and> n_expires_at r' = n_expires_at r)"

definition notif_advanced :: "notif_row \<Rightarrow> notif_row \<Rightarrow> bool" where
  "notif_advanced r r' =
     (notif_kept r r' \<and> notif_rank (n_status r) \<le> notif_rank (n_status r')
      \<and> (n_read_at r \<noteq> None \<longrightarrow> n_read_at r' = n_read_at r)
      \<and> (n_actioned_at r \<noteq> None \<longrightarrow> n_actioned_at r' = n_actioned_at r)
      \<and> (n_closed_at r \<noteq> None \<longrightarrow> n_closed_at r' = n_closed_at r))"

lemma notif_advanced_refl [simp]: "notif_advanced r r"
  by (simp add: notif_advanced_def notif_kept_def)

text \<open>A function the updates apply: on the rows they select it advances and keeps the stamps right.\<close>

definition notif_move :: "datetime \<Rightarrow> (notif_row \<Rightarrow> bool) \<Rightarrow> (notif_row \<Rightarrow> notif_row) \<Rightarrow> bool" where
  "notif_move t p f =
     ((\<forall>r. notif_kept r (f r)) \<and> (\<forall>r u. p r \<longrightarrow> stamps_ok u r \<longrightarrow> u \<le> t \<longrightarrow> stamps_ok t (f r) \<and> notif_advanced r (f r)))"

lemma set_read_move: "notif_move t (\<lambda>r. n_status r = NPending) (set_read t)"
  by (auto simp: notif_move_def set_read_def stamps_ok_def notif_kept_def notif_advanced_def split: option.splits)

lemma set_actioned_move: "notif_move t (\<lambda>r. n_status r \<in> {NPending, NRead}) (set_actioned t)"
  by (auto simp: notif_move_def set_actioned_def stamps_ok_def notif_kept_def notif_advanced_def coalesce_def
      split: option.splits)

lemma set_closed_move: "notif_move t (\<lambda>r. n_status r \<noteq> NClosed) (set_closed t)"
  by (auto simp: notif_move_def set_closed_def stamps_ok_def notif_kept_def notif_advanced_def coalesce_def
      split: option.splits notif_status.splits)

lemma notif_move_subset: "notif_move t p f \<Longrightarrow> (\<And>r. q r \<Longrightarrow> p r) \<Longrightarrow> notif_move t q f"
  by (simp add: notif_move_def)

lemma stamps_ok_mono: "stamps_ok u r \<Longrightarrow> u \<le> t \<Longrightarrow> stamps_ok t r"
  by (auto simp: stamps_ok_def split: notif_status.splits option.splits)

text \<open>What a step does to the rows that were there: keep and advance them, or drop a finished one.\<close>

definition notif_progress :: "datetime \<Rightarrow> db \<Rightarrow> db \<Rightarrow> bool" where
  "notif_progress t d d' = (\<forall>r \<in> set (notification_beads d).
     (\<exists>r' \<in> set (notification_beads d'). notif_advanced r r')
     \<or> n_status r = NClosed \<or> (\<exists>x. n_expires_at r = Some x \<and> x < t))"

lemma notif_progress_mono: "set (notification_beads d) \<subseteq> set (notification_beads d') \<Longrightarrow> notif_progress t d d'"
  using notif_advanced_refl by (fastforce simp: notif_progress_def)

lemma notif_wf_mono: "notif_wf u d \<Longrightarrow> u \<le> t \<Longrightarrow> notif_wf t d"
  using stamps_ok_mono by (auto simp: notif_wf_def)

lemma update_notifications_ok:
  assumes "notif_wf u d" and "u \<le> t" and mv: "notif_move t p f" and "d' = snd (update_notifications p f d)"
  shows "notif_wf t d' \<and> notif_progress t d d'"
proof -
  have d': "d' = d\<lparr>notification_beads := update_where p f (notification_beads d)\<rparr>"
    using assms(4) by (simp add: update_notifications_def)
  have keep: "notif_kept r (f r)" for r using mv by (simp add: notif_move_def)
  have ids: "map n_id (update_where p f rows) = map n_id rows"
    and keys: "map (\<lambda>r. (n_worker_id r, n_message_id r)) (update_where p f rows) = map (\<lambda>r. (n_worker_id r, n_message_id r)) rows"
    for rows using keep by (induction rows) (simp_all add: notif_kept_def)
  have row: "stamps_ok t (f r) \<and> notif_advanced r (f r)" if "r \<in> set (notification_beads d)" "p r" for r
    using that mv assms(1,2) unfolding notif_move_def notif_wf_def by blast
  have "notif_wf t d'"
    using assms(1,2) row keep stamps_ok_mono
    by (auto simp: notif_wf_def d' ids keys update_where_set worker_exists_def notif_kept_def)
  moreover have "notif_progress t d d'"
    unfolding notif_progress_def
  proof
    fix r assume r: "r \<in> set (notification_beads d)"
    then have "(if p r then f r else r) \<in> set (notification_beads d')" by (simp add: d' update_where_set)
    moreover have "notif_advanced r (if p r then f r else r)" using row r by simp
    ultimately show "(\<exists>r' \<in> set (notification_beads d'). notif_advanced r r')
        \<or> n_status r = NClosed \<or> (\<exists>x. n_expires_at r = Some x \<and> x < t)" by blast
  qed
  ultimately show ?thesis by simp
qed

lemma delete_notifications_ok:
  assumes "notif_wf u d" and "u \<le> t" and "delete_notifications p d = (n, d')"
    and "\<And>r. r \<in> set (notification_beads d) \<Longrightarrow> p r \<Longrightarrow> n_status r = NClosed \<or> (\<exists>x. n_expires_at r = Some x \<and> x < t)"
  shows "notif_wf t d' \<and> notif_progress t d d'"
proof -
  have d': "d' = d\<lparr>notification_beads := delete_where p (notification_beads d)\<rparr>"
    using assms(3) by (simp add: delete_notifications_def)
  have "notif_wf t d'"
    using assms(1,2) stamps_ok_mono
    by (auto simp: notif_wf_def d' worker_exists_def delete_where_def intro: distinct_map_filter)
  moreover have "notif_progress t d d'"
    using assms(4) notif_advanced_refl by (fastforce simp: notif_progress_def d')
  ultimately show ?thesis by simp
qed

lemma create_notification_ok:
  assumes "notif_wf u d" and "u \<le> now e" and "create_notification_bead e fresh w mid c pr nid ex d = (r, d')"
  shows "notif_wf (now e) d' \<and> notif_progress (now e) d d'"
proof (cases r)
  case (Inl x)
  then have "d' = d" using assms(3) by (auto simp: create_notification_bead_def Let_def split: if_splits)
  then show ?thesis using notif_wf_mono [OF assms(1,2)] notif_progress_mono [of d d] by simp
next
  case (Inr q)
  then have d': "d' = d\<lparr>notification_beads := notification_beads d @ [q]\<rparr>" and q: "stamps_ok (now e) q"
      "n_id q \<notin> n_id ` set (notification_beads d)" "0 \<le> n_priority q" "n_priority q \<le> 4"
      "(n_worker_id q, n_message_id q) \<notin> (\<lambda>r. (n_worker_id r, n_message_id r)) ` set (notification_beads d)"
      "worker_exists d (n_worker_id q)" "n_message_id q \<in> m_id ` set (messages d)"
    using assms(3) by (auto simp: create_notification_bead_def Let_def stamps_ok_def split: if_splits)
  have "notif_wf (now e) d'"
    using assms(1,2) q stamps_ok_mono by (auto simp: notif_wf_def d' worker_exists_def)
  then show ?thesis using notif_progress_mono [of d d'] by (auto simp: d')
qed

lemma no_orphans:
  assumes "notif_wf u d"
  shows "cleanup_orphaned_notifications d = (0, d)"
proof -
  have "filter (\<lambda>r. n_message_id r \<in> m_id ` set (messages d)) (notification_beads d) = notification_beads d"
    "filter (\<lambda>r. worker_exists d (n_worker_id r)) (notification_beads d) = notification_beads d"
    using assms by (simp_all add: notif_wf_def filter_id_conv)
  moreover have "rowcount (\<lambda>r. n_message_id r \<notin> m_id ` set (messages d)) (notification_beads d) = 0"
    "rowcount (\<lambda>r. \<not> worker_exists d (n_worker_id r)) (notification_beads d) = 0"
    using assms by (auto simp: notif_wf_def rowcount_def filter_empty_conv)
  ultimately show ?thesis
    by (simp add: cleanup_orphaned_notifications_def delete_notifications_def delete_where_def)
qed

text \<open>
  C36: Whatever operation runs next, notifications keep distinct ids and at most one per worker and
  message, and each has exactly the time stamps its status calls for, in order. A notification only moves
  forward (pending, read, actioned, closed) and never loses or changes a stamp; it disappears only
  when it is closed or has expired. The sweep for orphans finds none.
\<close>

theorem notification_lifecycle:
  assumes "notif_wf u d" and "u \<le> now e" and "notif_step e d d'"
  shows "notif_wf (now e) d'
    \<and> (\<forall>r \<in> set (notification_beads d).
         (\<exists>r' \<in> set (notification_beads d'). notif_advanced r r')
         \<or> n_status r = NClosed \<or> (\<exists>x. n_expires_at r = Some x \<and> x < now e))
    \<and> cleanup_orphaned_notifications d' = (0, d')"
proof -
  have "notif_wf (now e) d' \<and> notif_progress (now e) d d'"
    using assms(3,1,2)
  proof (induction rule: notif_step.induct)
    case st_create
    then show ?case using create_notification_ok by blast
  next
    case (st_read e i d b d')
    show ?case
      by (rule update_notifications_ok [OF st_read(2,3) notif_move_subset [where q = "\<lambda>r. n_id r = i \<and> n_status r = NPending", OF set_read_move]])
        (use st_read(1) in \<open>auto simp: mark_notification_read_def split: prod.splits\<close>)
  next
    case (st_action e i d b d')
    show ?case
      by (rule update_notifications_ok [OF st_action(2,3) notif_move_subset [where q = "\<lambda>r. n_id r = i \<and> n_status r \<in> {NPending, NRead}", OF set_actioned_move]])
        (use st_action(1) in \<open>auto simp: mark_notification_actioned_def split: prod.splits\<close>)
  next
    case (st_close e i d b d')
    show ?case
      by (rule update_notifications_ok [OF st_close(2,3) notif_move_subset [where q = "\<lambda>r. n_id r = i \<and> n_status r \<noteq> NClosed", OF set_closed_move]])
        (use st_close(1) in \<open>auto simp: close_notification_def split: prod.splits\<close>)
  next
    case (st_close_msg e w mid d n d')
    show ?case
      by (rule update_notifications_ok [OF st_close_msg(2,3) notif_move_subset [where q = "\<lambda>r. n_worker_id r = w \<and> n_message_id r = mid \<and> n_status r \<noteq> NClosed", OF set_closed_move]])
        (use st_close_msg(1) in \<open>auto simp: close_notifications_for_message_def split: prod.splits\<close>)
  next
    case (st_old e days d n d')
    show ?case
      by (rule delete_notifications_ok [OF st_old(2,3,1) [unfolded cleanup_old_notifications_def]]) simp
  next
    case (st_expired e d n d')
    show ?case
      by (rule delete_notifications_ok [OF st_expired(2,3,1) [unfolded cleanup_expired_notifications_def]])
        (simp split: option.splits)
  next
    case (st_orphaned d n d' e)
    then have "d' = d" using no_orphans by auto
    then show ?case using notif_wf_mono [OF st_orphaned(2,3)] notif_progress_mono [of d d] by simp
  qed
  then show ?thesis using no_orphans by (auto simp: notif_progress_def)
qed

definition bell :: notif_row where
  "bell = \<lparr>n_id = ''n'', n_worker_id = ''eng'', n_message_id = ''m'', n_channel_id = ''chan'', n_status = NPending,
     n_priority = 2, n_created_at = 0, n_read_at = None, n_actioned_at = None, n_closed_at = None, n_expires_at = None\<rparr>"

definition bell_db :: db where
  "bell_db = news_db\<lparr>notification_beads := [bell],
     messages := [\<lparr>m_id = ''m'', m_channel_id = ''chan'', m_thread_id = None, m_parent_id = None, m_from_worker_id = ''mgr'',
       m_content = ''hello'', m_priority = 2, m_time_sensitivity = ''whenever'', m_created_at = 0\<rparr>]\<rparr>"

theorem notification_lifecycle_witness:
  "notif_wf (now witness_env) (snd (close_notification witness_env ''n'' bell_db))
   \<and> (\<exists>r' \<in> set (notification_beads (snd (close_notification witness_env ''n'' bell_db))). notif_advanced bell r')"
proof -
  have w: "notif_wf 0 bell_db"
    by (simp add: notif_wf_def bell_db_def bell_def stamps_ok_def worker_exists_def news_db_def org_defs)
  have t: "0 \<le> now witness_env" by (simp add: witness_env_def)
  have "notif_step witness_env bell_db (snd (close_notification witness_env ''n'' bell_db))"
    by (rule st_close [OF prod.collapse [symmetric]])
  from notification_lifecycle [OF w t this] show ?thesis by (simp add: bell_db_def) (simp add: bell_def)
qed

end
