(* ===== verification/Org.thy ===== *)
theory Org
  imports Lifecycle_Manager Budget_Queries Messages_Laws
begin

text \<open>
  \<open>cli/core/org.py\<close> with \<open>cli/core/queries/org.py\<close> and the default row of \<open>cli/core/db/init.py\<close>:
  initialising, starting and stopping an organisation. The state is the database, the \<open>Org\<close> object
  (its cached state row and which monitoring services it holds) and the storage directories of the
  first worker. Arguments stand for what comes from outside: \<open>prep\<close>, an exception of the onboarding
  files, and \<open>briefing\<close>, the briefing file: absent, unreadable or its text. The beads directory, the
  notification bead of the briefing and log lines are left out.
\<close>

section \<open>The state row\<close>

fun org_name :: "org_status \<Rightarrow> string" where
  "org_name OrgUninitialized = ''uninitialized''"
| "org_name OrgInitialized = ''initialized''"
| "org_name OrgRunning = ''running''"
| "org_name OrgStopped = ''stopped''"

definition init_database :: "env \<Rightarrow> db \<Rightarrow> db" where
  "init_database e d =
     (case org_state d of
        Some _ \<Rightarrow> d
      | None \<Rightarrow> d\<lparr>org_state := Some \<lparr>os_status = OrgUninitialized, os_ceo_worker_id = None, os_started_at = None,
                   os_stopped_at = None, os_updated_at = current_timestamp e\<rparr>\<rparr>)"

definition get_org_state :: "db \<Rightarrow> org_state_row option" where
  "get_org_state d = org_state d"

definition set_org_status :: "env \<Rightarrow> org_status \<Rightarrow> ident option \<Rightarrow> org_state_row \<Rightarrow> org_state_row" where
  "set_org_status e st ceo r =
     (if st = OrgRunning
        then r\<lparr>os_status := st, os_ceo_worker_id := ceo, os_started_at := Some (now e), os_updated_at := now e\<rparr>
      else if st = OrgStopped
        then r\<lparr>os_status := st, os_stopped_at := Some (now e), os_updated_at := now e\<rparr>
      else r\<lparr>os_status := st, os_ceo_worker_id := ceo, os_updated_at := now e\<rparr>)"

definition update_org_status :: "env \<Rightarrow> org_status \<Rightarrow> ident option \<Rightarrow> db \<Rightarrow> db" where
  "update_org_status e st ceo d = d\<lparr>org_state := map_option (set_org_status e st ceo) (org_state d)\<rparr>"

section \<open>The object\<close>

record org_obj =
  og_state_data :: "org_state_row option"
  og_escalation_monitor :: bool
  og_activity_reporter :: bool
  og_session_capture :: bool

record orgst =
  og_db :: db
  og_obj :: org_obj
  og_store :: store

definition load_org_state :: "orgst \<Rightarrow> orgst" where
  "load_org_state s =
     (if og_state_data (og_obj s) = None
      then s\<lparr>og_obj := (og_obj s)\<lparr>og_state_data := get_org_state (og_db s)\<rparr>\<rparr> else s)"

definition refresh :: "orgst \<Rightarrow> orgst" where
  "refresh s = s\<lparr>og_obj := (og_obj s)\<lparr>og_state_data := get_org_state (og_db s)\<rparr>\<rparr>"

definition drop_org_cache :: "orgst \<Rightarrow> orgst" where
  "drop_org_cache s = s\<lparr>og_obj := (og_obj s)\<lparr>og_state_data := None\<rparr>\<rparr>"

text \<open>A property getter returns its value and the object with the cache loaded.\<close>

definition og_status :: "orgst \<Rightarrow> org_status \<times> orgst" where
  "og_status s =
     (let s1 = load_org_state s
      in (case og_state_data (og_obj s1) of None \<Rightarrow> OrgUninitialized | Some r \<Rightarrow> os_status r, s1))"

definition og_ceo_worker_id :: "orgst \<Rightarrow> ident option \<times> orgst" where
  "og_ceo_worker_id s =
     (let s1 = load_org_state s
      in (case og_state_data (og_obj s1) of None \<Rightarrow> None | Some r \<Rightarrow> os_ceo_worker_id r, s1))"

definition is_operational :: "orgst \<Rightarrow> bool \<times> orgst" where
  "is_operational s = (case og_status s of (st, s1) \<Rightarrow> (st = OrgRunning, s1))"

definition validate_transition :: "org_status \<Rightarrow> orgst \<Rightarrow> (orgst, unit) outcome" where
  "validate_transition new s =
     (case og_status s of
        (current, s1) \<Rightarrow>
          if new \<in> set (ORG_TRANSITIONS current) then ok () s1
          else raise (InvalidOrgTransition (org_name current) (org_name new) (map org_name (ORG_TRANSITIONS current))) s1)"

text \<open>Runs a database operation within the larger state.\<close>

definition on_db :: "(db \<Rightarrow> (db, 'a) outcome) \<Rightarrow> orgst \<Rightarrow> (orgst, 'a) outcome" where
  "on_db f s = (case f (og_db s) of (r, d) \<Rightarrow> (r, s\<lparr>og_db := d\<rparr>))"

section \<open>Initialisation\<close>

text \<open>The ids the calls to \<open>generate_id\<close> draw.\<close>

record init_ids =
  ii_team :: ident
  ii_team_channel :: ident
  ii_worker :: ident
  ii_pool :: ident
  ii_allocation :: ident
  ii_general :: ident
  ii_board :: ident

definition ceo_scope :: json where
  "ceo_scope = JObj [(''allowed_roles'', JList [JStr ''*'']), (''max_cost'', JInt 100)]"

text \<open>Python's \<open>int\<close> cuts off towards zero.\<close>

definition py_int :: "rat \<Rightarrow> int" where
  "py_int x = (if 0 \<le> x then \<lfloor>x\<rfloor> else - \<lfloor>- x\<rfloor>)"

definition ceo_args :: "string \<Rightarrow> string \<Rightarrow> ident \<Rightarrow> credits \<Rightarrow> new_worker" where
  "ceo_args nm role team budget =
     \<lparr>nw_name = nm, nw_role = role, nw_team_id = team, nw_cost = 100, nw_manager_id = None, nw_skills = None,
      nw_worker_id = None, nw_hiring_authority_scope = Some ceo_scope, nw_delegated_budget = py_int (budget * 1000),
      nw_max_reports = 10, nw_preferred_provider = None\<rparr>"

definition ceo_allocation :: "env \<Rightarrow> ident \<Rightarrow> ident \<Rightarrow> credits \<Rightarrow> datetime \<Rightarrow> new_allocation" where
  "ceo_allocation e ceo pool budget en =
     \<lparr>na_worker_id = ceo, na_allocated_credits = budget, na_period_start = now e, na_period_end = en,
      na_source_worker_id = None, na_pool_id = Some pool, na_can_delegate = True,
      na_delegation_limit = Some (budget * (1 / 2))\<rparr>"

definition open_board_channel :: "env \<Rightarrow> ident \<Rightarrow> string \<Rightarrow> ident \<Rightarrow> db \<Rightarrow> (db, unit) outcome" where
  "open_board_channel e fresh nm w d =
     and_then (create_channel e fresh nm ''topic'' None None d) (\<lambda>c d1. subscribe_to_channel e (c_id c) w False d1)"

text \<open>The statements of \<open>init\<close> on the database, in their order; each commits on its own.\<close>

definition init_tables :: "env \<Rightarrow> init_ids \<Rightarrow> string \<Rightarrow> string \<Rightarrow> credits \<Rightarrow> db \<Rightarrow> (db, ident) outcome" where
  "init_tables e ids ceo_name ceo_role budget d0 =
     and_then (create_team e (ii_team ids) (ii_team_channel ids) ''Executive'' None None None True d0) (\<lambda>team d1.
     and_then (create_worker e (ii_worker ids) (ceo_args ceo_name ceo_role (t_id team) budget) d1) (\<lambda>ceo d2.
     and_then (add_team_member e (t_id team) (wk_id ceo) ''lead'' d2) (\<lambda>_ d3.
     let en = now e + 30 * (24 * hour) in
     and_then (create_budget_pool e (ii_pool ids) ''org-main'' budget (now e) en None d3) (\<lambda>pool d4.
     and_then (create_budget_allocation e (ii_allocation ids) (ceo_allocation e (wk_id ceo) (p_id pool) budget en) d4) (\<lambda>a d5.
     and_then (create_budget_balance e (al_id a) (wk_id ceo) budget (now e) en d5) (\<lambda>_ d6.
     and_then (case get_team_channel d6 (t_id team) of
                 None \<Rightarrow> ok () d6
               | Some c \<Rightarrow> subscribe_to_channel e (c_id c) (wk_id ceo) False d6) (\<lambda>_ d7.
     and_then (open_board_channel e (ii_general ids) ''general'' (wk_id ceo) d7) (\<lambda>_ d8.
     and_then (open_board_channel e (ii_board ids) ''board-channel'' (wk_id ceo) d8) (\<lambda>_ d9.
     ok (wk_id ceo) d9)))))))))"

definition worker_get :: "ident \<Rightarrow> db \<Rightarrow> (db, wobj) outcome" where
  "worker_get i d =
     (case load_worker d \<lparr>wo_id = i, wo_data = None\<rparr> of (Inl x, _) \<Rightarrow> raise x d | (Inr _, ob) \<Rightarrow> ok ob d)"

definition org_init :: "env \<Rightarrow> init_ids \<Rightarrow> string \<Rightarrow> string \<Rightarrow> credits \<Rightarrow> orgst \<Rightarrow> (orgst, wobj) outcome" where
  "org_init e ids ceo_name ceo_role budget s =
     and_then (validate_transition OrgInitialized s) (\<lambda>_ s1.
     and_then (on_db (init_tables e ids ceo_name ceo_role budget) s1) (\<lambda>ceo s2.
     on_db (worker_get ceo)
       (drop_org_cache (s2\<lparr>og_db := update_org_status e OrgInitialized (Some ceo) (og_db s2)\<rparr>))))"

section \<open>Start and stop\<close>

definition deliver_ceo_briefing :: "env \<Rightarrow> ident \<Rightarrow> int \<Rightarrow> ident \<Rightarrow> string \<Rightarrow> db \<Rightarrow> (db, unit) outcome" where
  "deliver_ceo_briefing e fresh sid ceo content d =
     (case fetchone (\<lambda>c. c_name c = ''board-channel'') (channels d) of
        None \<Rightarrow> ok () d
      | Some c \<Rightarrow>
          if fetchone (\<lambda>m. m_channel_id m = c_id c
               \<and> ascii_lower (take 14 (m_content m)) = ''# ceo briefing'') (messages d) \<noteq> None
          then ok () d
          else and_then (create_message e fresh sid
                 \<lparr>nm_channel_id = c_id c, nm_from_worker_id = ceo,
                  nm_content = ''# CEO Briefing'' @ [CHR 0x0A, CHR 0x0A] @ content,
                  nm_thread_id = None, nm_parent_id = None, nm_priority = 0, nm_time_sensitivity = ''immediate'',
                  nm_message_id = Some fresh\<rparr> d) (\<lambda>_ d1. ok () d1))"

definition fresh_manager :: "wobj \<Rightarrow> smgr" where
  "fresh_manager ob = \<lparr>sm_worker = ob, sm_state = None, sm_session = None\<rparr>"

text \<open>
  The first worker's onboarding. When a step raises, its status is read again, and if it has
  changed it is put back before the exception goes on.
\<close>

definition onboard_ceo :: "env \<Rightarrow> py_error option \<Rightarrow> wstate \<Rightarrow> (wstate, unit) outcome" where
  "onboard_ceo e prep w =
     and_then (read_worker w) (\<lambda>before w0.
       case and_then (start_onboarding e prep w0) (\<lambda>_ w1. complete_onboarding e w1) of
         (Inr _, w2) \<Rightarrow> ok () w2
       | (Inl x, w2) \<Rightarrow>
           and_then (read_worker w2) (\<lambda>after w3.
             if wk_status after \<noteq> wk_status before
             then and_then (set_status e (wk_status before) w3) (\<lambda>_ w4. raise x w4)
             else raise x w3))"

definition start_ceo :: "env \<Rightarrow> py_error option \<Rightarrow> ident \<Rightarrow> orgst \<Rightarrow> (orgst, unit) outcome" where
  "start_ceo e prep ceo s =
     and_then (on_db (worker_get ceo) s) (\<lambda>ob s1.
       case onboard_ceo e prep \<lparr>st_db = og_db s1, st_sm = fresh_manager ob, st_store = og_store s1\<rparr> of
         (r, w) \<Rightarrow> (r, s1\<lparr>og_db := st_db w, og_store := st_store w\<rparr>))"

definition give_briefing ::
  "env \<Rightarrow> ident \<Rightarrow> int \<Rightarrow> ident option \<Rightarrow> (py_error + string) option \<Rightarrow> orgst \<Rightarrow> (orgst, unit) outcome" where
  "give_briefing e fresh sid ceo briefing s =
     (case briefing of
        None \<Rightarrow> ok () s
      | Some f \<Rightarrow>
          (case ceo of
             None \<Rightarrow> raise (AttributeError ''id'') s
           | Some c \<Rightarrow>
               (case f of
                  Inl x \<Rightarrow> raise x s
                | Inr content \<Rightarrow> on_db (deliver_ceo_briefing e fresh sid c content) s)))"

definition set_running :: "env \<Rightarrow> orgst \<Rightarrow> orgst" where
  "set_running e s =
     (case og_ceo_worker_id s of (ceo, s1) \<Rightarrow> s1\<lparr>og_db := update_org_status e OrgRunning ceo (og_db s1)\<rparr>)"

definition org_start ::
  "env \<Rightarrow> py_error option \<Rightarrow> ident \<Rightarrow> int \<Rightarrow> (py_error + string) option \<Rightarrow> orgst \<Rightarrow> (orgst, org_status \<times> org_status) outcome" where
  "org_start e prep fresh sid briefing s =
     (case og_status s of
        (old, s0) \<Rightarrow>
          and_then (validate_transition OrgRunning s0) (\<lambda>_ s1.
          and_then
            (if old = OrgInitialized
             then case og_ceo_worker_id s1 of
                    (ceo, s2) \<Rightarrow>
                      and_then (case ceo of None \<Rightarrow> ok () s2 | Some c \<Rightarrow> start_ceo e prep c s2) (\<lambda>_ s3.
                      give_briefing e fresh sid ceo briefing s3)
             else ok () s1) (\<lambda>_ s4.
          case og_status (drop_org_cache (set_running e s4)) of (new, s5) \<Rightarrow> ok (old, new) s5)))"

definition rollback_to_status :: "env \<Rightarrow> org_status \<Rightarrow> orgst \<Rightarrow> orgst" where
  "rollback_to_status e target s =
     (case og_ceo_worker_id s of
        (ceo, s1) \<Rightarrow> drop_org_cache (s1\<lparr>og_db := update_org_status e target ceo (og_db s1)\<rparr>))"

definition stop_monitors :: "orgst \<Rightarrow> orgst" where
  "stop_monitors s = s\<lparr>og_obj := (og_obj s)\<lparr>og_escalation_monitor := False, og_activity_reporter := False,
     og_session_capture := False\<rparr>\<rparr>"

definition org_stop :: "env \<Rightarrow> orgst \<Rightarrow> (orgst, unit) outcome" where
  "org_stop e s =
     and_then (validate_transition OrgStopped s) (\<lambda>_ s1.
       let s2 = stop_monitors s1
       in case og_ceo_worker_id s2 of
            (ceo, s3) \<Rightarrow> ok () (drop_org_cache (s3\<lparr>og_db := update_org_status e OrgStopped ceo (og_db s3)\<rparr>)))"

section \<open>Counts\<close>

definition worker_count :: "db \<Rightarrow> nat" where
  "worker_count d = length (workers d)"

definition active_session_count :: "db \<Rightarrow> nat" where
  "active_session_count d =
     (let n = rowcount (\<lambda>r. ss_state r \<in> {Starting, Running, Idle}) (sessions d)
      in if 0 < n then n
         else rowcount (\<lambda>r. ws_runtime_status r \<in> {Starting, Running, Idle}) (worker_states d))"

definition active_worker_count :: "db \<Rightarrow> nat" where
  "active_worker_count d = rowcount (\<lambda>r. w_status r = Active) (workers d)"

end
