(* ===== verification/Org_Laws.thy ===== *)
theory Org_Laws
  imports Org
begin

text \<open>
  Initialisation builds a consistent organisation; initialising, starting and stopping follow the
  transition table; and what a failure in the middle of one of them leaves behind.
\<close>

section \<open>Operations that leave the state row alone\<close>

lemma and_then_frame:
  assumes "f (snd m) = f0" and "\<And>x s. m = (Inr x, s) \<Longrightarrow> f (snd (k x s)) = f s"
  shows "f (snd (and_then m k)) = f0"
  using assms by (cases m; cases "fst m") auto

lemmas and_then_org = and_then_frame [of org_state]
lemmas and_then_st_org = and_then_frame [of "\<lambda>w. org_state (st_db w)"]

named_theorems org_frame

lemma create_channel_org [org_frame]: "org_state (snd (create_channel e i nm ty t c d)) = org_state d"
  by (simp add: create_channel_def Let_def split: option.split)

lemma create_team_org [org_frame]: "org_state (snd (create_team e i c nm p l t b d)) = org_state d"
  unfolding create_team_def Let_def
  by (rule and_then_org, simp add: insert_team_row_def)
    (cases b, simp_all, rule and_then_org, simp_all add: org_frame)

lemma create_worker_org [org_frame]: "org_state (snd (create_worker e i a d)) = org_state d"
  unfolding create_worker_def Let_def by (rule and_then_org) (simp_all add: insert_worker_row_def)

lemma add_team_member_org [org_frame]: "org_state (snd (add_team_member e t w r d)) = org_state d"
  by (simp add: add_team_member_def Let_def)

lemma create_budget_pool_org [org_frame]: "org_state (snd (create_budget_pool e i nm c st en p d)) = org_state d"
  by (simp add: create_budget_pool_def Let_def)

lemma create_budget_allocation_org [org_frame]: "org_state (snd (create_budget_allocation e i n d)) = org_state d"
proof -
  have "org_state (snd (insert_allocation_row a d)) = org_state d" for a by (simp add: insert_allocation_row_def)
  then have "org_state (snd (and_then (insert_allocation_row a d) (\<lambda>_ d1. ok a d1))) = org_state d" for a
    by (rule and_then_org) simp
  then show ?thesis by (simp add: create_budget_allocation_def Let_def)
qed

lemma create_budget_balance_org [org_frame]: "org_state (snd (create_budget_balance e i w a st en d)) = org_state d"
  by (simp add: create_budget_balance_def Let_def)

lemma subscribe_to_channel_org [org_frame]: "org_state (snd (subscribe_to_channel e c w b d)) = org_state d"
  by (auto simp: subscribe_to_channel_def insert_subscription_def split: prod.splits bool.splits)

lemma open_board_channel_org [org_frame]: "org_state (snd (open_board_channel e i nm w d)) = org_state d"
  unfolding open_board_channel_def by (rule and_then_org) (simp_all add: org_frame)

lemma join_channel_org [org_frame]:
  "org_state (snd (case x of None \<Rightarrow> ok () d | Some c \<Rightarrow> subscribe_to_channel e (c_id c) w b d)) = org_state d"
  by (simp add: org_frame split: option.split)

lemma init_tables_org: "org_state (snd (init_tables e ids nm role budget d)) = org_state d"
  unfolding init_tables_def Let_def
  by ((rule and_then_org, simp add: org_frame)+, simp)

lemma create_message_org [org_frame]: "org_state (snd (create_message e i sid n d)) = org_state d"
  using create_message_cases [of e i sid n d "fst (create_message e i sid n d)" "snd (create_message e i sid n d)"]
  by (simp add: touch_worker_state_def split: sum.splits)

lemma deliver_ceo_briefing_org [org_frame]: "org_state (snd (deliver_ceo_briefing e i sid c t d)) = org_state d"
proof -
  have "org_state (snd (and_then (create_message e i sid n d) (\<lambda>_ d1. ok () d1))) = org_state d" for n
    by (rule and_then_org) (simp_all add: org_frame)
  then show ?thesis by (simp add: deliver_ceo_briefing_def split: option.split)
qed

lemma update_worker_status_org [org_frame]: "org_state (snd (update_worker_status e i st d)) = org_state d"
  by (auto simp: update_worker_status_def bus_publish_def set_worker_status_row_def log_status_change_def
      revoke_delegations_on_termination_def revoke_grants_where_def clear_authority_def Let_def split: option.splits)

subsection \<open>Onboarding\<close>

lemma set_status_eq:
  "set_status e t w = (Inr (), w\<lparr>st_db := snd (update_worker_status e (st_id w) t (st_db w))\<rparr>)"
  using update_worker_status_result [of e "st_id w" t "st_db w"]
  by (cases "update_worker_status e (st_id w) t (st_db w)") (simp add: set_status_def)

lemma read_worker_org: "org_state (st_db (snd (read_worker w))) = org_state (st_db w)"
  using read_worker_cases(1) [of w "fst (read_worker w)" "snd (read_worker w)"] by simp

lemma validate_org: "org_state (st_db (snd (validate_lifecycle_transition t w))) = org_state (st_db w)"
  using validate_cases(1) [of t w "fst (validate_lifecycle_transition t w)" "snd (validate_lifecycle_transition t w)"]
  by simp

lemma moved_status_org:
  "org_state (st_db (snd (and_then (set_status e t w) (\<lambda>_ w1. log_lifecycle (drop_cache w1))))) = org_state (st_db w)"
  by (simp add: set_status_eq log_lifecycle_def)
    (rule and_then_st_org, simp_all add: read_worker_org update_worker_status_org)

lemma start_onboarding_org: "org_state (st_db (snd (start_onboarding e prep w))) = org_state (st_db w)"
  unfolding start_onboarding_def Let_def
  by (rule and_then_st_org)
    (simp_all add: validate_org moved_status_org split: option.split)

lemma complete_onboarding_org: "org_state (st_db (snd (complete_onboarding e w))) = org_state (st_db w)"
  unfolding complete_onboarding_def
  by (rule and_then_st_org) (simp_all add: validate_org moved_status_org)

lemma onboard_ceo_org: "org_state (st_db (snd (onboard_ceo e prep w))) = org_state (st_db w)"
proof -
  have both: "org_state (st_db (snd (and_then (start_onboarding e prep v) (\<lambda>_ w1. complete_onboarding e w1)))) = org_state (st_db v)" for v
    by (rule and_then_st_org) (simp_all add: start_onboarding_org complete_onboarding_org)
  show ?thesis
    unfolding onboard_ceo_def
  proof (rule and_then_st_org)
    fix before v
    obtain r u where run: "and_then (start_onboarding e prep v) (\<lambda>_ w1. complete_onboarding e w1) = (r, u)" by (metis surj_pair)
    have "org_state (st_db u) = org_state (st_db v)" using both [of v] run by simp
    moreover have "org_state (st_db (snd (and_then (read_worker u) (\<lambda>after w3.
             if wk_status after \<noteq> wk_status before
             then and_then (set_status e (wk_status before) w3) (\<lambda>_ w4. raise x w4)
             else raise x w3)))) = org_state (st_db u)" for x :: py_error
      by (rule and_then_st_org) (simp_all add: read_worker_org set_status_eq update_worker_status_org)
    ultimately show "org_state (st_db (snd (case and_then (start_onboarding e prep v) (\<lambda>_ w1. complete_onboarding e w1) of
         (Inr _, w2) \<Rightarrow> ok () w2
       | (Inl x, w2) \<Rightarrow>
           and_then (read_worker w2) (\<lambda>after w3.
             if wk_status after \<noteq> wk_status before
             then and_then (set_status e (wk_status before) w3) (\<lambda>_ w4. raise x w4)
             else raise x w3)))) = org_state (st_db v)"
      by (cases r) (simp_all add: run)
  qed (simp add: read_worker_org)
qed

section \<open>The transition table\<close>

definition org_coherent :: "orgst \<Rightarrow> bool" where
  "org_coherent s = (og_state_data (og_obj s) = None \<or> og_state_data (og_obj s) = org_state (og_db s))"

definition org_status_of :: "orgst \<Rightarrow> org_status" where
  "org_status_of s = (case org_state (og_db s) of None \<Rightarrow> OrgUninitialized | Some r \<Rightarrow> os_status r)"

definition org_ceo_of :: "orgst \<Rightarrow> ident option" where
  "org_ceo_of s = (case org_state (og_db s) of None \<Rightarrow> None | Some r \<Rightarrow> os_ceo_worker_id r)"

lemma load_org_state_simps [simp]:
  "og_db (load_org_state s) = og_db s" "og_store (load_org_state s) = og_store s"
  "org_coherent s \<Longrightarrow> org_coherent (load_org_state s)"
  "org_coherent s \<Longrightarrow> og_state_data (og_obj (load_org_state s)) = org_state (og_db s)"
  by (auto simp: load_org_state_def org_coherent_def get_org_state_def)

lemma drop_org_cache_simps [simp]:
  "og_db (drop_org_cache s) = og_db s" "og_store (drop_org_cache s) = og_store s" "org_coherent (drop_org_cache s)"
  by (simp_all add: drop_org_cache_def org_coherent_def)

lemma og_status_eq: "org_coherent s \<Longrightarrow> og_status s = (org_status_of s, load_org_state s)"
  by (simp add: og_status_def org_status_of_def Let_def)

lemma og_ceo_eq: "org_coherent s \<Longrightarrow> og_ceo_worker_id s = (org_ceo_of s, load_org_state s)"
  by (simp add: og_ceo_worker_id_def org_ceo_of_def Let_def)

lemma org_status_of_load [simp]: "org_status_of (load_org_state s) = org_status_of s" "org_ceo_of (load_org_state s) = org_ceo_of s"
  by (simp_all add: org_status_of_def org_ceo_of_def)

lemma load_load [simp]: "org_coherent s \<Longrightarrow> load_org_state (load_org_state s) = load_org_state s"
  by (auto simp: load_org_state_def)

lemma validate_transition_eq:
  "org_coherent s \<Longrightarrow> validate_transition t s =
     (if t \<in> set (ORG_TRANSITIONS (org_status_of s)) then ok () (load_org_state s)
      else raise (InvalidOrgTransition (org_name (org_status_of s)) (org_name t)
             (map org_name (ORG_TRANSITIONS (org_status_of s)))) (load_org_state s))"
  by (simp add: validate_transition_def og_status_eq)

text \<open>
  An operation that aims at status \<open>t\<close>: when it fails the stored row is what it was; when it succeeds
  the table allows the step and \<open>t\<close> is stored. Either way the object agrees with the database.
\<close>

definition org_moved :: "org_status \<Rightarrow> orgst \<Rightarrow> (orgst, 'a) outcome \<Rightarrow> bool" where
  "org_moved t s out =
     (case out of
        (Inl _, s') \<Rightarrow> org_coherent s' \<and> org_state (og_db s') = org_state (og_db s)
      | (Inr _, s') \<Rightarrow> org_coherent s' \<and> t \<in> set (ORG_TRANSITIONS (org_status_of s))
          \<and> org_status_of s' = t \<and> org_state (og_db s') \<noteq> None)"

text \<open>The parts of a handler before the row is written: they keep row and object.\<close>

definition org_quiet :: "orgst \<Rightarrow> (orgst, 'a) outcome \<Rightarrow> bool" where
  "org_quiet s out = (org_state (og_db (snd out)) = org_state (og_db s) \<and> og_obj (snd out) = og_obj s)"

lemma on_db_quiet: "org_state (snd (f (og_db s))) = org_state (og_db s) \<Longrightarrow> org_quiet s (on_db f s)"
  by (cases "f (og_db s)") (simp add: on_db_def org_quiet_def)

lemma and_then_quiet:
  assumes "org_quiet s m" and "\<And>x s1. m = (Inr x, s1) \<Longrightarrow> org_quiet s1 (k x s1)"
  shows "org_quiet s (and_then m k)"
  using assms by (cases m; cases "fst m") (auto simp: org_quiet_def)

lemma org_quiet_ok [simp]: "org_quiet s (ok x s)" "org_quiet s (raise y s)"
  by (simp_all add: org_quiet_def)

lemma org_quiet_coherent: "org_quiet s (r, s') \<Longrightarrow> org_coherent s \<Longrightarrow> org_coherent s'"
  by (simp add: org_quiet_def org_coherent_def)

lemma worker_get_db: "snd (worker_get i d) = d"
  by (simp add: worker_get_def split: prod.split sum.split)

lemma start_ceo_quiet: "org_quiet s (start_ceo e prep c s)"
  unfolding start_ceo_def
proof (rule and_then_quiet)
  show "org_quiet s (on_db (worker_get c) s)" by (rule on_db_quiet) (simp add: worker_get_db)
  show "org_quiet s1 (case onboard_ceo e prep \<lparr>st_db = og_db s1, st_sm = fresh_manager ob, st_store = og_store s1\<rparr> of
         (r, w) \<Rightarrow> (r, s1\<lparr>og_db := st_db w, og_store := st_store w\<rparr>))" for ob s1
    using onboard_ceo_org [of e prep "\<lparr>st_db = og_db s1, st_sm = fresh_manager ob, st_store = og_store s1\<rparr>"]
    by (auto simp: org_quiet_def split: prod.split)
qed

lemma give_briefing_quiet: "org_quiet s (give_briefing e fresh sid c b s)"
  by (auto simp: give_briefing_def org_frame intro!: on_db_quiet split: option.split sum.split)

lemma open_board_channel_worker:
  assumes "open_board_channel e i nm w d = (Inr u, d')"
  shows "get_worker d' w \<noteq> None"
  using assms unfolding open_board_channel_def
  by (elim and_then_InrD)
    (auto simp: subscribe_to_channel_def can_subscribe_to_channel_def insert_subscription_def get_worker_def
      split: option.splits prod.splits bool.splits if_splits)

lemma init_tables_worker:
  assumes "init_tables e ids nm role budget d = (Inr c, d')"
  shows "get_worker d' c \<noteq> None"
  using assms unfolding init_tables_def Let_def
  by (elim and_then_InrD) (auto dest: open_board_channel_worker)

lemma worker_get_ok:
  assumes "get_worker d c = Some w"
  shows "worker_get c d = ok \<lparr>wo_id = c, wo_data = Some w\<rparr> d"
  using assms by (simp add: worker_get_def load_worker_def)

lemma get_worker_org_update [simp]: "get_worker (update_org_status e t c d) i = get_worker d i"
  by (simp add: update_org_status_def get_worker_def)

lemma update_org_status_row:
  "org_state (update_org_status e t c d) = map_option (set_org_status e t c) (org_state d)"
  by (simp add: update_org_status_def)

lemma set_org_status_status [simp]: "os_status (set_org_status e t c r) = t"
  by (simp add: set_org_status_def)

lemma org_init_moved:
  assumes "org_coherent s" and "org_state (og_db s) \<noteq> None"
  shows "org_moved OrgInitialized s (org_init e ids nm role budget s)"
proof (cases "OrgInitialized \<in> set (ORG_TRANSITIONS (org_status_of s))")
  case True
  let ?s = "load_org_state s"
  obtain r d2 where t: "init_tables e ids nm role budget (og_db s) = (r, d2)" by (metis surj_pair)
  have q: "org_state d2 = org_state (og_db s)" using init_tables_org [of e ids nm role budget "og_db s"] t by simp
  show ?thesis
  proof (cases r)
    case (Inl x)
    then show ?thesis using assms True t q
      by (simp add: org_init_def validate_transition_eq on_db_def org_moved_def org_coherent_def)
  next
    case (Inr c)
    then obtain w where "get_worker d2 c = Some w" using init_tables_worker t by blast
    then show ?thesis using assms True t q Inr
      by (auto simp: org_init_def validate_transition_eq on_db_def org_moved_def worker_get_ok
          org_coherent_def drop_org_cache_def org_status_of_def update_org_status_row)
  qed
qed (use assms in \<open>simp add: org_init_def validate_transition_eq org_moved_def\<close>)

lemma org_stop_moved:
  assumes "org_coherent s" and "org_state (og_db s) \<noteq> None"
  shows "org_moved OrgStopped s (org_stop e s)"
proof -
  have "org_coherent (stop_monitors (load_org_state s))" "og_db (stop_monitors (load_org_state s)) = og_db s"
    using assms(1) by (simp_all add: stop_monitors_def org_coherent_def)
  then show ?thesis using assms
    by (auto simp: org_stop_def validate_transition_eq og_ceo_eq org_moved_def Let_def org_status_of_def
        update_org_status_row)
qed

text \<open>The end of \<open>start\<close>: the row is written and read back.\<close>

lemma set_running_end:
  assumes "org_coherent s" and "org_state (og_db s) = Some r"
  shows "\<exists>s'. og_status (drop_org_cache (set_running e s)) = (OrgRunning, s') \<and> org_coherent s'
    \<and> og_store s' = og_store s
    \<and> og_db s' = (og_db s)\<lparr>org_state := Some (set_org_status e OrgRunning (os_ceo_worker_id r) r)\<rparr>"
proof -
  let ?s = "drop_org_cache (set_running e s)"
  have db: "og_db ?s = (og_db s)\<lparr>org_state := Some (set_org_status e OrgRunning (os_ceo_worker_id r) r)\<rparr>"
    using assms by (simp add: set_running_def og_ceo_eq org_ceo_of_def update_org_status_def)
  moreover have "og_store ?s = og_store s" using assms by (simp add: set_running_def og_ceo_eq)
  moreover have "og_status ?s = (OrgRunning, load_org_state ?s)"
    using db by (simp add: og_status_eq org_status_of_def)
  ultimately show ?thesis by (intro exI [of _ "load_org_state ?s"]) simp
qed

definition start_work ::
  "env \<Rightarrow> py_error option \<Rightarrow> ident \<Rightarrow> int \<Rightarrow> (py_error + string) option \<Rightarrow> org_status \<Rightarrow> orgst \<Rightarrow> (orgst, unit) outcome" where
  "start_work e prep fresh sid briefing old s =
     (if old = OrgInitialized
      then and_then (case org_ceo_of s of None \<Rightarrow> ok () s | Some c \<Rightarrow> start_ceo e prep c s)
             (\<lambda>_ s3. give_briefing e fresh sid (org_ceo_of s) briefing s3)
      else ok () s)"

lemma start_work_quiet: "org_quiet s (start_work e prep fresh sid briefing old s)"
  by (auto simp: start_work_def start_ceo_quiet give_briefing_quiet intro!: and_then_quiet split: option.split)

lemma org_start_eq:
  assumes "org_coherent s" and "OrgRunning \<in> set (ORG_TRANSITIONS (org_status_of s))"
  shows "org_start e prep fresh sid briefing s =
    and_then (start_work e prep fresh sid briefing (org_status_of s) (load_org_state s)) (\<lambda>_ s4.
      case og_status (drop_org_cache (set_running e s4)) of (new, s5) \<Rightarrow> ok (org_status_of s, new) s5)"
  using assms by (simp add: org_start_def og_status_eq validate_transition_eq og_ceo_eq start_work_def)

lemma org_start_moved:
  assumes "org_coherent s" and "org_state (og_db s) \<noteq> None"
  shows "org_moved OrgRunning s (org_start e prep fresh sid briefing s)"
proof (cases "OrgRunning \<in> set (ORG_TRANSITIONS (org_status_of s))")
  case True
  obtain r s4 where w: "start_work e prep fresh sid briefing (org_status_of s) (load_org_state s) = (r, s4)"
    by (metis surj_pair)
  have q: "org_quiet (load_org_state s) (r, s4)"
    using start_work_quiet [of "load_org_state s" e prep fresh sid briefing "org_status_of s"] w by simp
  then have c: "org_coherent s4" and st: "org_state (og_db s4) = org_state (og_db s)"
    using org_quiet_coherent [OF q] assms(1) by (simp_all add: org_quiet_def)
  show ?thesis
  proof (cases r)
    case (Inl x)
    then show ?thesis using w c st by (simp add: org_start_eq [OF assms(1) True] org_moved_def)
  next
    case (Inr u)
    obtain row where "org_state (og_db s4) = Some row" using assms(2) st by auto
    from set_running_end [OF c this, of e] obtain s' where
      "og_status (drop_org_cache (set_running e s4)) = (OrgRunning, s')" "org_coherent s'" "org_status_of s' = OrgRunning"
      "org_state (og_db s') \<noteq> None"
      by (auto simp: org_status_of_def)
    then show ?thesis using w Inr True by (simp add: org_start_eq [OF assms(1) True] org_moved_def)
  qed
next
  case False
  then show ?thesis using assms(1)
    by (simp add: org_start_def og_status_eq validate_transition_eq org_moved_def)
qed

datatype org_op =
    OInit init_ids string string credits
  | OStart "py_error option" ident int "(py_error + string) option"
  | OStop

definition forget :: "(orgst, 'a) outcome \<Rightarrow> (orgst, unit) outcome" where
  "forget out = and_then out (\<lambda>_ s. ok () s)"

fun run_org_op :: "env \<Rightarrow> org_op \<Rightarrow> orgst \<Rightarrow> (orgst, unit) outcome" where
  "run_org_op e (OInit ids nm role budget) s = forget (org_init e ids nm role budget s)"
| "run_org_op e (OStart prep fresh sid briefing) s = forget (org_start e prep fresh sid briefing s)"
| "run_org_op e OStop s = org_stop e s"

fun org_target :: "org_op \<Rightarrow> org_status" where
  "org_target (OInit _ _ _ _) = OrgInitialized"
| "org_target (OStart _ _ _ _) = OrgRunning"
| "org_target OStop = OrgStopped"

lemma forget_moved: "org_moved t s out \<Longrightarrow> org_moved t s (forget out)"
  by (cases out; cases "fst out") (auto simp: forget_def org_moved_def)

lemma run_org_op_moved:
  assumes "org_coherent s" and "org_state (og_db s) \<noteq> None"
  shows "org_moved (org_target op) s (run_org_op e op s)"
  using assms by (cases op) (simp_all add: forget_moved org_init_moved org_start_moved org_stop_moved)

inductive org_reach :: "orgst \<Rightarrow> orgst \<Rightarrow> bool" for s where
  here: "org_reach s s"
| further: "org_reach s t \<Longrightarrow> run_org_op e op t = (r, u) \<Longrightarrow> org_reach s u"

text \<open>
  C10: However initialising, starting and stopping calls follow each other, successful or not, the object stays in step
  with the stored row, the stored status is one the organisation table reaches from the first,
  and each next call either fails and leaves the row as it was, or is a step of the table and
  stores its target.
\<close>

theorem org_runs_follow_table:
  assumes "org_coherent s" and "org_state (og_db s) \<noteq> None" and "org_reach s t"
  shows "org_coherent t \<and> org_state (og_db t) \<noteq> None
    \<and> orgm.reaches (org_status_of s) (org_status_of t)
    \<and> (\<forall>e op. case run_org_op e op t of
          (Inl x, u) \<Rightarrow> org_state (og_db u) = org_state (og_db t)
        | (Inr _, u) \<Rightarrow> org_target op \<in> set (ORG_TRANSITIONS (org_status_of t)) \<and> org_status_of u = org_target op)"
proof -
  have inv: "org_coherent t \<and> org_state (og_db t) \<noteq> None \<and> orgm.reaches (org_status_of s) (org_status_of t)"
    using assms(3)
  proof (induction rule: org_reach.induct)
    case here
    then show ?case using assms by (simp add: orgm.reaches.refl)
  next
    case (further t e op r u)
    then have "org_moved (org_target op) t (r, u)" using run_org_op_moved [of t op e] by simp
    then show ?case using further
      by (cases r) (auto simp: org_moved_def org_status_of_def intro: orgm.reaches.step)
  qed
  then have "org_moved (org_target op) t (run_org_op e op t)" for e op by (intro run_org_op_moved) auto
  then have "case run_org_op e op t of
          (Inl x, u) \<Rightarrow> org_state (og_db u) = org_state (og_db t)
        | (Inr _, u) \<Rightarrow> org_target op \<in> set (ORG_TRANSITIONS (org_status_of t)) \<and> org_status_of u = org_target op" for e op
    by (fastforce simp: org_moved_def split: prod.splits sum.splits)
  then show ?thesis using inv by auto
qed

section \<open>Starting\<close>

lemma validate_cached:
  assumes "wo_data (sm_worker (st_sm w)) = Some wk"
  shows "validate_lifecycle_transition t w =
    (if t \<in> set (LIFECYCLE_TRANSITIONS (wk_status wk)) then ok wk w
     else raise (InvalidStateTransition (lifecycle_name (wk_status wk)) (lifecycle_name t)
            (map lifecycle_name (LIFECYCLE_TRANSITIONS (wk_status wk)))) w)"
  using assms by (simp add: validate_lifecycle_transition_def read_worker_def worker_data_def set_obj_def)

lemma read_cached: "wo_data (sm_worker (st_sm w)) = Some wk \<Longrightarrow> read_worker w = ok wk w"
  by (simp add: read_worker_def worker_data_def set_obj_def)

lemma log_dropped:
  assumes "get_worker (st_db w) (st_id w) = Some wk"
  shows "log_lifecycle (drop_cache w) =
    ok () (set_obj \<lparr>wo_id = st_id w, wo_data = Some wk\<rparr> w)"
  using assms by (simp add: log_lifecycle_def read_worker_def worker_data_def load_worker_def drop_cache_def set_obj_def)

text \<open>What \<open>onboard_ceo\<close> does on a freshly loaded worker.\<close>

lemma onboard_ceo_cases:
  assumes "get_worker (st_db w) (st_id w) = Some wk" and "wo_data (sm_worker (st_sm w)) = Some wk"
  shows "wk_status wk = Pending \<Longrightarrow> prep = Some x \<Longrightarrow> \<exists>w'. onboard_ceo e prep w = (Inl x, w') \<and> st_db w' = st_db w"
    and "wk_status wk = Pending \<Longrightarrow> prep = None \<Longrightarrow>
      \<exists>w'. onboard_ceo e prep w = ok () w' \<and> status_of (st_db w') (st_id w) = Some Active"
    and "wk_status wk = Active \<Longrightarrow> \<exists>w'. onboard_ceo e prep w =
      (Inl (InvalidStateTransition ''active'' ''onboarding'' [''offboarding'', ''suspended'', ''terminated'']), w')"
proof -
  note rd = read_cached [OF assms(2)] and vl = validate_cached [OF assms(2)]
  show "\<exists>w'. onboard_ceo e prep w = (Inl x, w') \<and> st_db w' = st_db w" if "wk_status wk = Pending" "prep = Some x"
    using that assms(2) by (simp add: onboard_ceo_def rd start_onboarding_def vl read_cached)
  show "\<exists>w'. onboard_ceo e prep w =
      (Inl (InvalidStateTransition ''active'' ''onboarding'' [''offboarding'', ''suspended'', ''terminated'']), w')"
    if "wk_status wk = Active"
    using that by (simp add: onboard_ceo_def rd start_onboarding_def vl)
  show "\<exists>w'. onboard_ceo e prep w = ok () w' \<and> status_of (st_db w') (st_id w) = Some Active"
    if p: "wk_status wk = Pending" "prep = None"
  proof -
    let ?i = "st_id w"
    let ?w1 = "w\<lparr>st_store := ensure_worker_storage (st_store w)\<rparr>"
    let ?d1 = "snd (update_worker_status e ?i Onboarding (st_db w))"
    from get_worker_after_status(1) [OF assms(1), of e Onboarding] obtain k1 where
      k1: "get_worker ?d1 ?i = Some k1" "wk_status k1 = Onboarding" by auto
    let ?w2 = "set_obj \<lparr>wo_id = ?i, wo_data = Some k1\<rparr> (?w1\<lparr>st_db := ?d1\<rparr>)"
    have start: "start_onboarding e prep w = ok () ?w2"
      using p k1(1) by (simp add: start_onboarding_def vl set_status_eq log_dropped)
    let ?d2 = "snd (update_worker_status e ?i Active ?d1)"
    from get_worker_after_status(1) [OF k1(1), of e Active] obtain k2 where
      k2: "get_worker ?d2 ?i = Some k2" "wk_status k2 = Active" by auto
    have "complete_onboarding e ?w2 = ok () (set_obj \<lparr>wo_id = ?i, wo_data = Some k2\<rparr> (?w2\<lparr>st_db := ?d2\<rparr>))"
      using k1(2) k2(1) by (simp add: complete_onboarding_def validate_cached [where wk = k1] set_status_eq log_dropped)
    then show ?thesis using k2 by (simp add: onboard_ceo_def rd start status_of_def)
  qed
qed

lemma start_ceo_cases:
  assumes "get_worker (og_db s) c = Some wk"
  shows "wk_status wk = Pending \<Longrightarrow> prep = Some x \<Longrightarrow> \<exists>s'. start_ceo e prep c s = (Inl x, s') \<and> og_db s' = og_db s"
    and "wk_status wk = Pending \<Longrightarrow> prep = None \<Longrightarrow>
      \<exists>s'. start_ceo e prep c s = ok () s' \<and> status_of (og_db s') c = Some Active"
    and "wk_status wk = Active \<Longrightarrow> \<exists>s'. start_ceo e prep c s =
      (Inl (InvalidStateTransition ''active'' ''onboarding'' [''offboarding'', ''suspended'', ''terminated'']), s')"
proof -
  define w where "w = \<lparr>st_db = og_db s, st_sm = fresh_manager \<lparr>wo_id = c, wo_data = Some wk\<rparr>, st_store = og_store s\<rparr>"
  have sc: "start_ceo e prep c s = (case onboard_ceo e prep w of (r, v) \<Rightarrow> (r, s\<lparr>og_db := st_db v, og_store := st_store v\<rparr>))" for prep
    using assms by (simp add: start_ceo_def on_db_def worker_get_ok w_def)
  have w: "get_worker (st_db w) (st_id w) = Some wk" "wo_data (sm_worker (st_sm w)) = Some wk" "st_db w = og_db s" "st_id w = c"
    using assms by (simp_all add: w_def fresh_manager_def)
  show "\<exists>s'. start_ceo e prep c s = (Inl x, s') \<and> og_db s' = og_db s" if "wk_status wk = Pending" "prep = Some x"
    using onboard_ceo_cases(1) [OF w(1,2) that, of e] w(3) by (auto simp: sc)
  show "\<exists>s'. start_ceo e prep c s = ok () s' \<and> status_of (og_db s') c = Some Active"
    if "wk_status wk = Pending" "prep = None"
    using onboard_ceo_cases(2) [OF w(1,2) that, of e] w(4) by (auto simp: sc)
  show "\<exists>s'. start_ceo e prep c s =
      (Inl (InvalidStateTransition ''active'' ''onboarding'' [''offboarding'', ''suspended'', ''terminated'']), s')"
    if "wk_status wk = Active"
    using onboard_ceo_cases(3) [OF w(1,2) that, of e prep] by (auto simp: sc)
qed

text \<open>
  Starting an initialised organisation whose first worker is pending: if the onboarding files
  fail, the worker is still pending and the organisation initialised; with no briefing file it
  succeeds, the organisation is running and the worker active. If the briefing file cannot be read,
  the error comes after the onboarding and outside its rollback: the organisation is still
  initialised but the worker active, and then every further start fails, because an active worker
  cannot be onboarded again.
\<close>

theorem org_start_outcomes:
  assumes "org_coherent s" and "org_status_of s = OrgInitialized" and "org_ceo_of s = Some c"
    and "get_worker (og_db s) c = Some w" and "wk_status w = Pending"
  shows "(\<exists>s'. org_start e (Some x) fresh sid briefing s = (Inl x, s')
       \<and> org_status_of s' = OrgInitialized \<and> get_worker (og_db s') c = Some w)
    \<and> (\<exists>s'. org_start e None fresh sid None s = ok (OrgInitialized, OrgRunning) s'
       \<and> org_status_of s' = OrgRunning \<and> status_of (og_db s') c = Some Active)
    \<and> (\<exists>s'. org_start e None fresh sid (Some (Inl x)) s = (Inl x, s')
       \<and> org_status_of s' = OrgInitialized \<and> status_of (og_db s') c = Some Active
       \<and> (\<forall>e prep fresh sid briefing. fst (org_start e prep fresh sid briefing s') =
            Inl (InvalidStateTransition ''active'' ''onboarding'' [''offboarding'', ''suspended'', ''terminated''])))"
proof -
  let ?s = "load_org_state s"
  have eq: "org_start e prep fresh sid briefing s = and_then (and_then (start_ceo e prep c ?s)
      (\<lambda>_ s3. give_briefing e fresh sid (Some c) briefing s3)) (\<lambda>_ s4.
      case og_status (drop_org_cache (set_running e s4)) of (new, s5) \<Rightarrow> ok (OrgInitialized, new) s5)" for e prep fresh sid briefing
    using assms by (simp add: org_start_eq start_work_def)
  have g: "get_worker (og_db ?s) c = Some w" using assms(4) by simp
  from start_ceo_cases(1) [OF g assms(5), of "Some x" x e] obtain s1 where
    1: "start_ceo e (Some x) c ?s = (Inl x, s1)" "og_db s1 = og_db s" by auto
  from start_ceo_cases(2) [OF g assms(5), of None e] obtain s2 where
    2: "start_ceo e None c ?s = ok () s2" "status_of (og_db s2) c = Some Active" by auto
  have q: "org_quiet ?s (ok () s2)" using start_ceo_quiet [of ?s e None c] 2(1) by simp
  then have c2: "org_coherent s2" "org_state (og_db s2) = org_state (og_db s)"
    using org_quiet_coherent [OF q] assms(1) by (simp_all add: org_quiet_def)
  then have st2: "org_status_of s2 = OrgInitialized" "org_ceo_of s2 = Some c"
    using assms(2,3) by (simp_all add: org_status_of_def org_ceo_of_def)
  have "\<exists>s'. org_start e (Some x) fresh sid briefing s = (Inl x, s')
       \<and> org_status_of s' = OrgInitialized \<and> get_worker (og_db s') c = Some w"
    using 1 assms(2,4) by (simp add: eq org_status_of_def)
  moreover have "\<exists>s'. org_start e None fresh sid None s = ok (OrgInitialized, OrgRunning) s'
       \<and> org_status_of s' = OrgRunning \<and> status_of (og_db s') c = Some Active"
  proof -
    obtain r where "org_state (og_db s2) = Some r" using st2(2) by (auto simp: org_ceo_of_def split: option.splits)
    from set_running_end [OF c2(1) this, of e] 2 show ?thesis
      by (auto simp: eq give_briefing_def org_status_of_def status_of_def get_worker_def)
  qed
  moreover have "org_start e None fresh sid (Some (Inl x)) s = (Inl x, s2)"
    using 2(1) by (simp add: eq give_briefing_def)
  moreover have "fst (org_start e' prep' fresh' sid' briefing' s2) =
      Inl (InvalidStateTransition ''active'' ''onboarding'' [''offboarding'', ''suspended'', ''terminated''])"
    for e' prep' fresh' sid' briefing'
  proof -
    obtain w2 where "get_worker (og_db (load_org_state s2)) c = Some w2" "wk_status w2 = Active"
      using 2(2) by (auto simp: status_of_def)
    from start_ceo_cases(3) [OF this, of e' prep'] show ?thesis
      using c2(1) st2 by (auto simp: org_start_eq start_work_def)
  qed
  ultimately show ?thesis using 2(2) st2(1) by blast
qed

section \<open>Initialising\<close>

text \<open>A database as \<open>init_database\<close> creates it, and what \<open>init_tables\<close> puts into it.\<close>

definition new_org :: "env \<Rightarrow> orgst" where
  "new_org e = \<lparr>og_db = init_database e empty_db,
     og_obj = \<lparr>og_state_data = None, og_escalation_monitor = False, og_activity_reporter = False, og_session_capture = False\<rparr>,
     og_store = \<lparr>sd_plain = False, sd_frozen = False\<rparr>\<rparr>"

definition ceo_row :: "env \<Rightarrow> init_ids \<Rightarrow> string \<Rightarrow> string \<Rightarrow> credits \<Rightarrow> worker_row" where
  "ceo_row e ids nm role budget =
     \<lparr>w_id = ii_worker ids, w_name = nm, w_role = role, w_team_id = ii_team ids, w_manager_id = None,
      w_status = Pending, w_skills = [], w_cost = 100, w_hiring_authority_scope = Some ceo_scope,
      w_delegated_budget = py_int (budget * 1000), w_max_reports = 10, w_delegation_version = 0,
      w_delegated_by = None, w_delegation_expires_at = None, w_offboarding_ask_bead_id = None,
      w_preferred_provider = None, w_tools = None, w_created_at = now e, w_updated_at = now e\<rparr>"

text \<open>The rows in the order they are written; \<open>staffed\<close> is how far a refused budget gets.\<close>

definition staffed :: "env \<Rightarrow> init_ids \<Rightarrow> string \<Rightarrow> string \<Rightarrow> credits \<Rightarrow> db \<Rightarrow> db" where
  "staffed e ids nm role budget d =
     d\<lparr>teams := teams d @ [\<lparr>t_id = ii_team ids, t_name = ''Executive'', t_parent_team_id = None, t_lead_id = None,
           t_channel_id = Some (ii_team_channel ids), t_created_at = now e, t_template_type = None, t_ttl_hours = None,
           t_ttl_started_at = None, t_status = ''active''\<rparr>],
       channels := channels d @ [\<lparr>c_id = ii_team_channel ids, c_name = team_channel_name ''Executive'', c_type = TeamChannel,
           c_team_id = Some (ii_team ids), c_created_at = now e\<rparr>],
       workers := workers d @ [ceo_row e ids nm role budget],
       team_members := team_members d @
         [\<lparr>tm_team_id = ii_team ids, tm_worker_id = ii_worker ids, tm_role = ''lead'', tm_joined_at = now e\<rparr>]\<rparr>"

definition funded :: "env \<Rightarrow> init_ids \<Rightarrow> credits \<Rightarrow> db \<Rightarrow> db" where
  "funded e ids budget d =
     (let en = now e + 30 * (24 * hour) in
      d\<lparr>pools := pools d @ [\<lparr>p_id = ii_pool ids, p_name = ''org-main'', p_total_credits = budget, p_period_start = now e,
           p_period_end = en, p_created_at = now e, p_updated_at = now e\<rparr>],
       allocations := allocations d @ [\<lparr>al_id = ii_allocation ids, al_worker_id = ii_worker ids, al_source_worker_id = None,
           al_pool_id = Some (ii_pool ids), al_allocated_credits = budget, al_spent_credits = 0, al_reserved_credits = 0,
           al_period_start = now e, al_period_end = en, al_can_delegate = True,
           al_delegation_limit = Some (budget / 2), al_created_at = now e, al_updated_at = now e\<rparr>],
       balances := balances d @ [\<lparr>b_allocation_id = ii_allocation ids, b_worker_id = ii_worker ids, b_allocated = budget,
           b_spent = 0, b_reserved = 0, b_available = budget, b_delegated = 0, b_period_start = now e,
           b_period_end = en, b_updated_at = now e\<rparr>]\<rparr>)"

definition connected :: "env \<Rightarrow> init_ids \<Rightarrow> db \<Rightarrow> db" where
  "connected e ids d =
     d\<lparr>channels := channels d @ [\<lparr>c_id = ii_general ids, c_name = ''general'', c_type = TopicChannel, c_team_id = None, c_created_at = now e\<rparr>,
           \<lparr>c_id = ii_board ids, c_name = ''board-channel'', c_type = TopicChannel, c_team_id = None, c_created_at = now e\<rparr>],
       subscriptions := subscriptions d @ map (\<lambda>c. \<lparr>cs_channel_id = c, cs_worker_id = ii_worker ids, cs_subscribed_at = now e\<rparr>)
         [ii_team_channel ids, ii_general ids, ii_board ids]\<rparr>"

lemmas staff_defs = create_team_def insert_team_row_def create_channel_def channel_type_of_def create_worker_def
  insert_worker_row_def ceo_args_def add_team_member_def MEMBER_ROLES_def team_exists_def worker_exists_def
  channel_exists_def get_team_member_def row_to_worker_def staffed_def ceo_row_def Let_def

lemmas fund_defs = create_budget_pool_def create_budget_allocation_def insert_allocation_row_def ceo_allocation_def
  create_budget_balance_def pool_exists_def funded_def

lemmas connect_defs = get_team_channel_def open_board_channel_def subscribe_to_channel_def insert_subscription_def
  can_subscribe_to_channel_def get_channel_def get_worker_def is_subscribed_to_channel_def connected_def

definition fresh_ids :: "init_ids \<Rightarrow> bool" where
  "fresh_ids ids = (distinct [ii_team_channel ids, ii_general ids, ii_board ids] \<and> ii_team ids \<noteq> [])"

lemma init_tables_new:
  assumes "fresh_ids ids" and "0 < budget"
  shows "init_tables e ids nm role budget (init_database e empty_db) =
    ok (ii_worker ids) (connected e ids (funded e ids budget (staffed e ids nm role budget (init_database e empty_db))))"
  using assms by (auto simp: init_tables_def init_database_def empty_db_def staff_defs fund_defs connect_defs fresh_ids_def)

lemma init_tables_refused:
  assumes "budget \<le> 0"
  shows "init_tables e ids nm role budget (init_database e empty_db) =
    (Inl (ValueError ''Total credits must be positive''), staffed e ids nm role budget (init_database e empty_db))"
  using assms by (simp add: init_tables_def init_database_def empty_db_def staff_defs fund_defs)

lemma new_org_simps [simp]:
  "og_db (new_org e) = init_database e empty_db" "org_coherent (new_org e)" "org_status_of (new_org e) = OrgUninitialized"
  by (simp_all add: new_org_def org_coherent_def org_status_of_def init_database_def empty_db_def)

lemma org_init_result:
  assumes "org_coherent s" and "org_status_of s = OrgUninitialized" and "org_state (og_db s) = Some r"
    and "init_tables e ids nm role budget (og_db s) = (Inr c, d)" and "get_worker d c = Some w"
  shows "\<exists>s'. org_init e ids nm role budget s = ok \<lparr>wo_id = c, wo_data = Some w\<rparr> s'
    \<and> og_db s' = update_org_status e OrgInitialized (Some c) d \<and> org_coherent s'"
  using assms by (simp add: org_init_def validate_transition_eq on_db_def worker_get_ok)
    (simp add: drop_org_cache_def org_coherent_def)

lemma org_init_error:
  assumes "org_coherent s" and "org_status_of s = OrgUninitialized"
    and "init_tables e ids nm role budget (og_db s) = (Inl x, d)"
  shows "org_init e ids nm role budget s = (Inl x, (load_org_state s)\<lparr>og_db := d\<rparr>)"
  using assms by (simp add: org_init_def validate_transition_eq on_db_def)

lemma executive_channel: "team_channel_name ''Executive'' = ''executive''"
  by (simp add: team_channel_name_def ascii_lower_def ascii_lower_char_def Let_def) code_simp

definition seeded :: "env \<Rightarrow> init_ids \<Rightarrow> string \<Rightarrow> string \<Rightarrow> credits \<Rightarrow> db" where
  "seeded e ids nm role budget = update_org_status e OrgInitialized (Some (ii_worker ids))
     (connected e ids (funded e ids budget (staffed e ids nm role budget (init_database e empty_db))))"

lemmas seeded_defs = seeded_def update_org_status_def connected_def funded_def staffed_def init_database_def
  empty_db_def set_org_status_def Let_def

lemma seeded_wf: "db_wf (seeded e ids nm role budget)"
  by (simp add: db_wf_def seeded_defs worker_ok_def team_exists_def ceo_row_def)

lemma seeded_budget: "budget_wf (\<lambda>_. budget) (seeded e ids nm role budget)"
  by (simp add: budget_wf_def seeded_defs same_frame_def balance_ok_def ledger_sum_def txns_of_def)

lemma seeded_money:
  "get_pool_allocated_total (seeded e ids nm role budget) (ii_pool ids) = budget"
  "map_option b_available (get_worker_balance e (seeded e ids nm role budget) (ii_worker ids)) = Some budget"
  by (simp_all add: get_pool_allocated_total_def get_worker_balance_def seeded_defs fetchall_def list_head_def
      order_by_desc_def hour_def minute_def)

lemma seeded_people:
  "map_option wk_id (get_root_worker (seeded e ids nm role budget)) = Some (ii_worker ids)"
  "map_option wk_status (get_worker (seeded e ids nm role budget) (ii_worker ids)) = Some Pending"
  "map_option tm_role (get_team_member (seeded e ids nm role budget) (ii_team ids) (ii_worker ids)) = Some ''lead''"
  by (simp_all add: get_root_worker_def get_worker_def get_team_member_def seeded_defs ceo_row_def row_to_worker_def)

lemma seeded_channels:
  assumes "fresh_ids ids"
  shows "map c_name (get_worker_channels (seeded e ids nm role budget) (ii_worker ids)) = [''executive'', ''general'', ''board-channel'']"
  using assms by (auto simp: get_worker_channels_def seeded_defs fetchall_def executive_channel fresh_ids_def)

lemma org_init_new:
  assumes "fresh_ids ids" and "0 < budget"
  shows "\<exists>ob s'. org_init e ids nm role budget (new_org e) = ok ob s' \<and> wo_id ob = ii_worker ids
    \<and> og_db s' = seeded e ids nm role budget \<and> org_coherent s'"
proof -
  let ?d = "connected e ids (funded e ids budget (staffed e ids nm role budget (init_database e empty_db)))"
  obtain w where w: "get_worker ?d (ii_worker ids) = Some w"
    using seeded_people(2) [of e ids nm role budget] by (auto simp: seeded_def)
  have row: "org_state (og_db (new_org e)) = Some \<lparr>os_status = OrgUninitialized, os_ceo_worker_id = None, os_started_at = None,
                   os_stopped_at = None, os_updated_at = current_timestamp e\<rparr>"
    by (simp add: init_database_def empty_db_def)
  from org_init_result [OF _ _ row _ w, of e ids nm role budget] init_tables_new [OF assms] show ?thesis
    by (auto simp: seeded_def)
qed

text \<open>
  C9: Initialising a new organisation with a positive budget succeeds and leaves a consistent
  database: the schema and budget invariants hold, the stored status is initialised, and the returned
  worker is the stored ceo, the root of the hierarchy, pending, lead of its team and subscribed to
  the team's, the general and the board channel; its available balance is the budget, and the pool is
  allocated in full.
\<close>

theorem org_init_builds_organisation:
  assumes "fresh_ids ids" and "0 < budget"
  shows "\<exists>ob s'. org_init e ids nm role budget (new_org e) = ok ob s'
    \<and> db_wf (og_db s') \<and> budget_wf (\<lambda>_. budget) (og_db s') \<and> org_coherent s'
    \<and> org_status_of s' = OrgInitialized \<and> org_ceo_of s' = Some (wo_id ob)
    \<and> map_option wk_id (get_root_worker (og_db s')) = Some (wo_id ob)
    \<and> map_option wk_status (get_worker (og_db s') (wo_id ob)) = Some Pending
    \<and> map_option tm_role (get_team_member (og_db s') (ii_team ids) (wo_id ob)) = Some ''lead''
    \<and> map c_name (get_worker_channels (og_db s') (wo_id ob)) = [''executive'', ''general'', ''board-channel'']
    \<and> map_option b_available (get_worker_balance e (og_db s') (wo_id ob)) = Some budget
    \<and> get_pool_allocated_total (og_db s') (ii_pool ids) = budget"
proof -
  from org_init_new [OF assms, of e nm role] obtain ob s' where
    s': "org_init e ids nm role budget (new_org e) = ok ob s'" "wo_id ob = ii_worker ids"
      "og_db s' = seeded e ids nm role budget" "org_coherent s'" by blast
  moreover have "org_status_of s' = OrgInitialized" "org_ceo_of s' = Some (ii_worker ids)"
    by (simp_all add: org_status_of_def org_ceo_of_def s'(3) seeded_defs)
  ultimately show ?thesis
    using seeded_wf seeded_budget seeded_money seeded_people seeded_channels [OF assms(1)] by simp
qed

definition some_ids :: "init_ids" where
  "some_ids = \<lparr>ii_team = ''t'', ii_team_channel = ''tc'', ii_worker = ''w'', ii_pool = ''p'', ii_allocation = ''a'',
     ii_general = ''g'', ii_board = ''b''\<rparr>"

theorem org_init_builds_organisation_witness:
  "\<exists>ob s'. org_init witness_env some_ids ''Ada'' ''CEO'' 1000 (new_org witness_env) = ok ob s'
     \<and> org_status_of s' = OrgInitialized \<and> db_wf (og_db s')"
proof -
  have f: "fresh_ids some_ids" and b: "(0::rat) < 1000" by (simp_all add: fresh_ids_def some_ids_def)
  from org_init_builds_organisation [OF f b, of witness_env "''Ada''" "''CEO''"] show ?thesis by blast
qed

lemma staffed_second:
  assumes "fresh_ids ids" and "0 < budget"
    and "ii_worker ids \<noteq> ii_worker old" "ii_team ids \<noteq> ii_team old"
    and "ii_team_channel old \<notin> {ii_team_channel ids, ii_general ids, ii_board ids}"
  shows "init_tables e ids nm role budget (staffed e0 old nm0 role0 budget0 (init_database e0 empty_db)) =
    ok (ii_worker ids) (connected e ids (funded e ids budget (staffed e ids nm role budget
      (staffed e0 old nm0 role0 budget0 (init_database e0 empty_db)))))"
  using assms by (auto simp: init_tables_def init_database_def empty_db_def staff_defs fund_defs connect_defs fresh_ids_def)

text \<open>
  Initialising with a budget that is not positive is refused, but only after team, channel, worker and
  membership were committed: the status is still uninitialised. A second attempt with a positive
  budget then succeeds and makes a second organisation beside the first: there are two workers without
  a manager, and the root of the hierarchy is the abandoned one and not the stored ceo.
\<close>

theorem refused_init_leaves_ceo:
  assumes "budget \<le> 0" and "fresh_ids ids" and "0 < budget2"
    and "ii_worker ids \<noteq> ii_worker old" and "ii_team ids \<noteq> ii_team old"
    and "ii_team_channel old \<notin> {ii_team_channel ids, ii_general ids, ii_board ids}"
  shows "\<exists>s1 ob s2. org_init e old nm role budget (new_org e) = (Inl (ValueError ''Total credits must be positive''), s1)
    \<and> org_status_of s1 = OrgUninitialized \<and> worker_count (og_db s1) = 1
    \<and> org_init e ids nm role budget2 s1 = ok ob s2
    \<and> org_status_of s2 = OrgInitialized \<and> org_ceo_of s2 = Some (ii_worker ids)
    \<and> worker_count (og_db s2) = 2
    \<and> map_option wk_id (get_root_worker (og_db s2)) = Some (ii_worker old)"
proof -
  let ?d1 = "staffed e old nm role budget (init_database e empty_db)"
  let ?s1 = "(load_org_state (new_org e))\<lparr>og_db := ?d1\<rparr>"
  let ?d2 = "connected e ids (funded e ids budget2 (staffed e ids nm role budget2 ?d1))"
  have 1: "org_init e old nm role budget (new_org e) = (Inl (ValueError ''Total credits must be positive''), ?s1)"
    using org_init_error [OF _ _ init_tables_refused [OF assms(1), folded new_org_simps(1)]] by simp
  have row: "org_state (og_db ?s1) = org_state (init_database e empty_db)" by (simp add: staffed_def)
  have c: "org_coherent ?s1" and st: "org_status_of ?s1 = OrgUninitialized"
    by (simp_all add: org_coherent_def org_status_of_def load_org_state_def get_org_state_def new_org_def
        staffed_def init_database_def empty_db_def)
  obtain r where r: "org_state (og_db ?s1) = Some r" unfolding row by (simp add: init_database_def empty_db_def)
  obtain w where w: "get_worker ?d2 (ii_worker ids) = Some w"
    using assms(4) by (simp add: get_worker_def seeded_defs ceo_row_def)
  from org_init_result [OF c st r _ w, of e ids nm role budget2] staffed_second [OF assms(2-6)] obtain s2 where
    s2: "org_init e ids nm role budget2 ?s1 = ok \<lparr>wo_id = ii_worker ids, wo_data = Some w\<rparr> s2"
      "og_db s2 = update_org_status e OrgInitialized (Some (ii_worker ids)) ?d2"
    by auto
  have "org_status_of s2 = OrgInitialized" "org_ceo_of s2 = Some (ii_worker ids)" "worker_count (og_db s2) = 2"
    "map_option wk_id (get_root_worker (og_db s2)) = Some (ii_worker old)"
    by (simp_all add: org_status_of_def org_ceo_of_def s2(2) seeded_defs worker_count_def get_root_worker_def ceo_row_def
        row_to_worker_def)
  moreover have "worker_count (og_db ?s1) = 1" by (simp add: worker_count_def staffed_def init_database_def empty_db_def)
  ultimately show ?thesis using 1 st s2(1) by blast
qed

theorem refused_init_leaves_ceo_witness:
  "\<exists>s1. org_init witness_env (some_ids\<lparr>ii_worker := ''w0'', ii_team := ''t0'', ii_team_channel := ''c0''\<rparr>) ''Ada'' ''CEO'' 0
      (new_org witness_env) = (Inl (ValueError ''Total credits must be positive''), s1)
    \<and> worker_count (og_db s1) = 1"
proof -
  have f: "fresh_ids some_ids" by (simp add: fresh_ids_def some_ids_def)
  from refused_init_leaves_ceo [of 0 some_ids 1 "some_ids\<lparr>ii_worker := ''w0'', ii_team := ''t0'', ii_team_channel := ''c0''\<rparr>"
      witness_env "''Ada''" "''CEO''", OF _ f]
  show ?thesis by (simp add: some_ids_def) blast
qed

definition seeded_state :: orgst where
  "seeded_state = (new_org witness_env)\<lparr>og_db := seeded witness_env some_ids ''Ada'' ''CEO'' 1000\<rparr>"

lemma seeded_state_facts:
  "org_coherent seeded_state" "org_status_of seeded_state = OrgInitialized" "org_ceo_of seeded_state = Some ''w''"
  "org_state (og_db seeded_state) \<noteq> None"
  by (simp_all add: seeded_state_def new_org_def org_coherent_def org_status_of_def org_ceo_of_def seeded_defs some_ids_def)

theorem org_start_outcomes_witness:
  "\<exists>s'. org_start witness_env None ''m'' 1 None seeded_state = ok (OrgInitialized, OrgRunning) s'
     \<and> status_of (og_db s') ''w'' = Some Active"
proof -
  obtain w where w: "get_worker (og_db seeded_state) ''w'' = Some w" "wk_status w = Pending"
    using seeded_people(2) [of witness_env some_ids "''Ada''" "''CEO''" 1000] by (auto simp: seeded_state_def some_ids_def)
  from org_start_outcomes [OF seeded_state_facts(1-3) w, of witness_env "ValueError ''x''"] show ?thesis by blast
qed

theorem org_runs_follow_table_witness:
  "org_status_of (snd (run_org_op witness_env OStop seeded_state)) = OrgInitialized
   \<and> orgm.reaches OrgInitialized OrgInitialized"
proof -
  have "org_reach seeded_state (snd (run_org_op witness_env OStop seeded_state))"
    by (rule org_reach.further [OF org_reach.here prod.collapse [symmetric]])
  from org_runs_follow_table [OF seeded_state_facts(1,4) this] org_runs_follow_table [OF seeded_state_facts(1,4) org_reach.here]
  show ?thesis by (simp add: seeded_state_facts org_stop_def validate_transition_eq)
qed

end
