(* ===== verification/Bead_Lifecycle.thy ===== *)
theory Bead_Lifecycle
  imports QPrelude
begin

text \<open>
  \<open>cli/core/lifecycle.py\<close> with the built-in tables of \<open>cli/core/constants/beads.py\<close>: which states a
  bead (a work item of the external beads tool) may have, and which changes are allowed. A
  configuration comes from the organisation's database, the file \<open>cli/config/lifecycle.yaml\<close> or the
  built-in tables, in this order. The parsed file and the stored configurations are arguments, as
  association lists from bead types; an empty stored object counts as none.
\<close>

section \<open>Configurations\<close>

text \<open>What a file or a stored object says; a key may be missing.\<close>

record raw_config =
  rc_states :: "string list option"
  rc_terminal_states :: "string list option"
  rc_initial_state :: "string option"
  rc_transitions :: "(string \<times> string list) list option"

record lc_config =
  lc_states :: "string list"
  lc_terminal :: "string list"
  lc_initial :: string
  lc_transitions :: "(string \<times> string list) list"

definition or_else :: "'a option \<Rightarrow> 'a \<Rightarrow> 'a" where
  "or_else x y = (case x of None \<Rightarrow> y | Some z \<Rightarrow> z)"

text \<open>
  The default of the initial state is the first of the states; it is computed also when an initial
  state is given, so an empty list of states raises.
\<close>

definition read_config :: "raw_config \<Rightarrow> py_error + lc_config" where
  "read_config r =
     (if or_else (rc_states r) [''open''] = [] then Inl (IndexError ''list index out of range'')
      else Inr \<lparr>lc_states = or_else (rc_states r) [], lc_terminal = or_else (rc_terminal_states r) [],
                lc_initial = or_else (rc_initial_state r) (hd (or_else (rc_states r) [''open''])),
                lc_transitions = or_else (rc_transitions r) []\<rparr>)"

definition raw_empty :: "raw_config \<Rightarrow> bool" where
  "raw_empty r = (rc_states r = None \<and> rc_terminal_states r = None \<and> rc_initial_state r = None \<and> rc_transitions r = None)"

definition get_lifecycle_config :: "(string \<times> raw_config) list \<Rightarrow> string \<Rightarrow> raw_config option" where
  "get_lifecycle_config stored ty = map_of stored ty"

definition load_from_database :: "(string \<times> raw_config) list \<Rightarrow> string \<Rightarrow> raw_config option" where
  "load_from_database stored ty =
     (case get_lifecycle_config stored ty of None \<Rightarrow> None | Some r \<Rightarrow> if raw_empty r then None else Some r)"

text \<open>\<open>INSERT \<dots> ON CONFLICT DO UPDATE\<close>: the row of the type is replaced, or a new one is added.\<close>

fun save_lifecycle_config :: "string \<Rightarrow> raw_config \<Rightarrow> (string \<times> raw_config) list \<Rightarrow> (string \<times> raw_config) list" where
  "save_lifecycle_config ty r [] = [(ty, r)]"
| "save_lifecycle_config ty r ((t, x) # rest) =
     (if t = ty then (t, r) # rest else (t, x) # save_lifecycle_config ty r rest)"

definition task_config :: lc_config where
  "task_config = \<lparr>lc_states = [''investigation'', ''planning'', ''implementation'', ''review'', ''done''],
     lc_terminal = [''done'', ''rejected'', ''abandoned''], lc_initial = ''investigation'',
     lc_transitions =
       [(''investigation'', [''planning'', ''rejected'', ''abandoned'']),
        (''planning'', [''implementation'', ''investigation'', ''rejected'', ''abandoned'']),
        (''implementation'', [''review'', ''planning'', ''rejected'', ''abandoned'']),
        (''review'', [''done'', ''implementation'', ''rejected'', ''abandoned'']),
        (''done'', []), (''rejected'', []), (''abandoned'', [])]\<rparr>"

definition bug_config :: lc_config where
  "bug_config = \<lparr>lc_states = [''triage'', ''investigation'', ''fixing'', ''review'', ''done''],
     lc_terminal = [''done'', ''wontfix'', ''duplicate''], lc_initial = ''triage'',
     lc_transitions =
       [(''triage'', [''investigation'', ''wontfix'', ''duplicate'']),
        (''investigation'', [''fixing'', ''triage'', ''wontfix'', ''duplicate'']),
        (''fixing'', [''review'', ''investigation'', ''wontfix'']),
        (''review'', [''done'', ''fixing'', ''wontfix'']),
        (''done'', []), (''wontfix'', []), (''duplicate'', [])]\<rparr>"

definition feature_config :: lc_config where
  "feature_config = \<lparr>lc_states = [''discovery'', ''design'', ''implementation'', ''review'', ''done''],
     lc_terminal = [''done'', ''rejected'', ''deferred''], lc_initial = ''discovery'',
     lc_transitions =
       [(''discovery'', [''design'', ''rejected'', ''deferred'']),
        (''design'', [''implementation'', ''discovery'', ''rejected'', ''deferred'']),
        (''implementation'', [''review'', ''design'', ''rejected'', ''deferred'']),
        (''review'', [''done'', ''implementation'', ''rejected'', ''deferred'']),
        (''done'', []), (''rejected'', []), (''deferred'', [])]\<rparr>"

definition default_config :: lc_config where
  "default_config = \<lparr>lc_states = [''open'', ''in_progress'', ''done''],
     lc_terminal = [''done'', ''closed''], lc_initial = ''open'',
     lc_transitions =
       [(''open'', [''in_progress'', ''done'', ''closed'']),
        (''in_progress'', [''done'', ''open'', ''closed'']),
        (''done'', []), (''closed'', [])]\<rparr>"

definition LIFECYCLE_STATES :: "(string \<times> lc_config) list" where
  "LIFECYCLE_STATES =
     [(''task'', task_config), (''bug'', bug_config), (''feature'', feature_config), (''default'', default_config)]"

definition get_lifecycle_for_type ::
  "(string \<times> raw_config) list \<Rightarrow> (string \<times> raw_config) list \<Rightarrow> string \<Rightarrow> py_error + lc_config" where
  "get_lifecycle_for_type stored yaml ty =
     (case load_from_database stored ty of
        Some r \<Rightarrow> read_config r
      | None \<Rightarrow>
          (case map_of yaml ty of
             Some r \<Rightarrow> read_config r
           | None \<Rightarrow>
               (case map_of yaml ''default'' of
                  Some r \<Rightarrow> read_config r
                | None \<Rightarrow>
                    (case load_from_database stored ''default'' of
                       Some r \<Rightarrow> read_config r
                     | None \<Rightarrow> Inr (or_else (map_of LIFECYCLE_STATES ty) default_config)))))"

text \<open>The file \<open>cli/config/lifecycle.yaml\<close>, parsed.\<close>

definition raw_of :: "lc_config \<Rightarrow> raw_config" where
  "raw_of c = \<lparr>rc_states = Some (lc_states c), rc_terminal_states = Some (lc_terminal c),
     rc_initial_state = Some (lc_initial c), rc_transitions = Some (lc_transitions c)\<rparr>"

definition epic_config :: lc_config where
  "epic_config = \<lparr>lc_states = [''draft'', ''planning'', ''active'', ''done''],
     lc_terminal = [''done'', ''cancelled''], lc_initial = ''draft'',
     lc_transitions =
       [(''draft'', [''planning'', ''cancelled'']),
        (''planning'', [''active'', ''draft'', ''cancelled'']),
        (''active'', [''done'', ''planning'', ''cancelled'']),
        (''done'', []), (''cancelled'', [])]\<rparr>"

definition lifecycle_yaml :: "(string \<times> raw_config) list" where
  "lifecycle_yaml =
     [(''task'', raw_of task_config), (''bug'', raw_of bug_config), (''feature'', raw_of feature_config),
      (''epic'', raw_of epic_config), (''default'', raw_of default_config)]"

section \<open>Checks\<close>

definition is_valid_state :: "lc_config \<Rightarrow> string \<Rightarrow> bool" where
  "is_valid_state c s = (s \<in> set (lc_states c) \<union> set (lc_terminal c))"

definition is_terminal :: "lc_config \<Rightarrow> string \<Rightarrow> bool" where
  "is_terminal c s = (s \<in> set (lc_terminal c))"

definition get_allowed_transitions :: "lc_config \<Rightarrow> string \<Rightarrow> string list" where
  "get_allowed_transitions c s = or_else (map_of (lc_transitions c) s) []"

definition can_transition :: "lc_config \<Rightarrow> string \<Rightarrow> string \<Rightarrow> bool" where
  "can_transition c s t = (t \<in> set (get_allowed_transitions c s))"

text \<open>The checks have no effect: the result is an error or nothing.\<close>

definition validate_state_transition ::
  "(string \<times> raw_config) list \<Rightarrow> (string \<times> raw_config) list \<Rightarrow> ident \<Rightarrow> string \<Rightarrow> string \<Rightarrow> string \<Rightarrow> py_error + unit" where
  "validate_state_transition stored yaml b ty cur target =
     (case get_lifecycle_for_type stored yaml ty of
        Inl x \<Rightarrow> Inl x
      | Inr c \<Rightarrow>
          if \<not> is_valid_state c cur then Inl (InvalidBeadState b ty cur)
          else if \<not> is_valid_state c target then Inl (InvalidBeadState b ty target)
          else if \<not> can_transition c cur target
            then Inl (InvalidBeadTransition b cur target (get_allowed_transitions c cur))
          else Inr ())"

definition validate_can_close ::
  "(string \<times> raw_config) list \<Rightarrow> (string \<times> raw_config) list \<Rightarrow> ident \<Rightarrow> string \<Rightarrow> string \<Rightarrow> py_error + unit" where
  "validate_can_close stored yaml b ty cur =
     (case get_lifecycle_for_type stored yaml ty of
        Inl x \<Rightarrow> Inl x
      | Inr c \<Rightarrow>
          if \<not> is_valid_state c cur then Inl (InvalidBeadState b ty cur)
          else if \<not> is_terminal c cur then Inl (CannotCloseBead b ty cur)
          else Inr ())"

definition get_initial_state :: "(string \<times> raw_config) list \<Rightarrow> (string \<times> raw_config) list \<Rightarrow> string \<Rightarrow> py_error + string" where
  "get_initial_state stored yaml ty = map_sum id lc_initial (get_lifecycle_for_type stored yaml ty)"

definition get_valid_states :: "(string \<times> raw_config) list \<Rightarrow> (string \<times> raw_config) list \<Rightarrow> string \<Rightarrow> py_error + string set" where
  "get_valid_states stored yaml ty =
     map_sum id (\<lambda>c. set (lc_states c) \<union> set (lc_terminal c)) (get_lifecycle_for_type stored yaml ty)"

definition get_terminal_states :: "(string \<times> raw_config) list \<Rightarrow> (string \<times> raw_config) list \<Rightarrow> string \<Rightarrow> py_error + string list" where
  "get_terminal_states stored yaml ty = map_sum id lc_terminal (get_lifecycle_for_type stored yaml ty)"

definition get_next_states ::
  "(string \<times> raw_config) list \<Rightarrow> (string \<times> raw_config) list \<Rightarrow> string \<Rightarrow> string \<Rightarrow> py_error + string list" where
  "get_next_states stored yaml ty s =
     map_sum id (\<lambda>c. get_allowed_transitions c s) (get_lifecycle_for_type stored yaml ty)"

definition starts_with :: "string \<Rightarrow> string \<Rightarrow> bool" where
  "starts_with p s = (take (length p) s = p)"

fun parse_status_from_args :: "string list \<Rightarrow> string option" where
  "parse_status_from_args [] = None"
| "parse_status_from_args (arg # rest) =
     (if arg \<in> {''--status'', ''--state'', ''-s''} \<and> rest \<noteq> [] then Some (hd rest)
      else if arg \<in> {''--status'', ''--state'', ''-s''} then parse_status_from_args rest
      else if starts_with ''--status='' arg then Some (drop 9 arg)
      else if starts_with ''--state='' arg then Some (drop 8 arg)
      else parse_status_from_args rest)"

section \<open>Sound configurations\<close>

text \<open>
  The initial state is one of the states and not terminal; changes lead from valid to valid states;
  no change leaves a terminal state, and from every other one a terminal state is one step away.
\<close>

definition config_ok :: "lc_config \<Rightarrow> bool" where
  "config_ok c =
     (lc_initial c \<in> set (lc_states c) \<and> \<not> is_terminal c (lc_initial c) \<and> lc_terminal c \<noteq> []
      \<and> list_all (\<lambda>(s, ts). is_valid_state c s \<and> list_all (is_valid_state c) ts) (lc_transitions c)
      \<and> list_all (\<lambda>s. get_allowed_transitions c s = []) (lc_terminal c)
      \<and> list_all (\<lambda>s. is_terminal c s \<or> list_ex (is_terminal c) (get_allowed_transitions c s)) (lc_states c))"

lemma builtin_ok: "config_ok task_config" "config_ok bug_config" "config_ok feature_config" "config_ok default_config" "config_ok epic_config"
  by code_simp+

lemma read_config_raw_of: "lc_states c \<noteq> [] \<Longrightarrow> read_config (raw_of c) = Inr c"
  by (simp add: read_config_def raw_of_def or_else_def)

lemma config_ok_states: "config_ok c \<Longrightarrow> lc_states c \<noteq> []"
  by (auto simp: config_ok_def)

definition shipped :: "string \<Rightarrow> lc_config" where
  "shipped ty = (if ty = ''task'' then task_config else if ty = ''bug'' then bug_config
     else if ty = ''feature'' then feature_config else if ty = ''epic'' then epic_config else default_config)"

lemma shipped_ok: "config_ok (shipped ty)"
  by (simp add: shipped_def builtin_ok)

lemma shipped_yaml: "get_lifecycle_for_type [] lifecycle_yaml ty = Inr (shipped ty)"
  using builtin_ok [THEN config_ok_states]
  by (simp add: get_lifecycle_for_type_def load_from_database_def get_lifecycle_config_def lifecycle_yaml_def
      shipped_def read_config_raw_of)

lemma shipped_builtin: "get_lifecycle_for_type [] [] ty = Inr (if ty = ''epic'' then default_config else shipped ty)"
  by (simp add: get_lifecycle_for_type_def load_from_database_def get_lifecycle_config_def LIFECYCLE_STATES_def
      shipped_def or_else_def)

lemma config_ok_step:
  assumes "config_ok c" and "can_transition c s t"
  shows "is_valid_state c s" and "is_valid_state c t" and "\<not> is_terminal c s"
proof -
  obtain ts where "map_of (lc_transitions c) s = Some ts" "t \<in> set ts"
    using assms(2) by (cases "map_of (lc_transitions c) s") (auto simp: can_transition_def get_allowed_transitions_def or_else_def)
  then show "is_valid_state c s" "is_valid_state c t"
    using assms(1) by (auto simp: config_ok_def list_all_iff dest!: map_of_SomeD)
  show "\<not> is_terminal c s"
    using assms by (auto simp: config_ok_def list_all_iff is_terminal_def can_transition_def)
qed

text \<open>A bead's states under allowed changes.\<close>

inductive bead_path :: "lc_config \<Rightarrow> string \<Rightarrow> string \<Rightarrow> bool" for c where
  stay: "bead_path c s s"
| change: "bead_path c s t \<Longrightarrow> can_transition c t u \<Longrightarrow> bead_path c s u"

lemma bead_path_valid: "bead_path c s t \<Longrightarrow> config_ok c \<Longrightarrow> is_valid_state c s \<Longrightarrow> is_valid_state c t"
  by (induction rule: bead_path.induct) (auto dest: config_ok_step)

text \<open>
  C14: With the shipped lifecycle file, and without it, every bead type has a sound
  configuration, the same one from both sources except for epics, which only the file knows. A bead
  that starts in its initial state and changes only as \<open>validate_state_transition\<close> allows is always in a
  valid state; it may be closed exactly in terminal states, which no allowed change leaves, and one
  allowed change away from closing in all others.
\<close>

theorem bead_lifecycle_sound:
  assumes "yaml = lifecycle_yaml \<or> yaml = []"
  shows "\<exists>c. get_lifecycle_for_type [] yaml ty = Inr c \<and> (ty \<noteq> ''epic'' \<longrightarrow> c = shipped ty)
    \<and> (\<forall>s. bead_path c (lc_initial c) s \<longrightarrow>
         is_valid_state c s
         \<and> (validate_can_close [] yaml b ty s = Inr () \<longleftrightarrow> is_terminal c s)
         \<and> (if is_terminal c s then \<forall>t. validate_state_transition [] yaml b ty s t \<noteq> Inr ()
            else \<exists>t. validate_state_transition [] yaml b ty s t = Inr () \<and> validate_can_close [] yaml b ty t = Inr ()))"
proof -
  obtain c where c: "get_lifecycle_for_type [] yaml ty = Inr c" "config_ok c" "ty \<noteq> ''epic'' \<longrightarrow> c = shipped ty"
    using assms shipped_yaml shipped_builtin shipped_ok builtin_ok(4) by (metis (full_types))
  have valid: "is_valid_state c s" if "bead_path c (lc_initial c) s" for s
    using bead_path_valid [OF that c(2)] c(2) by (simp add: config_ok_def is_valid_state_def)
  have tr: "validate_state_transition [] yaml b ty s t = Inr () \<longleftrightarrow> can_transition c s t" for s t
    using config_ok_step [OF c(2)] by (auto simp: validate_state_transition_def c(1))
  have cl: "validate_can_close [] yaml b ty s = Inr () \<longleftrightarrow> is_terminal c s" for s
    by (auto simp: validate_can_close_def c(1) is_valid_state_def is_terminal_def)
  have "\<exists>t. can_transition c s t \<and> is_terminal c t" if "is_valid_state c s" "\<not> is_terminal c s" for s
    using that c(2) by (auto simp: config_ok_def is_valid_state_def is_terminal_def can_transition_def list_all_iff list_ex_iff)
  then show ?thesis using c valid config_ok_step(3) [OF c(2)] by (auto simp: tr cl)
qed

theorem bead_lifecycle_sound_witness:
  "\<exists>t. validate_state_transition [] lifecycle_yaml ''qn-1'' ''task'' ''investigation'' t = Inr ()
     \<and> validate_can_close [] lifecycle_yaml ''qn-1'' ''task'' t = Inr ()"
proof -
  have "shipped ''task'' = task_config" by (simp add: shipped_def)
  moreover have "bead_path task_config ''investigation'' ''investigation''" by (rule stay)
  moreover have "\<not> is_terminal task_config ''investigation''" "lc_initial task_config = ''investigation''"
    by (simp_all add: is_terminal_def task_config_def)
  ultimately show ?thesis
    using bead_lifecycle_sound [of lifecycle_yaml "''task''" "''qn-1''"] by force
qed

text \<open>A saved configuration is the one that is read back, and no other type's changes.\<close>

lemma save_get [simp]:
  "get_lifecycle_config (save_lifecycle_config ty r stored) t = (if t = ty then Some r else get_lifecycle_config stored t)"
  by (induction ty r stored rule: save_lifecycle_config.induct) (auto simp: get_lifecycle_config_def)

end
