(* ===== verification/Budget.thy ===== *)
theory Budget
  imports Budget_Queries
begin

text \<open>
  \<open>cli/core/budget/service.py\<close> (\<open>BudgetService\<close>), \<open>cli/core/budget/enforcer.py\<close> and
  \<open>cli/core/worker/budget_manager.py\<close>. Every helper the service calls commits on its own, so what
  was written before an exception stays. Identifiers drawn from \<open>uuid\<close> are arguments; the argument
  \<open>other\<close> is what other processes do to the database between the first check of an operation and
  its transaction.
\<close>

section \<open>Cost estimates\<close>

type_synonym rates = "credits \<times> credits"

definition DEFAULT_COST_PER_1K_TOKENS :: "(string \<times> rates) list" where
  "DEFAULT_COST_PER_1K_TOKENS =
     [(''budget'', (25 / 100000, 125 / 100000)), (''standard'', (3 / 1000, 15 / 1000)),
      (''advanced'', (3 / 1000, 15 / 1000)), (''premium'', (15 / 1000, 75 / 1000))]"

definition default_rates :: "string \<Rightarrow> rates" where
  "default_rates tier =
     (case map_of DEFAULT_COST_PER_1K_TOKENS tier of Some r \<Rightarrow> r | None \<Rightarrow> (3 / 1000, 15 / 1000))"

text \<open>\<open>BudgetConfig\<close> is its \<open>tier_costs\<close> dictionary.\<close>

definition get_tier_costs :: "(string \<times> rates) list \<Rightarrow> string \<Rightarrow> rates" where
  "get_tier_costs cfg tier =
     (case map_of cfg (ascii_lower tier) of Some r \<Rightarrow> r | None \<Rightarrow> default_rates (ascii_lower tier))"

definition estimate_cost :: "(string \<times> rates) list option \<Rightarrow> string \<Rightarrow> int \<Rightarrow> int \<Rightarrow> credits" where
  "estimate_cost cfg model_tier input_tokens output_tokens =
     (let tier = ascii_lower model_tier;
          r = (case cfg of Some c \<Rightarrow> get_tier_costs c tier | None \<Rightarrow> default_rates tier)
      in (of_int input_tokens / 1000) * fst r + (of_int output_tokens / 1000) * snd r)"

definition COST_TIER_BUDGET_MAX :: int where "COST_TIER_BUDGET_MAX = 30"
definition COST_TIER_STANDARD_MAX :: int where "COST_TIER_STANDARD_MAX = 60"
definition COST_TIER_ADVANCED_MAX :: int where "COST_TIER_ADVANCED_MAX = 80"

definition get_cost_tier :: "int \<Rightarrow> string" where
  "get_cost_tier cost_score =
     (if cost_score \<le> COST_TIER_BUDGET_MAX then ''budget''
      else if cost_score \<le> COST_TIER_STANDARD_MAX then ''standard''
      else if cost_score \<le> COST_TIER_ADVANCED_MAX then ''advanced'' else ''premium'')"

definition estimate_spawn_cost :: "int \<Rightarrow> credits" where
  "estimate_spawn_cost cost_score = estimate_cost None (get_cost_tier cost_score) 2000 500"

section \<open>The enforcer\<close>

record budget_check =
  bc_allowed :: bool
  bc_worker_id :: ident
  bc_allocation_id :: ident
  bc_available :: credits
  bc_required :: credits
  bc_remaining_after :: credits

text \<open>What a worker can spend, and the allocation that answers for it.\<close>

definition spendable :: "env \<Rightarrow> db \<Rightarrow> ident \<Rightarrow> (credits \<times> ident) option" where
  "spendable e d w =
     (case get_worker_balance e d w of
        Some b \<Rightarrow> Some (b_available b, b_allocation_id b)
      | None \<Rightarrow> (case get_current_allocation e d w of
            None \<Rightarrow> None
          | Some a \<Rightarrow> Some (al_allocated_credits a - al_spent_credits a - al_reserved_credits a, al_id a)))"

definition check_budget :: "env \<Rightarrow> ident \<Rightarrow> credits \<Rightarrow> db \<Rightarrow> (db, budget_check) outcome" where
  "check_budget e w required d =
     (case spendable e d w of
        None \<Rightarrow> raise (NoBudgetAllocationError w) d
      | Some (available, al) \<Rightarrow>
          let allowed = (required \<le> available)
          in ok \<lparr>bc_allowed = allowed, bc_worker_id = w, bc_allocation_id = al, bc_available = available,
                 bc_required = required, bc_remaining_after = (if allowed then available - required else 0)\<rparr> d)"

definition enforce_budget :: "env \<Rightarrow> ident \<Rightarrow> credits \<Rightarrow> db \<Rightarrow> (db, budget_check) outcome" where
  "enforce_budget e w required d =
     and_then (check_budget e w required d)
       (\<lambda>r d1. if bc_allowed r then ok r d1
               else raise (BudgetExhaustedError w required (bc_available r)) d1)"

definition record_spend ::
  "env \<Rightarrow> ident \<Rightarrow> ident \<Rightarrow> ident \<Rightarrow> credits \<Rightarrow> txn_info \<Rightarrow> db \<Rightarrow> (db, txn_row) outcome" where
  "record_spend e tx w al amount info d =
     (if amount \<le> 0 then raise (ValueError ''Spend amount must be positive'') d
      else case spendable e d w of
             None \<Rightarrow> raise (NoBudgetAllocationError w) d
           | Some (available, _) \<Rightarrow>
               if available < \<bar>amount\<bar> then raise (BudgetExhaustedError w \<bar>amount\<bar> available) d
               else create_budget_transaction e tx al w TxSpend (- \<bar>amount\<bar>) info d)"

text \<open>An allocation has no attribute \<open>amount\<close>.\<close>

definition get_remaining_budget :: "env \<Rightarrow> ident \<Rightarrow> db \<Rightarrow> (db, credits) outcome" where
  "get_remaining_budget e w d =
     (case get_worker_balance e d w of
        Some b \<Rightarrow> ok (b_available b) d
      | None \<Rightarrow> (case get_current_allocation e d w of
            None \<Rightarrow> ok 0 d
          | Some a \<Rightarrow> raise (AttributeError ''amount'') d))"

text \<open>\<open>BudgetEnforcer\<close>: a context manager around a provider call.\<close>

record budget_enforcer =
  en_worker_id :: ident
  en_estimated_cost :: credits
  en_check_result :: "budget_check option"
  en_recorded :: bool

definition new_enforcer :: "ident \<Rightarrow> credits \<Rightarrow> budget_enforcer" where
  "new_enforcer w cost = \<lparr>en_worker_id = w, en_estimated_cost = cost, en_check_result = None, en_recorded = False\<rparr>"

definition enforcer_enter :: "env \<Rightarrow> budget_enforcer \<Rightarrow> db \<Rightarrow> (db, budget_enforcer) outcome" where
  "enforcer_enter e en d =
     and_then (enforce_budget e (en_worker_id en) (en_estimated_cost en) d)
       (\<lambda>r d1. ok (en\<lparr>en_check_result := Some r\<rparr>) d1)"

text \<open>\<open>__exit__\<close>: the answer says whether it warns that no spend was recorded.\<close>

definition enforcer_exit :: "bool \<Rightarrow> budget_enforcer \<Rightarrow> bool" where
  "enforcer_exit raised en = (\<not> en_recorded en \<and> \<not> raised)"

definition enforcer_record ::
  "env \<Rightarrow> ident \<Rightarrow> credits \<Rightarrow> txn_info \<Rightarrow> budget_enforcer \<Rightarrow> db \<Rightarrow> (db, txn_row \<times> budget_enforcer) outcome" where
  "enforcer_record e tx actual info en d =
     (case en_check_result en of
        None \<Rightarrow> raise (RuntimeError ''BudgetEnforcer not entered'') d
      | Some r \<Rightarrow>
          and_then (record_spend e tx (en_worker_id en) (bc_allocation_id r) actual info d)
            (\<lambda>t d1. ok (t, en\<lparr>en_recorded := True\<rparr>) d1))"

section \<open>Spawning a session\<close>

definition enforce_spawn_budget :: "env \<Rightarrow> db \<times> wobj \<Rightarrow> (db \<times> wobj, budget_check) outcome" where
  "enforce_spawn_budget e s =
     (case s of (d, me) \<Rightarrow> case worker_data d me of
        (Inl x, me1) \<Rightarrow> raise x (d, me1)
      | (Inr w, me1) \<Rightarrow>
          case enforce_budget e (wo_id me) (estimate_spawn_cost (wk_cost w)) d of (r, d1) \<Rightarrow> (r, (d1, me1)))"

definition record_spawn_spend ::
  "env \<Rightarrow> ident \<Rightarrow> string \<Rightarrow> string \<Rightarrow> ident \<Rightarrow> db \<times> wobj \<Rightarrow> (db \<times> wobj, unit) outcome" where
  "record_spawn_spend e tx provider session_id al s =
     (case s of (d, me) \<Rightarrow> case worker_data d me of
        (Inl x, me1) \<Rightarrow> raise x (d, me1)
      | (Inr w, me1) \<Rightarrow>
          case record_spend e tx (wo_id me) al (estimate_spawn_cost (wk_cost w))
                 \<lparr>ti_provider = Some provider, ti_model = Some (get_cost_tier (wk_cost w) @ ''-tier''),
                  ti_input_tokens = Some 2000, ti_output_tokens = Some 500,
                  ti_reference_type = Some ''session'', ti_reference_id = Some session_id\<rparr> d of
            (Inl x, d1) \<Rightarrow> raise x (d1, me1)
          | (Inr _, d1) \<Rightarrow> ok () (d1, me1))"

section \<open>The service\<close>

text \<open>\<open>_get_current_allocation\<close>: the loop over the worker's allocations.\<close>

fun pick_current :: "env \<Rightarrow> allocation_row option \<Rightarrow> allocation_row list \<Rightarrow> allocation_row option" where
  "pick_current e cur [] = cur"
| "pick_current e cur (a # rest) =
     pick_current e
       (if al_period_start a \<le> now e \<and> now e \<le> al_period_end a
        then case cur of None \<Rightarrow> Some a
             | Some c \<Rightarrow> if al_period_start c < al_period_start a then Some a else Some c
        else cur) rest"

definition service_current_allocation :: "env \<Rightarrow> db \<Rightarrow> ident \<Rightarrow> allocation_row option" where
  "service_current_allocation e d w =
     (let rows = get_worker_allocations d w
      in case pick_current e None rows of Some a \<Rightarrow> Some a | None \<Rightarrow> list_head rows)"

definition allocate_from_pool ::
  "env \<Rightarrow> ident \<Rightarrow> ident \<Rightarrow> (db \<Rightarrow> db) \<Rightarrow> ident \<Rightarrow> ident \<Rightarrow> credits \<Rightarrow> datetime \<Rightarrow> datetime \<Rightarrow> bool \<Rightarrow> credits option \<Rightarrow>
     db \<Rightarrow> (db, ident) outcome" where
  "allocate_from_pool e al tx other pid w amount st en can limit d =
     (if amount \<le> 0 then raise (BudgetAllocationError ''Allocation amount must be positive'') d
      else case get_budget_pool d pid of
        None \<Rightarrow> raise (BudgetAllocationError ''Budget pool not found'') d
      | Some p \<Rightarrow>
          if p_total_credits p - get_pool_allocated_total d pid < amount
          then raise (BudgetAllocationError ''Insufficient pool funds'') d
          else let d1 = other d in
            if p_total_credits p - get_pool_allocated_total d1 pid < amount
            then raise (BudgetAllocationError ''Insufficient pool funds'') d1
            else and_then (create_budget_allocation e al
                     \<lparr>na_worker_id = w, na_allocated_credits = amount, na_period_start = st, na_period_end = en,
                      na_source_worker_id = None, na_pool_id = Some pid, na_can_delegate = can,
                      na_delegation_limit = limit\<rparr> d1) (\<lambda>_ d2.
                 and_then (create_budget_balance e al w 0 st en d2) (\<lambda>_ d3.
                 and_then (create_budget_transaction e tx al w TxAllocation amount no_info d3) (\<lambda>_ d4.
                   ok al d4))))"

definition delegate_budget ::
  "env \<Rightarrow> ident \<Rightarrow> ident \<Rightarrow> ident \<Rightarrow> (db \<Rightarrow> db) \<Rightarrow> ident \<Rightarrow> ident \<Rightarrow> credits \<Rightarrow> bool \<Rightarrow> db \<Rightarrow> (db, ident) outcome" where
  "delegate_budget e al tx_out tx_in other source target amount sys d =
     (if amount \<le> 0 then raise (BudgetAllocationError ''Delegation amount must be positive'') d
      else case get_worker d target of
        None \<Rightarrow> raise (BudgetAllocationError ''Worker not found'') d
      | Some t \<Rightarrow>
          if \<not> sys \<and> wk_manager_id t \<noteq> Some source then raise (BudgetAllocationError ''does not report'') d
          else case service_current_allocation e d source of
            None \<Rightarrow> raise (BudgetAllocationError ''has no budget allocation'') d
          | Some a \<Rightarrow>
              if \<not> sys \<and> \<not> al_can_delegate a then raise (BudgetAllocationError ''cannot delegate budget'') d
              else if \<not> sys \<and> (case al_delegation_limit a of None \<Rightarrow> False | Some l \<Rightarrow> l < amount)
                then raise (BudgetAllocationError ''exceeds delegation limit'') d
              else case get_worker_balance e d source of
                None \<Rightarrow> raise (BudgetAllocationError ''No balance found'') d
              | Some b \<Rightarrow>
                  if b_available b < amount then raise (BudgetAllocationError ''Insufficient available budget'') d
                  else let can = is_worker_manager d target; d1 = other d in
                    case get_worker_balance e d1 source of
                      None \<Rightarrow> raise (BudgetAllocationError ''Insufficient available budget'') d1
                    | Some b1 \<Rightarrow>
                        if b_available b1 < amount
                        then raise (BudgetAllocationError ''Insufficient available budget'') d1
                        else and_then (create_budget_allocation e al
                               \<lparr>na_worker_id = target, na_allocated_credits = amount,
                                na_period_start = al_period_start a, na_period_end = al_period_end a,
                                na_source_worker_id = Some source, na_pool_id = None, na_can_delegate = can,
                                na_delegation_limit = al_delegation_limit a\<rparr> d1) (\<lambda>_ d2.
                             and_then (create_budget_balance e al target 0 (al_period_start a) (al_period_end a) d2) (\<lambda>_ d3.
                             and_then (create_budget_transaction e tx_out (al_id a) source TxTransferOut (- amount) no_info d3)
                               (\<lambda>_ d4.
                             and_then (create_budget_transaction e tx_in al target TxTransferIn amount no_info d4) (\<lambda>_ d5.
                               ok al d5)))))"

definition has_sufficient_budget :: "env \<Rightarrow> db \<Rightarrow> ident \<Rightarrow> credits \<Rightarrow> bool" where
  "has_sufficient_budget e d w amount =
     (case get_worker_balance e d w of None \<Rightarrow> False | Some b \<Rightarrow> amount \<le> b_available b)"

definition ensure_worker_funded ::
  "env \<Rightarrow> ident \<Rightarrow> ident \<Rightarrow> ident \<Rightarrow> (db \<Rightarrow> db) \<Rightarrow> ident \<Rightarrow> credits \<Rightarrow> ident \<Rightarrow> db \<Rightarrow> (db, unit) outcome" where
  "ensure_worker_funded e al tx_out tx_in other w amount ceo d =
     (let available = (case get_worker_balance e d w of None \<Rightarrow> 0 | Some b \<Rightarrow> b_available b)
      in if amount \<le> available then ok () d
         else and_then (delegate_budget e al tx_out tx_in other ceo w (amount - available) True d) (\<lambda>_ d1. ok () d1))"

definition revoke_unused :: "env \<Rightarrow> ident \<Rightarrow> ident \<Rightarrow> ident \<Rightarrow> db \<Rightarrow> (db, credits) outcome" where
  "revoke_unused e tx_adj tx_ref w d =
     (case service_current_allocation e d w of
        None \<Rightarrow> ok 0 d
      | Some a \<Rightarrow>
          case get_worker_balance e d w of
            None \<Rightarrow> ok 0 d
          | Some b \<Rightarrow>
              if b_available b \<le> 0 then ok 0 d
              else let revoked = b_available b in
                and_then (create_budget_transaction e tx_adj (al_id a) w TxAdjustment (- revoked) no_info d) (\<lambda>_ d1.
                  case al_source_worker_id a of
                    None \<Rightarrow> ok revoked d1
                  | Some src \<Rightarrow> if src = [] then ok revoked d1 else
                      (case service_current_allocation e d1 src of
                         None \<Rightarrow> ok revoked d1
                       | Some sa \<Rightarrow>
                           and_then (create_budget_transaction e tx_ref (al_id sa) src TxRefund revoked no_info d1)
                             (\<lambda>_ d2. ok revoked d2))))"

end
