(* ===== verification/Permissions.thy ===== *)
theory Permissions
  imports Budget
begin

text \<open>
  \<open>cli/core/queries/permission.py\<close> (grants, the cache of effective permissions, the audit log),
  \<open>cli/core/permissions/access_control.py\<close> (levels on channels and beads),
  \<open>cli/core/permissions/capabilities.py\<close> (named permissions by role) and
  \<open>cli/core/authorization.py\<close> (\<open>AuthorizationManager\<close>). A \<open>PermissionLevel\<close> is its integer, which the
  schema keeps between 0 and 5.
\<close>

section \<open>Grants\<close>

definition same_grantee :: "ident option \<Rightarrow> string \<Rightarrow> ident \<Rightarrow> permission_row \<Rightarrow> bool" where
  "same_grantee bead ty g r = (pm_bead_id r = bead \<and> pm_grantee_type r = ty \<and> pm_grantee_id r = g)"

text \<open>
  \<open>INSERT OR REPLACE\<close>: rows with the same primary key, and rows with the same unique key, are
  replaced. SQLite holds two \<open>NULL\<close>s for different in a unique key, so a global grant (no bead)
  never conflicts with another one.
\<close>

definition grant_permission ::
  "env \<Rightarrow> ident \<Rightarrow> string \<Rightarrow> ident \<Rightarrow> int \<Rightarrow> ident option \<Rightarrow> ident option \<Rightarrow> ident option \<Rightarrow> db
   \<Rightarrow> (db, permission_row) outcome" where
  "grant_permission e fresh ty g level bead granter pid d =
     (let i = (case pid of None \<Rightarrow> fresh | Some i \<Rightarrow> i);
          r = \<lparr>pm_id = i, pm_bead_id = bead, pm_grantee_type = ty, pm_grantee_id = g, pm_level = level,
               pm_granted_by = granter, pm_granted_at = now e\<rparr>
      in if ty \<notin> {''worker'', ''team''} then raise (IntegrityError ''permissions.grantee_type'') d
         else if level < 0 \<or> 5 < level then raise (IntegrityError ''permissions.level'') d
         else ok r (d\<lparr>permissions :=
                delete_where (\<lambda>x. pm_id x = i \<or> bead \<noteq> None \<and> same_grantee bead ty g x) (permissions d) @ [r]\<rparr>))"

definition get_permission :: "db \<Rightarrow> ident \<Rightarrow> permission_row option" where
  "get_permission d i = fetchone (\<lambda>r. pm_id r = i) (permissions d)"

definition get_permission_for_grantee :: "db \<Rightarrow> ident option \<Rightarrow> string \<Rightarrow> ident \<Rightarrow> permission_row option" where
  "get_permission_for_grantee d bead ty g = fetchone (same_grantee bead ty g) (permissions d)"

definition revoke_permission :: "ident \<Rightarrow> db \<Rightarrow> bool \<times> db" where
  "revoke_permission i d =
     (0 < rowcount (\<lambda>r. pm_id r = i) (permissions d),
      d\<lparr>permissions := delete_where (\<lambda>r. pm_id r = i) (permissions d)\<rparr>)"

definition revoke_permission_for_grantee :: "ident option \<Rightarrow> string \<Rightarrow> ident \<Rightarrow> db \<Rightarrow> bool \<times> db" where
  "revoke_permission_for_grantee bead ty g d =
     (0 < rowcount (same_grantee bead ty g) (permissions d),
      d\<lparr>permissions := delete_where (same_grantee bead ty g) (permissions d)\<rparr>)"

definition get_permissions_for_bead :: "db \<Rightarrow> ident \<Rightarrow> permission_row list" where
  "get_permissions_for_bead d b = fetchall (\<lambda>r. pm_bead_id r = Some b) (permissions d)"

definition get_permissions_for_worker :: "db \<Rightarrow> ident \<Rightarrow> permission_row list" where
  "get_permissions_for_worker d w =
     fetchall (\<lambda>r. pm_grantee_type r = ''worker'' \<and> pm_grantee_id r = w) (permissions d)"

definition get_permissions_for_team :: "db \<Rightarrow> ident \<Rightarrow> permission_row list" where
  "get_permissions_for_team d t =
     fetchall (\<lambda>r. pm_grantee_type r = ''team'' \<and> pm_grantee_id r = t) (permissions d)"

section \<open>The cache of effective permissions\<close>

definition cached_for :: "ident \<Rightarrow> ident \<Rightarrow> effective_row \<Rightarrow> bool" where
  "cached_for w b r = (ep_worker_id r = w \<and> ep_bead_id r = b)"

definition set_effective_permission ::
  "env \<Rightarrow> ident \<Rightarrow> ident \<Rightarrow> int \<Rightarrow> db \<Rightarrow> (db, effective_row) outcome" where
  "set_effective_permission e w b level d =
     (let r = \<lparr>ep_worker_id = w, ep_bead_id = b, ep_level = level, ep_computed_at = now e\<rparr>
      in if level < 0 \<or> 5 < level then raise (IntegrityError ''effective_permissions.level'') d
         else if \<not> worker_exists d w then raise (IntegrityError ''effective_permissions.worker_id'') d
         else ok r (d\<lparr>effective_permissions := delete_where (cached_for w b) (effective_permissions d) @ [r]\<rparr>))"

definition get_effective_permission :: "db \<Rightarrow> ident \<Rightarrow> ident \<Rightarrow> effective_row option" where
  "get_effective_permission d w b = fetchone (cached_for w b) (effective_permissions d)"

definition delete_effective_permission :: "ident \<Rightarrow> ident \<Rightarrow> db \<Rightarrow> bool \<times> db" where
  "delete_effective_permission w b d =
     (0 < rowcount (cached_for w b) (effective_permissions d),
      d\<lparr>effective_permissions := delete_where (cached_for w b) (effective_permissions d)\<rparr>)"

definition delete_effective_permissions_for_bead :: "ident \<Rightarrow> db \<Rightarrow> nat \<times> db" where
  "delete_effective_permissions_for_bead b d =
     (rowcount (\<lambda>r. ep_bead_id r = b) (effective_permissions d),
      d\<lparr>effective_permissions := delete_where (\<lambda>r. ep_bead_id r = b) (effective_permissions d)\<rparr>)"

section \<open>The audit log\<close>

definition log_permission_audit ::
  "env \<Rightarrow> ident \<Rightarrow> string \<Rightarrow> ident \<Rightarrow> ident \<Rightarrow> int option \<Rightarrow> json option \<Rightarrow> db \<Rightarrow> (db, permission_audit_row) outcome" where
  "log_permission_audit e i act b w level details d =
     (let r = \<lparr>pa_id = i, pa_action = act, pa_bead_id = b, pa_worker_id = w, pa_level = level,
               pa_details = details, pa_created_at = now e\<rparr>
      in if i \<in> pa_id ` set (permission_audits d) then raise (IntegrityError ''permission_audit.id'') d
         else if act \<notin> {''grant'', ''revoke'', ''check'', ''deny''} then raise (IntegrityError ''permission_audit.action'') d
         else ok r (d\<lparr>permission_audits := permission_audits d @ [r]\<rparr>))"

definition audit_page :: "(permission_audit_row \<Rightarrow> bool) \<Rightarrow> db \<Rightarrow> nat \<Rightarrow> nat \<Rightarrow> permission_audit_row list" where
  "audit_page p d limit offset =
     take limit (drop offset (order_by_desc pa_created_at (fetchall p (permission_audits d))))"

definition get_permission_audit_for_bead :: "db \<Rightarrow> ident \<Rightarrow> nat \<Rightarrow> nat \<Rightarrow> permission_audit_row list" where
  "get_permission_audit_for_bead d b = audit_page (\<lambda>r. pa_bead_id r = b) d"

definition get_permission_audit_for_worker :: "db \<Rightarrow> ident \<Rightarrow> nat \<Rightarrow> nat \<Rightarrow> permission_audit_row list" where
  "get_permission_audit_for_worker d w = audit_page (\<lambda>r. pa_worker_id r = w) d"

definition get_permission_denials :: "db \<Rightarrow> nat \<Rightarrow> nat \<Rightarrow> permission_audit_row list" where
  "get_permission_denials d = audit_page (\<lambda>r. pa_action r = ''deny'') d"

section \<open>Levels on channels and beads\<close>

definition granted_level :: "db \<Rightarrow> ident option \<Rightarrow> string \<Rightarrow> ident \<Rightarrow> int option" where
  "granted_level d bead ty g = map_option pm_level (get_permission_for_grantee d bead ty g)"

definition level_or_none :: "int option \<Rightarrow> int" where
  "level_or_none l = (case l of None \<Rightarrow> 0 | Some x \<Rightarrow> x)"

definition check_subscription_permission :: "db \<Rightarrow> ident \<Rightarrow> channel_row \<Rightarrow> int" where
  "check_subscription_permission d w c = (if is_subscribed_to_channel d (c_id c) w then 2 else 0)"

definition check_team_membership_permission :: "db \<Rightarrow> ident \<Rightarrow> channel_row \<Rightarrow> int" where
  "check_team_membership_permission d w c =
     (case c_team_id c of
        None \<Rightarrow> 0
      | Some t \<Rightarrow>
          if t = [] then 0
          else (case get_team_member d t w of
                  None \<Rightarrow> 0
                | Some m \<Rightarrow> if tm_role m = ''admin'' then 5 else if tm_role m = ''lead'' then 4 else 3))"

definition check_primary_team_permission :: "worker \<Rightarrow> channel_row \<Rightarrow> int" where
  "check_primary_team_permission w c =
     (case c_team_id c of None \<Rightarrow> 0 | Some t \<Rightarrow> if t \<noteq> [] \<and> wk_team_id w = t then 3 else 0)"

definition check_direct_grant_permission :: "db \<Rightarrow> ident \<Rightarrow> channel_row \<Rightarrow> int" where
  "check_direct_grant_permission d w c = level_or_none (granted_level d (Some (c_id c)) ''worker'' w)"

text \<open>The loop over the worker's teams keeps the highest level so far.\<close>

definition check_team_grant_permission :: "db \<Rightarrow> ident \<Rightarrow> channel_row \<Rightarrow> int" where
  "check_team_grant_permission d w c =
     fold (\<lambda>m highest. case granted_level d (Some (c_id c)) ''team'' (tm_team_id m) of
             None \<Rightarrow> highest
           | Some l \<Rightarrow> if highest < l then l else highest)
       (get_worker_team_memberships d w) 0"

definition check_ceo_permission :: "worker \<Rightarrow> int" where
  "check_ceo_permission w = (if wk_role w = ''ceo'' then 5 else 0)"

definition check_global_permission :: "db \<Rightarrow> ident \<Rightarrow> int" where
  "check_global_permission d w = level_or_none (granted_level d None ''worker'' w)"

definition max_level :: "int list \<Rightarrow> int" where
  "max_level ls = (case ls of [] \<Rightarrow> 0 | l # ls \<Rightarrow> fold max ls l)"

definition check_channel_permission :: "db \<Rightarrow> ident \<Rightarrow> ident \<Rightarrow> int" where
  "check_channel_permission d w cid =
     (case get_worker d w of
        None \<Rightarrow> 0
      | Some wk \<Rightarrow>
          (case get_channel d cid of
             None \<Rightarrow> 0
           | Some c \<Rightarrow> max_level
               [check_subscription_permission d w c, check_team_membership_permission d w c,
                check_primary_team_permission wk c, check_direct_grant_permission d w c,
                check_team_grant_permission d w c, check_ceo_permission wk, check_global_permission d w]))"

definition check_bead_permission :: "db \<Rightarrow> ident \<Rightarrow> ident \<Rightarrow> int" where
  "check_bead_permission d w b =
     (case get_worker d w of
        None \<Rightarrow> 0
      | Some wk \<Rightarrow> max_level
          ((case get_effective_permission d w b of None \<Rightarrow> [] | Some r \<Rightarrow> [ep_level r])
           @ (case granted_level d (Some b) ''worker'' w of None \<Rightarrow> [] | Some l \<Rightarrow> [l])
           @ List.map_filter (\<lambda>m. granted_level d (Some b) ''team'' (tm_team_id m)) (get_worker_team_memberships d w)
           @ (if wk_role wk = ''ceo'' then [5] else [])
           @ (case granted_level d None ''worker'' w of None \<Rightarrow> [] | Some l \<Rightarrow> [l])))"

definition level_name :: "int \<Rightarrow> string" where
  "level_name l = (if l = 0 then ''NONE'' else if l = 1 then ''READ'' else if l = 2 then ''COMMENT''
     else if l = 3 then ''WRITE'' else if l = 4 then ''APPROVE'' else ''ADMIN'')"

definition denial_details :: "string \<Rightarrow> string \<Rightarrow> int \<Rightarrow> int \<Rightarrow> json" where
  "denial_details act rt required actual =
     JObj [(''action'', JStr act), (''resource_type'', JStr rt), (''required'', JStr (level_name required)),
           (''actual'', JStr (level_name actual))]"

text \<open>The common tail of the two \<open>require\<close> functions.\<close>

definition require_level ::
  "env \<Rightarrow> ident \<Rightarrow> string \<Rightarrow> ident \<Rightarrow> ident \<Rightarrow> int \<Rightarrow> int \<Rightarrow> string \<Rightarrow> bool \<Rightarrow> db \<Rightarrow> (db, unit) outcome" where
  "require_level e fresh rt w res actual required act audit d =
     (if actual < required
      then and_then (if audit
                     then and_then (log_permission_audit e fresh ''deny'' res w (Some required)
                            (Some (denial_details act rt required actual)) d) (\<lambda>_ d1. ok () d1)
                     else ok () d)
             (\<lambda>_ d1. raise (PermissionDenied w rt res required actual act) d1)
      else ok () d)"

definition require_channel_permission ::
  "env \<Rightarrow> ident \<Rightarrow> ident \<Rightarrow> ident \<Rightarrow> int \<Rightarrow> string \<Rightarrow> bool \<Rightarrow> db \<Rightarrow> (db, unit) outcome" where
  "require_channel_permission e fresh w cid required act audit d =
     require_level e fresh ''channel'' w cid (check_channel_permission d w cid) required act audit d"

definition require_bead_permission ::
  "env \<Rightarrow> ident \<Rightarrow> ident \<Rightarrow> ident \<Rightarrow> int \<Rightarrow> string \<Rightarrow> bool \<Rightarrow> db \<Rightarrow> (db, unit) outcome" where
  "require_bead_permission e fresh w b required act audit d =
     require_level e fresh ''bead'' w b (check_bead_permission d w b) required act audit d"

definition can_worker_access_channel :: "db \<Rightarrow> ident \<Rightarrow> ident \<Rightarrow> int \<Rightarrow> bool" where
  "can_worker_access_channel d w cid level = (level \<le> check_channel_permission d w cid)"

definition can_worker_access_bead :: "db \<Rightarrow> ident \<Rightarrow> ident \<Rightarrow> int \<Rightarrow> bool" where
  "can_worker_access_bead d w b level = (level \<le> check_bead_permission d w b)"

text \<open>
  The decorator \<open>requires_permission\<close> around a function of the database: the bound arguments are
  options (\<open>None\<close> when missing or \<open>None\<close>), \<open>has_db\<close> says whether the database argument was there.
\<close>

definition requires_permission ::
  "env \<Rightarrow> ident \<Rightarrow> string \<Rightarrow> int \<Rightarrow> string \<Rightarrow> bool \<Rightarrow> ident option \<Rightarrow> ident option \<Rightarrow> (db \<Rightarrow> (db, 'a) outcome)
   \<Rightarrow> db \<Rightarrow> (db, 'a) outcome" where
  "requires_permission e fresh rt level act has_db wid rid f d =
     (if \<not> has_db then raise (ValueError ''Missing required parameter: db'') d
      else case wid of
        None \<Rightarrow> raise (ValueError ''Missing required parameter: worker_id'') d
      | Some w \<Rightarrow>
          (case rid of
             None \<Rightarrow> raise (ValueError ''Missing required parameter: resource_id'') d
           | Some res \<Rightarrow>
               and_then
                 (if rt = ''bead'' then require_bead_permission e fresh w res level act True d
                  else if rt = ''channel'' then require_channel_permission e fresh w res level act True d
                  else raise (ValueError ''Unknown resource type'') d)
                 (\<lambda>_ d1. f d1)))"

section \<open>Named permissions\<close>

definition BASE_PERMISSIONS :: "string list" where
  "BASE_PERMISSIONS = [''can_view_own_beads'', ''can_comment'']"

definition SENIOR_PERMISSIONS :: "string list" where
  "SENIOR_PERMISSIONS =
     [''can_create_beads'', ''can_edit_own_beads'', ''can_assign_beads'', ''can_approve'', ''is_lead'']"

definition role_permissions :: "(string \<times> string list) list" where
  "role_permissions =
     [(''worker'', [''can_create_beads'', ''can_edit_own_beads'']),
      (''senior'', SENIOR_PERMISSIONS),
      (''lead'', SENIOR_PERMISSIONS),
      (''manager'', [''can_create_beads'', ''can_edit_own_beads'', ''can_assign_beads'', ''can_approve'',
                   ''can_hire'', ''is_lead'', ''is_manager'']),
      (''director'', [''can_create_beads'', ''can_edit_own_beads'', ''can_assign_beads'', ''can_approve'',
                    ''can_hire'', ''can_fire'', ''is_lead'', ''is_manager'', ''is_director'']),
      (''ceo'', [''can_create_beads'', ''can_edit_own_beads'', ''can_assign_beads'', ''can_approve'',
               ''can_hire'', ''can_fire'', ''can_admin'', ''is_lead'', ''is_manager'', ''is_director'', ''is_ceo''])]"

definition get_role_permissions :: "string \<Rightarrow> string list" where
  "get_role_permissions role =
     BASE_PERMISSIONS @ (case map_of role_permissions (ascii_lower role) of None \<Rightarrow> [] | Some ps \<Rightarrow> ps)"

text \<open>
  The tables \<open>worker_permissions\<close> and \<open>team_permissions\<close> are not part of the schema: both lookups
  raise \<open>sqlite3.OperationalError\<close>, which is caught (for the second one when there is a team to look up).
\<close>

definition check_worker_named_permission :: "db \<Rightarrow> ident \<Rightarrow> string \<Rightarrow> bool" where
  "check_worker_named_permission d w p =
     (case get_worker d w of None \<Rightarrow> False | Some wk \<Rightarrow> p \<in> set (get_role_permissions (wk_role wk)))"

definition check_worker_named_permissions :: "db \<Rightarrow> ident \<Rightarrow> string list \<Rightarrow> bool \<Rightarrow> bool \<times> string list" where
  "check_worker_named_permissions d w ps require_all =
     (let granted = filter (check_worker_named_permission d w) ps;
          missing = filter (\<lambda>p. \<not> check_worker_named_permission d w p) ps
      in if require_all then (missing = [], missing)
         else (granted \<noteq> [], if granted = [] then missing else []))"

definition requires_named_permission ::
  "string list \<Rightarrow> bool \<Rightarrow> bool \<Rightarrow> ident option \<Rightarrow> (db \<Rightarrow> (db, 'a) outcome) \<Rightarrow> db \<Rightarrow> (db, 'a) outcome" where
  "requires_named_permission ps require_all has_db wid f d =
     (if \<not> has_db then raise (ValueError ''Missing required parameter: db'') d
      else case wid of
        None \<Rightarrow> raise (ValueError ''Missing required parameter: worker_id'') d
      | Some w \<Rightarrow>
          (case check_worker_named_permissions d w ps require_all of
             (True, _) \<Rightarrow> f d
           | (False, missing) \<Rightarrow> raise (NamedPermissionDenied w ps missing) d))"

section \<open>The authorization manager\<close>

text \<open>The answer of \<open>can\<close>: allowed or not; the reason texts are left out.\<close>

text \<open>
  \<open>_has_hiring_authority\<close> through \<open>_parse_hiring_scope\<close>: how many roles \<open>set(data.get("allowed_roles", []))\<close>
  has. Elements that cannot be hashed, and a value that cannot be iterated, are a caught \<open>TypeError\<close>;
  a scope that is no object has no \<open>get\<close>.
\<close>

fun hashable :: "json \<Rightarrow> bool" where
  "hashable (JList _) = False"
| "hashable (JObj _) = False"
| "hashable _ = True"

definition has_hiring_authority :: "worker \<Rightarrow> py_error + bool" where
  "has_hiring_authority w =
     (case wk_hiring_authority_scope w of
        None \<Rightarrow> Inr False
      | Some (JObj kv) \<Rightarrow>
          Inr (case map_of kv ''allowed_roles'' of
                 None \<Rightarrow> False
               | Some (JList rs) \<Rightarrow> rs \<noteq> [] \<and> (\<forall>r \<in> set rs. hashable r)
               | Some (JStr s) \<Rightarrow> s \<noteq> []
               | Some (JObj kv') \<Rightarrow> kv' \<noteq> []
               | Some _ \<Rightarrow> False)
      | Some _ \<Rightarrow> Inl (AttributeError ''get''))"

definition has_funds :: "env \<Rightarrow> db \<Rightarrow> ident \<Rightarrow> bool" where
  "has_funds e d w = (case get_worker_balance e d w of None \<Rightarrow> False | Some b \<Rightarrow> 0 < b_available b)"

definition auth_can_hire :: "env \<Rightarrow> worker \<Rightarrow> db \<Rightarrow> (db, bool) outcome" where
  "auth_can_hire e w d =
     (case has_hiring_authority w of
        Inl x \<Rightarrow> raise x d
      | Inr a \<Rightarrow> ok (a \<and> has_funds e d (wk_id w)) d)"

text \<open>The target of an action: it has to be named and to exist.\<close>

definition auth_target :: "db \<Rightarrow> ident option \<Rightarrow> worker option" where
  "auth_target d target =
     (case target of None \<Rightarrow> None | Some t \<Rightarrow> if t = [] then None else get_worker d t)"

text \<open>\<open>busy\<close> is the answer of \<open>_has_critical_work\<close>, which asks the external issue tracker.\<close>

definition auth_can_fire :: "(ident \<Rightarrow> bool) \<Rightarrow> worker \<Rightarrow> ident option \<Rightarrow> db \<Rightarrow> (db, bool) outcome" where
  "auth_can_fire busy w target d =
     (if ascii_lower (wk_role w) \<notin> {''ceo'', ''director''} then ok False d
      else case auth_target d target of
        None \<Rightarrow> ok False d
      | Some t \<Rightarrow> ok (wk_manager_id t = Some (wk_id w) \<and> \<not> busy (wk_id t)) d)"

definition auth_can_delegate_budget :: "env \<Rightarrow> worker \<Rightarrow> ident option \<Rightarrow> db \<Rightarrow> (db, bool) outcome" where
  "auth_can_delegate_budget e w target d =
     and_then (get_worker_delegation_authority d (wk_id w)) (\<lambda>can d1.
       if can \<noteq> Some True then ok False d1
       else case auth_target d1 target of
         None \<Rightarrow> ok False d1
       | Some t \<Rightarrow> ok (wk_manager_id t = Some (wk_id w) \<and> has_funds e d1 (wk_id w)) d1)"

definition auth_can_escalate :: "worker \<Rightarrow> db \<Rightarrow> (db, bool) outcome" where
  "auth_can_escalate w d = ok (case wk_manager_id w of None \<Rightarrow> False | Some m \<Rightarrow> m \<noteq> []) d"

definition auth_can_approve :: "worker \<Rightarrow> ident option \<Rightarrow> db \<Rightarrow> (db, bool) outcome" where
  "auth_can_approve w target d =
     (case auth_target d target of
        None \<Rightarrow> ok False d
      | Some t \<Rightarrow> ok (wk_manager_id t = Some (wk_id w) \<or> ascii_lower (wk_role w) = ''ceo'') d)"

definition auth_can_assign :: "worker \<Rightarrow> ident option \<Rightarrow> db \<Rightarrow> (db, bool) outcome" where
  "auth_can_assign w target d =
     (case auth_target d target of
        None \<Rightarrow> ok False d
      | Some t \<Rightarrow> ok (wk_manager_id t = Some (wk_id w) \<or> wk_id t = wk_id w) d)"

definition auth_can ::
  "env \<Rightarrow> (ident \<Rightarrow> bool) \<Rightarrow> ident \<Rightarrow> string \<Rightarrow> ident option \<Rightarrow> db \<Rightarrow> (db, bool) outcome" where
  "auth_can e busy wid permission target d =
     (case get_worker d wid of
        None \<Rightarrow> ok False d
      | Some w \<Rightarrow>
          if permission = ''hire'' then auth_can_hire e w d
          else if permission = ''fire'' then auth_can_fire busy w target d
          else if permission = ''delegate_budget'' then auth_can_delegate_budget e w target d
          else if permission = ''escalate'' then auth_can_escalate w d
          else if permission = ''approve'' then auth_can_approve w target d
          else if permission = ''assign'' then auth_can_assign w target d
          else ok False d)"

end
