(* ===== verification/Bead_Gateway.thy ===== *)
theory Bead_Gateway
  imports Bead_Lifecycle Permissions Messages
begin

text \<open>
  \<open>cli/core/bd_wrapper.py\<close>: every call of the external beads tool goes through \<open>run_bd\<close>, which checks
  the worker id, the worker's permission, the lifecycle of the bead and the link to an objective
  before it runs the tool, and records the activity afterwards. The state is the organisation's database
  (absent when its file does not exist) and the list of argument lists the tool was run with.
  Arguments stand for what comes from outside: \<open>show\<close>, what the tool knows of a bead; \<open>path_error\<close>, the
  exception of a missing binary; \<open>proc\<close>, the exit code of a run or its exception; \<open>okr_cfg\<close>, the two
  flags of the workflow file. The environment of the process and its database option are left out.
\<close>

section \<open>Reading the arguments\<close>

fun get_command_from_args :: "string list \<Rightarrow> string option" where
  "get_command_from_args [] = None"
| "get_command_from_args (arg # rest) = (if \<not> starts_with ''-'' arg then Some arg else get_command_from_args rest)"

fun bead_id_loop :: "bool \<Rightarrow> string list \<Rightarrow> string option" where
  "bead_id_loop found [] = None"
| "bead_id_loop found (arg # rest) =
     (if starts_with ''-'' arg then bead_id_loop found rest
      else if \<not> found then bead_id_loop True rest
      else if CHR ''-'' \<in> set arg then Some arg
      else bead_id_loop found rest)"

definition get_bead_id_from_args :: "string list \<Rightarrow> string option" where
  "get_bead_id_from_args args = bead_id_loop False args"

section \<open>Worker ids\<close>

definition safe_char :: "char \<Rightarrow> bool" where
  "safe_char c =
     (let n = of_char c :: nat
      in 97 \<le> n \<and> n \<le> 122 \<or> 65 \<le> n \<and> n \<le> 90 \<or> 48 \<le> n \<and> n \<le> 57 \<or> c = CHR ''_'' \<or> c = CHR ''-'')"

text \<open>The pattern \<open>^[a-zA-Z0-9_-]+$\<close>; the dollar sign also matches before a newline at the end.\<close>

definition safe_worker_id :: "string \<Rightarrow> bool" where
  "safe_worker_id s =
     (let t = (if s \<noteq> [] \<and> last s = CHR 0x0A then butlast s else s) in t \<noteq> [] \<and> list_all safe_char t)"

definition validate_worker_id :: "string \<Rightarrow> py_error + unit" where
  "validate_worker_id s =
     (if s = [] then Inl (ValueError ''worker_id cannot be empty'')
      else if 128 < length s then Inl (ValueError ''worker_id too long'')
      else if \<not> safe_worker_id s then Inl (ValueError ''Invalid worker_id format'')
      else Inr ())"

section \<open>Lifecycle\<close>

record bead_info =
  bi_type :: string
  bi_status :: string
  bi_depends_on :: "ident list"

definition CLOSED_STATUSES :: "string list" where
  "CLOSED_STATUSES = [''closed'', ''done'', ''rejected'', ''abandoned'', ''wontfix'', ''duplicate'', ''deferred'']"

definition get_open_blockers :: "(ident \<Rightarrow> bead_info option) \<Rightarrow> ident list \<Rightarrow> ident list" where
  "get_open_blockers show_bead ids =
     filter (\<lambda>i. case show_bead i of None \<Rightarrow> False | Some b \<Rightarrow> ascii_lower (bi_status b) \<notin> set CLOSED_STATUSES) ids"

record lc_sources =
  ls_stored :: "(string \<times> raw_config) list"
  ls_yaml :: "(string \<times> raw_config) list"

definition check_lifecycle_transition ::
  "lc_sources \<Rightarrow> (ident \<Rightarrow> bead_info option) \<Rightarrow> string list \<Rightarrow> py_error + unit" where
  "check_lifecycle_transition src show_bead args =
     (if get_command_from_args args \<notin> {Some ''update'', Some ''close''} then Inr ()
      else case get_bead_id_from_args args of
        None \<Rightarrow> Inr ()
      | Some i \<Rightarrow>
          (case show_bead i of
             None \<Rightarrow> Inr ()
           | Some b \<Rightarrow>
               if get_command_from_args args = Some ''close''
               then (case validate_can_close (ls_stored src) (ls_yaml src) i (bi_type b) (bi_status b) of
                       Inl x \<Rightarrow> Inl x
                     | Inr _ \<Rightarrow>
                         (let blocking = get_open_blockers show_bead (bi_depends_on b)
                          in if blocking \<noteq> [] then Inl (BeadBlocked i blocking) else Inr ()))
               else (case parse_status_from_args args of
                       None \<Rightarrow> Inr ()
                     | Some t \<Rightarrow>
                         if t \<noteq> [] \<and> t \<noteq> bi_status b
                         then validate_state_transition (ls_stored src) (ls_yaml src) i (bi_type b) (bi_status b) t
                         else Inr ())))"

section \<open>Permission\<close>

definition BD_COMMAND_PERMISSIONS :: "(string \<times> int) list" where
  "BD_COMMAND_PERMISSIONS =
     [(''list'', 1), (''show'', 1), (''ready'', 1), (''stats'', 1), (''blocked'', 1), (''doctor'', 1), (''sync'', 1),
      (''create'', 3), (''update'', 3), (''close'', 3), (''dep'', 3), (''delete'', 5), (''prime'', 5)]"

definition required_level :: "string \<Rightarrow> int" where
  "required_level command = or_else (map_of BD_COMMAND_PERMISSIONS command) 1"

definition global_level :: "db \<Rightarrow> ident \<Rightarrow> int" where
  "global_level d w = (case get_permission_for_grantee d None ''worker'' w of None \<Rightarrow> 0 | Some p \<Rightarrow> pm_level p)"

definition bd_level :: "db \<Rightarrow> ident \<Rightarrow> ident option \<Rightarrow> int" where
  "bd_level d w bead =
     (case bead of
        None \<Rightarrow> global_level d w
      | Some b \<Rightarrow> (case get_effective_permission d w b of Some r \<Rightarrow> ep_level r | None \<Rightarrow> global_level d w))"

definition check_bd_permission :: "ident \<Rightarrow> string list \<Rightarrow> db option \<Rightarrow> py_error + unit" where
  "check_bd_permission w args d =
     (case get_command_from_args args of
        None \<Rightarrow> Inr ()
      | Some command \<Rightarrow>
          if required_level command \<le> 1 then Inr ()
          else (case d of
                  None \<Rightarrow> Inr ()
                | Some d \<Rightarrow>
                    (let bead = get_bead_id_from_args args; actual = bd_level d w bead
                     in if actual < required_level command
                        then Inl (BeadPermissionError w command (required_level command) actual bead)
                        else Inr ())))"

section \<open>Links to objectives\<close>

fun split_on :: "char \<Rightarrow> string \<Rightarrow> string list" where
  "split_on sep [] = [[]]"
| "split_on sep (c # cs) =
     (if c = sep then [] # split_on sep cs
      else case split_on sep cs of [] \<Rightarrow> [[c]] | w # ws \<Rightarrow> (c # w) # ws)"

fun deps_loop :: "string list \<Rightarrow> string list" where
  "deps_loop [] = []"
| "deps_loop [arg] = (if starts_with ''--deps='' arg then split_on CHR '','' (drop 7 arg) else [])"
| "deps_loop (arg # v # rest) =
     (if arg = ''--deps'' then split_on CHR '','' v @ deps_loop rest
      else if starts_with ''--deps='' arg then split_on CHR '','' (drop 7 arg) @ deps_loop (v # rest)
      else deps_loop (v # rest))"

definition parse_deps_from_args :: "string list \<Rightarrow> string list" where
  "parse_deps_from_args args = map py_strip (filter (\<lambda>d. py_strip d \<noteq> []) (deps_loop args))"

fun type_from_args :: "string list \<Rightarrow> string" where
  "type_from_args [] = ''task''"
| "type_from_args (arg # rest) =
     (if arg \<in> {''-t'', ''--type''} \<and> rest \<noteq> [] then hd rest
      else if starts_with ''--type='' arg then drop 7 arg
      else type_from_args rest)"

definition OKR_EXEMPT_TYPES :: "string list" where
  "OKR_EXEMPT_TYPES = [''epic'', ''gate'', ''agent'', ''role'', ''rig'', ''convoy'', ''event'']"

record okr_cfg =
  oc_require_okr_link :: bool
  oc_strict_mode :: bool

text \<open>A warning is not an exception.\<close>

definition check_okr_linking :: "okr_cfg \<Rightarrow> string list \<Rightarrow> py_error + unit" where
  "check_okr_linking cfg args =
     (if args = [] then Inr ()
      else if hd args \<notin> {''create'', ''new''} then Inr ()
      else if \<not> oc_require_okr_link cfg then Inr ()
      else if list_ex (starts_with ''serves:'') (parse_deps_from_args args) then Inr ()
      else if type_from_args args \<in> set OKR_EXEMPT_TYPES then Inr ()
      else if oc_strict_mode cfg then Inl (OKRLinkRequired (type_from_args args))
      else Inr ())"

section \<open>Running the tool\<close>

record gateway =
  gw_db :: "db option"
  gw_runs :: "string list list"

definition SIGNAL_STRENGTH_BEAD_UPDATE :: int where
  "SIGNAL_STRENGTH_BEAD_UPDATE = 5"

definition record_bead_activity :: "env \<Rightarrow> int \<Rightarrow> string list \<Rightarrow> ident \<Rightarrow> gateway \<Rightarrow> (gateway, unit) outcome" where
  "record_bead_activity e sid args w g =
     (case get_command_from_args args of
        None \<Rightarrow> ok () g
      | Some command \<Rightarrow>
          if command \<notin> {''create'', ''update'', ''close'', ''dep''} then ok () g
          else (case gw_db g of
                  None \<Rightarrow> ok () g
                | Some d \<Rightarrow>
                    (case record_activity_signal e sid w ''bead_update'' SIGNAL_STRENGTH_BEAD_UPDATE
                            (Some (JObj ((''command'', JStr command) #
                              (case get_bead_id_from_args args of None \<Rightarrow> [] | Some b \<Rightarrow> [(''bead_id'', JStr b)])))) d of
                       (r, d') \<Rightarrow> (r, g\<lparr>gw_db := Some d'\<rparr>))))"

text \<open>The outside world of one call.\<close>

record bd_world =
  bw_sources :: lc_sources
  bw_show :: "ident \<Rightarrow> bead_info option"
  bw_okr :: okr_cfg
  bw_path_error :: "py_error option"
  bw_proc :: "string list \<Rightarrow> py_error + int"

record bd_skips =
  sk_permission :: bool
  sk_lifecycle :: bool
  sk_okr :: bool

definition no_skips :: bd_skips where
  "no_skips = \<lparr>sk_permission = False, sk_lifecycle = False, sk_okr = False\<rparr>"

definition truthy :: "ident option \<Rightarrow> bool" where
  "truthy w = (w \<noteq> None \<and> w \<noteq> Some [])"

text \<open>The checks in their order; \<open>then_check\<close> stops at the first error.\<close>

definition then_check :: "py_error + unit \<Rightarrow> py_error + unit \<Rightarrow> py_error + unit" where
  "then_check a b = (case a of Inl x \<Rightarrow> Inl x | Inr _ \<Rightarrow> b)"

definition bd_checks :: "bd_world \<Rightarrow> bd_skips \<Rightarrow> string list \<Rightarrow> ident option \<Rightarrow> db option \<Rightarrow> py_error + unit" where
  "bd_checks world sk args w d =
     then_check (if truthy w then validate_worker_id (the w) else Inr ())
     (then_check (if truthy w \<and> \<not> sk_permission sk then check_bd_permission (the w) args d else Inr ())
     (then_check (if \<not> sk_lifecycle sk then check_lifecycle_transition (bw_sources world) (bw_show world) args else Inr ())
        (if \<not> sk_okr sk then check_okr_linking (bw_okr world) args else Inr ())))"

definition run_bd ::
  "env \<Rightarrow> bd_world \<Rightarrow> int \<Rightarrow> bd_skips \<Rightarrow> string list \<Rightarrow> ident option \<Rightarrow> gateway \<Rightarrow> (gateway, int) outcome" where
  "run_bd e world sid sk args w g =
     (case bd_checks world sk args w (gw_db g) of
        Inl x \<Rightarrow> raise x g
      | Inr _ \<Rightarrow>
          (case bw_path_error world of
             Some x \<Rightarrow> raise x g
           | None \<Rightarrow>
               (let g1 = g\<lparr>gw_runs := gw_runs g @ [args]\<rparr>
                in case bw_proc world args of
                     Inl x \<Rightarrow> raise x g1
                   | Inr code \<Rightarrow>
                       if code = 0 \<and> truthy w
                       then and_then (record_bead_activity e sid args (the w) g1) (\<lambda>_ g2. ok code g2)
                       else ok code g1)))"

section \<open>Notifications through the tool\<close>

text \<open>\<open>create_notification_bead\<close> of \<open>cli/core/notifications/utils.py\<close>; every exception is caught.\<close>

definition notification_args :: "ident \<Rightarrow> ident \<Rightarrow> string \<Rightarrow> string list" where
  "notification_args w mid priority =
     [''create'', ''--title=New message in channel'',
      ''--description=You have a new message (message_id: '' @ mid @ '')'', ''--type=notification'',
      ''--priority='' @ priority, ''--assignee='' @ w]"

definition notify_worker ::
  "env \<Rightarrow> bd_world \<Rightarrow> int \<Rightarrow> ident \<Rightarrow> ident \<Rightarrow> string \<Rightarrow> gateway \<Rightarrow> ident option \<times> gateway" where
  "notify_worker e world sid w mid priority g =
     (case run_bd e world sid no_skips (notification_args w mid priority) (Some ''worker-ceo'') g of
        (Inl _, g') \<Rightarrow> (None, g')
      | (Inr code, g') \<Rightarrow> (if code = 0 then Some mid else None, g'))"

fun notify_all ::
  "env \<Rightarrow> bd_world \<Rightarrow> int \<Rightarrow> ident \<Rightarrow> string \<Rightarrow> ident list \<Rightarrow> gateway \<Rightarrow> ident list \<times> gateway" where
  "notify_all e world sid mid priority [] g = ([], g)"
| "notify_all e world sid mid priority (w # ws) g =
     (case notify_worker e world sid w mid priority g of
        (n, g1) \<Rightarrow>
          (case notify_all e world sid mid priority ws g1 of
             (ns, g2) \<Rightarrow> (case n of None \<Rightarrow> ns | Some i \<Rightarrow> if i = [] then ns else i # ns, g2)))"

section \<open>Where the beads are\<close>

text \<open>
  A resolved path as its components, innermost first; \<open>beads\<close> says which directories have a beads
  directory. The walk ends at the boundary or at the root.
\<close>

fun find_nearest_beads_dir :: "(string list \<Rightarrow> bool) \<Rightarrow> string list option \<Rightarrow> string list \<Rightarrow> string list option" where
  "find_nearest_beads_dir beads boundary [] = (if beads [] then Some [] else None)"
| "find_nearest_beads_dir beads boundary (c # cs) =
     (if beads (c # cs) then Some (c # cs)
      else if boundary = Some (c # cs) then None
      else find_nearest_beads_dir beads boundary cs)"

text \<open>\<open>host\<close> is the root of the hosting project, if any; the result is the directory that holds the beads.\<close>

definition resolve_beads_dir :: "(string list \<Rightarrow> bool) \<Rightarrow> string list option \<Rightarrow> string list \<Rightarrow> string list \<Rightarrow> string list" where
  "resolve_beads_dir beads host org_path start =
     (case host of
        None \<Rightarrow> org_path
      | Some proj \<Rightarrow>
          if \<not> (length proj \<le> length start \<and> drop (length start - length proj) start = proj) then proj
          else or_else (find_nearest_beads_dir beads (Some proj) start) proj)"

end
