(* ===== verification/Bead_Gateway_Laws.thy ===== *)
theory Bead_Gateway_Laws
  imports Bead_Gateway
begin

text \<open>
  What has to hold before the beads tool is run, how the arguments can hide a command from the
  checks, and what becomes of the notifications that are sent through the gateway.
\<close>

section \<open>The checks\<close>

lemma then_check_ok [simp]: "then_check a b = Inr () \<longleftrightarrow> a = Inr () \<and> b = Inr ()"
  by (auto simp: then_check_def split: sum.splits)

lemma validate_worker_id_ok: "validate_worker_id w = Inr () \<longleftrightarrow> length w \<le> 128 \<and> safe_worker_id w"
  by (auto simp: validate_worker_id_def safe_worker_id_def)

lemma open_blockers_empty:
  "get_open_blockers show_bead ids = [] \<longleftrightarrow>
     (\<forall>j \<in> set ids. \<forall>b. show_bead j = Some b \<longrightarrow> ascii_lower (bi_status b) \<in> set CLOSED_STATUSES)"
  by (auto simp: get_open_blockers_def filter_empty_conv split: option.splits)

lemma can_close_ok:
  "validate_can_close stored yaml i ty s = Inr () \<longleftrightarrow>
     (\<exists>c. get_lifecycle_for_type stored yaml ty = Inr c \<and> is_terminal c s)"
  by (auto simp: validate_can_close_def is_valid_state_def is_terminal_def split: sum.splits)

lemma transition_ok:
  "validate_state_transition stored yaml i ty s t = Inr () \<longleftrightarrow>
     (\<exists>c. get_lifecycle_for_type stored yaml ty = Inr c \<and> is_valid_state c s \<and> is_valid_state c t \<and> can_transition c s t)"
  by (auto simp: validate_state_transition_def split: sum.splits)

text \<open>What the lifecycle check asks of a bead the tool knows.\<close>

definition lifecycle_respected :: "bd_world \<Rightarrow> string list \<Rightarrow> bead_info \<Rightarrow> bool" where
  "lifecycle_respected world args b =
     (\<exists>c. get_lifecycle_for_type (ls_stored (bw_sources world)) (ls_yaml (bw_sources world)) (bi_type b) = Inr c
      \<and> (get_command_from_args args = Some ''close'' \<longrightarrow>
           is_terminal c (bi_status b)
           \<and> (\<forall>j \<in> set (bi_depends_on b). \<forall>b'. bw_show world j = Some b' \<longrightarrow> ascii_lower (bi_status b') \<in> set CLOSED_STATUSES))
      \<and> (\<forall>t. get_command_from_args args = Some ''update'' \<longrightarrow> parse_status_from_args args = Some t \<longrightarrow>
           t \<noteq> [] \<longrightarrow> t \<noteq> bi_status b \<longrightarrow> can_transition c (bi_status b) t))"

lemma lifecycle_check_ok:
  assumes "check_lifecycle_transition (bw_sources world) (bw_show world) args = Inr ()"
    and "get_command_from_args args = Some ''close''
      \<or> get_command_from_args args = Some ''update'' \<and> (\<exists>t. parse_status_from_args args = Some t \<and> t \<noteq> [] \<and> t \<noteq> bi_status b)"
    and "get_bead_id_from_args args = Some i" and "bw_show world i = Some b"
  shows "lifecycle_respected world args b"
  using assms
  by (auto simp: check_lifecycle_transition_def lifecycle_respected_def can_close_ok transition_ok open_blockers_empty Let_def
      split: sum.splits if_splits)

lemma permission_check_ok:
  "check_bd_permission w args (Some d) = Inr () \<longleftrightarrow>
     (\<forall>cmd. get_command_from_args args = Some cmd \<longrightarrow>
        required_level cmd \<le> 1 \<or> required_level cmd \<le> bd_level d w (get_bead_id_from_args args))"
  by (auto simp: check_bd_permission_def Let_def split: option.splits)

lemma run_bd_cases:
  assumes "run_bd e world sid sk args w g = (r, g')"
  shows "(\<exists>x. r = Inl x \<and> g' = g)
    \<or> bd_checks world sk args w (gw_db g) = Inr () \<and> gw_runs g' = gw_runs g @ [args]"
proof -
  let ?g = "g\<lparr>gw_runs := gw_runs g @ [args]\<rparr>"
  obtain r1 g1 where act: "record_bead_activity e sid args (the w) ?g = (r1, g1)" by (metis surj_pair)
  then have runs: "gw_runs g1 = gw_runs g @ [args]"
    by (auto simp: record_bead_activity_def split: option.splits prod.splits if_splits)
  show ?thesis
    using assms runs act
    by (cases r1) (auto simp: run_bd_def Let_def split: sum.splits option.splits if_splits)
qed


definition calm_world :: bd_world where
  "calm_world = \<lparr>bw_sources = \<lparr>ls_stored = [], ls_yaml = lifecycle_yaml\<rparr>,
     bw_show = (\<lambda>i. if i = ''qn-1'' then Some \<lparr>bi_type = ''task'', bi_status = ''planning'', bi_depends_on = []\<rparr> else None),
     bw_okr = \<lparr>oc_require_okr_link = False, oc_strict_mode = False\<rparr>, bw_path_error = None, bw_proc = (\<lambda>_. Inr 0)\<rparr>"

definition org_gateway :: gateway where
  "org_gateway = \<lparr>gw_db = Some org_db, gw_runs = []\<rparr>"


section \<open>Arguments the checks misread\<close>

lemma starts_dash: "starts_with ''-'' s \<longleftrightarrow> (\<exists>t. s = CHR ''-'' # t)"
  by (cases s) (simp_all add: starts_with_def)

text \<open>
  The checks take the first argument that is not an option for the command, also when it is the value of an
  option. So with an option and its value in front, no check ever looks at the command that follows:
  every safe worker id passes, whatever its permissions and whatever the command and bead. And
  behind the command, the value of an option with a dash in it is taken for the bead: when the tool knows
  no such bead, the lifecycle of the real one is not checked.
\<close>

theorem option_values_hide_command:
  assumes "starts_with ''-'' opt" and "\<not> starts_with ''-'' v"
  shows "(v \<notin> fst ` set BD_COMMAND_PERMISSIONS \<and> length w \<le> 128 \<and> safe_worker_id w
      \<longrightarrow> bd_checks world no_skips (opt # v # rest) (Some w) d = Inr ())
    \<and> (CHR ''-'' \<in> set v \<and> bw_show world v = None \<and> \<not> starts_with ''-'' cmd
      \<longrightarrow> check_lifecycle_transition (bw_sources world) (bw_show world) (cmd # opt # v # rest) = Inr ())"
proof -
  have "check_bd_permission w (opt # v # rest) d = Inr ()" if "v \<notin> fst ` set BD_COMMAND_PERMISSIONS"
  proof -
    have "map_of BD_COMMAND_PERMISSIONS v = None" using that by (simp add: map_of_eq_None_iff)
    then show ?thesis using assms by (simp add: check_bd_permission_def required_level_def or_else_def)
  qed
  moreover have "check_lifecycle_transition (bw_sources world) (bw_show world) (opt # v # rest) = Inr ()"
    if "v \<notin> fst ` set BD_COMMAND_PERMISSIONS"
    using that assms by (auto simp: check_lifecycle_transition_def BD_COMMAND_PERMISSIONS_def)
  moreover have "check_okr_linking (bw_okr world) (opt # v # rest) = Inr ()"
    using assms(1) by (auto simp: check_okr_linking_def starts_dash)
  ultimately have "v \<notin> fst ` set BD_COMMAND_PERMISSIONS \<and> length w \<le> 128 \<and> safe_worker_id w
      \<longrightarrow> bd_checks world no_skips (opt # v # rest) (Some w) d = Inr ()"
    by (simp add: bd_checks_def no_skips_def validate_worker_id_ok)
  moreover have "check_lifecycle_transition (bw_sources world) (bw_show world) (cmd # opt # v # rest) = Inr ()"
    if "CHR ''-'' \<in> set v" "bw_show world v = None" "\<not> starts_with ''-'' cmd"
  proof -
    have "get_bead_id_from_args (cmd # opt # v # rest) = Some v"
      using that assms by (simp add: get_bead_id_from_args_def)
    then show ?thesis using that(2) by (simp add: check_lifecycle_transition_def)
  qed
  ultimately show ?thesis by blast
qed

theorem option_values_hide_command_witness:
  "bd_checks calm_world no_skips [''--format'', ''json'', ''delete'', ''qn-1''] (Some ''eng'') (Some org_db) = Inr ()
   \<and> check_lifecycle_transition (bw_sources calm_world) (bw_show calm_world)
        [''update'', ''--assignee'', ''dev-1'', ''qn-1'', ''--status=done''] = Inr ()"
proof -
  have "starts_with ''-'' ''--format''" "\<not> starts_with ''-'' ''json''" "starts_with ''-'' ''--assignee''" "\<not> starts_with ''-'' ''dev-1''"
    "\<not> starts_with ''-'' ''update''"
    by (simp_all add: starts_with_def)
  moreover have "safe_worker_id ''eng''" by code_simp
  moreover have "''json'' \<notin> fst ` set BD_COMMAND_PERMISSIONS" by (simp add: BD_COMMAND_PERMISSIONS_def)
  moreover have "bw_show calm_world ''dev-1'' = None" by (simp add: calm_world_def)
  ultimately show ?thesis
    using option_values_hide_command [of "''--format''" "''json''" "''eng''" calm_world "[''delete'', ''qn-1'']" "Some org_db"]
      option_values_hide_command [of "''--assignee''" "''dev-1''" _ calm_world "[''qn-1'', ''--status=done'']" _ "''update''"]
    by simp
qed

section \<open>Notifications\<close>

lemma notification_command: "get_command_from_args (notification_args w mid pr) = Some ''create''"
  by (simp add: notification_args_def starts_with_def)

lemma notification_bead: "get_bead_id_from_args (notification_args w mid pr) = None"
  by (simp add: notification_args_def get_bead_id_from_args_def starts_with_def)

text \<open>A creation in the name of someone without a global level of write is refused, and nothing is run.\<close>

lemma create_refused:
  assumes "gw_db g = Some d" and "global_level d w < 3" and "w \<noteq> []"
    and "get_command_from_args args = Some ''create''" and "get_bead_id_from_args args = None"
  shows "\<exists>x. run_bd e world sid no_skips args (Some w) g = (Inl x, g)"
proof -
  have "check_bd_permission w args (Some d) \<noteq> Inr ()"
    using assms(2,4,5)
    by (simp add: permission_check_ok bd_level_def required_level_def or_else_def BD_COMMAND_PERMISSIONS_def)
  then have "bd_checks world no_skips args (Some w) (gw_db g) \<noteq> Inr ()"
    using assms(3) by (auto simp: bd_checks_def assms(1) no_skips_def truthy_def then_check_def split: sum.splits)
  then obtain x where "bd_checks world no_skips args (Some w) (gw_db g) = Inl x"
    by (cases "bd_checks world no_skips args (Some w) (gw_db g)") auto
  then show ?thesis by (simp add: run_bd_def)
qed

lemma notify_worker_refused:
  assumes "gw_db g = Some d" and "global_level d ''worker-ceo'' < 3"
  shows "notify_worker e world sid w mid pr g = (None, g)"
  using create_refused [OF assms _ notification_command notification_bead, of e world sid w mid pr]
  by (auto simp: notify_worker_def)

text \<open>
  Notifications of new messages are created in the name of a worker \<open>worker-ceo\<close>. Unless that id has been
  granted a global level of write, the gateway refuses every one of them, for whatever
  message and recipients: the tool is never run and the answer is the empty list.
\<close>

theorem notifications_need_grant:
  assumes "gw_db g = Some d" and "global_level d ''worker-ceo'' < 3"
  shows "notify_all e world sid mid pr ws g = ([], g)"
  using notify_worker_refused [OF assms] by (induction ws) simp_all

theorem notifications_need_grant_witness:
  "notify_all witness_env calm_world 1 ''m'' ''2'' [''mgr'', ''eng''] org_gateway = ([], org_gateway)"
proof -
  have "gw_db org_gateway = Some org_db" "global_level org_db ''worker-ceo'' < 3"
    by (simp_all add: org_gateway_def global_level_def get_permission_for_grantee_def org_defs)
  then show ?thesis by (rule notifications_need_grant)
qed

section \<open>Finding the beads directory\<close>

text \<open>The nearest directory on the way up that has beads, not beyond the boundary.\<close>

lemma find_nearest_beads_dir_spec:
  assumes "find_nearest_beads_dir beads boundary start = Some p"
  shows "\<exists>below. start = below @ p \<and> beads p
    \<and> (\<forall>xs ys. below = xs @ ys \<and> ys \<noteq> [] \<longrightarrow> \<not> beads (ys @ p) \<and> boundary \<noteq> Some (ys @ p))"
  using assms
proof (induction start)
  case Nil
  then show ?case by (intro exI [of _ "[]"]) (auto split: if_splits)
next
  case (Cons c cs)
  show ?case
  proof (cases "beads (c # cs)")
    case True
    then show ?thesis using Cons.prems by (intro exI [of _ "[]"]) auto
  next
    case False
    then have b: "boundary \<noteq> Some (c # cs)" "find_nearest_beads_dir beads boundary cs = Some p"
      using Cons.prems by (auto split: if_splits)
    from Cons.IH [OF b(2)] obtain below where k: "cs = below @ p" "beads p"
      "\<forall>xs ys. below = xs @ ys \<and> ys \<noteq> [] \<longrightarrow> \<not> beads (ys @ p) \<and> boundary \<noteq> Some (ys @ p)" by blast
    have "\<forall>xs ys. c # below = xs @ ys \<and> ys \<noteq> [] \<longrightarrow> \<not> beads (ys @ p) \<and> boundary \<noteq> Some (ys @ p)"
      using k(1,3) False b(1) by (auto simp: Cons_eq_append_conv)
    then show ?thesis using k by (intro exI [of _ "c # below"]) simp
  qed
qed

end
