(* ===== verification/Work_Queue.thy ===== *)
theory Work_Queue
  imports Database
begin

text \<open>
  \<open>shared/wrkr/core/task.py\<close> and the in-memory queue of \<open>shared/wrkr/work/queue.py\<close>: a worker's queue
  of issues, from which it takes the open one with the smallest priority number that nothing blocks.
  The dictionaries are lists of rows in insertion order, keyed by id.
\<close>

section \<open>Tasks and issues\<close>

record task =
  ta_id :: ident
  ta_title :: string
  ta_description :: string
  ta_priority :: int
  ta_source :: string
  ta_blocked_by :: "ident list"
  ta_metadata :: "(string \<times> string) list"
  ta_created_at :: datetime
  ta_ask_id :: "ident option"
  ta_okr_id :: "ident option"

definition task_post_init :: "task \<Rightarrow> py_error + task" where
  "task_post_init t =
     (if 0 \<le> ta_priority t \<and> ta_priority t \<le> 4 then Inr t else Inl (ValueError ''Priority must be between 0 and 4''))"

definition is_blocked :: "task \<Rightarrow> bool" where
  "is_blocked t = (0 < length (ta_blocked_by t))"

record issue =
  is_id :: ident
  is_title :: string
  is_description :: string
  is_priority :: int
  is_type :: string
  is_status :: string
  is_assignee :: ident
  is_ask_id :: "ident option"
  is_okr_id :: "ident option"
  is_dependencies :: "(string \<times> ident) list"
  is_created_at :: datetime
  is_blocked_reason :: "string option"
  is_failure_reason :: "string option"

record bqueue =
  bq_worker_id :: ident
  bq_issues :: "issue list"
  bq_in_progress :: "task list"

definition new_queue :: "ident \<Rightarrow> bqueue" where
  "new_queue w = \<lparr>bq_worker_id = w, bq_issues = [], bq_in_progress = []\<rparr>"

text \<open>\<open>d[key] = row\<close>: in place when the key is there, at the end otherwise.\<close>

fun dict_put :: "('r \<Rightarrow> ident) \<Rightarrow> 'r \<Rightarrow> 'r list \<Rightarrow> 'r list" where
  "dict_put key r [] = [r]"
| "dict_put key r (x # xs) = (if key x = key r then r # xs else x # dict_put key r xs)"

section \<open>Operations\<close>

record new_issue =
  ni_id :: ident
  ni_title :: string
  ni_description :: string
  ni_priority :: int
  ni_type :: string
  ni_status :: string
  ni_ask_id :: "ident option"
  ni_okr_id :: "ident option"
  ni_blocked_by :: "ident list"

definition add_issue :: "env \<Rightarrow> new_issue \<Rightarrow> bqueue \<Rightarrow> bqueue" where
  "add_issue e n q =
     q\<lparr>bq_issues := dict_put is_id
         \<lparr>is_id = ni_id n, is_title = ni_title n, is_description = ni_description n, is_priority = ni_priority n,
          is_type = ni_type n, is_status = ni_status n, is_assignee = bq_worker_id q, is_ask_id = ni_ask_id n,
          is_okr_id = ni_okr_id n, is_dependencies = map (\<lambda>b. (''depends-on'', b)) (ni_blocked_by n),
          is_created_at = now e, is_blocked_reason = None, is_failure_reason = None\<rparr> (bq_issues q)\<rparr>"

definition parse_issue_to_task :: "env \<Rightarrow> issue \<Rightarrow> py_error + task" where
  "parse_issue_to_task e i =
     task_post_init \<lparr>ta_id = is_id i, ta_title = is_title i, ta_description = is_description i, ta_priority = is_priority i,
       ta_source = ''beads'', ta_blocked_by = map snd (filter (\<lambda>d. fst d = ''depends-on'') (is_dependencies i)),
       ta_metadata = [(''issue_type'', is_type i)], ta_created_at = now e, ta_ask_id = is_ask_id i, ta_okr_id = is_okr_id i\<rparr>"

definition set_issue :: "ident \<Rightarrow> (issue \<Rightarrow> issue) \<Rightarrow> bqueue \<Rightarrow> bqueue" where
  "set_issue i f q = q\<lparr>bq_issues := update_where (\<lambda>x. is_id x = i) f (bq_issues q)\<rparr>"

definition drop_progress :: "ident \<Rightarrow> bqueue \<Rightarrow> bqueue" where
  "drop_progress i q = q\<lparr>bq_in_progress := delete_where (\<lambda>t. ta_id t = i) (bq_in_progress q)\<rparr>"

definition open_issues :: "bqueue \<Rightarrow> issue list" where
  "open_issues q =
     order_by is_priority (filter (\<lambda>i. is_status i = ''open'' \<and> is_assignee i = bq_worker_id q) (bq_issues q))"

fun pop_loop :: "env \<Rightarrow> issue list \<Rightarrow> bqueue \<Rightarrow> (bqueue, task option) outcome" where
  "pop_loop e [] q = ok None q"
| "pop_loop e (i # xs) q =
     (case parse_issue_to_task e i of
        Inl x \<Rightarrow> raise x q
      | Inr t \<Rightarrow>
          if is_blocked t then pop_loop e xs q
          else ok (Some t) (set_issue (ta_id t) (\<lambda>x. x\<lparr>is_status := ''in_progress''\<rparr>)
                 (q\<lparr>bq_in_progress := dict_put ta_id t (bq_in_progress q)\<rparr>)))"

definition pop_highest_priority :: "env \<Rightarrow> bqueue \<Rightarrow> (bqueue, task option) outcome" where
  "pop_highest_priority e q = pop_loop e (open_issues q) q"

definition push :: "env \<Rightarrow> task \<Rightarrow> bqueue \<Rightarrow> bqueue" where
  "push e t q =
     add_issue e \<lparr>ni_id = ta_id t, ni_title = ta_title t, ni_description = ta_description t, ni_priority = ta_priority t,
       ni_type = ''task'', ni_status = ''open'', ni_ask_id = ta_ask_id t, ni_okr_id = ta_okr_id t,
       ni_blocked_by = ta_blocked_by t\<rparr> q"

fun ready_tasks :: "env \<Rightarrow> issue list \<Rightarrow> py_error + task list" where
  "ready_tasks e [] = Inr []"
| "ready_tasks e (i # xs) =
     (case parse_issue_to_task e i of
        Inl x \<Rightarrow> Inl x
      | Inr t \<Rightarrow> (case ready_tasks e xs of
                  Inl x \<Rightarrow> Inl x
                | Inr ts \<Rightarrow> Inr (if is_blocked t then ts else t # ts)))"

definition peek :: "env \<Rightarrow> nat \<Rightarrow> bqueue \<Rightarrow> py_error + task list" where
  "peek e limit q = ready_tasks e (take limit (open_issues q))"

definition mark_done :: "ident \<Rightarrow> bqueue \<Rightarrow> bqueue" where
  "mark_done i q = set_issue i (\<lambda>x. x\<lparr>is_status := ''closed''\<rparr>) (drop_progress i q)"

definition mark_blocked :: "ident \<Rightarrow> string \<Rightarrow> bqueue \<Rightarrow> bqueue" where
  "mark_blocked i reason q =
     set_issue i (\<lambda>x. x\<lparr>is_status := ''blocked'', is_blocked_reason := Some reason\<rparr>) (drop_progress i q)"

definition mark_failed :: "ident \<Rightarrow> string \<Rightarrow> bqueue \<Rightarrow> bqueue" where
  "mark_failed i err q =
     set_issue i (\<lambda>x. x\<lparr>is_status := ''closed'', is_failure_reason := Some err\<rparr>) (drop_progress i q)"

definition requeue :: "ident \<Rightarrow> bqueue \<Rightarrow> bqueue" where
  "requeue i q = set_issue i (\<lambda>x. x\<lparr>is_status := ''open''\<rparr>) q"

definition queue_size :: "env \<Rightarrow> bqueue \<Rightarrow> py_error + nat" where
  "queue_size e q = map_sum id length (ready_tasks e (filter (\<lambda>i. is_status i = ''open'') (bq_issues q)))"

section \<open>Queues in order\<close>

text \<open>One issue per id, all of them the worker's own, with a priority a task accepts.\<close>

definition issue_ok :: "ident \<Rightarrow> issue \<Rightarrow> bool" where
  "issue_ok w i = (is_assignee i = w \<and> 0 \<le> is_priority i \<and> is_priority i \<le> 4)"

definition queue_wf :: "bqueue \<Rightarrow> bool" where
  "queue_wf q = (distinct (map is_id (bq_issues q)) \<and> (\<forall>i \<in> set (bq_issues q). issue_ok (bq_worker_id q) i))"

definition unblocked :: "issue \<Rightarrow> bool" where
  "unblocked i = (\<forall>d \<in> set (is_dependencies i). fst d \<noteq> ''depends-on'')"

definition ready :: "bqueue \<Rightarrow> (ident \<times> int) set" where
  "ready q = {(is_id i, is_priority i) |i. i \<in> set (bq_issues q) \<and> is_status i = ''open'' \<and> unblocked i}"

definition the_task :: "env \<Rightarrow> issue \<Rightarrow> task" where
  "the_task e i =
     \<lparr>ta_id = is_id i, ta_title = is_title i, ta_description = is_description i, ta_priority = is_priority i,
       ta_source = ''beads'', ta_blocked_by = map snd (filter (\<lambda>d. fst d = ''depends-on'') (is_dependencies i)),
       ta_metadata = [(''issue_type'', is_type i)], ta_created_at = now e, ta_ask_id = is_ask_id i, ta_okr_id = is_okr_id i\<rparr>"

lemma parse_ok: "issue_ok w i \<Longrightarrow> parse_issue_to_task e i = Inr (the_task e i)"
  by (simp add: issue_ok_def parse_issue_to_task_def task_post_init_def the_task_def)

lemma the_task_simps [simp]: "ta_id (the_task e i) = is_id i" "ta_priority (the_task e i) = is_priority i"
  by (simp_all add: the_task_def)

lemma is_blocked_the_task [simp]: "is_blocked (the_task e i) \<longleftrightarrow> \<not> unblocked i"
  by (auto simp: is_blocked_def the_task_def unblocked_def filter_empty_conv)

lemma dict_put_set: "set (dict_put key r xs) \<subseteq> insert r (set xs)"
  by (induction xs) auto

lemma dict_put_keys: "set (map key (dict_put key r xs)) = insert (key r) (set (map key xs))"
  by (induction xs) auto

lemma dict_put_distinct: "distinct (map key xs) \<Longrightarrow> distinct (map key (dict_put key r xs))"
proof (induction xs)
  case (Cons x xs)
  then show ?case using dict_put_keys [of key r xs] by auto
qed simp

lemma set_issue_wf:
  assumes "queue_wf q" and "\<And>x. is_id (f x) = is_id x \<and> is_assignee (f x) = is_assignee x \<and> is_priority (f x) = is_priority x"
  shows "queue_wf (set_issue i f q)"
proof -
  have "map is_id (update_where p f xs) = map is_id xs" for p xs using assms(2) by (induction xs) auto
  then show ?thesis using assms by (auto simp: queue_wf_def set_issue_def update_where_set issue_ok_def)
qed

lemma progress_wf [simp]: "queue_wf (q\<lparr>bq_in_progress := x\<rparr>) = queue_wf q"
  by (simp add: queue_wf_def)

lemma drop_progress_wf [simp]: "queue_wf (drop_progress i q) = queue_wf q"
  by (simp add: drop_progress_def)

lemma push_wf:
  assumes "queue_wf q" and "task_post_init t = Inr t"
  shows "queue_wf (push e t q)"
proof -
  have "0 \<le> ta_priority t \<and> ta_priority t \<le> 4" using assms(2) by (simp add: task_post_init_def split: if_splits)
  then show ?thesis
    using assms(1) dict_put_set by (fastforce simp: queue_wf_def push_def add_issue_def issue_ok_def intro: dict_put_distinct)
qed

lemma operations_wf:
  assumes "queue_wf q"
  shows "queue_wf (mark_done i q)" and "queue_wf (mark_blocked i r q)" and "queue_wf (mark_failed i r q)" and "queue_wf (requeue i q)"
  using assms by (simp_all add: mark_done_def mark_blocked_def mark_failed_def requeue_def set_issue_wf)

section \<open>Taking the next task\<close>

lemma open_issues_set:
  "queue_wf q \<Longrightarrow> set (open_issues q) = {i \<in> set (bq_issues q). is_status i = ''open''}"
  by (auto simp: open_issues_def queue_wf_def issue_ok_def)

lemma open_issues_sorted: "sorted (map is_priority (open_issues q))"
  by (simp add: open_issues_def order_by_def)

lemma pop_loop_result:
  assumes "\<forall>i \<in> set xs. issue_ok w i" and "sorted (map is_priority xs)"
  shows "(if \<exists>i \<in> set xs. unblocked i
     then \<exists>i \<in> set xs. unblocked i \<and> (\<forall>j \<in> set xs. unblocked j \<longrightarrow> is_priority i \<le> is_priority j)
       \<and> pop_loop e xs q = ok (Some (the_task e i)) (set_issue (is_id i) (\<lambda>x. x\<lparr>is_status := ''in_progress''\<rparr>)
                 (q\<lparr>bq_in_progress := dict_put ta_id (the_task e i) (bq_in_progress q)\<rparr>))
     else pop_loop e xs q = ok None q)"
  using assms
proof (induction xs)
  case (Cons i xs)
  then have p: "parse_issue_to_task e i = Inr (the_task e i)" using parse_ok [of w i e] by simp
  show ?case
  proof (cases "unblocked i")
    case True
    then show ?thesis using Cons.prems p by auto
  next
    case False
    then show ?thesis using Cons p by auto
  qed
qed simp

text \<open>The contract of a queue of work: what is taken is a most urgent of the ready items, and no other one.\<close>

locale priority_work =
  fixes pop :: "'q \<Rightarrow> 'i option \<times> 'q" and items :: "'q \<Rightarrow> 'i set" and prio :: "'i \<Rightarrow> int" and valid :: "'q \<Rightarrow> bool"
  assumes finite_items: "finite (items q)"
    and pop_none: "valid q \<Longrightarrow> items q = {} \<Longrightarrow> pop q = (None, q)"
    and pop_some: "valid q \<Longrightarrow> items q \<noteq> {} \<Longrightarrow>
      \<exists>i q'. pop q = (Some i, q') \<and> i \<in> items q \<and> (\<forall>j \<in> items q. prio i \<le> prio j) \<and> items q' = items q - {i} \<and> valid q'"
begin

fun drain :: "nat \<Rightarrow> 'q \<Rightarrow> 'i list \<times> 'q" where
  "drain 0 q = ([], q)"
| "drain (Suc n) q =
     (case pop q of
        (None, q1) \<Rightarrow> ([], q1)
      | (Some i, q1) \<Rightarrow> (case drain n q1 of (xs, q2) \<Rightarrow> (i # xs, q2)))"

lemma drain_all:
  assumes "valid q" and "card (items q) \<le> n"
  shows "\<exists>xs q'. drain n q = (xs, q') \<and> distinct xs \<and> set xs = items q \<and> sorted (map prio xs) \<and> items q' = {} \<and> valid q'"
  using assms
proof (induction n arbitrary: q)
  case 0
  then have "items q = {}" using finite_items by simp
  then show ?case using 0 by simp
next
  case (Suc n)
  show ?case
  proof (cases "items q = {}")
    case True
    then show ?thesis using Suc.prems pop_none by simp
  next
    case False
    from pop_some [OF Suc.prems(1) False] obtain i q1 where
      p: "pop q = (Some i, q1)" "i \<in> items q" "\<forall>j \<in> items q. prio i \<le> prio j" "items q1 = items q - {i}" "valid q1" by blast
    have "card (items q1) \<le> n" using Suc.prems(2) p(2,4) finite_items by (simp add: card_Diff_singleton)
    from Suc.IH [OF p(5) this] obtain xs q' where
      k: "drain n q1 = (xs, q')" "distinct xs" "set xs = items q1" "sorted (map prio xs)" "items q' = {}" "valid q'" by blast
    then have "distinct (i # xs) \<and> set (i # xs) = items q \<and> sorted (map prio (i # xs))"
      using p by auto
    then show ?thesis using p(1) k by (intro exI [of _ "i # xs"] exI [of _ q']) simp
  qed
qed

end

text \<open>The pop of the model as an operation of the contract; errors count as nothing taken.\<close>

definition pop_item :: "env \<Rightarrow> bqueue \<Rightarrow> (ident \<times> int) option \<times> bqueue" where
  "pop_item e q =
     (case pop_highest_priority e q of
        (Inl _, q') \<Rightarrow> (None, q')
      | (Inr r, q') \<Rightarrow> (map_option (\<lambda>t. (ta_id t, ta_priority t)) r, q'))"

lemma ready_finite: "finite (ready q)"
proof -
  have "ready q \<subseteq> (\<lambda>i. (is_id i, is_priority i)) ` set (bq_issues q)" by (auto simp: ready_def)
  then show ?thesis by (rule finite_subset) simp
qed

lemma ready_open: "queue_wf q \<Longrightarrow> ready q = {(is_id i, is_priority i) |i. i \<in> set (open_issues q) \<and> unblocked i}"
  by (auto simp: ready_def open_issues_set)

lemma ready_take:
  assumes "queue_wf q" and "i \<in> set (bq_issues q)"
  shows "ready (set_issue (is_id i) (\<lambda>x. x\<lparr>is_status := ''in_progress''\<rparr>) q) = ready q - {(is_id i, is_priority i)}"
proof -
  have "j = i" if "j \<in> set (bq_issues q)" "is_id j = is_id i" for j
    using assms that by (auto simp: queue_wf_def intro: distinct_map_unique)
  then show ?thesis by (force simp: ready_def set_issue_def update_where_set unblocked_def)
qed

lemma pop_cases:
  assumes "queue_wf q"
  shows "if ready q = {} then pop_highest_priority e q = ok None q
    else \<exists>t q'. pop_highest_priority e q = ok (Some t) q' \<and> (ta_id t, ta_priority t) \<in> ready q
      \<and> (\<forall>j \<in> ready q. ta_priority t \<le> snd j) \<and> ready q' = ready q - {(ta_id t, ta_priority t)} \<and> queue_wf q'"
proof -
  have "\<forall>i \<in> set (open_issues q). issue_ok (bq_worker_id q) i" using assms by (auto simp: open_issues_set queue_wf_def)
  note r = pop_loop_result [OF this open_issues_sorted, of e q]
  show ?thesis
  proof (cases "\<exists>i \<in> set (open_issues q). unblocked i")
    case True
    with r obtain i where i: "i \<in> set (open_issues q)" "unblocked i"
      "\<forall>j \<in> set (open_issues q). unblocked j \<longrightarrow> is_priority i \<le> is_priority j"
      "pop_highest_priority e q = ok (Some (the_task e i)) (set_issue (is_id i) (\<lambda>x. x\<lparr>is_status := ''in_progress''\<rparr>)
                 (q\<lparr>bq_in_progress := dict_put ta_id (the_task e i) (bq_in_progress q)\<rparr>))"
      by (auto simp: pop_highest_priority_def)
    let ?q = "q\<lparr>bq_in_progress := dict_put ta_id (the_task e i) (bq_in_progress q)\<rparr>"
    have m: "i \<in> set (bq_issues ?q)" using i(1) assms by (simp add: open_issues_set)
    have "ready ?q = ready q" by (simp add: ready_def)
    then have "ready (set_issue (is_id i) (\<lambda>x. x\<lparr>is_status := ''in_progress''\<rparr>) ?q) = ready q - {(is_id i, is_priority i)}"
      using ready_take [OF _ m] assms by simp
    moreover have "queue_wf (set_issue (is_id i) (\<lambda>x. x\<lparr>is_status := ''in_progress''\<rparr>) ?q)" using assms by (simp add: set_issue_wf)
    moreover have "(is_id i, is_priority i) \<in> ready q" using i(1,2) assms by (auto simp: ready_open)
    moreover have "\<forall>j \<in> ready q. is_priority i \<le> snd j" using i(3) assms by (auto simp: ready_open)
    ultimately show ?thesis using i(4) by auto
  next
    case False
    then have "ready q = {}" using assms by (auto simp: ready_open)
    then show ?thesis using r False by (auto simp: pop_highest_priority_def split: if_splits)
  qed
qed

interpretation wq: priority_work "pop_item e" ready snd queue_wf for e
proof
  fix q
  show "finite (ready q)" by (rule ready_finite)
  show "pop_item e q = (None, q)" if "queue_wf q" "ready q = {}"
    using pop_cases [OF that(1), of e] that(2) by (simp add: pop_item_def)
  show "\<exists>i q'. pop_item e q = (Some i, q') \<and> i \<in> ready q \<and> (\<forall>j \<in> ready q. snd i \<le> snd j)
      \<and> ready q' = ready q - {i} \<and> queue_wf q'" if "queue_wf q" "ready q \<noteq> {}"
    using pop_cases [OF that(1), of e] that(2) by (auto simp: pop_item_def)
qed

lemma ready_tasks_ok:
  assumes "\<forall>i \<in> set xs. issue_ok w i"
  shows "ready_tasks e xs = Inr (map (the_task e) (filter unblocked xs))"
  using assms by (induction xs) (auto simp: parse_ok)

lemma ready_image:
  "ready q = (\<lambda>i. (is_id i, is_priority i)) ` set (filter unblocked (filter (\<lambda>i. is_status i = ''open'') (bq_issues q)))"
  by (auto simp: ready_def)

lemma queue_size_eq:
  assumes "queue_wf q"
  shows "queue_size e q = Inr (card (ready q))"
proof -
  let ?xs = "filter unblocked (filter (\<lambda>i. is_status i = ''open'') (bq_issues q))"
  have "inj_on (\<lambda>i. (is_id i, is_priority i)) (set ?xs)"
    using assms by (auto simp: queue_wf_def inj_on_def intro: distinct_map_unique)
  moreover have "card (set ?xs) = length ?xs" using assms by (intro distinct_card) (simp add: queue_wf_def distinct_map)
  ultimately have "card (ready q) = length ?xs" by (simp add: ready_image card_image del: filter_filter)
  then show ?thesis
    using assms ready_tasks_ok [of "filter (\<lambda>i. is_status i = ''open'') (bq_issues q)" "bq_worker_id q" e]
    by (simp add: queue_size_def queue_wf_def)
qed

text \<open>
  C15: A queue that is fed with tasks never raises, and \<open>size\<close> is the number of its ready issues. Taking that
  many tasks from it one after the other yields every ready issue exactly once, in the order
  of priority, most urgent first, and leaves none.
\<close>

theorem work_queue_drains:
  assumes "queue_wf q"
  shows "\<exists>n ts q'. queue_size e q = Inr n \<and> wq.drain e n q = (ts, q') \<and> length ts = n
    \<and> distinct ts \<and> set ts = ready q \<and> sorted (map snd ts) \<and> queue_size e q' = Inr 0
    \<and> (ready q \<noteq> {} \<longrightarrow> (\<exists>t q1. pop_highest_priority e q = ok (Some t) q1 \<and> \<not> is_blocked t
         \<and> (ta_id t, ta_priority t) \<in> ready q \<and> (\<forall>j \<in> ready q. ta_priority t \<le> snd j)))"
proof -
  from wq.drain_all [OF assms order_refl, of e] obtain ts q' where
    d: "wq.drain e (card (ready q)) q = (ts, q')" "distinct ts" "set ts = ready q" "sorted (map snd ts)" "ready q' = {}" "queue_wf q'"
    by blast
  moreover have "length ts = card (ready q)" using d(2,3) distinct_card by force
  moreover have "\<exists>t q1. pop_highest_priority e q = ok (Some t) q1 \<and> \<not> is_blocked t
         \<and> (ta_id t, ta_priority t) \<in> ready q \<and> (\<forall>j \<in> ready q. ta_priority t \<le> snd j)" if "ready q \<noteq> {}"
  proof -
    from pop_cases [OF assms, of e] that obtain t q1 where p: "pop_highest_priority e q = ok (Some t) q1"
      "(ta_id t, ta_priority t) \<in> ready q" "\<forall>j \<in> ready q. ta_priority t \<le> snd j" by auto
    have "\<not> is_blocked t" if "pop_loop e xs q = ok (Some t) q1" for xs
      using that by (induction xs) (auto split: sum.splits if_splits)
    then show ?thesis using p by (auto simp: pop_highest_priority_def)
  qed
  ultimately show ?thesis using queue_size_eq [OF assms, of e] queue_size_eq [OF d(6), of e] by auto
qed

definition demo_issue :: "ident \<Rightarrow> int \<Rightarrow> ident list \<Rightarrow> issue" where
  "demo_issue i p deps = \<lparr>is_id = i, is_title = [], is_description = [], is_priority = p, is_type = ''task'', is_status = ''open'',
     is_assignee = ''eng'', is_ask_id = None, is_okr_id = None, is_dependencies = map (\<lambda>b. (''depends-on'', b)) deps,
     is_created_at = 0, is_blocked_reason = None, is_failure_reason = None\<rparr>"

definition demo_queue :: bqueue where
  "demo_queue = \<lparr>bq_worker_id = ''eng'', bq_issues = [demo_issue ''a'' 3 [], demo_issue ''b'' 0 [''a''], demo_issue ''c'' 1 []],
     bq_in_progress = []\<rparr>"

lemma demo_queue_wf: "queue_wf demo_queue"
  by (simp add: queue_wf_def demo_queue_def demo_issue_def issue_ok_def)

lemma demo_ready: "ready demo_queue = {(''a'', 3), (''c'', 1)}"
  by (simp add: ready_image demo_queue_def demo_issue_def unblocked_def)

definition witness_time :: env where
  "witness_time = \<lparr>now = 0, current_timestamp = 0, bus_set = False\<rparr>"

theorem work_queue_drains_witness:
  "\<exists>ts q'. wq.drain witness_time 2 demo_queue = (ts, q') \<and> set ts = {(''a'', 3), (''c'', 1)} \<and> sorted (map snd ts)"
proof -
  have "queue_size witness_time demo_queue = Inr 2" by (simp add: queue_size_eq [OF demo_queue_wf] demo_ready)
  then show ?thesis using work_queue_drains [OF demo_queue_wf, of witness_time] by (auto simp: demo_ready)
qed

text \<open>
  \<open>peek\<close> cuts the list to its limit before it drops blocked issues, so a blocked issue in front hides the task
  that \<open>pop_highest_priority\<close> takes; and a requeued task is open again but still listed as in progress.
\<close>

lemma peek_hides_ready_task:
  "peek e 1 demo_queue = Inr [] \<and> (\<exists>t q. pop_highest_priority e demo_queue = ok (Some t) q \<and> ta_id t = ''c'')"
  by (simp add: peek_def pop_highest_priority_def open_issues_def order_by_def demo_queue_def demo_issue_def
      parse_issue_to_task_def task_post_init_def is_blocked_def)

end
