(* ===== verification/Delegation_Manager.thy ===== *)
theory Delegation_Manager
  imports Hiring
begin

text \<open>
  \<open>cli/core/worker/delegation.py\<close>: a manager hands part of its hiring authority to a direct report
  and takes it back. The manager and the report are worker objects with their own caches. Another
  process may change the database between the creation of the grant and the versioned update of
  the report's row; that is the argument \<open>other\<close> (the identity when nothing interferes).
\<close>

section \<open>Delegating\<close>

type_synonym two_workers = "db \<times> wobj \<times> wobj"

text \<open>The checks of \<open>delegate_authority\<close> before it writes, in the order of the code.\<close>

definition delegation_checks ::
  "env \<Rightarrow> hiring_scope \<Rightarrow> int \<Rightarrow> two_workers \<Rightarrow> (two_workers, unit) outcome" where
  "delegation_checks e scope budget st =
     (case st of (d, me, report) \<Rightarrow>
      if wo_id report = wo_id me then raise (ValueError ''Cannot delegate authority to yourself'') st
      else case worker_data d me of
        (Inl x, me1) \<Rightarrow> raise x (d, me1, report)
      | (Inr w, me1) \<Rightarrow>
        if wk_status w = Terminated
          then raise (ValueError ''Terminated workers cannot delegate authority'') (d, me1, report)
        else case worker_data d report of
          (Inl x, report1) \<Rightarrow> raise x (d, me1, report1)
        | (Inr rw, report1) \<Rightarrow>
          if wk_status rw = Terminated
            then raise (ValueError ''Cannot delegate authority to terminated worker'') (d, me1, report1)
          else if wk_manager_id rw \<noteq> Some (wo_id me)
            then raise (ValueError ''not a direct report'') (d, me1, report1)
          else if check_delegation_cycle e d (wo_id me) (wo_id report)
            then raise (CircularDelegationError (wo_id me) (wo_id report)) (d, me1, report1)
          else case from_json (wk_hiring_authority_scope w) of
            Inl x \<Rightarrow> raise x (d, me1, report1)
          | Inr own \<Rightarrow>
            if \<exists>role \<in> set (hs_allowed_roles scope). \<not> can_hire_role own role
              then raise (InsufficientHiringAuthority ''role not in own authority'') (d, me1, report1)
            else if hs_max_cost own < hs_max_cost scope
              then raise (InsufficientHiringAuthority ''max_cost exceeding own'') (d, me1, report1)
            else if wk_delegated_budget w < budget
              then raise (InsufficientHiringAuthority ''budget exceeding own'') (d, me1, report1)
            else ok () (d, me1, report1))"

definition delegated_payload :: "ident \<Rightarrow> ident \<Rightarrow> int \<Rightarrow> json \<Rightarrow> json" where
  "delegated_payload me report budget scope =
     JObj [(''delegator_id'', JStr me), (''delegate_id'', JStr report), (''budget'', JInt budget),
           (''scope'', scope)]"

text \<open>
  \<open>publish\<close> takes the entity type from the first part of the event type and the entity id from the
  payload keys \<open>worker_id\<close> or \<open>id\<close>, which delegation payloads do not have: it is \<open>unknown\<close>.
\<close>

definition publish_delegation :: "env \<Rightarrow> string \<Rightarrow> json \<Rightarrow> db \<Rightarrow> (db, unit) outcome" where
  "publish_delegation e ty payload d =
     (if bus_set e then bus_publish e ty ''delegation'' ''unknown'' payload None d else ok () d)"

definition delegate_authority ::
  "env \<Rightarrow> ident \<Rightarrow> (db \<Rightarrow> db) \<Rightarrow> int \<Rightarrow> hiring_scope \<Rightarrow> string option \<Rightarrow> datetime option
   \<Rightarrow> two_workers \<Rightarrow> (two_workers, grant_row) outcome" where
  "delegate_authority e fresh other budget scope cli expires st =
     and_then (delegation_checks e scope budget st) (\<lambda>_ st1.
       case st1 of (d, me, report) \<Rightarrow>
       let expected = get_worker_delegation_version d (wo_id report)
       in case create_delegation_grant e fresh (wo_id me) (wo_id report) (to_json scope) budget cli
                 expires None d of
            (Inl x, d1) \<Rightarrow> raise x (d1, me, report)
          | (Inr g, d1) \<Rightarrow>
              (case update_worker_delegation e (wo_id report) (Some (to_json scope)) budget (Some (wo_id me))
                      expires expected (other d1) of
                 (True, d2) \<Rightarrow>
                   (case publish_delegation e ''delegation.authority_delegated''
                           (delegated_payload (wo_id me) (wo_id report) budget (to_json scope)) d2 of
                      (Inl x, d3) \<Rightarrow> raise x (d3, me, report\<lparr>wo_data := None\<rparr>)
                    | (Inr _, d3) \<Rightarrow> ok g (d3, me, report\<lparr>wo_data := None\<rparr>))
               | (False, d2) \<Rightarrow>
                   (case delete_grant_row (g_id g) d2 of
                      (Inl x, d3) \<Rightarrow> raise x (d3, me, report)
                    | (Inr _, d3) \<Rightarrow> raise (ConcurrentModificationError (wo_id report)) (d3, me, report))))"

section \<open>Revoking\<close>

definition revoked_payload :: "ident \<Rightarrow> ident \<Rightarrow> bool \<Rightarrow> int \<Rightarrow> string option \<Rightarrow> json" where
  "revoked_payload me delegate cascade count reason =
     JObj [(''delegator_id'', JStr me), (''delegate_id'', JStr delegate),
           (''cascade'', JInt (if cascade then 1 else 0)), (''cascade_count'', JInt count),
           (''reason'', case reason of None \<Rightarrow> JNull | Some s \<Rightarrow> JStr s)]"

definition revoke_authority ::
  "nat \<Rightarrow> env \<Rightarrow> bool \<Rightarrow> string option \<Rightarrow> two_workers \<Rightarrow> (two_workers, revoke_result) outcome option" where
  "revoke_authority n e cascade reason st =
     (case st of (d, me, delegate) \<Rightarrow>
      case get_delegation_grant e d (wo_id delegate) of
        None \<Rightarrow> Some (raise (DelegationNotFoundError (wo_id delegate)) st)
      | Some g \<Rightarrow>
        if g_delegator_id g \<noteq> wo_id me then Some (raise (ValueError ''granted by another worker'') st)
        else if get_delegations_by_delegator d (wo_id delegate) False \<noteq> [] \<and> \<not> cascade
          then Some (raise (ValueError ''has sub-delegations'') st)
        else case revoke_delegation_grant n e (wo_id delegate) (wo_id me) reason cascade d of
          None \<Rightarrow> None
        | Some (Inl x, d1) \<Rightarrow> Some (raise x (d1, me, delegate))
        | Some (Inr res, d1) \<Rightarrow>
            (case publish_delegation e ''delegation.authority_revoked''
                    (revoked_payload (wo_id me) (wo_id delegate) cascade (rr_cascade_count res) reason) d1 of
               (Inl x, d2) \<Rightarrow> Some (raise x (d2, me, delegate\<lparr>wo_data := None\<rparr>))
             | (Inr _, d2) \<Rightarrow> Some (ok res (d2, me, delegate\<lparr>wo_data := None\<rparr>))))"

section \<open>Delegation never widens authority\<close>

lemma worker_data_fresh:
  assumes "wo_data ob = None"
  shows "worker_data d ob = (case get_worker d (wo_id ob) of
     None \<Rightarrow> raise (WorkerNotFound (wo_id ob)) (ob\<lparr>wo_data := None\<rparr>)
   | Some w \<Rightarrow> ok w (ob\<lparr>wo_data := Some w\<rparr>))"
  using assms by (simp add: worker_data_def load_worker_def)

lemma delegation_checks_ok:
  assumes "delegation_checks e scope budget (d, me, report) = (Inr u, st1)"
  obtains w rw own me1 report1 where "st1 = (d, me1, report1)"
    and "worker_data d me = (Inr w, me1)" and "worker_data d report = (Inr rw, report1)"
    and "wo_id report \<noteq> wo_id me" and "wk_status w \<noteq> Terminated" and "wk_status rw \<noteq> Terminated"
    and "wk_manager_id rw = Some (wo_id me)"
    and "\<not> check_delegation_cycle e d (wo_id me) (wo_id report)"
    and "from_json (wk_hiring_authority_scope w) = Inr own"
    and "\<forall>role \<in> set (hs_allowed_roles scope). can_hire_role own role"
    and "hs_max_cost scope \<le> hs_max_cost own" and "budget \<le> wk_delegated_budget w"
  using assms
  by (auto simp: delegation_checks_def not_less split: if_splits prod.splits sum.splits)

lemma publish_delegation_total:
  "\<exists>evs. publish_delegation e ty payload d = ok () (d\<lparr>events := evs\<rparr>)"
proof (cases "bus_set e")
  case True
  then show ?thesis by (auto simp: publish_delegation_def bus_publish_def ENTITY_TYPES_def)
next
  case False
  then show ?thesis by (intro exI [of _ "events d"]) (simp add: publish_delegation_def)
qed

lemma delegate_authority_ok:
  assumes "delegate_authority e fresh other budget scope cli expires (d, me, report) = (Inr g, (d', me', report'))"
  obtains w rw own d1 d2 evs where
    "worker_data d me = (Inr w, me')" and "fst (worker_data d report) = Inr rw"
    and "wk_status w \<noteq> Terminated" and "wk_status rw \<noteq> Terminated" and "wk_manager_id rw = Some (wo_id me)"
    and "\<not> check_delegation_cycle e d (wo_id me) (wo_id report)"
    and "from_json (wk_hiring_authority_scope w) = Inr own"
    and "\<forall>role \<in> set (hs_allowed_roles scope). can_hire_role own role"
    and "hs_max_cost scope \<le> hs_max_cost own" and "budget \<le> wk_delegated_budget w"
    and "create_delegation_grant e fresh (wo_id me) (wo_id report) (to_json scope) budget cli expires None d
           = (Inr g, d1)"
    and "update_worker_delegation e (wo_id report) (Some (to_json scope)) budget (Some (wo_id me)) expires
           (get_worker_delegation_version d (wo_id report)) (other d1) = (True, d2)"
    and "d' = d2\<lparr>events := evs\<rparr>" and "wo_data report' = None"
proof -
  obtain st1 where c: "delegation_checks e scope budget (d, me, report) = (Inr (), st1)"
    using assms by (cases "delegation_checks e scope budget (d, me, report)")
      (auto simp: delegate_authority_def and_then_def split: sum.splits)
  obtain w rw own me1 report1 where k: "st1 = (d, me1, report1)" "worker_data d me = (Inr w, me1)"
    "worker_data d report = (Inr rw, report1)" "wk_status w \<noteq> Terminated" "wk_status rw \<noteq> Terminated"
    "wk_manager_id rw = Some (wo_id me)" "\<not> check_delegation_cycle e d (wo_id me) (wo_id report)"
    "from_json (wk_hiring_authority_scope w) = Inr own"
    "\<forall>role \<in> set (hs_allowed_roles scope). can_hire_role own role"
    "hs_max_cost scope \<le> hs_max_cost own" "budget \<le> wk_delegated_budget w"
    using delegation_checks_ok [OF c] by metis
  have ids: "wo_id me1 = wo_id me" "wo_id report1 = wo_id report"
    using worker_data_id k(2,3) by metis+
  obtain d1 where g: "create_delegation_grant e fresh (wo_id me) (wo_id report) (to_json scope) budget cli
      expires None d = (Inr g, d1)"
    using assms by (auto simp: delegate_authority_def c k(1) ids Let_def split: prod.splits sum.splits bool.splits)
  obtain d2 where u: "update_worker_delegation e (wo_id report) (Some (to_json scope)) budget
      (Some (wo_id me)) expires (get_worker_delegation_version d (wo_id report)) (other d1) = (True, d2)"
    using assms by (auto simp: delegate_authority_def c k(1) ids g Let_def
        split: prod.splits sum.splits bool.splits)
  obtain evs where p: "publish_delegation e ''delegation.authority_delegated''
      (delegated_payload (wo_id me) (wo_id report) budget (to_json scope)) d2 = ok () (d2\<lparr>events := evs\<rparr>)"
    using publish_delegation_total by blast
  have "d' = d2\<lparr>events := evs\<rparr>" "wo_data report' = None" "me' = me1"
    using assms by (auto simp: delegate_authority_def c k(1) ids g u p Let_def)
  then show thesis using that k g u by simp
qed

lemma set_row_delegation_ok [simp]: "worker_upd_ok (set_row_delegation e scope budget by expires)"
  by (simp add: worker_upd_ok_def set_row_delegation_def)

lemma update_worker_delegation_frame:
  assumes "update_worker_delegation e i scope budget by expires v d = (b, d')"
  shows "grants d' = grants d" and "audits d' = audits d" and "live d' = live d" and "delegates d' = delegates d"
    and "delegation_inv e' d' = delegation_inv e' d" and "db_wf d \<Longrightarrow> db_wf d'"
proof -
  have d': "d' = d\<lparr>workers := update_where (\<lambda>r. w_id r = i \<and> w_delegation_version r = v)
      (set_row_delegation e scope budget by expires) (workers d)\<rparr>"
    using assms by (simp add: update_worker_delegation_def Let_def)
  show "grants d' = grants d" "audits d' = audits d" by (simp_all add: d')
  then show "live d' = live d" by (simp add: live_def)
  then show "delegates d' = delegates d" by (simp add: delegates_def)
  show "delegation_inv e' d' = delegation_inv e' d"
    using \<open>live d' = live d\<close> \<open>delegates d' = delegates d\<close> \<open>grants d' = grants d\<close>
    by (simp add: delegation_inv_def)
  show "db_wf d \<Longrightarrow> db_wf d'" by (simp add: d' wf_workers_update)
qed

lemma delegation_inv_events [simp]: "delegation_inv e (d\<lparr>events := evs\<rparr>) = delegation_inv e d"
  by (simp add: delegation_inv_def live_def delegates_def)

lemma get_delegation_grant_cong:
  "grants d' = grants d \<Longrightarrow> get_delegation_grant e d' x = get_delegation_grant e d x"
  by (simp add: get_delegation_grant_def)

lemma scope_subset:
  assumes "\<forall>role \<in> set (hs_allowed_roles scope). can_hire_role own role" and "can_hire_role scope role"
  shows "can_hire_role own role"
  using assms by (auto simp: can_hire_role_def split: if_splits)


text \<open>The manager of the sample organisation delegates to its engineer.\<close>

definition org_eng :: worker where
  "org_eng = row_to_worker (org_worker ''eng'' ''Eve'' ''engineer'' (Some ''mgr'') None 0)"

definition eng_scope :: hiring_scope where
  "eng_scope = \<lparr>hs_allowed_roles = [''engineer''], hs_max_cost = 50, hs_max_total_budget = 0\<rparr>"

definition eng_grant :: grant_row where
  "eng_grant = sub_grant\<lparr>g_scope := to_json eng_scope\<rparr>"

definition eng_db :: db where
  "eng_db = org_db\<lparr>grants := grants org_db @ [eng_grant], audits := audits org_db @ [log_delegation_grant eng_grant]\<rparr>"

lemma org_get_worker:
  "get_worker org_db ''mgr'' = Some org_mgr" "get_worker org_db ''eng'' = Some org_eng"
  by (simp_all add: get_worker_def org_mgr_def org_eng_def org_db_def org_worker_def)

lemma org_delegation_checks:
  "delegation_checks witness_env eng_scope 5
     (org_db, \<lparr>wo_id = ''mgr'', wo_data = None\<rparr>, \<lparr>wo_id = ''eng'', wo_data = None\<rparr>) =
   ok () (org_db, \<lparr>wo_id = ''mgr'', wo_data = Some org_mgr\<rparr>, \<lparr>wo_id = ''eng'', wo_data = Some org_eng\<rparr>)"
proof -
  have m: "wk_status org_mgr = Active" "wk_delegated_budget org_mgr = 10" "wk_status org_eng = Active"
    "wk_manager_id org_eng = Some ''mgr''"
    "from_json (wk_hiring_authority_scope org_mgr) =
      Inr \<lparr>hs_allowed_roles = [''*''], hs_max_cost = 100, hs_max_total_budget = 0\<rparr>"
    by (simp_all add: org_mgr_def org_eng_def org_worker_def row_to_worker_def from_json_def all_roles_scope_def)
  show ?thesis
    by (simp add: delegation_checks_def worker_data_def load_worker_def org_get_worker m org_db_no_cycle
        eng_scope_def can_hire_role_def)
qed

lemma org_grant_created:
  "create_delegation_grant witness_env ''deleg-2'' ''mgr'' ''eng'' (to_json eng_scope) 5 None None None org_db =
     (Inr eng_grant, eng_db)"
  by (simp add: create_delegation_grant_def get_delegation_grant_def insert_grant_row_def worker_exists_def
      eng_db_def eng_grant_def sub_grant_def org_defs Let_def)


section \<open>The rollback after a lost race\<close>

text \<open>
  When another process moved the report's delegation version on, the delegation is meant to
  be rolled back and reported as a concurrent modification. The \<open>DELETE\<close> that rolls back is
  refused by the immutable audit log, because the grant's own audit row refers to it: the
  caller sees an integrity error and the new grant stays in force, unrevoked.
\<close>

theorem lost_race_leaves_grant:
  assumes "delegation_checks e scope budget (d, me, report) = (Inr (), (d, me1, report1))"
    and "create_delegation_grant e fresh (wo_id me) (wo_id report) (to_json scope) budget cli expires None d
           = (Inr g, d1)"
    and "g \<in> set (grants (other d1))" and "log_delegation_grant g \<in> set (audits (other d1))"
    and "db_wf (other d1)"
    and "get_worker_delegation_version (other d1) (wo_id report) \<noteq> get_worker_delegation_version d (wo_id report)"
  shows "\<exists>d'. delegate_authority e fresh other budget scope cli expires (d, me, report) =
      (Inl (IntegrityError ''Delegation audit records are immutable''), (d', me1, report1))
    \<and> g \<in> live d' \<and> workers d' = workers (other d1)"
proof -
  define v where "v = get_worker_delegation_version d (wo_id report)"
  obtain won d2 where u: "update_worker_delegation e (wo_id report) (Some (to_json scope)) budget
      (Some (wo_id me)) expires v (other d1) = (won, d2)" by fastforce
  have lost: "\<not> won" "d2 = other d1"
    using update_delegation_facts [OF assms(5), where e = e and i = "wo_id report" and
        scope = "Some (to_json scope)" and budget = budget and granter = "Some (wo_id me)"
        and expires = expires and v = v] u assms(6) by (auto simp: v_def)
  obtain w rw where "worker_data d me = (Inr w, me1)" "worker_data d report = (Inr rw, report1)"
    using delegation_checks_ok [OF assms(1)] by (metis prod.inject)
  then have ids: "wo_id me1 = wo_id me" "wo_id report1 = wo_id report"
    using worker_data_id by metis+
  have "\<exists>a \<in> set (audits (other d1)). a_delegation_grant_id a = Some (g_id g)"
    using assms(4) by (intro bexI [of _ "log_delegation_grant g"]) (simp_all add: log_delegation_grant_def)
  then have del: "delete_grant_row (g_id g) (other d1) =
      raise (IntegrityError ''Delegation audit records are immutable'') (other d1)"
    using assms(3) by (auto simp: delete_grant_row_def)
  have "g \<in> live (other d1)"
    using assms(3) create_delegation_grant_ok(5) [OF assms(2)] by (simp add: live_def)
  moreover have "delegate_authority e fresh other budget scope cli expires (d, me, report) =
      (Inl (IntegrityError ''Delegation audit records are immutable''), (other d1, me1, report1))"
    using lost by (simp add: delegate_authority_def assms(1) ids assms(2) Let_def
        u [unfolded v_def] del)
  ultimately show ?thesis by blast
qed

theorem lost_race_leaves_grant_witness:
  "\<exists>st. delegate_authority witness_env ''deleg-2'' (clear_authority 0 ''eng'') 5 eng_scope None None
      (org_db, \<lparr>wo_id = ''mgr'', wo_data = None\<rparr>, \<lparr>wo_id = ''eng'', wo_data = None\<rparr>) =
      (Inl (IntegrityError ''Delegation audit records are immutable''), st)"
proof -
  have wf: "db_wf eng_db" using create_delegation_grant_wf [OF org_db_wf org_grant_created] .
  have m: "eng_grant \<in> set (grants (clear_authority 0 ''eng'' eng_db))"
    "log_delegation_grant eng_grant \<in> set (audits (clear_authority 0 ''eng'' eng_db))"
    by (simp_all add: clear_authority_def eng_db_def)
  have v: "get_worker_delegation_version (clear_authority 0 ''eng'' eng_db) ''eng''
      \<noteq> get_worker_delegation_version org_db ''eng''"
    by (simp add: get_worker_delegation_version_def clear_authority_def clear_row_authority_def eng_db_def org_defs)
  show ?thesis
    using lost_race_leaves_grant [where other = "clear_authority 0 ''eng''" and fresh = "''deleg-2''" and
        cli = None and expires = None, OF org_delegation_checks _ m wf_clear_authority [OF wf]] org_grant_created v by auto
qed

section \<open>Taking authority back\<close>

lemma revoke_single:
  assumes "delegation_inv e d" and "g \<in> live d" and "g_delegate_id g = x"
  shows "\<exists>res d'. revoke_delegation_grant (Suc n) e x by reason False d = Some (Inr res, d')
     \<and> cut_off e {x} d d' \<and> rr_affected_workers res = [x]"
  using get_delegation_grant_live [OF assms] cut_one [OF assms(1,2)] assms(3)
  by (simp add: empty_result_def Let_def)

lemma no_children_subtree:
  assumes "get_delegations_by_delegator d x False = []"
  shows "(delegates d)\<^sup>* `` {x} = {x}"
  using rtrancl_Image_unfold [of "delegates d" x] delegates_Image [of d x] assms by simp

lemma live_events [simp]: "live (d\<lparr>events := evs\<rparr>) = live d"
  by (simp add: live_def)

text \<open>
  A manager takes back a grant it issued: with the cascade flag, or when the delegate passed
  nothing on, the call returns and exactly the grants to the delegate and to everyone below it are
  revoked, so that no unrevoked grant issued from inside the revoked subtree is left over. A grant
  of another manager, a missing grant, or sub-delegations without the flag are refused
  and nothing changes.
\<close>

theorem revoke_authority_correct:
  assumes "delegation_inv e d" and "0 < n" and "length (grants d) \<le> n"
  shows "case get_delegation_grant e d (wo_id delegate) of
      None \<Rightarrow> revoke_authority n e cascade reason (d, me, delegate) =
                Some (raise (DelegationNotFoundError (wo_id delegate)) (d, me, delegate))
    | Some g \<Rightarrow>
        if g_delegator_id g \<noteq> wo_id me \<or> \<not> cascade \<and> get_delegations_by_delegator d (wo_id delegate) False \<noteq> []
        then \<exists>m. revoke_authority n e cascade reason (d, me, delegate) = Some (raise (ValueError m) (d, me, delegate))
        else \<exists>res d'. revoke_authority n e cascade reason (d, me, delegate) =
                 Some (ok res (d', me, delegate\<lparr>wo_data := None\<rparr>))
             \<and> live d' = {h \<in> live d. (wo_id delegate, g_delegate_id h) \<notin> (delegates d)\<^sup>*}
             \<and> (\<forall>h \<in> live d'. (wo_id delegate, g_delegator_id h) \<notin> (delegates d)\<^sup>*)
             \<and> set (rr_affected_workers res) = (delegates d)\<^sup>* `` {wo_id delegate}"
proof (cases "get_delegation_grant e d (wo_id delegate)")
  case None
  then show ?thesis by (simp add: revoke_authority_def)
next
  case (Some g)
  let ?x = "wo_id delegate" and ?R = "delegates d"
  have g: "g \<in> live d" "g_delegate_id g = ?x"
    using get_delegation_grantD [OF Some] by (auto simp: live_def)
  show ?thesis
  proof (cases "g_delegator_id g \<noteq> wo_id me \<or> \<not> cascade \<and> get_delegations_by_delegator d ?x False \<noteq> []")
    case True
    then show ?thesis by (auto simp: revoke_authority_def Some)
  next
    case False
    have "\<exists>res d1. revoke_delegation_grant n e ?x (wo_id me) reason cascade d = Some (Inr res, d1)
        \<and> cut_off e (?R\<^sup>* `` {?x}) d d1 \<and> set (rr_affected_workers res) = ?R\<^sup>* `` {?x}"
    proof (cases cascade)
      case True
      have "card (?R\<^sup>* `` {?x}) \<le> n" using subtree_card_grants [OF g] assms(3) by simp
      then show ?thesis
        using revoke_cascade_enough [OF assms(1) g, of n "wo_id me" reason] True by (auto simp: reports_def)
    next
      case False
      then have "?R\<^sup>* `` {?x} = {?x}"
        using \<open>\<not> (g_delegator_id g \<noteq> wo_id me \<or> _)\<close> by (intro no_children_subtree) simp
      then show ?thesis
        using revoke_single [OF assms(1) g, of "n - 1" "wo_id me" reason] assms(2) False by auto
    qed
    then obtain res d1 where r: "revoke_delegation_grant n e ?x (wo_id me) reason cascade d = Some (Inr res, d1)"
      and c: "cut_off e (?R\<^sup>* `` {?x}) d d1" and a: "set (rr_affected_workers res) = ?R\<^sup>* `` {?x}" by blast
    obtain evs where p: "publish_delegation e ''delegation.authority_revoked''
        (revoked_payload (wo_id me) ?x cascade (rr_cascade_count res) reason) d1 = ok () (d1\<lparr>events := evs\<rparr>)"
      using publish_delegation_total by blast
    have out: "revoke_authority n e cascade reason (d, me, delegate) =
        Some (ok res (d1\<lparr>events := evs\<rparr>, me, delegate\<lparr>wo_data := None\<rparr>))"
      using False by (auto simp: revoke_authority_def Some r p)
    have "live (d1\<lparr>events := evs\<rparr>) = {h \<in> live d. (?x, g_delegate_id h) \<notin> ?R\<^sup>*}"
      using c by (auto simp: cut_off_def)
    then show ?thesis
      using False out a delegates_edge [of _ d] by (auto simp: Some intro: rtrancl_into_rtrancl)
  qed
qed

theorem revoke_authority_correct_witness:
  "\<exists>res st. revoke_authority 2 witness_env True None
      (tree_db, \<lparr>wo_id = ''ceo'', wo_data = None\<rparr>, \<lparr>wo_id = ''mgr'', wo_data = None\<rparr>) = Some (ok res st)
    \<and> set (rr_affected_workers res) = (delegates tree_db)\<^sup>* `` {''mgr''}"
proof -
  have g: "get_delegation_grant witness_env tree_db ''mgr'' = Some org_grant"
    by (simp add: get_delegation_grant_def tree_db_def org_grant_def sub_grant_def is_active_def)
  have len: "length (grants tree_db) \<le> 2" by (simp add: tree_db_def)
  have "g_delegator_id org_grant = ''ceo''" by (simp add: org_grant_def)
  then show ?thesis
    using revoke_authority_correct [OF tree_db_delegation_inv _ len, where
        delegate = "\<lparr>wo_id = ''mgr'', wo_data = None\<rparr>" and me = "\<lparr>wo_id = ''ceo'', wo_data = None\<rparr>"
        and cascade = True and reason = None] g by auto
qed

end
