(* ===== verification/Budget_Laws.thy ===== *)
theory Budget_Laws
  imports Budget
begin

text \<open>
  What the budget service and the enforcer guarantee: allocations never exceed their pool,
  delegation moves credits without creating or overdrawing any, metered spending stays within the
  balance, and where the guarantees end.
\<close>

section \<open>The current allocation and the current balance are about the same credits\<close>

lemma insort_frames:
  assumes "same_frame a b" and "list_all2 same_frame as bs"
  shows "list_all2 same_frame (insort_key (\<lambda>a. - al_period_start a) a as) (insort_key (\<lambda>b. - b_period_start b) b bs)"
  using assms(2,1) by (induction rule: list_all2_induct) (auto simp: same_frame_def)

lemma order_frames:
  assumes "list_all2 same_frame as bs"
  shows "list_all2 same_frame (order_by_desc al_period_start as) (order_by_desc b_period_start bs)"
  using assms by (induction rule: list_all2_induct) (auto simp: order_by_desc_def insort_frames)

lemma filter_frames:
  assumes "list_all2 same_frame as bs" and "\<And>a b. same_frame a b \<Longrightarrow> P a = Q b"
  shows "list_all2 same_frame (fetchall P as) (fetchall Q bs)"
  using assms by (induction rule: list_all2_induct) (auto simp: fetchall_def)

lemma list_head_frames:
  assumes "list_all2 same_frame as bs" and "list_head bs = Some b"
  shows "\<exists>a. list_head as = Some a \<and> same_frame a b"
  using assms by (induction rule: list_all2_induct) (auto simp: list_head_def)

lemma list_head_in: "list_head xs = Some x \<Longrightarrow> x \<in> set xs"
  by (cases xs) (auto simp: list_head_def)

lemma row_to_allocation_sel [simp]:
  "al_id (row_to_allocation a) = al_id a" "al_worker_id (row_to_allocation a) = al_worker_id a"
  "al_period_start (row_to_allocation a) = al_period_start a" "al_period_end (row_to_allocation a) = al_period_end a"
  "al_source_worker_id (row_to_allocation a) = al_source_worker_id a" "al_pool_id (row_to_allocation a) = al_pool_id a"
  "al_can_delegate (row_to_allocation a) = al_can_delegate a"
  "al_allocated_credits (row_to_allocation a) = al_allocated_credits a"
  "al_spent_credits (row_to_allocation a) = al_spent_credits a"
  "al_reserved_credits (row_to_allocation a) = al_reserved_credits a"
  by (simp_all add: row_to_allocation_def)

definition in_period :: "env \<Rightarrow> allocation_row \<Rightarrow> bool" where
  "in_period e a = (al_period_start a \<le> now e \<and> now e \<le> al_period_end a)"

lemma pick_current_keeps:
  assumes "\<forall>a \<in> set rows. al_period_start a \<le> al_period_start c"
  shows "pick_current e (Some c) rows = Some c"
  using assms by (induction rows) auto

lemma pick_current_sorted:
  assumes "sorted_wrt (\<lambda>a a'. al_period_start a' \<le> al_period_start a) rows"
  shows "pick_current e None rows = list_head (filter (in_period e) rows)"
  using assms by (induction rows) (auto simp: list_head_def in_period_def pick_current_keeps)

lemma sorted_allocations:
  "sorted_wrt (\<lambda>a a'. al_period_start a' \<le> al_period_start a) (get_worker_allocations d w)"
proof -
  have "sorted (map (\<lambda>a. - al_period_start a) (order_by_desc al_period_start (fetchall (\<lambda>a. al_worker_id a = w) (allocations d))))"
    unfolding order_by_desc_def by (rule sorted_sort_key)
  then show ?thesis
    by (simp add: get_worker_allocations_def sorted_map sorted_wrt_map)
qed

lemma filter_current:
  "filter (in_period e) (get_worker_allocations d w) =
     map row_to_allocation (order_by_desc al_period_start
       (fetchall (\<lambda>a. al_worker_id a = w \<and> al_period_start a \<le> now e \<and> now e \<le> al_period_end a) (allocations d)))"
proof -
  have "in_period e \<circ> row_to_allocation = in_period e" by (auto simp: in_period_def)
  then show ?thesis
    by (simp add: get_worker_allocations_def filter_map order_by_desc_def filter_sort fetchall_def in_period_def
        conj_commute conj_left_commute)
qed

lemma service_current_in_period:
  assumes "get_current_allocation e d w = Some a"
  shows "service_current_allocation e d w = Some a"
  using assms
  by (simp add: service_current_allocation_def pick_current_sorted sorted_allocations filter_current
      get_current_allocation_def list_head_def Let_def split: list.splits)

lemma current_balance_allocation:
  assumes wf: "budget_wf opened d" and b: "get_worker_balance e d w = Some b"
  shows "\<exists>a. get_current_allocation e d w = Some a \<and> service_current_allocation e d w = Some a
    \<and> al_id a = b_allocation_id b \<and> al_worker_id a = w \<and> al_period_start a = b_period_start b
    \<and> al_period_end a = b_period_end b \<and> in_period e a \<and> b \<in> set (balances d) \<and> b_worker_id b = w"
proof -
  let ?as = "order_by_desc al_period_start
       (fetchall (\<lambda>a. al_worker_id a = w \<and> al_period_start a \<le> now e \<and> now e \<le> al_period_end a) (allocations d))"
  let ?bs = "order_by_desc b_period_start
       (fetchall (\<lambda>b. b_worker_id b = w \<and> b_period_start b \<le> now e \<and> now e \<le> b_period_end b) (balances d))"
  have "list_all2 same_frame ?as ?bs"
    using wf by (intro order_frames filter_frames) (auto simp: budget_wf_def same_frame_def)
  moreover have hb: "list_head ?bs = Some b" using b by (simp add: get_worker_balance_def)
  ultimately obtain a where a: "list_head ?as = Some a" and fr: "same_frame a b"
    by (auto dest: list_head_frames)
  have cur: "get_current_allocation e d w = Some (row_to_allocation a)"
    using a by (simp add: get_current_allocation_def)
  have mem: "b \<in> set ?bs" using hb by (rule list_head_in)
  have "a \<in> set ?as" using a by (rule list_head_in)
  then show ?thesis using cur service_current_in_period [OF cur] fr mem
    by (auto simp: same_frame_def in_period_def)
qed

section \<open>Effects of a single posting\<close>

definition d_available :: "txn_row \<Rightarrow> credits" where
  "d_available t = d_allocated t - d_spent t - d_reserved t - d_delegated t"

definition total_available :: "db \<Rightarrow> credits" where
  "total_available d = sum_list (map b_available (balances d))"

lemma balance_available:
  assumes "budget_wf opened d" and "b \<in> set (balances d)"
  shows "b_available b = b_allocated b - b_spent b - b_reserved b - b_delegated b"
  using assms by (auto simp: budget_wf_def balance_ok_def)

lemma apply_txn_available:
  assumes "budget_wf opened d" and "b \<in> set (balances d)"
  shows "b_available (apply_txn e t b) = b_available b + d_available t"
  using balance_available [OF assms] by (simp add: apply_txn_def d_available_def)

lemma sum_update_unique:
  fixes f :: "'r \<Rightarrow> 'r" and v :: "'r \<Rightarrow> rat"
  assumes "distinct (map k rows)" and "x \<in> k ` set rows"
    and "\<And>r. r \<in> set rows \<Longrightarrow> v (f r) = v r + c"
  shows "sum_list (map v (update_where (\<lambda>r. k r = x) f rows)) = sum_list (map v rows) + c"
  using assms
proof (induction rows)
  case (Cons r rows)
  show ?case
  proof (cases "k r = x")
    case True
    then have "update_where (\<lambda>r. k r = x) f rows = rows"
      using Cons.prems(1) by (intro update_where_none) (force simp: image_iff)
    then show ?thesis using Cons.prems(3) [of r] True by simp
  next
    case False
    then have "sum_list (map v (update_where (\<lambda>r. k r = x) f rows)) = sum_list (map v rows) + c"
      using Cons.prems by (intro Cons.IH) auto
    then show ?thesis using False by simp
  qed
qed simp

lemma get_budget_balance_in:
  "get_budget_balance d i = Some b \<Longrightarrow> b \<in> set (balances d) \<and> b_allocation_id b = i"
  by (auto simp: get_budget_balance_def dest: fetchone_SomeD)

lemma get_budget_balance_unique:
  assumes "budget_wf opened d" and "b \<in> set (balances d)"
  shows "get_budget_balance d (b_allocation_id b) = Some b"
proof -
  obtain b' where b': "get_budget_balance d (b_allocation_id b) = Some b'"
    using fetchone_ex [OF assms(2), where p = "\<lambda>x. b_allocation_id x = b_allocation_id b"]
    by (auto simp: get_budget_balance_def)
  from get_budget_balance_in [OF this] have "b' = b"
    using assms budget_wf_keys(1) [OF assms(1)] by (metis inj_onD distinct_map)
  with b' show ?thesis by simp
qed

lemma txn_effect:
  assumes wf: "budget_wf opened d"
    and res: "create_budget_transaction e i al w ty amount info d = (Inr t, d')"
  shows "total_available d' = total_available d + d_available t"
    and "get_budget_balance d' j =
           (if j = al then map_option (apply_txn e t) (get_budget_balance d j) else get_budget_balance d j)"
    and "allocations d' = allocations d" and "pools d' = pools d" and "workers d' = workers d"
proof -
  note facts = create_budget_transaction_facts [OF wf res]
  have al: "al \<in> al_id ` set (allocations d)"
    using res by (auto simp: create_budget_transaction_def Let_def split: if_splits)
  then have "al \<in> b_allocation_id ` set (balances d)" by (simp add: budget_wf_keys(2) [OF wf])
  from sum_update_unique [OF budget_wf_keys(1) [OF wf] this, where v = b_available and f = "apply_txn e t",
      OF apply_txn_available [OF wf]]
  show "total_available d' = total_available d + d_available t"
    by (simp add: total_available_def facts(4))
  show "allocations d' = allocations d" and "pools d' = pools d" and "workers d' = workers d"
    by (simp_all add: facts(4))
  show "get_budget_balance d' j =
           (if j = al then map_option (apply_txn e t) (get_budget_balance d j) else get_budget_balance d j)"
    by (cases "get_budget_balance d j")
      (auto simp: facts(4) get_budget_balance_def baltx.lookup_update dest: fetchone_SomeD)
qed

section \<open>Opening an allocation\<close>

lemma open_effect:
  assumes wf: "budget_wf opened d" and al: "create_budget_allocation e i n d = (Inr a, d1)"
    and bal: "create_budget_balance e i (na_worker_id n) 0 (na_period_start n) (na_period_end n) d1 = (Inr b, d2)"
  shows "budget_wf (opened(i := 0)) d2" and "total_available d2 = total_available d"
    and "get_budget_balance d2 j = (if j = i then Some b else get_budget_balance d j)"
    and "allocations d2 = allocations d @ [a]" and "pools d2 = pools d" and "workers d2 = workers d"
    and "b_available b = 0" and "b_worker_id b = na_worker_id n" and "al_id a = i" and "i \<notin> al_id ` set (allocations d)"
    and "b_allocation_id b = i" and "b_period_start b = na_period_start n" and "b_period_end b = na_period_end n"
    and "balances d2 = balances d @ [b]"
proof -
  note A = create_budget_allocation_facts [OF al] and B = create_budget_balance_facts [OF bal]
  have d2: "d2 = d\<lparr>allocations := allocations d @ [a], balances := balances d @ [b]\<rparr>" by (simp add: A(1) B(1))
  have "same_frame a b" by (simp add: same_frame_def A B)
  from open_allocation_wf [OF wf _ this, where amount = 0] A(2) show "budget_wf (opened(i := 0)) d2"
    by (simp add: d2 A(3) B)
  show "total_available d2 = total_available d" by (simp add: total_available_def d2 B)
  have "get_budget_balance d i = None"
    using B(2) by (auto simp: get_budget_balance_def fetchone_eq_None_iff A(1))
  then show "get_budget_balance d2 j = (if j = i then Some b else get_budget_balance d j)"
    by (simp add: get_budget_balance_def d2 B(3) split: option.splits)
  show "allocations d2 = allocations d @ [a]" "pools d2 = pools d" "workers d2 = workers d"
    "balances d2 = balances d @ [b]" by (simp_all add: d2)
  show "b_available b = 0" "b_worker_id b = na_worker_id n" "b_allocation_id b = i"
    "b_period_start b = na_period_start n" "b_period_end b = na_period_end n" by (simp_all add: B)
  show "al_id a = i" and "i \<notin> al_id ` set (allocations d)" by (simp_all add: A)
qed

lemma get_pool_allocated_total_snoc:
  "allocations d' = allocations d @ [a] \<Longrightarrow> get_pool_allocated_total d' p =
     get_pool_allocated_total d p + (if al_pool_id a = Some p then al_allocated_credits a else 0)"
  by (simp add: get_pool_allocated_total_def fetchall_def)

section \<open>Allocations from a pool\<close>

definition pool_allocated :: "(ident \<Rightarrow> credits) \<Rightarrow> db \<Rightarrow> pool_row \<Rightarrow> ident \<Rightarrow> ident \<Rightarrow> credits \<Rightarrow> db \<Rightarrow> bool" where
  "pool_allocated opened d p al w amount d' =
     (0 < amount
      \<and> get_pool_allocated_total d' (p_id p) = get_pool_allocated_total d (p_id p) + amount
      \<and> get_pool_allocated_total d' (p_id p) \<le> p_total_credits p
      \<and> (\<exists>b. get_budget_balance d' al = Some b \<and> b_worker_id b = w \<and> b_available b = amount)
      \<and> (\<forall>j. j \<noteq> al \<longrightarrow> get_budget_balance d' j = get_budget_balance d j)
      \<and> budget_wf (opened(al := 0)) d')"

lemma allocate_from_pool_success:
  assumes wf: "budget_wf opened (other d)"
    and res: "allocate_from_pool e al tx other pid w amount st en can limit d = (Inr i, d')"
  shows "\<exists>p. get_budget_pool d pid = Some p \<and> i = al \<and> pool_allocated opened (other d) p al w amount d'"
proof -
  let ?n = "\<lparr>na_worker_id = w, na_allocated_credits = amount, na_period_start = st, na_period_end = en,
              na_source_worker_id = None, na_pool_id = Some pid, na_can_delegate = can, na_delegation_limit = limit\<rparr>"
  from res obtain p a b t d1 d2 where amount: "0 < amount" and p: "get_budget_pool d pid = Some p"
    and room: "amount \<le> p_total_credits p - get_pool_allocated_total (other d) pid"
    and al: "create_budget_allocation e al ?n (other d) = (Inr a, d1)"
    and bal: "create_budget_balance e al w 0 st en d1 = (Inr b, d2)"
    and t: "create_budget_transaction e tx al w TxAllocation amount no_info d2 = (Inr t, d')" and i: "i = al"
    by (auto simp: allocate_from_pool_def Let_def not_le not_less split: if_splits option.splits elim!: and_then_InrD)
  note O = open_effect [OF wf al, simplified, OF bal]
  note T = txn_effect [OF O(1) t] and F = create_budget_transaction_facts [OF O(1) t]
  have pid: "p_id p = pid" using p by (auto simp: get_budget_pool_def dest: fetchone_SomeD)
  have av: "d_available t = amount"
    by (simp add: d_available_def d_allocated_def d_spent_def d_reserved_def d_delegated_def F)
  have b: "b \<in> set (balances d2)" by (simp add: O)
  have pool: "get_pool_allocated_total d' pid = get_pool_allocated_total (other d) pid + amount"
    using get_pool_allocated_total_snoc [of d' "other d" a pid] T(3) O(4) create_budget_allocation_facts [OF al] by simp
  have "b_available (apply_txn e t b) = amount" using apply_txn_available [OF O(1) b, of e t] av O(7) by simp
  then show ?thesis
    using amount p i pid room pool F(1) O(3,8) by (simp add: pool_allocated_def T(2)) (simp add: apply_txn_def)
qed

lemma allocate_from_pool_refused:
  assumes "allocate_from_pool e al tx other pid w amount st en can limit d = (Inl (BudgetAllocationError m), d')"
  shows "d' = d \<or> d' = other d"
  using assms
  by (auto simp: allocate_from_pool_def create_budget_allocation_def insert_allocation_row_def create_budget_balance_def
      create_budget_transaction_def and_then_def Let_def split: if_splits option.splits sum.splits prod.splits)

text \<open>A database for witnesses: a pool of 100 credits of which the CEO holds 60.\<close>

definition budget_db :: db where
  "budget_db = org_db
     \<lparr>pools := [\<lparr>p_id = ''pool-1'', p_name = ''org-main'', p_total_credits = 100, p_period_start = 0,
                 p_period_end = 1000, p_created_at = 0, p_updated_at = 0\<rparr>],
      allocations := [\<lparr>al_id = ''al-ceo'', al_worker_id = ''ceo'', al_source_worker_id = None,
                 al_pool_id = Some ''pool-1'', al_allocated_credits = 60, al_spent_credits = 0,
                 al_reserved_credits = 0, al_period_start = 0, al_period_end = 1000, al_can_delegate = True,
                 al_delegation_limit = Some 50, al_created_at = 0, al_updated_at = 0\<rparr>],
      balances := [\<lparr>b_allocation_id = ''al-ceo'', b_worker_id = ''ceo'', b_allocated = 60, b_spent = 0,
                 b_reserved = 0, b_available = 60, b_delegated = 0, b_period_start = 0, b_period_end = 1000,
                 b_updated_at = 0\<rparr>]\<rparr>"

abbreviation ceo_opening :: "ident \<Rightarrow> credits" where
  "ceo_opening \<equiv> (\<lambda>_. 0)(''al-ceo'' := 60)"

lemma budget_db_wf: "budget_wf ceo_opening budget_db"
  by (simp add: budget_wf_def budget_db_def org_db_def empty_db_def same_frame_def balance_ok_def ledger_sum_def txns_of_def)

lemmas budget_eval = budget_db_def org_defs witness_env_def get_budget_pool_def get_pool_allocated_total_def
  fetchall_def create_budget_allocation_def insert_allocation_row_def worker_exists_def pool_exists_def
  create_budget_balance_def create_budget_transaction_def Let_def no_info_def get_worker_balance_def
  order_by_desc_def list_head_def service_current_allocation_def get_worker_allocations_def row_to_allocation_def
  get_worker_def row_to_worker_def is_worker_manager_def get_current_allocation_def



section \<open>Delegation of budget\<close>

definition budget_delegated ::
  "(ident \<Rightarrow> credits) \<Rightarrow> db \<Rightarrow> allocation_row \<Rightarrow> ident \<Rightarrow> ident \<Rightarrow> credits \<Rightarrow> db \<Rightarrow> bool" where
  "budget_delegated opened d a al target amount d' =
     (0 < amount
      \<and> (\<exists>b b'. get_budget_balance d (al_id a) = Some b \<and> get_budget_balance d' (al_id a) = Some b'
            \<and> b_available b' = b_available b - amount \<and> 0 \<le> b_available b')
      \<and> (\<exists>b. get_budget_balance d' al = Some b \<and> b_worker_id b = target \<and> b_available b = amount)
      \<and> (\<forall>j. j \<noteq> al \<longrightarrow> j \<noteq> al_id a \<longrightarrow> get_budget_balance d' j = get_budget_balance d j)
      \<and> total_available d' = total_available d
      \<and> budget_wf (opened(al := 0)) d')"

lemma transfer_available:
  "tx_type t = TxTransferOut \<Longrightarrow> d_available t = - \<bar>tx_amount t\<bar>"
  "tx_type t = TxTransferIn \<Longrightarrow> d_available t = tx_amount t"
  "tx_type t = TxSpend \<Longrightarrow> d_available t = - \<bar>tx_amount t\<bar>"
  "tx_type t = TxRefund \<Longrightarrow> d_available t = \<bar>tx_amount t\<bar>"
  "tx_type t = TxAdjustment \<Longrightarrow> d_available t = tx_amount t"
  by (simp_all add: d_available_def d_allocated_def d_spent_def d_reserved_def d_delegated_def)

lemma posted_available:
  assumes wf: "budget_wf opened d" and t: "create_budget_transaction e i al w ty amount info d = (Inr t, d')"
    and b: "get_budget_balance d al = Some b"
  shows "\<exists>b'. get_budget_balance d' al = Some b' \<and> b_available b' = b_available b + d_available t
    \<and> b_worker_id b' = b_worker_id b"
  using apply_txn_available [OF wf, of b e t] get_budget_balance_in [OF b]
  by (simp add: txn_effect(2) [OF wf t] b) (simp add: apply_txn_def)

lemma service_current_cong:
  "allocations d' = allocations d \<Longrightarrow> service_current_allocation e d' w = service_current_allocation e d w"
  by (simp add: service_current_allocation_def get_worker_allocations_def)

lemma delegate_budget_steps:
  assumes res: "delegate_budget e al tx_out tx_in other source target amount sys d = (Inr i, d')"
  obtains a b t nb na d2 d3 d4 t1 t2
  where "0 < amount" and "i = al" and "get_worker d target = Some t" and "service_current_allocation e d source = Some a"
    and "sys \<or> wk_manager_id t = Some source \<and> al_can_delegate a
           \<and> (case al_delegation_limit a of None \<Rightarrow> True | Some l \<Rightarrow> amount \<le> l)"
    and "get_worker_balance e (other d) source = Some b" and "amount \<le> b_available b"
    and "create_budget_allocation e al
           \<lparr>na_worker_id = target, na_allocated_credits = amount, na_period_start = al_period_start a,
            na_period_end = al_period_end a, na_source_worker_id = Some source, na_pool_id = None,
            na_can_delegate = is_worker_manager d target, na_delegation_limit = al_delegation_limit a\<rparr> (other d) = (Inr na, d2)"
    and "create_budget_balance e al target 0 (al_period_start a) (al_period_end a) d2 = (Inr nb, d3)"
    and "create_budget_transaction e tx_out (al_id a) source TxTransferOut (- amount) no_info d3 = (Inr t1, d4)"
    and "create_budget_transaction e tx_in al target TxTransferIn amount no_info d4 = (Inr t2, d')"
proof -
  from res obtain a b t where g: "0 < amount" "get_worker d target = Some t"
      "service_current_allocation e d source = Some a"
      "sys \<or> wk_manager_id t = Some source \<and> al_can_delegate a
           \<and> (case al_delegation_limit a of None \<Rightarrow> True | Some l \<Rightarrow> amount \<le> l)"
      "get_worker_balance e (other d) source = Some b" "amount \<le> b_available b"
    by (auto simp: delegate_budget_def Let_def not_le not_less split: if_splits option.splits)
  with res show thesis
    by (auto simp: delegate_budget_def Let_def split: if_splits option.splits elim!: and_then_InrD intro!: that)
qed

lemma delegate_budget_success:
  assumes wf: "budget_wf opened (other d)" and frame: "allocations (other d) = allocations d"
    and res: "delegate_budget e al tx_out tx_in other source target amount sys d = (Inr i, d')"
  shows "\<exists>t a. i = al \<and> get_worker d target = Some t \<and> get_current_allocation e d source = Some a
    \<and> (sys \<or> wk_manager_id t = Some source \<and> al_can_delegate a
           \<and> (case al_delegation_limit a of None \<Rightarrow> True | Some l \<Rightarrow> amount \<le> l))
    \<and> budget_delegated opened (other d) a al target amount d'"
proof (rule delegate_budget_steps [OF res])
  fix a b t nb na d2 d3 d4 t1 t2
  assume pos: "0 < amount" and i: "i = al" and t: "get_worker d target = Some t"
    and a: "service_current_allocation e d source = Some a"
    and perm: "sys \<or> wk_manager_id t = Some source \<and> al_can_delegate a
           \<and> (case al_delegation_limit a of None \<Rightarrow> True | Some l \<Rightarrow> amount \<le> l)"
    and b: "get_worker_balance e (other d) source = Some b" "amount \<le> b_available b"
    and al: "create_budget_allocation e al
           \<lparr>na_worker_id = target, na_allocated_credits = amount, na_period_start = al_period_start a,
            na_period_end = al_period_end a, na_source_worker_id = Some source, na_pool_id = None,
            na_can_delegate = is_worker_manager d target, na_delegation_limit = al_delegation_limit a\<rparr> (other d) = (Inr na, d2)"
    and bal: "create_budget_balance e al target 0 (al_period_start a) (al_period_end a) d2 = (Inr nb, d3)"
    and t1: "create_budget_transaction e tx_out (al_id a) source TxTransferOut (- amount) no_info d3 = (Inr t1, d4)"
    and t2: "create_budget_transaction e tx_in al target TxTransferIn amount no_info d4 = (Inr t2, d')"
  note O = open_effect [OF wf al, simplified, OF bal]
  note F1 = create_budget_transaction_facts [OF O(1) t1]
  note F2 = create_budget_transaction_facts [OF F1(1) t2]
  note E1 = txn_effect [OF O(1) t1] and E2 = txn_effect [OF F1(1) t2]
  have av: "d_available t1 = - amount" "d_available t2 = amount"
    using F1(2,3) F2(2,3) pos by (simp_all add: transfer_available)
  obtain a' where a': "get_current_allocation e (other d) source = Some a'"
      "service_current_allocation e (other d) source = Some a'" "al_id a' = b_allocation_id b" "b \<in> set (balances (other d))"
    using current_balance_allocation [OF wf b(1)] by auto
  have cur: "get_current_allocation e d source = Some a" and id: "al_id a = b_allocation_id b"
    using a' a service_current_cong [OF frame] frame by (simp_all add: get_current_allocation_def)
  have src: "get_budget_balance (other d) (al_id a) = Some b"
    using get_budget_balance_unique [OF wf a'(4)] id by simp
  have ne: "al_id a \<noteq> al"
    using O(10) budget_wf_keys(2) [OF wf] a'(4) id by (metis imageI)
  obtain b1 where b1: "get_budget_balance d4 (al_id a) = Some b1" "b_available b1 = b_available b - amount"
    using posted_available [OF O(1) t1, of b] src ne av by (auto simp: O(3))
  obtain b2 where b2: "get_budget_balance d' al = Some b2" "b_available b2 = amount" "b_worker_id b2 = target"
    using posted_available [OF F1(1) t2, of nb] ne av O(7,8) by (auto simp: O(3) E1(2))
  have "budget_delegated opened (other d) a al target amount d'"
    unfolding budget_delegated_def using pos src b1 b2 ne b(2) F2(1) O(2) av
    by (simp add: E2(1,2) E1(1,2) O(3))
  then show ?thesis using i t cur perm by blast
qed

lemma delegate_budget_refused:
  assumes "delegate_budget e al tx_out tx_in other source target amount sys d = (Inl (BudgetAllocationError m), d')"
  shows "d' = d \<or> d' = other d"
  using assms
  by (auto simp: delegate_budget_def create_budget_allocation_def insert_allocation_row_def create_budget_balance_def
      create_budget_transaction_def and_then_def Let_def split: if_splits option.splits sum.splits prod.splits)



section \<open>Spending\<close>

lemma list_head_frames_back:
  assumes "list_all2 same_frame as bs" and "list_head as = Some a"
  shows "\<exists>b. list_head bs = Some b"
  using assms by (induction rule: list_all2_induct) (auto simp: list_head_def)

lemma current_balance_exists:
  assumes wf: "budget_wf opened d" and a: "get_current_allocation e d w = Some a"
  shows "\<exists>b. get_worker_balance e d w = Some b \<and> b_allocation_id b = al_id a \<and> get_budget_balance d (al_id a) = Some b"
proof -
  let ?as = "order_by_desc al_period_start
       (fetchall (\<lambda>a. al_worker_id a = w \<and> al_period_start a \<le> now e \<and> now e \<le> al_period_end a) (allocations d))"
  let ?bs = "order_by_desc b_period_start
       (fetchall (\<lambda>b. b_worker_id b = w \<and> b_period_start b \<le> now e \<and> now e \<le> b_period_end b) (balances d))"
  have "list_all2 same_frame ?as ?bs"
    using wf by (intro order_frames filter_frames) (auto simp: budget_wf_def same_frame_def)
  moreover from a obtain r where "list_head ?as = Some r" by (auto simp: get_current_allocation_def)
  ultimately obtain b where "get_worker_balance e d w = Some b"
    unfolding get_worker_balance_def using list_head_frames_back by blast
  then show ?thesis
    using current_balance_allocation [OF wf, of e w b] get_budget_balance_unique [OF wf, of b] a by auto
qed

lemma record_spend_metered:
  assumes wf: "budget_wf opened d" and a: "get_current_allocation e d w = Some a"
  shows "case record_spend e tx w (al_id a) amount info d of
      (Inl x, d') \<Rightarrow> d' = d
    | (Inr t, d') \<Rightarrow> 0 < amount \<and> budget_wf opened d' \<and> total_available d' = total_available d - amount
        \<and> (\<exists>b b'. get_budget_balance d (al_id a) = Some b \<and> get_budget_balance d' (al_id a) = Some b'
              \<and> b_available b' = b_available b - amount \<and> 0 \<le> b_available b')
        \<and> (\<forall>j. j \<noteq> al_id a \<longrightarrow> get_budget_balance d' j = get_budget_balance d j)"
proof -
  obtain b where b: "get_worker_balance e d w = Some b" "get_budget_balance d (al_id a) = Some b"
    using current_balance_exists [OF wf a] by auto
  obtain r d' where out: "record_spend e tx w (al_id a) amount info d = (r, d')" by (metis surj_pair)
  show ?thesis
  proof (cases r)
    case (Inl x)
    then have "d' = d"
      using out by (auto simp: record_spend_def create_budget_transaction_def Let_def split: if_splits option.splits)
    then show ?thesis using Inl out by simp
  next
    case (Inr t)
    then have amount: "0 < amount" "amount \<le> b_available b"
      and t: "create_budget_transaction e tx (al_id a) w TxSpend (- amount) info d = (Inr t, d')"
      using out by (auto simp: record_spend_def spendable_def b not_le not_less split: if_splits)
    note F = create_budget_transaction_facts [OF wf t] and E = txn_effect [OF wf t]
    have "d_available t = - amount" using F(2,3) amount by (simp add: transfer_available)
    then show ?thesis
      using posted_available [OF wf t b(2)] out Inr amount F(1) E(1) b(2) by (auto simp: E(2))
  qed
qed

text \<open>
  C7: Spending through \<open>BudgetEnforcer\<close> never overdraws. Once entered, with the period unchanged and
  whatever other processes posted meanwhile, recording the actual cost either fails and changes
  nothing, or lowers the available credits of the checked allocation by exactly that cost and not
  below zero, leaves all other balances alone and keeps the ledger invariant.
\<close>

theorem enforcer_never_overdraws:
  assumes "budget_wf opened d" and "budget_wf opened d1" and "allocations d1 = allocations d"
    and "enforcer_enter e (new_enforcer w cost) d = (Inr en, d0)"
    and "get_current_allocation e' d w = get_current_allocation e d w"
  shows "\<exists>a r. get_current_allocation e d w = Some a \<and> en_check_result en = Some r \<and> bc_allocation_id r = al_id a
    \<and> cost \<le> bc_available r \<and> d0 = d
    \<and> (case enforcer_record e' tx actual info en d1 of
         (Inl x, d') \<Rightarrow> d' = d1
       | (Inr (t, en'), d') \<Rightarrow> en_recorded en' \<and> 0 < actual \<and> budget_wf opened d'
           \<and> total_available d' = total_available d1 - actual
           \<and> (\<exists>b b'. get_budget_balance d1 (al_id a) = Some b \<and> get_budget_balance d' (al_id a) = Some b'
                 \<and> b_available b' = b_available b - actual \<and> 0 \<le> b_available b')
           \<and> (\<forall>j. j \<noteq> al_id a \<longrightarrow> get_budget_balance d' j = get_budget_balance d1 j))"
proof -
  obtain a where a: "get_current_allocation e d w = Some a"
    using assms(1,4) current_balance_allocation [OF assms(1), of e w]
    by (auto simp: enforcer_enter_def new_enforcer_def enforce_budget_def check_budget_def spendable_def Let_def
        split: option.splits if_splits)
  then obtain b where b: "get_worker_balance e d w = Some b" "b_allocation_id b = al_id a"
    using current_balance_exists [OF assms(1)] by blast
  obtain r where r: "en_check_result en = Some r" "bc_allocation_id r = al_id a" "cost \<le> bc_available r" "d0 = d"
      "en_worker_id en = w"
    using assms(4) b by (auto simp: enforcer_enter_def new_enforcer_def enforce_budget_def check_budget_def spendable_def Let_def
        split: if_splits)
  have "get_current_allocation e' d1 w = Some a"
    using a assms(3,5) by (simp add: get_current_allocation_def)
  from record_spend_metered [OF assms(2) this, where tx = tx and amount = actual and info = info]
  have "case enforcer_record e' tx actual info en d1 of
         (Inl x, d') \<Rightarrow> d' = d1
       | (Inr (t, en'), d') \<Rightarrow> en_recorded en' \<and> 0 < actual \<and> budget_wf opened d'
           \<and> total_available d' = total_available d1 - actual
           \<and> (\<exists>b b'. get_budget_balance d1 (al_id a) = Some b \<and> get_budget_balance d' (al_id a) = Some b'
                 \<and> b_available b' = b_available b - actual \<and> 0 \<le> b_available b')
           \<and> (\<forall>j. j \<noteq> al_id a \<longrightarrow> get_budget_balance d' j = get_budget_balance d1 j)"
    by (cases "record_spend e' tx w (al_id a) actual info d1")
      (auto simp: enforcer_record_def r and_then_def split: sum.splits)
  then show ?thesis using a r(1-4) by (intro exI [of _ a] exI [of _ r] conjI)
qed

theorem enforcer_never_overdraws_witness:
  "\<exists>en. enforcer_enter witness_env (new_enforcer ''ceo'' 5) budget_db = (Inr en, budget_db)
     \<and> total_available (snd (enforcer_record witness_env ''tx-1'' 7 no_info en budget_db)) = 53"
proof -
  have enter: "\<exists>en. enforcer_enter witness_env (new_enforcer ''ceo'' 5) budget_db = (Inr en, budget_db)
     \<and> isl (fst (enforcer_record witness_env ''tx-1'' 7 no_info en budget_db)) = False"
    by (simp add: enforcer_enter_def new_enforcer_def enforce_budget_def check_budget_def spendable_def budget_eval
        enforcer_record_def record_spend_def)
  have "total_available budget_db = 60" by (simp add: total_available_def budget_db_def)
  with enter show ?thesis
    using enforcer_never_overdraws [OF budget_db_wf budget_db_wf refl, where e = witness_env and e' = witness_env
        and w = "''ceo''" and cost = 5 and tx = "''tx-1''" and actual = 7 and info = no_info]
    by (fastforce split: prod.splits sum.splits)
qed

text \<open>
  The meter is the balance row. A worker that has a current allocation but no balance row passes
  every check, and recording a spend does not bring the next check any closer to its limit: after
  the charge the same amount is still available, as often as one likes.
\<close>

theorem unmetered_spend_is_unlimited:
  assumes "get_worker_balance e d w = None" and "get_current_allocation e d w = Some a"
    and "0 < amount" and "amount \<le> al_allocated_credits a - al_spent_credits a - al_reserved_credits a"
    and "tx \<notin> tx_id ` set (txns d)" and "worker_exists d w"
  shows "\<exists>t d'. record_spend e tx w (al_id a) amount info d = ok t d' \<and> txns d' = txns d @ [t]
    \<and> spendable e d' w = spendable e d w \<and> get_worker_balance e d' w = None \<and> get_current_allocation e d' w = Some a"
proof -
  have "al_id a \<in> al_id ` set (allocations d)"
    using assms(2) by (auto simp: get_current_allocation_def dest!: list_head_in)
  moreover have "get_worker_balance e (d\<lparr>txns := ts, balances := update_where p (apply_txn e t) (balances d)\<rparr>) w = None"
    for ts p t
  proof -
    have "fetchall (\<lambda>b. b_worker_id b = w \<and> b_period_start b \<le> now e \<and> now e \<le> b_period_end b) (balances d) = []"
      (is "?bs = []")
    proof -
      have "order_by_desc b_period_start ?bs = []"
        using assms(1) by (simp add: get_worker_balance_def list_head_def split: list.splits)
      then have "set ?bs = {}" using order_by_desc_set by (metis empty_set)
      then show ?thesis by (simp only: set_empty)
    qed
    then show ?thesis
      by (simp add: get_worker_balance_def list_head_def order_by_desc_def baltx.filter_update_other apply_txn_def)
  qed
  moreover have "get_current_allocation e (d\<lparr>txns := ts, balances := bs\<rparr>) w = Some a" for ts bs
    using assms(2) by (simp add: get_current_allocation_def)
  ultimately show ?thesis
    using assms by (simp add: record_spend_def spendable_def create_budget_transaction_def Let_def)
qed

theorem unmetered_spend_is_unlimited_witness:
  "\<exists>t d'. record_spend witness_env ''tx-1'' ''ceo'' ''al-ceo'' 60 no_info (budget_db\<lparr>balances := []\<rparr>) = ok t d'
     \<and> spendable witness_env d' ''ceo'' = Some (60, ''al-ceo'')"
proof -
  let ?d = "budget_db\<lparr>balances := []\<rparr>" and ?a = "row_to_allocation (hd (allocations budget_db))"
  have b: "get_worker_balance witness_env ?d ''ceo'' = None" and a: "get_current_allocation witness_env ?d ''ceo'' = Some ?a"
    and sp: "spendable witness_env ?d ''ceo'' = Some (60, ''al-ceo'')"
    and fresh: "''tx-1'' \<notin> tx_id ` set (txns ?d)" and ex: "worker_exists ?d ''ceo''"
    and am: "(0::rat) < 60" "60 \<le> al_allocated_credits ?a - al_spent_credits ?a - al_reserved_credits ?a"
    and id: "al_id ?a = ''al-ceo''"
    by (simp_all add: budget_eval spendable_def)
  show ?thesis
    using unmetered_spend_is_unlimited [OF b a am fresh ex, of no_info] sp id by auto
qed

section \<open>Funding a worker\<close>

lemma list_head_sort_Cons:
  "list_head (sort_key f (x # xs)) =
     (case list_head (sort_key f xs) of None \<Rightarrow> Some x | Some h \<Rightarrow> if f x \<le> f h then Some x else Some h)"
  by (cases "sort_key f xs") (auto simp: list_head_def)

lemma list_head_sort_snoc:
  fixes f :: "'r \<Rightarrow> int"
  shows "list_head (sort_key f (xs @ [y])) =
     (case list_head (sort_key f xs) of None \<Rightarrow> Some y | Some h \<Rightarrow> if f y < f h then Some y else Some h)"
proof (induction xs)
  case Nil
  show ?case by (simp add: list_head_def)
next
  case (Cons x xs)
  then show ?case by (auto simp: list_head_sort_Cons simp del: sort_key_simps split: option.splits)
qed

lemma current_allocation_snoc:
  assumes "allocations d' = allocations d @ [na]" and "al_worker_id na = w" and "in_period e na"
    and "get_current_allocation e d' w = Some a"
  shows "a = row_to_allocation na \<or> get_current_allocation e d w = Some a"
  using assms
  by (auto simp: get_current_allocation_def fetchall_def in_period_def order_by_desc_def list_head_sort_snoc
      split: option.splits if_splits)

lemma current_allocation_in:
  assumes "get_current_allocation e d w = Some a"
  shows "al_worker_id a = w \<and> al_id a \<in> al_id ` set (allocations d) \<and> in_period e a"
  using assms by (auto simp: get_current_allocation_def in_period_def dest!: list_head_in)

lemma current_allocation_worker:
  assumes "budget_wf opened d" and "get_current_allocation e d w = Some a" and "get_current_allocation e d w' = Some a'"
    and "al_id a = al_id a'"
  shows "w = w'"
proof -
  obtain r r' where r: "r \<in> set (allocations d)" "a = row_to_allocation r" "r' \<in> set (allocations d)" "a' = row_to_allocation r'"
    using assms(2,3) by (auto simp: get_current_allocation_def dest!: list_head_in)
  then have "r = r'" using assms(1,4) by (auto simp: budget_wf_def distinct_map dest: inj_onD)
  then show ?thesis using r current_allocation_in [OF assms(2)] current_allocation_in [OF assms(3)] by simp
qed

lemma get_current_allocation_cong:
  "allocations d' = allocations d \<Longrightarrow> get_current_allocation e d' w = get_current_allocation e d w"
  by (simp add: get_current_allocation_def)

text \<open>Which balance answers for the target after a delegation: its old one or the new one.\<close>

lemma delegated_target_balance:
  assumes wf: "budget_wf opened d" and ne: "source \<noteq> target"
    and res: "delegate_budget e al tx_out tx_in id source target amount sys d = (Inr i, d')"
  shows "\<exists>b'. get_worker_balance e d' target = Some b' \<and>
     (b_available b' = amount \<or> (\<exists>b. get_worker_balance e d target = Some b \<and> b_available b' = b_available b))"
proof (rule delegate_budget_steps [OF res])
  fix a b t nb na d2 d3 d4 t1 t2
  assume a: "service_current_allocation e d source = Some a" and b: "get_worker_balance e (id d) source = Some b"
    and al: "create_budget_allocation e al
           \<lparr>na_worker_id = target, na_allocated_credits = amount, na_period_start = al_period_start a,
            na_period_end = al_period_end a, na_source_worker_id = Some source, na_pool_id = None,
            na_can_delegate = is_worker_manager d target, na_delegation_limit = al_delegation_limit a\<rparr> (id d) = (Inr na, d2)"
    and bal: "create_budget_balance e al target 0 (al_period_start a) (al_period_end a) d2 = (Inr nb, d3)"
    and t1: "create_budget_transaction e tx_out (al_id a) source TxTransferOut (- amount) no_info d3 = (Inr t1, d4)"
    and t2: "create_budget_transaction e tx_in al target TxTransferIn amount no_info d4 = (Inr t2, d')"
  have wf': "budget_wf opened (id d)" using wf by simp
  note O = open_effect [OF wf' al, simplified, OF bal]
  have "allocations d' = allocations d3"
    using txn_effect(3) [OF O(1) t1] txn_effect(3) [OF create_budget_transaction_facts(1) [OF O(1) t1] t2] by simp
  then have allocs: "allocations d' = allocations d @ [na]" using O(4) by simp
  from delegate_budget_success [of opened id, OF wf' _ res] obtain a' where
    cura: "get_current_allocation e d source = Some a'" and D: "budget_delegated opened d a' al target amount d'" by auto
  have a': "a' = a" using service_current_in_period [OF cura] a by simp
  have wfd': "budget_wf (opened(al := 0)) d'" using D by (simp add: budget_delegated_def)
  note A = create_budget_allocation_facts [OF al]
  have per: "in_period e na" using current_allocation_in [OF cura] A by (simp add: in_period_def a')
  have "\<exists>c. get_current_allocation e d' target = Some c"
    using per A(4) by (auto simp: get_current_allocation_def fetchall_def in_period_def order_by_desc_def
        list_head_sort_snoc allocs split: option.splits)
  then obtain c where c: "get_current_allocation e d' target = Some c" ..
  obtain b' where b': "get_worker_balance e d' target = Some b'" "get_budget_balance d' (al_id c) = Some b'"
    using current_balance_exists [OF wfd' c] by blast
  from current_allocation_snoc [OF allocs _ per c] A(4)
  consider "c = row_to_allocation na" | "get_current_allocation e d target = Some c" by auto
  then show ?thesis
  proof cases
    case 1
    then have "b_available b' = amount" using b'(2) D A(3) by (simp add: budget_delegated_def)
    then show ?thesis using b'(1) by blast
  next
    case 2
    have "al_id c \<noteq> al_id a" using current_allocation_worker [OF wf cura 2] ne a' by auto
    moreover have "al_id c \<noteq> al" using current_allocation_in [OF 2] O(10) by auto
    ultimately have "get_budget_balance d (al_id c) = Some b'" using D b'(2) by (simp add: budget_delegated_def a')
    then show ?thesis using current_balance_exists [OF wf 2] b'(1) by auto
  qed
qed

text \<open>
  \<open>ensure_worker_funded\<close> keeps its promise for a worker that has no current balance, and changes
  nothing for one that has enough. But a worker with some credits and too few is topped up by a
  second allocation for the difference, and only one of the two is its current balance: it still
  cannot afford the amount although the call succeeded.
\<close>

theorem ensure_worker_funded_partial:
  assumes "budget_wf opened d" and "ceo \<noteq> w"
    and "ensure_worker_funded e al tx_out tx_in id w amount ceo d = (Inr (), d')"
  shows "case get_worker_balance e d w of
      None \<Rightarrow> 0 < amount \<longrightarrow> has_sufficient_budget e d' w amount
    | Some b \<Rightarrow> (amount \<le> b_available b \<longrightarrow> d' = d \<and> has_sufficient_budget e d' w amount)
        \<and> (0 < b_available b \<and> b_available b < amount \<longrightarrow> \<not> has_sufficient_budget e d' w amount)"
proof -
  define available where "available = (case get_worker_balance e d w of None \<Rightarrow> 0 | Some b \<Rightarrow> b_available b)"
  show ?thesis
  proof (cases "amount \<le> available")
    case True
    then have "d' = d" using assms(3) by (simp add: ensure_worker_funded_def available_def)
    then show ?thesis using True by (auto simp: available_def has_sufficient_budget_def split: option.splits)
  next
    case False
    then obtain i where "delegate_budget e al tx_out tx_in id ceo w (amount - available) True d = (Inr i, d')"
      using assms(3) by (auto simp: ensure_worker_funded_def available_def Let_def split: if_splits elim!: and_then_InrD)
    from delegated_target_balance [OF assms(1,2) this] obtain b' where
      b': "get_worker_balance e d' w = Some b'"
      and av: "b_available b' = amount - available
        \<or> (\<exists>b. get_worker_balance e d w = Some b \<and> b_available b' = b_available b)" by blast
    show ?thesis using False b' av by (auto simp: available_def has_sufficient_budget_def split: option.splits)
  qed
qed

definition part_db :: db where
  "part_db = snd (delegate_budget witness_env ''al-m'' ''tx-1'' ''tx-2'' id ''ceo'' ''mgr'' 20 False budget_db)"

lemma part_db_wf: "budget_wf (ceo_opening(''al-m'' := 0)) part_db"
proof -
  have i: "delegate_budget witness_env ''al-m'' ''tx-1'' ''tx-2'' id ''ceo'' ''mgr'' 20 False budget_db = (Inr ''al-m'', part_db)"
    unfolding part_db_def by (simp add: delegate_budget_def budget_eval)
  show "budget_wf (ceo_opening(''al-m'' := 0)) part_db"
    using delegate_budget_success [where other = id and opened = ceo_opening, OF _ _ i] budget_db_wf
    by (auto simp: budget_delegated_def)
qed

theorem ensure_worker_funded_partial_witness:
  "fst (ensure_worker_funded witness_env ''al-n'' ''tx-3'' ''tx-4'' id ''mgr'' 30 ''ceo'' part_db) = Inr ()
   \<and> \<not> has_sufficient_budget witness_env
        (snd (ensure_worker_funded witness_env ''al-n'' ''tx-3'' ''tx-4'' id ''mgr'' 30 ''ceo'' part_db)) ''mgr'' 30"
proof -
  have "fst (ensure_worker_funded witness_env ''al-n'' ''tx-3'' ''tx-4'' id ''mgr'' 30 ''ceo'' part_db) = Inr ()"
    and "map_option b_available (get_worker_balance witness_env part_db ''mgr'') = Some 20"
    by (simp_all add: part_db_def ensure_worker_funded_def delegate_budget_def budget_eval apply_txn_def
        d_allocated_def d_spent_def d_reserved_def d_delegated_def)
  then show ?thesis
    using part_db_wf ensure_worker_funded_partial [where d = part_db and e = witness_env and al = "''al-n''" and tx_out = "''tx-3''"
        and tx_in = "''tx-4''" and w = "''mgr''" and amount = 30 and ceo = "''ceo''"]
    by (cases "ensure_worker_funded witness_env ''al-n'' ''tx-3'' ''tx-4'' id ''mgr'' 30 ''ceo'' part_db")
      (auto split: option.splits)
qed

section \<open>Taking back what is unused\<close>

lemma revoke_unused_steps:
  assumes wf: "budget_wf opened d" and b: "get_worker_balance e d w = Some b" "0 < b_available b"
    and a: "get_current_allocation e d w = Some a" and self: "al_source_worker_id a \<noteq> Some w"
    and res: "revoke_unused e tx_adj tx_ref w d = (Inr x, d')"
  obtains t d1 where "x = b_available b"
    and "create_budget_transaction e tx_adj (al_id a) w TxAdjustment (- x) no_info d = (Inr t, d1)"
    and "d' = d1 \<and> (\<forall>src. al_source_worker_id a = Some src \<longrightarrow> src \<noteq> [] \<longrightarrow> service_current_allocation e d1 src = None)
         \<or> (\<exists>src sa t2. al_source_worker_id a = Some src \<and> src \<noteq> [] \<and> service_current_allocation e d1 src = Some sa
              \<and> create_budget_transaction e tx_ref (al_id sa) src TxRefund x no_info d1 = (Inr t2, d'))"
proof -
  note s = service_current_in_period [OF a]
  have run: "and_then (create_budget_transaction e tx_adj (al_id a) w TxAdjustment (- b_available b) no_info d) (\<lambda>_ d1.
                  case al_source_worker_id a of
                    None \<Rightarrow> ok (b_available b) d1
                  | Some src \<Rightarrow> if src = [] then ok (b_available b) d1 else
                      (case service_current_allocation e d1 src of
                         None \<Rightarrow> ok (b_available b) d1
                       | Some sa \<Rightarrow>
                           and_then (create_budget_transaction e tx_ref (al_id sa) src TxRefund (b_available b) no_info d1)
                             (\<lambda>_ d2. ok (b_available b) d2))) = (Inr x, d')"
    using res b by (simp add: revoke_unused_def s Let_def not_le)
  show thesis
    by (rule and_then_InrD [OF run])
      (auto split: option.splits if_splits elim!: and_then_InrD intro!: that)
qed

text \<open>The allocation the refund goes to is not the one taken from.\<close>

lemma service_current_in:
  assumes "service_current_allocation e d w = Some a"
  shows "\<exists>r \<in> set (allocations d). a = row_to_allocation r \<and> al_worker_id r = w"
proof -
  have "pick_current e c rows = Some a \<Longrightarrow> c = Some a \<or> a \<in> set rows" for c rows
    by (induction e c rows rule: pick_current.induct) (auto split: if_splits option.splits)
  then have "a \<in> set (get_worker_allocations d w)"
    using assms by (fastforce simp: service_current_allocation_def Let_def dest: list_head_in split: option.splits)
  then show ?thesis by (auto simp: get_worker_allocations_def)
qed

lemma revoke_unused_success:
  assumes wf: "budget_wf opened d" and b: "get_worker_balance e d w = Some b" "0 < b_available b"
    and a: "get_current_allocation e d w = Some a" and self: "al_source_worker_id a \<noteq> Some w"
    and res: "revoke_unused e tx_adj tx_ref w d = (Inr x, d')"
  shows "x = b_available b \<and> budget_wf opened d'
    \<and> (\<exists>b'. get_budget_balance d' (al_id a) = Some b' \<and> b_available b' = 0)
    \<and> total_available d' =
        (case al_source_worker_id a of
           Some src \<Rightarrow> if src \<noteq> [] \<and> service_current_allocation e d src \<noteq> None then total_available d else total_available d - x
         | None \<Rightarrow> total_available d - x)"
proof (rule revoke_unused_steps [OF assms])
  fix t d1
  assume x: "x = b_available b" and t: "create_budget_transaction e tx_adj (al_id a) w TxAdjustment (- x) no_info d = (Inr t, d1)"
    and tail: "d' = d1 \<and> (\<forall>src. al_source_worker_id a = Some src \<longrightarrow> src \<noteq> [] \<longrightarrow> service_current_allocation e d1 src = None)
         \<or> (\<exists>src sa t2. al_source_worker_id a = Some src \<and> src \<noteq> [] \<and> service_current_allocation e d1 src = Some sa
              \<and> create_budget_transaction e tx_ref (al_id sa) src TxRefund x no_info d1 = (Inr t2, d'))"
  note F = create_budget_transaction_facts [OF wf t] and E = txn_effect [OF wf t]
  have cur: "service_current_allocation e d1 s = service_current_allocation e d s" for s
    by (rule service_current_cong [OF E(3)])
  have av: "d_available t = - x" using F(2,3) by (simp add: transfer_available)
  have "get_budget_balance d (al_id a) = Some b" using current_balance_exists [OF wf a] b(1) by auto
  from posted_available [OF wf t this] obtain b1 where
    b1: "get_budget_balance d1 (al_id a) = Some b1" "b_available b1 = 0" using av x by auto
  from tail show ?thesis
  proof
    assume "d' = d1 \<and> (\<forall>src. al_source_worker_id a = Some src \<longrightarrow> src \<noteq> [] \<longrightarrow> service_current_allocation e d1 src = None)"
    then show ?thesis using x F(1) b1 E(1) av by (auto simp: cur split: option.splits)
  next
    assume "\<exists>src sa t2. al_source_worker_id a = Some src \<and> src \<noteq> [] \<and> service_current_allocation e d1 src = Some sa
              \<and> create_budget_transaction e tx_ref (al_id sa) src TxRefund x no_info d1 = (Inr t2, d')"
    then obtain src sa t2 where src: "al_source_worker_id a = Some src" "src \<noteq> []"
        "service_current_allocation e d1 src = Some sa"
        and t2: "create_budget_transaction e tx_ref (al_id sa) src TxRefund x no_info d1 = (Inr t2, d')" by blast
    note F2 = create_budget_transaction_facts [OF F(1) t2] and E2 = txn_effect [OF F(1) t2]
    have av2: "d_available t2 = x" using F2(2,3) x b(2) by (simp add: transfer_available)
    obtain r where r: "r \<in> set (allocations d)" "sa = row_to_allocation r" "al_worker_id r = src"
      using service_current_in [OF src(3) [unfolded cur]] by auto
    obtain r' where r': "r' \<in> set (allocations d)" "a = row_to_allocation r'" "al_worker_id r' = w"
      using service_current_in [OF service_current_in_period [OF a]] by auto
    have "al_id sa \<noteq> al_id a"
      using wf r r' self src(1) by (auto simp: budget_wf_def distinct_map dest: inj_onD)
    then have "get_budget_balance d' (al_id a) = Some b1" using b1 by (simp add: E2(2))
    then show ?thesis using x F2(1) b1 E2(1) E(1) av av2 src by (auto simp: cur)
  qed
qed

text \<open>
  \<open>revoke_unused\<close> leaves the worker nothing to spend: it returns what was available, after
  which the worker's current allocation has none left, and the ledger invariant is kept. Credits that
  came from a manager with an allocation are available to the manager again, so none are lost; credits
  that came from a pool disappear from all balances. A worker without available credits is left alone.
\<close>

theorem revoke_unused_correct:
  assumes "budget_wf opened d" and "get_current_allocation e d w = Some a" and "al_source_worker_id a \<noteq> Some w"
    and "revoke_unused e tx_adj tx_ref w d = (Inr x, d')"
  shows "\<exists>b b'. get_worker_balance e d w = Some b \<and> get_budget_balance d' (al_id a) = Some b'
    \<and> (if b_available b \<le> 0 then x = 0 \<and> d' = d
       else x = b_available b \<and> b_available b' = 0
         \<and> total_available d' =
            (case al_source_worker_id a of
               Some src \<Rightarrow> if src \<noteq> [] \<and> service_current_allocation e d src \<noteq> None then total_available d
                          else total_available d - x
             | None \<Rightarrow> total_available d - x))
    \<and> budget_wf opened d'"
proof -
  obtain b where b: "get_worker_balance e d w = Some b" "get_budget_balance d (al_id a) = Some b"
    using current_balance_exists [OF assms(1,2)] by auto
  show ?thesis
  proof (cases "0 < b_available b")
    case True
    then show ?thesis using revoke_unused_success [OF assms(1) b(1) True assms(2-4)] b by auto
  next
    case False
    then have "x = 0" "d' = d"
      using assms(4) b(1) by (simp_all add: revoke_unused_def service_current_in_period [OF assms(2)])
    then show ?thesis using False b assms(1) by auto
  qed
qed

theorem revoke_unused_correct_witness:
  "total_available (snd (revoke_unused witness_env ''tx-3'' ''tx-4'' ''mgr'' part_db)) = total_available part_db
   \<and> fst (revoke_unused witness_env ''tx-3'' ''tx-4'' ''mgr'' part_db) = Inr 20"
proof -
  have cur: "\<exists>a. get_current_allocation witness_env part_db ''mgr'' = Some a \<and> al_source_worker_id a = Some ''ceo''"
    and out: "fst (revoke_unused witness_env ''tx-3'' ''tx-4'' ''mgr'' part_db) = Inr 20"
    and src: "service_current_allocation witness_env part_db ''ceo'' \<noteq> None"
    by (simp_all add: part_db_def revoke_unused_def delegate_budget_def budget_eval apply_txn_def
        d_allocated_def d_spent_def d_reserved_def d_delegated_def)
  from cur obtain a where a: "get_current_allocation witness_env part_db ''mgr'' = Some a" "al_source_worker_id a = Some ''ceo''" by blast
  show ?thesis
    using revoke_unused_correct [OF part_db_wf a(1), where tx_adj = "''tx-3''" and tx_ref = "''tx-4''" and x = 20] a(2) out src
    by (cases "revoke_unused witness_env ''tx-3'' ''tx-4'' ''mgr'' part_db") (auto split: if_splits)
qed

section \<open>Cost estimates\<close>

lemma ascii_lower_tiers [simp]:
  "ascii_lower ''budget'' = ''budget''" "ascii_lower ''standard'' = ''standard''"
  "ascii_lower ''advanced'' = ''advanced''" "ascii_lower ''premium'' = ''premium''"
  by (simp_all add: ascii_lower_def ascii_lower_char_def)

lemma estimate_spawn_cost_eq:
  "estimate_spawn_cost c = (if c \<le> 30 then 9 / 8000 else if c \<le> 80 then 27 / 2000 else 27 / 400)"
  by (simp add: estimate_spawn_cost_def estimate_cost_def get_cost_tier_def COST_TIER_BUDGET_MAX_def
      COST_TIER_STANDARD_MAX_def COST_TIER_ADVANCED_MAX_def default_rates_def DEFAULT_COST_PER_1K_TOKENS_def Let_def)

text \<open>
  The cost estimate of a session grows with the worker's cost score and lies between 0.001125 and
  0.0675 dollars; a tier name is read without regard to case, an unknown one is priced as standard,
  and more tokens never cost less.
\<close>

theorem spawn_cost_bounds:
  "(c \<le> c' \<longrightarrow> estimate_spawn_cost c \<le> estimate_spawn_cost c')
   \<and> 9 / 8000 \<le> estimate_spawn_cost c \<and> estimate_spawn_cost c \<le> 27 / 400
   \<and> estimate_cost None (ascii_lower tier) n m = estimate_cost None tier n m
   \<and> (ascii_lower tier \<notin> fst ` set DEFAULT_COST_PER_1K_TOKENS \<longrightarrow>
        estimate_cost None tier n m = estimate_cost None ''standard'' n m)
   \<and> (n \<le> n' \<and> m \<le> m' \<longrightarrow> estimate_cost None tier n m \<le> estimate_cost None tier n' m')"
proof -
  have pos: "0 \<le> fst (default_rates t)" "0 \<le> snd (default_rates t)" for t
    by (auto simp: default_rates_def DEFAULT_COST_PER_1K_TOKENS_def)
  have mono: "estimate_cost None tier n m \<le> estimate_cost None tier n' m'" if "n \<le> n'" "m \<le> m'"
    unfolding estimate_cost_def Let_def option.case using that pos
    by (intro add_mono mult_right_mono divide_right_mono) simp_all
  have unknown: "estimate_cost None tier n m = estimate_cost None ''standard'' n m"
    if "ascii_lower tier \<notin> fst ` set DEFAULT_COST_PER_1K_TOKENS"
  proof -
    have "map_of DEFAULT_COST_PER_1K_TOKENS (ascii_lower tier) = None" using that by (simp add: map_of_eq_None_iff)
    then show ?thesis by (simp add: estimate_cost_def default_rates_def Let_def) (simp add: DEFAULT_COST_PER_1K_TOKENS_def)
  qed
  have idem: "ascii_lower (ascii_lower tier) = ascii_lower tier"
    by (simp add: ascii_lower_idem)
  show ?thesis using mono unknown by (simp add: estimate_spawn_cost_eq estimate_cost_def idem Let_def)
qed

theorem spawn_cost_bounds_witness:
  "estimate_spawn_cost 30 \<le> estimate_spawn_cost 31
   \<and> estimate_cost None ''gold'' 1 1 = estimate_cost None ''standard'' 1 1"
  using spawn_cost_bounds [of 30 31 "''gold''" 1 1 1 1]
  by (simp add: DEFAULT_COST_PER_1K_TOKENS_def ascii_lower_def ascii_lower_char_def)

end
