(* ===== verification/Permission_Laws.thy ===== *)
theory Permission_Laws
  imports Permissions
begin

text \<open>
  What the permission checks decide: access to channels and beads against a declarative
  reading of the rules, the effect of grants and revocations, and what the authorization
  manager lets a worker do.
\<close>

section \<open>The highest level\<close>

lemma le_fold_max: "(l::int) \<le> fold max ls x \<longleftrightarrow> l \<le> x \<or> (\<exists>y \<in> set ls. l \<le> y)"
  by (induction ls arbitrary: x) auto

lemma le_max_level:
  assumes "0 < l"
  shows "l \<le> max_level ls \<longleftrightarrow> (\<exists>y \<in> set ls. l \<le> y)"
  using assms by (cases ls) (auto simp: max_level_def le_fold_max)

lemma le_fold_highest:
  "(l::int) \<le> fold (\<lambda>m h. case f m of None \<Rightarrow> h | Some y \<Rightarrow> if h < y then y else h) ms x
     \<longleftrightarrow> l \<le> x \<or> (\<exists>m \<in> set ms. \<exists>y. f m = Some y \<and> l \<le> y)"
proof (induction ms arbitrary: x)
  case (Cons m ms)
  show ?case
  proof (cases "f m")
    case None
    then show ?thesis by (simp add: Cons.IH)
  next
    case (Some y)
    have "(l \<le> (if x < y then y else x)) = (l \<le> x \<or> l \<le> y)" by auto
    then show ?thesis using Some by (simp add: Cons.IH)
  qed
qed simp

lemma le_level_or_none: "0 < l \<Longrightarrow> l \<le> level_or_none o' \<longleftrightarrow> (\<exists>y. o' = Some y \<and> l \<le> y)"
  by (cases o') (auto simp: level_or_none_def)

section \<open>Who has access\<close>

text \<open>A grant on the resource, to the worker or to one of its teams, or a global grant.\<close>

definition granted_access :: "db \<Rightarrow> ident \<Rightarrow> ident \<Rightarrow> int \<Rightarrow> bool" where
  "granted_access d w res level =
     ((\<exists>l. granted_level d (Some res) ''worker'' w = Some l \<and> level \<le> l)
      \<or> (\<exists>m \<in> set (get_worker_team_memberships d w). \<exists>l. granted_level d (Some res) ''team'' (tm_team_id m) = Some l \<and> level \<le> l)
      \<or> (\<exists>l. granted_level d None ''worker'' w = Some l \<and> level \<le> l))"

definition bead_access :: "db \<Rightarrow> ident \<Rightarrow> ident \<Rightarrow> int \<Rightarrow> bool" where
  "bead_access d w b level = (\<exists>wk. get_worker d w = Some wk \<and>
     (granted_access d w b level \<or> (wk_role wk = ''ceo'' \<and> level \<le> 5)
      \<or> (\<exists>r. get_effective_permission d w b = Some r \<and> level \<le> ep_level r)))"

definition team_level :: "string \<Rightarrow> int" where
  "team_level role = (if role = ''admin'' then 5 else if role = ''lead'' then 4 else 3)"

definition channel_access :: "db \<Rightarrow> ident \<Rightarrow> ident \<Rightarrow> int \<Rightarrow> bool" where
  "channel_access d w cid level = (\<exists>wk c. get_worker d w = Some wk \<and> get_channel d cid = Some c \<and>
     (granted_access d w cid level \<or> (wk_role wk = ''ceo'' \<and> level \<le> 5)
      \<or> (is_subscribed_to_channel d cid w \<and> level \<le> 2)
      \<or> (\<exists>t. c_team_id c = Some t \<and> t \<noteq> [] \<and>
            (wk_team_id wk = t \<and> level \<le> 3
             \<or> (\<exists>m. get_team_member d t w = Some m \<and> level \<le> team_level (tm_role m))))))"

lemma map_filter_set: "set (List.map_filter f xs) = {y. \<exists>x \<in> set xs. f x = Some y}"
  by (auto simp: List.map_filter_def image_iff) force

lemma bead_access_iff:
  assumes "0 < level"
  shows "level \<le> check_bead_permission d w b \<longleftrightarrow> bead_access d w b level"
proof (cases "get_worker d w")
  case None
  then show ?thesis using assms by (simp add: check_bead_permission_def bead_access_def)
next
  case (Some wk)
  have set_opt: "set (case x of None \<Rightarrow> [] | Some y \<Rightarrow> [g y]) = {g y |y. x = Some y}" for x and g :: "'x \<Rightarrow> int"
    by (cases x) auto
  show ?thesis
    unfolding check_bead_permission_def bead_access_def granted_access_def Some option.case le_max_level [OF assms]
      set_append set_opt map_filter_set by auto
qed

lemma channel_access_iff:
  assumes "0 < level"
  shows "level \<le> check_channel_permission d w cid \<longleftrightarrow> channel_access d w cid level"
proof (cases "get_worker d w")
  case None
  then show ?thesis using assms by (simp add: check_channel_permission_def channel_access_def)
next
  case worker: (Some wk)
  show ?thesis
  proof (cases "get_channel d cid")
    case None
    then show ?thesis using assms worker by (simp add: check_channel_permission_def channel_access_def)
  next
    case (Some c)
    have cid: "c_id c = cid" using Some by (auto simp: get_channel_def dest: fetchone_SomeD)
    have sub: "level \<le> check_subscription_permission d w c \<longleftrightarrow> is_subscribed_to_channel d cid w \<and> level \<le> 2"
      using assms by (auto simp: check_subscription_permission_def cid)
    have tm: "level \<le> check_team_membership_permission d w c \<longleftrightarrow>
        (\<exists>t. c_team_id c = Some t \<and> t \<noteq> [] \<and> (\<exists>m. get_team_member d t w = Some m \<and> level \<le> team_level (tm_role m)))"
      using assms by (auto simp: check_team_membership_permission_def team_level_def split: option.splits)
    have home: "level \<le> check_primary_team_permission wk c \<longleftrightarrow>
        (\<exists>t. c_team_id c = Some t \<and> t \<noteq> [] \<and> wk_team_id wk = t \<and> level \<le> 3)"
      using assms by (auto simp: check_primary_team_permission_def split: option.splits)
    have ceo: "level \<le> check_ceo_permission wk \<longleftrightarrow> wk_role wk = ''ceo'' \<and> level \<le> 5"
      using assms by (auto simp: check_ceo_permission_def)
    have grant: "level \<le> check_direct_grant_permission d w c \<or> level \<le> check_team_grant_permission d w c
        \<or> level \<le> check_global_permission d w \<longleftrightarrow> granted_access d w cid level"
      using assms by (simp add: check_direct_grant_permission_def check_team_grant_permission_def cid
          check_global_permission_def le_level_or_none le_fold_highest granted_access_def)
    have "level \<le> check_channel_permission d w cid \<longleftrightarrow>
        level \<le> check_subscription_permission d w c \<or> level \<le> check_team_membership_permission d w c
        \<or> level \<le> check_primary_team_permission wk c \<or> level \<le> check_ceo_permission wk
        \<or> (level \<le> check_direct_grant_permission d w c \<or> level \<le> check_team_grant_permission d w c
           \<or> level \<le> check_global_permission d w)"
      by (auto simp: check_channel_permission_def worker Some le_max_level [OF assms])
    then show ?thesis
      unfolding sub tm home ceo grant channel_access_def using worker Some by auto
  qed
qed

section \<open>The guards\<close>

definition denial_row :: "env \<Rightarrow> ident \<Rightarrow> string \<Rightarrow> ident \<Rightarrow> ident \<Rightarrow> int \<Rightarrow> int \<Rightarrow> string \<Rightarrow> permission_audit_row" where
  "denial_row e fresh rt w res required actual act =
     \<lparr>pa_id = fresh, pa_action = ''deny'', pa_bead_id = res, pa_worker_id = w, pa_level = Some required,
      pa_details = Some (denial_details act rt required actual), pa_created_at = now e\<rparr>"

lemma require_level_eq:
  assumes "fresh \<notin> pa_id ` set (permission_audits d)"
  shows "require_level e fresh rt w res actual required act audit d =
     (if required \<le> actual then ok () d
      else raise (PermissionDenied w rt res required actual act)
             (if audit then d\<lparr>permission_audits := permission_audits d @ [denial_row e fresh rt w res required actual act]\<rparr>
              else d))"
  using assms by (simp add: require_level_def log_permission_audit_def denial_row_def Let_def)



section \<open>Grants and revocations\<close>

lemma fetchone_delete_other:
  "(\<And>r. q r \<Longrightarrow> \<not> p r) \<Longrightarrow> fetchone q (delete_where p rows) = fetchone q rows"
  by (induction rows) (auto simp: delete_where_def)

lemma fetchone_delete_same: "fetchone p (delete_where p rows) = None"
  by (simp add: fetchone_eq_None_iff)

text \<open>
  Granting a level on a bead makes it the grantee's level whatever it was before, leaves all
  other grantees alone, and revoking takes it away again. A global grant, which names no bead, is
  not replaced: while an older one exists the older level stays the one that counts, whether the
  new one was meant to raise or to lower it.
\<close>

theorem grant_permission_effect:
  assumes "fresh \<notin> pm_id ` set (permissions d)"
    and "grant_permission e fresh ty g level bead granter None d = (Inr r, d')"
  shows "(case bead of
        Some b \<Rightarrow> granted_level d' bead ty g = Some level
      | None \<Rightarrow> granted_level d' bead ty g =
                  (case granted_level d None ty g of None \<Rightarrow> Some level | Some old \<Rightarrow> Some old))
    \<and> (\<forall>bead' ty' g'. (bead', ty', g') \<noteq> (bead, ty, g) \<longrightarrow> granted_level d' bead' ty' g' = granted_level d bead' ty' g')
    \<and> granted_level (snd (revoke_permission_for_grantee bead ty g d')) bead ty g = None
    \<and> 0 \<le> level \<and> level \<le> 5"
proof -
  let ?p = "\<lambda>x. pm_id x = fresh \<or> bead \<noteq> None \<and> same_grantee bead ty g x"
  have r: "r = \<lparr>pm_id = fresh, pm_bead_id = bead, pm_grantee_type = ty, pm_grantee_id = g, pm_level = level,
               pm_granted_by = granter, pm_granted_at = now e\<rparr>"
    and d': "permissions d' = delete_where ?p (permissions d) @ [r]" and lv: "0 \<le> level" "level \<le> 5"
    using assms(2) by (auto simp: grant_permission_def Let_def split: if_splits)
  have drop: "delete_where ?p (permissions d) = delete_where (\<lambda>x. bead \<noteq> None \<and> same_grantee bead ty g x) (permissions d)"
    using assms(1) unfolding delete_where_def by (intro filter_cong) auto
  have perms: "permissions d' = delete_where (\<lambda>x. bead \<noteq> None \<and> same_grantee bead ty g x) (permissions d) @ [r]"
    by (simp only: d' drop)
  have other: "granted_level d' bead' ty' g' = granted_level d bead' ty' g'"
    if "(bead', ty', g') \<noteq> (bead, ty, g)" for bead' ty' g'
  proof -
    have "fetchone (same_grantee bead' ty' g') (delete_where (\<lambda>x. bead \<noteq> None \<and> same_grantee bead ty g x) (permissions d)) =
        fetchone (same_grantee bead' ty' g') (permissions d)"
      using that by (intro fetchone_delete_other) (auto simp: same_grantee_def)
    moreover have "\<not> same_grantee bead' ty' g' r" using that by (auto simp: same_grantee_def r)
    ultimately show ?thesis
      by (simp add: granted_level_def get_permission_for_grantee_def perms split: option.splits)
  qed
  have self: "same_grantee bead ty g r" by (simp add: same_grantee_def r)
  have some: "granted_level d' bead ty g = Some level" if "bead \<noteq> None"
    using that self by (simp add: granted_level_def get_permission_for_grantee_def perms fetchone_delete_same)
      (simp add: r)
  have none: "granted_level d' None ty g = (case granted_level d None ty g of None \<Rightarrow> Some level | Some old \<Rightarrow> Some old)"
    if "bead = None"
    using that self by (simp add: granted_level_def get_permission_for_grantee_def perms delete_where_def split: option.splits)
      (simp add: r)
  show ?thesis
    using some none other lv
    by (cases bead) (simp_all add: revoke_permission_for_grantee_def granted_level_def get_permission_for_grantee_def
        fetchone_delete_same)
qed

theorem grant_permission_effect_witness:
  "granted_level (snd (grant_permission witness_env ''p-2'' ''worker'' ''eng'' 0 None None None
      (snd (grant_permission witness_env ''p-1'' ''worker'' ''eng'' 5 None None None org_db)))) None ''worker'' ''eng'' = Some 5"
proof -
  let ?d = "snd (grant_permission witness_env ''p-1'' ''worker'' ''eng'' 5 None None None org_db)"
  have old: "granted_level ?d None ''worker'' ''eng'' = Some 5" and f: "''p-2'' \<notin> pm_id ` set (permissions ?d)"
    by (simp_all add: grant_permission_def Let_def org_defs granted_level_def get_permission_for_grantee_def
        same_grantee_def delete_where_def)
  obtain r d' where out: "grant_permission witness_env ''p-2'' ''worker'' ''eng'' 0 None None None ?d = (Inr r, d')"
    by (simp add: grant_permission_def Let_def)
  show ?thesis using grant_permission_effect [OF f out] old out by simp
qed

section \<open>What a worker may do\<close>

text \<open>
  The authorization manager never changes the database. What it allows stays in the worker's own line:
  to fire, only a ceo or director, and only an idle direct report; to approve, a direct report's
  work, or anyone's for a ceo; to assign, to a direct report or oneself; to hire, with a hiring
  scope and available credits. The question about delegating budget is never answered: the lookup
  behind it names a column the table does not have and raises for every existing worker.
\<close>

theorem authorization_stays_in_line:
  assumes "auth_can e busy wid permission target d = (r, d')"
  shows "d' = d
    \<and> (r = Inr True \<longrightarrow> (\<exists>w. get_worker d wid = Some w
        \<and> (permission = ''hire'' \<and> has_hiring_authority w = Inr True \<and> has_funds e d (wk_id w)
           \<or> permission = ''escalate'' \<and> wk_manager_id w \<noteq> None
           \<or> (\<exists>t. auth_target d target = Some t
               \<and> (permission = ''fire'' \<and> ascii_lower (wk_role w) \<in> {''ceo'', ''director''}
                    \<and> wk_manager_id t = Some (wk_id w) \<and> \<not> busy (wk_id t)
                  \<or> permission = ''approve'' \<and> (wk_manager_id t = Some (wk_id w) \<or> ascii_lower (wk_role w) = ''ceo'')
                  \<or> permission = ''assign'' \<and> (wk_manager_id t = Some (wk_id w) \<or> wk_id t = wk_id w))))))
    \<and> (permission = ''delegate_budget'' \<and> get_worker d wid \<noteq> None \<longrightarrow>
         r = Inl (OperationalError ''no such column: revoked_at''))"
  using assms
  by (auto simp: auth_can_def auth_can_hire_def auth_can_fire_def auth_can_delegate_budget_def auth_can_escalate_def
      auth_can_approve_def auth_can_assign_def get_worker_delegation_authority_def
      split: option.splits if_splits sum.splits)

theorem authorization_stays_in_line_witness:
  "fst (auth_can witness_env (\<lambda>_. False) ''mgr'' ''delegate_budget'' (Some ''eng'') org_db) =
     Inl (OperationalError ''no such column: revoked_at'')
   \<and> snd (auth_can witness_env (\<lambda>_. False) ''mgr'' ''assign'' (Some ''eng'') org_db) = org_db"
proof -
  have "get_worker org_db ''mgr'' \<noteq> None" by (simp add: get_worker_def org_defs)
  moreover obtain r d' where 1: "auth_can witness_env (\<lambda>_. False) ''mgr'' ''delegate_budget'' (Some ''eng'') org_db = (r, d')"
    by (metis surj_pair)
  moreover obtain r2 d2 where 2: "auth_can witness_env (\<lambda>_. False) ''mgr'' ''assign'' (Some ''eng'') org_db = (r2, d2)"
    by (metis surj_pair)
  ultimately show ?thesis
    using authorization_stays_in_line [OF 1] authorization_stays_in_line [OF 2] by simp
qed

end
