(* ===== verification/OKRs.thy ===== *)
theory OKRs
  imports Worker_Queries
begin

text \<open>
  \<open>cli/core/queries/okr.py\<close>: objectives with key results, their hierarchy and the links to work
  items. The recursive walks carry the depth of the call stack as fuel; \<open>None\<close> means that the walk
  has not come back within it.
\<close>

section \<open>Key results\<close>

definition kr_progress :: "key_result \<Rightarrow> rat" where
  "kr_progress kr =
     (if kr_target kr = 0 then (if 0 \<le> kr_current kr then 100 else 0)
      else min 100 ((kr_current kr / kr_target kr) * 100))"

definition is_met :: "key_result \<Rightarrow> bool" where
  "is_met kr = (kr_target kr \<le> kr_current kr)"

definition okr_progress :: "okr_row \<Rightarrow> rat" where
  "okr_progress q =
     (if ok_key_results q = [] then 0
      else sum_list (map kr_progress (ok_key_results q)) / of_nat (length (ok_key_results q)))"

definition all_key_results_met :: "okr_row \<Rightarrow> bool" where
  "all_key_results_met q = (if ok_key_results q = [] then False else list_all is_met (ok_key_results q))"

section \<open>Objectives\<close>

definition OKR_STATUSES :: "string list" where
  "OKR_STATUSES = [''draft'', ''active'', ''completed'', ''cancelled'']"

record new_okr =
  no_title :: string
  no_owner_id :: ident
  no_parent_id :: "ident option"
  no_description :: "string option"
  no_status :: string
  no_okr_id :: "ident option"
  no_key_results :: "key_result list"
  no_due_date :: "int option"

text \<open>A row may name itself as parent: SQLite checks the foreign key when the row is in.\<close>

definition create_okr :: "env \<Rightarrow> ident \<Rightarrow> new_okr \<Rightarrow> db \<Rightarrow> (db, okr_row) outcome" where
  "create_okr e fresh n d =
     (let i = (case no_okr_id n of None \<Rightarrow> fresh | Some i \<Rightarrow> i);
          q = \<lparr>ok_id = i, ok_title = no_title n, ok_description = no_description n,
               ok_owner_worker_id = no_owner_id n, ok_parent_okr_id = no_parent_id n, ok_status = no_status n,
               ok_key_results = no_key_results n, ok_due_date = no_due_date n, ok_created_at = now e,
               ok_updated_at = now e\<rparr>
      in if i \<in> ok_id ` set (okrs d) then raise (IntegrityError ''okrs.id'') d
         else if no_status n \<notin> set OKR_STATUSES then raise (IntegrityError ''okrs.status'') d
         else if \<not> worker_exists d (no_owner_id n) then raise (IntegrityError ''okrs.owner_worker_id'') d
         else if (case no_parent_id n of None \<Rightarrow> False | Some p \<Rightarrow> p \<noteq> i \<and> p \<notin> ok_id ` set (okrs d))
           then raise (IntegrityError ''okrs.parent_okr_id'') d
         else ok q (d\<lparr>okrs := okrs d @ [q]\<rparr>))"

definition get_okr :: "db \<Rightarrow> ident \<Rightarrow> okr_row option" where
  "get_okr d i = fetchone (\<lambda>q. ok_id q = i) (okrs d)"

definition update_okr_status :: "env \<Rightarrow> ident \<Rightarrow> string \<Rightarrow> db \<Rightarrow> (db, unit) outcome" where
  "update_okr_status e i st d =
     (if st \<notin> set OKR_STATUSES \<and> get_okr d i \<noteq> None then raise (IntegrityError ''okrs.status'') d
      else ok () (d\<lparr>okrs := update_where (\<lambda>q. ok_id q = i)
             (\<lambda>q. q\<lparr>ok_status := st, ok_updated_at := now e\<rparr>) (okrs d)\<rparr>))"

definition get_okrs_by_owner :: "db \<Rightarrow> ident \<Rightarrow> okr_row list" where
  "get_okrs_by_owner d w = order_by_desc ok_created_at (fetchall (\<lambda>q. ok_owner_worker_id q = w) (okrs d))"

definition list_okrs :: "db \<Rightarrow> string option \<Rightarrow> ident option \<Rightarrow> bool \<Rightarrow> okr_row list" where
  "list_okrs d st owner include_closed =
     order_by_desc ok_created_at (fetchall (\<lambda>q.
       (if st \<noteq> None \<and> st \<noteq> Some [] then Some (ok_status q) = st
        else include_closed \<or> ok_status q \<notin> {''completed'', ''cancelled''})
       \<and> (owner = None \<or> owner = Some [] \<or> Some (ok_owner_worker_id q) = owner)) (okrs d))"

definition get_child_okrs :: "db \<Rightarrow> ident \<Rightarrow> okr_row list" where
  "get_child_okrs d p = order_by ok_created_at (fetchall (\<lambda>q. ok_parent_okr_id q = Some p) (okrs d))"

text \<open>The loop that sets the first key result with the metric; \<open>None\<close> when there is none.\<close>

fun set_metric :: "string \<Rightarrow> rat \<Rightarrow> key_result list \<Rightarrow> key_result list option" where
  "set_metric m v [] = None"
| "set_metric m v (kr # krs) =
     (if kr_metric kr = m then Some (kr\<lparr>kr_current := v\<rparr> # krs)
      else map_option (\<lambda>rest. kr # rest) (set_metric m v krs))"

definition write_key_results :: "env \<Rightarrow> ident \<Rightarrow> key_result list \<Rightarrow> db \<Rightarrow> db" where
  "write_key_results e i krs d =
     d\<lparr>okrs := update_where (\<lambda>q. ok_id q = i)
         (\<lambda>q. q\<lparr>ok_key_results := krs, ok_updated_at := now e\<rparr>) (okrs d)\<rparr>"

definition update_okr_key_result :: "env \<Rightarrow> ident \<Rightarrow> string \<Rightarrow> rat \<Rightarrow> db \<Rightarrow> okr_row option \<times> db" where
  "update_okr_key_result e i m v d =
     (case get_okr d i of
        None \<Rightarrow> (None, d)
      | Some q \<Rightarrow>
          (case set_metric m v (ok_key_results q) of
             None \<Rightarrow> (None, d)
           | Some krs \<Rightarrow> (Some (q\<lparr>ok_key_results := krs, ok_updated_at := now e\<rparr>), write_key_results e i krs d)))"

definition add_okr_key_result ::
  "env \<Rightarrow> ident \<Rightarrow> string \<Rightarrow> rat \<Rightarrow> string \<Rightarrow> rat \<Rightarrow> db \<Rightarrow> okr_row option \<times> db" where
  "add_okr_key_result e i m target u v d =
     (case get_okr d i of
        None \<Rightarrow> (None, d)
      | Some q \<Rightarrow>
          if m \<in> kr_metric ` set (ok_key_results q) then (None, d)
          else let krs = ok_key_results q @ [\<lparr>kr_metric = m, kr_target = target, kr_current = v, kr_unit = u\<rparr>]
               in (Some (q\<lparr>ok_key_results := krs, ok_updated_at := now e\<rparr>), write_key_results e i krs d))"

section \<open>The hierarchy\<close>

datatype okr_tree = OKRTreeNode okr_row "okr_tree list"

fun opt_map :: "('a \<Rightarrow> 'b option) \<Rightarrow> 'a list \<Rightarrow> 'b list option" where
  "opt_map f [] = Some []"
| "opt_map f (x # xs) = (case f x of None \<Rightarrow> None | Some y \<Rightarrow> map_option (Cons y) (opt_map f xs))"

fun build_tree :: "nat \<Rightarrow> db \<Rightarrow> okr_row \<Rightarrow> okr_tree option" where
  "build_tree 0 d q = None"
| "build_tree (Suc n) d q = map_option (OKRTreeNode q) (opt_map (build_tree n d) (get_child_okrs d (ok_id q)))"

text \<open>The outer option is the fuel, the inner one a missing root.\<close>

definition get_okr_hierarchy :: "nat \<Rightarrow> db \<Rightarrow> ident \<Rightarrow> okr_tree option option" where
  "get_okr_hierarchy n d i =
     (case get_okr d i of None \<Rightarrow> Some None | Some q \<Rightarrow> map_option Some (build_tree n d q))"

fun ancestors_loop :: "nat \<Rightarrow> db \<Rightarrow> okr_row option \<Rightarrow> okr_row list option" where
  "ancestors_loop 0 d cur = None"
| "ancestors_loop (Suc n) d cur =
     (case cur of
        None \<Rightarrow> Some []
      | Some q \<Rightarrow>
          (case ok_parent_okr_id q of
             None \<Rightarrow> Some []
           | Some p \<Rightarrow>
               if p = [] then Some []
               else (case get_okr d p of
                       None \<Rightarrow> Some []
                     | Some parent \<Rightarrow> map_option (Cons parent) (ancestors_loop n d (Some parent)))))"

definition get_okr_ancestors :: "nat \<Rightarrow> db \<Rightarrow> ident \<Rightarrow> okr_row list option" where
  "get_okr_ancestors n d i = ancestors_loop n d (get_okr d i)"

section \<open>Work links\<close>

definition LINK_TYPES :: "string list" where
  "LINK_TYPES = [''contributes'', ''blocks'', ''depends_on'']"

definition link_key :: "ident \<Rightarrow> ident \<Rightarrow> okr_link_row \<Rightarrow> bool" where
  "link_key w i l = (ol_work_id l = w \<and> ol_okr_id l = i)"

definition link_work_to_okr :: "env \<Rightarrow> ident \<Rightarrow> ident \<Rightarrow> string \<Rightarrow> db \<Rightarrow> (db, okr_link_row) outcome" where
  "link_work_to_okr e w i ty d =
     (let l = \<lparr>ol_work_id = w, ol_okr_id = i, ol_link_type = ty, ol_created_at = now e\<rparr>
      in if ty \<notin> set LINK_TYPES then raise (IntegrityError ''work_okr_links.link_type'') d
         else if i \<notin> ok_id ` set (okrs d) then raise (IntegrityError ''work_okr_links.okr_id'') d
         else ok l (d\<lparr>okr_links := delete_where (link_key w i) (okr_links d) @ [l]\<rparr>))"

definition unlink_work_from_okr :: "ident \<Rightarrow> ident \<Rightarrow> db \<Rightarrow> bool \<times> db" where
  "unlink_work_from_okr w i d =
     (0 < rowcount (link_key w i) (okr_links d), d\<lparr>okr_links := delete_where (link_key w i) (okr_links d)\<rparr>)"

definition get_work_okr_link :: "db \<Rightarrow> ident \<Rightarrow> ident \<Rightarrow> okr_link_row option" where
  "get_work_okr_link d w i = fetchone (link_key w i) (okr_links d)"

definition get_work_for_okr :: "db \<Rightarrow> ident \<Rightarrow> okr_link_row list" where
  "get_work_for_okr d i = order_by ol_created_at (fetchall (\<lambda>l. ol_okr_id l = i) (okr_links d))"

definition get_okrs_for_work :: "db \<Rightarrow> ident \<Rightarrow> okr_link_row list" where
  "get_okrs_for_work d w = order_by ol_created_at (fetchall (\<lambda>l. ol_work_id l = w) (okr_links d))"

fun collect_links :: "nat \<Rightarrow> db \<Rightarrow> ident \<Rightarrow> okr_link_row list option" where
  "collect_links 0 d i = None"
| "collect_links (Suc n) d i =
     map_option (\<lambda>ls. get_work_for_okr d i @ concat ls)
       (opt_map (\<lambda>q. collect_links n d (ok_id q)) (get_child_okrs d i))"

definition get_work_for_okr_hierarchy :: "nat \<Rightarrow> db \<Rightarrow> ident \<Rightarrow> okr_link_row list option" where
  "get_work_for_okr_hierarchy n d i = collect_links n d i"

section \<open>Parents come first\<close>

text \<open>
  No operation changes the parent of an objective, and a parent has to exist when a child is
  created. So in the order of creation every parent stands before its children.
\<close>

fun parents_first :: "ident set \<Rightarrow> okr_row list \<Rightarrow> bool" where
  "parents_first seen [] = True"
| "parents_first seen (q # qs) =
     (ok_id q \<notin> seen \<and> ok_id q \<noteq> [] \<and> (case ok_parent_okr_id q of None \<Rightarrow> True | Some p \<Rightarrow> p \<in> seen)
      \<and> parents_first (insert (ok_id q) seen) qs)"

definition okr_wf :: "db \<Rightarrow> bool" where
  "okr_wf d = parents_first {} (okrs d)"

definition okr_child :: "db \<Rightarrow> (ident \<times> ident) set" where
  "okr_child d = {(p, ok_id q) |p q. q \<in> set (okrs d) \<and> ok_parent_okr_id q = Some p}"

lemma parents_first_append:
  "parents_first seen (qs @ rs) \<longleftrightarrow> parents_first seen qs \<and> parents_first (seen \<union> ok_id ` set qs) rs"
  by (induction qs arbitrary: seen) (auto simp: Un_commute insert_commute)

lemma parents_first_update:
  assumes "\<And>q. ok_id (f q) = ok_id q \<and> ok_parent_okr_id (f q) = ok_parent_okr_id q"
  shows "parents_first seen (update_where p f qs) = parents_first seen qs"
  using assms by (induction qs arbitrary: seen) auto

lemma parents_first_distinct:
  "parents_first seen qs \<Longrightarrow> distinct (map ok_id qs) \<and> seen \<inter> ok_id ` set qs = {}"
  by (induction qs arbitrary: seen) fastforce+

text \<open>The position of an objective; a child stands behind its parent.\<close>

definition okr_pos :: "db \<Rightarrow> ident \<Rightarrow> nat" where
  "okr_pos d i = length (takeWhile (\<lambda>q. ok_id q \<noteq> i) (okrs d))"

lemma parents_first_pos:
  assumes "parents_first seen qs" and "q \<in> set qs" and "ok_parent_okr_id q = Some p"
  shows "p \<in> seen \<or> length (takeWhile (\<lambda>r. ok_id r \<noteq> p) qs) < length (takeWhile (\<lambda>r. ok_id r \<noteq> ok_id q) qs)"
  using assms
proof (induction qs arbitrary: seen)
  case (Cons r qs)
  show ?case
  proof (cases "ok_id r = ok_id q")
    case True
    then have "q = r" using Cons.prems parents_first_distinct [of seen "r # qs"] by (auto simp: image_iff)
    then show ?thesis using Cons.prems by auto
  next
    case False
    then have "q \<in> set qs" using Cons.prems(2) by auto
    from Cons.IH [OF _ this Cons.prems(3), of "insert (ok_id r) seen"] Cons.prems(1) False show ?thesis by auto
  qed
qed simp

lemma okr_child_pos:
  assumes "okr_wf d" and "(p, i) \<in> okr_child d"
  shows "okr_pos d p < okr_pos d i"
  using assms parents_first_pos by (force simp: okr_child_def okr_wf_def okr_pos_def)

lemma okr_pos_less: "i \<in> ok_id ` set (okrs d) \<Longrightarrow> okr_pos d i < length (okrs d)"
proof -
  have "\<lbrakk>x \<in> set xs; ok_id x = i\<rbrakk> \<Longrightarrow> length (takeWhile (\<lambda>q. ok_id q \<noteq> i) xs) < length xs" for x xs
    by (induction xs) auto
  then show "i \<in> ok_id ` set (okrs d) \<Longrightarrow> okr_pos d i < length (okrs d)" by (auto simp: okr_pos_def)
qed

lemma get_okr_iff:
  assumes "okr_wf d"
  shows "get_okr d i = Some q \<longleftrightarrow> q \<in> set (okrs d) \<and> ok_id q = i"
proof
  assume "get_okr d i = Some q"
  then show "q \<in> set (okrs d) \<and> ok_id q = i" by (auto simp: get_okr_def dest: fetchone_SomeD)
next
  assume q: "q \<in> set (okrs d) \<and> ok_id q = i"
  then obtain q' where q': "get_okr d i = Some q'"
    unfolding get_okr_def using fetchone_ex [of q "okrs d" "\<lambda>q. ok_id q = i"] by auto
  then have "q' \<in> set (okrs d)" "ok_id q' = i" by (auto simp: get_okr_def dest: fetchone_SomeD)
  moreover have "inj_on ok_id (set (okrs d))"
    using assms parents_first_distinct by (auto simp: okr_wf_def distinct_map)
  ultimately show "get_okr d i = Some q" using q q' by (auto dest: inj_onD)
qed

end
