(* ===== verification/OKR_Laws.thy ===== *)
theory OKR_Laws
  imports OKRs
begin

text \<open>
  The walks over the objective hierarchy come back and visit exactly the ancestors or
  descendants, once each, because parents are created before their children; an objective
  that names itself as parent is the exception.
\<close>

section \<open>The hierarchy is a forest\<close>

lemma okr_child_trancl_pos:
  assumes "okr_wf d" and "(x, y) \<in> (okr_child d)\<^sup>+"
  shows "okr_pos d x < okr_pos d y"
  using assms(2) by (induction rule: trancl_induct) (auto dest: okr_child_pos [OF assms(1)])

lemma okr_ids_inj: "okr_wf d \<Longrightarrow> inj_on ok_id (set (okrs d))"
  using parents_first_distinct by (auto simp: okr_wf_def distinct_map)

lemma okr_forest:
  assumes "okr_wf d"
  shows "forest (okr_child d)"
proof -
  have "single_valued ((okr_child d)\<inverse>)"
    using okr_ids_inj [OF assms] by (force simp: single_valued_def okr_child_def dest: inj_onD)
  moreover have "acyclic (okr_child d)"
    using okr_child_trancl_pos [OF assms] by (force simp: acyclic_def)
  ultimately show ?thesis by (simp add: forest_def)
qed

lemma parents_first_parent:
  "parents_first seen qs \<Longrightarrow> q \<in> set qs \<Longrightarrow> ok_parent_okr_id q = Some p \<Longrightarrow> p \<in> seen \<union> ok_id ` set qs"
  by (induction qs arbitrary: seen) fastforce+

lemma parents_first_nonempty: "parents_first seen qs \<Longrightarrow> q \<in> set qs \<Longrightarrow> ok_id q \<noteq> []"
  by (induction qs arbitrary: seen) auto

lemma okr_parent_exists:
  assumes "okr_wf d" and "q \<in> set (okrs d)" and "ok_parent_okr_id q = Some p"
  shows "\<exists>r \<in> set (okrs d). ok_id r = p \<and> p \<noteq> []"
  using parents_first_parent [OF _ assms(2,3), of "{}"] parents_first_nonempty [of "{}" "okrs d"] assms(1)
  by (auto simp: okr_wf_def)

section \<open>Ancestors\<close>

lemma okr_predecessors:
  assumes "okr_wf d" and "q \<in> set (okrs d)"
  shows "{x. (x, ok_id q) \<in> (okr_child d)\<^sup>+} =
    (case ok_parent_okr_id q of None \<Rightarrow> {} | Some p \<Rightarrow> insert p {x. (x, p) \<in> (okr_child d)\<^sup>+})"
proof -
  have edge: "(x, ok_id q) \<in> okr_child d \<longleftrightarrow> ok_parent_okr_id q = Some x" for x
    using assms okr_ids_inj by (auto simp: okr_child_def dest: inj_onD)
  show ?thesis
    by (auto simp: edge elim: tranclE intro: trancl_into_trancl split: option.splits)
qed

lemma ancestors_loop_correct:
  assumes "okr_wf d" and "q \<in> set (okrs d)" and "okr_pos d (ok_id q) < n"
  shows "\<exists>as. ancestors_loop n d (Some q) = Some as \<and> distinct (map ok_id as)
    \<and> ok_id ` set as = {x. (x, ok_id q) \<in> (okr_child d)\<^sup>+} \<and> set as \<subseteq> set (okrs d)"
  using assms(2,3)
proof (induction n arbitrary: q)
  case (Suc n)
  show ?case
  proof (cases "ok_parent_okr_id q")
    case None
    then show ?thesis using okr_predecessors [OF assms(1) Suc.prems(1)] by simp
  next
    case (Some p)
    from okr_parent_exists [OF assms(1) Suc.prems(1) Some]
    obtain r where r: "r \<in> set (okrs d)" "ok_id r = p" "p \<noteq> []" by auto
    have "(p, ok_id q) \<in> okr_child d" using Some Suc.prems(1) by (auto simp: okr_child_def)
    then have "okr_pos d (ok_id r) < n" using okr_child_pos [OF assms(1)] Suc.prems(2) r(2) by fastforce
    from Suc.IH [OF r(1) this] obtain as where as: "ancestors_loop n d (Some r) = Some as" "distinct (map ok_id as)"
        "ok_id ` set as = {x. (x, p) \<in> (okr_child d)\<^sup>+}" "set as \<subseteq> set (okrs d)" using r(2) by auto
    have "get_okr d p = Some r" using r by (simp add: get_okr_iff [OF assms(1)])
    moreover have "p \<notin> ok_id ` set as" using as(3) okr_child_trancl_pos [OF assms(1), of p p] by auto
    ultimately show ?thesis
      using Some r as okr_predecessors [OF assms(1) Suc.prems(1)] by simp
  qed
qed simp

section \<open>Descendants\<close>

fun tree_ids :: "okr_tree \<Rightarrow> ident list" where
  "tree_ids (OKRTreeNode q ts) = ok_id q # concat (map tree_ids ts)"

lemma opt_map_Some:
  assumes "\<And>x. x \<in> set xs \<Longrightarrow> f x = Some (g x)"
  shows "opt_map f xs = Some (map g xs)"
  using assms by (induction xs) simp_all

lemma child_okrs_set:
  "set (get_child_okrs d i) = {q \<in> set (okrs d). ok_parent_okr_id q = Some i}"
  by (auto simp: get_child_okrs_def)

lemma child_okrs_distinct:
  assumes "okr_wf d"
  shows "distinct (map ok_id (get_child_okrs d i))"
proof -
  have "distinct (map ok_id (okrs d))" using assms parents_first_distinct by (auto simp: okr_wf_def)
  then have "distinct (get_child_okrs d i)" by (simp add: get_child_okrs_def order_by_def fetchall_def distinct_map)
  moreover have "inj_on ok_id (set (get_child_okrs d i))"
    using okr_ids_inj [OF assms] by (auto simp: child_okrs_set inj_on_def)
  ultimately show ?thesis by (simp add: distinct_map)
qed

lemma okr_child_Image: "okr_child d `` {i} = ok_id ` set (get_child_okrs d i)"
  by (auto simp: child_okrs_set okr_child_def)

lemma distinct_concat_map:
  assumes "distinct xs" and "\<And>x. x \<in> set xs \<Longrightarrow> distinct (f x)"
    and "\<And>x y. x \<in> set xs \<Longrightarrow> y \<in> set xs \<Longrightarrow> x \<noteq> y \<Longrightarrow> set (f x) \<inter> set (f y) = {}"
  shows "distinct (concat (map f xs))"
  using assms by (induction xs) auto

lemma concat_map_concat: "concat (map (\<lambda>x. concat (map f (h x))) xs) = concat (map f (concat (map h xs)))"
  by (induction xs) simp_all

text \<open>The property of one call, for enough fuel.\<close>

definition tree_walk_ok :: "db \<Rightarrow> nat \<Rightarrow> okr_row \<Rightarrow> okr_tree \<Rightarrow> bool" where
  "tree_walk_ok d n q t = (build_tree n d q = Some t \<and> distinct (tree_ids t)
     \<and> set (tree_ids t) = (okr_child d)\<^sup>* `` {ok_id q}
     \<and> collect_links n d (ok_id q) = Some (concat (map (get_work_for_okr d) (tree_ids t))))"

lemma build_tree_correct:
  assumes wf: "okr_wf d" and "q \<in> set (okrs d)" and "length (okrs d) \<le> okr_pos d (ok_id q) + n"
  shows "\<exists>t. tree_walk_ok d n q t"
  using assms(2,3)
proof (induction n arbitrary: q)
  case 0
  then show ?case using okr_pos_less [of "ok_id q" d] by auto
next
  case (Suc n)
  let ?cs = "get_child_okrs d (ok_id q)"
  have "\<exists>t. tree_walk_ok d n c t" if c: "c \<in> set ?cs" for c
  proof (rule Suc.IH)
    show "c \<in> set (okrs d)" using c by (simp add: child_okrs_set)
    have "(ok_id q, ok_id c) \<in> okr_child d" using c by (auto simp: child_okrs_set okr_child_def)
    then show "length (okrs d) \<le> okr_pos d (ok_id c) + n"
      using okr_child_pos [OF wf] Suc.prems(2) by fastforce
  qed
  then obtain g where g: "\<And>c. c \<in> set ?cs \<Longrightarrow> tree_walk_ok d n c (g c)" by metis
  let ?t = "OKRTreeNode q (map g ?cs)"
  have ids: "set (tree_ids (g c)) = (okr_child d)\<^sup>* `` {ok_id c}" if "c \<in> set ?cs" for c
    using g [OF that] by (simp add: tree_walk_ok_def)
  have edge: "(ok_id q, ok_id c) \<in> okr_child d" if "c \<in> set ?cs" for c
    using that by (auto simp: child_okrs_set okr_child_def)
  have "build_tree (Suc n) d q = Some ?t"
    using g by (simp add: opt_map_Some [where g = g] tree_walk_ok_def)
  moreover have "set (tree_ids ?t) = (okr_child d)\<^sup>* `` {ok_id q}"
    unfolding rtrancl_Image_unfold [of _ "ok_id q"] okr_child_Image using ids by auto
  moreover have "distinct (tree_ids ?t)"
  proof -
    have "distinct (concat (map (tree_ids \<circ> g) ?cs))"
    proof (rule distinct_concat_map)
      show "distinct ?cs" using child_okrs_distinct [OF wf] by (simp add: distinct_map)
      show "distinct ((tree_ids \<circ> g) c)" if "c \<in> set ?cs" for c using g [OF that] by (simp add: tree_walk_ok_def)
      show "set ((tree_ids \<circ> g) x) \<inter> set ((tree_ids \<circ> g) y) = {}"
        if x: "x \<in> set ?cs" and y: "y \<in> set ?cs" and "x \<noteq> y" for x y
      proof -
        have "ok_id x \<noteq> ok_id y" using that child_okrs_distinct [OF wf] by (auto simp: distinct_map dest: inj_onD)
        then show ?thesis using forest_siblings_disjoint [OF okr_forest [OF wf] edge [OF x] edge [OF y]] ids x y by simp
      qed
    qed
    moreover have "ok_id q \<notin> set (concat (map (tree_ids \<circ> g) ?cs))"
      using forest_root_not_below [OF okr_forest [OF wf] edge] ids by fastforce
    ultimately show ?thesis by simp
  qed
  moreover have "collect_links (Suc n) d (ok_id q) = Some (concat (map (get_work_for_okr d) (tree_ids ?t)))"
    using g by (simp add: opt_map_Some [where g = "\<lambda>c. concat (map (get_work_for_okr d) (tree_ids (g c)))"] tree_walk_ok_def)
      (simp add: concat_map_concat comp_def)
  ultimately show ?case by (intro exI [of _ ?t]) (simp add: tree_walk_ok_def)
qed


definition goal_row :: "ident \<Rightarrow> ident option \<Rightarrow> okr_row" where
  "goal_row i p = \<lparr>ok_id = i, ok_title = ''Grow'', ok_description = None, ok_owner_worker_id = ''ceo'',
     ok_parent_okr_id = p, ok_status = ''active'', ok_key_results = [], ok_due_date = None,
     ok_created_at = 0, ok_updated_at = 0\<rparr>"

definition goals_db :: db where
  "goals_db = org_db\<lparr>okrs := [goal_row ''g'' None, goal_row ''h'' (Some ''g'')]\<rparr>"


section \<open>Operations keep the order\<close>

lemma create_okr_cases:
  assumes "create_okr e fresh n d = (r, d')"
  shows "case r of Inl x \<Rightarrow> d' = d | Inr q \<Rightarrow> d' = d\<lparr>okrs := okrs d @ [q]\<rparr> \<and> ok_id q \<notin> ok_id ` set (okrs d)
    \<and> (case ok_parent_okr_id q of None \<Rightarrow> True | Some p \<Rightarrow> p = ok_id q \<or> p \<in> ok_id ` set (okrs d))"
  using assms by (auto simp: create_okr_def Let_def split: if_splits option.splits)

lemma get_okr_snoc:
  assumes "ok_id q \<notin> ok_id ` set (okrs d)"
  shows "get_okr (d\<lparr>okrs := okrs d @ [q]\<rparr>) (ok_id q) = Some q"
proof -
  have "fetchone (\<lambda>r. ok_id r = ok_id q) (okrs d) = None"
    using assms by (auto simp: fetchone_eq_None_iff image_iff)
  then show ?thesis by (simp add: get_okr_def)
qed

text \<open>An objective that is its own parent: neither walk comes back, at any depth.\<close>

lemma opt_map_None: "x \<in> set xs \<Longrightarrow> f x = None \<Longrightarrow> opt_map f xs = None"
  by (induction xs) (auto split: option.splits)

lemma self_parent_ancestors:
  assumes "get_okr d (ok_id q) = Some q" and "ok_parent_okr_id q = Some (ok_id q)" and "ok_id q \<noteq> []"
  shows "get_okr_ancestors m d (ok_id q) = None"
proof -
  have "ancestors_loop m d (Some q) = None" using assms by (induction m) simp_all
  then show ?thesis using assms(1) by (simp add: get_okr_ancestors_def)
qed

lemma self_parent_hierarchy:
  assumes "get_okr d (ok_id q) = Some q" and "ok_parent_okr_id q = Some (ok_id q)"
  shows "get_okr_hierarchy m d (ok_id q) = None"
proof -
  have "q \<in> set (get_child_okrs d (ok_id q))"
    using assms by (auto simp: child_okrs_set get_okr_def dest: fetchone_SomeD)
  then have "build_tree m d q = None" by (induction m) (simp_all add: opt_map_None)
  then show ?thesis using assms(1) by (simp add: get_okr_hierarchy_def)
qed

lemma okr_child_snoc:
  "okr_child (d\<lparr>okrs := okrs d @ [q]\<rparr>) =
     okr_child d \<union> (case ok_parent_okr_id q of None \<Rightarrow> {} | Some p \<Rightarrow> {(p, ok_id q)})"
  by (auto simp: okr_child_def split: option.splits)

lemma okr_wf_update:
  assumes "okr_wf d" and "\<And>q. ok_id (f q) = ok_id q \<and> ok_parent_okr_id (f q) = ok_parent_okr_id q"
  shows "okr_wf (d\<lparr>okrs := update_where p f (okrs d)\<rparr>)"
  using assms by (simp add: okr_wf_def parents_first_update)

text \<open>
  Creating an objective under an existing parent, changing its status and recording or adding key
  results all keep every parent before its children, so the hierarchy stays free of cycles; errors
  change nothing. Creating one that names itself as parent is accepted too, and then
  neither the ancestors nor the tree of that objective are ever returned, at any call depth.
\<close>

theorem okr_order_kept:
  assumes "okr_wf d"
  shows "(case create_okr e fresh n d of
        (Inl x, d') \<Rightarrow> d' = d
      | (Inr q, d') \<Rightarrow>
          (if ok_parent_okr_id q = Some (ok_id q)
           then ok_id q \<noteq> [] \<longrightarrow> (\<forall>m. get_okr_ancestors m d' (ok_id q) = None \<and> get_okr_hierarchy m d' (ok_id q) = None)
           else ok_id q \<noteq> [] \<longrightarrow> okr_wf d' \<and> okr_child d' = okr_child d \<union>
                  (case ok_parent_okr_id q of None \<Rightarrow> {} | Some p \<Rightarrow> {(p, ok_id q)})))
    \<and> okr_wf (snd (update_okr_status e i st d))
    \<and> okr_wf (snd (update_okr_key_result e i m v d))
    \<and> okr_wf (snd (add_okr_key_result e i m target u v d))"
proof -
  obtain r d' where out: "create_okr e fresh n d = (r, d')" by (metis surj_pair)
  have "okr_wf (d\<lparr>okrs := okrs d @ [q]\<rparr>)"
    if "r = Inr q" "ok_parent_okr_id q \<noteq> Some (ok_id q)" "ok_id q \<noteq> []" for q
    using create_okr_cases [OF out] assms that
    by (auto simp: okr_wf_def parents_first_append split: option.splits)
  then have create: "case create_okr e fresh n d of
        (Inl x, d') \<Rightarrow> d' = d
      | (Inr q, d') \<Rightarrow>
          (if ok_parent_okr_id q = Some (ok_id q)
           then ok_id q \<noteq> [] \<longrightarrow> (\<forall>m. get_okr_ancestors m d' (ok_id q) = None \<and> get_okr_hierarchy m d' (ok_id q) = None)
           else ok_id q \<noteq> [] \<longrightarrow> okr_wf d' \<and> okr_child d' = okr_child d \<union>
                  (case ok_parent_okr_id q of None \<Rightarrow> {} | Some p \<Rightarrow> {(p, ok_id q)}))"
    using create_okr_cases [OF out]
    by (cases r) (simp_all add: out get_okr_snoc self_parent_ancestors self_parent_hierarchy okr_child_snoc)
  moreover have "okr_wf (snd (update_okr_status e i st d))"
    using assms by (simp add: update_okr_status_def okr_wf_update)
  moreover have "okr_wf (snd (update_okr_key_result e i m v d))"
    using assms by (simp add: update_okr_key_result_def write_key_results_def okr_wf_update split: option.split)
  moreover have "okr_wf (snd (add_okr_key_result e i m target u v d))"
    using assms by (simp add: add_okr_key_result_def write_key_results_def okr_wf_update Let_def split: option.split)
  ultimately show ?thesis by blast
qed

definition org_goal :: new_okr where
  "org_goal = \<lparr>no_title = ''Grow'', no_owner_id = ''ceo'', no_parent_id = None, no_description = None,
     no_status = ''active'', no_okr_id = Some ''g'', no_key_results = [], no_due_date = None\<rparr>"

theorem okr_order_kept_witness:
  "(\<forall>m. get_okr_ancestors m (snd (create_okr witness_env ''f'' (org_goal\<lparr>no_parent_id := Some ''g''\<rparr>) org_db)) ''g'' = None)
   \<and> okr_wf (snd (update_okr_status witness_env ''g'' ''completed''
        (snd (create_okr witness_env ''f'' org_goal org_db))))"
proof -
  have w: "okr_wf org_db" by (simp add: okr_wf_def org_defs)
  have "okr_wf (snd (create_okr witness_env ''f'' org_goal org_db))"
    using okr_order_kept [OF w, where e = witness_env and fresh = "''f''" and n = org_goal]
    by (simp add: create_okr_def org_goal_def Let_def OKR_STATUSES_def org_defs worker_exists_def)
  from okr_order_kept [OF this] okr_order_kept [OF w, where e = witness_env and fresh = "''f''" and n = "org_goal\<lparr>no_parent_id := Some ''g''\<rparr>"]
  show ?thesis
    by (simp add: create_okr_def org_goal_def Let_def OKR_STATUSES_def org_defs worker_exists_def)
qed

end
