(* ===== verification/Py_Values.thy ===== *)
theory Py_Values
  imports Messages Bead_Lifecycle
begin

text \<open>
  The Python values that parsed files (YAML, JSON) and keyword arguments hold, for the code that does
  not know their types in advance. A float carries its value and the text Python prints for it; an
  object that is none of the built-in kinds (a date of a YAML file) carries its type name and its text.
  The functions are the operations of the language the code applies to them: equality, ordering, truth,
  conversion to text, iteration and indexing, and \<open>dict.get\<close>; what raises in Python is \<open>Inl\<close>.
\<close>

section \<open>Values\<close>

datatype pyval =
    VNone
  | VBool bool
  | VInt int
  | VFloat rat string
  | VStr string
  | VList "pyval list"
  | VDict "(pyval \<times> pyval) list"
  | VObj string string

text \<open>What reading a YAML file gives.\<close>

datatype file_read = Unreadable | BadYaml | Parsed pyval

fun num_of :: "pyval \<Rightarrow> rat option" where
  "num_of (VBool b) = Some (if b then 1 else 0)"
| "num_of (VInt i) = Some (of_int i)"
| "num_of (VFloat q _) = Some q"
| "num_of _ = None"

text \<open>Sizes of the components, for the recursions below.\<close>

lemma size_elem: "x \<in> set xs \<Longrightarrow> size x < Suc (size_list size xs)"
  by (induction xs) auto

lemma size_item:
  "(k, v) \<in> set kvs \<Longrightarrow> size (k :: pyval) < Suc (size_list (size_prod size size) kvs)"
  "(k, v) \<in> set kvs \<Longrightarrow> size (v :: pyval) < Suc (size_list (size_prod size size) kvs)"
  by (induction kvs) auto

text \<open>Equality: numbers compare by value, so \<open>True == 1 == 1.0\<close>; dictionaries compare as mappings.\<close>

function py_eq :: "pyval \<Rightarrow> pyval \<Rightarrow> bool" where
  "py_eq VNone y = (y = VNone)"
| "py_eq (VBool b) y = (num_of (VBool b) = num_of y)"
| "py_eq (VInt i) y = (num_of (VInt i) = num_of y)"
| "py_eq (VFloat q t) y = (num_of (VFloat q t) = num_of y)"
| "py_eq (VStr s) y = (y = VStr s)"
| "py_eq (VList xs) y =
     (case y of VList ys \<Rightarrow> length xs = length ys \<and> (\<forall>(a, b) \<in> set (zip xs ys). py_eq a b) | _ \<Rightarrow> False)"
| "py_eq (VDict xs) y =
     (case y of VDict ys \<Rightarrow> length xs = length ys \<and>
        (\<forall>(k, v) \<in> set xs. \<exists>(k', v') \<in> set ys. py_eq k k' \<and> py_eq v v') | _ \<Rightarrow> False)"
| "py_eq (VObj t s) y = (y = VObj t s)"
  by pat_completeness auto
termination
  by (relation "measure (\<lambda>(x, _). size x)")
    (auto dest: set_zip_leftD intro: size_elem size_item)

text \<open>\<open><\<close> on the values the code compares, \<open>None\<close> where Python raises \<open>TypeError\<close>; two lists or two
  dates are never compared by the modelled code.\<close>

fun py_lt :: "pyval \<Rightarrow> pyval \<Rightarrow> bool option" where
  "py_lt (VStr s) (VStr t) = Some (s < t)"
| "py_lt x y = (case (num_of x, num_of y) of (Some p, Some q) \<Rightarrow> Some (p < q) | _ \<Rightarrow> None)"

fun py_truth :: "pyval \<Rightarrow> bool" where
  "py_truth VNone = False"
| "py_truth (VBool b) = b"
| "py_truth (VInt i) = (i \<noteq> 0)"
| "py_truth (VFloat q _) = (q \<noteq> 0)"
| "py_truth (VStr s) = (s \<noteq> [])"
| "py_truth (VList xs) = (xs \<noteq> [])"
| "py_truth (VDict kvs) = (kvs \<noteq> [])"
| "py_truth (VObj _ _) = True"

definition py_or :: "pyval \<Rightarrow> pyval \<Rightarrow> pyval" where
  "py_or x y = (if py_truth x then x else y)"

section \<open>Text\<close>

definition digit_char :: "nat \<Rightarrow> char" where
  "digit_char n = char_of (48 + n)"

fun nat_str :: "nat \<Rightarrow> string" where
  "nat_str n = (if n < 10 then [digit_char n] else nat_str (n div 10) @ [digit_char (n mod 10)])"

declare nat_str.simps [simp del]

definition int_str :: "int \<Rightarrow> string" where
  "int_str i = (if i < 0 then ''-'' @ nat_str (nat (- i)) else nat_str (nat i))"

definition hex_char :: "nat \<Rightarrow> char" where
  "hex_char n = (if n < 10 then char_of (48 + n) else char_of (87 + n))"

definition apostrophe :: char where
  "apostrophe = CHR 0x27"

definition repr_char :: "char \<Rightarrow> char \<Rightarrow> string" where
  "repr_char q c =
     (let n = of_char c :: nat
      in if c = q \<or> c = backslash then [backslash, c]
         else if n = 9 then [backslash, CHR ''t'']
         else if n = 10 then [backslash, CHR ''n'']
         else if n = 13 then [backslash, CHR ''r'']
         else if n < 32 \<or> 127 \<le> n \<and> n \<le> 160 \<or> n = 173
              then [backslash, CHR ''x'', hex_char (n div 16), hex_char (n mod 16)]
         else [c])"

definition repr_str :: "string \<Rightarrow> string" where
  "repr_str s =
     (let q = (if apostrophe \<in> set s \<and> quote \<notin> set s then quote else apostrophe)
      in [q] @ concat (map (repr_char q) s) @ [q])"

definition join :: "string \<Rightarrow> string list \<Rightarrow> string" where
  "join sep xs = (case xs of [] \<Rightarrow> [] | y # ys \<Rightarrow> y @ concat (map (\<lambda>z. sep @ z) ys))"

fun py_repr :: "pyval \<Rightarrow> string" where
  "py_repr VNone = ''None''"
| "py_repr (VBool b) = (if b then ''True'' else ''False'')"
| "py_repr (VInt i) = int_str i"
| "py_repr (VFloat _ t) = t"
| "py_repr (VStr s) = repr_str s"
| "py_repr (VList xs) = ''['' @ join '', '' (map py_repr xs) @ '']''"
| "py_repr (VDict kvs) = ''{'' @ join '', '' (map (\<lambda>(k, v). py_repr k @ '': '' @ py_repr v) kvs) @ ''}''"
| "py_repr (VObj _ t) = t"

definition py_str :: "pyval \<Rightarrow> string" where
  "py_str v = (case v of VStr s \<Rightarrow> s | _ \<Rightarrow> py_repr v)"

lemma py_str_VStr [simp]: "py_str (VStr s) = s"
  by (simp add: py_str_def)

section \<open>Containers\<close>

fun dict_items :: "pyval \<Rightarrow> (pyval \<times> pyval) list option" where
  "dict_items (VDict kvs) = Some kvs"
| "dict_items _ = None"

text \<open>A dictionary with text keys, as keyword arguments and contexts are.\<close>

type_synonym pydict = "(string \<times> pyval) list"

definition dget :: "pydict \<Rightarrow> string \<Rightarrow> pyval" where
  "dget kvs k = (case map_of kvs k of None \<Rightarrow> VNone | Some v \<Rightarrow> v)"

text \<open>\<open>key in d\<close> and \<open>d.get(key, default)\<close> for a text key of a parsed mapping.\<close>

definition vmem :: "string \<Rightarrow> (pyval \<times> pyval) list \<Rightarrow> bool" where
  "vmem k kvs = (map_of kvs (VStr k) \<noteq> None)"

definition vget :: "(pyval \<times> pyval) list \<Rightarrow> string \<Rightarrow> pyval \<Rightarrow> pyval" where
  "vget kvs k dflt = (case map_of kvs (VStr k) of None \<Rightarrow> dflt | Some v \<Rightarrow> v)"

fun py_iter :: "pyval \<Rightarrow> py_error + pyval list" where
  "py_iter (VList xs) = Inr xs"
| "py_iter (VStr s) = Inr (map (\<lambda>c. VStr [c]) s)"
| "py_iter (VDict kvs) = Inr (map fst kvs)"
| "py_iter _ = Inl (TypeError ''object is not iterable'')"

text \<open>\<open>x[0]\<close>: of a mapping this looks up the key \<open>0\<close>.\<close>

fun py_index0 :: "pyval \<Rightarrow> py_error + pyval" where
  "py_index0 (VList (x # _)) = Inr x"
| "py_index0 (VList []) = Inl (IndexError ''list index out of range'')"
| "py_index0 (VStr (c # _)) = Inr (VStr [c])"
| "py_index0 (VStr []) = Inl (IndexError ''string index out of range'')"
| "py_index0 (VDict kvs) =
     (case List.find (\<lambda>(k, _). py_eq k (VInt 0)) kvs of None \<Rightarrow> Inl (KeyError ''0'') | Some (_, v) \<Rightarrow> Inr v)"
| "py_index0 _ = Inl (TypeError ''object is not subscriptable'')"

section \<open>Dictionaries in insertion order\<close>

text \<open>Setting a key keeps the position of a key that is already there; a new key comes last.\<close>

fun dict_set :: "'k \<Rightarrow> 'v \<Rightarrow> ('k \<times> 'v) list \<Rightarrow> ('k \<times> 'v) list" where
  "dict_set k v [] = [(k, v)]"
| "dict_set k v ((k', v') # xs) = (if k = k' then (k, v) # xs else (k', v') # dict_set k v xs)"

definition dict_del :: "'k \<Rightarrow> ('k \<times> 'v) list \<Rightarrow> ('k \<times> 'v) list" where
  "dict_del k xs = filter (\<lambda>(k', _). k' \<noteq> k) xs"

lemma map_of_dict_set [simp]: "map_of (dict_set k v xs) = (map_of xs)(k \<mapsto> v)"
  by (induction xs) auto

lemma keys_dict_set: "map fst (dict_set k v xs) = (if k \<in> fst ` set xs then map fst xs else map fst xs @ [k])"
  by (induction xs) (force split: if_splits)+

lemma distinct_dict_set: "distinct (map fst xs) \<Longrightarrow> distinct (map fst (dict_set k v xs))"
  by (auto simp: keys_dict_set)

lemma map_of_dict_del [simp]: "map_of (dict_del k xs) = (map_of xs)(k := None)"
  by (induction xs) (auto simp: dict_del_def)

lemma distinct_dict_del: "distinct (map fst xs) \<Longrightarrow> distinct (map fst (dict_del k xs))"
  by (simp add: dict_del_def distinct_map_filter)

lemma set_dict_del: "set (dict_del k xs) = {(k', v) \<in> set xs. k' \<noteq> k}"
  by (auto simp: dict_del_def)

text \<open>\<open>collections.deque\<close> with a maximal length: an append drops the oldest elements.\<close>

definition deque_append :: "nat \<Rightarrow> 'a \<Rightarrow> 'a list \<Rightarrow> 'a list" where
  "deque_append maxlen x xs = drop (Suc (length xs) - maxlen) (xs @ [x])"

lemma deque_append_bound: "length (deque_append n x xs) \<le> n"
  by (auto simp: deque_append_def)

lemma deque_append_subset: "set (deque_append n x xs) \<subseteq> insert x (set xs)"
  using set_drop_subset [of "Suc (length xs) - n" "xs @ [x]"] by (auto simp: deque_append_def)

lemma deque_append_room: "length xs < n \<Longrightarrow> deque_append n x xs = xs @ [x]"
  by (simp add: deque_append_def)

section \<open>Decimal numbers\<close>

definition num_val :: "string \<Rightarrow> nat" where
  "num_val s = foldl (\<lambda>a c. 10 * a + (of_char c - 48)) 0 s"

lemma num_val_snoc: "num_val (s @ [c]) = 10 * num_val s + (of_char c - 48)"
  by (simp add: num_val_def)

lemma of_digit_char: "n < 10 \<Longrightarrow> of_char (digit_char n) = 48 + n"
  by (simp add: digit_char_def of_char_of take_bit_nat_eq_self)

lemma num_val_nat_str: "num_val (nat_str n) = n"
proof (induction n rule: less_induct)
  case (less n)
  show ?case
  proof (cases "n < 10")
    case True
    then show ?thesis by (subst nat_str.simps) (simp add: num_val_def of_digit_char)
  next
    case False
    then show ?thesis using less [of "n div 10"]
      by (subst nat_str.simps) (simp add: num_val_snoc of_digit_char)
  qed
qed

text \<open>A number padded with zeros on the left, as the format \<open>06d\<close> prints it.\<close>

definition zero_padded :: "nat \<Rightarrow> nat \<Rightarrow> string" where
  "zero_padded width n = replicate (width - length (nat_str n)) CHR ''0'' @ nat_str n"

lemma num_val_zero_padded: "num_val (zero_padded width n) = n"
proof -
  have "num_val (replicate k CHR ''0'' @ s) = num_val s" for k s
    by (induction k) (auto simp: num_val_def)
  then show ?thesis by (simp add: zero_padded_def num_val_nat_str)
qed

lemma zero_padded_inj: "zero_padded w m = zero_padded w n \<longleftrightarrow> m = n"
  by (metis num_val_zero_padded)

section \<open>Facts\<close>

lemma py_eq_VStr [simp]: "py_eq x (VStr s) \<longleftrightarrow> x = VStr s"
  by (cases x) auto

lemma py_eq_VNone [simp]: "py_eq x VNone \<longleftrightarrow> x = VNone"
  by (cases x) auto

lemma vget_mem: "vmem k kvs \<Longrightarrow> vget kvs k d = vget kvs k d'"
  by (auto simp: vmem_def vget_def)

end
