(* ===== verification/Rules.thy ===== *)
theory Rules
  imports Py_Values
begin

text \<open>
  The board rules of \<open>cli/core/rules\<close>: the data model (\<open>types.py\<close>), the loader of \<open>rules.yaml\<close>
  (\<open>loader.py\<close>), the engine that decides on an action (\<open>engine.py\<close>, \<open>_disabled.py\<close>), its audit log
  (\<open>audit.py\<close>), the decorator that guards a command (\<open>decorators.py\<close>) and the command that comments a
  rule out (\<open>cli.py\<close>). Files arrive parsed: PyYAML's result is a value of \<open>Py_Values\<close>. The regular
  expression engine is an argument: which expressions compile and which texts they match. A compiled
  expression is its source text.
\<close>

section \<open>Data model\<close>

datatype severity = SUGGESTED | ENCOURAGED | REQUIRED | ABSOLUTE

datatype decision_kind = ALLOW | BLOCK | ALLOW_WITH_NUDGE | REQUIRES_JUSTIFY | REQUIRES_OVERRIDE

text \<open>Patterns and scopes keep the values of the file: the loader does not check their types.\<close>

record rule_pattern =
  pat_kind :: pyval
  pat_target :: pyval
  pat_expr :: pyval

record rule_scope =
  sc_env :: pyval
  sc_worker_role :: pyval
  sc_min_level :: pyval
  sc_path_prefix :: pyval

record rule =
  r_id :: string
  r_severity :: severity
  r_actions :: "string list"
  r_description :: string
  r_pattern :: "rule_pattern option"
  r_scope :: "rule_scope option"
  r_artifact_required :: bool
  r_notes :: string

record rule_set =
  rs_version :: pyval
  rs_rules :: "rule list"

text \<open>The texts of a decision, one constructor for each format string of the engine.\<close>

datatype rule_text =
    NoText
  | RefusedAbsolute string string
  | EditRulesFile
  | Nudge string string
  | NeedsJustify string string
  | FileBead
  | BadJustify string
  | FileOwnedBead
  | JustifiedBy string string
  | NeedsOverride string string
  | FileOverride
  | BadOverride string
  | ApprovedByManager
  | OverriddenBy string string
  | EngineDisabled

record decision =
  dec_kind :: decision_kind
  dec_rule :: "rule option"
  dec_message :: rule_text
  dec_remediation :: rule_text

section \<open>Loader\<close>

text \<open>\<open>_COMPILED_PATTERNS\<close>, the module's cache of compiled expressions by rule id.\<close>

type_synonym pattern_cache = "string \<rightharpoonup> string"

fun read_yaml :: "file_read \<Rightarrow> py_error + (pyval \<times> pyval) list" where
  "read_yaml Unreadable = Inl (RuleSetLoadError ''could not read file'')"
| "read_yaml BadYaml = Inl (RuleSetLoadError ''YAML parse error'')"
| "read_yaml (Parsed v) =
     (if v = VNone then Inl (RuleSetLoadError ''file is empty'')
      else case dict_items v of
             None \<Rightarrow> Inl (RuleSetLoadError ''top-level must be a mapping'')
           | Some kvs \<Rightarrow> Inr kvs)"

definition build_pattern ::
  "(string \<Rightarrow> bool) \<Rightarrow> pyval \<Rightarrow> string \<Rightarrow> pattern_cache \<Rightarrow> (pattern_cache, rule_pattern) outcome" where
  "build_pattern re_ok raw rid c =
     (case dict_items raw of
        None \<Rightarrow> raise (RuleSetLoadError ''pattern must be a mapping'') c
      | Some kvs \<Rightarrow>
          if \<not> (vmem ''kind'' kvs \<and> vmem ''target'' kvs \<and> vmem ''expr'' kvs)
          then raise (RuleSetLoadError ''pattern missing required key'') c
          else
            let kind = vget kvs ''kind'' VNone; target = vget kvs ''target'' VNone;
                expr = vget kvs ''expr'' VNone;
                p = \<lparr>pat_kind = kind, pat_target = target, pat_expr = expr\<rparr>
            in if kind = VStr ''regex''
               then (case expr of
                       VStr s \<Rightarrow> if re_ok s then ok p (c(rid \<mapsto> s))
                                else raise (RuleSetLoadError ''invalid regex in pattern.expr'') c
                     | _ \<Rightarrow> raise (TypeError ''first argument must be string or compiled pattern'') c)
               else ok p c)"

definition build_scope :: "pyval \<Rightarrow> py_error + rule_scope" where
  "build_scope raw =
     (case dict_items raw of
        None \<Rightarrow> Inl (RuleSetLoadError ''scope must be a mapping'')
      | Some kvs \<Rightarrow> Inr \<lparr>sc_env = vget kvs ''env'' VNone, sc_worker_role = vget kvs ''worker_role'' VNone,
                        sc_min_level = vget kvs ''worker_role_min_level'' VNone,
                        sc_path_prefix = vget kvs ''target_path_prefix'' VNone\<rparr>)"

definition severity_of :: "pyval \<Rightarrow> severity option" where
  "severity_of v =
     (if v = VStr ''SUGGESTED'' then Some SUGGESTED else if v = VStr ''ENCOURAGED'' then Some ENCOURAGED
      else if v = VStr ''REQUIRED'' then Some REQUIRED else if v = VStr ''ABSOLUTE'' then Some ABSOLUTE
      else None)"

definition build_rule ::
  "(string \<Rightarrow> bool) \<Rightarrow> pyval \<Rightarrow> pattern_cache \<Rightarrow> (pattern_cache, rule) outcome" where
  "build_rule re_ok raw c =
     (case dict_items raw of
        None \<Rightarrow> raise (RuleSetLoadError ''each rule must be a mapping'') c
      | Some kvs \<Rightarrow>
          if \<not> (vmem ''id'' kvs \<and> vmem ''severity'' kvs \<and> vmem ''actions'' kvs \<and> vmem ''description'' kvs)
          then raise (RuleSetLoadError ''rule missing required key'') c
          else case vget kvs ''id'' VNone of
            VStr rid \<Rightarrow>
              if rid = [] then raise (RuleSetLoadError ''rule.id must be a non-empty string'') c
              else (case severity_of (vget kvs ''severity'' VNone) of
                None \<Rightarrow> raise (RuleSetLoadError ''unknown severity'') c
              | Some sev \<Rightarrow>
                  (case vget kvs ''actions'' VNone of
                     VList (a # as) \<Rightarrow>
                       (case vget kvs ''description'' VNone of
                          VStr descr \<Rightarrow>
                            and_then
                              (if vmem ''pattern'' kvs
                               then and_then (build_pattern re_ok (vget kvs ''pattern'' VNone) rid c) (\<lambda>p. ok (Some p))
                               else ok None c) (\<lambda>pattern c1.
                            and_then
                              (if vmem ''scope'' kvs
                               then (map_sum id Some (build_scope (vget kvs ''scope'' VNone)), c1)
                               else ok None c1) (\<lambda>scope c2.
                              ok \<lparr>r_id = rid, r_severity = sev, r_actions = map py_str (a # as),
                                  r_description = descr, r_pattern = pattern, r_scope = scope,
                                  r_artifact_required = py_truth (vget kvs ''artifact_required'' (VBool False)),
                                  r_notes = py_str (vget kvs ''notes'' (VStr []))\<rparr> c2))
                        | _ \<Rightarrow> raise (RuleSetLoadError ''description must be a string'') c)
                   | _ \<Rightarrow> raise (RuleSetLoadError ''actions must be a non-empty list'') c))
          | _ \<Rightarrow> raise (RuleSetLoadError ''rule.id must be a non-empty string'') c)"

fun build_rules ::
  "(string \<Rightarrow> bool) \<Rightarrow> pyval list \<Rightarrow> pattern_cache \<Rightarrow> (pattern_cache, rule list) outcome" where
  "build_rules re_ok [] c = ok [] c"
| "build_rules re_ok (x # xs) c =
     and_then (build_rule re_ok x c) (\<lambda>r c1.
       and_then (build_rules re_ok xs c1) (\<lambda>rs. ok (r # rs)))"

fun duplicate_id :: "string list \<Rightarrow> string set \<Rightarrow> bool" where
  "duplicate_id [] seen = False"
| "duplicate_id (i # is') seen = (i \<in> seen \<or> duplicate_id is' (insert i seen))"

definition build_ruleset ::
  "(string \<Rightarrow> bool) \<Rightarrow> (pyval \<times> pyval) list \<Rightarrow> pattern_cache \<Rightarrow> (pattern_cache, rule_set) outcome" where
  "build_ruleset re_ok data c =
     (if \<not> py_eq (vget data ''version'' VNone) (VInt 1)
      then raise (RuleSetLoadError ''unsupported version'') c
      else case vget data ''rules'' VNone of
        VNone \<Rightarrow> raise (RuleSetLoadError ''missing rules key'') c
      | VList raw \<Rightarrow>
          and_then (build_rules re_ok raw c) (\<lambda>rs c1.
            if duplicate_id (map r_id rs) {} then raise (RuleSetLoadError ''duplicate rule id'') c1
            else ok \<lparr>rs_version = vget data ''version'' VNone, rs_rules = sort_key r_id rs\<rparr> c1)
      | _ \<Rightarrow> raise (RuleSetLoadError ''rules must be a list'') c)"

text \<open>The organisation's file, when it exists, else the bundled catalog.\<close>

definition load_rules ::
  "(string \<Rightarrow> bool) \<Rightarrow> file_read option \<Rightarrow> file_read \<Rightarrow> pattern_cache \<Rightarrow> (pattern_cache, rule_set) outcome" where
  "load_rules re_ok org_rules default_catalog c =
     (case read_yaml (or_else org_rules default_catalog) of
        Inl err \<Rightarrow> raise err c
      | Inr data \<Rightarrow> build_ruleset re_ok data c)"

section \<open>Shell patterns\<close>

text \<open>\<open>fnmatch\<close>: \<open>*\<close>, \<open>?\<close>, and bracketed sets with ranges and \<open>!\<close>; a bracket that is not closed is literal.\<close>

datatype set_item = One char | Range char char

fun set_items :: "string \<Rightarrow> set_item list" where
  "set_items [] = []"
| "set_items [x] = [One x]"
| "set_items [x, y] = [One x, One y]"
| "set_items (x # y # z # cs) =
     (if y = CHR ''-'' then Range x z # set_items cs else One x # set_items (y # z # cs))"

fun in_item :: "char \<Rightarrow> set_item \<Rightarrow> bool" where
  "in_item c (One x) = (c = x)"
| "in_item c (Range x y) = (x \<le> c \<and> c \<le> y)"

text \<open>Splits the text after a bracket into the set and the rest; the first character may be a bracket.\<close>

definition close_set :: "string \<Rightarrow> (bool \<times> string \<times> string) option" where
  "close_set s =
     (let neg = (s \<noteq> [] \<and> hd s = CHR ''!''); t = (if neg then tl s else s);
          lead = (if t \<noteq> [] \<and> hd t = CHR '']'' then [hd t] else []); u = drop (length lead) t;
          body = takeWhile (\<lambda>c. c \<noteq> CHR '']'') u; rest = drop (length body) u
      in if rest = [] then None else Some (neg, lead @ body, tl rest))"

lemma close_set_shorter: "close_set s = Some (neg, body, rest) \<Longrightarrow> length rest < length s"
proof -
  assume a: "close_set s = Some (neg, body, rest)"
  define t where "t = (if s \<noteq> [] \<and> hd s = CHR ''!'' then tl s else s)"
  define u where "u = drop (length (if t \<noteq> [] \<and> hd t = CHR '']'' then [hd t] else [])) t"
  have "rest = tl (drop (length (takeWhile (\<lambda>c. c \<noteq> CHR '']'') u)) u)"
    and "drop (length (takeWhile (\<lambda>c. c \<noteq> CHR '']'') u)) u \<noteq> []"
    using a by (auto simp: close_set_def Let_def t_def u_def split: if_splits)
  then have "length rest < length u" by (cases u) auto
  also have "length u \<le> length s" by (simp add: u_def t_def)
  finally show ?thesis .
qed

function glob_match :: "string \<Rightarrow> string \<Rightarrow> bool" where
  "glob_match [] s = (s = [])"
| "glob_match (p # ps) s =
     (if p = CHR ''*'' then glob_match ps s \<or> (if s = [] then False else glob_match (p # ps) (tl s))
      else if s = [] then False
      else if p = CHR ''?'' then glob_match ps (tl s)
      else if p = CHR ''['' then
        (case close_set ps of
           None \<Rightarrow> hd s = p \<and> glob_match ps (tl s)
         | Some (neg, body, rest) \<Rightarrow>
             (list_ex (in_item (hd s)) (set_items body) \<noteq> neg) \<and> glob_match rest (tl s))
      else hd s = p \<and> glob_match ps (tl s))"
  by pat_completeness auto
termination
  by (relation "measures [\<lambda>(ps, s). length ps, \<lambda>(ps, s). length s]")
    (auto dest: close_set_shorter)

section \<open>Engine\<close>

text \<open>
  The regular expression engine, and the issues file of the beads tool: \<open>None\<close> when it is absent, else
  one entry for each line that is not blank, \<open>None\<close> for a line that is not JSON.
\<close>

record rule_env =
  re_compiles :: "string \<Rightarrow> bool"
  re_search :: "string \<Rightarrow> string \<Rightarrow> bool"
  issues_file :: "pyval option list option"

record rules_audit_line =
  al_ts :: datetime
  al_worker_id :: pyval
  al_action :: string
  al_rule_id :: "string option"
  al_decision :: decision_kind
  al_justify_bead :: "string option"
  al_override_bead :: "string option"
  al_env :: pyval
  al_worker_role :: pyval
  al_kill_switch_used :: bool

record rules_state =
  compiled_patterns :: pattern_cache
  inline_compiled :: pattern_cache
  audit_log :: "rules_audit_line list"

text \<open>The index of the rules by action that the constructor builds.\<close>

definition index_rule :: "rule \<Rightarrow> (string \<Rightarrow> rule list) \<Rightarrow> string \<Rightarrow> rule list" where
  "index_rule r = fold (\<lambda>a ix. ix(a := ix a @ [r])) (r_actions r)"

definition rules_by_action :: "rule list \<Rightarrow> string \<Rightarrow> rule list" where
  "rules_by_action rs = fold index_rule rs (\<lambda>_. [])"

fun path_prefix_matches :: "pyval list \<Rightarrow> pyval \<Rightarrow> py_error + bool" where
  "path_prefix_matches [] prefix = Inr False"
| "path_prefix_matches (p # ps) prefix =
     (case prefix of
        VStr s \<Rightarrow> if starts_with s (py_str p) then Inr True else path_prefix_matches ps prefix
      | _ \<Rightarrow> Inl (TypeError ''startswith first arg must be str''))"

definition scope_matches :: "rule \<Rightarrow> pydict \<Rightarrow> py_error + bool" where
  "scope_matches r ctx =
     (case r_scope r of
        None \<Rightarrow> Inr True
      | Some sc \<Rightarrow>
          if sc_env sc \<noteq> VNone \<and> \<not> py_eq (dget ctx ''env'') (sc_env sc) then Inr False
          else if sc_worker_role sc \<noteq> VNone \<and> \<not> py_eq (dget ctx ''worker_role'') (sc_worker_role sc) then Inr False
          else
            let paths = (if sc_path_prefix sc = VNone then Inr True
                         else case py_iter (py_or (dget ctx ''target_paths'') (VList [])) of
                                Inl err \<Rightarrow> Inl err
                              | Inr ps \<Rightarrow> path_prefix_matches ps (sc_path_prefix sc))
            in if sc_min_level sc = VNone then paths
               else let level = dget ctx ''worker_role_level''
                    in if level = VNone then Inr False
                       else case py_lt level (sc_min_level sc) of
                              None \<Rightarrow> Inl (TypeError ''< not supported between these instances'')
                            | Some True \<Rightarrow> Inr False
                            | Some False \<Rightarrow> paths)"

definition resolve_pattern_target :: "pyval \<Rightarrow> pydict \<Rightarrow> py_error + pyval" where
  "resolve_pattern_target target ctx =
     (if target = VStr ''body'' then Inr (dget ctx ''body'')
      else if target = VStr ''command'' then Inr (dget ctx ''command'')
      else if target = VStr ''path'' then
        (let paths = py_or (dget ctx ''target_paths'') (VList [])
         in if py_truth paths then py_index0 paths else Inr VNone)
      else case target of
        VStr t \<Rightarrow>
          if starts_with ''argument:'' t
          then (case py_or (dget ctx ''args'') (VDict []) of
                  VDict kvs \<Rightarrow> Inr (vget kvs (drop 9 t) VNone)
                | _ \<Rightarrow> Inl (AttributeError ''get''))
          else Inr VNone
      | _ \<Rightarrow> Inl (AttributeError ''startswith''))"

text \<open>The loader's cache comes first, then the engine's own, then a new compilation.\<close>

definition get_compiled_regex ::
  "rule_env \<Rightarrow> rule \<Rightarrow> pyval \<Rightarrow> rules_state \<Rightarrow> (rules_state, string option) outcome" where
  "get_compiled_regex e r expr s =
     (case compiled_patterns s (r_id r) of
        Some x \<Rightarrow> ok (Some x) s
      | None \<Rightarrow>
          (case inline_compiled s (r_id r) of
             Some x \<Rightarrow> ok (Some x) s
           | None \<Rightarrow>
               (case expr of
                  VStr x \<Rightarrow>
                    if re_compiles e x
                    then ok (Some x) (s\<lparr>inline_compiled := (inline_compiled s)(r_id r \<mapsto> x)\<rparr>)
                    else ok None s
                | _ \<Rightarrow> raise (TypeError ''first argument must be string or compiled pattern'') s)))"

definition pattern_matches :: "rule_env \<Rightarrow> rule \<Rightarrow> pydict \<Rightarrow> rules_state \<Rightarrow> (rules_state, bool) outcome" where
  "pattern_matches e r ctx s =
     (case r_pattern r of
        None \<Rightarrow> ok True s
      | Some p \<Rightarrow>
          (case resolve_pattern_target (pat_target p) ctx of
             Inl err \<Rightarrow> raise err s
           | Inr v \<Rightarrow>
               if v = VNone then ok False s
               else if pat_kind p = VStr ''regex'' then
                 and_then (get_compiled_regex e r (pat_expr p) s) (\<lambda>rx.
                   ok (case rx of None \<Rightarrow> False | Some x \<Rightarrow> re_search e x (py_str v)))
               else if pat_kind p = VStr ''contains'' then
                 (case pat_expr p of
                    VStr x \<Rightarrow> ok (contains_str x (py_str v)) s
                  | _ \<Rightarrow> raise (TypeError ''in <string> requires string as left operand'') s)
               else if pat_kind p = VStr ''glob'' then
                 (case pat_expr p of
                    VStr x \<Rightarrow> ok (glob_match x (py_str v)) s
                  | _ \<Rightarrow> raise (TypeError ''expected str, bytes or os.PathLike object'') s)
               else ok False s))"

fun first_match ::
  "rule_env \<Rightarrow> rule list \<Rightarrow> pydict \<Rightarrow> rules_state \<Rightarrow> (rules_state, rule option) outcome" where
  "first_match e [] ctx s = ok None s"
| "first_match e (r # rs) ctx s =
     (case scope_matches r ctx of
        Inl err \<Rightarrow> raise err s
      | Inr False \<Rightarrow> first_match e rs ctx s
      | Inr True \<Rightarrow>
          and_then (pattern_matches e r ctx s) (\<lambda>m s1.
            if m then ok (Some r) s1 else first_match e rs ctx s1))"

text \<open>\<open>Database.get_bead\<close>: a line that is not a mapping has no \<open>get\<close>.\<close>

fun find_bead :: "string \<Rightarrow> pyval option list \<Rightarrow> py_error + (pyval \<times> pyval) list option" where
  "find_bead b [] = Inr None"
| "find_bead b (None # ls) = find_bead b ls"
| "find_bead b (Some v # ls) =
     (case dict_items v of
        None \<Rightarrow> Inl (AttributeError ''get'')
      | Some kvs \<Rightarrow> if vget kvs ''id'' VNone = VStr b then Inr (Some kvs) else find_bead b ls)"

definition get_bead :: "rule_env \<Rightarrow> string \<Rightarrow> py_error + (pyval \<times> pyval) list option" where
  "get_bead e b = (case issues_file e of None \<Rightarrow> Inr None | Some ls \<Rightarrow> find_bead b ls)"

text \<open>The context's worker id is a text or \<open>None\<close>.\<close>

definition get_direct_manager :: "db \<Rightarrow> pyval \<Rightarrow> ident option" where
  "get_direct_manager d wid =
     (case wid of
        VStr w \<Rightarrow> if w = [] then None
                 else (case fetchone (\<lambda>x. w_id x = w) (workers d) of None \<Rightarrow> None | Some x \<Rightarrow> w_manager_id x)
      | _ \<Rightarrow> None)"

definition justify_is_valid :: "rule_env \<Rightarrow> pydict \<Rightarrow> string \<Rightarrow> py_error + bool" where
  "justify_is_valid e ctx b =
     (case get_bead e b of
        Inl err \<Rightarrow> Inl err
      | Inr None \<Rightarrow> Inr False
      | Inr (Some kvs) \<Rightarrow>
          if \<not> py_eq (vget kvs ''owner'' VNone) (dget ctx ''worker_id'') then Inr False
          else (case py_or (vget kvs ''body'' VNone) (VStr []) of
                  VStr body \<Rightarrow> Inr (py_strip body \<noteq> [])
                | _ \<Rightarrow> Inl (AttributeError ''strip'')))"

definition override_is_valid :: "rule_env \<Rightarrow> db \<Rightarrow> pydict \<Rightarrow> string \<Rightarrow> py_error + bool" where
  "override_is_valid e d ctx b =
     (case get_bead e b of
        Inl err \<Rightarrow> Inl err
      | Inr None \<Rightarrow> Inr False
      | Inr (Some kvs) \<Rightarrow>
          if vget kvs ''status'' VNone \<noteq> VStr ''approved'' then Inr False
          else (case get_direct_manager d (dget ctx ''worker_id'') of
                  None \<Rightarrow> Inr False
                | Some m \<Rightarrow> Inr (vget kvs ''approver_id'' VNone = VStr m)))"

definition decide :: "decision_kind \<Rightarrow> rule \<Rightarrow> rule_text \<Rightarrow> rule_text \<Rightarrow> decision" where
  "decide k r m f = \<lparr>dec_kind = k, dec_rule = Some r, dec_message = m, dec_remediation = f\<rparr>"

definition apply_severity ::
  "rule_env \<Rightarrow> db \<Rightarrow> rule \<Rightarrow> pydict \<Rightarrow> string option \<Rightarrow> string option \<Rightarrow> py_error + decision" where
  "apply_severity e d r ctx justify override =
     (case r_severity r of
        ABSOLUTE \<Rightarrow> Inr (decide BLOCK r (RefusedAbsolute (r_id r) (r_description r)) EditRulesFile)
      | SUGGESTED \<Rightarrow> Inr (decide ALLOW_WITH_NUDGE r (Nudge (r_id r) (r_description r)) NoText)
      | ENCOURAGED \<Rightarrow>
          (case justify of
             None \<Rightarrow> Inr (decide REQUIRES_JUSTIFY r (NeedsJustify (r_id r) (r_description r)) FileBead)
           | Some b \<Rightarrow>
               (case justify_is_valid e ctx b of
                  Inl err \<Rightarrow> Inl err
                | Inr False \<Rightarrow> Inr (decide BLOCK r (BadJustify (r_id r)) FileOwnedBead)
                | Inr True \<Rightarrow> Inr (decide ALLOW r (JustifiedBy (r_id r) b) NoText)))
      | REQUIRED \<Rightarrow>
          (case override of
             None \<Rightarrow> Inr (decide REQUIRES_OVERRIDE r (NeedsOverride (r_id r) (r_description r)) FileOverride)
           | Some b \<Rightarrow>
               (case override_is_valid e d ctx b of
                  Inl err \<Rightarrow> Inl err
                | Inr False \<Rightarrow> Inr (decide BLOCK r (BadOverride (r_id r)) ApprovedByManager)
                | Inr True \<Rightarrow> Inr (decide ALLOW r (OverriddenBy (r_id r) b) NoText))))"

text \<open>\<open>AuditLogger.record\<close>: one line appended to the file.\<close>

definition rules_audit ::
  "datetime \<Rightarrow> string \<Rightarrow> pydict \<Rightarrow> decision \<Rightarrow> string option \<Rightarrow> string option \<Rightarrow> bool \<Rightarrow> rules_state \<Rightarrow> rules_state" where
  "rules_audit t action ctx dn justify override killed s =
     s\<lparr>audit_log := audit_log s @
        [\<lparr>al_ts = t, al_worker_id = dget ctx ''worker_id'', al_action = action,
          al_rule_id = map_option r_id (dec_rule dn), al_decision = dec_kind dn,
          al_justify_bead = justify, al_override_bead = override, al_env = dget ctx ''env'',
          al_worker_role = dget ctx ''worker_role'', al_kill_switch_used = killed\<rparr>]\<rparr>"

definition no_match :: decision where
  "no_match = \<lparr>dec_kind = ALLOW, dec_rule = None, dec_message = NoText, dec_remediation = NoText\<rparr>"

definition evaluate ::
  "rule_env \<Rightarrow> db \<Rightarrow> datetime \<Rightarrow> rule_set \<Rightarrow> string \<Rightarrow> pydict \<Rightarrow> string option \<Rightarrow> string option \<Rightarrow>
   rules_state \<Rightarrow> (rules_state, decision) outcome" where
  "evaluate e d t rset action ctx justify override s =
     and_then (first_match e (rules_by_action (rs_rules rset) action) ctx s) (\<lambda>m s1.
       case m of
         None \<Rightarrow> ok no_match (rules_audit t action ctx no_match justify override False s1)
       | Some r \<Rightarrow>
           (case apply_severity e d r ctx justify override of
              Inl err \<Rightarrow> raise err s1
            | Inr dn \<Rightarrow> ok dn (rules_audit t action ctx dn justify override False s1)))"

definition disabled_evaluate ::
  "datetime \<Rightarrow> string \<Rightarrow> pydict \<Rightarrow> string option \<Rightarrow> string option \<Rightarrow> rules_state \<Rightarrow> (rules_state, decision) outcome" where
  "disabled_evaluate t action ctx justify override s =
     (let dn = \<lparr>dec_kind = ALLOW, dec_rule = None, dec_message = EngineDisabled, dec_remediation = NoText\<rparr>
      in ok dn (rules_audit t action ctx dn justify override True s))"

section \<open>The guard of a command\<close>

text \<open>\<open>ctx.obj.rules\<close>: the engine over a loaded rule set, or the kill switch.\<close>

datatype rule_engine = Engine rule_set | Disabled

fun engine_evaluate ::
  "rule_engine \<Rightarrow> rule_env \<Rightarrow> db \<Rightarrow> datetime \<Rightarrow> string \<Rightarrow> pydict \<Rightarrow> string option \<Rightarrow> string option \<Rightarrow>
   rules_state \<Rightarrow> (rules_state, decision) outcome" where
  "engine_evaluate (Engine rset) e d t action ctx j ov s = evaluate e d t rset action ctx j ov s"
| "engine_evaluate Disabled e d t action ctx j ov s = disabled_evaluate t action ctx j ov s"

text \<open>The property \<open>rules\<close> of the command context, built at its first use.\<close>

definition context_rules ::
  "string option \<Rightarrow> (string \<Rightarrow> bool) \<Rightarrow> file_read option \<Rightarrow> file_read \<Rightarrow> rules_state \<Rightarrow> (rules_state, rule_engine) outcome" where
  "context_rules disabled_var re_ok org_rules default_catalog s =
     (if disabled_var = Some ''1'' then ok Disabled s
      else case load_rules re_ok org_rules default_catalog (compiled_patterns s) of
             (Inl err, c) \<Rightarrow> raise err (s\<lparr>compiled_patterns := c\<rparr>)
           | (Inr rset, c) \<Rightarrow> ok (Engine rset) (s\<lparr>compiled_patterns := c, inline_compiled := Map.empty\<rparr>))"

definition evaluate_or_raise ::
  "rule_engine \<Rightarrow> rule_env \<Rightarrow> db \<Rightarrow> datetime \<Rightarrow> string \<Rightarrow> pydict \<Rightarrow> string option \<Rightarrow> string option \<Rightarrow>
   rules_state \<Rightarrow> (rules_state, rule_text option) outcome" where
  "evaluate_or_raise g e d t action ctx j ov s =
     and_then (engine_evaluate g e d t action ctx j ov s) (\<lambda>dn s1.
       case dec_kind dn of
         ALLOW \<Rightarrow> ok None s1
       | ALLOW_WITH_NUDGE \<Rightarrow> ok (Some (dec_message dn)) s1
       | _ \<Rightarrow> raise (ClickException ''refused by the board rules'') s1)"

definition build_action_context :: "string option \<Rightarrow> string option \<Rightarrow> string \<Rightarrow> pydict \<Rightarrow> pydict" where
  "build_action_context obj_worker env_worker command kwargs =
     (let worker_id = (case obj_worker of Some w \<Rightarrow> if w \<noteq> [] then Some w else env_worker | None \<Rightarrow> env_worker)
      in [(''worker_id'', case worker_id of None \<Rightarrow> VNone | Some w \<Rightarrow> VStr w),
          (''worker_role'', dget kwargs ''_role''),
          (''worker_role_level'', dget kwargs ''_role_level''),
          (''env'', case map_of kwargs ''_env'' of None \<Rightarrow> VStr ''dev'' | Some v \<Rightarrow> v),
          (''args'', VDict (map (\<lambda>(k, v). (VStr k, v)) kwargs)),
          (''body'', py_or (dget kwargs ''body'') (py_or (dget kwargs ''message'')
                       (py_or (dget kwargs ''description'') (py_or (dget kwargs ''notes'') (VStr []))))),
          (''target_paths'', py_or (dget kwargs ''_target_paths'') (VList [])),
          (''command'', VStr command)])"

text \<open>
  \<open>requires_rule_check\<close>: the flags are taken out of the keyword arguments, the engine decides, and only
  then the command runs. The command changes a state of its own, next to the engine's.
\<close>

definition requires_rule_check ::
  "rule_engine \<Rightarrow> rule_env \<Rightarrow> db \<Rightarrow> datetime \<Rightarrow> string \<Rightarrow> string option \<Rightarrow> string option \<Rightarrow> string \<Rightarrow> string option \<Rightarrow>
   string option \<Rightarrow> (pydict \<Rightarrow> 'w \<Rightarrow> ('w, 'a) outcome) \<Rightarrow> pydict \<Rightarrow> rules_state \<times> 'w \<Rightarrow> (rules_state \<times> 'w, 'a) outcome" where
  "requires_rule_check g e d t action obj_worker env_worker command justify override f kwargs s =
     (case evaluate_or_raise g e d t action (build_action_context obj_worker env_worker command kwargs)
             justify override (fst s) of
        (Inl err, s1) \<Rightarrow> raise err (s1, snd s)
      | (Inr _, s1) \<Rightarrow> (case f kwargs (snd s) of (res, w) \<Rightarrow> (res, s1, w)))"

section \<open>Commenting a rule out\<close>

definition lstrip :: "string \<Rightarrow> string" where
  "lstrip s = dropWhile py_space s"

definition is_alnum :: "char \<Rightarrow> bool" where
  "is_alnum c =
     (let n = of_char c :: nat
      in 48 \<le> n \<and> n \<le> 57 \<or> 65 \<le> n \<and> n \<le> 90 \<or> 97 \<le> n \<and> n \<le> 122
         \<or> n \<in> {170, 178, 179, 181, 185, 186, 188, 189, 190} \<or> 192 \<le> n \<and> n \<noteq> 215 \<and> n \<noteq> 247)"

definition id_line :: "string \<Rightarrow> string \<Rightarrow> bool" where
  "id_line rid line =
     (let marker = ''- id: '' @ rid; stripped = lstrip line
      in starts_with marker stripped \<and>
         (length stripped = length marker \<or> \<not> is_alnum (stripped ! length marker)))"

fun find_start :: "string \<Rightarrow> string list \<Rightarrow> nat \<Rightarrow> nat option" where
  "find_start rid [] i = None"
| "find_start rid (l # ls) i = (if id_line rid l then Some i else find_start rid ls (Suc i))"

definition indent :: "string \<Rightarrow> nat" where
  "indent line = length line - length (lstrip line)"

text \<open>The end of the block: the next item of the list, or a line further out; a blank line belongs to it.\<close>

fun block_length :: "nat \<Rightarrow> string list \<Rightarrow> nat" where
  "block_length ind [] = 0"
| "block_length ind (l # ls) =
     (if py_strip l = [] then Suc (block_length ind ls)
      else if indent l \<le> ind \<and> starts_with ''- '' (lstrip l) then 0
      else if indent l < ind then 0
      else Suc (block_length ind ls))"

definition comment_line :: "string \<Rightarrow> string" where
  "comment_line l = (if py_strip l = [] then l else ''# '' @ l)"

text \<open>The file is the list of its lines, each with its line end.\<close>

definition disable_cmd :: "string \<Rightarrow> string list option \<Rightarrow> (string list option, unit) outcome" where
  "disable_cmd rid file =
     (case file of
        None \<Rightarrow> raise (ClickException ''No rules.yaml'') file
      | Some lines \<Rightarrow>
          (case find_start rid lines 0 of
             None \<Rightarrow> raise (ClickException ''rule not found'') file
           | Some i \<Rightarrow>
               (let n = block_length (indent (lines ! i)) (drop (Suc i) lines)
                in ok () (Some (take i lines @ map comment_line (take (Suc n) (drop i lines))
                                @ drop (i + Suc n) lines)))))"

end
