(* ===== verification/Rules_Laws.thy ===== *)
theory Rules_Laws
  imports Rules
begin

text \<open>
  Laws of the board rules: what a loaded rule set guarantees, that well-typed rules are decided without
  an exception and as the first rule in the order of the ids says, and that a guarded command runs
  exactly when that rule permits it.
\<close>

section \<open>What the loader guarantees\<close>

text \<open>The expression of a rule with a regular expression pattern.\<close>

definition regex_of :: "rule \<Rightarrow> pyval option" where
  "regex_of r =
     (case r_pattern r of None \<Rightarrow> None
      | Some p \<Rightarrow> if pat_kind p = VStr ''regex'' then Some (pat_expr p) else None)"

definition regex_cached :: "(string \<Rightarrow> bool) \<Rightarrow> pattern_cache \<Rightarrow> rule \<Rightarrow> bool" where
  "regex_cached re_ok c r =
     (case regex_of r of None \<Rightarrow> True
      | Some v \<Rightarrow> (case v of VStr x \<Rightarrow> re_ok x \<and> c (r_id r) = Some x | _ \<Rightarrow> False))"

definition well_formed_rule :: "(string \<Rightarrow> bool) \<Rightarrow> pattern_cache \<Rightarrow> rule \<Rightarrow> bool" where
  "well_formed_rule re_ok c r = (r_id r \<noteq> [] \<and> r_actions r \<noteq> [] \<and> regex_cached re_ok c r)"

lemma regex_cached_cong: "c' (r_id r) = c (r_id r) \<Longrightarrow> regex_cached re_ok c' r = regex_cached re_ok c r"
  by (auto simp: regex_cached_def split: option.splits pyval.splits)

lemma build_pattern_cache:
  assumes "build_pattern re_ok raw rid c = (Inr p, c')"
  shows "\<And>i. i \<noteq> rid \<Longrightarrow> c' i = c i"
    and "pat_kind p = VStr ''regex'' \<Longrightarrow> \<exists>x. pat_expr p = VStr x \<and> re_ok x \<and> c' rid = Some x"
    and "pat_kind p \<noteq> VStr ''regex'' \<Longrightarrow> c' = c"
  using assms
  by (auto simp: build_pattern_def Let_def split: option.splits if_splits pyval.splits)

lemma build_rule_ok:
  assumes "build_rule re_ok raw c = (Inr r, c')"
  shows "well_formed_rule re_ok c' r" and "\<And>i. i \<noteq> r_id r \<Longrightarrow> c' i = c i"
proof -
  have id: "r_id r \<noteq> [] \<and> r_actions r \<noteq> []"
    using assms unfolding build_rule_def
    by (auto split: option.splits if_splits pyval.splits list.splits elim!: and_then_InrD)
  have "r_pattern r = None \<and> c' = c \<or>
        (\<exists>x p. build_pattern re_ok x (r_id r) c = (Inr p, c') \<and> r_pattern r = Some p)"
    using assms unfolding build_rule_def
    by (auto split: option.splits if_splits pyval.splits list.splits elim!: and_then_InrD)
  then have "well_formed_rule re_ok c' r \<and> (\<forall>i. i \<noteq> r_id r \<longrightarrow> c' i = c i)"
  proof (elim disjE exE conjE)
    fix x p assume "build_pattern re_ok x (r_id r) c = (Inr p, c')" and p: "r_pattern r = Some p"
    from build_pattern_cache [OF this(1)] p id show ?thesis
      by (auto simp: well_formed_rule_def regex_cached_def regex_of_def)
  qed (use id in \<open>auto simp: well_formed_rule_def regex_cached_def regex_of_def\<close>)
  then show "well_formed_rule re_ok c' r" and "\<And>i. i \<noteq> r_id r \<Longrightarrow> c' i = c i" by auto
qed

lemma build_rules_ok:
  assumes "build_rules re_ok xs c = (Inr rs, c')" and "distinct (map r_id rs)"
  shows "(\<forall>r \<in> set rs. well_formed_rule re_ok c' r) \<and> (\<forall>i. i \<notin> r_id ` set rs \<longrightarrow> c' i = c i)"
  using assms
proof (induction xs arbitrary: c rs)
  case Nil
  then show ?case by auto
next
  case (Cons x xs)
  obtain r c1 rs' where r: "build_rule re_ok x c = (Inr r, c1)"
    and rs': "build_rules re_ok xs c1 = (Inr rs', c')" and rs: "rs = r # rs'"
    using Cons.prems(1) by (auto elim!: and_then_InrD)
  note ih = Cons.IH [OF rs'] Cons.prems(2)
  have "c' (r_id r) = c1 (r_id r)" using ih rs by auto
  then have "well_formed_rule re_ok c' r"
    using build_rule_ok(1) [OF r] regex_cached_cong [of c' r c1] by (auto simp: well_formed_rule_def)
  then show ?case using ih rs build_rule_ok(2) [OF r] by auto
qed

lemma duplicate_id_iff: "duplicate_id is' seen \<longleftrightarrow> \<not> (distinct is' \<and> set is' \<inter> seen = {})"
  by (induction is' arbitrary: seen) auto

lemma load_rules_InrD:
  assumes "load_rules re_ok f g c = (Inr rset, c')"
  obtains data raw rs where "read_yaml (or_else f g) = Inr data"
    and "py_eq (vget data ''version'' VNone) (VInt 1)" and "vget data ''rules'' VNone = VList raw"
    and "build_rules re_ok raw c = (Inr rs, c')" and "distinct (map r_id rs)"
    and "rset = \<lparr>rs_version = vget data ''version'' VNone, rs_rules = sort_key r_id rs\<rparr>"
  using assms
  by (auto simp: load_rules_def build_ruleset_def duplicate_id_iff
      split: sum.splits if_splits pyval.splits elim!: and_then_InrD)

text \<open>
  C17: A rule set that loads is well formed: its ids are non-empty, different and in increasing order, every
  rule names an action, and every regular expression is a text that compiles and is the one the cache
  holds under the rule's id, whatever an earlier load left there.
\<close>

theorem loaded_ruleset_well_formed:
  assumes "load_rules re_ok org_rules catalog c = (Inr rset, c')"
  shows "py_eq (rs_version rset) (VInt 1) \<and> sorted (map r_id (rs_rules rset)) \<and>
         distinct (map r_id (rs_rules rset)) \<and> (\<forall>r \<in> set (rs_rules rset). well_formed_rule re_ok c' r)"
  using assms
proof (rule load_rules_InrD)
  fix data raw rs
  assume a: "py_eq (vget data ''version'' VNone) (VInt 1)" "build_rules re_ok raw c = (Inr rs, c')"
    "distinct (map r_id rs)" "rset = \<lparr>rs_version = vget data ''version'' VNone, rs_rules = sort_key r_id rs\<rparr>"
  have "distinct (map r_id (sort_key r_id rs))"
    using a(3) by (metis distinct_map distinct_sort set_sort)
  then show ?thesis using a build_rules_ok [OF a(2,3)] by simp
qed

section \<open>Well-typed rules are decided without an exception\<close>

text \<open>What the loader does not check: the types of the values of patterns and scopes.\<close>

definition is_text :: "pyval \<Rightarrow> bool" where
  "is_text v = (case v of VStr _ \<Rightarrow> True | _ \<Rightarrow> False)"

definition is_opt_int :: "pyval \<Rightarrow> bool" where
  "is_opt_int v = (case v of VNone \<Rightarrow> True | VInt _ \<Rightarrow> True | _ \<Rightarrow> False)"

definition typed_pattern :: "rule_pattern \<Rightarrow> bool" where
  "typed_pattern p = (is_text (pat_kind p) \<and> is_text (pat_target p) \<and> is_text (pat_expr p))"

definition typed_scope :: "rule_scope \<Rightarrow> bool" where
  "typed_scope sc = (is_opt_int (sc_min_level sc) \<and> (sc_path_prefix sc = VNone \<or> is_text (sc_path_prefix sc)))"

definition typed_rule :: "rule \<Rightarrow> bool" where
  "typed_rule r = (pred_option typed_pattern (r_pattern r) \<and> pred_option typed_scope (r_scope r))"

definition typed_context :: "pydict \<Rightarrow> bool" where
  "typed_context ctx =
     (is_opt_int (dget ctx ''worker_role_level'') \<and>
      (case dget ctx ''target_paths'' of VNone \<Rightarrow> True | VList _ \<Rightarrow> True | _ \<Rightarrow> False) \<and>
      (case dget ctx ''args'' of VNone \<Rightarrow> True | VDict _ \<Rightarrow> True | _ \<Rightarrow> False))"

definition typed_bead :: "pyval option \<Rightarrow> bool" where
  "typed_bead l =
     (case l of None \<Rightarrow> True
      | Some v \<Rightarrow> (case dict_items v of None \<Rightarrow> False
                  | Some kvs \<Rightarrow> vget kvs ''body'' VNone = VNone \<or> is_text (vget kvs ''body'' VNone)))"

definition typed_issues :: "rule_env \<Rightarrow> bool" where
  "typed_issues e = (case issues_file e of None \<Rightarrow> True | Some ls \<Rightarrow> list_all typed_bead ls)"

lemma is_textE:
  assumes "is_text v" obtains s where "v = VStr s"
  using assms by (cases v) (auto simp: is_text_def)

lemma path_prefix_total: "\<exists>b. path_prefix_matches ps (VStr s) = Inr b"
  by (induction ps) auto

lemma py_lt_int: "is_opt_int x \<Longrightarrow> is_opt_int y \<Longrightarrow> x \<noteq> VNone \<Longrightarrow> y \<noteq> VNone \<Longrightarrow> \<exists>b. py_lt x y = Some b"
  by (auto simp: is_opt_int_def split: pyval.splits)

lemma py_or_list [simp]: "py_or (VList xs) (VList []) = VList xs" "py_or VNone v = v"
  by (simp_all add: py_or_def)

lemma paths_total:
  assumes "typed_context ctx"
  obtains ps where "py_or (dget ctx ''target_paths'') (VList []) = VList ps"
  using assms by (cases "dget ctx ''target_paths''") (auto simp: typed_context_def)

lemma scope_matches_total:
  assumes "typed_rule r" and "typed_context ctx"
  shows "\<exists>b. scope_matches r ctx = Inr b"
proof (cases "r_scope r")
  case None
  then show ?thesis by (auto simp: scope_matches_def)
next
  case (Some sc)
  obtain ps where ps: "py_or (dget ctx ''target_paths'') (VList []) = VList ps"
    using paths_total [OF assms(2)] .
  have sc: "typed_scope sc" using assms(1) Some by (simp add: typed_rule_def)
  have "\<exists>b. (if sc_path_prefix sc = VNone then Inr True
             else path_prefix_matches ps (sc_path_prefix sc)) = Inr b"
    using sc path_prefix_total by (auto simp: typed_scope_def elim!: is_textE)
  moreover have "\<exists>b. py_lt (dget ctx ''worker_role_level'') (sc_min_level sc) = Some b"
    if "dget ctx ''worker_role_level'' \<noteq> VNone" "sc_min_level sc \<noteq> VNone"
    using py_lt_int that sc assms(2) by (auto simp: typed_scope_def typed_context_def)
  ultimately show ?thesis
    by (auto simp: scope_matches_def Some Let_def ps split: option.splits bool.splits)
qed

lemma resolve_total:
  assumes "is_text target" and "typed_context ctx"
  shows "\<exists>v. resolve_pattern_target target ctx = Inr v"
proof -
  obtain t where t: "target = VStr t" using assms(1) by (rule is_textE)
  obtain ps where ps: "py_or (dget ctx ''target_paths'') (VList []) = VList ps"
    using paths_total [OF assms(2)] .
  show ?thesis using assms(2)
    by (auto simp: resolve_pattern_target_def t ps Let_def typed_context_def py_or_def neq_Nil_conv
        split: pyval.splits if_splits)
qed

subsection \<open>The reference: which rules apply\<close>

definition pattern_applies :: "rule_env \<Rightarrow> pydict \<Rightarrow> rule_pattern \<Rightarrow> bool" where
  "pattern_applies e ctx p =
     (case (resolve_pattern_target (pat_target p) ctx, pat_expr p) of
        (Inr v, VStr x) \<Rightarrow>
          v \<noteq> VNone \<and>
          (pat_kind p = VStr ''regex'' \<and> re_search e x (py_str v) \<or>
           pat_kind p = VStr ''contains'' \<and> (\<exists>pre post. py_str v = pre @ x @ post) \<or>
           pat_kind p = VStr ''glob'' \<and> glob_match x (py_str v))
      | _ \<Rightarrow> False)"

definition applies :: "rule_env \<Rightarrow> pydict \<Rightarrow> rule \<Rightarrow> bool" where
  "applies e ctx r =
     (scope_matches r ctx = Inr True \<and> (case r_pattern r of None \<Rightarrow> True | Some p \<Rightarrow> pattern_applies e ctx p))"

lemma pattern_matches_applies:
  assumes "typed_rule r" and "typed_context ctx" and "regex_cached re_ok (compiled_patterns s) r"
  shows "pattern_matches e r ctx s =
           (Inr (case r_pattern r of None \<Rightarrow> True | Some p \<Rightarrow> pattern_applies e ctx p), s)"
proof (cases "r_pattern r")
  case None
  then show ?thesis by (simp add: pattern_matches_def)
next
  case (Some p)
  then have "typed_pattern p" using assms(1) by (simp add: typed_rule_def)
  then obtain x v where x: "pat_expr p = VStr x" and v: "resolve_pattern_target (pat_target p) ctx = Inr v"
    using resolve_total [OF _ assms(2)] by (meson is_textE typed_pattern_def)
  show ?thesis using assms(3)
    by (auto simp: pattern_matches_def Some x v pattern_applies_def get_compiled_regex_def contains_str_iff
        regex_cached_def regex_of_def split: if_splits)
qed

lemma first_match_finds:
  assumes "list_all typed_rule rs" and "typed_context ctx"
    and "list_all (regex_cached re_ok (compiled_patterns s)) rs"
  shows "first_match e rs ctx s = (Inr (List.find (applies e ctx) rs), s)"
  using assms
proof (induction rs)
  case (Cons r rs)
  obtain b where "scope_matches r ctx = Inr b" using scope_matches_total Cons.prems by fastforce
  then show ?case using Cons pattern_matches_applies [of r ctx re_ok s e]
    by (cases b) (auto simp: applies_def)
qed simp

subsection \<open>The index by action\<close>

lemma index_rule_at: "index_rule r ix a = ix a @ replicate (count_list (r_actions r) a) r"
proof -
  have "fold (\<lambda>a ix. ix(a := ix a @ [r])) as ix a = ix a @ replicate (count_list as a) r" for as
    by (induction as arbitrary: ix) (auto simp: replicate_app_Cons_same)
  then show ?thesis by (simp add: index_rule_def)
qed

lemma rules_by_action_at:
  "rules_by_action rs a = concat (map (\<lambda>r. replicate (count_list (r_actions r) a) r) rs)"
proof -
  have "fold index_rule rs ix a = ix a @ concat (map (\<lambda>r. replicate (count_list (r_actions r) a) r) rs)" for ix
    by (induction rs arbitrary: ix) (auto simp: index_rule_at)
  then show ?thesis by (simp add: rules_by_action_def)
qed

lemma rules_by_action_set: "set (rules_by_action rs a) = {r \<in> set rs. a \<in> set (r_actions r)}"
  by (auto simp: rules_by_action_at count_list_0_iff split: if_splits)

lemma find_replicate: "List.find P (replicate n x) = (if n \<noteq> 0 \<and> P x then Some x else None)"
  by (induction n) auto

lemma find_append: "List.find P (xs @ ys) = (case List.find P xs of None \<Rightarrow> List.find P ys | Some x \<Rightarrow> Some x)"
  by (induction xs) auto

lemma find_by_action:
  "List.find P (rules_by_action rs a) = List.find (\<lambda>r. a \<in> set (r_actions r) \<and> P r) rs"
  by (induction rs)
    (auto simp: rules_by_action_at find_append find_replicate count_list_0_iff split: option.splits)

subsection \<open>Which decision is taken\<close>

text \<open>The bead a flag names, and what makes it a justification or an approved override.\<close>

definition bead_named :: "rule_env \<Rightarrow> string \<Rightarrow> (pyval \<times> pyval) list option" where
  "bead_named e b =
     (case issues_file e of None \<Rightarrow> None
      | Some ls \<Rightarrow> List.find (\<lambda>kvs. vget kvs ''id'' VNone = VStr b) (List.map_filter (\<lambda>l. Option.bind l dict_items) ls))"

definition justifies :: "rule_env \<Rightarrow> pydict \<Rightarrow> string \<Rightarrow> bool" where
  "justifies e ctx b =
     (\<exists>kvs body. bead_named e b = Some kvs \<and> py_eq (vget kvs ''owner'' VNone) (dget ctx ''worker_id'') \<and>
        vget kvs ''body'' VNone = VStr body \<and> py_strip body \<noteq> [])"

definition approved :: "rule_env \<Rightarrow> db \<Rightarrow> pydict \<Rightarrow> string \<Rightarrow> bool" where
  "approved e d ctx b =
     (\<exists>kvs m. bead_named e b = Some kvs \<and> vget kvs ''status'' VNone = VStr ''approved'' \<and>
        get_direct_manager d (dget ctx ''worker_id'') = Some m \<and> vget kvs ''approver_id'' VNone = VStr m)"

definition rule_permits ::
  "rule_env \<Rightarrow> db \<Rightarrow> pydict \<Rightarrow> string option \<Rightarrow> string option \<Rightarrow> rule \<Rightarrow> bool" where
  "rule_permits e d ctx justify override r =
     (case r_severity r of
        SUGGESTED \<Rightarrow> True
      | ENCOURAGED \<Rightarrow> (\<exists>b. justify = Some b \<and> justifies e ctx b)
      | REQUIRED \<Rightarrow> (\<exists>b. override = Some b \<and> approved e d ctx b)
      | ABSOLUTE \<Rightarrow> False)"

definition deciding_rule :: "rule_env \<Rightarrow> rule list \<Rightarrow> string \<Rightarrow> pydict \<Rightarrow> rule option" where
  "deciding_rule e rs action ctx = List.find (\<lambda>r. action \<in> set (r_actions r) \<and> applies e ctx r) rs"

lemma py_strip_Nil [simp]: "py_strip [] = []"
  by (simp add: py_strip_def)

lemma find_bead_named:
  "list_all typed_bead ls \<Longrightarrow> find_bead b ls =
     Inr (List.find (\<lambda>kvs. vget kvs ''id'' VNone = VStr b) (List.map_filter (\<lambda>l. Option.bind l dict_items) ls))"
  by (induction b ls rule: find_bead.induct) (auto simp: typed_bead_def List.map_filter_def split: option.splits)

lemma get_bead_named: "typed_issues e \<Longrightarrow> get_bead e b = Inr (bead_named e b)"
  by (auto simp: get_bead_def bead_named_def typed_issues_def find_bead_named split: option.splits)

lemma bead_named_typed:
  assumes "typed_issues e" and "bead_named e b = Some kvs"
  shows "vget kvs ''body'' VNone = VNone \<or> is_text (vget kvs ''body'' VNone)"
proof -
  obtain ls v where "issues_file e = Some ls" and l: "Some v \<in> set ls" "dict_items v = Some kvs"
    using assms(2) by (auto simp: bead_named_def List.map_filter_def bind_eq_Some_conv
        split: option.splits dest!: fetchone_SomeD(1) [unfolded fetchone_def])
  then show ?thesis using assms(1) by (auto simp: typed_issues_def typed_bead_def list_all_iff dest!: bspec)
qed

lemma justify_is_valid_iff:
  assumes "typed_issues e" shows "justify_is_valid e ctx b = Inr (justifies e ctx b)"
proof (cases "bead_named e b")
  case None
  then show ?thesis by (simp add: justify_is_valid_def justifies_def get_bead_named [OF assms])
next
  case (Some kvs)
  show ?thesis using bead_named_typed [OF assms Some]
    by (auto simp: justify_is_valid_def justifies_def get_bead_named [OF assms] Some py_or_def elim!: is_textE)
qed

lemma override_is_valid_iff:
  assumes "typed_issues e" shows "override_is_valid e d ctx b = Inr (approved e d ctx b)"
  by (auto simp: override_is_valid_def approved_def get_bead_named [OF assms] split: option.splits)

definition decision_ok :: "decision \<Rightarrow> bool" where
  "decision_ok dn = (dec_kind dn \<in> {ALLOW, ALLOW_WITH_NUDGE})"

lemma apply_severity_total:
  assumes "typed_issues e"
  shows "\<exists>dn. apply_severity e d r ctx j ov = Inr dn \<and> dec_rule dn = Some r \<and>
              (decision_ok dn \<longleftrightarrow> rule_permits e d ctx j ov r)"
  by (cases "r_severity r"; cases j; cases ov)
    (auto simp: apply_severity_def rule_permits_def decide_def decision_ok_def
      justify_is_valid_iff [OF assms] override_is_valid_iff [OF assms] split: bool.splits)

lemma evaluate_total:
  assumes "list_all typed_rule (rs_rules rset)" and "typed_context ctx" and "typed_issues e"
    and "list_all (regex_cached re_ok (compiled_patterns s)) (rs_rules rset)"
  shows "\<exists>dn. evaluate e d t rset action ctx j ov s = (Inr dn, rules_audit t action ctx dn j ov False s) \<and>
              dec_rule dn = deciding_rule e (rs_rules rset) action ctx \<and>
              (decision_ok dn \<longleftrightarrow>
                 pred_option (rule_permits e d ctx j ov) (deciding_rule e (rs_rules rset) action ctx))"
proof -
  let ?cs = "rules_by_action (rs_rules rset) action"
  have "first_match e ?cs ctx s = (Inr (deciding_rule e (rs_rules rset) action ctx), s)"
    using assms by (subst first_match_finds [where re_ok = re_ok])
      (auto simp: list_all_iff rules_by_action_set deciding_rule_def find_by_action)
  then show ?thesis
  proof (cases "deciding_rule e (rs_rules rset) action ctx")
    case None
    with \<open>first_match e ?cs ctx s = _\<close> show ?thesis
      by (simp add: evaluate_def) (simp add: no_match_def decision_ok_def)
  next
    case (Some r)
    obtain dn where "apply_severity e d r ctx j ov = Inr dn" "dec_rule dn = Some r"
      "decision_ok dn \<longleftrightarrow> rule_permits e d ctx j ov r"
      using apply_severity_total [OF assms(3)] by blast
    with \<open>first_match e ?cs ctx s = _\<close> Some show ?thesis by (auto simp: evaluate_def)
  qed
qed

lemma loaded_cached:
  assumes "load_rules re_ok org_rules catalog c = (Inr rset, c')"
  shows "list_all (regex_cached re_ok c') (rs_rules rset)"
    and "sorted (map r_id (rs_rules rset))"
  using assms
  by (auto elim!: load_rules_InrD dest!: build_rules_ok simp: list_all_iff well_formed_rule_def)

lemma find_least:
  "sorted (map key xs) \<Longrightarrow> List.find P xs = Some x \<Longrightarrow> y \<in> set xs \<Longrightarrow> P y \<Longrightarrow> key x \<le> key y"
  by (induction xs) (auto split: if_splits dest: fetchone_SomeD(1) [unfolded fetchone_def])

text \<open>
  Well-typed rules do not go wrong: when the rules were loaded, and their patterns and scopes, the
  context and the issues file have values of the expected types, an evaluation never raises. It writes
  exactly one audit line, and its decision is that of the rule with the least id among the rules for
  the action whose scope and pattern apply; the decision lets the action proceed exactly when this rule
  permits it, or when there is none.
\<close>

theorem typed_rules_decide:
  assumes "load_rules re_ok org_rules catalog c = (Inr rset, compiled_patterns s)"
    and "list_all typed_rule (rs_rules rset)" and "typed_context ctx" and "typed_issues e"
  shows "\<exists>dn. evaluate e d t rset action ctx j ov s = (Inr dn, rules_audit t action ctx dn j ov False s) \<and>
              dec_rule dn = deciding_rule e (rs_rules rset) action ctx \<and>
              (decision_ok dn \<longleftrightarrow> pred_option (rule_permits e d ctx j ov) (dec_rule dn)) \<and>
              (\<forall>r r'. dec_rule dn = Some r \<longrightarrow> r' \<in> set (rs_rules rset) \<longrightarrow>
                 action \<in> set (r_actions r') \<longrightarrow> applies e ctx r' \<longrightarrow> r_id r \<le> r_id r')"
proof -
  note cached = loaded_cached [OF assms(1)]
  obtain dn where "evaluate e d t rset action ctx j ov s = (Inr dn, rules_audit t action ctx dn j ov False s)"
    "dec_rule dn = deciding_rule e (rs_rules rset) action ctx"
    "decision_ok dn \<longleftrightarrow> pred_option (rule_permits e d ctx j ov) (deciding_rule e (rs_rules rset) action ctx)"
    using evaluate_total [OF assms(2-4) cached(1)] by blast
  moreover have "\<forall>r r'. deciding_rule e (rs_rules rset) action ctx = Some r \<longrightarrow> r' \<in> set (rs_rules rset) \<longrightarrow>
                 action \<in> set (r_actions r') \<longrightarrow> applies e ctx r' \<longrightarrow> r_id r \<le> r_id r'"
    using find_least [OF cached(2)] by (auto simp: deciding_rule_def)
  ultimately show ?thesis by metis
qed

section \<open>The guard of a command\<close>

lemma typed_action_context:
  assumes "is_opt_int (dget kwargs ''_role_level'')"
    and "case dget kwargs ''_target_paths'' of VNone \<Rightarrow> True | VList _ \<Rightarrow> True | _ \<Rightarrow> False"
  shows "typed_context (build_action_context ow ew cmd kwargs)"
proof -
  have "\<exists>xs. py_or (dget kwargs ''_target_paths'') (VList []) = VList xs"
    using assms(2) by (cases "dget kwargs ''_target_paths''") auto
  then show ?thesis using assms(1)
    by (auto simp: typed_context_def build_action_context_def Let_def dget_def [of "(_, _) # _"])
qed


section \<open>Concrete rules\<close>

definition sample_rule :: "string \<Rightarrow> string \<Rightarrow> (pyval \<times> pyval) list \<Rightarrow> pyval" where
  "sample_rule rid sev extra =
     VDict ([(VStr ''id'', VStr rid), (VStr ''severity'', VStr sev),
             (VStr ''actions'', VList [VStr ''qn-org.fire'']), (VStr ''description'', VStr ''no firing'')] @ extra)"

definition sample_pattern :: "string \<Rightarrow> (pyval \<times> pyval) list" where
  "sample_pattern kind =
     [(VStr ''pattern'', VDict [(VStr ''kind'', VStr kind), (VStr ''target'', VStr ''body''),
        (VStr ''expr'', VStr ''now'')])]"

definition sample_file :: "pyval list \<Rightarrow> file_read" where
  "sample_file rules = Parsed (VDict [(VStr ''version'', VInt 1), (VStr ''rules'', VList rules)])"

definition sample_rule_env :: rule_env where
  "sample_rule_env = \<lparr>re_compiles = (\<lambda>_. True), re_search = contains_str, issues_file = None\<rparr>"

definition sample_rules_state :: "pattern_cache \<Rightarrow> rules_state" where
  "sample_rules_state c = \<lparr>compiled_patterns = c, inline_compiled = Map.empty, audit_log = []\<rparr>"

definition sample_ruleset :: rule_set where
  "sample_ruleset =
     \<lparr>rs_version = VInt 1,
      rs_rules = [\<lparr>r_id = ''ban'', r_severity = ABSOLUTE, r_actions = [''qn-org.fire''],
         r_description = ''no firing'',
         r_pattern = Some \<lparr>pat_kind = VStr ''regex'', pat_target = VStr ''body'', pat_expr = VStr ''now''\<rparr>,
         r_scope = None, r_artifact_required = False, r_notes = []\<rparr>]\<rparr>"

lemma sample_loads:
  "load_rules (\<lambda>_. True) (Some (sample_file [sample_rule ''ban'' ''ABSOLUTE'' (sample_pattern ''regex'')]))
     Unreadable Map.empty = (Inr sample_ruleset, [''ban'' \<mapsto> ''now''])"
  by (simp add: load_rules_def or_else_def sample_file_def build_ruleset_def build_rule_def build_pattern_def
      sample_rule_def sample_pattern_def vget_def vmem_def severity_of_def sample_ruleset_def Let_def)

lemma sample_typed: "list_all typed_rule (rs_rules sample_ruleset)" "typed_issues sample_rule_env"
  by (simp_all add: sample_ruleset_def typed_rule_def typed_pattern_def is_text_def typed_issues_def
      sample_rule_env_def)

theorem loaded_ruleset_well_formed_witness:
  "py_eq (rs_version sample_ruleset) (VInt 1) \<and>
   list_all (well_formed_rule (\<lambda>_. True) [''ban'' \<mapsto> ''now'']) (rs_rules sample_ruleset)"
  using loaded_ruleset_well_formed [OF sample_loads] by (simp add: list_all_iff)

theorem typed_rules_decide_witness:
  "\<exists>dn s'. evaluate sample_rule_env empty_db 0 sample_ruleset ''qn-org.fire'' [(''body'', VStr ''fire now'')]
     (Some ''b-1'') (Some ''b-2'') (sample_rules_state [''ban'' \<mapsto> ''now'']) = (Inr dn, s') \<and> \<not> decision_ok dn"
proof -
  let ?ctx = "[(''body'', VStr ''fire now'')]"
  have "typed_context ?ctx" by (simp add: typed_context_def dget_def is_opt_int_def)
  moreover have "compiled_patterns (sample_rules_state [''ban'' \<mapsto> ''now'']) = [''ban'' \<mapsto> ''now'']"
    by (simp add: sample_rules_state_def)
  moreover have "\<exists>r. deciding_rule sample_rule_env (rs_rules sample_ruleset) ''qn-org.fire'' ?ctx = Some r \<and>
      r_severity r = ABSOLUTE"
    by (simp add: deciding_rule_def sample_ruleset_def applies_def scope_matches_def pattern_applies_def
        resolve_pattern_target_def dget_def sample_rule_env_def)
  ultimately show ?thesis
    using typed_rules_decide [of _ _ _ _ sample_ruleset "sample_rules_state [''ban'' \<mapsto> ''now'']" ?ctx sample_rule_env
        empty_db 0 "''qn-org.fire''" "Some ''b-1''" "Some ''b-2''"] sample_loads sample_typed
    by (fastforce simp: rule_permits_def)
qed


definition friday_lines :: "string list" where
  "friday_lines = [''  - id: no-fire-on-friday'', ''    severity: SUGGESTED'']"

definition ban_lines :: "string list" where
  "ban_lines = [''  - id: no-fire'', ''    severity: ABSOLUTE'']"

text \<open>
  The command that comments a rule out takes the first item whose id begins with the given id followed
  by a character that is not a letter or a digit. With ids in kebab case this is another rule: disabling
  \<open>no-fire\<close> comments out \<open>no-fire-on-friday\<close> when that rule comes first, reports success, and leaves
  \<open>no-fire\<close> in force.
\<close>

theorem disable_hits_other_rule:
  "disable_cmd ''no-fire'' (Some (''rules:'' # friday_lines @ ban_lines)) =
     ok () (Some (''rules:'' # map (\<lambda>l. ''# '' @ l) friday_lines @ ban_lines))"
  by (simp add: disable_cmd_def friday_lines_def ban_lines_def id_line_def starts_with_def lstrip_def py_space_def
      is_alnum_def indent_def py_strip_def comment_line_def Let_def)

end
