(* ===== verification/Escalation.thy ===== *)
theory Escalation
  imports Py_Values
begin

text \<open>
  Escalations: the reporting lines and the router of \<open>shared/escalation/hierarchical.py\<close>, the manager of
  \<open>shared/escalation/manager.py\<close> with its queue and history, and the organisation's escalation to handlers
  and the board (\<open>shared/org/escalation.py\<close>, \<open>shared/org/topology.py\<close>).

  The handlers a caller registers are arguments: a handler says which issues it can handle and answers
  in a state of its own, or raises. The loop along the reporting line need not end, so what depends on
  it has an \<open>option\<close> result, \<open>None\<close> when the call does not return.
\<close>

section \<open>Reporting lines\<close>

record worker_node =
  wn_id :: ident
  wn_name :: string
  wn_boss_id :: "ident option"
  wn_is_manager :: bool

type_synonym topology = "(ident \<times> worker_node) list"

definition add_node :: "worker_node \<Rightarrow> topology \<Rightarrow> topology" where
  "add_node n t = dict_set (wn_id n) n t"

definition get_boss :: "topology \<Rightarrow> ident \<Rightarrow> ident option" where
  "get_boss t w = (case map_of t w of None \<Rightarrow> None | Some n \<Rightarrow> wn_boss_id n)"

definition get_subordinates :: "topology \<Rightarrow> ident \<Rightarrow> ident list" where
  "get_subordinates t w = map wn_id (filter (\<lambda>n. wn_boss_id n = Some w) (map snd t))"

text \<open>The dictionaries from which \<open>create_simple_topology\<close> builds the lines.\<close>

record worker_dict =
  wd_id :: ident
  wd_name :: string
  wd_boss_id :: "ident option"

definition subordinate_count :: "worker_dict list \<Rightarrow> ident \<Rightarrow> nat" where
  "subordinate_count ws w = length (filter (\<lambda>x. wd_boss_id x = Some w) ws)"

definition create_simple_topology :: "worker_dict list \<Rightarrow> topology" where
  "create_simple_topology ws =
     foldl (\<lambda>t x. add_node \<lparr>wn_id = wd_id x, wn_name = wd_name x, wn_boss_id = wd_boss_id x,
                            wn_is_manager = 0 < subordinate_count ws (wd_id x)\<rparr> t) [] ws"

text \<open>The loop of \<open>get_escalation_path\<close>; a cycle of bosses never ends it.\<close>

partial_function (option) path_loop :: "topology \<Rightarrow> ident \<Rightarrow> ident list \<Rightarrow> ident list option" where
  "path_loop t current path =
     (case get_boss t current of
        None \<Rightarrow> Some path
      | Some b \<Rightarrow> path_loop t b (path @ [b]))"

definition BOARD :: ident where
  "BOARD = ''board''"

definition get_escalation_path :: "topology \<Rightarrow> ident \<Rightarrow> ident list option" where
  "get_escalation_path t w = map_option (\<lambda>p. p @ [BOARD]) (path_loop t w [])"

section \<open>Routing\<close>

record esc_response =
  er_resolved :: bool
  er_guidance :: string
  er_new_tasks :: "ident list"
  er_escalated_to :: "ident option"

text \<open>\<open>EscalationInterface\<close>: the context a handler is asked with holds the worker and the path.\<close>

record 's handler =
  h_can_handle :: "string \<Rightarrow> bool"
  h_ask :: "string \<Rightarrow> ident \<Rightarrow> ident list \<Rightarrow> 's \<Rightarrow> ('s, esc_response) outcome"

definition unresolved :: esc_response where
  "unresolved = \<lparr>er_resolved = False, er_guidance = [], er_new_tasks = [], er_escalated_to = None\<rparr>"

fun ask_along ::
  "ident \<Rightarrow> ident list \<Rightarrow> string \<Rightarrow> (ident \<Rightarrow> 's handler option) \<Rightarrow> ident list \<Rightarrow> 's \<Rightarrow> ('s, esc_response) outcome" where
  "ask_along w path issue hs [] s = ok unresolved s"
| "ask_along w path issue hs (x # xs) s =
     (case hs x of
        None \<Rightarrow> ask_along w path issue hs xs s
      | Some h \<Rightarrow>
          if \<not> h_can_handle h issue then ask_along w path issue hs xs s
          else and_then (h_ask h issue w path s) (\<lambda>r s1.
                 if er_resolved r then ok r s1 else ask_along w path issue hs xs s1))"

definition route ::
  "topology \<Rightarrow> ident \<Rightarrow> string \<Rightarrow> (ident \<Rightarrow> 's handler option) \<Rightarrow> 's \<Rightarrow> ('s, esc_response) outcome option" where
  "route t w issue hs s = map_option (\<lambda>path. ask_along w path issue hs path s) (get_escalation_path t w)"

section \<open>The manager\<close>

datatype esc_state = EPending | EInProgress | EResolved | ETimeout | EFailed

text \<open>The settings the manager reads.\<close>

record esc_config =
  ec_timeout_seconds :: int
  ec_auto_escalate_on_timeout :: bool
  ec_retry_attempts :: int
  ec_enable_history :: bool
  ec_max_history_size :: nat
  ec_max_queue_size :: nat

definition default_esc_config :: esc_config where
  "default_esc_config =
     \<lparr>ec_timeout_seconds = 300, ec_auto_escalate_on_timeout = True, ec_retry_attempts = 1,
      ec_enable_history = True, ec_max_history_size = 10000, ec_max_queue_size = 1000\<rparr>"

record esc_entry =
  ee_id :: ident
  ee_worker_id :: ident
  ee_issue :: string
  ee_context :: pydict
  ee_state :: esc_state
  ee_created_at :: datetime
  ee_timeout_at :: "datetime option"
  ee_current_target :: "ident option"
  ee_path :: "ident list"
  ee_attempts :: int
  ee_response :: "esc_response option"

record esc_history =
  eh_id :: ident
  eh_worker_id :: ident
  eh_issue :: string
  eh_state :: esc_state
  eh_created_at :: datetime
  eh_resolved_at :: datetime
  eh_resolved_by :: "ident option"
  eh_path :: "ident list"
  eh_attempts :: int

text \<open>
  An entry is an object that the queue and running calls share: \<open>em_objs\<close> holds the objects by their
  ids, \<open>em_queue\<close> the ids in the queue in the order of the dictionary. \<open>em_events\<close> lists what the
  notification handler is told.
\<close>

record esc_manager =
  em_topology :: topology
  em_config :: esc_config
  em_objs :: "(ident \<times> esc_entry) list"
  em_queue :: "ident list"
  em_history :: "esc_history list"
  em_counter :: nat
  em_events :: "(ident \<times> string) list"

definition new_manager :: "topology \<Rightarrow> esc_config \<Rightarrow> esc_manager" where
  "new_manager t cfg = \<lparr>em_topology = t, em_config = cfg, em_objs = [], em_queue = [], em_history = [],
     em_counter = 0, em_events = []\<rparr>"

definition set_entry :: "ident \<Rightarrow> esc_entry \<Rightarrow> esc_manager \<Rightarrow> esc_manager" where
  "set_entry i x m = m\<lparr>em_objs := dict_set i x (em_objs m)\<rparr>"

definition notify_event :: "ident \<Rightarrow> string \<Rightarrow> esc_manager \<Rightarrow> esc_manager" where
  "notify_event i ev m = m\<lparr>em_events := em_events m @ [(i, ev)]\<rparr>"

definition generate_id :: "string \<Rightarrow> nat \<Rightarrow> ident" where
  "generate_id stamp counter = ''esc-'' @ stamp @ ''-'' @ zero_padded 6 counter"

text \<open>\<open>stamp\<close> is the current time in the format of the ids.\<close>

definition submit ::
  "datetime \<Rightarrow> string \<Rightarrow> ident \<Rightarrow> string \<Rightarrow> pydict \<Rightarrow> int option \<Rightarrow> esc_manager \<Rightarrow> (esc_manager, esc_entry) outcome option" where
  "submit t stamp w issue ctx timeout m =
     (if ec_max_queue_size (em_config m) \<le> length (em_queue m)
      then Some (raise (RuntimeError ''Escalation queue full'') m)
      else
        let n = Suc (em_counter m); i = generate_id stamp n;
            secs = (case timeout of None \<Rightarrow> ec_timeout_seconds (em_config m)
                    | Some s \<Rightarrow> if s = 0 then ec_timeout_seconds (em_config m) else s)
        in map_option (\<lambda>path.
             let x = \<lparr>ee_id = i, ee_worker_id = w, ee_issue = issue, ee_context = ctx, ee_state = EPending,
                      ee_created_at = t, ee_timeout_at = Some (t + secs * second),
                      ee_current_target = (if path = [] then None else Some (hd path)), ee_path = path,
                      ee_attempts = 0, ee_response = None\<rparr>
             in ok x (notify_event i ''created''
                       (m\<lparr>em_counter := n, em_objs := dict_set i x (em_objs m),
                          em_queue := (if i \<in> set (em_queue m) then em_queue m else em_queue m @ [i])\<rparr>)))
             (get_escalation_path (em_topology m) w))"

definition get_entry :: "esc_manager \<Rightarrow> ident \<Rightarrow> esc_entry option" where
  "get_entry m i = (if i \<in> set (em_queue m) then map_of (em_objs m) i else None)"

definition queue_entries :: "esc_manager \<Rightarrow> esc_entry list" where
  "queue_entries m = List.map_filter (map_of (em_objs m)) (em_queue m)"

definition get_pending :: "esc_manager \<Rightarrow> esc_entry list" where
  "get_pending m = filter (\<lambda>x. ee_state x = EPending) (queue_entries m)"

definition get_by_worker :: "esc_manager \<Rightarrow> ident \<Rightarrow> esc_entry list" where
  "get_by_worker m w = filter (\<lambda>x. ee_worker_id x = w) (queue_entries m)"

definition history_of :: "datetime \<Rightarrow> ident option \<Rightarrow> esc_entry \<Rightarrow> esc_history" where
  "history_of t resolved_by x =
     \<lparr>eh_id = ee_id x, eh_worker_id = ee_worker_id x, eh_issue = ee_issue x, eh_state = ee_state x,
      eh_created_at = ee_created_at x, eh_resolved_at = t, eh_resolved_by = resolved_by,
      eh_path = ee_path x, eh_attempts = ee_attempts x\<rparr>"

text \<open>The history is a deque whose maximal length is 0 when it is switched off.\<close>

definition history_max :: "esc_config \<Rightarrow> nat" where
  "history_max cfg = (if ec_enable_history cfg then ec_max_history_size cfg else 0)"

definition complete_escalation :: "datetime \<Rightarrow> esc_entry \<Rightarrow> ident option \<Rightarrow> esc_manager \<Rightarrow> esc_manager" where
  "complete_escalation t x resolved_by m =
     (let m1 = m\<lparr>em_queue := filter (\<lambda>i. i \<noteq> ee_id x) (em_queue m)\<rparr>
      in if ec_enable_history (em_config m)
         then m1\<lparr>em_history := deque_append (history_max (em_config m)) (history_of t resolved_by x) (em_history m)\<rparr>
         else m1)"

text \<open>The two locked sections of \<open>process\<close>; the handlers are asked between them.\<close>

definition process_begin :: "ident \<Rightarrow> esc_manager \<Rightarrow> (esc_manager, esc_entry) outcome" where
  "process_begin i m =
     (case get_entry m i of
        None \<Rightarrow> raise (KeyError ''Escalation not found'') m
      | Some x \<Rightarrow>
          if ee_state x \<in> {EResolved, EFailed} then raise (ValueError ''Escalation already completed'') m
          else (let x1 = x\<lparr>ee_state := EInProgress, ee_attempts := ee_attempts x + 1\<rparr>
                in ok x1 (set_entry i x1 m)))"

definition process_end :: "datetime \<Rightarrow> ident \<Rightarrow> esc_response \<Rightarrow> esc_manager \<Rightarrow> esc_manager" where
  "process_end t i r m =
     (case map_of (em_objs m) i of
        None \<Rightarrow> m
      | Some x \<Rightarrow>
          if er_resolved r then
            (let x1 = x\<lparr>ee_state := EResolved, ee_response := Some r\<rparr>
             in notify_event i ''resolved'' (complete_escalation t x1 (er_escalated_to r) (set_entry i x1 m)))
          else if ec_retry_attempts (em_config m) \<le> ee_attempts x then
            (let x1 = x\<lparr>ee_state := EFailed\<rparr>
             in notify_event i ''failed'' (complete_escalation t x1 None (set_entry i x1 m)))
          else set_entry i (x\<lparr>ee_state := EPending\<rparr>) m)"

definition process ::
  "datetime \<Rightarrow> ident \<Rightarrow> (ident \<Rightarrow> 's handler option) \<Rightarrow> esc_manager \<times> 's \<Rightarrow> (esc_manager \<times> 's, esc_response) outcome option" where
  "process t i hs ms =
     (case process_begin i (fst ms) of
        (Inl err, m1) \<Rightarrow> Some (raise err (m1, snd ms))
      | (Inr x, m1) \<Rightarrow>
          map_option (\<lambda>res.
            case res of
              (Inl err, s1) \<Rightarrow> raise err (m1, s1)
            | (Inr r, s1) \<Rightarrow> ok r (process_end t i r m1, s1))
            (route (em_topology m1) (ee_worker_id x) (ee_issue x) hs (snd ms)))"

definition cancel :: "datetime \<Rightarrow> ident \<Rightarrow> esc_manager \<Rightarrow> bool \<times> esc_manager" where
  "cancel t i m =
     (case get_entry m i of
        None \<Rightarrow> (False, m)
      | Some x \<Rightarrow>
          if ee_state x \<noteq> EPending then (False, m)
          else (let x1 = x\<lparr>ee_state := EFailed\<rparr>
                in (True, complete_escalation t x1 None (set_entry i x1 m))))"

definition get_history :: "esc_manager \<Rightarrow> ident option \<Rightarrow> esc_state option \<Rightarrow> nat \<Rightarrow> esc_history list" where
  "get_history m w st limit =
     take limit (rev (filter (\<lambda>h. (w = None \<or> w = Some (eh_worker_id h)) \<and> (st = None \<or> st = Some (eh_state h)))
       (em_history m)))"

text \<open>The locked section that collects the entries past their time, and the one that handles one of them.\<close>

definition timed_out :: "datetime \<Rightarrow> esc_manager \<Rightarrow> ident list" where
  "timed_out t m =
     map ee_id (filter (\<lambda>x. ee_state x = EPending \<and> (case ee_timeout_at x of None \<Rightarrow> False | Some u \<Rightarrow> u \<le> t))
       (queue_entries m))"

fun index_of :: "'a \<Rightarrow> 'a list \<Rightarrow> nat option" where
  "index_of x [] = None"
| "index_of x (y # ys) = (if x = y then Some 0 else map_option Suc (index_of x ys))"

definition next_target :: "esc_entry \<Rightarrow> ident option" where
  "next_target x =
     (case ee_current_target x of
        None \<Rightarrow> None
      | Some c \<Rightarrow>
          if c = [] then None
          else case index_of c (ee_path x) of
                 None \<Rightarrow> None
               | Some k \<Rightarrow> if Suc k < length (ee_path x) then Some (ee_path x ! Suc k) else None)"

definition handle_timeout :: "datetime \<Rightarrow> ident \<Rightarrow> esc_manager \<Rightarrow> esc_manager" where
  "handle_timeout t i m =
     (case map_of (em_objs m) i of
        None \<Rightarrow> m
      | Some x \<Rightarrow>
          (let x1 = x\<lparr>ee_state := ETimeout\<rparr>
           in notify_event i ''timeout''
               (if ec_auto_escalate_on_timeout (em_config m)
                then (case next_target x of
                        Some c \<Rightarrow>
                          set_entry i (x\<lparr>ee_current_target := Some c,
                            ee_timeout_at := Some (t + ec_timeout_seconds (em_config m) * second),
                            ee_state := EPending\<rparr>) m
                      | None \<Rightarrow> complete_escalation t x1 None (set_entry i x1 m))
                else set_entry i x1 m)))"

definition check_timeouts :: "datetime \<Rightarrow> esc_manager \<Rightarrow> esc_manager" where
  "check_timeouts t m = fold (handle_timeout t) (timed_out t m) m"

section \<open>Escalation of an organisation\<close>

record board_notification =
  bn_issue :: string
  bn_worker_id :: ident
  bn_path :: "ident list"
  bn_notified_at :: datetime

text \<open>A bead the beads client is asked to create.\<close>

record bead_request =
  bq_title :: string
  bq_type :: string
  bq_priority :: string
  bq_from :: ident
  bq_to :: ident

record org_esc_state =
  oe_notifications :: "board_notification list"
  oe_requests :: "bead_request list"
  oe_callbacks :: "(string \<times> ident) list"

definition DEFAULT_MAX_NOTIFICATIONS :: nat where
  "DEFAULT_MAX_NOTIFICATIONS = 1000"

text \<open>
  \<open>BoardNotifier.notify\<close>: the notification is kept, a bead is requested, the callback is called.
  \<open>create\<close> is the client's answer to a request.
\<close>

definition board_notify ::
  "datetime \<Rightarrow> (bead_request \<Rightarrow> ident option) \<Rightarrow> nat option \<Rightarrow> bool \<Rightarrow> string \<Rightarrow> ident \<Rightarrow> ident list \<Rightarrow>
   org_esc_state \<Rightarrow> ident option \<times> org_esc_state" where
  "board_notify t create max_notifications callback issue w path s =
     (let size = (case max_notifications of None \<Rightarrow> DEFAULT_MAX_NOTIFICATIONS
                  | Some k \<Rightarrow> if k = 0 then DEFAULT_MAX_NOTIFICATIONS else k);
          q = \<lparr>bq_title = ''BOARD: '' @ take 70 issue, bq_type = ''board_escalation'', bq_priority = ''critical'',
               bq_from = w, bq_to = BOARD\<rparr>
      in (create q,
          s\<lparr>oe_notifications := deque_append size
              \<lparr>bn_issue = issue, bn_worker_id = w, bn_path = path, bn_notified_at = t\<rparr> (oe_notifications s),
            oe_requests := oe_requests s @ [q],
            oe_callbacks := (if callback then oe_callbacks s @ [(issue, w)] else oe_callbacks s)\<rparr>))"

definition board_escalation ::
  "datetime \<Rightarrow> (bead_request \<Rightarrow> ident option) \<Rightarrow> nat option \<Rightarrow> bool \<Rightarrow> org_esc_state handler" where
  "board_escalation t create maxn callback =
     \<lparr>h_can_handle = (\<lambda>_. True),
      h_ask = (\<lambda>issue w path s.
        case board_notify t create maxn callback issue w path s of
          (b, s1) \<Rightarrow> ok \<lparr>er_resolved = True,
                        er_guidance = ''Escalated to board for human review. Tracking: '' @
                          (case b of None \<Rightarrow> ''pending'' | Some x \<Rightarrow> if x = [] then ''pending'' else x),
                        er_new_tasks = [], er_escalated_to = Some BOARD\<rparr> s1)\<rparr>"

record board_config =
  bc_create :: "bead_request \<Rightarrow> ident option"
  bc_max_notifications :: "nat option"
  bc_callback :: bool

definition with_board ::
  "datetime \<Rightarrow> board_config option \<Rightarrow> (ident \<Rightarrow> org_esc_state handler option) \<Rightarrow> ident \<Rightarrow> org_esc_state handler option" where
  "with_board t board hs =
     (case board of
        None \<Rightarrow> hs
      | Some b \<Rightarrow> hs(BOARD \<mapsto> board_escalation t (bc_create b) (bc_max_notifications b) (bc_callback b)))"

definition create_escalation_bead :: "string \<Rightarrow> ident \<Rightarrow> ident \<Rightarrow> org_esc_state \<Rightarrow> org_esc_state" where
  "create_escalation_bead issue w target s =
     s\<lparr>oe_requests := oe_requests s @
        [\<lparr>bq_title = ''Escalation: '' @ take 80 issue, bq_type = ''escalation'', bq_priority = ''high'',
          bq_from = w, bq_to = target\<rparr>]\<rparr>"

definition org_ask ::
  "datetime \<Rightarrow> topology \<Rightarrow> ident \<Rightarrow> board_config option \<Rightarrow> (ident \<Rightarrow> org_esc_state handler option) \<Rightarrow> string \<Rightarrow>
   org_esc_state \<Rightarrow> (org_esc_state, esc_response) outcome option" where
  "org_ask t topo w board hs issue s =
     map_option (\<lambda>res. and_then res (\<lambda>r s1.
       case er_escalated_to r of
         None \<Rightarrow> ok r s1
       | Some target \<Rightarrow> ok r (if target = [] then s1 else create_escalation_bead issue w target s1)))
       (route topo w issue (with_board t board hs) s)"

definition org_report :: "topology \<Rightarrow> ident \<Rightarrow> string \<Rightarrow> org_esc_state \<Rightarrow> org_esc_state" where
  "org_report topo w summary s =
     (case get_boss topo w of
        None \<Rightarrow> s
      | Some b \<Rightarrow>
          if b = [] then s
          else s\<lparr>oe_requests := oe_requests s @
                 [\<lparr>bq_title = ''Report: '' @ take 80 summary, bq_type = ''report'', bq_priority = ''backlog'',
                   bq_from = w, bq_to = b\<rparr>]\<rparr>)"

definition org_can_handle ::
  "topology \<Rightarrow> ident \<Rightarrow> bool \<Rightarrow> (ident \<Rightarrow> org_esc_state handler option) \<Rightarrow> string \<Rightarrow> bool option" where
  "org_can_handle topo w has_board hs issue =
     map_option (\<lambda>path.
       list_ex (\<lambda>x. case hs x of None \<Rightarrow> False | Some h \<Rightarrow> h_can_handle h issue) path \<or>
       has_board \<and> BOARD \<in> set path) (get_escalation_path topo w)"

section \<open>The loaders\<close>

text \<open>A worker bead: its id, title and the metadata.\<close>

record org_worker =
  ow_id :: ident
  ow_name :: string
  ow_boss_id :: "ident option"
  ow_is_manager :: bool
  ow_team_id :: "ident option"

definition worker_dict_of :: "org_worker \<Rightarrow> worker_dict" where
  "worker_dict_of w = \<lparr>wd_id = ow_id w, wd_name = ow_name w, wd_boss_id = ow_boss_id w\<rparr>"

definition load_topology :: "org_worker list \<Rightarrow> topology" where
  "load_topology ws = create_simple_topology (map worker_dict_of ws)"

definition loader_team_members :: "org_worker list \<Rightarrow> ident \<Rightarrow> org_worker list" where
  "loader_team_members ws team = filter (\<lambda>w. ow_team_id w = Some team) ws"

definition add_workers :: "org_worker list \<Rightarrow> (ident \<times> org_worker) list \<Rightarrow> (ident \<times> org_worker) list" where
  "add_workers ws store = foldl (\<lambda>st w. dict_set (ow_id w) w st) store ws"

definition standard_workers :: "org_worker list" where
  "standard_workers =
     [\<lparr>ow_id = ''ceo'', ow_name = ''CEO'', ow_boss_id = None, ow_is_manager = True, ow_team_id = None\<rparr>,
      \<lparr>ow_id = ''eng-director'', ow_name = ''Engineering Director'', ow_boss_id = Some ''ceo'',
       ow_is_manager = True, ow_team_id = Some ''engineering''\<rparr>,
      \<lparr>ow_id = ''prod-director'', ow_name = ''Product Director'', ow_boss_id = Some ''ceo'',
       ow_is_manager = True, ow_team_id = Some ''product''\<rparr>,
      \<lparr>ow_id = ''eng-manager-1'', ow_name = ''Engineering Manager'', ow_boss_id = Some ''eng-director'',
       ow_is_manager = True, ow_team_id = Some ''engineering''\<rparr>,
      \<lparr>ow_id = ''dev-1'', ow_name = ''Developer 1'', ow_boss_id = Some ''eng-manager-1'',
       ow_is_manager = False, ow_team_id = Some ''engineering''\<rparr>,
      \<lparr>ow_id = ''dev-2'', ow_name = ''Developer 2'', ow_boss_id = Some ''eng-manager-1'',
       ow_is_manager = False, ow_team_id = Some ''engineering''\<rparr>]"

definition build_standard_topology :: topology where
  "build_standard_topology = load_topology (map snd (add_workers standard_workers []))"

end
