(* ===== verification/Escalation_Laws.thy ===== *)
theory Escalation_Laws
  imports Escalation
begin

text \<open>
  Laws of escalations: when the walk along the reporting line ends and what it returns, who answers an
  issue, and what the manager keeps: in every interleaving of its locked sections, and when calls do not
  overlap.
\<close>

section \<open>The reporting line\<close>

definition reports_to :: "topology \<Rightarrow> (ident \<times> ident) set" where
  "reports_to t = {(w, b). get_boss t w = Some b}"

inductive line_of :: "topology \<Rightarrow> ident \<Rightarrow> ident list \<Rightarrow> bool" for t where
  line_top: "get_boss t w = None \<Longrightarrow> line_of t w []"
| line_up: "get_boss t w = Some b \<Longrightarrow> line_of t b p \<Longrightarrow> line_of t w (b # p)"

lemma line_of_det: "line_of t w p \<Longrightarrow> line_of t w q \<Longrightarrow> q = p"
proof (induction arbitrary: q rule: line_of.induct)
  case (line_top w)
  from line_top.prems show ?case by cases (use line_top in auto)
next
  case (line_up w b p)
  from line_up.prems obtain q' where "q = b # q'" "line_of t b q'"
    by cases (use line_up.hyps(1) in auto)
  then show ?case using line_up.IH by blast
qed

lemma path_loop_line: "line_of t w p \<Longrightarrow> path_loop t w acc = Some (acc @ p)"
proof (induction arbitrary: acc rule: line_of.induct)
  case (line_top w)
  then show ?case by (simp add: path_loop.simps [of t w])
next
  case (line_up w b p)
  then show ?case by (simp add: path_loop.simps [of t w])
qed

lemma path_loop_SomeD:
  assumes "path_loop t w acc = Some q" shows "\<exists>p. line_of t w p \<and> q = acc @ p"
proof (rule path_loop.raw_induct [where P = "\<lambda>t w acc q. \<exists>p. line_of t w p \<and> q = acc @ p", OF _ assms])
  fix f t w acc q
  assume ih: "\<And>t w acc q. f t w acc = Some q \<Longrightarrow> \<exists>p. line_of t w p \<and> q = acc @ p"
    and q: "(case get_boss t w of None \<Rightarrow> Some acc | Some b \<Rightarrow> f t b (acc @ [b])) = Some q"
  show "\<exists>p. line_of t w p \<and> q = acc @ p"
  proof (cases "get_boss t w")
    case None
    then show ?thesis using q by (auto intro: line_of.intros)
  next
    case (Some b)
    then obtain p where "line_of t b p" "q = (acc @ [b]) @ p" using ih q by fastforce
    then show ?thesis using Some by (intro exI [of _ "b # p"]) (auto intro: line_of.intros)
  qed
qed

lemma path_loop_iff: "path_loop t w acc = Some q \<longleftrightarrow> (\<exists>p. line_of t w p \<and> q = acc @ p)"
  using path_loop_line path_loop_SomeD by metis

lemma path_iff: "get_escalation_path t w = Some q \<longleftrightarrow> (\<exists>p. line_of t w p \<and> q = p @ [BOARD])"
  by (auto simp: get_escalation_path_def path_loop_iff)

lemma reports_to_finite: "finite (reports_to t)"
proof -
  have "reports_to t \<subseteq> {(w, b). \<exists>n. (w, n) \<in> set t \<and> wn_boss_id n = Some b}"
    by (force simp: reports_to_def get_boss_def split: option.splits dest: map_of_SomeD)
  also have "\<dots> \<subseteq> (\<lambda>(w, n). (w, the (wn_boss_id n))) ` set t" by force
  finally show ?thesis by (rule finite_subset) simp
qed

lemma line_of_above: "line_of t w p \<Longrightarrow> x \<in> set p \<longleftrightarrow> (w, x) \<in> (reports_to t)\<^sup>+"
proof (induction rule: line_of.induct)
  case (line_top w)
  then have "(w, x) \<notin> (reports_to t)\<^sup>+" by (auto simp: reports_to_def dest: tranclD)
  then show ?case by simp
next
  case (line_up w b p)
  have w: "(w, z) \<in> reports_to t \<longleftrightarrow> z = b" for z using line_up(1) by (auto simp: reports_to_def)
  have "(w, x) \<in> (reports_to t)\<^sup>+ \<longleftrightarrow> x = b \<or> (b, x) \<in> (reports_to t)\<^sup>+"
    using w by (metis rtrancl_eq_or_trancl r_into_trancl trancl_into_trancl2 tranclD)
  then show ?case using line_up by auto
qed

lemma line_of_suffix: "line_of t w p \<Longrightarrow> x \<in> set p \<Longrightarrow> \<exists>q. line_of t x q \<and> length q < length p"
  by (induction rule: line_of.induct) (auto intro: line_of.intros less_SucI)

lemma line_of_no_cycle: "line_of t w p \<Longrightarrow> (w, w) \<notin> (reports_to t)\<^sup>+"
  using line_of_suffix line_of_above line_of_det by blast

lemma line_of_distinct: "line_of t w p \<Longrightarrow> distinct p"
  by (induction rule: line_of.induct) (auto dest: line_of_no_cycle simp: line_of_above)

lemma line_exists:
  assumes "\<And>x. (w, x) \<in> (reports_to t)\<^sup>* \<Longrightarrow> (x, x) \<notin> (reports_to t)\<^sup>+"
  shows "\<exists>p. line_of t w p"
proof -
  let ?A = "(reports_to t)\<^sup>* `` {w}" and ?S = "{(x, b) \<in> reports_to t. (w, x) \<in> (reports_to t)\<^sup>*}"
  have "finite ?S" using reports_to_finite by (rule rev_finite_subset) auto
  moreover have "acyclic ?S"
  proof (rule acyclicI, rule allI, rule notI)
    fix x assume c: "(x, x) \<in> ?S\<^sup>+"
    then have "(w, x) \<in> (reports_to t)\<^sup>*" by (auto dest: tranclD)
    moreover have "(x, x) \<in> (reports_to t)\<^sup>+" using c by (rule trancl_mono) auto
    ultimately show False using assms by blast
  qed
  ultimately have wf: "wf (?S\<inverse>)" by (rule finite_acyclic_wf_converse)
  have "(w, x) \<in> (reports_to t)\<^sup>* \<Longrightarrow> \<exists>p. line_of t x p" for x
    using wf
  proof (induction x)
    case (less x)
    show ?case
    proof (cases "get_boss t x")
      case (Some b)
      then have "(b, x) \<in> ?S\<inverse>" "(w, b) \<in> (reports_to t)\<^sup>*"
        using less.prems by (auto simp: reports_to_def intro: rtrancl_into_rtrancl)
      then show ?thesis using less.IH Some by (blast intro: line_of.intros)
    qed (blast intro: line_of.intros)
  qed
  then show ?thesis by blast
qed

text \<open>
  C19: The walk along the reporting line returns exactly when no boss above the worker (nor the worker) is
  its own boss through others. Then the path lists the worker's bosses from the nearest up, each once,
  and the board at the end.
\<close>

theorem escalation_path_correct:
  "((\<exists>path. get_escalation_path t w = Some path) \<longleftrightarrow>
      (\<forall>x. (w, x) \<in> (reports_to t)\<^sup>* \<longrightarrow> (x, x) \<notin> (reports_to t)\<^sup>+)) \<and>
   (\<forall>path. get_escalation_path t w = Some path \<longrightarrow>
      (\<exists>p. path = p @ [BOARD] \<and> distinct p \<and> set p = {x. (w, x) \<in> (reports_to t)\<^sup>+} \<and>
           (\<forall>k < length p. get_boss t ((w # p) ! k) = Some (p ! k))))"
proof (intro conjI iffI allI impI)
  fix x assume "\<exists>path. get_escalation_path t w = Some path" and x: "(w, x) \<in> (reports_to t)\<^sup>*"
  then obtain p where p: "line_of t w p" by (auto simp: path_iff)
  then have "\<exists>q. line_of t x q" using x line_of_suffix line_of_above by (metis rtranclD)
  then show "(x, x) \<notin> (reports_to t)\<^sup>+" using line_of_no_cycle by blast
next
  assume "\<forall>x. (w, x) \<in> (reports_to t)\<^sup>* \<longrightarrow> (x, x) \<notin> (reports_to t)\<^sup>+"
  then show "\<exists>path. get_escalation_path t w = Some path" using line_exists path_iff by metis
next
  fix path assume "get_escalation_path t w = Some path"
  then obtain p where p: "line_of t w p" "path = p @ [BOARD]" by (auto simp: path_iff)
  have "\<forall>k < length p. get_boss t ((w # p) ! k) = Some (p ! k)"
    using p(1) by (induction rule: line_of.induct) (auto simp: nth_Cons split: nat.splits)
  then show "\<exists>p. path = p @ [BOARD] \<and> distinct p \<and> set p = {x. (w, x) \<in> (reports_to t)\<^sup>+} \<and>
           (\<forall>k < length p. get_boss t ((w # p) ! k) = Some (p ! k))"
    using p(2) line_of_distinct [OF p(1)] line_of_above [OF p(1)] by (intro exI [of _ p]) auto
qed

section \<open>Who answers an issue\<close>

definition never_raises :: "string \<Rightarrow> (ident \<Rightarrow> 's handler option) \<Rightarrow> bool" where
  "never_raises issue hs = (\<forall>x h w path s. hs x = Some h \<longrightarrow> (\<exists>r s'. h_ask h issue w path s = (Inr r, s')))"

lemma never_raises_board: "never_raises issue hs \<Longrightarrow> never_raises issue (with_board t board hs)"
  by (auto simp: never_raises_def with_board_def board_escalation_def split: option.splits prod.splits)

lemma ask_along_total:
  assumes "never_raises issue hs"
  shows "\<exists>r s'. ask_along w path issue hs xs s = (Inr r, s')"
proof (induction xs arbitrary: s)
  case (Cons x xs)
  show ?case
  proof (cases "hs x")
    case (Some h)
    then obtain r s1 where "h_ask h issue w path s = (Inr r, s1)" using assms by (metis never_raises_def)
    then show ?thesis using Cons Some by auto
  qed (use Cons in simp)
qed simp

lemma ask_along_resolves:
  assumes "never_raises issue hs" and "x \<in> set xs" and "hs x = Some h" and "h_can_handle h issue"
    and "\<And>s. er_resolved (projr (fst (h_ask h issue w path s)))"
  shows "\<exists>r s'. ask_along w path issue hs xs s = (Inr r, s') \<and> er_resolved r"
  using assms(2)
proof (induction xs arbitrary: s)
  case (Cons y ys)
  show ?case
  proof (cases "hs y")
    case None
    then show ?thesis using Cons assms(3) by auto
  next
    case (Some g)
    then obtain r s1 where a: "h_ask g issue w path s = (Inr r, s1)" using assms(1) by (metis never_raises_def)
    then have "er_resolved r" if "y = x" using assms(3) assms(5) [of s] Some that by auto
    then show ?thesis using Cons Some a assms(3,4) by (cases "y = x") auto
  qed
qed simp

text \<open>When nobody on the way can handle the issue, the last one that can is asked.\<close>

lemma ask_along_skip:
  assumes "\<forall>y \<in> set xs. \<forall>h. hs y = Some h \<longrightarrow> \<not> h_can_handle h issue"
  shows "ask_along w path issue hs (xs @ ys) s = ask_along w path issue hs ys s"
  using assms by (induction xs) (auto split: option.splits)


section \<open>The manager: every interleaving of the locked sections\<close>

text \<open>Objects are stored under their ids, ids come from the counter, and the queue and the history only name objects.\<close>

definition ids_ok :: "esc_manager \<Rightarrow> bool" where
  "ids_ok m =
     ((\<forall>i x. map_of (em_objs m) i = Some x \<longrightarrow> ee_id x = i) \<and>
      set (em_queue m) \<subseteq> dom (map_of (em_objs m)) \<and> eh_id ` set (em_history m) \<subseteq> dom (map_of (em_objs m)) \<and>
      (\<forall>i \<in> dom (map_of (em_objs m)). \<exists>stamp n. length stamp = 14 \<and> n \<le> em_counter m \<and> i = generate_id stamp n))"

definition bounds_ok :: "esc_manager \<Rightarrow> bool" where
  "bounds_ok m =
     (distinct (em_queue m) \<and> length (em_queue m) \<le> ec_max_queue_size (em_config m) \<and>
      length (em_history m) \<le> history_max (em_config m) \<and>
      (\<forall>h \<in> set (em_history m). eh_state h \<in> {EResolved, ETimeout, EFailed}))"

definition settled_once :: "esc_manager \<Rightarrow> bool" where
  "settled_once m =
     (distinct (map eh_id (em_history m)) \<and> eh_id ` set (em_history m) \<inter> set (em_queue m) = {})"

lemmas inv_defs = ids_ok_def bounds_ok_def settled_once_def

lemma generate_id_inj:
  "length s = 14 \<Longrightarrow> length s' = 14 \<Longrightarrow> generate_id s n = generate_id s' n' \<longleftrightarrow> s = s' \<and> n = n'"
  by (auto simp: generate_id_def zero_padded_inj)

lemma new_manager_ok: "ids_ok (new_manager t cfg)" "bounds_ok (new_manager t cfg)" "settled_once (new_manager t cfg)"
  by (simp_all add: inv_defs new_manager_def)

lemma notify_event_simps [simp]:
  "em_topology (notify_event i ev m) = em_topology m" "em_config (notify_event i ev m) = em_config m"
  "em_objs (notify_event i ev m) = em_objs m" "em_queue (notify_event i ev m) = em_queue m"
  "em_history (notify_event i ev m) = em_history m" "em_counter (notify_event i ev m) = em_counter m"
  by (simp_all add: notify_event_def)

lemma set_entry_simps [simp]:
  "em_topology (set_entry i x m) = em_topology m" "em_config (set_entry i x m) = em_config m"
  "em_queue (set_entry i x m) = em_queue m" "em_history (set_entry i x m) = em_history m"
  "em_counter (set_entry i x m) = em_counter m" "map_of (em_objs (set_entry i x m)) = (map_of (em_objs m))(i \<mapsto> x)"
  by (simp_all add: set_entry_def)

lemma complete_simps [simp]:
  "em_topology (complete_escalation t x rb m) = em_topology m"
  "em_config (complete_escalation t x rb m) = em_config m" "em_objs (complete_escalation t x rb m) = em_objs m"
  "em_counter (complete_escalation t x rb m) = em_counter m"
  "em_queue (complete_escalation t x rb m) = filter (\<lambda>i. i \<noteq> ee_id x) (em_queue m)"
  by (simp_all add: complete_escalation_def Let_def)

lemma complete_history:
  "em_history (complete_escalation t x rb m) =
     (if ec_enable_history (em_config m)
      then deque_append (history_max (em_config m)) (history_of t rb x) (em_history m) else em_history m)"
  by (simp add: complete_escalation_def Let_def)

lemma complete_history_mem:
  "h \<in> set (em_history (complete_escalation t x rb m)) \<Longrightarrow> h = history_of t rb x \<or> h \<in> set (em_history m)"
  using deque_append_subset [of "history_max (em_config m)" "history_of t rb x" "em_history m"]
  by (auto simp: complete_history split: if_splits)

lemma complete_history_length:
  "length (em_history m) \<le> history_max (em_config m) \<Longrightarrow>
   length (em_history (complete_escalation t x rb m)) \<le> history_max (em_config m)"
  by (simp add: complete_history deque_append_bound)

lemma history_of_simps [simp]: "eh_id (history_of t rb x) = ee_id x" "eh_state (history_of t rb x) = ee_state x"
  by (simp_all add: history_of_def)

lemma ids_ok_cong:
  assumes "ids_ok m" and "em_objs m' = em_objs m" "set (em_queue m') \<subseteq> set (em_queue m)" "em_counter m' = em_counter m"
    and "eh_id ` set (em_history m') \<subseteq> dom (map_of (em_objs m))"
  shows "ids_ok m'"
  using assms unfolding ids_ok_def by auto

lemma set_entry_ids:
  assumes "ids_ok m" and "map_of (em_objs m) i = Some y" and "ee_id x = i"
  shows "ids_ok (set_entry i x m)"
proof -
  have "dom (map_of (em_objs (set_entry i x m))) = dom (map_of (em_objs m))" using assms(2) by auto
  then show ?thesis using assms unfolding ids_ok_def by (auto split: if_splits)
qed

lemma complete_ids:
  assumes "ids_ok m" and "ee_id x \<in> dom (map_of (em_objs m))"
  shows "ids_ok (complete_escalation t x rb m)"
  using assms(1)
proof (rule ids_ok_cong)
  have "eh_id ` set (em_history m) \<subseteq> dom (map_of (em_objs m))" using assms(1) by (simp add: ids_ok_def)
  then show "eh_id ` set (em_history (complete_escalation t x rb m)) \<subseteq> dom (map_of (em_objs m))"
    using assms(2) by (auto dest!: complete_history_mem)
qed auto

lemma complete_bounds:
  assumes "bounds_ok m" and "ee_state x \<in> {EResolved, ETimeout, EFailed}"
  shows "bounds_ok (complete_escalation t x rb m)"
  using assms complete_history_length [of m t x rb]
  unfolding bounds_ok_def by (auto dest!: complete_history_mem intro: order.trans [OF length_filter_le])

text \<open>The configuration of an interleaving: the manager, the calls of \<open>process\<close> between their sections, and
  what the timeout thread has collected and not yet handled.\<close>

type_synonym esc_conf = "esc_manager \<times> ident list \<times> (datetime \<times> ident) list"

inductive esc_step :: "esc_conf \<Rightarrow> esc_conf \<Rightarrow> bool" where
  Submit: "submit t stamp w issue ctx timeout m = Some (res, m') \<Longrightarrow> length stamp = 14 \<Longrightarrow>
    esc_step (m, run, ex) (m', run, ex)"
| Begin: "process_begin i m = (Inr x, m') \<Longrightarrow> esc_step (m, run, ex) (m', i # run, ex)"
| Finish: "i \<in> set run \<Longrightarrow> esc_step (m, run, ex) (process_end t i r m, remove1 i run, ex)"
| Raised: "i \<in> set run \<Longrightarrow> esc_step (m, run, ex) (m, remove1 i run, ex)"
| Cancel: "esc_step (m, run, ex) (snd (cancel t i m), run, ex)"
| Collect: "esc_step (m, run, []) (m, run, map (Pair t) (timed_out t m))"
| Expire: "esc_step (m, run, (t, i) # ex) (handle_timeout t i m, run, ex)"

lemma submit_ok:
  assumes "submit t stamp w issue ctx timeout m = Some (res, m')" and "length stamp = 14"
    and "ids_ok m" and "bounds_ok m"
  shows "ids_ok m' \<and> bounds_ok m' \<and> (settled_once m \<longrightarrow> settled_once m')"
proof (cases "ec_max_queue_size (em_config m) \<le> length (em_queue m)")
  case True
  then show ?thesis using assms by (auto simp: submit_def)
next
  case False
  define i where "i = generate_id stamp (Suc (em_counter m))"
  define x where "x = projr res"
  have x: "ee_id x = i" and m': "em_config m' = em_config m" "em_history m' = em_history m"
    "em_counter m' = Suc (em_counter m)" "em_objs m' = dict_set i x (em_objs m)"
    "em_queue m' = (if i \<in> set (em_queue m) then em_queue m else em_queue m @ [i])"
    using assms(1) False by (auto simp: submit_def Let_def i_def x_def)
  have "i \<notin> dom (map_of (em_objs m))"
  proof
    assume "i \<in> dom (map_of (em_objs m))"
    then obtain stamp' n where "length stamp' = 14" "n \<le> em_counter m" "i = generate_id stamp' n"
      using assms(3) unfolding ids_ok_def by blast
    then show False using assms(2) by (simp add: i_def generate_id_inj)
  qed
  then have fresh: "map_of (em_objs m) i = None" "i \<notin> set (em_queue m)" "i \<notin> eh_id ` set (em_history m)"
    using assms(3) unfolding ids_ok_def by blast+
  have old: "\<exists>stamp n. length stamp = 14 \<and> n \<le> Suc (em_counter m) \<and> j = generate_id stamp n"
    if "j \<in> dom (map_of (em_objs m))" for j
    using that assms(3) unfolding ids_ok_def by (meson le_SucI)
  have "ids_ok m'"
    using assms(2,3) x fresh old unfolding ids_ok_def m' by (auto simp: i_def)
  then show ?thesis using assms(4) fresh False unfolding bounds_ok_def settled_once_def m' by auto
qed

lemma set_entry_bounds [simp]: "bounds_ok (set_entry i x m) = bounds_ok m"
  by (simp add: bounds_ok_def)

lemma notify_event_ok [simp]:
  "ids_ok (notify_event i ev m) = ids_ok m" "bounds_ok (notify_event i ev m) = bounds_ok m"
  "settled_once (notify_event i ev m) = settled_once m"
  by (simp_all add: inv_defs)

lemma close_ok:
  assumes "ids_ok m" and "bounds_ok m" and "map_of (em_objs m) i = Some y" and "ee_id x = i"
    and "ee_state x \<in> {EResolved, ETimeout, EFailed}"
  shows "ids_ok (complete_escalation t x rb (set_entry i x m))"
    and "bounds_ok (complete_escalation t x rb (set_entry i x m))"
  using complete_ids [OF set_entry_ids [OF assms(1,3,4)]] complete_bounds [of "set_entry i x m" x] assms by auto

lemma stored_id: "ids_ok m \<Longrightarrow> map_of (em_objs m) i = Some x \<Longrightarrow> ee_id x = i"
  by (simp add: ids_ok_def)

lemma process_begin_ok:
  assumes "process_begin i m = (Inr x, m')" and "ids_ok m" and "bounds_ok m"
  shows "ids_ok m'" and "bounds_ok m'" and "i \<in> set (em_queue m)" and "em_queue m' = em_queue m"
    and "em_history m' = em_history m" and "map_of (em_objs m') i = Some x"
  using assms
  by (auto simp: process_begin_def get_entry_def Let_def stored_id intro!: set_entry_ids
      split: option.splits if_splits)

lemma process_end_ok:
  assumes "ids_ok m" and "bounds_ok m"
  shows "ids_ok (process_end t i r m)" and "bounds_ok (process_end t i r m)"
  using assms
  by (auto simp: process_end_def Let_def stored_id intro!: close_ok set_entry_ids split: option.splits)

lemma cancel_ok:
  assumes "ids_ok m" and "bounds_ok m"
  shows "ids_ok (snd (cancel t i m))" and "bounds_ok (snd (cancel t i m))"
  using assms
  by (auto simp: cancel_def get_entry_def Let_def stored_id intro!: close_ok split: option.splits)

lemma handle_timeout_ok:
  assumes "ids_ok m" and "bounds_ok m"
  shows "ids_ok (handle_timeout t i m)" and "bounds_ok (handle_timeout t i m)"
  using assms
  by (auto simp: handle_timeout_def Let_def stored_id intro!: close_ok set_entry_ids split: option.splits)

lemma esc_step_ok:
  assumes "esc_step c c'" and "ids_ok (fst c)" and "bounds_ok (fst c)"
  shows "ids_ok (fst c') \<and> bounds_ok (fst c')"
  using assms
proof (induction rule: esc_step.induct)
  case (Submit t stamp w issue ctx timeout m res m' run ex)
  then show ?case using submit_ok by simp
qed (auto simp: process_end_ok cancel_ok handle_timeout_ok dest: process_begin_ok)

text \<open>
  C21: Whatever order the locked sections of concurrent calls take, the queue never holds more entries than
  its limit nor an id twice, the history never more than its limit, and every entry of the history is in
  a final state; every id the queue or the history names belongs to an entry that was submitted.
\<close>

theorem escalation_manager_bounded:
  assumes "esc_step\<^sup>*\<^sup>* (new_manager topo cfg, [], []) (m, run, ex)"
  shows "ids_ok m \<and> bounds_ok m"
proof -
  have "ids_ok (fst c) \<and> bounds_ok (fst c)" if "esc_step\<^sup>*\<^sup>* (new_manager topo cfg, [], []) c" for c
    using that by (induction rule: rtranclp_induct) (auto simp: new_manager_ok dest: esc_step_ok)
  from this [OF assms] show ?thesis by simp
qed

section \<open>The manager: calls that do not overlap\<close>

text \<open>One whole call. The answer of the handlers in \<open>process\<close> is arbitrary: a response, or an exception.\<close>

inductive esc_call :: "esc_manager \<Rightarrow> esc_manager \<Rightarrow> bool" where
  CSubmit: "submit t stamp w issue ctx timeout m = Some (res, m') \<Longrightarrow> length stamp = 14 \<Longrightarrow> esc_call m m'"
| CProcess: "process t i hs (m, s :: org_esc_state) = Some (res, m', s') \<Longrightarrow> esc_call m m'"
| CCancel: "esc_call m (snd (cancel t i m))"
| CTimeouts: "esc_call m (check_timeouts t m)"

lemma close_settled:
  assumes "settled_once m" and "ee_id x \<in> set (em_queue m)"
  shows "settled_once (complete_escalation t x rb (set_entry i y m))"
proof -
  have "distinct (map eh_id (em_history m @ [history_of t rb x]))"
    using assms by (auto simp: settled_once_def)
  then have "distinct (map eh_id (deque_append k (history_of t rb x) (em_history m)))" for k
    by (simp add: deque_append_def drop_map [symmetric] del: drop_append)
  moreover have "eh_id h \<notin> set (filter (\<lambda>i. i \<noteq> ee_id x) (em_queue m))"
    if "h \<in> set (em_history (complete_escalation t x rb (set_entry i y m)))" for h
    using complete_history_mem [OF that] assms(1) by (auto simp: settled_once_def)
  ultimately show ?thesis using assms(1) unfolding settled_once_def by (auto simp: complete_history)
qed

lemma set_entry_settled [simp]: "settled_once (set_entry i x m) = settled_once m"
  by (simp add: settled_once_def)

lemma process_end_settled:
  assumes "settled_once m" and "ids_ok m" and "i \<in> set (em_queue m)"
  shows "settled_once (process_end t i r m)"
  using assms by (auto simp: process_end_def Let_def stored_id intro!: close_settled split: option.splits)

lemma cancel_settled: "settled_once m \<Longrightarrow> ids_ok m \<Longrightarrow> settled_once (snd (cancel t i m))"
  by (auto simp: cancel_def get_entry_def Let_def stored_id intro!: close_settled split: option.splits)

lemma handle_timeout_settled:
  "settled_once m \<Longrightarrow> ids_ok m \<Longrightarrow> i \<in> set (em_queue m) \<Longrightarrow> settled_once (handle_timeout t i m)"
  by (auto simp: handle_timeout_def Let_def stored_id intro!: close_settled split: option.splits)

lemma handle_timeout_others:
  assumes "ids_ok m" and "j \<noteq> i"
  shows "map_of (em_objs (handle_timeout t i m)) j = map_of (em_objs m) j"
    and "j \<in> set (em_queue (handle_timeout t i m)) \<longleftrightarrow> j \<in> set (em_queue m)"
  using assms by (auto simp: handle_timeout_def Let_def stored_id split: option.splits)

lemma handle_timeout_config [simp]: "em_config (handle_timeout t i m) = em_config m"
  by (auto simp: handle_timeout_def Let_def split: option.splits)

lemma queue_entries_mem: "x \<in> set (queue_entries m) \<longleftrightarrow> (\<exists>i \<in> set (em_queue m). map_of (em_objs m) i = Some x)"
  by (auto simp: queue_entries_def List.map_filter_def image_iff intro: bexI rev_bexI)

lemma queue_entries_ids:
  assumes "ids_ok m"
  shows "map ee_id (queue_entries m) = em_queue m"
proof -
  have "List.map_filter (map_of (em_objs m)) q = map (\<lambda>i. the (map_of (em_objs m) i)) q"
    if "set q \<subseteq> dom (map_of (em_objs m))" for q
    using that by (induction q) (auto simp: List.map_filter_def)
  moreover have "set (em_queue m) \<subseteq> dom (map_of (em_objs m))" using assms by (simp add: ids_ok_def)
  ultimately show ?thesis using assms
    by (auto simp: queue_entries_def ids_ok_def subset_iff intro!: map_idI)
qed

lemma timed_out_distinct: "ids_ok m \<Longrightarrow> bounds_ok m \<Longrightarrow> distinct (timed_out t m)"
  by (simp add: timed_out_def bounds_ok_def distinct_map_filter queue_entries_ids)

lemma timed_out_queue: "ids_ok m \<Longrightarrow> set (timed_out t m) \<subseteq> set (em_queue m)"
  by (auto simp: timed_out_def queue_entries_mem stored_id)

lemma fold_timeouts_ok:
  assumes "distinct is'" and "set is' \<subseteq> set (em_queue m)" and "ids_ok m" and "bounds_ok m" and "settled_once m"
  shows "ids_ok (fold (handle_timeout t) is' m) \<and> bounds_ok (fold (handle_timeout t) is' m) \<and>
         settled_once (fold (handle_timeout t) is' m)"
  using assms
proof (induction is' arbitrary: m)
  case (Cons i is')
  have "j \<in> set (em_queue (handle_timeout t i m))" if "j \<in> set is'" for j
    using that Cons.prems handle_timeout_others(2) [of m j i t] by auto
  then have "set is' \<subseteq> set (em_queue (handle_timeout t i m))" by blast
  then show ?case
    using Cons.IH [of "handle_timeout t i m"] Cons.prems by (simp add: handle_timeout_ok handle_timeout_settled)
qed simp

lemma esc_call_ok:
  assumes "esc_call m m'" and "ids_ok m \<and> bounds_ok m \<and> settled_once m"
  shows "ids_ok m' \<and> bounds_ok m' \<and> settled_once m'"
  using assms
proof (induction rule: esc_call.induct)
  case (CSubmit t stamp w issue ctx timeout m res m')
  then show ?case using submit_ok by blast
next
  case (CProcess t i hs m s res m' s')
  show ?case
  proof (cases "process_begin i m")
    case (Pair r m1)
    show ?thesis
    proof (cases r)
      case (Inl err)
      then have "m1 = m" using Pair by (auto simp: process_begin_def Let_def split: option.splits if_splits)
      then show ?thesis using CProcess Pair Inl by (auto simp: process_def)
    next
      case (Inr x)
      note b = process_begin_ok [OF Pair [unfolded Inr]]
      have "settled_once m1" using b CProcess by (simp add: settled_once_def)
      moreover obtain rr s1 where "route (em_topology m1) (ee_worker_id x) (ee_issue x) hs s = Some (rr, s1)"
        using CProcess.hyps Pair Inr by (auto simp: process_def)
      then have "m' = m1 \<or> (\<exists>r. m' = process_end t i r m1)"
        using CProcess.hyps Pair Inr by (cases rr) (auto simp: process_def)
      ultimately show ?thesis using b CProcess.prems process_end_ok [of m1] process_end_settled [of m1 i] by auto
    qed
  qed
next
  case (CCancel m t i)
  then show ?case by (simp add: cancel_ok cancel_settled)
next
  case (CTimeouts m t)
  then show ?case
    using fold_timeouts_ok [of "timed_out t m" m t] by (simp add: check_timeouts_def timed_out_distinct timed_out_queue)
qed

text \<open>
  C22: When calls do not overlap, every escalation is settled at most once: no id is twice in the history, and
  what is in the history is no longer in the queue.
\<close>

theorem escalation_settled_once:
  assumes "esc_call\<^sup>*\<^sup>* (new_manager topo cfg) m"
  shows "distinct (map eh_id (em_history m)) \<and> eh_id ` set (em_history m) \<inter> set (em_queue m) = {}"
proof -
  have "ids_ok m \<and> bounds_ok m \<and> settled_once m"
    using assms by (induction rule: rtranclp_induct) (auto simp: new_manager_ok dest: esc_call_ok)
  then show ?thesis by (simp add: settled_once_def)
qed

section \<open>Timeouts\<close>

lemma fold_timeouts_other:
  assumes "i \<notin> set is'" and "ids_ok m" and "bounds_ok m"
  shows "get_entry (fold (handle_timeout t) is' m) i = get_entry m i \<and>
         map_of (em_objs (fold (handle_timeout t) is' m)) i = map_of (em_objs m) i \<and>
         ids_ok (fold (handle_timeout t) is' m) \<and> bounds_ok (fold (handle_timeout t) is' m) \<and>
         em_config (fold (handle_timeout t) is' m) = em_config m"
  using assms
proof (induction is' arbitrary: m)
  case (Cons j js)
  have "i \<noteq> j" using Cons.prems by auto
  then have "get_entry (handle_timeout t j m) i = get_entry m i"
    using handle_timeout_others [OF Cons.prems(2), of i j t] by (simp add: get_entry_def)
  then show ?case using Cons.IH [of "handle_timeout t j m"] Cons.prems handle_timeout_others [OF Cons.prems(2), of i j t]
    by (simp add: handle_timeout_ok)
qed simp

lemma check_timeouts_at:
  assumes "ids_ok m" and "bounds_ok m" and "i \<in> set (timed_out t m)"
  shows "\<exists>m1. ids_ok m1 \<and> get_entry m1 i = get_entry m i \<and> em_config m1 = em_config m \<and>
              get_entry (check_timeouts t m) i = get_entry (handle_timeout t i m1) i \<and>
              map_of (em_objs (check_timeouts t m)) i = map_of (em_objs (handle_timeout t i m1)) i"
proof -
  obtain xs ys where split: "timed_out t m = xs @ i # ys" using assms(3) by (meson split_list)
  have ni: "i \<notin> set xs" "i \<notin> set ys" using timed_out_distinct [OF assms(1,2), of t] split by auto
  let ?m1 = "fold (handle_timeout t) xs m"
  note 1 = fold_timeouts_other [OF ni(1) assms(1,2), of t]
  have "ids_ok (handle_timeout t i ?m1)" "bounds_ok (handle_timeout t i ?m1)" using 1 by (simp_all add: handle_timeout_ok)
  note 2 = fold_timeouts_other [OF ni(2) this, of t]
  show ?thesis using 1 2 by (intro exI [of _ ?m1]) (simp add: check_timeouts_def split)
qed

lemma index_of_nth: "distinct xs \<Longrightarrow> k < length xs \<Longrightarrow> index_of (xs ! k) xs = Some k"
proof (induction xs arbitrary: k)
  case (Cons y ys)
  then show ?case by (cases k) auto
qed simp

lemma next_target_nth:
  assumes "distinct (ee_path x)" and "k < length (ee_path x)" and "ee_current_target x = Some (ee_path x ! k)"
    and "ee_path x ! k \<noteq> []"
  shows "next_target x = (if Suc k < length (ee_path x) then Some (ee_path x ! Suc k) else None)"
  using assms by (simp add: next_target_def index_of_nth)

lemma calls_ok:
  assumes "esc_call\<^sup>*\<^sup>* (new_manager topo cfg) m"
  shows "ids_ok m \<and> bounds_ok m \<and> settled_once m"
  using assms by (induction rule: rtranclp_induct) (auto simp: new_manager_ok dest: esc_call_ok)

text \<open>
  What a timeout does to a waiting entry, on a path without repetition. With automatic escalation the
  entry moves to the next boss on the path and waits again; past the last one, the board, it leaves the
  queue. Without automatic escalation it stays in the queue in the state \<open>timeout\<close>, where neither a later
  timeout check nor a cancellation changes it.
\<close>

theorem timeouts_climb_the_line:
  assumes "esc_call\<^sup>*\<^sup>* (new_manager topo cfg) m" and "get_entry m i = Some x" and "ee_state x = EPending"
    and "ee_timeout_at x = Some u" and "u \<le> t" and "distinct (ee_path x)" and "k < length (ee_path x)"
    and "ee_current_target x = Some (ee_path x ! k)" and "ee_path x ! k \<noteq> []"
  shows "get_entry (check_timeouts t m) i =
           (if \<not> ec_auto_escalate_on_timeout (em_config m) then Some (x\<lparr>ee_state := ETimeout\<rparr>)
            else if Suc k < length (ee_path x)
            then Some (x\<lparr>ee_current_target := Some (ee_path x ! Suc k),
                         ee_timeout_at := Some (t + ec_timeout_seconds (em_config m) * second)\<rparr>)
            else None) \<and>
         (\<not> ec_auto_escalate_on_timeout (em_config m) \<longrightarrow>
            (\<forall>t'. i \<notin> set (timed_out t' (check_timeouts t m)) \<and>
                  cancel t' i (check_timeouts t m) = (False, check_timeouts t m)))"
proof -
  have ok: "ids_ok m" "bounds_ok m" using calls_ok [OF assms(1)] by auto
  have q: "i \<in> set (em_queue m)" "map_of (em_objs m) i = Some x"
    using assms(2) by (auto simp: get_entry_def split: if_splits)
  have "i \<in> set (timed_out t m)"
    using q assms(3-5) stored_id [OF ok(1) q(2)] by (auto simp: timed_out_def queue_entries_mem intro!: image_eqI)
  from check_timeouts_at [OF ok this] obtain m1 where m1: "ids_ok m1" "get_entry m1 i = Some x"
    "em_config m1 = em_config m" "get_entry (check_timeouts t m) i = get_entry (handle_timeout t i m1) i"
    "map_of (em_objs (check_timeouts t m)) i = map_of (em_objs (handle_timeout t i m1)) i"
    using assms(2) by auto
  have q1: "i \<in> set (em_queue m1)" "map_of (em_objs m1) i = Some x"
    using m1(2) by (auto simp: get_entry_def split: if_splits)
  have s: "get_entry (check_timeouts t m) i =
           (if \<not> ec_auto_escalate_on_timeout (em_config m) then Some (x\<lparr>ee_state := ETimeout\<rparr>)
            else if Suc k < length (ee_path x)
            then Some (x\<lparr>ee_current_target := Some (ee_path x ! Suc k),
                         ee_timeout_at := Some (t + ec_timeout_seconds (em_config m) * second)\<rparr>)
            else None)"
    using q1 stored_id [OF m1(1) q1(2)] assms(3)
    by (simp add: m1(3,4) handle_timeout_def next_target_nth [OF assms(6-9)] Let_def)
      (auto simp: get_entry_def intro: esc_entry.equality)
  have "i \<notin> set (timed_out t' (check_timeouts t m)) \<and> cancel t' i (check_timeouts t m) = (False, check_timeouts t m)"
    if "\<not> ec_auto_escalate_on_timeout (em_config m)" for t'
  proof -
    have e: "get_entry (check_timeouts t m) i = Some (x\<lparr>ee_state := ETimeout\<rparr>)" using s that by simp
    have "ids_ok (check_timeouts t m)" using esc_call_ok [OF CTimeouts] calls_ok [OF assms(1)] by blast
    then have "i \<notin> set (timed_out t' (check_timeouts t m))"
      using e by (auto simp: timed_out_def queue_entries_mem get_entry_def stored_id split: if_splits)
    then show ?thesis using e by (simp add: cancel_def)
  qed
  then show ?thesis using s by blast
qed

section \<open>A race, and concrete runs\<close>

definition stamp0 :: string where
  "stamp0 = ''20250101000000''"

definition sample_id :: ident where
  "sample_id = generate_id stamp0 1"

definition sample_entry :: esc_entry where
  "sample_entry = \<lparr>ee_id = sample_id, ee_worker_id = ''dev'', ee_issue = ''stuck'', ee_context = [], ee_state = EPending,
     ee_created_at = 0, ee_timeout_at = Some (300 * second), ee_current_target = Some BOARD, ee_path = [BOARD],
     ee_attempts = 0, ee_response = None\<rparr>"

definition sample_manager :: esc_manager where
  "sample_manager = \<lparr>em_topology = [], em_config = default_esc_config, em_objs = [(sample_id, sample_entry)],
     em_queue = [sample_id], em_history = [], em_counter = 1, em_events = [(sample_id, ''created'')]\<rparr>"

definition board_reply :: esc_response where
  "board_reply = \<lparr>er_resolved = True, er_guidance = [], er_new_tasks = [], er_escalated_to = Some BOARD\<rparr>"

lemma empty_path: "get_escalation_path [] w = Some [BOARD]"
  by (simp add: get_escalation_path_def path_loop.simps get_boss_def)

lemma sample_submit:
  "submit 0 stamp0 ''dev'' ''stuck'' [] None (new_manager [] default_esc_config) = Some (Inr sample_entry, sample_manager)"
  by (simp add: submit_def new_manager_def default_esc_config_def empty_path sample_entry_def sample_manager_def
      sample_id_def Let_def notify_event_def)

lemma sample_timed_out: "timed_out (300 * second) sample_manager = [sample_id]"
  by (simp add: timed_out_def queue_entries_def List.map_filter_def sample_manager_def sample_entry_def)

text \<open>
  The timeout thread collects the entries past their time in one locked section and handles each of them
  in another, without looking at its state again. An entry that is resolved in between is settled a
  second time: the history then records it as resolved and as timed out, and both events are notified.
\<close>

theorem timeout_race_settles_twice:
  "\<exists>m. esc_step\<^sup>*\<^sup>* (new_manager [] default_esc_config, [], []) (m, [], []) \<and>
       map eh_id (em_history m) = [sample_id, sample_id] \<and>
       map eh_state (em_history m) = [EResolved, ETimeout] \<and>
       map snd (em_events m) = [''created'', ''resolved'', ''timeout'']"
proof -
  let ?t = "300 * second"
  let ?m1 = "snd (process_begin sample_id sample_manager)"
  let ?m2 = "process_end ?t sample_id board_reply ?m1"
  let ?m3 = "handle_timeout ?t sample_id ?m2"
  have "esc_step (new_manager [] default_esc_config, [], []) (sample_manager, [], [])"
    by (rule Submit [OF sample_submit]) (simp add: stamp0_def)
  moreover have "esc_step (sample_manager, [], []) (sample_manager, [], [(?t, sample_id)])"
    using Collect [of sample_manager "[]" ?t] by (simp add: sample_timed_out)
  moreover have "\<exists>x. process_begin sample_id sample_manager = (Inr x, ?m1)"
    by (simp add: process_begin_def get_entry_def sample_manager_def sample_entry_def Let_def)
  then have "esc_step (sample_manager, [], [(?t, sample_id)]) (?m1, [sample_id], [(?t, sample_id)])"
    using Begin by blast
  moreover have "esc_step (?m1, [sample_id], [(?t, sample_id)]) (?m2, [], [(?t, sample_id)])"
    using Finish [of sample_id "[sample_id]"] by simp
  moreover have "esc_step (?m2, [], [(?t, sample_id)]) (?m3, [], [])" by (rule Expire)
  ultimately have run: "esc_step\<^sup>*\<^sup>* (new_manager [] default_esc_config, [], []) (?m3, [], [])"
    by (meson rtranclp.rtrancl_refl rtranclp.rtrancl_into_rtrancl)
  have hist: "map eh_id (em_history ?m3) = [sample_id, sample_id] \<and>
      map eh_state (em_history ?m3) = [EResolved, ETimeout] \<and>
      map snd (em_events ?m3) = [''created'', ''resolved'', ''timeout'']"
  proof -
    let ?x1 = "sample_entry\<lparr>ee_state := EInProgress, ee_attempts := 1\<rparr>"
    let ?x2 = "?x1\<lparr>ee_state := EResolved, ee_response := Some board_reply\<rparr>"
    have m1: "?m1 = sample_manager\<lparr>em_objs := [(sample_id, ?x1)]\<rparr>"
      by (simp add: process_begin_def get_entry_def sample_manager_def sample_entry_def Let_def set_entry_def)
    have m2: "?m2 = sample_manager\<lparr>em_objs := [(sample_id, ?x2)], em_queue := [],
        em_history := [history_of ?t (Some BOARD) ?x2], em_events := [(sample_id, ''created''), (sample_id, ''resolved'')]\<rparr>"
      unfolding m1
      by (simp add: process_end_def sample_manager_def sample_entry_def Let_def board_reply_def complete_escalation_def
          set_entry_def notify_event_def deque_append_room history_max_def default_esc_config_def)
    have n: "next_target ?x2 = None" by (simp add: next_target_def sample_entry_def BOARD_def)
    show ?thesis unfolding m2 handle_timeout_def using n
      by (simp add: sample_manager_def Let_def complete_escalation_def set_entry_def notify_event_def
          deque_append_room history_max_def default_esc_config_def)
        (simp add: sample_entry_def)
  qed
  show ?thesis by (rule exI [of _ ?m3], rule conjI [OF run hist])
qed

lemma sample_call: "esc_call\<^sup>*\<^sup>* (new_manager [] default_esc_config) sample_manager"
  by (rule r_into_rtranclp, rule CSubmit [OF sample_submit]) (simp add: stamp0_def)

theorem escalation_path_correct_witness:
  "\<exists>path. get_escalation_path build_standard_topology ''dev-1'' = Some path \<and> path \<noteq> [] \<and> last path = BOARD"
proof -
  have b: "get_boss build_standard_topology ''dev-1'' = Some ''eng-manager-1''"
    "get_boss build_standard_topology ''eng-manager-1'' = Some ''eng-director''"
    "get_boss build_standard_topology ''eng-director'' = Some ''ceo''"
    "get_boss build_standard_topology ''ceo'' = None"
    by (simp_all add: get_boss_def build_standard_topology_def load_topology_def create_simple_topology_def
        add_workers_def standard_workers_def worker_dict_of_def add_node_def)
  have "line_of build_standard_topology ''dev-1'' [''eng-manager-1'', ''eng-director'', ''ceo'']"
    by (intro line_of.intros b)
  then have "\<exists>path. get_escalation_path build_standard_topology ''dev-1'' = Some path" using path_iff by blast
  then obtain path where "get_escalation_path build_standard_topology ''dev-1'' = Some path" by blast
  moreover from this obtain p where "path = p @ [BOARD]"
    using escalation_path_correct [of build_standard_topology "''dev-1''"] by blast
  ultimately show ?thesis by simp
qed


theorem escalation_manager_bounded_witness: "ids_ok sample_manager \<and> bounds_ok sample_manager"
proof (rule escalation_manager_bounded)
  show "esc_step\<^sup>*\<^sup>* (new_manager [] default_esc_config, [], []) (sample_manager, [], [])"
    by (rule r_into_rtranclp, rule Submit [OF sample_submit]) (simp add: stamp0_def)
qed

theorem escalation_settled_once_witness:
  "distinct (map eh_id (em_history (check_timeouts (300 * second) sample_manager)))"
  using escalation_settled_once [OF rtranclp.rtrancl_into_rtrancl [OF sample_call CTimeouts]] by blast

theorem timeouts_climb_the_line_witness: "get_entry (check_timeouts (300 * second) sample_manager) sample_id = None"
proof -
  have "get_entry sample_manager sample_id = Some sample_entry"
    by (simp add: get_entry_def sample_manager_def)
  from timeouts_climb_the_line [OF sample_call this, of "300 * second" "300 * second" 0] show ?thesis
    by (simp add: sample_entry_def sample_manager_def default_esc_config_def BOARD_def)
qed

end
