(* ===== verification/Idle_Monitor.thy ===== *)
theory Idle_Monitor
  imports Bead_Gateway_Laws Py_Values
begin

text \<open>
  The two background loops that look after idle workers: the escalation monitor of
  \<open>cli/core/escalation_monitor.py\<close>, with the table \<open>worker_escalation_state\<close>, and the continuation engine of
  \<open>cli/core/continuation_engine.py\<close>. Both create beads through the gateway of \<open>Bead_Gateway\<close>. One pass of a
  loop reads the clock once. A number of minutes is compared as microseconds: the quotient of the float
  arithmetic and its integer bound fall on the same side.
\<close>

section \<open>The escalation monitor\<close>

record escalation_row =
  es_worker_id :: ident
  es_current_state :: escalation_status
  es_last_activity_at :: datetime
  es_idle_since :: "datetime option"
  es_escalation_created_at :: "datetime option"
  es_escalation_target_id :: "ident option"
  es_updated_at :: datetime

record monitor =
  mo_gateway :: gateway
  mo_rows :: "escalation_row list"

definition DEFAULT_ESCALATION_TIMEOUT_CEO :: int where
  "DEFAULT_ESCALATION_TIMEOUT_CEO = 60"

definition DEFAULT_ESCALATION_TIMEOUT_MANAGER :: int where
  "DEFAULT_ESCALATION_TIMEOUT_MANAGER = 45"

definition DEFAULT_ESCALATION_TIMEOUT_WORKER :: int where
  "DEFAULT_ESCALATION_TIMEOUT_WORKER = 30"

definition get_timeout_for_role :: "string \<Rightarrow> ident option \<Rightarrow> int" where
  "get_timeout_for_role role manager =
     (let is_ceo = (manager = None \<and> ascii_lower role = ''ceo''); is_manager = (manager = None \<and> \<not> is_ceo)
      in if is_ceo then DEFAULT_ESCALATION_TIMEOUT_CEO
         else if is_manager then DEFAULT_ESCALATION_TIMEOUT_MANAGER
         else DEFAULT_ESCALATION_TIMEOUT_WORKER)"

definition set_escalation_state :: "datetime \<Rightarrow> escalation_status \<Rightarrow> escalation_row \<Rightarrow> escalation_row" where
  "set_escalation_state t new r =
     r\<lparr>es_current_state := new, es_updated_at := t,
       es_idle_since := (if new = EscalatedPending then Some t else None)\<rparr>"

definition transition_state :: "ident \<Rightarrow> escalation_status \<Rightarrow> datetime \<Rightarrow> monitor \<Rightarrow> monitor" where
  "transition_state w new t m =
     (let allowed = (case fetchone (\<lambda>r. es_worker_id r = w) (mo_rows m) of
                       None \<Rightarrow> True | Some r \<Rightarrow> new \<in> set (ESCALATION_TRANSITIONS (es_current_state r)))
      in if \<not> allowed then m
         else m\<lparr>mo_rows := update_where (\<lambda>r. es_worker_id r = w) (set_escalation_state t new) (mo_rows m)\<rparr>)"

text \<open>The bead for an idle worker; \<open>minutes\<close> is the idle time in whole minutes.\<close>

definition idle_bead_args :: "worker_row \<Rightarrow> ident \<Rightarrow> int \<Rightarrow> string list" where
  "idle_bead_args w target minutes =
     [''create'', ''--title=Worker idle: '' @ w_name w @ '' ('' @ int_str minutes @ ''m)'',
      ''--description=Worker '' @ w_name w @ '' (role: '' @ w_role w @ '') has been idle for '' @ int_str minutes @
        '' minutes without making progress. They may be blocked or stuck.'',
      ''--type=ask'', ''--priority=1'', ''--assignee='' @ target]"

definition escalation_target :: "ident option \<Rightarrow> ident" where
  "escalation_target manager =
     (case manager of None \<Rightarrow> ''board'' | Some m \<Rightarrow> if m = [] then ''board'' else m)"

text \<open>Every exception of the gateway is caught. The worker was read before, so it is found.\<close>

definition create_idle_escalation ::
  "env \<Rightarrow> bd_world \<Rightarrow> int \<Rightarrow> worker_row \<Rightarrow> int \<Rightarrow> monitor \<Rightarrow> monitor" where
  "create_idle_escalation e world sid w idle m =
     (case run_bd e world sid no_skips (idle_bead_args w (escalation_target (w_manager_id w)) (idle div minute))
             (Some ''system'') (mo_gateway m) of
        (Inl _, g) \<Rightarrow> m\<lparr>mo_gateway := g\<rparr>
      | (Inr code, g) \<Rightarrow>
          if code = 0
          then m\<lparr>mo_gateway := g,
                 mo_rows := update_where (\<lambda>r. es_worker_id r = w_id w)
                   (\<lambda>r. r\<lparr>es_escalation_created_at := Some (now e), es_escalation_target_id := w_manager_id w\<rparr>)
                   (mo_rows m)\<rparr>
          else m\<lparr>mo_gateway := g\<rparr>)"

definition check_worker_escalation :: "env \<Rightarrow> bd_world \<Rightarrow> int \<Rightarrow> worker_row \<Rightarrow> monitor \<Rightarrow> monitor" where
  "check_worker_escalation e world sid w m =
     (case fetchone (\<lambda>r. es_worker_id r = w_id w) (mo_rows m) of
        None \<Rightarrow>
          m\<lparr>mo_rows := mo_rows m @
              [\<lparr>es_worker_id = w_id w, es_current_state = Normal, es_last_activity_at = now e, es_idle_since = None,
                es_escalation_created_at = None, es_escalation_target_id = None, es_updated_at = now e\<rparr>]\<rparr>
      | Some r \<Rightarrow>
          (let timeout = get_timeout_for_role (w_role w) (w_manager_id w) * minute;
               idle = now e - es_last_activity_at r;
               escalate = transition_state (w_id w) EscalatedPending (now e) (create_idle_escalation e world sid w idle m)
           in case es_current_state r of
                Normal \<Rightarrow> if timeout < idle then escalate else m
              | IdleWarning \<Rightarrow>
                  if timeout < idle then escalate
                  else if idle < 5 * minute then transition_state (w_id w) Normal (now e) m
                  else m
              | EscalatedPending \<Rightarrow> m
              | EscalatedResolved \<Rightarrow> transition_state (w_id w) Normal (now e) m))"

text \<open>One pass over the workers that are onboarding or active, as they were when the pass began.\<close>

definition check_workers :: "env \<Rightarrow> bd_world \<Rightarrow> int \<Rightarrow> monitor \<Rightarrow> monitor" where
  "check_workers e world sid m =
     (case gw_db (mo_gateway m) of
        None \<Rightarrow> m
      | Some d \<Rightarrow>
          fold (check_worker_escalation e world sid)
            (fetchall (\<lambda>w. w_status w \<in> {Onboarding, Active}) (workers d)) m)"

definition update_worker_activity :: "env \<Rightarrow> ident \<Rightarrow> monitor \<Rightarrow> monitor" where
  "update_worker_activity e w m =
     (if fetchone (\<lambda>r. es_worker_id r = w) (mo_rows m) = None
      then m\<lparr>mo_rows := mo_rows m @
               [\<lparr>es_worker_id = w, es_current_state = Normal, es_last_activity_at = now e, es_idle_since = None,
                 es_escalation_created_at = None, es_escalation_target_id = None, es_updated_at = now e\<rparr>]\<rparr>
      else m\<lparr>mo_rows := update_where (\<lambda>r. es_worker_id r = w)
               (\<lambda>r. r\<lparr>es_last_activity_at := now e, es_updated_at := now e\<rparr>) (mo_rows m)\<rparr>)"

section \<open>The continuation engine\<close>

record continuation_policy =
  cp_nudge_1 :: int
  cp_nudge_2 :: int
  cp_warning :: int
  cp_escalate :: int

definition policy_for_worker :: "bool \<Rightarrow> bool \<Rightarrow> continuation_policy" where
  "policy_for_worker is_ceo is_manager =
     (if is_ceo then \<lparr>cp_nudge_1 = 15, cp_nudge_2 = 30, cp_warning = 50, cp_escalate = 60\<rparr>
      else if is_manager then \<lparr>cp_nudge_1 = 10, cp_nudge_2 = 25, cp_warning = 40, cp_escalate = 45\<rparr>
      else \<lparr>cp_nudge_1 = 5, cp_nudge_2 = 15, cp_warning = 25, cp_escalate = 30\<rparr>)"

datatype prompt = SoftCheck | StatusRequest | FinalWarning | EscalationPrompt

text \<open>\<open>ce_last_prompts\<close> is the memory of the engine, \<open>ce_sent\<close> the prompts and escalations in their order.\<close>

record continuation =
  ce_gateway :: gateway
  ce_last_prompts :: "ident \<times> prompt \<Rightarrow> datetime option"
  ce_sent :: "(ident \<times> prompt \<times> datetime) list"

definition should_send_prompt :: "datetime \<Rightarrow> ident \<Rightarrow> prompt \<Rightarrow> int \<Rightarrow> continuation \<Rightarrow> bool" where
  "should_send_prompt t w p minutes_between c =
     (case ce_last_prompts c (w, p) of None \<Rightarrow> True | Some u \<Rightarrow> minutes_between * minute \<le> t - u)"

definition mark_prompt_sent :: "datetime \<Rightarrow> ident \<Rightarrow> prompt \<Rightarrow> continuation \<Rightarrow> continuation" where
  "mark_prompt_sent t w p c =
     c\<lparr>ce_last_prompts := (ce_last_prompts c)((w, p) \<mapsto> t), ce_sent := ce_sent c @ [(w, p, t)]\<rparr>"

definition escalate_idle :: "env \<Rightarrow> bd_world \<Rightarrow> int \<Rightarrow> db \<Rightarrow> ident \<Rightarrow> ident option \<Rightarrow> int \<Rightarrow> continuation \<Rightarrow> continuation" where
  "escalate_idle e world sid d w manager idle c =
     (case fetchone (\<lambda>x. w_id x = w) (workers d) of
        None \<Rightarrow> c
      | Some x \<Rightarrow>
          c\<lparr>ce_gateway := snd (run_bd e world sid no_skips (idle_bead_args x (escalation_target manager) (idle div minute))
                                (Some ''system'') (ce_gateway c))\<rparr>)"

definition prompt_gap :: "prompt \<Rightarrow> int" where
  "prompt_gap p = (case p of EscalationPrompt \<Rightarrow> 60 | FinalWarning \<Rightarrow> 10 | StatusRequest \<Rightarrow> 15 | SoftCheck \<Rightarrow> 10)"

text \<open>The stage an idle time has reached, the highest first.\<close>

definition due_prompt :: "continuation_policy \<Rightarrow> int \<Rightarrow> prompt option" where
  "due_prompt p idle =
     (if cp_escalate p * minute \<le> idle then Some EscalationPrompt
      else if cp_warning p * minute \<le> idle then Some FinalWarning
      else if cp_nudge_2 p * minute \<le> idle then Some StatusRequest
      else if cp_nudge_1 p * minute \<le> idle then Some SoftCheck
      else None)"

text \<open>A prompt is marked as sent whether or not the terminal took it.\<close>

definition check_worker ::
  "env \<Rightarrow> bd_world \<Rightarrow> int \<Rightarrow> db \<Rightarrow> ident \<Rightarrow> ident option \<Rightarrow> continuation_policy \<Rightarrow> continuation \<Rightarrow> continuation" where
  "check_worker e world sid d w manager policy c =
     (case get_worker_last_activity d w 3 of
        None \<Rightarrow> c
      | Some u \<Rightarrow>
          (let idle = now e - u
           in case due_prompt policy idle of
                None \<Rightarrow> c
              | Some p \<Rightarrow>
                  if \<not> should_send_prompt (now e) w p (prompt_gap p) c then c
                  else mark_prompt_sent (now e) w p
                         (if p = EscalationPrompt then escalate_idle e world sid d w manager idle c else c)))"

definition check_all_workers :: "env \<Rightarrow> bd_world \<Rightarrow> int \<Rightarrow> continuation \<Rightarrow> continuation" where
  "check_all_workers e world sid c =
     (case gw_db (ce_gateway c) of
        None \<Rightarrow> c
      | Some d0 \<Rightarrow>
          fold (\<lambda>x c. case gw_db (ce_gateway c) of
                  None \<Rightarrow> c
                | Some d \<Rightarrow>
                    check_worker e world sid d (w_id x) (w_manager_id x)
                      (policy_for_worker (w_manager_id x = None) (is_worker_manager d (w_id x))) c)
            (fetchall (\<lambda>x. w_status x = Active) (workers d0)) c)"

end
