(* ===== verification/Idle_Monitor_Laws.thy ===== *)
theory Idle_Monitor_Laws
  imports Idle_Monitor
begin

text \<open>
  Laws of the two loops for idle workers: the monitor follows the table of escalation states, an
  escalation it could not file is lost for good, and the continuation engine spaces its prompts.
\<close>

section \<open>The monitor and its table\<close>

definition escalation_state_of :: "monitor \<Rightarrow> ident \<Rightarrow> escalation_status option" where
  "escalation_state_of m w = map_option es_current_state (fetchone (\<lambda>r. es_worker_id r = w) (mo_rows m))"

inductive monitor_step :: "monitor \<Rightarrow> monitor \<Rightarrow> bool" where
  Pass: "monitor_step m (check_workers e world sid m)"
| Activity: "monitor_step m (update_worker_activity e w m)"

lemma row_after_update:
  assumes "\<And>r. es_worker_id (f r) = es_worker_id r"
  shows "fetchone (\<lambda>r. es_worker_id r = w) (update_where (\<lambda>r. es_worker_id r = v) f rows) =
         map_option (\<lambda>r. if w = v then f r else r) (fetchone (\<lambda>r. es_worker_id r = w) rows)"
  using assms by (induction rows) auto

lemma set_escalation_state_simps [simp]:
  "es_worker_id (set_escalation_state t new r) = es_worker_id r"
  "es_current_state (set_escalation_state t new r) = new"
  by (simp_all add: set_escalation_state_def)

lemma transition_state_of:
  "escalation_state_of (transition_state v new t m) w =
     (if w = v then map_option (\<lambda>s. if new \<in> set (ESCALATION_TRANSITIONS s) then new else s) (escalation_state_of m w)
      else escalation_state_of m w)"
  by (auto simp: escalation_state_of_def transition_state_def Let_def row_after_update option.map_ident
      split: option.splits)

lemma transition_gateway [simp]: "mo_gateway (transition_state v new t m) = mo_gateway m"
  by (simp add: transition_state_def Let_def)

lemma create_keeps_state [simp]:
  "escalation_state_of (create_idle_escalation e world sid w idle m) v = escalation_state_of m v"
  by (auto simp: create_idle_escalation_def escalation_state_of_def row_after_update option.map_comp o_def
      split: prod.splits sum.splits)
    (auto simp: map_option_case split: option.splits)

lemma escal_trans: "escal.reaches s t \<Longrightarrow> u \<in> set (ESCALATION_TRANSITIONS t) \<Longrightarrow> escal.reaches s u"
  by (rule escal.reaches.step)

lemma check_worker_reaches:
  assumes "escalation_state_of m w = Some s"
  shows "\<exists>s'. escalation_state_of (check_worker_escalation e world sid x m) w = Some s' \<and> escal.reaches s s' \<and>
              (s = EscalatedPending \<longrightarrow> s' = s)"
proof (cases "fetchone (\<lambda>r. es_worker_id r = w_id x) (mo_rows m)")
  case None
  then show ?thesis using assms
    by (auto simp: check_worker_escalation_def escalation_state_of_def escal.reaches.refl split: option.splits)
next
  case (Some r)
  let ?m = "check_worker_escalation e world sid x m"
  have "escalation_state_of ?m w = Some s \<or>
        w = w_id x \<and> es_current_state r = s \<and> s \<noteq> EscalatedPending \<and>
        (\<exists>u \<in> set (ESCALATION_TRANSITIONS s). escalation_state_of ?m w = Some u)"
  proof (cases "w = w_id x")
    case False
    then show ?thesis using assms
      by (auto simp: check_worker_escalation_def Some Let_def transition_state_of split: escalation_status.splits)
  next
    case True
    then have "es_current_state r = s" using assms Some by (simp add: escalation_state_of_def)
    then show ?thesis using assms True
      by (cases s) (auto simp: check_worker_escalation_def Some Let_def transition_state_of)
  qed
  then show ?thesis by (auto intro: escal.reaches.intros)
qed

lemma fold_check_reaches:
  assumes "escalation_state_of m w = Some s"
  shows "\<exists>s'. escalation_state_of (fold (check_worker_escalation e world sid) xs m) w = Some s' \<and>
              escal.reaches s s' \<and> (s = EscalatedPending \<longrightarrow> s' = s)"
  using assms
proof (induction xs arbitrary: m s)
  case (Cons x xs)
  obtain s1 where 1: "escalation_state_of (check_worker_escalation e world sid x m) w = Some s1" "escal.reaches s s1"
    "s = EscalatedPending \<longrightarrow> s1 = s" using check_worker_reaches [OF Cons.prems] by blast
  from Cons.IH [OF 1(1)] 1 show ?case by (auto intro: escal.reaches_trans)
qed (auto intro: escal.reaches.refl)

lemma activity_state:
  "escalation_state_of m w = Some s \<Longrightarrow> escalation_state_of (update_worker_activity e v m) w = Some s"
  by (auto simp: update_worker_activity_def escalation_state_of_def row_after_update option.map_comp o_def
      split: option.splits)

lemma monitor_step_reaches:
  assumes "monitor_step m m'" and "escalation_state_of m w = Some s"
  shows "\<exists>s'. escalation_state_of m' w = Some s' \<and> escal.reaches s s' \<and> (s = EscalatedPending \<longrightarrow> s' = s)"
  using assms
proof (induction rule: monitor_step.induct)
  case (Pass m e world sid)
  then show ?case using fold_check_reaches
    by (auto simp: check_workers_def intro: escal.reaches.refl split: option.splits)
next
  case (Activity m e v)
  then show ?case using activity_state by (auto intro: escal.reaches.refl)
qed

lemma monitor_run_reaches:
  assumes "monitor_step\<^sup>*\<^sup>* m m'" and "escalation_state_of m w = Some s"
  shows "\<exists>s'. escalation_state_of m' w = Some s' \<and> escal.reaches s s' \<and> (s = EscalatedPending \<longrightarrow> s' = s)"
  using assms
proof (induction rule: rtranclp_induct)
  case base
  then show ?case by (auto intro: escal.reaches.refl)
next
  case (step m1 m2)
  then obtain s1 where 1: "escalation_state_of m1 w = Some s1" "escal.reaches s s1" "s = EscalatedPending \<longrightarrow> s1 = s"
    by blast
  from monitor_step_reaches [OF step(2) 1(1)] 1 show ?case by (auto intro: escal.reaches_trans)
qed


section \<open>Escalations that are lost\<close>

lemma idle_bead_refused:
  assumes "gw_db g = Some d" and "global_level d ''system'' < 3"
  shows "\<exists>x. run_bd e world sid no_skips (idle_bead_args w target k) (Some ''system'') g = (Inl x, g)"
  by (rule create_refused [OF assms])
    (simp_all add: idle_bead_args_def starts_with_def get_bead_id_from_args_def)

text \<open>
  C37: The monitor files the bead for an idle worker in the name of \<open>system\<close>. Unless that id was granted a
  global level of write the gateway refuses it, no bead is created, and still the worker's state becomes
  \<open>escalated_pending\<close>. From then on every check of the worker does nothing, in every later run of the
  monitor: the manager is never told.
\<close>

theorem idle_escalation_lost:
  assumes "gw_db (mo_gateway m) = Some d" and "global_level d ''system'' < 3"
    and "fetchone (\<lambda>r. es_worker_id r = w_id w) (mo_rows m) = Some r" and "es_current_state r = Normal"
    and "get_timeout_for_role (w_role w) (w_manager_id w) * minute < now e - es_last_activity_at r"
    and "monitor_step\<^sup>*\<^sup>* (check_worker_escalation e world sid w m) m'"
  shows "mo_gateway (check_worker_escalation e world sid w m) = mo_gateway m \<and>
         escalation_state_of m' (w_id w) = Some EscalatedPending \<and>
         check_worker_escalation e' world' sid' w m' = m'"
proof -
  let ?m = "check_worker_escalation e world sid w m"
  obtain x where "run_bd e world sid no_skips (idle_bead_args w (escalation_target (w_manager_id w))
      ((now e - es_last_activity_at r) div minute)) (Some ''system'') (mo_gateway m) = (Inl x, mo_gateway m)"
    using idle_bead_refused [OF assms(1,2)] by blast
  then have c: "create_idle_escalation e world sid w (now e - es_last_activity_at r) m = m"
    by (simp add: create_idle_escalation_def)
  have m: "?m = transition_state (w_id w) EscalatedPending (now e) m"
    using assms(3-5) by (simp add: check_worker_escalation_def Let_def c)
  have "escalation_state_of m (w_id w) = Some Normal" using assms(3,4) by (simp add: escalation_state_of_def)
  then have "escalation_state_of ?m (w_id w) = Some EscalatedPending" by (simp add: m transition_state_of)
  then have s: "escalation_state_of m' (w_id w) = Some EscalatedPending"
    using monitor_run_reaches [OF assms(6)] by blast
  then have "check_worker_escalation e' world' sid' w m' = m'"
    by (auto simp: escalation_state_of_def check_worker_escalation_def Let_def)
  then show ?thesis using s by (simp add: m)
qed

definition idle_monitor :: monitor where
  "idle_monitor = \<lparr>mo_gateway = org_gateway,
     mo_rows = [\<lparr>es_worker_id = w_id (hd (workers org_db)), es_current_state = Normal,
        es_last_activity_at = now witness_env - 90 * minute, es_idle_since = None, es_escalation_created_at = None,
        es_escalation_target_id = None, es_updated_at = 0\<rparr>]\<rparr>"


theorem idle_escalation_lost_witness:
  "escalation_state_of (check_worker_escalation witness_env calm_world 1 (hd (workers org_db)) idle_monitor)
     (w_id (hd (workers org_db))) = Some EscalatedPending"
proof -
  have "get_timeout_for_role rl mg \<le> 60" for rl mg
    by (simp add: get_timeout_for_role_def DEFAULT_ESCALATION_TIMEOUT_CEO_def DEFAULT_ESCALATION_TIMEOUT_MANAGER_def
        DEFAULT_ESCALATION_TIMEOUT_WORKER_def Let_def)
  then have "get_timeout_for_role rl mg * minute < 90 * minute" for rl mg
    using le_less_trans [of "get_timeout_for_role rl mg" 60 90] by (simp add: minute_def)
  moreover have "gw_db (mo_gateway idle_monitor) = Some org_db" "global_level org_db ''system'' < 3"
    by (simp_all add: idle_monitor_def org_gateway_def global_level_def get_permission_for_grantee_def org_defs)
  ultimately show ?thesis
    using idle_escalation_lost [of idle_monitor org_db "hd (workers org_db)" _ witness_env calm_world 1
        "check_worker_escalation witness_env calm_world 1 (hd (workers org_db)) idle_monitor"]
    by (auto simp: idle_monitor_def)
qed

section \<open>The continuation engine\<close>

definition prompt_times :: "continuation \<Rightarrow> ident \<Rightarrow> prompt \<Rightarrow> datetime list" where
  "prompt_times c w p = map (\<lambda>(_, _, t). t) (filter (\<lambda>(w', p', _). w' = w \<and> p' = p) (ce_sent c))"

definition spaced :: "continuation \<Rightarrow> bool" where
  "spaced c =
     (\<forall>w p. sorted_wrt (\<lambda>a b. prompt_gap p * minute \<le> b - a) (prompt_times c w p) \<and>
            ce_last_prompts c (w, p) = (if prompt_times c w p = [] then None else Some (last (prompt_times c w p))))"

lemma prompt_gap_pos: "0 \<le> prompt_gap p * minute"
  by (cases p) (simp_all add: prompt_gap_def minute_def)

lemma sorted_snoc_gap:
  assumes "sorted_wrt (\<lambda>a b. g \<le> b - a) ts" and "ts \<noteq> [] \<Longrightarrow> g \<le> t - last ts" and "0 \<le> (g :: int)"
  shows "sorted_wrt (\<lambda>a b. g \<le> b - a) (ts @ [t])"
proof -
  have "g \<le> t - a" if "a \<in> set ts" for a
  proof (cases "a = last ts")
    case False
    then have "a \<in> set (butlast ts)" using that by (metis append_butlast_last_id empty_iff empty_set in_set_conv_decomp
          rotate1.simps(2) set_ConsD set_rotate1 UnE set_append)
    moreover have "sorted_wrt (\<lambda>a b. g \<le> b - a) (butlast ts @ [last ts])" using assms(1) that by (cases ts) auto
    ultimately have "g \<le> last ts - a" by (simp add: sorted_wrt_append)
    then show ?thesis using assms(2,3) that by fastforce
  next
    case True
    then show ?thesis using assms(2) that by (cases "ts = []") auto
  qed
  then show ?thesis using assms(1) by (simp add: sorted_wrt_append)
qed

lemma mark_spaced:
  assumes "spaced c" and "should_send_prompt t w p (prompt_gap p) c"
  shows "spaced (mark_prompt_sent t w p c)"
proof -
  have times: "prompt_times (mark_prompt_sent t w p c) v q =
      (if v = w \<and> q = p then prompt_times c v q @ [t] else prompt_times c v q)" for v q
    by (auto simp: prompt_times_def mark_prompt_sent_def)
  have "sorted_wrt (\<lambda>a b. prompt_gap p * minute \<le> b - a) (prompt_times c w p @ [t])"
    using assms by (intro sorted_snoc_gap prompt_gap_pos)
      (auto simp: spaced_def should_send_prompt_def split: option.splits if_splits)
  then show ?thesis using assms(1) unfolding spaced_def times by (auto simp: mark_prompt_sent_def)
qed

lemma escalate_idle_simps [simp]:
  "ce_sent (escalate_idle e world sid d w mg idle c) = ce_sent c"
  "ce_last_prompts (escalate_idle e world sid d w mg idle c) = ce_last_prompts c"
  by (simp_all add: escalate_idle_def split: option.splits)

lemma check_worker_spaced:
  assumes "spaced c" shows "spaced (check_worker e world sid d w mg policy c)"
proof -
  have "spaced (escalate_idle e world sid d w mg idle c)" for idle
    using assms by (simp add: spaced_def prompt_times_def)
  moreover have "should_send_prompt t w p g (escalate_idle e world sid d w mg idle c) = should_send_prompt t w p g c"
    for t p g idle by (simp add: should_send_prompt_def)
  ultimately show ?thesis using assms
    by (auto simp: check_worker_def Let_def intro!: mark_spaced split: option.splits)
qed

lemma check_all_spaced:
  assumes "spaced c" shows "spaced (check_all_workers e world sid c)"
proof -
  have "spaced (fold (\<lambda>x c. case gw_db (ce_gateway c) of None \<Rightarrow> c | Some d \<Rightarrow>
      check_worker e world sid d (w_id x) (w_manager_id x)
        (policy_for_worker (w_manager_id x = None) (is_worker_manager d (w_id x))) c) xs c)" for xs
    using assms by (induction xs arbitrary: c) (auto intro: check_worker_spaced split: option.splits)
  then show ?thesis using assms unfolding check_all_workers_def
    by (cases "gw_db (ce_gateway c)") (simp_all only: option.case)
qed

inductive continuation_run :: "continuation \<Rightarrow> bool" where
  Fresh: "ce_sent c = [] \<Longrightarrow> ce_last_prompts c = (\<lambda>_. None) \<Longrightarrow> continuation_run c"
| Again: "continuation_run c \<Longrightarrow> continuation_run (check_all_workers e world sid c)"

fun prompt_rank :: "prompt option \<Rightarrow> nat" where
  "prompt_rank None = 0"
| "prompt_rank (Some SoftCheck) = 1"
| "prompt_rank (Some StatusRequest) = 2"
| "prompt_rank (Some FinalWarning) = 3"
| "prompt_rank (Some EscalationPrompt) = 4"



end
