(* ===== verification/Providers.thy ===== *)
theory Providers
  imports Budget Py_Values
begin

text \<open>
  Model providers: the types and the retry loop of \<open>shared/provider_types.py\<close>, the catalogues of
  \<open>cli/providers/anthropic.py\<close> and \<open>openai.py\<close>, the registry with its configuration, the selection of a provider
  and a model for a worker, and the completion that charges the worker's budget (\<open>cli/providers/registry\<close>).
  A call of a provider's service is an argument.
\<close>

section \<open>Models\<close>

datatype cost_tier = BUDGET | STANDARD | ADVANCED | PREMIUM

fun tier_value :: "cost_tier \<Rightarrow> string" where
  "tier_value BUDGET = ''budget''"
| "tier_value STANDARD = ''standard''"
| "tier_value ADVANCED = ''advanced''"
| "tier_value PREMIUM = ''premium''"

record model_capabilities =
  cap_coding :: bool
  cap_reasoning :: bool
  cap_research :: bool
  cap_tool_use :: bool
  cap_long_context :: bool

definition has_capability :: "model_capabilities \<Rightarrow> string \<Rightarrow> bool" where
  "has_capability c n =
     (if n = ''coding'' then cap_coding c else if n = ''reasoning'' then cap_reasoning c
      else if n = ''research'' then cap_research c else if n = ''tool_use'' then cap_tool_use c
      else if n = ''long_context'' then cap_long_context c else False)"

definition has_capabilities :: "model_capabilities \<Rightarrow> string list \<Rightarrow> bool" where
  "has_capabilities c required = list_all (has_capability c) required"

record model_info =
  mi_id :: string
  mi_name :: string
  mi_cost_tier :: "int \<times> int"
  mi_capabilities :: model_capabilities
  mi_max_tokens :: int
  mi_tier :: "cost_tier option"
  mi_tiers :: "cost_tier list option"

definition matches_cost :: "model_info \<Rightarrow> int \<Rightarrow> bool" where
  "matches_cost m cost = (fst (mi_cost_tier m) \<le> cost \<and> cost \<le> snd (mi_cost_tier m))"

definition tier_from_cost_range :: "model_info \<Rightarrow> cost_tier" where
  "tier_from_cost_range m =
     (let c = fst (mi_cost_tier m)
      in if c \<le> 30 then BUDGET else if c \<le> 60 then STANDARD else if c \<le> 80 then ADVANCED else PREMIUM)"

definition matches_tier :: "model_info \<Rightarrow> cost_tier \<Rightarrow> bool" where
  "matches_tier m tier =
     (case mi_tiers m of
        Some (t # ts) \<Rightarrow> tier \<in> set (t # ts)
      | _ \<Rightarrow> (case mi_tier m of Some t \<Rightarrow> t = tier | None \<Rightarrow> tier_from_cost_range m = tier))"

definition small_caps :: model_capabilities where
  "small_caps = \<lparr>cap_coding = True, cap_reasoning = False, cap_research = True, cap_tool_use = True, cap_long_context = False\<rparr>"

definition full_caps :: model_capabilities where
  "full_caps = \<lparr>cap_coding = True, cap_reasoning = True, cap_research = True, cap_tool_use = True, cap_long_context = True\<rparr>"

definition catalog_model :: "string \<Rightarrow> string \<Rightarrow> cost_tier \<Rightarrow> cost_tier list \<Rightarrow> model_capabilities \<Rightarrow> int \<Rightarrow> model_info" where
  "catalog_model i n t ts caps maxt = \<lparr>mi_id = i, mi_name = n, mi_cost_tier = (0, 100), mi_capabilities = caps,
     mi_max_tokens = maxt, mi_tier = Some t, mi_tiers = Some ts\<rparr>"

definition ANTHROPIC_MODELS :: "model_info list" where
  "ANTHROPIC_MODELS =
     [catalog_model ''claude-haiku-4-5-20251001'' ''Claude Haiku 4.5'' BUDGET [BUDGET] small_caps 8192,
      catalog_model ''claude-sonnet-4-6'' ''Claude Sonnet 4.6'' STANDARD [STANDARD, ADVANCED] full_caps 16384,
      catalog_model ''claude-opus-4-7'' ''Claude Opus 4.7'' PREMIUM [PREMIUM] full_caps 32768]"

definition OPENAI_MODELS :: "model_info list" where
  "OPENAI_MODELS =
     [catalog_model ''gpt-4o-mini'' ''GPT-4o Mini'' BUDGET [BUDGET] small_caps 16384,
      catalog_model ''gpt-4o'' ''GPT-4o'' STANDARD [STANDARD, ADVANCED] full_caps 16384,
      catalog_model ''gpt-4-turbo'' ''GPT-4 Turbo'' ADVANCED [ADVANCED] full_caps 4096,
      catalog_model ''o1'' ''O1'' PREMIUM [PREMIUM] full_caps 100000,
      catalog_model ''gpt-5'' ''GPT-5'' PREMIUM [PREMIUM] full_caps 128000]"

section \<open>Errors and retries\<close>

datatype provider_failure =
    AuthenticationError
  | RateLimitError
  | ModelNotAvailableError
  | ProviderConnectionError
  | ProviderTimeoutError
  | APIError "int option"
  | PlainProviderError
  | OtherError string

text \<open>\<open>_handle_exception\<close>: the class of an error of the service, from its type name and text.\<close>

definition handle_exception :: "string \<Rightarrow> string \<Rightarrow> provider_failure" where
  "handle_exception ty msg =
     (if contains_str ''AuthenticationError'' ty \<or> contains_str ''401'' msg then AuthenticationError
      else if contains_str ''RateLimitError'' ty \<or> contains_str ''429'' msg then RateLimitError
      else if contains_str ''NotFoundError'' ty \<or> contains_str ''404'' msg then ModelNotAvailableError
      else if contains_str ''Timeout'' ty \<or> contains_str ''timeout'' (ascii_lower msg) then ProviderTimeoutError
      else if contains_str ''Connection'' ty \<or> contains_str ''connection'' (ascii_lower msg) then ProviderConnectionError
      else if contains_str ''500'' msg \<or> contains_str ''502'' msg \<or> contains_str ''503'' msg then APIError (Some 500)
      else if contains_str ''400'' msg then APIError (Some 400)
      else PlainProviderError)"

fun is_retryable_error :: "provider_failure \<Rightarrow> bool" where
  "is_retryable_error ProviderConnectionError = True"
| "is_retryable_error ProviderTimeoutError = True"
| "is_retryable_error RateLimitError = True"
| "is_retryable_error (APIError status) = (case status of None \<Rightarrow> False | Some c \<Rightarrow> 500 \<le> c)"
| "is_retryable_error _ = False"

record retry_config =
  rc_max_retries :: int
  rc_initial_delay :: rat
  rc_max_delay :: rat
  rc_exponential_base :: rat
  rc_jitter :: bool

definition default_retry_config :: "int \<Rightarrow> retry_config" where
  "default_retry_config n = \<lparr>rc_max_retries = n, rc_initial_delay = 1, rc_max_delay = 60, rc_exponential_base = 2,
     rc_jitter = True\<rparr>"

definition get_retry_config :: "retry_config option \<Rightarrow> int \<Rightarrow> retry_config" where
  "get_retry_config cfg max_retries = (case cfg of Some c \<Rightarrow> c | None \<Rightarrow> default_retry_config max_retries)"

text \<open>\<open>rnd\<close> is the number \<open>random.random()\<close> draws.\<close>

definition calculate_retry_delay :: "retry_config \<Rightarrow> nat \<Rightarrow> rat \<Rightarrow> rat" where
  "calculate_retry_delay cfg attempt rnd =
     (let delay = min (rc_initial_delay cfg * rc_exponential_base cfg ^ attempt) (rc_max_delay cfg)
      in if rc_jitter cfg then delay + delay * (1 / 4) * rnd else delay)"

text \<open>
  The loop of \<open>with_retry\<close> from an attempt on: the result, the state the call leaves, and the sleeps.
  \<open>remaining\<close> is the number of attempts the range still has.
\<close>

fun retry_loop ::
  "retry_config \<Rightarrow> (nat \<Rightarrow> rat) \<Rightarrow> ('s \<Rightarrow> (provider_failure + 'a) \<times> 's) \<Rightarrow> nat \<Rightarrow> nat \<Rightarrow> 's \<Rightarrow>
   (provider_failure + 'a option) \<times> 's \<times> rat list" where
  "retry_loop cfg rnd f 0 attempt s = (Inr None, s, [])"
| "retry_loop cfg rnd f (Suc remaining) attempt s =
     (case f s of
        (Inr x, s1) \<Rightarrow> (Inr (Some x), s1, [])
      | (Inl err, s1) \<Rightarrow>
          if \<not> is_retryable_error err then (Inl err, s1, [])
          else if rc_max_retries cfg \<le> int attempt then (Inl err, s1, [])
          else (case retry_loop cfg rnd f remaining (Suc attempt) s1 of
                  (res, s2, sleeps) \<Rightarrow> (res, s2, calculate_retry_delay cfg attempt (rnd attempt) # sleeps)))"

definition with_retry ::
  "retry_config \<Rightarrow> (nat \<Rightarrow> rat) \<Rightarrow> ('s \<Rightarrow> (provider_failure + 'a) \<times> 's) \<Rightarrow> 's \<Rightarrow>
   (provider_failure + 'a option) \<times> 's \<times> rat list" where
  "with_retry cfg rnd f s = retry_loop cfg rnd f (nat (rc_max_retries cfg + 1)) 0 s"

section \<open>Providers and the registry\<close>

record completion_result =
  cr_content :: string
  cr_model :: string
  cr_input_tokens :: int
  cr_output_tokens :: int

text \<open>A message of a completion: its role and content.\<close>

type_synonym chat_message = "string \<times> string"

record provider =
  pv_name :: string
  pv_cli_command :: string
  pv_models :: "model_info list"
  pv_complete :: "chat_message list \<Rightarrow> string \<Rightarrow> int \<Rightarrow> provider_failure + completion_result"

definition select_model :: "provider \<Rightarrow> int \<Rightarrow> string list \<Rightarrow> py_error + model_info" where
  "select_model p cost required =
     (let matching = filter (\<lambda>m. matches_cost m cost) (pv_models p)
      in if matching = [] then Inl (ValueError ''No model available for cost'')
         else let capable = filter (\<lambda>m. has_capabilities (mi_capabilities m) required) matching
              in Inr (hd (if required \<noteq> [] \<and> capable \<noteq> [] then capable else matching)))"

record registry =
  rg_providers :: "(string \<times> provider) list"
  rg_default :: "string option"
  rg_thresholds :: "(string \<times> int) list"
  rg_authorized :: "string list"

definition DEFAULT_THRESHOLDS :: "(string \<times> int) list" where
  "DEFAULT_THRESHOLDS =
     [(''coding'', 80), (''reasoning'', 60), (''research'', 80), (''management'', 70), (''strategy'', 90)]"

definition new_registry :: registry where
  "new_registry = \<lparr>rg_providers = [], rg_default = None, rg_thresholds = DEFAULT_THRESHOLDS, rg_authorized = []\<rparr>"

definition set_authorized_providers :: "string list \<Rightarrow> registry \<Rightarrow> registry" where
  "set_authorized_providers ps r = r\<lparr>rg_authorized := ps\<rparr>"

definition is_authorized :: "registry \<Rightarrow> string \<Rightarrow> bool" where
  "is_authorized r n = (rg_authorized r = [] \<or> n \<in> set (rg_authorized r))"

definition set_threshold :: "string \<Rightarrow> int option \<Rightarrow> registry \<Rightarrow> registry" where
  "set_threshold k v r = (case v of None \<Rightarrow> r | Some x \<Rightarrow> r\<lparr>rg_thresholds := dict_set k x (rg_thresholds r)\<rparr>)"

definition set_thresholds ::
  "int option \<Rightarrow> int option \<Rightarrow> int option \<Rightarrow> int option \<Rightarrow> int option \<Rightarrow> registry \<Rightarrow> registry" where
  "set_thresholds coding reasoning research management strategy r =
     set_threshold ''strategy'' strategy (set_threshold ''management'' management
       (set_threshold ''research'' research (set_threshold ''reasoning'' reasoning
         (set_threshold ''coding'' coding r))))"

definition register :: "provider \<Rightarrow> registry \<Rightarrow> registry" where
  "register p r = r\<lparr>rg_providers := dict_set (pv_name p) p (rg_providers r)\<rparr>"

definition has_provider :: "registry \<Rightarrow> string \<Rightarrow> bool" where
  "has_provider r n = (map_of (rg_providers r) n \<noteq> None)"

definition unregister :: "string \<Rightarrow> registry \<Rightarrow> registry" where
  "unregister n r =
     (if has_provider r n
      then r\<lparr>rg_providers := dict_del n (rg_providers r),
             rg_default := (if rg_default r = Some n then None else rg_default r)\<rparr>
      else r)"

definition get_provider :: "registry \<Rightarrow> string \<Rightarrow> py_error + provider" where
  "get_provider r n =
     (case map_of (rg_providers r) n of None \<Rightarrow> Inl (ValueError ''Provider not found'') | Some p \<Rightarrow> Inr p)"

definition set_default :: "string \<Rightarrow> registry \<Rightarrow> (registry, unit) outcome" where
  "set_default n r =
     (if has_provider r n then ok () (r\<lparr>rg_default := Some n\<rparr>) else raise (ValueError ''Provider not found'') r)"

definition list_providers :: "registry \<Rightarrow> string list" where
  "list_providers r = map fst (rg_providers r)"

section \<open>Configuration\<close>

text \<open>\<open>_expand_env_vars\<close>: each \<open>${NAME}\<close> becomes the value of the variable, or nothing.\<close>

function expand_env_vars :: "(string \<Rightarrow> string option) \<Rightarrow> string \<Rightarrow> string" where
  "expand_env_vars env [] = []"
| "expand_env_vars env (c # cs) =
     (let name = takeWhile (\<lambda>x. x \<noteq> CHR ''}'') (tl cs); rest = drop (length name) (tl cs)
      in if c = CHR ''$'' \<and> cs \<noteq> [] \<and> hd cs = CHR 0x7B \<and> name \<noteq> [] \<and> rest \<noteq> []
         then (case env name of None \<Rightarrow> [] | Some v \<Rightarrow> v) @ expand_env_vars env (tl rest)
         else c # expand_env_vars env cs)"
  by pat_completeness auto
termination
  by (relation "measure (\<lambda>(env, s). length s)") auto

record provider_entry =
  pe_name :: string
  pe_enabled :: bool
  pe_api_key :: string
  pe_base_url :: "string option"

record providers_file =
  pf_providers :: "provider_entry list"
  pf_default :: "string option"
  pf_coding :: "int option"
  pf_reasoning :: "int option"
  pf_research :: "int option"

text \<open>The classes by name: each makes a provider from a key and an address.\<close>

type_synonym provider_classes = "string \<Rightarrow> (string \<Rightarrow> string option \<Rightarrow> provider) option"

definition load_entry :: "(string \<Rightarrow> string option) \<Rightarrow> provider_classes \<Rightarrow> provider_entry \<Rightarrow> registry \<Rightarrow> registry" where
  "load_entry env classes x r =
     (if \<not> pe_enabled x then r
      else case classes (pe_name x) of
             None \<Rightarrow> r
           | Some mk \<Rightarrow>
               register (mk (expand_env_vars env (pe_api_key x))
                 (case map_option (expand_env_vars env) (pe_base_url x) of
                    None \<Rightarrow> None | Some u \<Rightarrow> if u = [] then None else Some u)) r)"

text \<open>\<open>file\<close> is the parsed file: \<open>None\<close> when it is missing, \<open>Some None\<close> when it is empty.\<close>

definition load_providers_from_config ::
  "(string \<Rightarrow> string option) \<Rightarrow> provider_classes \<Rightarrow> providers_file option option \<Rightarrow> py_error + registry" where
  "load_providers_from_config env classes file =
     (case file of
        None \<Rightarrow> Inl (FileNotFoundError ''Config not found'')
      | Some None \<Rightarrow> Inl (ValueError ''Empty configuration file'')
      | Some (Some f) \<Rightarrow>
          (let r = fold (load_entry env classes) (pf_providers f) new_registry;
               r1 = (case pf_default f of
                       Some n \<Rightarrow> if n \<noteq> [] \<and> has_provider r n then snd (set_default n r)
                                else if rg_providers r \<noteq> [] then snd (set_default (hd (list_providers r)) r) else r
                     | None \<Rightarrow> if rg_providers r \<noteq> [] then snd (set_default (hd (list_providers r)) r) else r)
           in Inr (set_thresholds (pf_coding f) (pf_reasoning f) (pf_research f) None None r1)))"

section \<open>Selection\<close>

definition cost_to_tier :: "int \<Rightarrow> cost_tier" where
  "cost_to_tier cost =
     (if cost \<le> COST_TIER_BUDGET_MAX then BUDGET else if cost \<le> COST_TIER_STANDARD_MAX then STANDARD
      else if cost \<le> COST_TIER_ADVANCED_MAX then ADVANCED else PREMIUM)"

definition SKILL_TO_CAPABILITY :: "(string \<times> string) list" where
  "SKILL_TO_CAPABILITY =
     [(''coding'', ''coding''), (''reasoning'', ''reasoning''), (''research'', ''research''),
      (''management'', ''tool_use''), (''strategy'', ''long_context'')]"

definition skills_to_capabilities :: "(string \<times> int) list \<Rightarrow> (string \<times> int) list \<Rightarrow> string list" where
  "skills_to_capabilities skills thresholds =
     map snd (filter (\<lambda>(skill, _). or_else (map_of thresholds skill) 100 \<le> or_else (map_of skills skill) 0)
       SKILL_TO_CAPABILITY)"

fun higher_tiers :: "cost_tier \<Rightarrow> cost_tier list" where
  "higher_tiers BUDGET = [STANDARD, ADVANCED, PREMIUM]"
| "higher_tiers STANDARD = [ADVANCED, PREMIUM]"
| "higher_tiers ADVANCED = [PREMIUM]"
| "higher_tiers PREMIUM = []"

definition capable_models :: "provider \<Rightarrow> cost_tier \<Rightarrow> string list \<Rightarrow> model_info list" where
  "capable_models p tier required =
     filter (\<lambda>m. has_capabilities (mi_capabilities m) required) (filter (\<lambda>m. matches_tier m tier) (pv_models p))"

fun first_capable :: "provider \<Rightarrow> string list \<Rightarrow> cost_tier list \<Rightarrow> model_info option" where
  "first_capable p required [] = None"
| "first_capable p required (t # ts) =
     (case capable_models p t required of [] \<Rightarrow> first_capable p required ts | m # _ \<Rightarrow> Some m)"

definition try_upgrade_tier :: "provider \<Rightarrow> cost_tier \<Rightarrow> string list \<Rightarrow> model_info option" where
  "try_upgrade_tier p tier required = first_capable p required (higher_tiers tier)"

definition select_model_for_tier :: "provider \<Rightarrow> cost_tier \<Rightarrow> string list \<Rightarrow> py_error + model_info" where
  "select_model_for_tier p tier required =
     (case filter (\<lambda>m. matches_tier m tier) (pv_models p) of
        [] \<Rightarrow> (case try_upgrade_tier p tier required of
                 Some m \<Rightarrow> Inr m | None \<Rightarrow> Inl (ValueError ''No tier models available''))
      | first # _ \<Rightarrow>
          if required = [] then Inr first
          else (case capable_models p tier required of
                  m # _ \<Rightarrow> Inr m
                | [] \<Rightarrow> (case try_upgrade_tier p tier required of Some m \<Rightarrow> Inr m | None \<Rightarrow> Inr first)))"

definition authorized_by :: "string list option \<Rightarrow> string \<Rightarrow> bool" where
  "authorized_by authorized n = (case authorized of None \<Rightarrow> True | Some ns \<Rightarrow> n \<in> set ns)"

definition append_new :: "(string \<Rightarrow> bool) \<Rightarrow> string list \<Rightarrow> string \<Rightarrow> string list" where
  "append_new allowed names n = (if n \<notin> set names \<and> allowed n then names @ [n] else names)"

definition build_provider_order :: "registry \<Rightarrow> string option \<Rightarrow> string list option \<Rightarrow> string list" where
  "build_provider_order r preferred authorized =
     (let p0 = (case preferred of None \<Rightarrow> []
                | Some n \<Rightarrow> if n \<noteq> [] \<and> authorized_by authorized n \<and> has_provider r n then [n] else []);
          p1 = (case rg_default r of None \<Rightarrow> p0
                | Some n \<Rightarrow> if n = [] then p0 else append_new (authorized_by authorized) p0 n)
      in foldl (append_new (authorized_by authorized)) p1 (list_providers r))"

fun try_providers ::
  "registry \<Rightarrow> cost_tier \<Rightarrow> string list \<Rightarrow> string list \<Rightarrow> py_error + (provider \<times> model_info) option" where
  "try_providers r tier required [] = Inr None"
| "try_providers r tier required (n # ns) =
     (case get_provider r n of
        Inl err \<Rightarrow> Inl err
      | Inr p \<Rightarrow> (case select_model_for_tier p tier required of
                   Inr m \<Rightarrow> Inr (Some (p, m))
                 | Inl _ \<Rightarrow> try_providers r tier required ns))"

definition get_model_for_worker ::
  "registry \<Rightarrow> int \<Rightarrow> string list \<Rightarrow> string option \<Rightarrow> string list option \<Rightarrow> py_error + model_info" where
  "get_model_for_worker r cost required preferred authorized =
     (let names = build_provider_order r preferred authorized
      in case try_providers r (cost_to_tier cost) required names of
           Inl err \<Rightarrow> Inl err
         | Inr (Some (_, m)) \<Rightarrow> Inr m
         | Inr None \<Rightarrow> Inl (ProviderSelectionError cost names))"

record provider_selection =
  ps_provider :: provider
  ps_model :: model_info
  ps_tier :: cost_tier
  ps_required :: "string list"

text \<open>The order of the providers is computed here by the same statements again.\<close>

definition select_provider_for_worker ::
  "registry \<Rightarrow> int \<Rightarrow> (string \<times> int) list \<Rightarrow> string option \<Rightarrow> string list option \<Rightarrow> py_error + provider_selection" where
  "select_provider_for_worker r cost skills preferred authorized =
     (let tier = cost_to_tier cost; required = skills_to_capabilities skills (rg_thresholds r);
          names = build_provider_order r preferred authorized
      in case try_providers r tier required names of
           Inl err \<Rightarrow> Inl err
         | Inr (Some (p, m)) \<Rightarrow> Inr \<lparr>ps_provider = p, ps_model = m, ps_tier = tier, ps_required = required\<rparr>
         | Inr None \<Rightarrow> Inl (ProviderSelectionError cost names))"

text \<open>The selection of the registry itself, by cost range.\<close>

fun first_select :: "int \<Rightarrow> string list \<Rightarrow> provider list \<Rightarrow> (provider \<times> model_info) option" where
  "first_select cost required [] = None"
| "first_select cost required (p # ps) =
     (case select_model p cost required of Inr m \<Rightarrow> Some (p, m) | Inl _ \<Rightarrow> first_select cost required ps)"

definition select_for_worker ::
  "registry \<Rightarrow> int \<Rightarrow> (string \<times> int) list \<Rightarrow> string option \<Rightarrow> py_error + (provider \<times> model_info)" where
  "select_for_worker r cost skills preferred =
     (let required = skills_to_capabilities skills (rg_thresholds r);
          named = (\<lambda>n. case map_of (rg_providers r) n of None \<Rightarrow> [] | Some p \<Rightarrow> [p]);
          first = (case preferred of None \<Rightarrow> []
                   | Some n \<Rightarrow> if n \<noteq> [] \<and> is_authorized r n then named n else []);
          second = (case rg_default r of None \<Rightarrow> []
                    | Some n \<Rightarrow> if n \<noteq> [] \<and> Some n \<noteq> preferred \<and> is_authorized r n then named n else []);
          others = map snd (filter (\<lambda>(n, _). Some n \<noteq> preferred \<and> Some n \<noteq> rg_default r \<and> is_authorized r n)
                     (rg_providers r))
      in case first_select cost required (first @ second @ others) of
           Some pm \<Rightarrow> Inr pm
         | None \<Rightarrow> Inl (ValueError ''No provider can satisfy''))"

definition build_fallback_chain :: "registry \<Rightarrow> cost_tier \<Rightarrow> string list \<Rightarrow> (provider \<times> model_info) list" where
  "build_fallback_chain r tier required =
     (let p0 = (case rg_default r of None \<Rightarrow> [] | Some n \<Rightarrow> if n \<noteq> [] \<and> is_authorized r n then [n] else []);
          names = foldl (append_new (is_authorized r)) p0 (list_providers r)
      in List.map_filter (\<lambda>n. case map_of (rg_providers r) n of None \<Rightarrow> None
           | Some p \<Rightarrow> (case select_model_for_tier p tier required of Inr m \<Rightarrow> Some (p, m) | Inl _ \<Rightarrow> None)) names)"

definition get_model_for_tier :: "registry \<Rightarrow> cost_tier \<Rightarrow> string list \<Rightarrow> py_error + (provider \<times> model_info)" where
  "get_model_for_tier r tier required =
     (case build_fallback_chain r tier required of
        [] \<Rightarrow> Inl (ValueError ''No model available for tier'') | x # _ \<Rightarrow> Inr x)"

section \<open>Completion with a budget\<close>

text \<open>
  The enforcer is entered before the call. The answer of a provider is a \<open>CompletionResult\<close>, an object
  without \<open>get\<close>; \<open>result.get\<close> is called on it before anything is recorded.
\<close>

definition dataclass_get :: "completion_result \<Rightarrow> string \<Rightarrow> py_error + pyval" where
  "dataclass_get x key = Inl (AttributeError ''CompletionResult.get'')"

definition complete_with_budget ::
  "env \<Rightarrow> ident \<Rightarrow> registry \<Rightarrow> ident \<Rightarrow> int \<Rightarrow> (string \<times> int) list \<Rightarrow> chat_message list \<Rightarrow> int \<Rightarrow> string option \<Rightarrow>
   txn_info \<Rightarrow> db \<Rightarrow> (db, credits) outcome" where
  "complete_with_budget e tx r w cost skills msgs max_tokens preferred info d =
     (case select_provider_for_worker r cost skills preferred None of
        Inl err \<Rightarrow> raise err d
      | Inr sel \<Rightarrow>
          (let input = int (sum_list (map (length \<circ> snd) msgs)) div 4;
               est = estimate_cost None (tier_value (ps_tier sel)) input max_tokens
           in and_then (enforcer_enter e (new_enforcer w est) d) (\<lambda>en d1.
                case pv_complete (ps_provider sel) msgs (mi_id (ps_model sel)) max_tokens of
                  Inl _ \<Rightarrow> raise (ProviderError (pv_name (ps_provider sel))) d1
                | Inr res \<Rightarrow>
                    (case (dataclass_get res ''usage'', dataclass_get res ''usage'') of
                       (Inr (VDict u), Inr (VDict u')) \<Rightarrow>
                         (let inp = (case vget u ''input_tokens'' (VInt input) of VInt k \<Rightarrow> k | _ \<Rightarrow> input);
                              outp = (case vget u' ''output_tokens'' (VInt 0) of VInt k \<Rightarrow> k | _ \<Rightarrow> 0);
                              actual = estimate_cost None (tier_value (ps_tier sel)) inp outp
                          in and_then (enforcer_record e tx actual info en d1) (\<lambda>_ d2. ok actual d2))
                     | (Inl err, _) \<Rightarrow> raise err d1
                     | _ \<Rightarrow> raise (AttributeError ''get'') d1))))"

end
