(* ===== verification/Providers_Laws.thy ===== *)
theory Providers_Laws
  imports Providers
begin

text \<open>
  Laws of the providers: the registry's default is always registered, what the selection returns and when
  it fails, the bound on retries and delays, and that a completion never charges the budget.
\<close>

section \<open>The registry\<close>

inductive registry_run :: "registry \<Rightarrow> bool" where
  New: "registry_run new_registry"
| Register: "registry_run r \<Longrightarrow> registry_run (register p r)"
| Unregister: "registry_run r \<Longrightarrow> registry_run (unregister n r)"
| Default: "registry_run r \<Longrightarrow> registry_run (snd (set_default n r))"
| Authorize: "registry_run r \<Longrightarrow> registry_run (set_authorized_providers ns r)"
| Thresholds: "registry_run r \<Longrightarrow> registry_run (set_thresholds a b c d e r)"

lemma set_threshold_simps [simp]:
  "rg_providers (set_threshold k v r) = rg_providers r" "rg_default (set_threshold k v r) = rg_default r"
  by (simp_all add: set_threshold_def split: option.splits)

lemma default_registered:
  assumes "registry_run r" and "rg_default r = Some n"
  shows "has_provider r n"
  using assms
proof (induction arbitrary: n rule: registry_run.induct)
  case (Unregister r k)
  then show ?case by (auto simp: unregister_def has_provider_def split: if_splits)
next
  case (Default r k)
  then show ?case by (auto simp: set_default_def has_provider_def split: if_splits)
qed (auto simp: new_registry_def register_def has_provider_def set_authorized_providers_def set_thresholds_def)

text \<open>A registry loaded from a file is one of these, provided its default comes from the file's providers.\<close>

lemma load_entry_run: "registry_run r \<Longrightarrow> registry_run (load_entry env classes x r)"
  by (auto simp: load_entry_def intro: registry_run.Register split: option.splits)

lemma loaded_registry_run:
  assumes "load_providers_from_config env classes file = Inr r"
  shows "registry_run r"
proof -
  have "registry_run (fold (load_entry env classes) xs r0)" if "registry_run r0" for xs r0
    using that by (induction xs arbitrary: r0) (auto intro: load_entry_run)
  from this [OF New] show ?thesis using assms
    by (auto simp: load_providers_from_config_def Let_def intro!: Default Thresholds
        split: option.splits if_splits)
qed

section \<open>Selection\<close>

lemma append_new_set: "set (append_new good names n) = (if good n then insert n (set names) else set names)"
  by (auto simp: append_new_def)

lemma foldl_append_new_set: "set (foldl (append_new good) names ns) = set names \<union> {n \<in> set ns. good n}"
  by (induction ns arbitrary: names) (auto simp: append_new_set)

lemma foldl_append_new_hd: "names \<noteq> [] \<Longrightarrow> foldl (append_new good) names ns \<noteq> [] \<and> hd (foldl (append_new good) names ns) = hd names"
  by (induction ns arbitrary: names) (auto simp: append_new_def)

lemma order_set:
  assumes "registry_run r"
  shows "set (build_provider_order r preferred authorized) = {n. has_provider r n \<and> authorized_by authorized n}"
proof -
  have keys: "n \<in> set (list_providers r) \<longleftrightarrow> has_provider r n" for n
    by (auto simp: list_providers_def has_provider_def map_of_eq_None_iff)
  show ?thesis
    using default_registered [OF assms]
    by (auto simp: build_provider_order_def Let_def foldl_append_new_set append_new_set keys
        split: option.splits if_splits)
qed

lemma order_preferred:
  assumes "n \<noteq> []" and "authorized_by authorized n" and "has_provider r n"
  shows "\<exists>ns. build_provider_order r (Some n) authorized = n # ns"
proof -
  have "build_provider_order r (Some n) authorized \<noteq> [] \<and> hd (build_provider_order r (Some n) authorized) = n"
    using assms foldl_append_new_hd
    by (auto simp: build_provider_order_def Let_def append_new_def split: option.splits)
  then show ?thesis by (metis list.exhaust_sel)
qed

definition suitable :: "cost_tier \<Rightarrow> string list \<Rightarrow> model_info \<Rightarrow> bool" where
  "suitable tier required m =
     (matches_tier m tier \<or>
      (\<exists>t \<in> set (higher_tiers tier). matches_tier m t \<and> has_capabilities (mi_capabilities m) required))"

lemma first_capable_Some:
  "first_capable p required ts = Some m \<Longrightarrow>
     m \<in> set (pv_models p) \<and> (\<exists>t \<in> set ts. matches_tier m t \<and> has_capabilities (mi_capabilities m) required)"
proof (induction ts)
  case (Cons t ts)
  show ?case
  proof (cases "capable_models p t required")
    case Nil
    then show ?thesis using Cons by auto
  next
    case (Cons x xs)
    then have "m \<in> set (capable_models p t required)" using Cons.prems by simp
    then show ?thesis by (auto simp: capable_models_def)
  qed
qed simp

lemma first_capable_None:
  "first_capable p required ts = None \<longleftrightarrow> (\<forall>t \<in> set ts. capable_models p t required = [])"
  by (induction ts) (auto split: list.splits)

lemma select_model_for_tier_suitable:
  assumes "select_model_for_tier p tier required = Inr m"
  shows "m \<in> set (pv_models p) \<and> suitable tier required m"
proof (cases "filter (\<lambda>m. matches_tier m tier) (pv_models p)")
  case Nil
  then show ?thesis using assms
    by (auto simp: select_model_for_tier_def try_upgrade_tier_def suitable_def dest!: first_capable_Some
        split: option.splits)
next
  case (Cons x xs)
  then have "x \<in> set (filter (\<lambda>m. matches_tier m tier) (pv_models p))" by simp
  then have x: "x \<in> set (pv_models p)" "matches_tier x tier" by auto
  show ?thesis
  proof (cases "required = [] \<or> capable_models p tier required = []")
    case True
    then show ?thesis using assms Cons x
      by (auto simp: select_model_for_tier_def try_upgrade_tier_def suitable_def dest!: first_capable_Some
          split: option.splits list.splits if_splits)
  next
    case False
    then obtain y ys where y: "capable_models p tier required = y # ys" by (cases "capable_models p tier required") auto
    then have "y \<in> set (capable_models p tier required)" by simp
    then have "y \<in> set (pv_models p)" "matches_tier y tier" by (auto simp: capable_models_def)
    moreover have "m = y" using assms Cons False y by (simp add: select_model_for_tier_def)
    ultimately show ?thesis by (simp add: suitable_def)
  qed
qed

lemma select_model_for_tier_fails:
  "(\<exists>err. select_model_for_tier p tier required = Inl err) \<longleftrightarrow>
     (\<forall>m \<in> set (pv_models p). \<not> suitable tier required m)"
proof (cases "filter (\<lambda>m. matches_tier m tier) (pv_models p)")
  case Nil
  then have none: "\<forall>m \<in> set (pv_models p). \<not> matches_tier m tier" by (simp add: filter_empty_conv)
  have "(\<exists>err. select_model_for_tier p tier required = Inl err) \<longleftrightarrow> try_upgrade_tier p tier required = None"
    by (auto simp: select_model_for_tier_def Nil split: option.splits)
  also have "\<dots> \<longleftrightarrow> (\<forall>m \<in> set (pv_models p). \<not> suitable tier required m)"
    using none by (auto simp: try_upgrade_tier_def first_capable_None suitable_def capable_models_def filter_empty_conv)
  finally show ?thesis .
next
  case (Cons x xs)
  then have "x \<in> set (filter (\<lambda>m. matches_tier m tier) (pv_models p))" by simp
  then have "x \<in> set (pv_models p)" "suitable tier required x" by (auto simp: suitable_def)
  moreover have "\<exists>m. select_model_for_tier p tier required = Inr m"
    by (auto simp: select_model_for_tier_def Cons split: option.splits list.splits)
  ultimately show ?thesis by auto
qed

lemma try_providers_spec:
  assumes "\<forall>n \<in> set ns. has_provider r n"
  shows "(\<exists>n p m. n \<in> set ns \<and> map_of (rg_providers r) n = Some p \<and> select_model_for_tier p tier required = Inr m \<and>
            try_providers r tier required ns = Inr (Some (p, m))) \<or>
         (try_providers r tier required ns = Inr None \<and>
          (\<forall>n \<in> set ns. \<forall>p. map_of (rg_providers r) n = Some p \<longrightarrow>
             (\<exists>err. select_model_for_tier p tier required = Inl err)))"
  using assms
proof (induction ns)
  case (Cons n ns)
  obtain p where p: "map_of (rg_providers r) n = Some p" using Cons.prems by (auto simp: has_provider_def)
  show ?case
  proof (cases "select_model_for_tier p tier required")
    case (Inl err)
    then have "try_providers r tier required (n # ns) = try_providers r tier required ns"
      by (simp add: get_provider_def p)
    moreover have "(\<exists>k q m. k \<in> set ns \<and> map_of (rg_providers r) k = Some q \<and> select_model_for_tier q tier required = Inr m \<and>
            try_providers r tier required ns = Inr (Some (q, m))) \<or>
         (try_providers r tier required ns = Inr None \<and>
          (\<forall>k \<in> set ns. \<forall>q. map_of (rg_providers r) k = Some q \<longrightarrow>
             (\<exists>err. select_model_for_tier q tier required = Inl err)))"
      using Cons by simp
    ultimately show ?thesis using p Inl by auto
  next
    case (Inr m)
    then have "try_providers r tier required (n # ns) = Inr (Some (p, m))" by (simp add: get_provider_def p)
    then show ?thesis using p Inr by (intro disjI1 exI [of _ n] exI [of _ p] exI [of _ m]) simp
  qed
qed simp


section \<open>Retries\<close>

text \<open>A call that counts how often it was made.\<close>

definition counted :: "('s \<Rightarrow> (provider_failure + 'a) \<times> 's) \<Rightarrow> nat \<times> 's \<Rightarrow> (provider_failure + 'a) \<times> nat \<times> 's" where
  "counted f s = (case f (snd s) of (res, s1) \<Rightarrow> (res, Suc (fst s), s1))"

definition good_retry_config :: "retry_config \<Rightarrow> bool" where
  "good_retry_config cfg = (0 \<le> rc_initial_delay cfg \<and> 0 \<le> rc_max_delay cfg \<and> 0 \<le> rc_exponential_base cfg)"

lemma retry_delay_bounds:
  assumes "good_retry_config cfg" and "0 \<le> r" and "r \<le> 1"
  shows "0 \<le> calculate_retry_delay cfg k r" and "calculate_retry_delay cfg k r \<le> rc_max_delay cfg * (5 / 4)"
proof -
  let ?d = "min (rc_initial_delay cfg * rc_exponential_base cfg ^ k) (rc_max_delay cfg)"
  have d: "0 \<le> ?d" "?d \<le> rc_max_delay cfg" using assms(1) by (auto simp: good_retry_config_def)
  then have "?d * r \<le> ?d" using assms(3) by (metis mult.right_neutral mult_left_mono)
  moreover have "0 \<le> ?d * r" using d(1) assms(2) by simp
  ultimately show "0 \<le> calculate_retry_delay cfg k r" "calculate_retry_delay cfg k r \<le> rc_max_delay cfg * (5 / 4)"
    using d by (auto simp: calculate_retry_delay_def Let_def)
qed

lemma retry_loop_spec:
  assumes "good_retry_config cfg" and "\<And>k. 0 \<le> rnd k \<and> rnd k \<le> 1"
    and "int attempt + int n = rc_max_retries cfg + 1" and "0 < n"
    and "retry_loop cfg rnd (counted f) n attempt (c, s) = (res, (c', s'), sleeps)"
  shows "c < c' \<and> c' \<le> c + n \<and> length sleeps = c' - c - 1 \<and> res \<noteq> Inr None \<and>
         (\<forall>x \<in> set sleeps. 0 \<le> x \<and> x \<le> rc_max_delay cfg * (5 / 4)) \<and>
         (\<forall>err. res = Inl err \<longrightarrow> is_retryable_error err \<longrightarrow> c' = c + n)"
  using assms(3-5)
proof (induction n arbitrary: attempt c s res sleeps)
  case (Suc n)
  obtain r s1 where "f s = (r, s1)" by fastforce
  then have f: "counted f (c, s) = (r, Suc c, s1)" by (simp add: counted_def)
  show ?case
  proof (cases r)
    case (Inr x)
    then show ?thesis using Suc.prems f by auto
  next
    case (Inl err)
    show ?thesis
    proof (cases "is_retryable_error err \<and> int attempt < rc_max_retries cfg")
      case False
      then show ?thesis using Suc.prems f Inl by (auto split: if_splits)
    next
      case True
      obtain res1 c2 s2 sl where r1: "retry_loop cfg rnd (counted f) n (Suc attempt) (Suc c, s1) = (res1, (c2, s2), sl)"
        by (metis surj_pair)
      then have eq: "res = res1" "c' = c2" "s' = s2" "sleeps = calculate_retry_delay cfg attempt (rnd attempt) # sl"
        using Suc.prems f Inl True by auto
      have "int (Suc attempt) + int n = rc_max_retries cfg + 1" "0 < n" using Suc.prems True by auto
      from Suc.IH [OF this, of "Suc c" s1 res1 sl] r1 eq
      have "Suc c < c2 \<and> c2 \<le> Suc c + n \<and> length sl = c2 - Suc c - 1 \<and> res1 \<noteq> Inr None \<and>
         (\<forall>x \<in> set sl. 0 \<le> x \<and> x \<le> rc_max_delay cfg * (5 / 4)) \<and>
         (\<forall>err. res1 = Inl err \<longrightarrow> is_retryable_error err \<longrightarrow> c2 = Suc c + n)" by simp
      then show ?thesis using eq retry_delay_bounds [OF assms(1), of "rnd attempt" attempt] assms(2) by auto
    qed
  qed
qed simp

text \<open>
  C31: The retry loop calls the service at least once and at most once more than the configured number of
  retries, sleeps once between two calls and never longer than the maximal delay and a quarter, and gives
  up early only on an error that is not worth a retry: a result that is such an error means that every
  retry was used.
\<close>

theorem retries_bounded:
  assumes "good_retry_config cfg" and "\<forall>k. 0 \<le> rnd k \<and> rnd k \<le> 1" and "0 \<le> rc_max_retries cfg"
    and "with_retry cfg rnd (counted f) (0, s) = (res, (calls, s'), sleeps)"
  shows "1 \<le> calls \<and> int calls \<le> rc_max_retries cfg + 1 \<and> length sleeps = calls - 1 \<and> res \<noteq> Inr None \<and>
         (\<forall>x \<in> set sleeps. 0 \<le> x \<and> x \<le> rc_max_delay cfg * (5 / 4)) \<and>
         (\<forall>err. res = Inl err \<longrightarrow> is_retryable_error err \<longrightarrow> int calls = rc_max_retries cfg + 1)"
proof -
  have "retry_loop cfg rnd (counted f) (nat (rc_max_retries cfg + 1)) 0 (0, s) = (res, (calls, s'), sleeps)"
    using assms(4) by (simp add: with_retry_def)
  from retry_loop_spec [OF assms(1) _ _ _ this] assms(2,3) show ?thesis by auto
qed

section \<open>Completions are not charged\<close>

lemma enforcer_enter_state: "snd (enforcer_enter e en d) = d"
  by (auto simp: enforcer_enter_def enforce_budget_def check_budget_def Let_def and_then_def
      split: option.splits sum.splits prod.splits)

text \<open>
  A completion under a budget always ends with an exception and never writes to the database. The answer
  of a provider is an object, and the code reads it as a dictionary before the spend is recorded: the
  service was called and may have answered, and nothing was charged to the worker.
\<close>

theorem completion_never_charged:
  "\<exists>err. complete_with_budget e tx r w cost skills msgs max_tokens preferred info d = (Inl err, d)"
proof (cases "select_provider_for_worker r cost skills preferred None")
  case (Inr sel)
  define est where "est = estimate_cost None (tier_value (ps_tier sel))
    (int (sum_list (map (length \<circ> snd) msgs)) div 4) max_tokens"
  obtain res where res: "enforcer_enter e (new_enforcer w est) d = (res, d)"
    using enforcer_enter_state [of e "new_enforcer w est" d] by (metis prod.collapse)
  show ?thesis
  proof (cases res)
    case (Inl err)
    then show ?thesis using Inr res by (simp add: complete_with_budget_def est_def)
  next
    case (Inr en)
    then show ?thesis using \<open>_ = Inr sel\<close> res
      by (cases "pv_complete (ps_provider sel) msgs (mi_id (ps_model sel)) max_tokens")
        (simp_all add: complete_with_budget_def est_def dataclass_get_def)
  qed
qed (simp add: complete_with_budget_def)

section \<open>A model without the required capabilities\<close>

definition one_model_provider :: provider where
  "one_model_provider =
     \<lparr>pv_name = ''local'', pv_cli_command = ''local'',
      pv_models = [catalog_model ''m'' ''M'' PREMIUM [PREMIUM] small_caps 4096],
      pv_complete = (\<lambda>_ _ _. Inl PlainProviderError)\<rparr>"

definition anthropic_provider :: provider where
  "anthropic_provider = \<lparr>pv_name = ''anthropic'', pv_cli_command = ''claude'', pv_models = ANTHROPIC_MODELS,
     pv_complete = (\<lambda>_ _ _. Inl PlainProviderError)\<rparr>"

definition two_provider_registry :: registry where
  "two_provider_registry = register anthropic_provider (register one_model_provider new_registry)"

lemma two_provider_run: "registry_run two_provider_registry"
  by (simp add: two_provider_registry_def registry_run.intros)

text \<open>
  The capabilities a worker needs do not exclude a model: a provider whose only premium model cannot
  reason is taken for a premium worker that needs reasoning, before another registered provider that has
  such a model, and the selection reports success.
\<close>

theorem selection_ignores_capabilities:
  "\<exists>sel. select_provider_for_worker two_provider_registry 90 [(''reasoning'', 95)] None None = Inr sel \<and>
         ps_required sel = [''reasoning''] \<and>
         \<not> has_capabilities (mi_capabilities (ps_model sel)) (ps_required sel) \<and>
         (\<exists>m \<in> set (pv_models anthropic_provider). matches_tier m PREMIUM \<and> has_capabilities (mi_capabilities m) (ps_required sel))"
proof -
  have req: "skills_to_capabilities [(''reasoning'', 95)] (rg_thresholds two_provider_registry) = [''reasoning'']"
    by (simp add: skills_to_capabilities_def two_provider_registry_def register_def new_registry_def
        DEFAULT_THRESHOLDS_def SKILL_TO_CAPABILITY_def or_else_def)
  have tier: "cost_to_tier 90 = PREMIUM"
    by (simp add: cost_to_tier_def COST_TIER_BUDGET_MAX_def COST_TIER_STANDARD_MAX_def COST_TIER_ADVANCED_MAX_def)
  have order: "build_provider_order two_provider_registry None None = [''local'', ''anthropic'']"
    by (simp add: build_provider_order_def two_provider_registry_def register_def new_registry_def list_providers_def
        one_model_provider_def anthropic_provider_def append_new_def authorized_by_def)
  have sel: "select_model_for_tier one_model_provider PREMIUM [''reasoning''] =
      Inr (catalog_model ''m'' ''M'' PREMIUM [PREMIUM] small_caps 4096)"
    by (simp add: select_model_for_tier_def one_model_provider_def matches_tier_def catalog_model_def capable_models_def
        has_capabilities_def has_capability_def small_caps_def try_upgrade_tier_def)
  have get: "get_provider two_provider_registry ''local'' = Inr one_model_provider"
    by (simp add: get_provider_def two_provider_registry_def register_def new_registry_def one_model_provider_def
        anthropic_provider_def)
  have "select_provider_for_worker two_provider_registry 90 [(''reasoning'', 95)] None None =
      Inr \<lparr>ps_provider = one_model_provider, ps_model = catalog_model ''m'' ''M'' PREMIUM [PREMIUM] small_caps 4096,
           ps_tier = PREMIUM, ps_required = [''reasoning'']\<rparr>"
    by (simp add: select_provider_for_worker_def req tier order get sel)
  then show ?thesis
    by (simp add: catalog_model_def has_capabilities_def has_capability_def small_caps_def anthropic_provider_def
        ANTHROPIC_MODELS_def matches_tier_def full_caps_def)
qed


theorem retries_bounded_witness:
  "\<exists>res s' calls sleeps. with_retry (default_retry_config 2) (\<lambda>_. 1 / 2)
     (counted (\<lambda>s. (Inl RateLimitError :: provider_failure + unit, s))) (0, ()) = (res, (calls, s'), sleeps) \<and> calls \<le> 3"
proof -
  obtain res calls s' sleeps where r: "with_retry (default_retry_config 2) (\<lambda>_. 1 / 2)
     (counted (\<lambda>s. (Inl RateLimitError :: provider_failure + unit, s))) (0, ()) = (res, (calls, s'), sleeps)"
    by (metis surj_pair)
  have "int calls \<le> rc_max_retries (default_retry_config 2) + 1"
    using retries_bounded [OF _ _ _ r] by (simp add: good_retry_config_def default_retry_config_def)
  then show ?thesis using r by (auto simp: default_retry_config_def)
qed

end
