(* ===== verification/Tmux_Spawner.thy ===== *)
theory Tmux_Spawner
  imports Bead_Gateway Py_Values
begin

text \<open>
  \<open>cli/core/sessions/tmux_spawner.py\<close>: the spawner that keeps worker sessions in tmux. The tmux program
  is an argument: from its arguments and the state of its server to an exit code with the output, or to
  an \<open>OSError\<close> or \<open>SubprocessError\<close> (\<open>Inl\<close>: the binary cannot be run, or the ten seconds are over).
  \<open>shutil.which\<close> found its path or not when the object was made.
\<close>

type_synonym 't tmux = "string list \<Rightarrow> 't \<Rightarrow> (unit + int \<times> string) \<times> 't"

record spawner =
  sp_socket_path :: "string option"
  sp_tmux_cmd :: "string option"

definition TMUX_SESSION_PREFIX :: string where
  "TMUX_SESSION_PREFIX = ''qn-''"

definition run_tmux :: "spawner \<Rightarrow> 't tmux \<Rightarrow> string list \<Rightarrow> 't \<Rightarrow> ('t, unit + int \<times> string) outcome" where
  "run_tmux sp tmux args t =
     (case sp_tmux_cmd sp of
        None \<Rightarrow> raise (SpawnFailedError ''tmux not found in PATH'') t
      | Some cmd \<Rightarrow>
          if cmd = [] then raise (SpawnFailedError ''tmux not found in PATH'') t
          else case tmux ((case sp_socket_path sp of None \<Rightarrow> [] | Some p \<Rightarrow> [''-S'', p]) @ args) t of
                 (r, t') \<Rightarrow> ok r t')"

section \<open>Sessions\<close>

text \<open>An operation that answers whether the command succeeded; a failure to run it is no.\<close>

definition tmux_succeeds :: "spawner \<Rightarrow> 't tmux \<Rightarrow> string list \<Rightarrow> 't \<Rightarrow> ('t, bool) outcome" where
  "tmux_succeeds sp tmux args t =
     and_then (run_tmux sp tmux args t) (\<lambda>r t1. ok (case r of Inl _ \<Rightarrow> False | Inr (rc, _) \<Rightarrow> rc = 0) t1)"

definition is_alive :: "spawner \<Rightarrow> 't tmux \<Rightarrow> string \<Rightarrow> 't \<Rightarrow> ('t, bool) outcome" where
  "is_alive sp tmux i t = tmux_succeeds sp tmux [''has-session'', ''-t'', i] t"

definition tmux_stop :: "spawner \<Rightarrow> 't tmux \<Rightarrow> string \<Rightarrow> bool \<Rightarrow> 't \<Rightarrow> ('t, bool) outcome" where
  "tmux_stop sp tmux i force t =
     (if \<not> starts_with TMUX_SESSION_PREFIX i then ok False t
      else if force then tmux_succeeds sp tmux [''kill-session'', ''-t'', i] t
      else and_then (run_tmux sp tmux [''send-keys'', ''-t'', i, ''C-c''] t) (\<lambda>r t1.
             case r of Inl _ \<Rightarrow> ok False t1
             | Inr _ \<Rightarrow> tmux_succeeds sp tmux [''kill-session'', ''-t'', i] t1))"

definition send_input :: "spawner \<Rightarrow> 't tmux \<Rightarrow> string \<Rightarrow> string \<Rightarrow> 't \<Rightarrow> ('t, bool) outcome" where
  "send_input sp tmux i txt t = tmux_succeeds sp tmux [''send-keys'', ''-t'', i, txt] t"

definition read_output :: "spawner \<Rightarrow> 't tmux \<Rightarrow> string \<Rightarrow> 't \<Rightarrow> ('t, string) outcome" where
  "read_output sp tmux i t =
     and_then (run_tmux sp tmux [''capture-pane'', ''-t'', i, ''-p'', ''-S'', ''-1000''] t) (\<lambda>r t1.
       ok (case r of Inl _ \<Rightarrow> [] | Inr (rc, out) \<Rightarrow> if rc = 0 then out else []) t1)"

abbreviation newline :: char where
  "newline \<equiv> CHR 0x0A"

definition list_sessions :: "spawner \<Rightarrow> 't tmux \<Rightarrow> 't \<Rightarrow> ('t, string list) outcome" where
  "list_sessions sp tmux t =
     and_then (run_tmux sp tmux [''list-sessions'', ''-F'', ''#{session_name}''] t) (\<lambda>r t1.
       ok (case r of Inl _ \<Rightarrow> []
           | Inr (rc, out) \<Rightarrow>
               if rc = 0 then map py_strip (filter (\<lambda>s. py_strip s \<noteq> []) (split_on newline (py_strip out))) else []) t1)"

section \<open>Starting a session\<close>

text \<open>\<open>int\<close> of a string: digits with single underscores between them, a sign, spaces around.\<close>

fun int_digits :: "nat \<Rightarrow> bool \<Rightarrow> string \<Rightarrow> nat option" where
  "int_digits acc after_digit [] = (if after_digit then Some acc else None)"
| "int_digits acc after_digit (c # cs) =
     (let n = of_char c :: nat
      in if 48 \<le> n \<and> n \<le> 57 then int_digits (10 * acc + (n - 48)) True cs
         else if c = CHR ''_'' \<and> after_digit then int_digits acc False cs
         else None)"

definition py_int_of :: "string \<Rightarrow> int option" where
  "py_int_of s =
     (case py_strip s of
        [] \<Rightarrow> None
      | c # cs \<Rightarrow>
          if c = CHR ''-'' then map_option (\<lambda>n. - int n) (int_digits 0 False cs)
          else if c = CHR ''+'' then map_option int (int_digits 0 False cs)
          else map_option int (int_digits 0 False (c # cs)))"

definition get_session_pid :: "spawner \<Rightarrow> 't tmux \<Rightarrow> string \<Rightarrow> 't \<Rightarrow> ('t, int option) outcome" where
  "get_session_pid sp tmux i t =
     and_then (run_tmux sp tmux [''list-panes'', ''-t'', i, ''-F'', ''#{pane_pid}''] t) (\<lambda>r t1.
       ok (case r of Inl _ \<Rightarrow> None
           | Inr (rc, out) \<Rightarrow>
               if rc = 0 \<and> py_strip out \<noteq> [] then py_int_of (hd (split_on newline (py_strip out))) else None) t1)"

record spawner_config =
  sc_command :: string
  sc_args :: "string list"
  sc_working_directory :: "string option"
  sc_env_vars :: "(string \<times> string) list"
  sc_cols :: int
  sc_rows :: int
  sc_session_name :: "string option"
  sc_worker_id :: "ident option"

record spawn_result =
  sr_success :: bool
  sr_pid :: "int option"
  sr_session_id :: "string option"
  sr_error :: "string option"

definition spawn_failed :: "string \<Rightarrow> spawn_result" where
  "spawn_failed err = \<lparr>sr_success = False, sr_pid = None, sr_session_id = None, sr_error = Some err\<rparr>"

text \<open>\<open>shlex.quote\<close>: an argument of safe characters as it is, any other in single quotes.\<close>

definition shlex_safe :: "char \<Rightarrow> bool" where
  "shlex_safe c =
     (let n = of_char c :: nat
      in 48 \<le> n \<and> n \<le> 57 \<or> 65 \<le> n \<and> n \<le> 90 \<or> 97 \<le> n \<and> n \<le> 122 \<or> c \<in> set ''_@%+=:,./-'')"

abbreviation squote :: char where
  "squote \<equiv> CHR 0x27"

definition shlex_quote :: "string \<Rightarrow> string" where
  "shlex_quote s =
     (if s = [] then [squote, squote]
      else if list_all shlex_safe s then s
      else [squote] @ concat (map (\<lambda>c. if c = squote then [squote, quote, squote, quote, squote] else [c]) s) @ [squote])"

fun join_with :: "string \<Rightarrow> string list \<Rightarrow> string" where
  "join_with sep [] = []"
| "join_with sep [x] = x"
| "join_with sep (x # y # ys) = x @ sep @ join_with sep (y # ys)"

definition session_name_of :: "spawner_config \<Rightarrow> string" where
  "session_name_of cfg = or_default (sc_session_name cfg) (TMUX_SESSION_PREFIX @ or_default (sc_worker_id cfg) ''session'')"

definition new_session_args :: "spawner_config \<Rightarrow> string list" where
  "new_session_args cfg =
     [''new-session'', ''-d'', ''-s'', session_name_of cfg, ''-x'', int_str (sc_cols cfg), ''-y'', int_str (sc_rows cfg)]
     @ (case sc_working_directory cfg of None \<Rightarrow> [] | Some p \<Rightarrow> [''-c'', p])
     @ concat (map (\<lambda>(k, v). [''-e'', k @ ''='' @ v]) (sc_env_vars cfg))
     @ [if sc_args cfg = [] then sc_command cfg
        else sc_command cfg @ '' '' @ join_with '' '' (map shlex_quote (sc_args cfg))]"

definition spawn :: "spawner \<Rightarrow> 't tmux \<Rightarrow> spawner_config \<Rightarrow> 't \<Rightarrow> ('t, spawn_result) outcome" where
  "spawn sp tmux cfg t =
     (if sp_tmux_cmd sp \<in> {None, Some []} then ok (spawn_failed ''tmux not found in PATH'') t
      else
        and_then (run_tmux sp tmux [''has-session'', ''-t'', session_name_of cfg] t) (\<lambda>r t1.
          case r of
            Inl _ \<Rightarrow> ok (spawn_failed ''tmux command failed'') t1
          | Inr (rc, _) \<Rightarrow>
              if rc = 0 then ok (spawn_failed (''Session already exists: '' @ session_name_of cfg)) t1
              else and_then (run_tmux sp tmux (new_session_args cfg) t1) (\<lambda>r2 t2.
                case r2 of
                  Inl _ \<Rightarrow> ok (spawn_failed ''tmux command failed'') t2
                | Inr (rc2, _) \<Rightarrow>
                    if rc2 \<noteq> 0 then ok (spawn_failed ''tmux new-session failed'') t2
                    else and_then (get_session_pid sp tmux (session_name_of cfg) t2) (\<lambda>pid t3.
                      ok \<lparr>sr_success = True, sr_pid = pid, sr_session_id = Some (session_name_of cfg), sr_error = None\<rparr> t3))))"

end
