(* ===== verification/Session_Cleanup.thy ===== *)
theory Session_Cleanup
  imports Tmux_Spawner Sessions
begin

text \<open>
  \<open>cli/core/sessions/cleanup.py\<close>: reconciling the sessions table with the sessions tmux really has, and
  stopping all sessions. The state is the database and the tmux server.
\<close>

type_synonym 't dbt = "db \<times> 't"

definition on_tmux :: "('t \<Rightarrow> ('t, 'a) outcome) \<Rightarrow> 't dbt \<Rightarrow> ('t dbt, 'a) outcome" where
  "on_tmux f s = (case f (snd s) of (r, t) \<Rightarrow> (r, fst s, t))"

section \<open>Orphans\<close>

datatype orphan_source = FromTmux | FromDatabase

record orphaned_session =
  orp_session_name :: string
  orp_source :: orphan_source
  orp_worker_id :: "ident option"
  orp_session_id :: "ident option"
  orp_state :: "runtime_status option"

definition tmux_orphan :: "string \<Rightarrow> orphaned_session" where
  "tmux_orphan nm = \<lparr>orp_session_name = nm, orp_source = FromTmux, orp_worker_id = None, orp_session_id = None,
     orp_state = None\<rparr>"

definition tracked_tmux_names :: "db \<Rightarrow> string list" where
  "tracked_tmux_names d =
     List.map_filter (\<lambda>s. case ss_tmux_session_name s of Some n \<Rightarrow> if n = [] then None else Some n | None \<Rightarrow> None)
       (get_all_sessions d)"

definition is_tmux_orphan :: "db \<Rightarrow> string \<Rightarrow> bool" where
  "is_tmux_orphan d nm =
     (starts_with TMUX_SESSION_PREFIX nm \<and>
      drop (length TMUX_SESSION_PREFIX) nm \<in> fst ` set (get_all_workers_for_topology d) \<and>
      nm \<notin> set (tracked_tmux_names d))"

definition find_orphaned_tmux_sessions :: "spawner \<Rightarrow> 't tmux \<Rightarrow> 't dbt \<Rightarrow> ('t dbt, orphaned_session list) outcome" where
  "find_orphaned_tmux_sessions sp tmux s =
     and_then (on_tmux (list_sessions sp tmux) s) (\<lambda>names s1.
       ok (map tmux_orphan (filter (is_tmux_orphan (fst s1)) names)) s1)"

text \<open>An active record whose tmux session is gone; records without a tmux session are passed over.\<close>

fun stale_among :: "spawner \<Rightarrow> 't tmux \<Rightarrow> session_row list \<Rightarrow> 't \<Rightarrow> ('t, orphaned_session list) outcome" where
  "stale_among sp tmux [] t = ok [] t"
| "stale_among sp tmux (s # rest) t =
     (case ss_tmux_session_name s of
        None \<Rightarrow> stale_among sp tmux rest t
      | Some nm \<Rightarrow>
          if nm = [] then stale_among sp tmux rest t
          else and_then (is_alive sp tmux nm t) (\<lambda>alive t1.
                 and_then (stale_among sp tmux rest t1) (\<lambda>os t2.
                   ok (if alive then os
                       else \<lparr>orp_session_name = nm, orp_source = FromDatabase, orp_worker_id = Some (ss_worker_id s),
                             orp_session_id = Some (ss_id s), orp_state = Some (ss_state s)\<rparr> # os) t2)))"

definition find_stale_db_sessions :: "spawner \<Rightarrow> 't tmux \<Rightarrow> 't dbt \<Rightarrow> ('t dbt, orphaned_session list) outcome" where
  "find_stale_db_sessions sp tmux s = on_tmux (stale_among sp tmux (get_active_sessions (fst s))) s"

definition find_all_orphans :: "spawner \<Rightarrow> 't tmux \<Rightarrow> 't dbt \<Rightarrow> ('t dbt, orphaned_session list) outcome" where
  "find_all_orphans sp tmux s =
     and_then (find_orphaned_tmux_sessions sp tmux s) (\<lambda>a s1.
     and_then (find_stale_db_sessions sp tmux s1) (\<lambda>b s2. ok (a @ b) s2))"

section \<open>Cleaning up\<close>

record cleanup_result =
  cr_orphaned_tmux_sessions :: "string list"
  cr_stale_db_records :: "ident list"
  cr_tmux_sessions_killed :: nat
  cr_db_records_updated :: nat
  cr_db_records_deleted :: nat
  cr_errors :: "string list"

definition no_cleanup :: cleanup_result where
  "no_cleanup = \<lparr>cr_orphaned_tmux_sessions = [], cr_stale_db_records = [], cr_tmux_sessions_killed = 0,
     cr_db_records_updated = 0, cr_db_records_deleted = 0, cr_errors = []\<rparr>"

fun kill_orphans ::
  "spawner \<Rightarrow> 't tmux \<Rightarrow> bool \<Rightarrow> orphaned_session list \<Rightarrow> cleanup_result \<times> 't \<Rightarrow> cleanup_result \<times> 't" where
  "kill_orphans sp tmux kill [] (r, t) = (r, t)"
| "kill_orphans sp tmux kill (x # xs) (r, t) =
     (let nm = orp_session_name x;
          r1 = r\<lparr>cr_orphaned_tmux_sessions := cr_orphaned_tmux_sessions r @ [nm]\<rparr>
      in if \<not> kill then kill_orphans sp tmux kill xs (r1, t)
         else case tmux_stop sp tmux nm True t of
                (Inr True, t1) \<Rightarrow>
                  kill_orphans sp tmux kill xs (r1\<lparr>cr_tmux_sessions_killed := Suc (cr_tmux_sessions_killed r1)\<rparr>, t1)
              | (Inr False, t1) \<Rightarrow>
                  kill_orphans sp tmux kill xs
                    (r1\<lparr>cr_errors := cr_errors r1 @ [''Failed to kill tmux session: '' @ nm]\<rparr>, t1)
              | (Inl _, t1) \<Rightarrow>
                  kill_orphans sp tmux kill xs
                    (r1\<lparr>cr_errors := cr_errors r1 @ [''Error killing tmux session '' @ nm]\<rparr>, t1))"

text \<open>
  \<open>changes\<close> is the counter of the connection that \<open>delete_session_record\<close> reads; the statements in this
  loop do not raise.
\<close>

fun settle_stale ::
  "env \<Rightarrow> nat \<Rightarrow> bool \<Rightarrow> bool \<Rightarrow> orphaned_session list \<Rightarrow> cleanup_result \<times> db \<Rightarrow> cleanup_result \<times> db" where
  "settle_stale e changes update delete_stale [] (r, d) = (r, d)"
| "settle_stale e changes update delete_stale (x # xs) (r, d) =
     (case orp_session_id x of
        None \<Rightarrow> settle_stale e changes update delete_stale xs (r, d)
      | Some sid \<Rightarrow>
          let r1 = (if sid = [] then r else r\<lparr>cr_stale_db_records := cr_stale_db_records r @ [sid]\<rparr>)
          in if \<not> update \<or> sid = [] then settle_stale e changes update delete_stale xs (r1, d)
             else if delete_stale
               then (case delete_session_record changes sid d of
                       (hit, d1) \<Rightarrow>
                         settle_stale e changes update delete_stale xs
                           (if hit then r1\<lparr>cr_db_records_deleted := Suc (cr_db_records_deleted r1)\<rparr> else r1, d1))
             else settle_stale e changes update delete_stale xs
                    (r1\<lparr>cr_db_records_updated := Suc (cr_db_records_updated r1)\<rparr>,
                     snd (update_session_state e changes sid Crashed None (Some (now e)) d)))"

definition cleanup_orphaned_sessions ::
  "env \<Rightarrow> nat \<Rightarrow> spawner \<Rightarrow> 't tmux \<Rightarrow> bool \<Rightarrow> bool \<Rightarrow> bool \<Rightarrow> 't dbt \<Rightarrow> ('t dbt, cleanup_result) outcome" where
  "cleanup_orphaned_sessions e changes sp tmux kill update delete_stale s =
     and_then (find_orphaned_tmux_sessions sp tmux s) (\<lambda>orphans s1.
       case kill_orphans sp tmux kill orphans (no_cleanup, snd s1) of
         (r1, t1) \<Rightarrow>
           and_then (find_stale_db_sessions sp tmux (fst s1, t1)) (\<lambda>stale s2.
             case settle_stale e changes update delete_stale stale (r1, fst s2) of
               (r2, d2) \<Rightarrow> ok r2 (d2, snd s2)))"

definition run_startup_cleanup ::
  "env \<Rightarrow> nat \<Rightarrow> spawner \<Rightarrow> 't tmux \<Rightarrow> 't dbt \<Rightarrow> ('t dbt, cleanup_result) outcome" where
  "run_startup_cleanup e changes sp tmux s = cleanup_orphaned_sessions e changes sp tmux True True False s"

section \<open>Stopping all sessions\<close>

record stop_all_result =
  sa_sessions_found :: nat
  sa_sessions_stopped :: nat
  sa_tmux_sessions_killed :: nat
  sa_errors :: "string list"

text \<open>The body of the loop for one session: whether tmux was told to kill it and obeyed.\<close>

definition kill_if_alive ::
  "spawner \<Rightarrow> 't tmux \<Rightarrow> bool \<Rightarrow> string option \<Rightarrow> 't \<Rightarrow> ('t, bool option) outcome" where
  "kill_if_alive sp tmux force nm t =
     (case nm of
        None \<Rightarrow> ok None t
      | Some n \<Rightarrow>
          if n = [] then ok None t
          else and_then (is_alive sp tmux n t) (\<lambda>alive t1.
                 if \<not> alive then ok None t1
                 else and_then (tmux_stop sp tmux n force t1) (\<lambda>killed t2. ok (Some killed) t2)))"

definition note_kill :: "session_row \<Rightarrow> bool option \<Rightarrow> stop_all_result \<Rightarrow> stop_all_result" where
  "note_kill s k r =
     (case k of
        None \<Rightarrow> r
      | Some True \<Rightarrow> r\<lparr>sa_tmux_sessions_killed := Suc (sa_tmux_sessions_killed r)\<rparr>
      | Some False \<Rightarrow> r\<lparr>sa_errors := sa_errors r @ [''Failed to kill tmux session: '' @ or_default (ss_tmux_session_name s) []]\<rparr>)"

definition stop_one ::
  "env \<Rightarrow> spawner \<Rightarrow> 't tmux \<Rightarrow> bool \<Rightarrow> session_row \<Rightarrow> stop_all_result \<times> 't dbt \<Rightarrow> stop_all_result \<times> 't dbt" where
  "stop_one e sp tmux force s = (\<lambda>(r, d, t).
     let failed = (\<lambda>r. r\<lparr>sa_errors := sa_errors r @ [''Error stopping session '' @ ss_id s]\<rparr>)
     in case kill_if_alive sp tmux force (ss_tmux_session_name s) t of
          (Inl _, t1) \<Rightarrow> (failed r, d, t1)
        | (Inr k, t1) \<Rightarrow>
            let r1 = note_kill s k r;
                d1 = (if ss_id s = [] then d else snd (delete_session_record 0 (ss_id s) d))
            in if ss_worker_id s = [] then (r1\<lparr>sa_sessions_stopped := Suc (sa_sessions_stopped r1)\<rparr>, d1, t1)
               else case update_worker_runtime_status e (ss_worker_id s) Stopped None d1 of
                      (Inl _, d2) \<Rightarrow> (failed r1, d2, t1)
                    | (Inr _, d2) \<Rightarrow> (r1\<lparr>sa_sessions_stopped := Suc (sa_sessions_stopped r1)\<rparr>, d2, t1))"

definition stop_all_sessions ::
  "env \<Rightarrow> spawner \<Rightarrow> 't tmux \<Rightarrow> bool \<Rightarrow> 't dbt \<Rightarrow> stop_all_result \<times> 't dbt" where
  "stop_all_sessions e sp tmux force s =
     (let active = get_active_sessions (fst s)
      in fold (stop_one e sp tmux force) active
           (\<lparr>sa_sessions_found = length active, sa_sessions_stopped = 0, sa_tmux_sessions_killed = 0, sa_errors = []\<rparr>, s))"

end
