(* ===== verification/Stop_Controller.thy ===== *)
theory Stop_Controller
  imports Session_Cleanup Org
begin

text \<open>
  \<open>cli/core/stop_controller.py\<close>: stopping the organisation in seven phases, and the snapshots from which
  workers resume. The state is the organisation object with its database, the tmux server and the
  controller's table of workers (a dictionary in the order of insertion). Durations and the texts of
  messages and exceptions are left out of the results. \<open>e1\<close> is the clock up to the waiting loop, \<open>clock\<close>
  that of each round of the loop, \<open>e2\<close> the one after it; \<open>world n\<close> is what other processes do to the
  database while the loop sleeps for the \<open>n\<close>th time.
\<close>

section \<open>Data\<close>

definition STOP_TIMEOUT_BY_ROLE :: "(string \<times> int) list" where
  "STOP_TIMEOUT_BY_ROLE = [(''ceo'', 120), (''director'', 90), (''manager'', 90), (''team-lead'', 90)]"

definition DEFAULT_STOP_TIMEOUT :: int where
  "DEFAULT_STOP_TIMEOUT = 60"

definition get_worker_timeout :: "string \<Rightarrow> int" where
  "get_worker_timeout role = (case map_of STOP_TIMEOUT_BY_ROLE (ascii_lower role) of Some n \<Rightarrow> n | None \<Rightarrow> DEFAULT_STOP_TIMEOUT)"

definition RESUME_STATE_TTL_HOURS :: int where
  "RESUME_STATE_TTL_HOURS = 24"

record worker_stop =
  wt_worker_name :: string
  wt_role :: string
  wt_timeout_seconds :: int
  wt_wrapup_sent_at :: "datetime option"
  wt_ack_received_at :: "datetime option"
  wt_ack_message :: "string option"
  wt_session_stopped :: bool
  wt_state_saved :: bool
  wt_failed :: bool

type_synonym stop_table = "(ident \<times> worker_stop) list"

record phase_result =
  ph_phase :: nat
  ph_success :: bool
  ph_details :: "(string \<times> pyval) list"

definition detail_nat :: "phase_result \<Rightarrow> string \<Rightarrow> nat" where
  "detail_nat ph k = (case map_of (ph_details ph) k of Some (VInt n) \<Rightarrow> nat n | _ \<Rightarrow> 0)"

record stop_result =
  st_success :: bool
  st_phases :: "phase_result list"
  st_workers_stopped :: nat
  st_workers_acked :: nat
  st_unacked_workers :: "string list"
  st_sessions_terminated :: nat
  st_states_saved :: nat
  st_errors :: "string list"

definition new_stop_result :: stop_result where
  "new_stop_result = \<lparr>st_success = False, st_phases = [], st_workers_stopped = 0, st_workers_acked = 0,
     st_unacked_workers = [], st_sessions_terminated = 0, st_states_saved = 0, st_errors = []\<rparr>"

text \<open>The ids that the calls of \<open>generate_id\<close> draw, by the worker or channel they are for.\<close>

record stop_ids =
  si_channel :: "string \<Rightarrow> ident"
  si_message :: "ident \<Rightarrow> ident"
  si_signal :: "ident \<Rightarrow> int"
  si_notif :: "ident \<Rightarrow> ident"
  si_resume :: "ident \<Rightarrow> ident"

section \<open>Phase 1: validation and preparation\<close>

definition prepare_worker :: "db \<Rightarrow> session_row \<Rightarrow> stop_table \<Rightarrow> stop_table" where
  "prepare_worker d s ws =
     (if ss_worker_id s = [] then ws
      else case get_worker d (ss_worker_id s) of
             None \<Rightarrow> ws
           | Some w \<Rightarrow>
               dict_set (ss_worker_id s)
                 \<lparr>wt_worker_name = wk_name w, wt_role = wk_role w, wt_timeout_seconds = get_worker_timeout (wk_role w),
                  wt_wrapup_sent_at = None, wt_ack_received_at = None, wt_ack_message = None,
                  wt_session_stopped = False, wt_state_saved = False, wt_failed = False\<rparr> ws)"

definition validate_and_prepare :: "orgst \<Rightarrow> phase_result \<times> stop_table \<times> orgst" where
  "validate_and_prepare s =
     (case og_status s of
        (st, s1) \<Rightarrow>
          if st \<notin> {OrgRunning, OrgStopped} then (\<lparr>ph_phase = 1, ph_success = False, ph_details = []\<rparr>, [], s1)
          else if st = OrgStopped
            then (\<lparr>ph_phase = 1, ph_success = True, ph_details = [(''already_stopped'', VBool True)]\<rparr>, [], s1)
          else let ws = fold (prepare_worker (og_db s1)) (get_active_sessions (og_db s1)) []
               in (\<lparr>ph_phase = 1, ph_success = True,
                     ph_details = [(''workers_prepared'', VInt (int (length ws))), (''worker_ids'', VList (map (VStr \<circ> fst) ws))]\<rparr>,
                   ws, s1))"

section \<open>Phase 2: wrap-up requests\<close>

definition build_wrapup_message :: "worker_stop \<Rightarrow> int \<Rightarrow> string" where
  "build_wrapup_message st timeout =
     ''**Workday Ending**'' @ [newline, newline] @
     ''Worker: '' @ wt_worker_name st @ '' ('' @ wt_role st @ '')'' @ [newline, newline] @
     ''Please wrap up your current work:'' @ [newline] @
     ''1. Save any work in progress to shared/'' @ [newline] @
     ''2. Document incomplete work in beads'' @ [newline] @
     ''3. Commit any changes'' @ [newline, newline] @
     ''Timeout: '' @ int_str timeout @ '' seconds'' @ [newline, newline] @
     ''Reply with '' @ [squote] @ ''ACK'' @ [squote] @ '' to acknowledge.'' @ [newline] @
     ''After timeout, your session will be terminated.''"

definition send_wrapup ::
  "env \<Rightarrow> stop_ids \<Rightarrow> ident \<Rightarrow> ident \<Rightarrow> int option \<Rightarrow> ident \<Rightarrow> worker_stop \<Rightarrow> db \<Rightarrow> (db, unit) outcome" where
  "send_wrapup e ids general sender graceful i st d =
     (let timeout = (case graceful of None \<Rightarrow> wt_timeout_seconds st | Some n \<Rightarrow> if n = 0 then wt_timeout_seconds st else n)
      in and_then (create_message e (si_message ids i) (si_signal ids i)
             \<lparr>nm_channel_id = general, nm_from_worker_id = sender, nm_content = build_wrapup_message st timeout,
              nm_thread_id = None, nm_parent_id = None, nm_priority = 0, nm_time_sensitivity = ''immediate'',
              nm_message_id = None\<rparr> d) (\<lambda>m d1.
         and_then (create_notification_bead e (si_notif ids i) i (m_id m) general 0 None None d1) (\<lambda>_ d2. ok () d2)))"

text \<open>The loop over the workers, with the number of requests sent and the errors.\<close>

fun send_each ::
  "env \<Rightarrow> stop_ids \<Rightarrow> ident \<Rightarrow> ident \<Rightarrow> int option \<Rightarrow> stop_table \<Rightarrow> db \<Rightarrow> nat \<times> string list \<times> stop_table \<times> db" where
  "send_each e ids general sender graceful [] d = (0, [], [], d)"
| "send_each e ids general sender graceful ((i, st) # ws) d =
     (case send_wrapup e ids general sender graceful i st d of
        (Inr _, d1) \<Rightarrow>
          (case send_each e ids general sender graceful ws d1 of
             (n, errs, ws', d2) \<Rightarrow> (Suc n, errs, (i, st\<lparr>wt_wrapup_sent_at := Some (now e)\<rparr>) # ws', d2))
      | (Inl _, d1) \<Rightarrow>
          (case send_each e ids general sender graceful ws d1 of
             (n, errs, ws', d2) \<Rightarrow> (n, (''Failed to notify '' @ i) # errs, (i, st\<lparr>wt_failed := True\<rparr>) # ws', d2)))"

definition send_wrapup_requests ::
  "env \<Rightarrow> stop_ids \<Rightarrow> int option \<Rightarrow> stop_table \<Rightarrow> orgst \<Rightarrow> phase_result \<times> string list \<times> stop_table \<times> orgst" where
  "send_wrapup_requests e ids graceful ws s =
     (let failed = (\<lambda>s. (\<lparr>ph_phase = 2, ph_success = False, ph_details = []\<rparr>, [], ws, s))
      in if ws = [] then (\<lparr>ph_phase = 2, ph_success = True, ph_details = []\<rparr>, [], ws, s)
         else
           let made = (case get_channel_by_name (og_db s) ''general'' of
                         Some _ \<Rightarrow> ok [] (og_db s)
                       | None \<Rightarrow> create_default_org_channels e (si_channel ids) (og_db s))
           in case made of
                (Inl _, d1) \<Rightarrow> failed (s\<lparr>og_db := d1\<rparr>)
              | (Inr _, d1) \<Rightarrow>
                  (case get_channel_by_name d1 ''general'' of
                     None \<Rightarrow> failed (s\<lparr>og_db := d1\<rparr>)
                   | Some c \<Rightarrow>
                       (case og_ceo_worker_id (s\<lparr>og_db := d1\<rparr>) of
                          (ceo, s2) \<Rightarrow>
                            (case send_each e ids (c_id c) (or_default ceo (fst (hd ws))) graceful ws d1 of
                               (n, errs, ws', d2) \<Rightarrow>
                                 (\<lparr>ph_phase = 2, ph_success = (0 < n),
                                   ph_details = [(''sent_count'', VInt (int n)), (''error_count'', VInt (int (length errs)))]\<rparr>,
                                  errs, ws', s2\<lparr>og_db := d2\<rparr>)))))"

section \<open>Phase 3: acknowledgements\<close>

text \<open>Any notification of the worker that is actioned counts, whatever message it is about.\<close>

definition acked :: "db \<Rightarrow> ident \<Rightarrow> bool" where
  "acked d i =
     (order_by_desc n_created_at (fetchall (\<lambda>r. n_worker_id r = i \<and> n_status r = NActioned) (notification_beads d)) \<noteq> [])"

definition poll_worker :: "datetime \<Rightarrow> db \<Rightarrow> ident \<times> worker_stop \<Rightarrow> ident \<times> worker_stop" where
  "poll_worker t d = (\<lambda>(i, st).
     if wt_ack_received_at st \<noteq> None then (i, st)
     else if acked d i then (i, st\<lparr>wt_ack_received_at := Some t\<rparr>) else (i, st))"

definition poll_for_acks :: "datetime \<Rightarrow> db \<Rightarrow> stop_table \<Rightarrow> nat \<times> stop_table" where
  "poll_for_acks t d ws =
     (length (filter (\<lambda>(i, st). wt_ack_received_at st = None \<and> acked d i) ws), map (poll_worker t d) ws)"

partial_function (option) wait_loop ::
  "(nat \<Rightarrow> datetime) \<Rightarrow> (nat \<Rightarrow> db \<Rightarrow> db) \<Rightarrow> datetime \<Rightarrow> nat \<Rightarrow> nat \<Rightarrow> nat \<Rightarrow> stop_table \<Rightarrow> db
   \<Rightarrow> (nat \<times> stop_table \<times> db) option" where
  "wait_loop clock world deadline expected n acks ws d =
     (if clock n < deadline
      then case poll_for_acks (clock n) d ws of
             (new, ws') \<Rightarrow>
               if expected \<le> acks + new then Some (acks + new, ws', d)
               else wait_loop clock world deadline expected (Suc n) (acks + new) ws' (world n d)
      else Some (acks, ws, d))"

definition ack_timeout :: "stop_table \<Rightarrow> int" where
  "ack_timeout ws = (Max (set (map (wt_timeout_seconds \<circ> snd) ws)) * 8) div 10"

definition unacked :: "stop_table \<Rightarrow> string list" where
  "unacked ws = map (wt_worker_name \<circ> snd) (filter (\<lambda>(i, st). wt_ack_received_at st = None) ws)"

definition wait_for_acknowledgements ::
  "env \<Rightarrow> (nat \<Rightarrow> datetime) \<Rightarrow> (nat \<Rightarrow> db \<Rightarrow> db) \<Rightarrow> stop_table \<Rightarrow> orgst \<Rightarrow> (phase_result \<times> stop_table \<times> orgst) option" where
  "wait_for_acknowledgements e clock world ws s =
     (if ws = [] then Some (\<lparr>ph_phase = 3, ph_success = True, ph_details = []\<rparr>, ws, s)
      else map_option (\<lambda>(acks, ws', d).
             (\<lparr>ph_phase = 3, ph_success = True,
               ph_details = [(''acks_received'', VInt (int acks)), (''acks_expected'', VInt (int (length ws))),
                             (''unacked_workers'', VList (map VStr (unacked ws')))]\<rparr>, ws', s\<lparr>og_db := d\<rparr>))
             (wait_loop clock world (now e + ack_timeout ws * second) (length ws) 0 0 ws (og_db s)))"

section \<open>Phase 4: stop sessions\<close>

definition add_stop_all :: "stop_all_result \<Rightarrow> stop_all_result \<Rightarrow> stop_all_result" where
  "add_stop_all a b =
     a\<lparr>sa_sessions_stopped := sa_sessions_stopped a + sa_sessions_stopped b,
       sa_tmux_sessions_killed := sa_tmux_sessions_killed a + sa_tmux_sessions_killed b,
       sa_errors := sa_errors a @ sa_errors b\<rparr>"

definition stop_sessions_db ::
  "env \<Rightarrow> spawner \<Rightarrow> 't tmux \<Rightarrow> bool \<Rightarrow> 't dbt \<Rightarrow> stop_all_result \<times> 't dbt" where
  "stop_sessions_db e sp tmux force dt =
     (case stop_all_sessions e sp tmux force dt of
        (r, dt1) \<Rightarrow>
          if \<not> force \<and> sa_sessions_stopped r < sa_sessions_found r \<and> get_active_sessions (fst dt1) \<noteq> []
          then case stop_all_sessions e sp tmux True dt1 of (r2, dt2) \<Rightarrow> (add_stop_all r r2, dt2)
          else (r, dt1))"

definition stop_sessions ::
  "env \<Rightarrow> spawner \<Rightarrow> 't tmux \<Rightarrow> bool \<Rightarrow> stop_table \<Rightarrow> orgst \<times> 't
   \<Rightarrow> phase_result \<times> string list \<times> stop_table \<times> orgst \<times> 't" where
  "stop_sessions e sp tmux force ws = (\<lambda>(s, t).
     case stop_sessions_db e sp tmux force (og_db s, t) of
       (r, d1, t1) \<Rightarrow>
         (\<lparr>ph_phase = 4, ph_success = True,
           ph_details = [(''sessions_found'', VInt (int (sa_sessions_found r))),
                         (''sessions_stopped'', VInt (int (sa_sessions_stopped r))),
                         (''tmux_killed'', VInt (int (sa_tmux_sessions_killed r))),
                         (''errors'', VList (map VStr (sa_errors r)))]\<rparr>,
          sa_errors r, map (\<lambda>(i, st). (i, st\<lparr>wt_session_stopped := True\<rparr>)) ws, s\<lparr>og_db := d1\<rparr>, t1))"

section \<open>Phase 5: worker states\<close>

fun stop_each :: "env \<Rightarrow> stop_table \<Rightarrow> db \<Rightarrow> nat \<times> string list \<times> stop_table \<times> db" where
  "stop_each e [] d = (0, [], [], d)"
| "stop_each e ((i, st) # ws) d =
     (case update_worker_runtime_status e i Stopped None d of
        (Inr _, d1) \<Rightarrow> (case stop_each e ws d1 of (n, errs, ws', d2) \<Rightarrow> (Suc n, errs, (i, st) # ws', d2))
      | (Inl _, d1) \<Rightarrow>
          (case stop_each e ws d1 of
             (n, errs, ws', d2) \<Rightarrow> (n, (''Failed to update '' @ i) # errs, (i, st\<lparr>wt_failed := True\<rparr>) # ws', d2)))"

definition update_worker_states ::
  "env \<Rightarrow> stop_table \<Rightarrow> orgst \<Rightarrow> phase_result \<times> string list \<times> stop_table \<times> orgst" where
  "update_worker_states e ws s =
     (case stop_each e ws (og_db s) of
        (n, errs, ws', d) \<Rightarrow>
          (\<lparr>ph_phase = 5, ph_success = True,
            ph_details = [(''workers_updated'', VInt (int n)), (''errors'', VList (map VStr errs))]\<rparr>,
           errs, ws', s\<lparr>og_db := d\<rparr>))"

section \<open>Phase 6: snapshots\<close>

definition resume_context :: "worker_stop \<Rightarrow> json" where
  "resume_context st =
     JObj [(''role'', JStr (wt_role st)), (''worker_name'', JStr (wt_worker_name st)),
           (''ack_received'', JBool (wt_ack_received_at st \<noteq> None)),
           (''ack_message'', case wt_ack_message st of None \<Rightarrow> JNull | Some m \<Rightarrow> JStr m)]"

definition resume_snapshot :: "env \<Rightarrow> ident \<Rightarrow> ident \<Rightarrow> worker_stop \<Rightarrow> db \<Rightarrow> resume_row" where
  "resume_snapshot e rid i st d =
     (let w = get_worker_state d i; s = fetchone (\<lambda>s. ss_worker_id s = i) (sessions d)
      in \<lparr>re_id = rid, re_worker_id = i, re_current_task_id = Option.bind w ws_current_task_id,
          re_current_task_context = resume_context st, re_last_activity_at = Option.bind w ws_last_activity,
          re_tasks_completed = (case w of None \<Rightarrow> 0 | Some x \<Rightarrow> ws_tasks_completed x),
          re_tasks_failed = (case w of None \<Rightarrow> 0 | Some x \<Rightarrow> ws_tasks_failed x),
          re_session_provider = map_option ss_provider s, re_session_model = Option.bind s ss_model,
          re_working_directory = Option.bind s ss_working_directory,
          re_wrapup_requested_at = wt_wrapup_sent_at st, re_wrapup_acked_at = wt_ack_received_at st,
          re_ack_message = wt_ack_message st, re_created_at = now e,
          re_expires_at = now e + RESUME_STATE_TTL_HOURS * hour, re_consumed_at = None\<rparr>)"

text \<open>\<open>INSERT OR REPLACE\<close>: rows with the same id or the same worker go first; the worker must exist.\<close>

definition save_worker_resume_state :: "env \<Rightarrow> ident \<Rightarrow> ident \<Rightarrow> worker_stop \<Rightarrow> db \<Rightarrow> (db, unit) outcome" where
  "save_worker_resume_state e rid i st d =
     (if \<not> worker_exists d i then raise (IntegrityError ''worker_resume_states.worker_id'') d
      else ok () (d\<lparr>worker_resume_states :=
             delete_where (\<lambda>r. re_id r = rid \<or> re_worker_id r = i) (worker_resume_states d)
               @ [resume_snapshot e rid i st d]\<rparr>))"

fun save_each :: "env \<Rightarrow> stop_ids \<Rightarrow> stop_table \<Rightarrow> db \<Rightarrow> nat \<times> string list \<times> stop_table \<times> db" where
  "save_each e ids [] d = (0, [], [], d)"
| "save_each e ids ((i, st) # ws) d =
     (case save_worker_resume_state e (si_resume ids i) i st d of
        (Inr _, d1) \<Rightarrow>
          (case save_each e ids ws d1 of
             (n, errs, ws', d2) \<Rightarrow> (Suc n, errs, (i, st\<lparr>wt_state_saved := True\<rparr>) # ws', d2))
      | (Inl _, d1) \<Rightarrow>
          (case save_each e ids ws d1 of
             (n, errs, ws', d2) \<Rightarrow> (n, (''Failed to save state for '' @ i) # errs, (i, st) # ws', d2)))"

definition DEFAULT_NOTIFICATION_RETENTION_DAYS :: int where
  "DEFAULT_NOTIFICATION_RETENTION_DAYS = 7"

definition run_notification_cleanup :: "env \<Rightarrow> int \<Rightarrow> db \<Rightarrow> nat \<times> db" where
  "run_notification_cleanup e retention_days d =
     (case cleanup_old_notifications e retention_days d of
        (n1, d1) \<Rightarrow> (case cleanup_expired_notifications e d1 of
           (n2, d2) \<Rightarrow> (case cleanup_orphaned_notifications d2 of (n3, d3) \<Rightarrow> (n1 + n2 + n3, d3))))"

definition persist_state ::
  "env \<Rightarrow> stop_ids \<Rightarrow> bool \<Rightarrow> stop_table \<Rightarrow> orgst \<Rightarrow> phase_result \<times> string list \<times> stop_table \<times> orgst" where
  "persist_state e ids cleanup ws s =
     (case save_each e ids ws (og_db s) of
        (n, errs, ws', d) \<Rightarrow>
          (\<lparr>ph_phase = 6, ph_success = True,
            ph_details = [(''states_saved'', VInt (int n)), (''errors'', VList (map VStr errs))]\<rparr>,
           errs, ws',
           s\<lparr>og_db := (if cleanup then snd (run_notification_cleanup e DEFAULT_NOTIFICATION_RETENTION_DAYS d) else d)\<rparr>))"

section \<open>Phase 7 and the whole sequence\<close>

definition transition_org_to_stopped :: "env \<Rightarrow> orgst \<Rightarrow> phase_result \<times> orgst" where
  "transition_org_to_stopped e s =
     (case og_status s of
        (st, s1) \<Rightarrow>
          if st = OrgStopped then (\<lparr>ph_phase = 7, ph_success = True, ph_details = []\<rparr>, s1)
          else case org_stop e s1 of
                 (Inr _, s2) \<Rightarrow> (\<lparr>ph_phase = 7, ph_success = True, ph_details = []\<rparr>, s2)
               | (Inl _, s2) \<Rightarrow> (\<lparr>ph_phase = 7, ph_success = False, ph_details = []\<rparr>, s2))"

definition add_phase :: "phase_result \<Rightarrow> string list \<Rightarrow> stop_result \<Rightarrow> stop_result" where
  "add_phase ph errs r = r\<lparr>st_phases := st_phases r @ [ph], st_errors := st_errors r @ errs\<rparr>"

text \<open>Phases 2 and 3, which a forced stop leaves out.\<close>

definition wrap_up ::
  "env \<Rightarrow> (nat \<Rightarrow> datetime) \<Rightarrow> (nat \<Rightarrow> db \<Rightarrow> db) \<Rightarrow> stop_ids \<Rightarrow> int option \<Rightarrow> stop_result \<Rightarrow> stop_table \<Rightarrow> orgst
   \<Rightarrow> (stop_result \<times> stop_table \<times> orgst) option" where
  "wrap_up e1 clock world ids graceful r ws s =
     (case send_wrapup_requests e1 ids graceful ws s of
        (ph2, errs2, ws2, s2) \<Rightarrow>
          map_option (\<lambda>(ph3, ws3, s3).
            ((add_phase ph3 [] (add_phase ph2 errs2 r))\<lparr>st_workers_acked := detail_nat ph3 ''acks_received'',
               st_unacked_workers := (if ws2 = [] then [] else unacked ws3)\<rparr>, ws3, s3))
            (wait_for_acknowledgements e1 clock world ws2 s2))"

text \<open>Phases 4 to 7.\<close>

definition shut_down ::
  "env \<Rightarrow> spawner \<Rightarrow> 't tmux \<Rightarrow> stop_ids \<Rightarrow> bool \<Rightarrow> bool \<Rightarrow> bool \<Rightarrow> stop_result \<Rightarrow> stop_table \<Rightarrow> orgst \<times> 't
   \<Rightarrow> stop_result \<times> stop_table \<times> orgst \<times> 't" where
  "shut_down e2 sp tmux ids force save cleanup r ws st =
     (case stop_sessions e2 sp tmux force ws st of
        (ph4, errs4, ws4, s4, t4) \<Rightarrow>
          (case update_worker_states e2 ws4 s4 of
             (ph5, errs5, ws5, s5) \<Rightarrow>
               let r5 = (add_phase ph5 errs5 ((add_phase ph4 errs4 r)\<lparr>st_sessions_terminated := detail_nat ph4 ''sessions_stopped''\<rparr>))
                          \<lparr>st_workers_stopped := detail_nat ph5 ''workers_updated''\<rparr>
               in case (if save
                        then (case persist_state e2 ids cleanup ws5 s5 of
                                (ph6, errs6, ws6, s6) \<Rightarrow>
                                  ((add_phase ph6 errs6 r5)\<lparr>st_states_saved := detail_nat ph6 ''states_saved''\<rparr>, ws6, s6))
                        else (r5, ws5, s5)) of
                    (r6, ws6, s6) \<Rightarrow>
                      (case transition_org_to_stopped e2 s6 of
                         (ph7, s7) \<Rightarrow> ((add_phase ph7 [] r6)\<lparr>st_success := ph_success ph7\<rparr>, ws6, s7, t4))))"

definition execute ::
  "env \<Rightarrow> (nat \<Rightarrow> datetime) \<Rightarrow> (nat \<Rightarrow> db \<Rightarrow> db) \<Rightarrow> env \<Rightarrow> spawner \<Rightarrow> 't tmux \<Rightarrow> stop_ids \<Rightarrow> bool \<Rightarrow> bool \<Rightarrow> bool
   \<Rightarrow> int option \<Rightarrow> orgst \<times> 't \<Rightarrow> (stop_result \<times> stop_table \<times> orgst \<times> 't) option" where
  "execute e1 clock world e2 sp tmux ids force save cleanup graceful = (\<lambda>(s, t).
     case validate_and_prepare s of
       (ph1, ws, s1) \<Rightarrow>
         let r1 = add_phase ph1 [] new_stop_result
         in if \<not> ph_success ph1 then Some (r1, ws, s1, t)
            else map_option (\<lambda>(r3, ws3, s3). shut_down e2 sp tmux ids force save cleanup r3 ws3 (s3, t))
                   (if force then Some (r1, ws, s1) else wrap_up e1 clock world ids graceful r1 ws s1))"

section \<open>Resume states\<close>

definition get_resume_state :: "env \<Rightarrow> db \<Rightarrow> ident \<Rightarrow> resume_row option" where
  "get_resume_state e d i =
     fetchone (\<lambda>r. re_worker_id r = i \<and> re_consumed_at r = None \<and> now e < re_expires_at r) (worker_resume_states d)"

definition consume_resume_state :: "env \<Rightarrow> ident \<Rightarrow> db \<Rightarrow> bool \<times> db" where
  "consume_resume_state e i d =
     (let open_state = (\<lambda>r. re_worker_id r = i \<and> re_consumed_at r = None)
      in (0 < rowcount open_state (worker_resume_states d),
          d\<lparr>worker_resume_states := update_where open_state (\<lambda>r. r\<lparr>re_consumed_at := Some (now e)\<rparr>) (worker_resume_states d)\<rparr>))"

definition cleanup_expired_resume_states :: "env \<Rightarrow> db \<Rightarrow> nat \<times> db" where
  "cleanup_expired_resume_states e d =
     (rowcount (\<lambda>r. re_expires_at r < now e) (worker_resume_states d),
      d\<lparr>worker_resume_states := delete_where (\<lambda>r. re_expires_at r < now e) (worker_resume_states d)\<rparr>)"

end
