(* ===== verification/Stop_Controller_Laws.thy ===== *)
theory Stop_Controller_Laws
  imports Stop_Controller Org_Laws
begin

text \<open>
  What a stop of the organisation achieves: it comes to an end, leaves no active session and no running
  worker, and the organisation is stopped; and what gets lost on the way: acknowledgements that were never
  given, snapshots without a task and a session.
\<close>

section \<open>Passes over the table of workers\<close>

text \<open>
  The contract the three loops of the controller share: one step on the database per worker, failures are
  noted and passed over, the table keeps its workers.
\<close>

locale worker_pass =
  fixes each :: "stop_table \<Rightarrow> db \<Rightarrow> nat \<times> string list \<times> stop_table \<times> db"
    and step :: "ident \<Rightarrow> worker_stop \<Rightarrow> db \<Rightarrow> (db, unit) outcome"
  assumes each_Nil: "each [] d = (0, [], [], d)"
    and each_Cons: "each ws (snd (step i st d)) = (n, errs, ws', d') \<Longrightarrow>
      \<exists>st'. each ((i, st) # ws) d =
        (if isl (fst (step i st d)) then n else Suc n, (if isl (fst (step i st d)) then [hd (fst (snd (each ((i, st) # ws) d)))] else []) @ errs,
         (i, st') # ws', d')"
begin

lemma pass_induct [consumes 1, case_names Nil Cons]:
  assumes "each ws d = (n, errs, ws', d')"
    and "\<And>d. P [] d 0 [] [] d"
    and "\<And>i st st' ws d n errs ws' d' n1 errs1. each ws (snd (step i st d)) = (n, errs, ws', d') \<Longrightarrow>
      P ws (snd (step i st d)) n errs ws' d' \<Longrightarrow>
      (if isl (fst (step i st d)) then n1 = n else n1 = Suc n \<and> errs1 = errs) \<Longrightarrow>
      P ((i, st) # ws) d n1 errs1 ((i, st') # ws') d'"
  shows "P ws d n errs ws' d'"
  using assms(1)
proof (induction ws arbitrary: d n errs ws' d')
  case Nil
  then show ?case using assms(2) by (simp add: each_Nil)
next
  case (Cons x ws)
  obtain i st where x: "x = (i, st)" by (cases x)
  obtain n2 errs2 ws2 d2 where rest: "each ws (snd (step i st d)) = (n2, errs2, ws2, d2)"
    by (cases "each ws (snd (step i st d))") auto
  from each_Cons [OF rest] obtain st' where e: "each (x # ws) d = (if isl (fst (step i st d)) then n2 else Suc n2,
      (if isl (fst (step i st d)) then [hd (fst (snd (each (x # ws) d)))] else []) @ errs2, (i, st') # ws2, d2)"
    unfolding x by blast
  have "P ((i, st) # ws) d n errs ((i, st') # ws2) d2"
    using assms(3) [OF rest Cons.IH [OF rest], of n errs st'] e Cons.prems by (auto split: if_splits)
  then show ?case using e Cons.prems x by auto
qed

lemma keys_kept: "each ws d = (n, errs, ws', d') \<Longrightarrow> map fst ws' = map fst ws"
  by (induction rule: pass_induct) auto

lemma pass_establishes:
  assumes "each ws d = (n, errs, ws', d')" and "I d"
    and "\<And>i st d. I d \<Longrightarrow> i \<in> fst ` set ws \<Longrightarrow> I (snd (step i st d))"
    and "\<And>i st d. I d \<Longrightarrow> i \<in> fst ` set ws \<Longrightarrow> \<not> isl (fst (step i st d)) \<and> P i (snd (step i st d))"
    and "\<And>i j st d. I d \<Longrightarrow> i \<in> fst ` set ws \<Longrightarrow> P j d \<Longrightarrow> P j (snd (step i st d))"
  shows "n = length ws \<and> errs = [] \<and> I d' \<and> (\<forall>i \<in> fst ` set ws. P i d') \<and> (\<forall>j. P j d \<longrightarrow> P j d')"
  using assms
proof (induction rule: pass_induct)
  case (Cons i st st' ws d n errs ws' d' n1 errs1)
  let ?d = "snd (step i st d)"
  have I: "I ?d" and P: "P i ?d" "\<not> isl (fst (step i st d))" using Cons.prems by auto
  have "n = length ws \<and> errs = [] \<and> I d' \<and> (\<forall>i \<in> fst ` set ws. P i d') \<and> (\<forall>j. P j ?d \<longrightarrow> P j d')"
    using Cons.prems by (intro Cons.IH I) auto
  then show ?case using Cons.hyps Cons.prems P by (auto split: if_splits)
qed auto

lemma pass_keeps:
  assumes "each ws d = (n, errs, ws', d')" and "I d"
    and "\<And>i st d. I d \<Longrightarrow> I (snd (step i st d))"
  shows "I d'"
  using assms by (induction rule: pass_induct) auto

end

interpretation sending: worker_pass "send_each e ids general sender graceful" "send_wrapup e ids general sender graceful"
proof (unfold_locales, goal_cases)
  case (2 ws i st d n errs ws' d')
  then show ?case by (cases "send_wrapup e ids general sender graceful i st d") (auto split: sum.splits)
qed simp

interpretation stopping: worker_pass "stop_each e" "\<lambda>i st. update_worker_runtime_status e i Stopped None"
proof (unfold_locales, goal_cases)
  case (2 ws i st d n errs ws' d')
  then show ?case by (cases "update_worker_runtime_status e i Stopped None d") (auto split: sum.splits)
qed simp

interpretation saving: worker_pass "save_each e ids" "\<lambda>i. save_worker_resume_state e (si_resume ids i) i"
proof (unfold_locales, goal_cases)
  case (2 ws i st d n errs ws' d')
  then show ?case by (cases "save_worker_resume_state e (si_resume ids i) i st d") (auto split: sum.splits)
qed simp

section \<open>What the phases leave alone\<close>

text \<open>Workers, sessions and the organisation's row are the same, and every state row still has its worker.\<close>

definition keeps_org :: "db \<Rightarrow> db \<Rightarrow> bool" where
  "keeps_org d d' = (workers d' = workers d \<and> sessions d' = sessions d \<and> org_state d' = org_state d \<and>
     worker_resume_states d' = worker_resume_states d \<and> (states_wf d \<longrightarrow> states_wf d'))"

lemma keeps_org_refl [simp]: "keeps_org d d"
  by (simp add: keeps_org_def)

lemma keeps_org_trans: "keeps_org d d1 \<Longrightarrow> keeps_org d1 d2 \<Longrightarrow> keeps_org d d2"
  by (auto simp: keeps_org_def)

lemma keeps_org_other:
  assumes "workers d' = workers d" "sessions d' = sessions d" "org_state d' = org_state d" "worker_states d' = worker_states d"
    "worker_resume_states d' = worker_resume_states d"
  shows "keeps_org d d'"
  using assms by (simp add: keeps_org_def states_wf_def worker_exists_def)

lemma keeps_org_then:
  assumes "keeps_org d (snd m)" and "\<And>x d1. keeps_org d1 (snd (f x d1))"
  shows "keeps_org d (snd (and_then m f))"
  using assms(1) keeps_org_trans [OF assms(1) assms(2)] by (cases m) (auto simp: and_then_def split: sum.splits)

lemma keeps_org_channel: "keeps_org d (snd (create_channel e fresh nm ty team cid d))"
  by (simp add: create_channel_def Let_def keeps_org_other split: option.split)

lemma keeps_org_channels: "keeps_org d (snd (create_missing_channels e fresh cs d))"
proof (induction cs arbitrary: d)
  case (Cons c rest)
  then show ?case by (cases c) (auto intro!: keeps_org_then keeps_org_channel split: option.split)
qed simp

lemma keeps_org_signal: "keeps_org d (snd (record_activity_signal e i w ty strength md d))"
proof -
  have "keeps_org d (touch_worker_state e w (d\<lparr>activity_signals := x\<rparr>))" for x
    by (auto simp: touch_worker_state_def keeps_org_def states_wf_def worker_exists_def update_where_set
        update_where_def comp_def if_distrib cong: if_cong)
  then show ?thesis by (simp add: record_activity_signal_def Let_def keeps_org_other)
qed

lemma keeps_org_message: "keeps_org d (snd (create_message e fresh sid n d))"
proof -
  have "keeps_org d (snd (insert_message_row m d))" for m d
    by (simp add: insert_message_row_def keeps_org_other)
  then show ?thesis by (auto simp: create_message_def Let_def intro!: keeps_org_then keeps_org_signal)
qed

lemma keeps_org_notification: "keeps_org d (snd (create_notification_bead e fresh w mid c p nid ex d))"
  by (simp add: create_notification_bead_def Let_def keeps_org_other)

lemma keeps_org_wrapup: "keeps_org d (snd (send_wrapup e ids general sender graceful i st d))"
  by (auto simp: send_wrapup_def Let_def intro!: keeps_org_then keeps_org_message keeps_org_notification)

lemma send_each_frame:
  assumes "send_each e ids general sender graceful ws d = (n, errs, ws', d')"
  shows "keeps_org d d'" and "map fst ws' = map fst ws"
  using sending.pass_keeps [where I = "keeps_org d", OF assms] sending.keys_kept [OF assms]
  by (auto intro: keeps_org_trans keeps_org_wrapup)

text \<open>The object: its cache agrees with the row, also when another part of the database changed.\<close>

lemma coherent_db: "org_coherent s \<Longrightarrow> org_state d = org_state (og_db s) \<Longrightarrow> org_coherent (s\<lparr>og_db := d\<rparr>)"
  by (simp add: org_coherent_def)

definition keeps_object :: "orgst \<Rightarrow> orgst \<Rightarrow> bool" where
  "keeps_object s s' = (org_coherent s' \<and> keeps_org (og_db s) (og_db s'))"

lemma keeps_object_trans: "keeps_object s s1 \<Longrightarrow> keeps_object s1 s2 \<Longrightarrow> keeps_object s s2"
  by (auto simp: keeps_object_def intro: keeps_org_trans)

lemma wrapup_requests_frame:
  assumes "send_wrapup_requests e ids graceful ws s = (ph, errs, ws', s')" and "org_coherent s"
  shows "keeps_object s s'" and "map fst ws' = map fst ws"
proof -
  let ?made = "case get_channel_by_name (og_db s) ''general'' of
      Some _ \<Rightarrow> ok [] (og_db s) | None \<Rightarrow> create_default_org_channels e (si_channel ids) (og_db s)"
  obtain x d1 where made: "?made = (x, d1)" by (cases ?made) auto
  have d1: "keeps_org (og_db s) d1"
    using made keeps_org_channels [of "og_db s" e "si_channel ids" default_channels]
    by (auto simp: create_default_org_channels_def split: option.splits)
  then have c1: "org_coherent (s\<lparr>og_db := d1\<rparr>)" using assms(2) by (simp add: coherent_db keeps_org_def)
  let ?s1 = "load_org_state (s\<lparr>og_db := d1\<rparr>)"
  have sent: "keeps_org (og_db s) d2 \<and> org_coherent (?s1\<lparr>og_db := d2\<rparr>) \<and> map fst ws2 = map fst ws"
    if "send_each e ids g snd' graceful ws d1 = (n, errs2, ws2, d2)" for g snd' n errs2 ws2 d2
    using send_each_frame [OF that] d1 c1 keeps_org_trans [OF d1]
    by (auto intro!: coherent_db simp: keeps_org_def)
  show "keeps_object s s'" "map fst ws' = map fst ws"
    using assms made d1 c1 sent
    by (auto simp: send_wrapup_requests_def Let_def keeps_object_def og_ceo_eq
        split: if_splits option.splits sum.splits prod.splits)
qed

section \<open>Waiting comes to an end\<close>

text \<open>Every round takes at least the poll interval; other processes leave alone what a stop relies on.\<close>

definition ticking :: "(nat \<Rightarrow> datetime) \<Rightarrow> bool" where
  "ticking clock = (\<forall>n. clock n + 2 * second \<le> clock (Suc n))"

definition calm :: "(nat \<Rightarrow> db \<Rightarrow> db) \<Rightarrow> bool" where
  "calm world = (\<forall>n d. keeps_org d (world n d))"

lemma poll_keys: "poll_for_acks t d ws = (new, ws') \<Longrightarrow> map fst ws' = map fst ws"
  by (auto simp: poll_for_acks_def poll_worker_def)

lemma wait_loop_returns:
  assumes "ticking clock" and "calm world"
  shows "\<exists>acks' ws' d'. wait_loop clock world deadline expected n acks ws d = Some (acks', ws', d') \<and>
    keeps_org d d' \<and> map fst ws' = map fst ws"
proof (induction "nat (deadline - clock n)" arbitrary: n acks ws d rule: less_induct)
  case less
  show ?case
  proof (cases "clock n < deadline")
    case True
    obtain new ws1 where p: "poll_for_acks (clock n) d ws = (new, ws1)" by (cases "poll_for_acks (clock n) d ws")
    have "clock n + 2 * second \<le> clock (Suc n)" using assms(1) by (simp add: ticking_def)
    then have "nat (deadline - clock (Suc n)) < nat (deadline - clock n)"
      using True by (simp add: second_def)
    from less.hyps [OF this, of "acks + new" ws1 "world n d"] obtain acks' ws' d' where
      r: "wait_loop clock world deadline expected (Suc n) (acks + new) ws1 (world n d) = Some (acks', ws', d')"
        "keeps_org (world n d) d'" "map fst ws' = map fst ws1" by blast
    moreover have "keeps_org d (world n d)" using assms(2) by (simp add: calm_def)
    ultimately show ?thesis
      using True p poll_keys [OF p] keeps_org_trans by (subst wait_loop.simps) auto
  qed (subst wait_loop.simps, auto)
qed

lemma waiting_frame:
  assumes "ticking clock" and "calm world" and "org_coherent s"
  shows "\<exists>ph ws' s'. wait_for_acknowledgements e clock world ws s = Some (ph, ws', s') \<and>
    keeps_object s s' \<and> map fst ws' = map fst ws"
proof (cases "ws = []")
  case False
  obtain acks ws' d' where "wait_loop clock world (now e + ack_timeout ws * second) (length ws) 0 0 ws (og_db s) = Some (acks, ws', d')"
    "keeps_org (og_db s) d'" "map fst ws' = map fst ws" using wait_loop_returns [OF assms(1,2)] by blast
  then show ?thesis using False assms(3)
    by (auto simp: wait_for_acknowledgements_def keeps_object_def intro!: coherent_db simp: keeps_org_def)
qed (use assms(3) in \<open>simp add: wait_for_acknowledgements_def keeps_object_def\<close>)

lemma wrap_up_frame:
  assumes "ticking clock" and "calm world" and "org_coherent s"
  shows "\<exists>r' ws' s'. wrap_up e clock world ids graceful r ws s = Some (r', ws', s') \<and>
    keeps_object s s' \<and> map fst ws' = map fst ws"
proof -
  obtain ph errs ws2 s2 where p2: "send_wrapup_requests e ids graceful ws s = (ph, errs, ws2, s2)"
    by (metis prod_cases4)
  note f = wrapup_requests_frame [OF p2 assms(3)]
  then have "org_coherent s2" by (simp add: keeps_object_def)
  from waiting_frame [OF assms(1,2) this, of e ws2] obtain ph3 ws3 s3 where
    "wait_for_acknowledgements e clock world ws2 s2 = Some (ph3, ws3, s3)" "keeps_object s2 s3" "map fst ws3 = map fst ws2"
    by blast
  then show ?thesis using p2 f keeps_object_trans by (auto simp: wrap_up_def)
qed

section \<open>Sessions\<close>

definition installed :: "spawner \<Rightarrow> bool" where
  "installed sp = (sp_tmux_cmd sp \<noteq> None \<and> sp_tmux_cmd sp \<noteq> Some [])"

abbreviation returns :: "('s, 'a) outcome \<Rightarrow> bool" where
  "returns out \<equiv> \<not> isl (fst out)"

lemma returns_then: "returns m \<Longrightarrow> (\<And>x s. returns (f x s)) \<Longrightarrow> returns (and_then m f)"
  by (cases m) (auto simp: and_then_def split: sum.splits)

lemma run_tmux_installed: "installed sp \<Longrightarrow> returns (run_tmux sp tmux args t)"
  by (auto simp: run_tmux_def installed_def split: option.split prod.split)

lemma tmux_succeeds_installed: "installed sp \<Longrightarrow> returns (tmux_succeeds sp tmux args t)"
  by (simp add: tmux_succeeds_def returns_then run_tmux_installed)

lemma tmux_stop_installed: "installed sp \<Longrightarrow> returns (tmux_stop sp tmux i force t)"
  by (simp add: tmux_stop_def tmux_succeeds_installed returns_then run_tmux_installed split: sum.split)

lemma kill_if_alive_installed: "installed sp \<Longrightarrow> returns (kill_if_alive sp tmux force nm t)"
  by (simp add: kill_if_alive_def is_alive_def returns_then tmux_succeeds_installed tmux_stop_installed split: option.split)

text \<open>The keys of the sessions table: ids and workers are not empty, and the workers exist.\<close>

definition sessions_sound :: "db \<Rightarrow> bool" where
  "sessions_sound d =
     (\<forall>s \<in> set (sessions d). ss_id s \<noteq> [] \<and> ss_worker_id s \<noteq> [] \<and> worker_exists d (ss_worker_id s))"

lemma runtime_update_tables:
  "sessions (snd (update_worker_runtime_status e i rs task d)) = sessions d"
  "org_state (snd (update_worker_runtime_status e i rs task d)) = org_state d"
  "worker_resume_states (snd (update_worker_runtime_status e i rs task d)) = worker_resume_states d"
  "workers (snd (update_worker_runtime_status e i rs task d)) = workers d"
  by (auto simp: update_worker_runtime_status_def Let_def bus_publish_def insert_worker_state_row_def
      log_status_change_def split: option.splits)

text \<open>A worker that is stopped and has no task.\<close>

definition at_rest :: "db \<Rightarrow> ident \<Rightarrow> bool" where
  "at_rest d i = (\<exists>w. get_worker_state d i = Some w \<and> ws_runtime_status w = Stopped \<and> ws_current_task_id w = None)"

lemma runtime_update_rests:
  assumes "states_wf d" and "worker_exists d i"
  shows "\<exists>d'. update_worker_runtime_status e i Stopped None d = ok () d' \<and> states_wf d' \<and> at_rest d' i \<and>
    (\<forall>j. at_rest d j \<longrightarrow> at_rest d' j)"
proof -
  note f = runtime_update_facts [OF assms(1), where e = e and i = i and rs = Stopped and task = None]
  obtain res d' where u: "update_worker_runtime_status e i Stopped None d = (res, d')"
    by (cases "update_worker_runtime_status e i Stopped None d")
  show ?thesis
  proof (cases res)
    case (Inr x)
    have "at_rest d' j" if "at_rest d j" for j
      using f that u Inr by (cases "j = i") (auto simp: at_rest_def)
    then show ?thesis using f u Inr by (auto simp: at_rest_def)
  qed (use f u assms(2) in auto)
qed

text \<open>What stopping the sessions of a list does to the database.\<close>

definition sessions_gone :: "session_row list \<Rightarrow> db \<Rightarrow> db \<Rightarrow> bool" where
  "sessions_gone ss d d' =
     (sessions d' = filter (\<lambda>x. ss_id x \<notin> ss_id ` set ss) (sessions d) \<and> workers d' = workers d \<and>
      org_state d' = org_state d \<and> worker_resume_states d' = worker_resume_states d \<and> states_wf d' \<and>
      (\<forall>s \<in> set ss. at_rest d' (ss_worker_id s)) \<and> (\<forall>j. at_rest d j \<longrightarrow> at_rest d' j))"

definition stoppable :: "db \<Rightarrow> session_row \<Rightarrow> bool" where
  "stoppable d s = (ss_id s \<noteq> [] \<and> ss_worker_id s \<noteq> [] \<and> worker_exists d (ss_worker_id s))"

lemma note_kill_counts [simp]:
  "sa_sessions_stopped (note_kill s k r) = sa_sessions_stopped r"
  "sa_sessions_found (note_kill s k r) = sa_sessions_found r"
  by (auto simp: note_kill_def split: option.split bool.split)

lemma stop_one_effect:
  assumes "installed sp" and "states_wf d" and "stoppable d s"
  shows "\<exists>r' d' t'. stop_one e sp tmux force s (r, d, t) = (r', d', t') \<and> sessions_gone [s] d d' \<and>
    sa_sessions_stopped r' = Suc (sa_sessions_stopped r) \<and> sa_sessions_found r' = sa_sessions_found r"
proof -
  obtain k t1 where k: "kill_if_alive sp tmux force (ss_tmux_session_name s) t = ok k t1"
    using kill_if_alive_installed [OF assms(1), of tmux force "ss_tmux_session_name s" t]
    by (cases "kill_if_alive sp tmux force (ss_tmux_session_name s) t"; cases "fst (kill_if_alive sp tmux force (ss_tmux_session_name s) t)") auto
  define d1 where "d1 = snd (delete_session_record 0 (ss_id s) d)"
  have d1: "states_wf d1" "worker_exists d1 (ss_worker_id s)" "\<And>j. at_rest d1 j = at_rest d j"
    using assms(2,3) by (simp_all add: d1_def delete_session_record_def states_wf_def worker_exists_def stoppable_def
        at_rest_def get_worker_state_def)
  from runtime_update_rests [OF d1(1,2), of e] obtain d2 where
    d2: "update_worker_runtime_status e (ss_worker_id s) Stopped None d1 = ok () d2" "states_wf d2"
      "at_rest d2 (ss_worker_id s)" "\<And>j. at_rest d1 j \<Longrightarrow> at_rest d2 j" by blast
  have "sessions_gone [s] d d2"
    using d1 d2 runtime_update_tables [of e "ss_worker_id s" Stopped None d1]
    by (simp add: sessions_gone_def d1_def delete_session_record_def delete_where_def)
  then show ?thesis using k d2(1) assms(3)
    by (simp add: stop_one_def Let_def stoppable_def d1_def)
qed

lemma sessions_gone_Cons:
  assumes "sessions_gone [s] d d1" and "sessions_gone ss d1 d2"
  shows "sessions_gone (s # ss) d d2"
  using assms by (auto simp: sessions_gone_def conj_commute)

lemma stop_each_session:
  assumes "installed sp" and "states_wf d" and "\<forall>s \<in> set ss. stoppable d s"
  shows "\<exists>r' d' t'. fold (stop_one e sp tmux force) ss (r, d, t) = (r', d', t') \<and> sessions_gone ss d d' \<and>
    sa_sessions_stopped r' = sa_sessions_stopped r + length ss \<and> sa_sessions_found r' = sa_sessions_found r"
  using assms(2,3)
proof (induction ss arbitrary: r d t)
  case (Cons s ss)
  from stop_one_effect [OF assms(1) Cons.prems(1), of s e tmux force r t] Cons.prems obtain r1 d1 t1 where
    1: "stop_one e sp tmux force s (r, d, t) = (r1, d1, t1)" "sessions_gone [s] d d1"
      "sa_sessions_stopped r1 = Suc (sa_sessions_stopped r)" "sa_sessions_found r1 = sa_sessions_found r" by auto
  then have "states_wf d1" and "\<forall>s \<in> set ss. stoppable d1 s"
    using Cons.prems(2) by (auto simp: sessions_gone_def stoppable_def worker_exists_def)
  from Cons.IH [OF this, of r1 t1] obtain r2 d2 t2 where
    "fold (stop_one e sp tmux force) ss (r1, d1, t1) = (r2, d2, t2)" "sessions_gone ss d1 d2"
    "sa_sessions_stopped r2 = sa_sessions_stopped r1 + length ss" "sa_sessions_found r2 = sa_sessions_found r1" by blast
  then show ?case using 1 sessions_gone_Cons [OF 1(2)] by auto
qed (simp add: sessions_gone_def)

lemma active_mem: "s \<in> set (get_active_sessions d) \<longleftrightarrow> s \<in> set (sessions d) \<and> ss_state s \<in> set active_session_states"
  by (auto simp: get_active_sessions_def fetchall_def)

lemma active_gone: "sessions_gone (get_active_sessions d) d d' \<Longrightarrow> get_active_sessions d' = []"
  using active_mem [of _ d] active_mem [of _ d'] by (fastforce simp: sessions_gone_def intro: list.set_sel(1))

lemma stop_sessions_db_effect:
  assumes "installed sp" and "states_wf d" and "sessions_sound d"
  shows "\<exists>r d' t'. stop_sessions_db e sp tmux force (d, t) = (r, d', t') \<and> sessions_gone (get_active_sessions d) d d' \<and>
    sa_sessions_stopped r = length (get_active_sessions d)"
proof -
  have "\<forall>s \<in> set (get_active_sessions d). stoppable d s"
    using assms(3) by (simp add: sessions_sound_def stoppable_def active_mem)
  from stop_each_session [OF assms(1,2) this, of e tmux force _ t] obtain r d' t' where
    "stop_all_sessions e sp tmux force (d, t) = (r, d', t')" "sessions_gone (get_active_sessions d) d d'"
    "sa_sessions_stopped r = length (get_active_sessions d)" "sa_sessions_found r = length (get_active_sessions d)"
    unfolding stop_all_sessions_def Let_def fst_conv by force
  then show ?thesis by (simp add: stop_sessions_db_def)
qed

section \<open>The worker table\<close>

lemma dict_set_keys: "fst ` set (dict_set k v kvs) = insert k (fst ` set kvs)"
  by (induction k v kvs rule: dict_set.induct) auto

lemma prepared_workers:
  assumes "\<forall>s \<in> set ss. stoppable d s"
  shows "fst ` set (fold (prepare_worker d) ss ws) = ss_worker_id ` set ss \<union> fst ` set ws"
  using assms
proof (induction ss arbitrary: ws)
  case (Cons s ss)
  then have "get_worker d (ss_worker_id s) \<noteq> None"
    by (auto simp: stoppable_def get_worker_def worker_exists_def fetchone_eq_None_iff)
  then obtain w where "get_worker d (ss_worker_id s) = Some w" by blast
  then have "fst ` set (prepare_worker d s ws) = insert (ss_worker_id s) (fst ` set ws)"
    using Cons.prems by (simp add: prepare_worker_def stoppable_def dict_set_keys)
  then show ?case using Cons by auto
qed simp

text \<open>The last three phases keep the sessions as they are and the workers at rest.\<close>

definition rested :: "db \<Rightarrow> ident set \<Rightarrow> db \<Rightarrow> bool" where
  "rested d0 ids d = (workers d = workers d0 \<and> sessions d = sessions d0 \<and> org_state d = org_state d0 \<and> states_wf d \<and>
     (\<forall>i \<in> ids. worker_exists d i))"

lemma rested_runtime:
  assumes "rested d0 ids d" and "i \<in> ids"
  shows "rested d0 ids (snd (update_worker_runtime_status e i Stopped None d))"
    and "returns (update_worker_runtime_status e i Stopped None d)"
    and "at_rest (snd (update_worker_runtime_status e i Stopped None d)) i"
    and "at_rest d j \<Longrightarrow> at_rest (snd (update_worker_runtime_status e i Stopped None d)) j"
proof -
  from runtime_update_rests [of d i e] assms obtain d' where
    u: "update_worker_runtime_status e i Stopped None d = ok () d'" "states_wf d'" "at_rest d' i"
      "\<And>j. at_rest d j \<Longrightarrow> at_rest d' j" by (auto simp: rested_def)
  then show "rested d0 ids (snd (update_worker_runtime_status e i Stopped None d))"
    using assms(1) runtime_update_tables [of e i Stopped None d] by (auto simp: rested_def worker_exists_def)
  show "returns (update_worker_runtime_status e i Stopped None d)"
    "at_rest (snd (update_worker_runtime_status e i Stopped None d)) i"
    "at_rest d j \<Longrightarrow> at_rest (snd (update_worker_runtime_status e i Stopped None d)) j"
    using u by simp_all
qed

lemma states_update_effect:
  assumes "stop_each e ws d = (n, errs, ws', d')" and "states_wf d" and "\<forall>i \<in> fst ` set ws. worker_exists d i"
  shows "n = length ws \<and> errs = [] \<and> rested d (fst ` set ws) d' \<and> (\<forall>i \<in> fst ` set ws. at_rest d' i) \<and>
    map fst ws' = map fst ws"
  using stopping.pass_establishes [where I = "rested d (fst ` set ws)" and P = "\<lambda>i d. at_rest d i", OF assms(1)]
    rested_runtime [where e = e and ids = "fst ` set ws" and ?d0.0 = d] stopping.keys_kept [OF assms(1)] assms(2,3)
  by (simp add: rested_def)

text \<open>The one snapshot of a worker, with neither a task nor a session, good until \<open>t\<close>.\<close>

definition empty_snapshot :: "datetime \<Rightarrow> db \<Rightarrow> ident \<Rightarrow> bool" where
  "empty_snapshot t d i =
     (\<exists>r. filter (\<lambda>r. re_worker_id r = i) (worker_resume_states d) = [r] \<and> re_expires_at r = t \<and> re_consumed_at r = None \<and>
        re_current_task_id r = None \<and> re_session_provider r = None \<and> re_session_model r = None \<and>
        re_working_directory r = None)"

abbreviation resume_until :: "env \<Rightarrow> datetime" where
  "resume_until e \<equiv> now e + RESUME_STATE_TTL_HOURS * hour"

lemma save_keeps:
  "workers (snd (save_worker_resume_state e rid i st d)) = workers d"
  "sessions (snd (save_worker_resume_state e rid i st d)) = sessions d"
  "org_state (snd (save_worker_resume_state e rid i st d)) = org_state d"
  "worker_states (snd (save_worker_resume_state e rid i st d)) = worker_states d"
  by (simp_all add: save_worker_resume_state_def)

lemma save_snapshot:
  assumes "worker_exists d i" and "at_rest d i" and "i \<notin> ss_worker_id ` set (sessions d)"
  shows "returns (save_worker_resume_state e rid i st d)" and "empty_snapshot (resume_until e) (snd (save_worker_resume_state e rid i st d)) i"
proof -
  have "fetchone (\<lambda>s. ss_worker_id s = i) (sessions d) = None" using assms(3) by (auto simp: fetchone_eq_None_iff)
  then show "returns (save_worker_resume_state e rid i st d)" "empty_snapshot (resume_until e) (snd (save_worker_resume_state e rid i st d)) i"
    using assms(1,2)
    by (auto simp: save_worker_resume_state_def empty_snapshot_def resume_snapshot_def at_rest_def Let_def delete_where_def
        filter_empty_conv)
qed

text \<open>The ids drawn for the snapshots are new and differ from worker to worker.\<close>

definition own_resume_ids :: "stop_ids \<Rightarrow> db \<Rightarrow> bool" where
  "own_resume_ids ids d = (inj (si_resume ids) \<and>
     (\<forall>r \<in> set (worker_resume_states d). re_id r \<in> range (si_resume ids) \<longrightarrow> re_id r = si_resume ids (re_worker_id r)))"

lemma save_own_ids:
  "own_resume_ids ids d \<Longrightarrow> own_resume_ids ids (snd (save_worker_resume_state e (si_resume ids i) i st d))"
  by (auto simp: own_resume_ids_def save_worker_resume_state_def resume_snapshot_def Let_def)

lemma save_other:
  assumes "empty_snapshot (resume_until e) d j" and "own_resume_ids ids d" and "i \<noteq> j"
  shows "empty_snapshot (resume_until e) (snd (save_worker_resume_state e (si_resume ids i) i st d)) j"
proof -
  let ?rows = "worker_resume_states d" and ?gone = "\<lambda>r. re_id r = si_resume ids i \<or> re_worker_id r = i"
  have "filter (\<lambda>r. re_worker_id r = j) (filter (\<lambda>r. \<not> ?gone r) ?rows) = filter (\<lambda>r. re_worker_id r = j) ?rows"
    unfolding filter_filter using assms(2,3) by (intro filter_cong) (auto simp: own_resume_ids_def inj_def)
  then show ?thesis using assms(1,3)
    by (auto simp: save_worker_resume_state_def empty_snapshot_def delete_where_def resume_snapshot_def Let_def)
qed

text \<open>The database between phase 5 and the end: no session of the prepared workers, who are at rest.\<close>

definition ready_to_save :: "db \<Rightarrow> stop_ids \<Rightarrow> ident set \<Rightarrow> db \<Rightarrow> bool" where
  "ready_to_save d0 ids wids d =
     (rested d0 wids d \<and> own_resume_ids ids d \<and> (\<forall>i \<in> wids. at_rest d i \<and> i \<notin> ss_worker_id ` set (sessions d)))"

lemma ready_to_save_step:
  assumes "ready_to_save d0 ids wids d" and "i \<in> wids"
  shows "ready_to_save d0 ids wids (snd (save_worker_resume_state e (si_resume ids i) i st d))"
    and "returns (save_worker_resume_state e (si_resume ids i) i st d)"
    and "empty_snapshot (resume_until e) (snd (save_worker_resume_state e (si_resume ids i) i st d)) i"
    and "empty_snapshot (resume_until e) d j \<Longrightarrow> empty_snapshot (resume_until e) (snd (save_worker_resume_state e (si_resume ids i) i st d)) j"
proof -
  show "ready_to_save d0 ids wids (snd (save_worker_resume_state e (si_resume ids i) i st d))"
    using assms save_own_ids [of ids d e i st] save_keeps [of e "si_resume ids i" i st d]
    by (auto simp: ready_to_save_def rested_def states_wf_def worker_exists_def at_rest_def get_worker_state_def)
  have *: "worker_exists d i" "at_rest d i" "i \<notin> ss_worker_id ` set (sessions d)"
    using assms by (auto simp: ready_to_save_def rested_def)
  show "returns (save_worker_resume_state e (si_resume ids i) i st d)"
    and i: "empty_snapshot (resume_until e) (snd (save_worker_resume_state e (si_resume ids i) i st d)) i"
    by (simp_all add: save_snapshot [OF *])
  show "empty_snapshot (resume_until e) (snd (save_worker_resume_state e (si_resume ids i) i st d)) j" if "empty_snapshot (resume_until e) d j"
    using i save_other [OF that, of ids i] assms(1) by (cases "i = j") (auto simp: ready_to_save_def)
qed

lemma save_each_effect:
  assumes "save_each e ids ws d = (n, errs, ws', d')" and "ready_to_save d0 ids (fst ` set ws) d"
  shows "n = length ws \<and> errs = [] \<and> ready_to_save d0 ids (fst ` set ws) d' \<and> (\<forall>i \<in> fst ` set ws. empty_snapshot (resume_until e) d' i) \<and>
    map fst ws' = map fst ws"
proof -
  have "n = length ws \<and> errs = [] \<and> ready_to_save d0 ids (fst ` set ws) d' \<and> (\<forall>i \<in> fst ` set ws. empty_snapshot (resume_until e) d' i) \<and>
      (\<forall>j. empty_snapshot (resume_until e) d j \<longrightarrow> empty_snapshot (resume_until e) d' j)"
    by (rule saving.pass_establishes [where I = "ready_to_save d0 ids (fst ` set ws)" and P = "\<lambda>i d. empty_snapshot (resume_until e) d i", OF assms])
      (simp_all add: ready_to_save_step)
  then show ?thesis using saving.keys_kept [OF assms(1)] by simp
qed

lemma notification_cleanup_frame:
  "\<exists>ns. snd (run_notification_cleanup e days d) = d\<lparr>notification_beads := ns\<rparr>"
  by (simp add: run_notification_cleanup_def cleanup_old_notifications_def cleanup_expired_notifications_def
      cleanup_orphaned_notifications_def delete_notifications_def) (rule exI, rule refl)

lemma org_stop_db:
  assumes "org_coherent s" and "org_status_of s = OrgRunning"
  shows "\<exists>s' ceo. org_stop e s = ok () s' \<and> og_db s' = update_org_status e OrgStopped ceo (og_db s)"
  using assms
  by (auto simp: org_stop_def validate_transition_eq og_ceo_worker_id_def Let_def load_org_state_def stop_monitors_def)

section \<open>The whole sequence\<close>

text \<open>The state in which the stop ends, as far as the prepared workers are concerned.\<close>

definition stopped_state :: "ident set \<Rightarrow> bool \<Rightarrow> datetime \<Rightarrow> orgst \<Rightarrow> bool" where
  "stopped_state wids saved u s =
     (org_status_of s = OrgStopped \<and> get_active_sessions (og_db s) = [] \<and>
      (\<forall>i \<in> wids. at_rest (og_db s) i \<and> (saved \<longrightarrow> empty_snapshot u (og_db s) i)))"

lemma transition_effect:
  assumes "org_coherent s" and "org_status_of s = OrgRunning" and "get_active_sessions (og_db s) = []"
    and "\<forall>i \<in> wids. at_rest (og_db s) i \<and> (saved \<longrightarrow> empty_snapshot u (og_db s) i)"
  shows "\<exists>ph s'. transition_org_to_stopped e s = (ph, s') \<and> ph_success ph \<and> stopped_state wids saved u s'"
proof -
  let ?s = "load_org_state s"
  have q: "org_coherent ?s" "org_status_of ?s = OrgRunning" using assms(1,2) by (simp, simp add: org_status_of_def)
  from org_stop_db [OF q, of e] obtain s' ceo where
    s': "org_stop e ?s = ok () s'" "og_db s' = update_org_status e OrgStopped ceo (og_db s)" by auto
  have "org_state (og_db s) \<noteq> None" using assms(2) by (auto simp: org_status_of_def split: option.splits)
  then obtain row where "org_state (og_db s) = Some row" by blast
  then have "stopped_state wids saved u s'"
    using assms(3,4) s'(2)
    by (auto simp: stopped_state_def org_status_of_def update_org_status_def set_org_status_def get_active_sessions_def
        at_rest_def empty_snapshot_def get_worker_state_def)
  then show ?thesis using s'(1) assms(1,2) by (simp add: transition_org_to_stopped_def og_status_eq)
qed

lemma no_session_left:
  assumes "sessions_gone (get_active_sessions d) d d'" and "sessions_wf d" and "i \<in> ss_worker_id ` set (get_active_sessions d)"
  shows "i \<notin> ss_worker_id ` set (sessions d')"
proof
  assume "i \<in> ss_worker_id ` set (sessions d')"
  then obtain x where x: "x \<in> set (sessions d')" "ss_worker_id x = i" by auto
  from assms(3) obtain y where y: "y \<in> set (get_active_sessions d)" "ss_worker_id y = i" by auto
  have "x \<in> set (sessions d)" "y \<in> set (sessions d)" "ss_id x \<noteq> ss_id y"
    using assms(1) x y by (auto simp: sessions_gone_def active_mem)
  then show False using assms(2) x y by (auto simp: sessions_wf_def distinct_map dest: inj_onD)
qed

text \<open>Phases 4 to 7 from a running organisation.\<close>

lemma shut_down_effect:
  assumes "installed sp" and "org_coherent s" and "org_status_of s = OrgRunning" and "states_wf (og_db s)"
    and "sessions_sound (og_db s)" and "sessions_wf (og_db s)" and "own_resume_ids ids (og_db s)"
    and wids: "fst ` set ws = ss_worker_id ` set (get_active_sessions (og_db s))"
  shows "\<exists>r' ws' s' t'. shut_down e sp tmux ids force save cleanup r ws (s, t) = (r', ws', s', t') \<and> st_success r' \<and>
    stopped_state (fst ` set ws) save (resume_until e) s' \<and> st_sessions_terminated r' = length (get_active_sessions (og_db s)) \<and>
    st_workers_stopped r' = length ws"
proof -
  let ?d = "og_db s"
  from stop_sessions_db_effect [OF assms(1,4,5), of e tmux force t] obtain q d4 t4 where
    4: "stop_sessions_db e sp tmux force (?d, t) = (q, d4, t4)" "sessions_gone (get_active_sessions ?d) ?d d4"
      "sa_sessions_stopped q = length (get_active_sessions ?d)" by blast
  define ws4 where "ws4 = map (\<lambda>(i, st). (i, st\<lparr>wt_session_stopped := True\<rparr>)) ws"
  define W where "W = fst ` set ws"
  have k4: "fst ` set ws4 = W" "length ws4 = length ws" by (force simp: ws4_def W_def)+
  have g: "workers d4 = workers ?d" "org_state d4 = org_state ?d" "states_wf d4" "worker_resume_states d4 = worker_resume_states ?d"
    using 4(2) by (simp_all add: sessions_gone_def)
  have ex: "\<forall>i \<in> fst ` set ws4. worker_exists d4 i"
    using assms(5) g(1) wids unfolding k4 W_def by (auto simp: sessions_sound_def active_mem worker_exists_def)
  obtain n errs ws5 d5 where 5: "stop_each e ws4 d4 = (n, errs, ws5, d5)" by (metis prod_cases4)
  from states_update_effect [OF 5 g(3) ex] have u: "n = length ws" "rested d4 W d5" "\<forall>i \<in> W. at_rest d5 i"
    and k5: "fst ` set ws5 = W" unfolding k4 by (simp_all, metis k4(1) list.set_map)
  have rows: "worker_resume_states d5 = worker_resume_states d4"
    by (rule stopping.pass_keeps [where I = "\<lambda>d. worker_resume_states d = worker_resume_states d4", OF 5])
      (simp_all add: runtime_update_tables)
  have "i \<notin> ss_worker_id ` set (sessions d5)" if "i \<in> W" for i
    using no_session_left [OF 4(2) assms(6)] u(2) that wids by (simp add: rested_def W_def)
  then have ready: "ready_to_save d4 ids (fst ` set ws5) d5"
    using u g(4) rows assms(7) by (simp add: ready_to_save_def k5 own_resume_ids_def)
  have no_active: "get_active_sessions d5 = []"
    using u(2) active_gone [OF 4(2)] by (simp add: rested_def get_active_sessions_def)
  obtain m errs6 ws6 d6 where 6: "save_each e ids ws5 d5 = (m, errs6, ws6, d6)" by (metis prod_cases4)
  from save_each_effect [OF 6 ready] have v: "ready_to_save d4 ids W d6" "\<forall>i \<in> W. empty_snapshot (resume_until e) d6 i"
    unfolding k5 by simp_all
  have kept: "get_active_sessions d6 = []" "org_state d6 = org_state ?d" "org_state d5 = org_state ?d"
    "\<forall>i \<in> W. at_rest d6 i \<and> empty_snapshot (resume_until e) d6 i" "\<forall>i \<in> W. at_rest d5 i"
    using v u no_active g by (auto simp: ready_to_save_def rested_def get_active_sessions_def)
  define d7 where "d7 = (if save then if cleanup
      then snd (run_notification_cleanup e DEFAULT_NOTIFICATION_RETENTION_DAYS d6) else d6 else d5)"
  obtain ns where ns: "snd (run_notification_cleanup e DEFAULT_NOTIFICATION_RETENTION_DAYS d6) = d6\<lparr>notification_beads := ns\<rparr>"
    using notification_cleanup_frame by blast
  have 7: "get_active_sessions d7 = []" "org_state d7 = org_state ?d"
    "\<forall>i \<in> W. at_rest d7 i \<and> (save \<longrightarrow> empty_snapshot (resume_until e) d7 i)"
    using kept no_active
    by (auto simp: d7_def ns get_active_sessions_def at_rest_def empty_snapshot_def get_worker_state_def)
  let ?s7 = "s\<lparr>og_db := d7\<rparr>"
  from transition_effect [of ?s7 W save "resume_until e" e] 7 assms(2,3) obtain ph s' where
    "transition_org_to_stopped e ?s7 = (ph, s')" "ph_success ph" "stopped_state W save (resume_until e) s'"
    by (auto simp: coherent_db org_status_of_def)
  then show ?thesis
    using 4(1,3) 5 6 u(1) unfolding W_def ws4_def by (auto simp: shut_down_def stop_sessions_def update_worker_states_def persist_state_def Let_def d7_def
        add_phase_def detail_nat_def)
qed

text \<open>A running organisation whose tables are sound, ready for a stop.\<close>

definition stop_ready :: "spawner \<Rightarrow> (nat \<Rightarrow> datetime) \<Rightarrow> (nat \<Rightarrow> db \<Rightarrow> db) \<Rightarrow> orgst \<Rightarrow> bool" where
  "stop_ready sp clock world s =
     (installed sp \<and> ticking clock \<and> calm world \<and> org_coherent s \<and> org_status_of s = OrgRunning \<and>
      states_wf (og_db s) \<and> sessions_sound (og_db s) \<and> sessions_wf (og_db s))"

lemma execute_effect:
  assumes "stop_ready sp clock world s" and "own_resume_ids ids (og_db s)"
  shows "\<exists>r ws s' t'. execute e1 clock world e2 sp tmux ids force save cleanup graceful (s, t) = Some (r, ws, s', t') \<and>
    st_success r \<and> st_sessions_terminated r = length (get_active_sessions (og_db s)) \<and>
    stopped_state (ss_worker_id ` set (get_active_sessions (og_db s))) save (resume_until e2) s'"
proof -
  note a = assms(1) [unfolded stop_ready_def]
  let ?W = "ss_worker_id ` set (get_active_sessions (og_db s))"
  let ?s1 = "load_org_state s" and ?ws = "fold (prepare_worker (og_db s)) (get_active_sessions (og_db s)) []"
  obtain ph1 where 1: "validate_and_prepare s = (ph1, ?ws, ?s1)" "ph_success ph1"
    using a by (simp add: validate_and_prepare_def og_status_eq Let_def)
  have ws: "fst ` set ?ws = ?W"
    using prepared_workers [of "get_active_sessions (og_db s)" "og_db s" "[]"] a
    by (simp add: sessions_sound_def stoppable_def active_mem)
  have c1: "org_coherent ?s1" "keeps_object s ?s1" using a by (simp_all add: keeps_object_def)
  obtain r3 ws3 s3 where 3: "(if force then Some (add_phase ph1 [] new_stop_result, ?ws, ?s1)
        else wrap_up e1 clock world ids graceful (add_phase ph1 [] new_stop_result) ?ws ?s1) = Some (r3, ws3, s3)"
      "keeps_object s s3" "fst ` set ws3 = ?W"
  proof (cases force)
    case False
    from wrap_up_frame [of clock world ?s1 e1 ids graceful "add_phase ph1 [] new_stop_result" ?ws] a c1
    show thesis using that False ws keeps_object_trans [OF c1(2)] by (metis list.set_map)
  qed (use that c1 ws in simp)
  then have k: "org_coherent s3" "keeps_org (og_db s) (og_db s3)" by (simp_all add: keeps_object_def)
  then have same: "get_active_sessions (og_db s3) = get_active_sessions (og_db s)" "org_status_of s3 = OrgRunning"
      "states_wf (og_db s3)" "sessions_sound (og_db s3)" "sessions_wf (og_db s3)" "own_resume_ids ids (og_db s3)"
    using a assms(2) by (simp_all add: keeps_org_def get_active_sessions_def org_status_of_def sessions_sound_def
        sessions_wf_def own_resume_ids_def worker_exists_def)
  have "installed sp" "fst ` set ws3 = ss_worker_id ` set (get_active_sessions (og_db s3))" using a 3(3) same(1) by simp_all
  from shut_down_effect [OF this(1) k(1) same(2-6) this(2), of e2 tmux force save cleanup r3 t]
  obtain r' ws' s' t' where 4: "shut_down e2 sp tmux ids force save cleanup r3 ws3 (s3, t) = (r', ws', s', t')"
      "st_success r'" "stopped_state ?W save (resume_until e2) s'"
      "st_sessions_terminated r' = length (get_active_sessions (og_db s3))"
    unfolding 3(3) by blast
  have "execute e1 clock world e2 sp tmux ids force save cleanup graceful (s, t) = Some (r', ws', s', t')"
    using 1 3(1) 4(1) by (auto simp: execute_def Let_def split: if_splits)
  then show ?thesis using 4 same(1) by auto
qed


lemma fetchone_filter: "fetchone p rows = (case filter p rows of [] \<Rightarrow> None | r # _ \<Rightarrow> Some r)"
  by (induction rows) auto

lemma resume_of_snapshot:
  assumes "empty_snapshot u d i" and "now e < u"
  shows "\<exists>q. get_resume_state e d i = Some q \<and> re_current_task_id q = None \<and> re_session_provider q = None \<and>
    re_session_model q = None \<and> re_working_directory q = None"
proof -
  from assms(1) obtain r where r: "filter (\<lambda>r. re_worker_id r = i) (worker_resume_states d) = [r]" "re_expires_at r = u"
      "re_consumed_at r = None" "re_current_task_id r = None" "re_session_provider r = None" "re_session_model r = None"
      "re_working_directory r = None" by (auto simp: empty_snapshot_def)
  have "filter (\<lambda>r. re_worker_id r = i \<and> re_consumed_at r = None \<and> now e < re_expires_at r) (worker_resume_states d) =
      filter (\<lambda>r. re_consumed_at r = None \<and> now e < re_expires_at r) (filter (\<lambda>r. re_worker_id r = i) (worker_resume_states d))"
    by (simp add: conj_commute)
  then show ?thesis using r assms(2) by (simp add: get_resume_state_def fetchone_filter)
qed

text \<open>
  C38: The snapshots are taken after the sessions were deleted and the runtime states reset: whatever a worker
  was doing when the stop began, the state from which it resumes within the next day names no task, no
  provider, no model and no working directory.
\<close>

theorem snapshot_loses_work:
  assumes "stop_ready sp clock world s" and "own_resume_ids ids (og_db s)"
    and "execute e1 clock world e2 sp tmux ids force True cleanup graceful (s, t) = Some (r, ws, s', t')"
    and "x \<in> set (get_active_sessions (og_db s))" and "now e3 < now e2 + RESUME_STATE_TTL_HOURS * hour"
  shows "\<exists>q. get_resume_state e3 (og_db s') (ss_worker_id x) = Some q \<and> re_current_task_id q = None \<and>
    re_session_provider q = None \<and> re_session_model q = None \<and> re_working_directory q = None"
  using execute_effect [OF assms(1,2), of e1 e2 tmux force True cleanup graceful t] assms(3-5)
  by (intro resume_of_snapshot) (auto simp: stopped_state_def)

text \<open>
  An old answer counts as an acknowledgement. When every worker of the table once acted on any
  notification, the first round of the loop takes them all for acknowledged and the wait is over, before
  anyone could have read the request to wrap up.
\<close>

theorem stale_answers_acknowledge:
  assumes "ws \<noteq> []" and "clock 0 < now e + ack_timeout ws * second"
    and "\<forall>(i, st) \<in> set ws. wt_ack_received_at st = None \<and>
      (\<exists>b \<in> set (notification_beads (og_db s)). n_worker_id b = i \<and> n_status b = NActioned)"
  shows "\<exists>ph ws'. wait_for_acknowledgements e clock world ws s = Some (ph, ws', s) \<and>
    detail_nat ph ''acks_received'' = length ws \<and> unacked ws' = []"
proof -
  have acked: "acked (og_db s) i \<and> wt_ack_received_at st = None" if "(i, st) \<in> set ws" for i st
    using assms(3) that by (fastforce simp: acked_def fetchall_def simp flip: set_empty)
  then have "filter (\<lambda>(i, st). wt_ack_received_at st = None \<and> acked (og_db s) i) ws = ws" by (auto intro: filter_True)
  then have p: "poll_for_acks (clock 0) (og_db s) ws = (length ws, map (poll_worker (clock 0) (og_db s)) ws)"
    by (simp add: poll_for_acks_def)
  have "unacked (map (poll_worker (clock 0) (og_db s)) ws) = []"
    using acked by (force simp: unacked_def poll_worker_def filter_empty_conv)
  then show ?thesis using assms(1,2) p
    by (subst wait_for_acknowledgements_def, subst wait_loop.simps) (simp add: detail_nat_def)
qed

text \<open>
  C29: A resume state is used at most once: what was saved is what the next start within a day reads; once
  consumed it is gone for reading and for consuming again.
\<close>

theorem resume_state_used_once:
  assumes "worker_exists d i" and "now e2 < now e + RESUME_STATE_TTL_HOURS * hour"
  shows "\<exists>d1 d2. save_worker_resume_state e rid i st d = ok () d1 \<and>
    get_resume_state e2 d1 i = Some (resume_snapshot e rid i st d) \<and>
    consume_resume_state e2 i d1 = (True, d2) \<and> get_resume_state e3 d2 i = None \<and>
    consume_resume_state e3 i d2 = (False, d2)"
proof -
  let ?r = "resume_snapshot e rid i st d"
  define old where "old = delete_where (\<lambda>r. re_id r = rid \<or> re_worker_id r = i) (worker_resume_states d)"
  have old: "\<forall>r \<in> set old. re_worker_id r \<noteq> i" by (simp add: old_def)
  have r: "re_worker_id ?r = i" "re_consumed_at ?r = None" "re_expires_at ?r = now e + RESUME_STATE_TTL_HOURS * hour"
    by (simp_all add: resume_snapshot_def Let_def)
  let ?d1 = "d\<lparr>worker_resume_states := old @ [?r]\<rparr>"
  let ?d2 = "d\<lparr>worker_resume_states := old @ [?r\<lparr>re_consumed_at := Some (now e2)\<rparr>]\<rparr>"
  have "save_worker_resume_state e rid i st d = ok () ?d1" using assms(1) by (simp add: save_worker_resume_state_def old_def)
  moreover have "get_resume_state e2 ?d1 i = Some ?r"
    using old r assms(2) by (simp add: get_resume_state_def fetchone_filter filter_empty_conv)
  moreover have "consume_resume_state e2 i ?d1 = (True, ?d2)"
    using old r by (simp add: consume_resume_state_def Let_def rowcount_def update_where_none)
  moreover have "get_resume_state e3 ?d2 i = None"
    using old r by (simp add: get_resume_state_def fetchone_filter filter_empty_conv)
  moreover have "consume_resume_state e3 i ?d2 = (False, ?d2)"
    using old r by (simp add: consume_resume_state_def Let_def rowcount_def update_where_none filter_empty_conv)
  ultimately show ?thesis by blast
qed

section \<open>A stop of the sample organisation\<close>

definition busy_session :: session_row where
  "busy_session = \<lparr>ss_id = ''sess-1'', ss_worker_id = ''eng'', ss_provider = ''claude_code'', ss_model = None,
     ss_command = ''claude'', ss_args = None, ss_working_directory = Some ''/work'',
     ss_tmux_session_name = Some ''qn-eng'', ss_pid = Some 42, ss_state = Running, ss_state_version = 3,
     ss_started_at = Some 5, ss_stopped_at = None, ss_created_at = 5, ss_updated_at = 5\<rparr>"

definition busy_db :: db where
  "busy_db = org_db\<lparr>sessions := [busy_session],
     worker_states := [\<lparr>ws_worker_id = ''eng'', ws_runtime_status = Running, ws_current_task_id = Some ''bead-7'',
       ws_pid = Some 42, ws_started_at = Some 5, ws_last_activity = Some 90, ws_tasks_completed = 2,
       ws_tasks_failed = 0, ws_updated_at = 90\<rparr>],
     org_state := Some \<lparr>os_status = OrgRunning, os_ceo_worker_id = Some ''ceo'', os_started_at = Some 1,
       os_stopped_at = None, os_updated_at = 1\<rparr>\<rparr>"

definition busy_org :: orgst where
  "busy_org = \<lparr>og_db = busy_db, og_obj = \<lparr>og_state_data = None, og_escalation_monitor = True,
     og_activity_reporter = True, og_session_capture = False\<rparr>, og_store = \<lparr>sd_plain = True, sd_frozen = False\<rparr>\<rparr>"

definition some_spawner :: spawner where
  "some_spawner = \<lparr>sp_socket_path = None, sp_tmux_cmd = Some ''/usr/bin/tmux''\<rparr>"

definition resume_ids :: stop_ids where
  "resume_ids = \<lparr>si_channel = (\<lambda>n. ''c-'' @ n), si_message = (\<lambda>i. ''m-'' @ i), si_signal = (\<lambda>_. 1),
     si_notif = (\<lambda>i. ''n-'' @ i), si_resume = (\<lambda>i. ''r-'' @ i)\<rparr>"

definition second_hand :: "nat \<Rightarrow> datetime" where
  "second_hand n = int n * (2 * second)"

lemma busy_org_facts:
  "stop_ready some_spawner second_hand (\<lambda>_ d. d) busy_org" "own_resume_ids resume_ids (og_db busy_org)"
  "get_active_sessions (og_db busy_org) = [busy_session]"
  by (simp_all add: stop_ready_def installed_def some_spawner_def ticking_def second_hand_def calm_def org_coherent_def
      busy_org_def org_status_of_def busy_db_def states_wf_def sessions_sound_def sessions_wf_def worker_exists_def
      busy_session_def org_defs own_resume_ids_def resume_ids_def inj_def get_active_sessions_def fetchall_def
      order_by_desc_def active_session_states_def algebra_simps)


theorem snapshot_loses_work_witness:
  "\<exists>r ws s' t' q. execute witness_env second_hand (\<lambda>_ d. d) witness_env some_spawner (\<lambda>_ t. (Inr (1, []), t)) resume_ids
      True True True None (busy_org, ()) = Some (r, ws, s', t') \<and>
    get_resume_state witness_env (og_db s') ''eng'' = Some q \<and> re_current_task_id q = None \<and> re_session_provider q = None"
proof -
  obtain r ws s' t' where x: "execute witness_env second_hand (\<lambda>_ d. d) witness_env some_spawner (\<lambda>_ t. (Inr (1, []), t))
      resume_ids True True True None (busy_org, ()) = Some (r, ws, s', t')"
    using execute_effect [OF busy_org_facts(1,2), of witness_env witness_env "\<lambda>_ t. (Inr (1, []), t)" True True True None "()"]
    by blast
  have "busy_session \<in> set (get_active_sessions (og_db busy_org))"
    and "now witness_env < now witness_env + RESUME_STATE_TTL_HOURS * hour" and "ss_worker_id busy_session = ''eng''"
    by (simp_all add: busy_org_facts(3) RESUME_STATE_TTL_HOURS_def hour_def minute_def busy_session_def)
  then show ?thesis
    using snapshot_loses_work [OF busy_org_facts(1,2) x, of busy_session witness_env] x by auto
qed

theorem resume_state_used_once_witness:
  "\<exists>d1 d2 st. save_worker_resume_state witness_env ''r-1'' ''eng'' st org_db = ok () d1 \<and>
    consume_resume_state witness_env ''eng'' d1 = (True, d2) \<and> get_resume_state witness_env d2 ''eng'' = None"
proof -
  have "worker_exists org_db ''eng''" and "now witness_env < now witness_env + RESUME_STATE_TTL_HOURS * hour"
    by (simp_all add: worker_exists_def org_defs RESUME_STATE_TTL_HOURS_def hour_def minute_def)
  from resume_state_used_once [OF this, of "''r-1''" _ witness_env] show ?thesis by blast
qed

text \<open>One worker, whose only answer was to a message of the day before.\<close>

definition answered_db :: db where
  "answered_db = busy_db\<lparr>notification_beads := [\<lparr>n_id = ''n-1'', n_worker_id = ''eng'', n_message_id = ''m-1'',
     n_channel_id = ''c-1'', n_status = NActioned, n_priority = 2, n_created_at = 3, n_read_at = Some 4,
     n_actioned_at = Some 4, n_closed_at = None, n_expires_at = None\<rparr>]\<rparr>"

theorem stale_answers_acknowledge_witness:
  "\<exists>ph ws'. wait_for_acknowledgements witness_env second_hand (\<lambda>_ d. d) (prepare_worker busy_db busy_session [])
     (busy_org\<lparr>og_db := answered_db\<rparr>) = Some (ph, ws', busy_org\<lparr>og_db := answered_db\<rparr>) \<and> unacked ws' = []"
proof -
  have ws: "prepare_worker busy_db busy_session [] = [(''eng'', \<lparr>wt_worker_name = ''Eve'', wt_role = ''engineer'',
      wt_timeout_seconds = 60, wt_wrapup_sent_at = None, wt_ack_received_at = None, wt_ack_message = None,
      wt_session_stopped = False, wt_state_saved = False, wt_failed = False\<rparr>)]"
    by (simp add: prepare_worker_def busy_session_def busy_db_def org_defs get_worker_def row_to_worker_def
        get_worker_timeout_def STOP_TIMEOUT_BY_ROLE_def DEFAULT_STOP_TIMEOUT_def ascii_lower_def ascii_lower_char_def)
  have "second_hand 0 < now witness_env + ack_timeout (prepare_worker busy_db busy_session []) * second"
    by (simp add: ws ack_timeout_def second_hand_def second_def witness_env_def)
  moreover have "\<forall>(i, st) \<in> set (prepare_worker busy_db busy_session []). wt_ack_received_at st = None \<and>
      (\<exists>b \<in> set (notification_beads (og_db (busy_org\<lparr>og_db := answered_db\<rparr>))). n_worker_id b = i \<and> n_status b = NActioned)"
    by (simp add: ws answered_db_def)
  ultimately show ?thesis
    using stale_answers_acknowledge [of "prepare_worker busy_db busy_session []" second_hand witness_env
        "busy_org\<lparr>og_db := answered_db\<rparr>" "\<lambda>_ d. d"] unfolding ws by blast
qed

end
