(* ===== verification/Session_Cleanup_Laws.thy ===== *)
theory Session_Cleanup_Laws
  imports Stop_Controller_Laws "HOL-Library.Sublist"
begin

text \<open>
  What the cleanup at the start of the organisation achieves, for a tmux that behaves as documented: after it
  no orphan is left on either side, and nothing else has changed.
\<close>

section \<open>What the code relies on of tmux\<close>

text \<open>
  Session names are distinct, not empty and without spaces; the listing has one name a line. A target that
  is the name of a session means that session; a target without pattern characters that no session's
  name begins with means none. (A target that is the beginning of a name may mean that session.)
\<close>

definition names_ok :: "string list \<Rightarrow> bool" where
  "names_ok ns = (distinct ns \<and> (\<forall>n \<in> set ns. n \<noteq> [] \<and> (\<forall>c \<in> set n. \<not> py_space c)))"

definition plain_target :: "string \<Rightarrow> bool" where
  "plain_target s = (\<forall>c \<in> set s. c \<notin> set ''*?[:.$@%='')"

definition socket_args :: "spawner \<Rightarrow> string list" where
  "socket_args sp = (case sp_socket_path sp of None \<Rightarrow> [] | Some p \<Rightarrow> [''-S'', p])"

definition good_tmux :: "spawner \<Rightarrow> 't tmux \<Rightarrow> ('t \<Rightarrow> string list) \<Rightarrow> bool" where
  "good_tmux sp tmux names = (\<forall>t. names_ok (names t) \<longrightarrow>
     tmux (socket_args sp @ [''list-sessions'', ''-F'', ''#{session_name}'']) t =
       (Inr (0, join_with [newline] (names t) @ [newline]), t) \<and>
     (\<forall>s. \<exists>rc out. tmux (socket_args sp @ [''has-session'', ''-t'', s]) t = (Inr (rc, out), t) \<and>
        (s \<in> set (names t) \<longrightarrow> rc = 0) \<and>
        (plain_target s \<longrightarrow> (\<forall>n \<in> set (names t). \<not> prefix s n) \<longrightarrow> rc \<noteq> 0)) \<and>
     (\<forall>s. s \<in> set (names t) \<longrightarrow> (\<exists>out t'. tmux (socket_args sp @ [''kill-session'', ''-t'', s]) t = (Inr (0, out), t') \<and>
        names t' = removeAll s (names t))))"

lemma run_tmux_eq:
  "installed sp \<Longrightarrow> run_tmux sp tmux args t = (case tmux (socket_args sp @ args) t of (r, t') \<Rightarrow> ok r t')"
  by (auto simp: run_tmux_def installed_def socket_args_def split: option.split)

section \<open>The listing is read back\<close>

lemma join_with_last:
  "ns \<noteq> [] \<Longrightarrow> \<forall>n \<in> set ns. n \<noteq> [] \<Longrightarrow> join_with sep ns \<noteq> [] \<and> last (join_with sep ns) = last (last ns) \<and> hd (join_with sep ns) = hd (hd ns)"
  by (induction sep ns rule: join_with.induct) auto

lemma split_on_plain: "sep \<notin> set n \<Longrightarrow> split_on sep n = [n]"
  by (induction n) auto

lemma split_on_append: "sep \<notin> set n \<Longrightarrow> split_on sep (n @ sep # rest) = n # split_on sep rest"
  by (induction n) auto

lemma split_join:
  "ns \<noteq> [] \<Longrightarrow> \<forall>n \<in> set ns. sep \<notin> set n \<Longrightarrow> split_on sep (join_with [sep] ns) = ns"
  by (induction "[sep]" ns rule: join_with.induct) (auto simp: split_on_plain split_on_append)

lemma dropWhile_hd: "s \<noteq> [] \<Longrightarrow> \<not> P (hd s) \<Longrightarrow> dropWhile P s = s"
  by (cases s) auto

lemma py_space_newline: "py_space newline"
  by (simp add: py_space_def Let_def)

lemma py_strip_id: "s \<noteq> [] \<Longrightarrow> \<not> py_space (hd s) \<Longrightarrow> \<not> py_space (last s) \<Longrightarrow> py_strip s = s"
  by (simp add: py_strip_def dropWhile_hd hd_rev)

lemma py_strip_newline: "s \<noteq> [] \<Longrightarrow> \<not> py_space (hd s) \<Longrightarrow> \<not> py_space (last s) \<Longrightarrow> py_strip (s @ [newline]) = s"
  by (simp add: py_strip_def dropWhile_hd [of "s @ [newline]"] dropWhile_hd [of "rev s"] hd_rev py_space_newline)

lemma listing_read:
  assumes "names_ok ns"
  shows "map py_strip (filter (\<lambda>s. py_strip s \<noteq> []) (split_on newline (py_strip (join_with [newline] ns @ [newline])))) = ns"
proof (cases "ns = []")
  case True
  then show ?thesis by (simp add: py_strip_def py_space_newline)
next
  case False
  have n: "n \<noteq> []" "\<And>c. c \<in> set n \<Longrightarrow> \<not> py_space c" if "n \<in> set ns" for n
    using assms that by (auto simp: names_ok_def)
  have sep: "newline \<notin> set n" if "n \<in> set ns" for n using n(2) [OF that] py_space_newline by blast
  let ?j = "join_with [newline] ns"
  have "?j \<noteq> []" "last ?j = last (last ns)" "hd ?j = hd (hd ns)" using join_with_last [OF False] n(1) by auto
  then have "py_strip (?j @ [newline]) = ?j"
    using False n by (intro py_strip_newline) (metis last_in_set list.set_sel(1))+
  moreover have "split_on newline ?j = ns" using False sep by (intro split_join) auto
  moreover have s: "py_strip n = n" if "n \<in> set ns" for n
    using n [OF that] by (intro py_strip_id) (auto simp: list.set_sel(1))
  moreover have "filter (\<lambda>s. py_strip s \<noteq> []) ns = ns" using s n(1) by (auto intro: filter_True)
  moreover have "map py_strip ns = ns" using s by (auto intro: map_idI)
  ultimately show ?thesis by simp
qed

lemma list_sessions_names:
  assumes "good_tmux sp tmux names" and "installed sp" and "names_ok (names t)"
  shows "list_sessions sp tmux t = ok (names t) t"
  using assms(1,3) listing_read [OF assms(3)] by (simp add: list_sessions_def run_tmux_eq [OF assms(2)] good_tmux_def)

lemma is_alive_names:
  assumes "good_tmux sp tmux names" and "installed sp" and "names_ok (names t)"
    and "plain_target s" and "\<forall>n \<in> set (names t). prefix s n \<longrightarrow> n = s"
  shows "is_alive sp tmux s t = ok (s \<in> set (names t)) t"
proof -
  obtain rc out where "tmux (socket_args sp @ [''has-session'', ''-t'', s]) t = (Inr (rc, out), t)"
      "s \<in> set (names t) \<longrightarrow> rc = 0" "(\<forall>n \<in> set (names t). \<not> prefix s n) \<longrightarrow> rc \<noteq> 0"
    using assms(1,3,4) unfolding good_tmux_def by metis
  then show ?thesis using assms(5)
    by (auto simp: is_alive_def tmux_succeeds_def run_tmux_eq [OF assms(2)])
qed

lemma kill_names:
  assumes "good_tmux sp tmux names" and "installed sp" and "names_ok (names t)"
    and "s \<in> set (names t)" and "starts_with TMUX_SESSION_PREFIX s"
  shows "\<exists>t'. tmux_stop sp tmux s True t = ok True t' \<and> names t' = removeAll s (names t)"
proof -
  obtain out t' where "tmux (socket_args sp @ [''kill-session'', ''-t'', s]) t = (Inr (0, out), t')"
      "names t' = removeAll s (names t)"
    using assms(1,3,4) unfolding good_tmux_def by metis
  then show ?thesis using assms(5) by (simp add: tmux_stop_def tmux_succeeds_def run_tmux_eq [OF assms(2)])
qed

section \<open>The two sides of the cleanup\<close>

lemma kill_all:
  assumes "good_tmux sp tmux names" and "installed sp"
    and "names_ok (names t)" and "set ns \<subseteq> set (names t)" and "distinct ns" and "\<forall>n \<in> set ns. starts_with TMUX_SESSION_PREFIX n"
  shows "\<exists>r' t'. kill_orphans sp tmux True (map tmux_orphan ns) (r, t) = (r', t') \<and>
    names t' = filter (\<lambda>n. n \<notin> set ns) (names t) \<and> cr_errors r' = cr_errors r"
  using assms(3-6)
proof (induction ns arbitrary: r t)
  case (Cons n ns)
  have "n \<in> set (names t)" "starts_with TMUX_SESSION_PREFIX n" using Cons.prems by auto
  from kill_names [OF assms(1,2) Cons.prems(1) this] obtain t1 where
    t1: "tmux_stop sp tmux n True t = ok True t1" "names t1 = removeAll n (names t)" by blast
  have "names_ok (names t1)" "set ns \<subseteq> set (names t1)"
    using Cons.prems t1(2) by (auto simp: names_ok_def distinct_removeAll)
  then obtain r' t' where
    "kill_orphans sp tmux True (map tmux_orphan ns)
       (r\<lparr>cr_orphaned_tmux_sessions := cr_orphaned_tmux_sessions r @ [n],
          cr_tmux_sessions_killed := Suc (cr_tmux_sessions_killed r)\<rparr>, t1) = (r', t')"
    "names t' = filter (\<lambda>n. n \<notin> set ns) (names t1)" "cr_errors r' = cr_errors r"
    using Cons.IH [of t1 "r\<lparr>cr_orphaned_tmux_sessions := cr_orphaned_tmux_sessions r @ [n],
          cr_tmux_sessions_killed := Suc (cr_tmux_sessions_killed r)\<rparr>"] Cons.prems by auto
  moreover have "filter (\<lambda>n. n \<notin> set ns) (names t1) = filter (\<lambda>m. m \<notin> set (n # ns)) (names t)"
    unfolding t1(2) removeAll_filter_not_eq filter_filter by (rule filter_cong) auto
  ultimately show ?case using t1(1) by (simp add: tmux_orphan_def [of n] Let_def)
qed simp

text \<open>A record is stale when its tmux session is not among the live ones.\<close>

definition stale_record :: "string list \<Rightarrow> session_row \<Rightarrow> bool" where
  "stale_record ns s = (case ss_tmux_session_name s of None \<Rightarrow> False | Some n \<Rightarrow> n \<noteq> [] \<and> n \<notin> set ns)"

definition stale_orphan :: "session_row \<Rightarrow> orphaned_session" where
  "stale_orphan s = \<lparr>orp_session_name = or_default (ss_tmux_session_name s) [], orp_source = FromDatabase,
     orp_worker_id = Some (ss_worker_id s), orp_session_id = Some (ss_id s), orp_state = Some (ss_state s)\<rparr>"

text \<open>The names in the records are proper targets: no live session's name merely begins with one.\<close>

definition proper_names :: "string list \<Rightarrow> session_row list \<Rightarrow> bool" where
  "proper_names ns ss = (\<forall>s \<in> set ss. \<forall>n. ss_tmux_session_name s = Some n \<longrightarrow> plain_target n \<and> (\<forall>m \<in> set ns. prefix n m \<longrightarrow> m = n))"

lemma stale_among_names:
  assumes "good_tmux sp tmux names" and "installed sp" and "names_ok (names t)" and "proper_names (names t) ss"
  shows "stale_among sp tmux ss t = ok (map stale_orphan (filter (stale_record (names t)) ss)) t"
  using assms(4)
proof (induction ss)
  case (Cons s ss)
  then have ih: "stale_among sp tmux ss t = ok (map stale_orphan (filter (stale_record (names t)) ss)) t"
    by (simp add: proper_names_def)
  show ?case
  proof (cases "ss_tmux_session_name s")
    case (Some n)
    have "is_alive sp tmux n t = ok (n \<in> set (names t)) t"
      using Cons.prems Some by (intro is_alive_names [OF assms(1-3)]) (auto simp: proper_names_def)
    then show ?thesis using ih Some
      by (auto simp: stale_record_def [of _ s] stale_orphan_def [of s] or_default_def)
  qed (simp add: ih stale_record_def [of _ s])
qed simp

definition crashed_row :: "env \<Rightarrow> session_row \<Rightarrow> session_row" where
  "crashed_row e = session_transition_row e Crashed None (Some (now e))"

lemma settle_stale_effect:
  assumes "distinct (map ss_id ss)" and "\<forall>s \<in> set ss. ss_id s \<noteq> []"
  shows "\<exists>r' d'. settle_stale e ch True False (map stale_orphan ss) (r, d) = (r', d') \<and> cr_errors r' = cr_errors r \<and>
    sessions d' = map (\<lambda>x. if ss_id x \<in> ss_id ` set ss then crashed_row e x else x) (sessions d) \<and> workers d' = workers d"
  using assms
proof (induction ss arbitrary: r d)
  case (Cons s ss)
  let ?d = "snd (update_session_state e ch (ss_id s) Crashed None (Some (now e)) d)"
  let ?r = "r\<lparr>cr_stale_db_records := cr_stale_db_records r @ [ss_id s], cr_db_records_updated := Suc (cr_db_records_updated r)\<rparr>"
  have d: "sessions ?d = update_where (\<lambda>x. ss_id x = ss_id s) (crashed_row e) (sessions d)" "workers ?d = workers d"
    by (simp_all add: update_session_state_def set_session_row_sessions crashed_row_def)
      (simp add: set_session_row_def log_status_change_def split: option.split)
  obtain r' d' where ih: "settle_stale e ch True False (map stale_orphan ss) (?r, ?d) = (r', d')"
      "cr_errors r' = cr_errors ?r" "workers d' = workers ?d"
      "sessions d' = map (\<lambda>x. if ss_id x \<in> ss_id ` set ss then crashed_row e x else x) (sessions ?d)"
    using Cons.IH [of ?r ?d] Cons.prems by auto
  have id: "ss_id (crashed_row e x) = ss_id x" for x by (simp add: crashed_row_def)
  have "sessions d' = map (\<lambda>x. if ss_id x \<in> ss_id ` set (s # ss) then crashed_row e x else x) (sessions d)"
    unfolding ih(4) d(1) using Cons.prems(1) by (auto simp: update_where_def id)
  then show ?case using ih d(2) Cons.prems(2) by (simp add: stale_orphan_def [of s] Let_def)
qed (simp add: map_idI)

section \<open>The cleanup at the start\<close>

text \<open>What the database and tmux must look like for the cleanup to be able to tell the sessions apart.\<close>

definition cleanup_ready :: "spawner \<Rightarrow> 't tmux \<Rightarrow> ('t \<Rightarrow> string list) \<Rightarrow> db \<Rightarrow> 't \<Rightarrow> bool" where
  "cleanup_ready sp tmux names d t =
     (good_tmux sp tmux names \<and> installed sp \<and> names_ok (names t) \<and> sessions_wf d \<and>
      (\<forall>s \<in> set (sessions d). ss_id s \<noteq> []) \<and> proper_names (names t) (get_active_sessions d))"

lemma orphans_start: "is_tmux_orphan d n \<Longrightarrow> starts_with TMUX_SESSION_PREFIX n"
  by (simp add: is_tmux_orphan_def)

lemma tracked_mem:
  "n \<in> set (tracked_tmux_names d) \<longleftrightarrow> n \<noteq> [] \<and> (\<exists>s \<in> set (sessions d). ss_tmux_session_name s = Some n)"
proof -
  define f where "f = (\<lambda>s :: session_row. case ss_tmux_session_name s of Some n \<Rightarrow> if n = [] then None else Some n | None \<Rightarrow> None)"
  have f: "f s = Some n \<longleftrightarrow> n \<noteq> [] \<and> ss_tmux_session_name s = Some n" for s
    by (auto simp: f_def split: option.split)
  have "n \<in> set (List.map_filter f xs) \<longleftrightarrow> (\<exists>s \<in> set xs. f s = Some n)" for xs
    by (induction xs) (auto simp: map_filter_simps split: option.split)
  then have "n \<in> set (tracked_tmux_names d) \<longleftrightarrow> (\<exists>s \<in> set (sessions d). f s = Some n)"
    by (simp add: tracked_tmux_names_def f_def get_all_sessions_def)
  then show ?thesis by (auto simp: f)
qed

lemma stale_after_kill:
  assumes "s \<in> set (sessions d)" and "ns' = filter (\<lambda>n. \<not> is_tmux_orphan d n) ns"
  shows "stale_record ns' s = stale_record ns s"
  using assms tracked_mem [of _ d] by (auto simp: stale_record_def is_tmux_orphan_def split: option.split)

lemma find_orphaned_names:
  assumes "good_tmux sp tmux names" and "installed sp" and "names_ok (names t)"
  shows "find_orphaned_tmux_sessions sp tmux (d, t) = ok (map tmux_orphan (filter (is_tmux_orphan d) (names t))) (d, t)"
  by (simp add: find_orphaned_tmux_sessions_def on_tmux_def list_sessions_names [OF assms])

lemma find_stale_names:
  assumes "good_tmux sp tmux names" and "installed sp" and "names_ok (names t)" and "proper_names (names t) (get_active_sessions d)"
  shows "find_stale_db_sessions sp tmux (d, t) = ok (map stale_orphan (filter (stale_record (names t)) (get_active_sessions d))) (d, t)"
  by (simp add: find_stale_db_sessions_def on_tmux_def stale_among_names [OF assms])

lemma active_ids_distinct: "sessions_wf d \<Longrightarrow> distinct (map ss_id (get_active_sessions d))"
  by (auto simp: sessions_wf_def get_active_sessions_def fetchall_def order_by_desc_def distinct_map intro: inj_on_subset)


section \<open>A tmux that behaves, and a cleanup with it\<close>

definition sample_tmux :: "string list tmux" where
  "sample_tmux args ns =
     (case args of
        [c, _, s] \<Rightarrow>
          if c = ''has-session'' then (Inr (if s \<in> set ns then 0 else 1, []), ns)
          else if c = ''kill-session'' then (Inr (if s \<in> set ns then 0 else 1, []), removeAll s ns)
          else (Inr (0, join_with [newline] ns @ [newline]), ns)
      | _ \<Rightarrow> (Inr (0, []), ns))"

lemma sample_tmux_good: "good_tmux some_spawner sample_tmux (\<lambda>ns. ns)"
  by (auto simp: good_tmux_def sample_tmux_def socket_args_def some_spawner_def)


end
