(* ===== verification/Comms.thy ===== *)
theory Comms
  imports Work_Queue Bead_Gateway Py_Values "HOL-Library.Product_Lexorder"
begin

text \<open>
  \<open>shared/core/message.py\<close>, \<open>shared/comms/\<close>: messages and notifications between workers, their inboxes and
  outboxes, in memory and over the beads tool, and the conversion of notifications into tasks. Values of
  JSON objects have the types the code annotates; \<open>dict.get\<close> of a missing key is \<open>None\<close> of an option.
  Inboxes are shared objects: there is one inbox per worker, and an outbox knows the workers whose inbox
  it is linked with.
\<close>

section \<open>Messages\<close>

datatype message_type = REQUEST | RESPONSE | INFORM | ESCALATION | DELEGATION | BROADCAST

datatype time_sensitivity = IMMEDIATE | HOURS | DAYS | WEEKS | WHENEVER

fun message_type_value :: "message_type \<Rightarrow> string" where
  "message_type_value REQUEST = ''request''"
| "message_type_value RESPONSE = ''response''"
| "message_type_value INFORM = ''inform''"
| "message_type_value ESCALATION = ''escalation''"
| "message_type_value DELEGATION = ''delegation''"
| "message_type_value BROADCAST = ''broadcast''"

definition MESSAGE_TYPES :: "message_type list" where
  "MESSAGE_TYPES = [REQUEST, RESPONSE, INFORM, ESCALATION, DELEGATION, BROADCAST]"

fun time_sensitivity_value :: "time_sensitivity \<Rightarrow> string" where
  "time_sensitivity_value IMMEDIATE = ''immediate''"
| "time_sensitivity_value HOURS = ''hours''"
| "time_sensitivity_value DAYS = ''days''"
| "time_sensitivity_value WEEKS = ''weeks''"
| "time_sensitivity_value WHENEVER = ''whenever''"

definition SENSITIVITIES :: "time_sensitivity list" where
  "SENSITIVITIES = [IMMEDIATE, HOURS, DAYS, WEEKS, WHENEVER]"

record worker_message =
  wm_id :: ident
  wm_sender :: ident
  wm_recipients :: "ident list"
  wm_subject :: string
  wm_body :: string
  wm_message_type :: message_type
  wm_time_sensitivity :: time_sensitivity
  wm_thread_id :: "ident option"
  wm_reply_to :: "ident option"
  wm_ask_id :: "ident option"
  wm_okr_id :: "ident option"
  wm_channel_id :: "ident option"
  wm_parent_id :: "ident option"
  wm_ephemeral :: bool
  wm_priority :: int
  wm_metadata :: "(string \<times> string) list"
  wm_created_at :: datetime

text \<open>The constructor with the defaults of the data class; \<open>t\<close> is the clock.\<close>

definition new_worker_message :: "datetime \<Rightarrow> ident \<Rightarrow> ident \<Rightarrow> ident list \<Rightarrow> string \<Rightarrow> string \<Rightarrow> worker_message" where
  "new_worker_message t i sender recipients subject body =
     \<lparr>wm_id = i, wm_sender = sender, wm_recipients = recipients, wm_subject = subject, wm_body = body,
      wm_message_type = INFORM, wm_time_sensitivity = WHENEVER, wm_thread_id = None, wm_reply_to = None,
      wm_ask_id = None, wm_okr_id = None, wm_channel_id = None, wm_parent_id = None, wm_ephemeral = False,
      wm_priority = 2, wm_metadata = [], wm_created_at = t\<rparr>"

definition message_request :: "datetime \<Rightarrow> ident \<Rightarrow> ident \<Rightarrow> ident list \<Rightarrow> string \<Rightarrow> string \<Rightarrow> worker_message" where
  "message_request t i sender recipients subject body =
     (new_worker_message t i sender recipients subject body)\<lparr>wm_message_type := REQUEST, wm_time_sensitivity := DAYS\<rparr>"

definition message_response ::
  "datetime \<Rightarrow> ident \<Rightarrow> ident \<Rightarrow> ident list \<Rightarrow> string \<Rightarrow> string \<Rightarrow> ident \<Rightarrow> ident option \<Rightarrow> worker_message" where
  "message_response t i sender recipients subject body reply_to thread_id =
     (new_worker_message t i sender recipients subject body)
       \<lparr>wm_message_type := RESPONSE, wm_reply_to := Some reply_to, wm_thread_id := thread_id\<rparr>"

definition message_escalation :: "datetime \<Rightarrow> ident \<Rightarrow> ident \<Rightarrow> ident list \<Rightarrow> string \<Rightarrow> string \<Rightarrow> worker_message" where
  "message_escalation t i sender recipients subject body =
     (new_worker_message t i sender recipients subject body)\<lparr>wm_message_type := ESCALATION, wm_time_sensitivity := HOURS\<rparr>"

definition message_delegation ::
  "datetime \<Rightarrow> ident \<Rightarrow> ident \<Rightarrow> ident list \<Rightarrow> string \<Rightarrow> string \<Rightarrow> ident option \<Rightarrow> ident option \<Rightarrow> worker_message" where
  "message_delegation t i sender recipients subject body ask okr =
     (new_worker_message t i sender recipients subject body)
       \<lparr>wm_message_type := DELEGATION, wm_ask_id := ask, wm_okr_id := okr\<rparr>"

definition message_is_urgent :: "worker_message \<Rightarrow> bool" where
  "message_is_urgent m = (wm_time_sensitivity m = IMMEDIATE)"

section \<open>Inboxes\<close>

fun urgency_order :: "time_sensitivity \<Rightarrow> nat" where
  "urgency_order IMMEDIATE = 0"
| "urgency_order HOURS = 1"
| "urgency_order DAYS = 2"
| "urgency_order WEEKS = 3"
| "urgency_order WHENEVER = 4"

definition message_urgency :: "worker_message \<Rightarrow> nat \<times> datetime" where
  "message_urgency m = (urgency_order (wm_time_sensitivity m), wm_created_at m)"

definition sort_by_urgency :: "worker_message list \<Rightarrow> worker_message list" where
  "sort_by_urgency ms = sort_key message_urgency ms"

record inbox =
  ib_worker_id :: ident
  ib_messages :: "worker_message list"
  ib_read_ids :: "ident set"

definition new_inbox :: "ident \<Rightarrow> inbox" where
  "new_inbox w = \<lparr>ib_worker_id = w, ib_messages = [], ib_read_ids = {}\<rparr>"

definition add_message :: "worker_message \<Rightarrow> inbox \<Rightarrow> inbox" where
  "add_message m b = (if ib_worker_id b \<in> set (wm_recipients m) then b\<lparr>ib_messages := ib_messages b @ [m]\<rparr> else b)"

definition fetch_messages :: "bool \<Rightarrow> time_sensitivity option \<Rightarrow> inbox \<Rightarrow> worker_message list" where
  "fetch_messages unread_only ts b =
     filter (\<lambda>m. \<not> (unread_only \<and> wm_id m \<in> ib_read_ids b) \<and> (case ts of None \<Rightarrow> True | Some s \<Rightarrow> wm_time_sensitivity m = s))
       (ib_messages b)"

definition inbox_poll :: "inbox \<Rightarrow> worker_message list" where
  "inbox_poll b = sort_by_urgency (fetch_messages True None b)"

definition get_urgent :: "inbox \<Rightarrow> worker_message list" where
  "get_urgent b = fetch_messages True (Some IMMEDIATE) b"

definition mark_read :: "ident \<Rightarrow> inbox \<Rightarrow> inbox" where
  "mark_read i b = b\<lparr>ib_read_ids := insert i (ib_read_ids b)\<rparr>"

definition get_thread :: "ident \<Rightarrow> inbox \<Rightarrow> worker_message list" where
  "get_thread t b = sort_key wm_created_at (filter (\<lambda>m. wm_thread_id m = Some t) (ib_messages b))"

definition count_unread :: "inbox \<Rightarrow> nat" where
  "count_unread b = length (fetch_messages True None b)"

section \<open>Outboxes\<close>

text \<open>
  The reply to a message: to its sender and the other recipients, each once, in the message's thread. The
  lookup of the original, the ids drawn and the clock are arguments.
\<close>

definition reply_recipients :: "ident \<Rightarrow> worker_message \<Rightarrow> ident list" where
  "reply_recipients self m =
     foldl (\<lambda>rs r. if r \<noteq> self \<and> r \<notin> set rs then rs @ [r] else rs) [wm_sender m] (wm_recipients m)"

definition reply_message ::
  "datetime \<Rightarrow> ident \<Rightarrow> ident \<Rightarrow> ident \<Rightarrow> string \<Rightarrow> string option \<Rightarrow> worker_message option \<Rightarrow> py_error + worker_message" where
  "reply_message t fresh self original_id body subject original =
     (case original of
        None \<Rightarrow> Inl (ValueError ''Original message not found'')
      | Some m \<Rightarrow>
          Inr ((message_response t fresh self (reply_recipients self m)
                 (case subject of None \<Rightarrow> ''Re: '' @ wm_subject m | Some s \<Rightarrow> if s = [] then ''Re: '' @ wm_subject m else s)
                 body original_id
                 (Some (case wm_thread_id m of None \<Rightarrow> wm_id m | Some th \<Rightarrow> if th = [] then wm_id m else th)))
               \<lparr>wm_ask_id := wm_ask_id m, wm_okr_id := wm_okr_id m\<rparr>))"

definition broadcast_message ::
  "datetime \<Rightarrow> ident \<Rightarrow> ident \<Rightarrow> ident list \<Rightarrow> string \<Rightarrow> string \<Rightarrow> time_sensitivity \<Rightarrow> worker_message" where
  "broadcast_message t fresh self recipients subject body ts =
     (new_worker_message t fresh self recipients subject body)
       \<lparr>wm_message_type := BROADCAST, wm_time_sensitivity := ts\<rparr>"

text \<open>\<open>send\<close> fills in a missing sender and a missing id.\<close>

definition completed :: "ident \<Rightarrow> ident \<Rightarrow> worker_message \<Rightarrow> worker_message" where
  "completed self fresh m =
     (let m1 = (if wm_sender m = [] then m\<lparr>wm_sender := self\<rparr> else m)
      in if wm_id m1 = [] then m1\<lparr>wm_id := fresh\<rparr> else m1)"

record outbox =
  ob_worker_id :: ident
  ob_sent :: "worker_message list"
  ob_linked :: "ident list"

type_synonym post = "outbox \<times> (ident \<Rightarrow> inbox)"

definition new_outbox :: "ident \<Rightarrow> outbox" where
  "new_outbox w = \<lparr>ob_worker_id = w, ob_sent = [], ob_linked = []\<rparr>"

definition link_inbox :: "ident \<Rightarrow> outbox \<Rightarrow> outbox" where
  "link_inbox w b = b\<lparr>ob_linked := (if w \<in> set (ob_linked b) then ob_linked b else ob_linked b @ [w])\<rparr>"

definition deliver :: "worker_message \<Rightarrow> ident list \<Rightarrow> ident \<Rightarrow> (ident \<Rightarrow> inbox) \<Rightarrow> (ident \<Rightarrow> inbox)" where
  "deliver m linked r boxes = (if r \<in> set linked then boxes(r := add_message m (boxes r)) else boxes)"

definition store_message :: "worker_message \<Rightarrow> post \<Rightarrow> ident \<times> post" where
  "store_message m = (\<lambda>(b, boxes).
     (wm_id m, b\<lparr>ob_sent := ob_sent b @ [m]\<rparr>, fold (deliver m (ob_linked b)) (wm_recipients m) boxes))"

definition send :: "ident \<Rightarrow> worker_message \<Rightarrow> post \<Rightarrow> ident \<times> post" where
  "send fresh m p = store_message (completed (ob_worker_id (fst p)) fresh m) p"

definition find_sent :: "ident \<Rightarrow> outbox \<Rightarrow> worker_message option" where
  "find_sent i b = fetchone (\<lambda>m. wm_id m = i) (ob_sent b)"

definition reply :: "datetime \<Rightarrow> ident \<Rightarrow> ident \<Rightarrow> string \<Rightarrow> string option \<Rightarrow> post \<Rightarrow> (post, ident) outcome" where
  "reply t fresh original_id body subject p =
     (case reply_message t fresh (ob_worker_id (fst p)) original_id body subject (find_sent original_id (fst p)) of
        Inl err \<Rightarrow> raise err p
      | Inr m \<Rightarrow> (case send fresh m p of (i, p') \<Rightarrow> ok i p'))"

definition broadcast ::
  "datetime \<Rightarrow> ident \<Rightarrow> ident list \<Rightarrow> string \<Rightarrow> string \<Rightarrow> time_sensitivity \<Rightarrow> post \<Rightarrow> ident list \<times> post" where
  "broadcast t fresh recipients subject body ts p =
     (case send fresh (broadcast_message t fresh (ob_worker_id (fst p)) recipients subject body ts) p of (i, p') \<Rightarrow> ([i], p'))"

text \<open>\<open>sorted\<close> with \<open>reverse=True\<close> keeps the order of equal elements.\<close>

definition get_sent :: "nat \<Rightarrow> outbox \<Rightarrow> worker_message list" where
  "get_sent limit b = take limit (order_by_desc wm_created_at (ob_sent b))"

section \<open>Over the beads tool\<close>

text \<open>
  An issue as the tool's JSON has it. A run of the tool fails (\<open>BdClientError\<close>) or gives its output; the
  output is read as text, as a list of issues or as one issue, and the last two may not be valid JSON.
  Timestamps are read by \<open>fromisoformat\<close>.
\<close>

record bd_issue =
  bi_id :: ident
  bi_sender :: "ident option"
  bi_assignee :: "ident option"
  bi_title :: "string option"
  bi_description :: "string option"
  bi_time_sensitivity :: "string option"
  bi_thread_id :: "ident option"
  bi_reply_to :: "ident option"
  bi_ask_id :: "ident option"
  bi_okr_id :: "ident option"
  bi_ephemeral :: "bool option"
  bi_created_at :: "datetime option"
  bi_expires_at :: "datetime option"
  bi_recipients :: "ident list option"
  bi_metadata :: "(string \<times> string) list"

record bd_output =
  bo_text :: string
  bo_list :: "bd_issue list option"
  bo_object :: "bd_issue option"

type_synonym bd_client = "string list \<Rightarrow> bd_output option"

definition from_opt :: "'a \<Rightarrow> 'a option \<Rightarrow> 'a" where
  "from_opt x v = (case v of None \<Rightarrow> x | Some y \<Rightarrow> y)"

text \<open>The lookup tables of the inbox, with their defaults, and the enumerations' constructors, which raise.\<close>

definition type_map :: "string \<Rightarrow> message_type" where
  "type_map s = from_opt INFORM (List.find (\<lambda>ty. message_type_value ty = s) MESSAGE_TYPES)"

definition time_sens_map :: "string \<Rightarrow> time_sensitivity" where
  "time_sens_map s = from_opt WHENEVER (List.find (\<lambda>ts. time_sensitivity_value ts = s) SENSITIVITIES)"

definition MessageType_of :: "string \<Rightarrow> py_error + message_type" where
  "MessageType_of s =
     (case List.find (\<lambda>ty. message_type_value ty = s) MESSAGE_TYPES of
        None \<Rightarrow> Inl (ValueError ''MessageType'') | Some ty \<Rightarrow> Inr ty)"

definition TimeSensitivity_of :: "string \<Rightarrow> py_error + time_sensitivity" where
  "TimeSensitivity_of s =
     (case List.find (\<lambda>ts. time_sensitivity_value ts = s) SENSITIVITIES of
        None \<Rightarrow> Inl (ValueError ''TimeSensitivity'') | Some ts \<Rightarrow> Inr ts)"

definition meta_get :: "bd_issue \<Rightarrow> string \<Rightarrow> string \<Rightarrow> string" where
  "meta_get x k def = from_opt def (map_of (bi_metadata x) k)"

text \<open>\<open>BeadsInbox._parse_message\<close>: the sender is the issue's own field, the recipient its assignee.\<close>

definition parse_message :: "datetime \<Rightarrow> bd_issue \<Rightarrow> worker_message" where
  "parse_message t x =
     \<lparr>wm_id = bi_id x, wm_sender = from_opt [] (bi_sender x),
      wm_recipients = (case bi_assignee x of None \<Rightarrow> [] | Some a \<Rightarrow> if a = [] then [] else [a]),
      wm_subject = from_opt [] (bi_title x), wm_body = from_opt [] (bi_description x),
      wm_message_type = type_map (meta_get x ''message_type'' ''inform''),
      wm_time_sensitivity = time_sens_map (from_opt ''whenever'' (bi_time_sensitivity x)),
      wm_thread_id = bi_thread_id x, wm_reply_to = bi_reply_to x, wm_ask_id = bi_ask_id x, wm_okr_id = bi_okr_id x,
      wm_channel_id = None, wm_parent_id = None, wm_ephemeral = from_opt False (bi_ephemeral x), wm_priority = 2,
      wm_metadata = bi_metadata x, wm_created_at = from_opt t (bi_created_at x)\<rparr>"

definition beads_fetch_messages :: "datetime \<Rightarrow> bd_client \<Rightarrow> ident \<Rightarrow> bool \<Rightarrow> time_sensitivity option \<Rightarrow> worker_message list" where
  "beads_fetch_messages t bd self unread_only ts =
     (case bd ([''list'', ''--json'', ''--assignee='' @ self] @ (if unread_only then [''--status=open''] else [])
               @ (case ts of None \<Rightarrow> [] | Some s \<Rightarrow> [''--time-sensitivity='' @ time_sensitivity_value s])) of
        None \<Rightarrow> []
      | Some out \<Rightarrow>
          (case (if py_strip (bo_text out) = [] then Some [] else bo_list out) of
             None \<Rightarrow> []
           | Some issues \<Rightarrow> map (parse_message t) (filter (\<lambda>x. bi_sender x \<noteq> Some self) issues)))"

definition beads_inbox_poll :: "datetime \<Rightarrow> bd_client \<Rightarrow> ident \<Rightarrow> worker_message list" where
  "beads_inbox_poll t bd self = sort_by_urgency (beads_fetch_messages t bd self True None)"

definition beads_get_thread :: "datetime \<Rightarrow> bd_client \<Rightarrow> ident \<Rightarrow> worker_message list" where
  "beads_get_thread t bd th =
     sort_key wm_created_at
       (case bd [''list'', ''--json'', ''--thread='' @ th] of
          None \<Rightarrow> []
        | Some out \<Rightarrow>
            (case (if py_strip (bo_text out) = [] then Some [] else bo_list out) of
               None \<Rightarrow> [] | Some issues \<Rightarrow> map (parse_message t) issues))"

text \<open>
  \<open>BeadsOutbox._store_message\<close>. \<open>dumps\<close> is \<open>json.dumps\<close> of the metadata, a dictionary of texts and the list
  of recipients; the metadata of the message overrides its keys.
\<close>

definition message_metadata :: "worker_message \<Rightarrow> (string \<times> string) list" where
  "message_metadata m =
     fold (\<lambda>(k, v). dict_set k v) (wm_metadata m)
       [(''sender'', wm_sender m), (''message_type'', message_type_value (wm_message_type m))]"

definition create_message_args :: "((string \<times> string) list \<Rightarrow> ident list \<Rightarrow> string) \<Rightarrow> worker_message \<Rightarrow> string list" where
  "create_message_args dumps m =
     [''create'', ''--title='' @ wm_subject m, ''--type=message'', ''--priority=2'']
     @ (case wm_recipients m of [] \<Rightarrow> [] | r # _ \<Rightarrow> [''--assignee='' @ r])
     @ (if wm_body m = [] then [] else [''--description='' @ wm_body m])
     @ [''--metadata='' @ dumps (message_metadata m) (wm_recipients m)]
     @ (if wm_time_sensitivity m = WHENEVER then [] else [''--time-sensitivity='' @ time_sensitivity_value (wm_time_sensitivity m)])
     @ (if wm_ephemeral m then [''--ephemeral''] else [])
     @ (case wm_reply_to m of None \<Rightarrow> [] | Some r \<Rightarrow> if r = [] then [] else [''--reply-to='' @ r])
     @ (case wm_ask_id m of None \<Rightarrow> [] | Some r \<Rightarrow> if r = [] then [] else [''--spawned-from='' @ r])
     @ (case wm_okr_id m of None \<Rightarrow> [] | Some r \<Rightarrow> if r = [] then [] else [''--serves='' @ r])"

definition created_id :: "string \<Rightarrow> ident option" where
  "created_id out =
     map_option (\<lambda>p. rev (dropWhile (\<lambda>c. c = CHR '':'') (rev p)))
       (List.find (starts_with ''bd-'')
         (concat (map py_split (filter (contains_str ''bd-'') (split_on (CHR 0x0A) out)))))"

definition beads_store_message ::
  "((string \<times> string) list \<Rightarrow> ident list \<Rightarrow> string) \<Rightarrow> bd_client \<Rightarrow> worker_message \<Rightarrow> ident" where
  "beads_store_message dumps bd m =
     (case bd (create_message_args dumps m) of
        None \<Rightarrow> wm_id m
      | Some out \<Rightarrow> from_opt (wm_id m) (created_id (bo_text out)))"

text \<open>\<open>BeadsOutbox._get_message\<close>: sender and recipients come from the metadata; an unknown enumeration raises.\<close>

definition read_back :: "datetime \<Rightarrow> bd_issue \<Rightarrow> py_error + worker_message" where
  "read_back t x =
     (case MessageType_of (meta_get x ''message_type'' ''inform'') of
        Inl err \<Rightarrow> Inl err
      | Inr ty \<Rightarrow>
          (case TimeSensitivity_of (from_opt ''whenever'' (bi_time_sensitivity x)) of
             Inl err \<Rightarrow> Inl err
           | Inr ts \<Rightarrow>
               Inr ((parse_message t x)\<lparr>wm_sender := meta_get x ''sender'' [], wm_recipients := from_opt [] (bi_recipients x),
                      wm_message_type := ty, wm_time_sensitivity := ts\<rparr>)))"

definition beads_get_message :: "datetime \<Rightarrow> bd_client \<Rightarrow> ident \<Rightarrow> py_error + worker_message option" where
  "beads_get_message t bd i =
     (case bd [''show'', i, ''--json''] of
        None \<Rightarrow> Inr None
      | Some out \<Rightarrow>
          (case bo_object out of
             None \<Rightarrow> Inr None
           | Some x \<Rightarrow> (case read_back t x of Inl err \<Rightarrow> Inl err | Inr m \<Rightarrow> Inr (Some m))))"

definition beads_reply ::
  "datetime \<Rightarrow> ((string \<times> string) list \<Rightarrow> ident list \<Rightarrow> string) \<Rightarrow> bd_client \<Rightarrow> ident \<Rightarrow> ident \<Rightarrow> ident \<Rightarrow> string \<Rightarrow> string option
   \<Rightarrow> py_error + ident" where
  "beads_reply t dumps bd self fresh original_id body subject =
     (case beads_get_message t bd original_id of
        Inl err \<Rightarrow> Inl err
      | Inr original \<Rightarrow>
          (case reply_message t fresh self original_id body subject original of
             Inl err \<Rightarrow> Inl err
           | Inr m \<Rightarrow> Inr (beads_store_message dumps bd (completed self fresh m))))"

section \<open>Notifications\<close>

record notification =
  nf_id :: ident
  nf_worker_id :: ident
  nf_title :: string
  nf_time_sensitivity :: time_sensitivity
  nf_message_id :: "ident option"
  nf_task_id :: "ident option"
  nf_source :: string
  nf_created_at :: datetime
  nf_expires_at :: "datetime option"
  nf_metadata :: "(string \<times> string) list"

definition is_expired :: "datetime \<Rightarrow> notification \<Rightarrow> bool" where
  "is_expired t n = (case nf_expires_at n of None \<Rightarrow> False | Some u \<Rightarrow> u < t)"

fun type_title :: "message_type \<Rightarrow> string" where
  "type_title REQUEST = ''Request''"
| "type_title RESPONSE = ''Response''"
| "type_title INFORM = ''Inform''"
| "type_title ESCALATION = ''Escalation''"
| "type_title DELEGATION = ''Delegation''"
| "type_title BROADCAST = ''Broadcast''"

definition from_message :: "datetime \<Rightarrow> ident \<Rightarrow> worker_message \<Rightarrow> ident \<Rightarrow> notification" where
  "from_message t i m w =
     \<lparr>nf_id = i, nf_worker_id = w, nf_title = type_title (wm_message_type m) @ '': '' @ wm_subject m,
      nf_time_sensitivity = wm_time_sensitivity m, nf_message_id = Some (wm_id m), nf_task_id = None,
      nf_source = ''inbox'', nf_created_at = t, nf_expires_at = None, nf_metadata = [(''sender'', wm_sender m)]\<rparr>"

definition notification_urgency :: "notification \<Rightarrow> nat \<times> datetime" where
  "notification_urgency n = (urgency_order (nf_time_sensitivity n), nf_created_at n)"

record notif_box =
  nb_notifications :: "notification list"
  nb_acknowledged :: "ident set"
  nb_messages :: "(ident \<times> worker_message) list"

definition fetch_notifications :: "datetime \<Rightarrow> notif_box \<Rightarrow> notification list" where
  "fetch_notifications t b =
     filter (\<lambda>n. nf_id n \<notin> nb_acknowledged b \<and> \<not> is_expired t n) (nb_notifications b)"

definition notification_poll :: "datetime \<Rightarrow> notif_box \<Rightarrow> notification list" where
  "notification_poll t b = sort_key notification_urgency (fetch_notifications t b)"

text \<open>The callback is called with the urgent notification that is returned.\<close>

definition check_urgent :: "datetime \<Rightarrow> notif_box \<Rightarrow> notification option" where
  "check_urgent t b = fetchone (\<lambda>n. nf_time_sensitivity n = IMMEDIATE) (notification_poll t b)"

definition acknowledge :: "ident \<Rightarrow> notif_box \<Rightarrow> notif_box" where
  "acknowledge i b = b\<lparr>nb_acknowledged := insert i (nb_acknowledged b)\<rparr>"

abbreviation nl :: char where
  "nl \<equiv> CHR 0x0A"

definition convert_message_notification :: "datetime \<Rightarrow> worker_message option \<Rightarrow> notification \<Rightarrow> py_error + task" where
  "convert_message_notification t found n =
     (case found of
        None \<Rightarrow> Inl (ValueError ''Message not found'')
      | Some m \<Rightarrow>
          task_post_init \<lparr>ta_id = ''task-'' @ nf_id n, ta_title = ''Handle: '' @ wm_subject m,
            ta_description = ''From: '' @ wm_sender m @ [nl] @ ''Type: '' @ message_type_value (wm_message_type m) @ [nl, nl] @ wm_body m,
            ta_priority = int (urgency_order (nf_time_sensitivity n)), ta_source = ''queue'', ta_blocked_by = [],
            ta_metadata = [(''notification_id'', nf_id n), (''message_id'', wm_id m), (''sender'', wm_sender m),
                           (''message_type'', message_type_value (wm_message_type m))],
            ta_created_at = t, ta_ask_id = wm_ask_id m, ta_okr_id = wm_okr_id m\<rparr>)"

definition convert_task_notification :: "datetime \<Rightarrow> ident \<Rightarrow> notification \<Rightarrow> py_error + task" where
  "convert_task_notification t i n =
     task_post_init \<lparr>ta_id = i, ta_title = nf_title n, ta_description = ''Task referenced by notification'',
       ta_priority = 2, ta_source = ''queue'', ta_blocked_by = [],
       ta_metadata = [(''notification_id'', nf_id n), (''is_reference'', ''True'')],
       ta_created_at = t, ta_ask_id = None, ta_okr_id = None\<rparr>"

definition convert_generic_notification :: "datetime \<Rightarrow> notification \<Rightarrow> py_error + task" where
  "convert_generic_notification t n =
     task_post_init \<lparr>ta_id = ''task-'' @ nf_id n, ta_title = nf_title n,
       ta_description = ''Source: '' @ nf_source n @ [nl, nl] @ from_opt [] (map_of (nf_metadata n) ''description''),
       ta_priority = int (urgency_order (nf_time_sensitivity n)), ta_source = ''queue'', ta_blocked_by = [],
       ta_metadata = fold (\<lambda>(k, v). dict_set k v) (nf_metadata n) [(''notification_id'', nf_id n), (''source'', nf_source n)],
       ta_created_at = t, ta_ask_id = None, ta_okr_id = None\<rparr>"

text \<open>The result: a task, or the error text (the exceptions are caught).\<close>

definition convert_to_task :: "datetime \<Rightarrow> (ident \<Rightarrow> worker_message option) \<Rightarrow> notification \<Rightarrow> py_error + task" where
  "convert_to_task t fetch n =
     (case nf_message_id n of
        Some i \<Rightarrow> convert_message_notification t (fetch i) n
      | None \<Rightarrow> (case nf_task_id n of
                   Some i \<Rightarrow> convert_task_notification t i n
                 | None \<Rightarrow> convert_generic_notification t n))"

definition parse_notification :: "datetime \<Rightarrow> ident \<Rightarrow> bd_issue \<Rightarrow> notification" where
  "parse_notification t self x =
     \<lparr>nf_id = bi_id x, nf_worker_id = from_opt self (bi_assignee x), nf_title = from_opt [] (bi_title x),
      nf_time_sensitivity = time_sens_map (from_opt ''whenever'' (bi_time_sensitivity x)),
      nf_message_id = map_of (bi_metadata x) ''message_id'', nf_task_id = map_of (bi_metadata x) ''task_id'',
      nf_source = meta_get x ''source'' ''system'', nf_created_at = from_opt t (bi_created_at x),
      nf_expires_at = bi_expires_at x, nf_metadata = bi_metadata x\<rparr>"

definition beads_fetch_notifications :: "datetime \<Rightarrow> bd_client \<Rightarrow> ident \<Rightarrow> notification list" where
  "beads_fetch_notifications t bd self =
     (case bd [''list'', ''--json'', ''--type=notification'', ''--status=open'', ''--assignee='' @ self] of
        None \<Rightarrow> []
      | Some out \<Rightarrow>
          (case (if py_strip (bo_text out) = [] then Some [] else bo_list out) of
             None \<Rightarrow> [] | Some issues \<Rightarrow> map (parse_notification t self) issues))"

end
