(* ===== verification/Comms_Laws.thy ===== *)
theory Comms_Laws
  imports Comms "HOL-Library.Multiset"
begin

text \<open>
  What inboxes and outboxes promise: the order of the unread messages, who gets a message and a reply, the
  thread a conversation stays in, the tasks notifications become; and where a message gets lost.
\<close>

section \<open>Sorting by urgency\<close>

text \<open>
  The contract of the two lists the workers poll: a list is sorted by a key of an urgency class and a time.
\<close>

locale urgency_sorted =
  fixes key :: "'a \<Rightarrow> nat \<times> datetime" and created :: "'a \<Rightarrow> datetime" and urgent :: "'a \<Rightarrow> bool"
  assumes key_urgent: "urgent x \<Longrightarrow> key x = (0, created x)"
    and key_calm: "\<not> urgent x \<Longrightarrow> 0 < fst (key x)"
begin

lemma urgent_first: "takeWhile urgent (sort_key key xs) = sort_key created (filter urgent xs)"
proof -
  have split: "takeWhile urgent ys = filter urgent ys" if "sorted (map key ys)" for ys
    using that
  proof (induction ys)
    case (Cons y ys)
    show ?case
    proof (cases "urgent y")
      case False
      have "\<not> urgent z" if z: "z \<in> set ys" for z
      proof
        assume "urgent z"
        then have "key z = (0, created z)" by (rule key_urgent)
        moreover have "key y \<le> key z" using Cons.prems z by auto
        ultimately show False using key_calm [OF False] by (cases "key y") auto
      qed
      then show ?thesis using False by (simp add: filter_empty_conv)
    qed (use Cons in simp)
  qed simp
  have "sort_key created (filter urgent xs) = sort_key key (filter urgent xs)"
  proof (rule properties_for_sort_key)
    fix k assume "k \<in> set (sort_key key (filter urgent xs))"
    then have k: "urgent k" by simp
    have eq: "created k = created x \<longleftrightarrow> key k = key x" if "urgent x" for x
      using key_urgent [OF k] key_urgent [OF that] by simp
    have "filter (\<lambda>x. created k = created x) (sort_key key (filter urgent xs)) =
        filter (\<lambda>x. key k = key x) (sort_key key (filter urgent xs))"
      by (rule filter_cong) (auto simp: eq)
    also have "\<dots> = filter (\<lambda>x. key k = key x) (filter urgent xs)"
      using sort_key_stable [of key "key k" "filter urgent xs"] by (simp add: eq_commute)
    also have "\<dots> = filter (\<lambda>x. created k = created x) (filter urgent xs)"
      by (rule filter_cong) (auto simp: eq)
    finally show "filter (\<lambda>x. created k = created x) (sort_key key (filter urgent xs)) =
        filter (\<lambda>x. created k = created x) (filter urgent xs)" .
  next
    have "sorted (map created ys)" if "sorted (map key ys)" "\<forall>y \<in> set ys. urgent y" for ys
      using that
    proof (induction ys)
      case (Cons y ys)
      have "created y \<le> created z" if z: "z \<in> set ys" for z
      proof -
        have "key y \<le> key z" "urgent y" "urgent z" using Cons.prems z by auto
        then show ?thesis using key_urgent [of y] key_urgent [of z] by simp
      qed
      then show ?case using Cons by simp
    qed simp
    note * = this
    show "sorted (map created (sort_key key (filter urgent xs)))"
      by (rule *) (rule sorted_sort_key, simp)
  qed simp
  then show ?thesis using split [of "sort_key key xs"] by (simp add: filter_sort)
qed

end

interpretation inbox_order: urgency_sorted message_urgency wm_created_at message_is_urgent
proof
  show "message_is_urgent x \<Longrightarrow> message_urgency x = (0, wm_created_at x)" for x
    by (simp add: message_is_urgent_def message_urgency_def)
  show "\<not> message_is_urgent x \<Longrightarrow> 0 < fst (message_urgency x)" for x
    by (cases "wm_time_sensitivity x") (simp_all add: message_is_urgent_def message_urgency_def)
qed

interpretation notification_order: urgency_sorted notification_urgency nf_created_at "\<lambda>n. nf_time_sensitivity n = IMMEDIATE"
proof
  show "nf_time_sensitivity x = IMMEDIATE \<Longrightarrow> notification_urgency x = (0, nf_created_at x)" for x
    by (simp add: notification_urgency_def)
  show "nf_time_sensitivity x \<noteq> IMMEDIATE \<Longrightarrow> 0 < fst (notification_urgency x)" for x
    by (cases "nf_time_sensitivity x") (simp_all add: notification_urgency_def)
qed

text \<open>
  C28: Polling an inbox yields the unread messages, each as often as it arrived, sorted by urgency and then by
  age; the urgent ones come first and are exactly those \<open>get_urgent\<close> reports; reading a message takes
  out that message and keeps the order of the others.
\<close>

theorem inbox_poll_correct:
  "mset (inbox_poll b) = mset (filter (\<lambda>m. wm_id m \<notin> ib_read_ids b) (ib_messages b)) \<and>
   sorted (map message_urgency (inbox_poll b)) \<and> length (inbox_poll b) = count_unread b \<and>
   takeWhile message_is_urgent (inbox_poll b) = sort_key wm_created_at (get_urgent b) \<and>
   inbox_poll (mark_read i b) = filter (\<lambda>m. wm_id m \<noteq> i) (inbox_poll b)"
proof -
  have "get_urgent b = filter message_is_urgent (fetch_messages True None b)"
    by (simp add: get_urgent_def fetch_messages_def message_is_urgent_def [abs_def] conj_commute)
  moreover have "fetch_messages True None (mark_read i b) = filter (\<lambda>m. wm_id m \<noteq> i) (fetch_messages True None b)"
    by (simp add: fetch_messages_def mark_read_def conj_commute)
  ultimately show ?thesis
    by (simp add: inbox_poll_def sort_by_urgency_def count_unread_def inbox_order.urgent_first filter_sort)
      (simp add: fetch_messages_def)
qed

section \<open>Replies\<close>

lemma reply_recipients_fold:
  assumes "distinct rs"
  shows "distinct (foldl (\<lambda>rs r. if r \<noteq> self \<and> r \<notin> set rs then rs @ [r] else rs) rs xs) \<and>
    set (foldl (\<lambda>rs r. if r \<noteq> self \<and> r \<notin> set rs then rs @ [r] else rs) rs xs) = set rs \<union> (set xs - {self}) \<and>
    (rs \<noteq> [] \<longrightarrow> hd (foldl (\<lambda>rs r. if r \<noteq> self \<and> r \<notin> set rs then rs @ [r] else rs) rs xs) = hd rs)"
  using assms by (induction xs arbitrary: rs) auto

lemma reply_recipients_correct:
  "distinct (reply_recipients self m) \<and> hd (reply_recipients self m) = wm_sender m \<and>
   set (reply_recipients self m) = insert (wm_sender m) (set (wm_recipients m) - {self})"
  using reply_recipients_fold [of "[wm_sender m]" self "wm_recipients m"] by (simp add: reply_recipients_def)

text \<open>A conversation: a message, a reply to it, a reply to that, by whomever and whenever.\<close>

inductive conversation :: "worker_message \<Rightarrow> worker_message \<Rightarrow> bool" for m :: worker_message where
  first: "reply_message t fresh self (wm_id m) body subject (Some m) = Inr r \<Longrightarrow> conversation m r"
| further: "conversation m q \<Longrightarrow> reply_message t fresh self (wm_id q) body subject (Some q) = Inr r \<Longrightarrow> conversation m r"

definition thread_of :: "worker_message \<Rightarrow> ident" where
  "thread_of m = (case wm_thread_id m of None \<Rightarrow> wm_id m | Some th \<Rightarrow> if th = [] then wm_id m else th)"

lemma reply_fields:
  assumes "reply_message t fresh self i body subject (Some m) = Inr r"
  shows "wm_thread_id r = Some (thread_of m)" and "wm_reply_to r = Some i" and "wm_message_type r = RESPONSE"
    and "wm_sender r = self" and "wm_recipients r = reply_recipients self m"
    and "wm_ask_id r = wm_ask_id m" and "wm_okr_id r = wm_okr_id m"
  using assms by (auto simp: reply_message_def message_response_def new_worker_message_def thread_of_def)


section \<open>Delivery\<close>

lemma deliver_all:
  assumes "\<forall>r. ib_worker_id (boxes r) = r" and "set rs \<subseteq> set (wm_recipients m)"
  shows "ib_messages (fold (deliver m linked) rs boxes w) =
      ib_messages (boxes w) @ (if w \<in> set linked then replicate (count_list rs w) m else []) \<and>
    ib_read_ids (fold (deliver m linked) rs boxes w) = ib_read_ids (boxes w) \<and>
    ib_worker_id (fold (deliver m linked) rs boxes w) = w"
  using assms
proof (induction rs arbitrary: boxes)
  case (Cons r rs)
  have "\<forall>r'. ib_worker_id (deliver m linked r boxes r') = r'"
    using Cons.prems(1) by (auto simp: deliver_def add_message_def)
  note ih = Cons.IH [OF this]
  show ?case
    using ih Cons.prems by (auto simp: deliver_def add_message_def replicate_append_same)
qed simp

text \<open>
  Sending puts the message into the inbox of exactly the recipients whose inbox is linked, as often as
  they are named (a recipient named twice gets it twice), fills in a missing sender and id, and reads
  nothing.
\<close>

theorem send_delivers:
  assumes "\<forall>r. ib_worker_id (boxes r) = r" and "send fresh m (b, boxes) = (i, b', boxes')"
  shows "\<exists>m'. m' = completed (ob_worker_id b) fresh m \<and> i = wm_id m' \<and> ob_sent b' = ob_sent b @ [m'] \<and>
    (\<forall>w. ib_messages (boxes' w) = ib_messages (boxes w) @
           (if w \<in> set (ob_linked b) then replicate (count_list (wm_recipients m) w) m' else []) \<and>
         ib_read_ids (boxes' w) = ib_read_ids (boxes w))"
proof -
  have "wm_recipients (completed (ob_worker_id b) fresh m) = wm_recipients m" by (simp add: completed_def Let_def)
  then show ?thesis
    using assms deliver_all [OF assms(1), of "wm_recipients m" "completed (ob_worker_id b) fresh m" "ob_linked b"]
    by (auto simp: send_def store_message_def)
qed

text \<open>
  C39: A worker cannot answer a message in memory: the message is in its inbox, but the outbox looks for the
  original among the messages the worker has sent itself, and raises.
\<close>

theorem received_message_unanswerable:
  assumes "\<forall>r. ib_worker_id (boxes r) = r" and "w \<in> set (ob_linked b)" and "w \<in> set (wm_recipients m)"
    and "send fresh m (b, boxes) = (i, b', boxes')" and "i \<notin> wm_id ` set (ob_sent own)"
  shows "(\<exists>x \<in> set (ib_messages (boxes' w)). wm_id x = i) \<and>
    reply t fresh' i body subject (own, boxes') = raise (ValueError ''Original message not found'') (own, boxes')"
proof
  from send_delivers [OF assms(1,4)] obtain x where "wm_id x = i"
      "ib_messages (boxes' w) = ib_messages (boxes w) @ replicate (count_list (wm_recipients m) w) x"
    using assms(2) by auto
  moreover have "count_list (wm_recipients m) w \<noteq> 0" using assms(3) by (simp add: count_list_0_iff)
  ultimately show "\<exists>x \<in> set (ib_messages (boxes' w)). wm_id x = i" by (auto simp: neq0_conv)
  have "find_sent i own = None" using assms(5) by (auto simp: find_sent_def fetchone_eq_None_iff)
  then show "reply t fresh' i body subject (own, boxes') = raise (ValueError ''Original message not found'') (own, boxes')"
    by (simp add: reply_def reply_message_def)
qed

section \<open>Notifications\<close>

lemma sorted_find_first:
  assumes "sorted (map f xs)" and "fetchone p xs = Some x" and "y \<in> set xs" and "p y"
  shows "f x \<le> f y"
  using assms by (induction xs) (auto split: if_splits)

text \<open>
  The urgent notification a worker is interrupted for is one of its live ones and the oldest urgent one.
  A notification becomes a task unless the message it points to is gone; the task is never blocked, its
  priority is valid, and it is the urgency of the notification, except for a reference to a task, which
  gets the middle priority however urgent it is.
\<close>

theorem notifications_become_tasks:
  "(case check_urgent t b of
      None \<Rightarrow> \<forall>n \<in> set (fetch_notifications t b). nf_time_sensitivity n \<noteq> IMMEDIATE
    | Some n \<Rightarrow> n \<in> set (fetch_notifications t b) \<and> nf_time_sensitivity n = IMMEDIATE \<and>
        (\<forall>y \<in> set (fetch_notifications t b). nf_time_sensitivity y = IMMEDIATE \<longrightarrow> nf_created_at n \<le> nf_created_at y)) \<and>
   (case convert_to_task t fetch n of
      Inl err \<Rightarrow> err = ValueError ''Message not found'' \<and> (\<exists>i. nf_message_id n = Some i \<and> fetch i = None)
    | Inr tk \<Rightarrow> \<not> is_blocked tk \<and> 0 \<le> ta_priority tk \<and> ta_priority tk \<le> 4 \<and>
        ta_priority tk = (if nf_message_id n = None \<and> nf_task_id n \<noteq> None then 2 else int (urgency_order (nf_time_sensitivity n))))"
proof
  show "case check_urgent t b of
      None \<Rightarrow> \<forall>n \<in> set (fetch_notifications t b). nf_time_sensitivity n \<noteq> IMMEDIATE
    | Some n \<Rightarrow> n \<in> set (fetch_notifications t b) \<and> nf_time_sensitivity n = IMMEDIATE \<and>
        (\<forall>y \<in> set (fetch_notifications t b). nf_time_sensitivity y = IMMEDIATE \<longrightarrow> nf_created_at n \<le> nf_created_at y)"
  proof (cases "check_urgent t b")
    case None
    then have "\<forall>n \<in> set (fetch_notifications t b). nf_time_sensitivity n \<noteq> IMMEDIATE"
      by (auto simp: check_urgent_def notification_poll_def fetchone_eq_None_iff)
    then show ?thesis using None by simp
  next
    case (Some n)
    have n: "n \<in> set (fetch_notifications t b)" "nf_time_sensitivity n = IMMEDIATE"
      using Some by (auto simp: check_urgent_def notification_poll_def dest: fetchone_SomeD)
    have "nf_created_at n \<le> nf_created_at y"
      if "y \<in> set (fetch_notifications t b)" "nf_time_sensitivity y = IMMEDIATE" for y
      using sorted_find_first [OF sorted_sort_key [of notification_urgency "fetch_notifications t b"], of _ n y] Some that n(2)
      by (auto simp: check_urgent_def notification_poll_def notification_urgency_def)
    then show ?thesis using Some n by simp
  qed
  have "int (urgency_order ts) \<le> 4" for ts by (cases ts) auto
  then show "case convert_to_task t fetch n of
      Inl err \<Rightarrow> err = ValueError ''Message not found'' \<and> (\<exists>i. nf_message_id n = Some i \<and> fetch i = None)
    | Inr tk \<Rightarrow> \<not> is_blocked tk \<and> 0 \<le> ta_priority tk \<and> ta_priority tk \<le> 4 \<and>
        ta_priority tk = (if nf_message_id n = None \<and> nf_task_id n \<noteq> None then 2 else int (urgency_order (nf_time_sensitivity n)))"
    by (auto simp: convert_to_task_def convert_message_notification_def convert_task_notification_def
        convert_generic_notification_def task_post_init_def is_blocked_def split: option.split)
qed

section \<open>Messages as issues of the beads tool\<close>

text \<open>
  A message kept in the beads tool reaches one recipient, as a message from nobody: it is created with one
  assignee, the first recipient, however many there are; and the sender is written into the metadata,
  while the inbox reads a field of the issue that nobody writes. The outbox reads the same issue right.
\<close>

theorem beads_message_loses_sender:
  assumes "bi_sender x = None" and "map_of (bi_metadata x) ''sender'' = Some s" and "s \<noteq> []"
    and "read_back t x = Inr m"
  shows "filter (starts_with ''--assignee='') (create_message_args dumps msg) =
           map ((@) ''--assignee='') (take 1 (wm_recipients msg)) \<and>
         wm_sender (parse_message t x) = [] \<and> wm_sender m = s \<and>
         (\<forall>(bd :: bd_client) self out. bd [''list'', ''--json'', ''--assignee='' @ self, ''--status=open''] = Some out \<longrightarrow>
            py_strip (bo_text out) \<noteq> [] \<longrightarrow> bo_list out = Some [x] \<longrightarrow>
            map wm_sender (beads_inbox_poll t bd self) = [[]])"
proof (intro conjI allI impI)
  show "filter (starts_with ''--assignee='') (create_message_args dumps msg) = map ((@) ''--assignee='') (take 1 (wm_recipients msg))"
    by (auto simp: create_message_args_def starts_with_def split: list.split option.split)
  show "wm_sender (parse_message t x) = []" using assms(1) by (simp add: parse_message_def from_opt_def)
  show "wm_sender m = s"
    using assms(2,4) by (auto simp: read_back_def meta_get_def from_opt_def split: sum.splits)
  fix bd :: bd_client and self out
  assume "bd [''list'', ''--json'', ''--assignee='' @ self, ''--status=open''] = Some out"
    "py_strip (bo_text out) \<noteq> []" "bo_list out = Some [x]"
  then show "map wm_sender (beads_inbox_poll t bd self) = [[]]"
    using assms(1) by (simp add: beads_inbox_poll_def sort_by_urgency_def beads_fetch_messages_def parse_message_def from_opt_def)
qed

section \<open>Samples\<close>

definition sample_message :: worker_message where
  "sample_message = message_request 10 ''m1'' ''ann'' [''bob'', ''cat''] ''Plan'' ''Please review''"

definition sample_boxes :: "ident \<Rightarrow> inbox" where
  "sample_boxes w = new_inbox w"


theorem send_delivers_witness:
  "\<exists>b' boxes' m'. send ''m9'' sample_message (link_inbox ''bob'' (new_outbox ''ann''), sample_boxes) = (''m1'', b', boxes') \<and>
     ib_messages (boxes' ''bob'') = [m'] \<and> ib_messages (boxes' ''cat'') = []"
proof -
  obtain i b' boxes' where s: "send ''m9'' sample_message (link_inbox ''bob'' (new_outbox ''ann''), sample_boxes) = (i, b', boxes')"
    by (metis prod_cases3)
  have "\<forall>r. ib_worker_id (sample_boxes r) = r" by (simp add: sample_boxes_def new_inbox_def)
  from send_delivers [OF this s] show ?thesis using s
    by (auto simp: link_inbox_def new_outbox_def sample_boxes_def new_inbox_def sample_message_def message_request_def
        new_worker_message_def completed_def Let_def)
qed

theorem received_message_unanswerable_witness:
  "\<exists>b' boxes'. send ''m9'' sample_message (link_inbox ''bob'' (new_outbox ''ann''), sample_boxes) = (''m1'', b', boxes') \<and>
     fst (reply 12 ''m3'' ''m1'' ''done'' None (new_outbox ''bob'', boxes')) = Inl (ValueError ''Original message not found'')"
proof -
  have box: "\<forall>r. ib_worker_id (sample_boxes r) = r" by (simp add: sample_boxes_def new_inbox_def)
  obtain i b' boxes' where s: "send ''m9'' sample_message (link_inbox ''bob'' (new_outbox ''ann''), sample_boxes) = (i, b', boxes')"
    by (metis prod_cases3)
  moreover have "i = ''m1''"
    using s by (auto simp: send_def store_message_def completed_def sample_message_def message_request_def
        new_worker_message_def Let_def)
  moreover have "''bob'' \<in> set (ob_linked (link_inbox ''bob'' (new_outbox ''ann'')))" "''bob'' \<in> set (wm_recipients sample_message)"
    "i \<notin> wm_id ` set (ob_sent (new_outbox ''bob''))"
    by (simp_all add: link_inbox_def new_outbox_def sample_message_def message_request_def new_worker_message_def)
  ultimately show ?thesis
    using received_message_unanswerable [OF box _ _ s, of "''bob''" "new_outbox ''bob''" 12 "''m3''" "''done''" None] by auto
qed

definition sample_issue :: bd_issue where
  "sample_issue = \<lparr>bi_id = ''bd-1'', bi_sender = None, bi_assignee = Some ''bob'', bi_title = Some ''Plan'',
     bi_description = None, bi_time_sensitivity = None, bi_thread_id = None, bi_reply_to = None, bi_ask_id = None,
     bi_okr_id = None, bi_ephemeral = None, bi_created_at = None, bi_expires_at = None, bi_recipients = Some [''bob'', ''cat''],
     bi_metadata = message_metadata sample_message\<rparr>"

theorem beads_message_loses_sender_witness:
  "wm_sender (parse_message 5 sample_issue) = [] \<and> (\<exists>m. read_back 5 sample_issue = Inr m \<and> wm_sender m = ''ann'')"
proof -
  have "\<exists>m. read_back 5 sample_issue = Inr m"
    by (simp add: read_back_def sample_issue_def message_metadata_def sample_message_def message_request_def
        new_worker_message_def meta_get_def from_opt_def MessageType_of_def TimeSensitivity_of_def MESSAGE_TYPES_def SENSITIVITIES_def)
  then obtain m where m: "read_back 5 sample_issue = Inr m" by blast
  have "bi_sender sample_issue = None" "map_of (bi_metadata sample_issue) ''sender'' = Some ''ann''" "''ann'' \<noteq> ([] :: string)"
    by (simp_all add: sample_issue_def message_metadata_def sample_message_def message_request_def new_worker_message_def)
  from beads_message_loses_sender [OF this m] m show ?thesis by blast
qed

end
