(* ===== verification/Templates.thy ===== *)
theory Templates
  imports Py_Values
begin

text \<open>
  \<open>cli/core/templates/types.py\<close> and \<open>loader.py\<close>: team templates and the strict loader of the YAML
  catalog. A loader step either raises or returns a value; the tuples of the dataclasses are lists.
  The lemmas end in \<open>loaded_templates_well_formed\<close>: what the loader accepts can be hired.
\<close>

section \<open>Types\<close>

record template_member =
  tpm_role :: string
  tpm_count :: int
  tpm_cost :: int
  tpm_is_manager :: bool

record channel_spec =
  chs_auto_create :: bool
  chs_name_template :: string

text \<open>The key results of an objective are not checked by the loader.\<close>

record initial_okr =
  io_title :: string
  io_description :: string
  io_key_results :: "pyval list"

record team_template =
  tp_name :: string
  tp_description :: string
  tp_members :: "template_member list"
  tp_channel :: "channel_spec option"
  tp_requires :: "string list"
  tp_initial_okrs :: "initial_okr list"
  tp_ttl_hours :: "int option"

record template_registry =
  tr_version :: pyval
  tr_templates :: "team_template list"
  tr_source_path :: string

definition get_template :: "template_registry \<Rightarrow> string \<Rightarrow> py_error + team_template" where
  "get_template reg nm =
     (case List.find (\<lambda>t. tp_name t = nm) (tr_templates reg) of
        None \<Rightarrow> Inl (TemplateNotFound nm)
      | Some t \<Rightarrow> Inr t)"

section \<open>Loader\<close>

abbreviation schema_error :: "string \<Rightarrow> py_error + 'a" where
  "schema_error msg \<equiv> Inl (TemplateSchemaError msg)"

fun read_templates_yaml :: "file_read \<Rightarrow> py_error + (pyval \<times> pyval) list" where
  "read_templates_yaml Unreadable = schema_error ''could not read file''"
| "read_templates_yaml BadYaml = schema_error ''YAML parse error''"
| "read_templates_yaml (Parsed v) =
     (if v = VNone then schema_error ''file is empty''
      else case dict_items v of Some kvs \<Rightarrow> Inr kvs | None \<Rightarrow> schema_error ''top-level must be a mapping'')"

text \<open>The checks of the loader: what must be a mapping, a list, or hold.\<close>

definition want_dict :: "string \<Rightarrow> pyval \<Rightarrow> py_error + (pyval \<times> pyval) list" where
  "want_dict msg v = (case v of VDict kvs \<Rightarrow> Inr kvs | _ \<Rightarrow> schema_error msg)"

definition want_list :: "string \<Rightarrow> pyval \<Rightarrow> py_error + pyval list" where
  "want_list msg v = (case v of VList xs \<Rightarrow> Inr xs | _ \<Rightarrow> schema_error msg)"

definition ensure :: "bool \<Rightarrow> string \<Rightarrow> py_error + unit" where
  "ensure p msg = (if p then Inr () else schema_error msg)"

lemma checks_Inr_iff [simp]:
  "want_dict msg v = Inr kvs \<longleftrightarrow> v = VDict kvs"
  "want_list msg v = Inr xs \<longleftrightarrow> v = VList xs"
  "ensure p msg = Inr u \<longleftrightarrow> p"
  by (auto simp: want_dict_def want_list_def ensure_def split: pyval.splits)

text \<open>\<open>sorted\<close> of the unexpected keys raises when two of them have no order.\<close>

fun comparable :: "pyval \<Rightarrow> pyval \<Rightarrow> bool" where
  "comparable (VObj t _) y = (case y of VObj t' _ \<Rightarrow> t = t' | _ \<Rightarrow> False)"
| "comparable x y = (py_lt x y \<noteq> None)"

fun sortable :: "pyval list \<Rightarrow> bool" where
  "sortable [] = True"
| "sortable (x # xs) = (list_all (comparable x) xs \<and> sortable xs)"

definition strict_keys :: "(pyval \<times> pyval) list \<Rightarrow> string list \<Rightarrow> py_error + unit" where
  "strict_keys raw allowed =
     (let extras = filter (\<lambda>k. k \<notin> VStr ` set allowed) (map fst raw)
      in if extras = [] then Inr ()
         else if sortable extras then schema_error ''unknown/unexpected key(s)''
         else Inl (TypeError ''< not supported between these instances''))"

fun validate_cost :: "pyval \<Rightarrow> py_error + int" where
  "validate_cost (VBool b) = schema_error ''cost must be int, got bool''"
| "validate_cost (VInt i) = (if 0 \<le> i \<and> i \<le> 100 then Inr i else schema_error ''cost must be in [0,100]'')"
| "validate_cost _ = schema_error ''cost must be int in [0,100]''"

fun positive_int :: "pyval \<Rightarrow> bool" where
  "positive_int (VInt i) = (1 \<le> i)"
| "positive_int _ = False"

fun int_of :: "pyval \<Rightarrow> int" where
  "int_of (VInt i) = i"
| "int_of _ = 0"

fun nonempty_str :: "pyval \<Rightarrow> bool" where
  "nonempty_str (VStr s) = (s \<noteq> [])"
| "nonempty_str _ = False"

fun is_bool :: "pyval \<Rightarrow> bool" where
  "is_bool (VBool _) = True"
| "is_bool _ = False"

fun is_str :: "pyval \<Rightarrow> bool" where
  "is_str (VStr _) = True"
| "is_str _ = False"

definition has_keys :: "string list \<Rightarrow> (pyval \<times> pyval) list \<Rightarrow> bool" where
  "has_keys ks raw = list_all (\<lambda>k. vmem k raw) ks"

text \<open>The three required keys are looked for in order, before the unexpected ones.\<close>

definition build_member :: "pyval \<Rightarrow> py_error + template_member" where
  "build_member v =
     sum_then (want_dict ''each member must be a mapping'' v) (\<lambda>raw.
     let role = vget raw ''role'' VNone; count = vget raw ''count'' VNone;
         manager = vget raw ''is_manager'' (VBool False) in
     sum_then (ensure (has_keys [''role'', ''count'', ''cost''] raw) ''member missing required key'') (\<lambda>_.
     sum_then (strict_keys raw [''role'', ''count'', ''cost'', ''is_manager'']) (\<lambda>_.
     sum_then (ensure (nonempty_str role) ''member.role must be a non-empty string'') (\<lambda>_.
     sum_then (ensure (positive_int count) ''count must be a positive int'') (\<lambda>_.
     sum_then (validate_cost (vget raw ''cost'' VNone)) (\<lambda>cost.
     sum_then (ensure (is_bool manager) ''is_manager must be bool'') (\<lambda>_.
       Inr \<lparr>tpm_role = py_str role, tpm_count = int_of count, tpm_cost = cost,
            tpm_is_manager = py_truth manager\<rparr>)))))))"

definition build_channel :: "pyval \<Rightarrow> py_error + channel_spec" where
  "build_channel v =
     sum_then (want_dict ''channel must be a mapping'' v) (\<lambda>raw.
     let auto_create = vget raw ''auto_create'' (VBool True);
         name_template = vget raw ''name_template'' (VStr []) in
     sum_then (strict_keys raw [''auto_create'', ''name_template'']) (\<lambda>_.
     sum_then (ensure (is_bool auto_create) ''channel.auto_create must be bool'') (\<lambda>_.
     sum_then (ensure (is_str name_template) ''channel.name_template must be a string'') (\<lambda>_.
       Inr \<lparr>chs_auto_create = py_truth auto_create, chs_name_template = py_str name_template\<rparr>))))"

definition build_okr :: "pyval \<Rightarrow> py_error + initial_okr" where
  "build_okr v =
     sum_then (want_dict ''each initial_okr must be a mapping'' v) (\<lambda>raw.
     sum_then (strict_keys raw [''title'', ''description'', ''key_results'']) (\<lambda>_.
     sum_then (ensure (has_keys [''title'', ''description''] raw) ''initial_okr missing required key'') (\<lambda>_.
     sum_then (want_list ''initial_okr.key_results must be a list'' (vget raw ''key_results'' (VList []))) (\<lambda>krs.
       Inr \<lparr>io_title = py_str (vget raw ''title'' VNone), io_description = py_str (vget raw ''description'' VNone),
            io_key_results = krs\<rparr>))))"

definition TEMPLATE_KEYS :: "string list" where
  "TEMPLATE_KEYS = [''name'', ''description'', ''members'', ''channel'', ''requires'', ''initial_okrs'', ''ttl_hours'']"

definition build_template :: "pyval \<Rightarrow> py_error + team_template" where
  "build_template v =
     sum_then (want_dict ''each template must be a mapping'' v) (\<lambda>raw.
     let nm = vget raw ''name'' VNone; descr = vget raw ''description'' VNone; ttl = vget raw ''ttl_hours'' VNone in
     sum_then (ensure (has_keys [''name'', ''description'', ''members''] raw) ''template missing required key'') (\<lambda>_.
     sum_then (ensure (nonempty_str nm) ''template.name must be a non-empty string'') (\<lambda>_.
     sum_then (strict_keys raw TEMPLATE_KEYS) (\<lambda>_.
     sum_then (ensure (is_str descr) ''description must be a string'') (\<lambda>_.
     sum_then (want_list ''members must be a non-empty list'' (vget raw ''members'' VNone)) (\<lambda>ms.
     sum_then (ensure (ms \<noteq> []) ''members must be a non-empty list'') (\<lambda>_.
     sum_then (sum_map build_member ms) (\<lambda>members.
     sum_then (ensure (length (filter tpm_is_manager members) = 1)
       ''must have exactly one member with is_manager: true'') (\<lambda>_.
     sum_then (if vmem ''channel'' raw
               then sum_then (build_channel (vget raw ''channel'' VNone)) (\<lambda>c. Inr (Some c))
               else Inr None) (\<lambda>channel.
     sum_then (want_list ''requires must be a list of template names'' (vget raw ''requires'' (VList []))) (\<lambda>requires.
     sum_then (want_list ''initial_okrs must be a list'' (vget raw ''initial_okrs'' (VList []))) (\<lambda>qs.
     sum_then (sum_map build_okr qs) (\<lambda>initial_okrs.
     sum_then (ensure (ttl = VNone \<or> positive_int ttl) ''ttl_hours must be a positive int or null'') (\<lambda>_.
       Inr \<lparr>tp_name = py_str nm, tp_description = py_str descr, tp_members = members, tp_channel = channel,
            tp_requires = map py_str requires, tp_initial_okrs = initial_okrs,
            tp_ttl_hours = (if ttl = VNone then None else Some (int_of ttl))\<rparr>))))))))))))))"

definition build_registry :: "(pyval \<times> pyval) list \<Rightarrow> string \<Rightarrow> py_error + template_registry" where
  "build_registry data source_path =
     sum_then (ensure (py_eq (vget data ''version'' VNone) (VInt 1)) ''unsupported version'') (\<lambda>_.
     sum_then (ensure (vget data ''templates'' VNone \<noteq> VNone) ''missing templates key'') (\<lambda>_.
     sum_then (want_list ''templates must be a list'' (vget data ''templates'' VNone)) (\<lambda>raw.
     sum_then (sum_map build_template raw) (\<lambda>ts.
     sum_then (ensure (distinct (map tp_name ts)) ''duplicate template name'') (\<lambda>_.
     sum_then (ensure (list_all (\<lambda>t. list_all (\<lambda>r. r \<in> tp_name ` set ts) (tp_requires t)) ts)
       ''requires references unknown template'') (\<lambda>_.
       Inr \<lparr>tr_version = vget data ''version'' VNone, tr_templates = sort_key tp_name ts,
            tr_source_path = source_path\<rparr>))))))"

text \<open>The organisation's own file when it exists, else the bundled catalog; each with its path.\<close>

definition load_templates ::
  "(string \<times> file_read) option \<Rightarrow> string \<times> file_read \<Rightarrow> py_error + template_registry" where
  "load_templates org_templates default_catalog =
     (case (case org_templates of Some f \<Rightarrow> f | None \<Rightarrow> default_catalog) of
        (path, content) \<Rightarrow> sum_then (read_templates_yaml content) (\<lambda>data. build_registry data path))"

section \<open>Parent references\<close>

text \<open>\<open>composition.py\<close>: a template with requirements is attached under a team made from one of them.\<close>

definition get_team_by_name :: "db \<Rightarrow> string \<Rightarrow> team_row option" where
  "get_team_by_name d nm = fetchone (\<lambda>t. t_name t = nm) (teams d)"

definition validate_parent_reference ::
  "team_template \<Rightarrow> string option \<Rightarrow> db \<Rightarrow> py_error + ident option" where
  "validate_parent_reference tp parent d =
     (if tp_requires tp = [] then Inr None
      else case parent of
        None \<Rightarrow> Inl (TemplateMissingParent (tp_name tp))
      | Some nm \<Rightarrow>
          (case get_team_by_name d nm of
             None \<Rightarrow> Inl (TemplateWrongParentType (tp_name tp) nm None)
           | Some t \<Rightarrow>
               (case t_template_type t of
                  None \<Rightarrow> Inl (TemplateWrongParentType (tp_name tp) nm None)
                | Some ty \<Rightarrow>
                    if ty \<notin> set (tp_requires tp) then Inl (TemplateWrongParentType (tp_name tp) nm (Some ty))
                    else if t_status t \<noteq> ''active'' then Inl (TemplateParentTerminated nm)
                    else Inr (t_lead_id t))))"

section \<open>What the loader accepts\<close>

definition member_wf :: "template_member \<Rightarrow> bool" where
  "member_wf m = (tpm_role m \<noteq> [] \<and> 1 \<le> tpm_count m \<and> 0 \<le> tpm_cost m \<and> tpm_cost m \<le> 100)"

definition template_wf :: "team_template \<Rightarrow> bool" where
  "template_wf t = (tp_name t \<noteq> [] \<and> tp_members t \<noteq> [] \<and> list_all member_wf (tp_members t)
     \<and> length (filter tpm_is_manager (tp_members t)) = 1
     \<and> (case tp_ttl_hours t of None \<Rightarrow> True | Some h \<Rightarrow> 1 \<le> h))"

lemma nonempty_str_iff: "nonempty_str v \<longleftrightarrow> (\<exists>s. v = VStr s \<and> s \<noteq> [])"
  by (cases v) auto

lemma positive_int_iff: "positive_int v \<longleftrightarrow> (\<exists>i. v = VInt i \<and> 1 \<le> i)"
  by (cases v) auto

lemma validate_cost_Inr_iff: "validate_cost v = Inr c \<longleftrightarrow> v = VInt c \<and> 0 \<le> c \<and> c \<le> 100"
  by (cases v) auto

lemma build_member_wf: "build_member v = Inr m \<Longrightarrow> member_wf m"
  by (auto simp: build_member_def member_wf_def sum_then_Inr_iff nonempty_str_iff positive_int_iff
      validate_cost_Inr_iff Let_def)

lemma build_template_wf:
  assumes "build_template v = Inr t"
  shows "template_wf t"
proof -
  from assms obtain raw ms members where parts: "nonempty_str (vget raw ''name'' VNone)" "ms \<noteq> []"
    "sum_map build_member ms = Inr members" "length (filter tpm_is_manager members) = 1"
    "vget raw ''ttl_hours'' VNone = VNone \<or> positive_int (vget raw ''ttl_hours'' VNone)"
    "tp_name t = py_str (vget raw ''name'' VNone)" "tp_members t = members"
    "tp_ttl_hours t = (if vget raw ''ttl_hours'' VNone = VNone then None
       else Some (int_of (vget raw ''ttl_hours'' VNone)))"
    unfolding build_template_def sum_then_Inr_iff Let_def by force
  have "list_all member_wf members"
    using sum_map_Inr_mem [OF parts(3)] build_member_wf by (auto simp: list_all_iff)
  moreover have "members \<noteq> []" using parts(4) by auto
  ultimately show ?thesis using parts
    by (auto simp: template_wf_def nonempty_str_iff positive_int_iff)
qed

definition registry_wf :: "template_registry \<Rightarrow> bool" where
  "registry_wf reg = (list_all template_wf (tr_templates reg)
     \<and> distinct (map tp_name (tr_templates reg)) \<and> sorted (map tp_name (tr_templates reg))
     \<and> list_all (\<lambda>t. set (tp_requires t) \<subseteq> tp_name ` set (tr_templates reg)) (tr_templates reg))"

lemma build_registry_wf:
  assumes "build_registry data path = Inr reg"
  shows "registry_wf reg"
proof -
  from assms obtain raw ts where ts: "sum_map build_template raw = Inr ts" "distinct (map tp_name ts)"
    "list_all (\<lambda>t. list_all (\<lambda>r. r \<in> tp_name ` set ts) (tp_requires t)) ts" "tr_templates reg = sort_key tp_name ts"
    unfolding build_registry_def sum_then_Inr_iff by force
  have "template_wf t" if "t \<in> set ts" for t
    using sum_map_Inr_mem [OF ts(1) that] build_template_wf by blast
  then show ?thesis using ts
    by (auto simp: registry_wf_def list_all_iff distinct_map)
qed

text \<open>
  C18: Whatever \<open>load_templates\<close> accepts is well formed: the names are not empty, distinct and in order; every
  template has members, each with a role, at least one seat and a cost from 0 to 100; exactly one entry
  is the manager; a time to live is positive; and every required template is in the catalog, so a parent
  of that type can exist. A template found by name has these properties.
\<close>

theorem loaded_templates_well_formed:
  assumes "load_templates org_templates default_catalog = Inr reg"
  shows "registry_wf reg
    \<and> (\<forall>nm t. get_template reg nm = Inr t \<longrightarrow> template_wf t \<and> tp_name t = nm)"
proof -
  have wf: "registry_wf reg"
    using assms by (auto simp: load_templates_def sum_then_Inr_iff build_registry_wf split: prod.splits)
  have "template_wf t \<and> tp_name t = nm" if "get_template reg nm = Inr t" for nm t
    using that wf nth_mem [of _ "tr_templates reg"]
    by (auto simp: get_template_def registry_wf_def list_all_iff find_Some_iff split: option.splits)
  then show ?thesis using wf by blast
qed

definition small_catalog :: pyval where
  "small_catalog = VDict [(VStr ''version'', VInt 1), (VStr ''templates'', VList [
     VDict [(VStr ''name'', VStr ''squad''), (VStr ''description'', VStr ''A squad.''),
       (VStr ''members'', VList [
         VDict [(VStr ''role'', VStr ''lead''), (VStr ''count'', VInt 1), (VStr ''cost'', VInt 60),
           (VStr ''is_manager'', VBool True)],
         VDict [(VStr ''role'', VStr ''engineer''), (VStr ''count'', VInt 2), (VStr ''cost'', VInt 50)]])]])]"

theorem loaded_templates_well_formed_witness:
  "\<exists>reg. load_templates None (''catalog.yaml'', Parsed small_catalog) = Inr reg
     \<and> map tp_name (tr_templates reg) = [''squad''] \<and> registry_wf reg"
proof -
  have l: "load_templates None (''catalog.yaml'', Parsed small_catalog) = Inr \<lparr>tr_version = VInt 1,
      tr_templates = [\<lparr>tp_name = ''squad'', tp_description = ''A squad.'',
        tp_members = [\<lparr>tpm_role = ''lead'', tpm_count = 1, tpm_cost = 60, tpm_is_manager = True\<rparr>,
                      \<lparr>tpm_role = ''engineer'', tpm_count = 2, tpm_cost = 50, tpm_is_manager = False\<rparr>],
        tp_channel = None, tp_requires = [], tp_initial_okrs = [], tp_ttl_hours = None\<rparr>],
      tr_source_path = ''catalog.yaml''\<rparr>"
    by code_simp
  from loaded_templates_well_formed [OF l] show ?thesis unfolding l by simp
qed

end
