(* ===== verification/Deletions.thy ===== *)
theory Deletions
  imports Messages
begin

text \<open>
  \<open>DELETE\<close> on the tables others refer to, after the \<open>ON DELETE\<close> clauses of \<open>cli/core/db/schema.py\<close>:
  \<open>CASCADE\<close> deletes the referring rows, \<open>SET NULL\<close> clears the reference, \<open>RESTRICT\<close> fails. A failing
  statement changes nothing. Audit rows are immutable: a trigger refuses to clear their reference to a
  grant, so a grant with an audit row cannot be deleted, not even by a cascade.
\<close>

section \<open>Messages and channels\<close>

text \<open>
  Deleting a message deletes its replies: the messages reached from the deleted ones along
  \<open>parent_id\<close>. A round adds the direct replies, so as many rounds as there are messages are enough.
\<close>

fun with_replies :: "nat \<Rightarrow> message_row list \<Rightarrow> ident list \<Rightarrow> ident list" where
  "with_replies 0 ms gone = gone"
| "with_replies (Suc n) ms gone =
     with_replies n ms (gone @ map m_id (filter (\<lambda>m. m_id m \<notin> set gone \<and>
       (case m_parent_id m of None \<Rightarrow> False | Some p \<Rightarrow> p \<in> set gone)) ms))"

definition delete_channel_row :: "ident \<Rightarrow> db \<Rightarrow> db" where
  "delete_channel_row c d =
     (if \<not> channel_exists d c then d
      else let gone = with_replies (length (messages d)) (messages d)
                        (map m_id (fetchall (\<lambda>m. m_channel_id m = c) (messages d)))
           in d\<lparr>channels := delete_where (\<lambda>r. c_id r = c) (channels d),
                subscriptions := delete_where (\<lambda>s. cs_channel_id s = c) (subscriptions d),
                messages := delete_where (\<lambda>m. m_id m \<in> set gone) (messages d),
                message_refs := delete_where (\<lambda>r. mr_message_id r \<in> set gone) (message_refs d),
                notification_beads := delete_where (\<lambda>n. n_channel_id n = c \<or> n_message_id n \<in> set gone)
                  (notification_beads d),
                teams := update_where (\<lambda>t. t_channel_id t = Some c) (\<lambda>t. t\<lparr>t_channel_id := None\<rparr>) (teams d)\<rparr>)"

section \<open>Teams\<close>

definition delete_team_row :: "ident \<Rightarrow> db \<Rightarrow> (db, unit) outcome" where
  "delete_team_row i d =
     (if team_exists d i \<and> list_ex (\<lambda>w. w_team_id w = i) (workers d)
      then raise (IntegrityError ''workers.team_id'') d
      else if \<not> team_exists d i then ok () d
      else let d1 = fold (\<lambda>c. delete_channel_row (c_id c)) (fetchall (\<lambda>c. c_team_id c = Some i) (channels d)) d
           in ok () (d1\<lparr>teams := update_where (\<lambda>t. t_parent_team_id t = Some i) (\<lambda>t. t\<lparr>t_parent_team_id := None\<rparr>)
                          (delete_where (\<lambda>t. t_id t = i) (teams d1)),
                        team_members := delete_where (\<lambda>m. tm_team_id m = i) (team_members d1)\<rparr>))"

section \<open>Workers\<close>

text \<open>
  What refuses the deletion of a worker: messages it sent and audit rows that name it (\<open>RESTRICT\<close>), the
  audit rows of its grants, and allocations it is the source of, whose \<open>CHECK\<close> needs a source or a pool.
\<close>

definition grants_of :: "ident \<Rightarrow> db \<Rightarrow> grant_row list" where
  "grants_of i d = fetchall (\<lambda>g. g_delegator_id g = i \<or> g_delegate_id g = i) (grants d)"

definition worker_pinned :: "ident \<Rightarrow> db \<Rightarrow> bool" where
  "worker_pinned i d =
     (list_ex (\<lambda>m. m_from_worker_id m = i) (messages d)
      \<or> list_ex (\<lambda>a. a_delegator_id a = i \<or> a_delegate_id a = i
           \<or> (case a_delegation_grant_id a of None \<Rightarrow> False | Some g \<Rightarrow> g \<in> g_id ` set (grants_of i d))) (audits d)
      \<or> list_ex (\<lambda>a. al_source_worker_id a = Some i \<and> al_worker_id a \<noteq> i) (allocations d))"

definition delete_worker_row :: "ident \<Rightarrow> db \<Rightarrow> (db, unit) outcome" where
  "delete_worker_row i d =
     (if \<not> worker_exists d i then ok () d
      else if worker_pinned i d then raise (IntegrityError ''workers.id'') d
      else
        let gone_okrs = ok_id ` set (fetchall (\<lambda>q. ok_owner_worker_id q = i) (okrs d));
            gone_allocs = al_id ` set (fetchall (\<lambda>a. al_worker_id a = i) (allocations d))
        in ok () (d\<lparr>
             workers := update_where (\<lambda>w. w_manager_id w = Some i) (\<lambda>w. w\<lparr>w_manager_id := None\<rparr>)
               (delete_where (\<lambda>w. w_id w = i) (workers d)),
             worker_states := delete_where (\<lambda>s. ws_worker_id s = i) (worker_states d),
             sessions := delete_where (\<lambda>s. ss_worker_id s = i) (sessions d),
             teams := update_where (\<lambda>t. t_lead_id t = Some i) (\<lambda>t. t\<lparr>t_lead_id := None\<rparr>) (teams d),
             team_members := delete_where (\<lambda>m. tm_worker_id m = i) (team_members d),
             subscriptions := delete_where (\<lambda>s. cs_worker_id s = i) (subscriptions d),
             effective_permissions := delete_where (\<lambda>p. ep_worker_id p = i) (effective_permissions d),
             notification_beads := delete_where (\<lambda>n. n_worker_id n = i) (notification_beads d),
             allocations := delete_where (\<lambda>a. al_worker_id a = i) (allocations d),
             txns := delete_where (\<lambda>t. tx_worker_id t = i \<or> tx_allocation_id t \<in> gone_allocs) (txns d),
             balances := delete_where (\<lambda>b. b_worker_id b = i \<or> b_allocation_id b \<in> gone_allocs) (balances d),
             grants := delete_where (\<lambda>g. g_delegator_id g = i \<or> g_delegate_id g = i) (grants d),
             okrs := update_where (\<lambda>q. case ok_parent_okr_id q of None \<Rightarrow> False | Some p \<Rightarrow> p \<in> gone_okrs)
               (\<lambda>q. q\<lparr>ok_parent_okr_id := None\<rparr>) (delete_where (\<lambda>q. ok_owner_worker_id q = i) (okrs d)),
             okr_links := delete_where (\<lambda>l. ol_okr_id l \<in> gone_okrs) (okr_links d),
             worker_resume_states := delete_where (\<lambda>r. re_worker_id r = i) (worker_resume_states d),
             activity_signals := delete_where (\<lambda>s. sg_worker_id s = i) (activity_signals d)\<rparr>))"

section \<open>References that hold\<close>

text \<open>What \<open>PRAGMA foreign_keys = ON\<close> keeps true, for the references the deletions above look at.\<close>

definition ref_ok :: "ident set \<Rightarrow> ident option \<Rightarrow> bool" where
  "ref_ok ids r = (case r of None \<Rightarrow> True | Some i \<Rightarrow> i \<in> ids)"

definition worker_refs_hold :: "db \<Rightarrow> bool" where
  "worker_refs_hold d =
     (let ws = w_id ` set (workers d)
      in list_all (\<lambda>w. ref_ok ws (w_manager_id w)) (workers d)
         \<and> list_all (\<lambda>s. ws_worker_id s \<in> ws) (worker_states d)
         \<and> list_all (\<lambda>s. ss_worker_id s \<in> ws) (sessions d)
         \<and> list_all (\<lambda>t. ref_ok ws (t_lead_id t)) (teams d)
         \<and> list_all (\<lambda>m. tm_worker_id m \<in> ws) (team_members d)
         \<and> list_all (\<lambda>s. cs_worker_id s \<in> ws) (subscriptions d)
         \<and> list_all (\<lambda>p. ep_worker_id p \<in> ws) (effective_permissions d)
         \<and> list_all (\<lambda>n. n_worker_id n \<in> ws) (notification_beads d)
         \<and> list_all (\<lambda>a. al_worker_id a \<in> ws \<and> ref_ok ws (al_source_worker_id a)) (allocations d)
         \<and> list_all (\<lambda>t. tx_worker_id t \<in> ws \<and> tx_allocation_id t \<in> al_id ` set (allocations d)) (txns d)
         \<and> list_all (\<lambda>b. b_worker_id b \<in> ws \<and> b_allocation_id b \<in> al_id ` set (allocations d)) (balances d)
         \<and> list_all (\<lambda>g. g_delegator_id g \<in> ws \<and> g_delegate_id g \<in> ws) (grants d)
         \<and> list_all (\<lambda>a. a_delegator_id a \<in> ws \<and> a_delegate_id a \<in> ws) (audits d)
         \<and> list_all (\<lambda>q. ok_owner_worker_id q \<in> ws \<and> ref_ok (ok_id ` set (okrs d)) (ok_parent_okr_id q)) (okrs d)
         \<and> list_all (\<lambda>l. ol_okr_id l \<in> ok_id ` set (okrs d)) (okr_links d)
         \<and> list_all (\<lambda>r. re_worker_id r \<in> ws) (worker_resume_states d)
         \<and> list_all (\<lambda>s. sg_worker_id s \<in> ws) (activity_signals d)
         \<and> list_all (\<lambda>m. m_from_worker_id m \<in> ws) (messages d))"

definition place_refs_hold :: "db \<Rightarrow> bool" where
  "place_refs_hold d =
     (let ts = t_id ` set (teams d); cs = c_id ` set (channels d); ms = m_id ` set (messages d)
      in list_all (\<lambda>w. w_team_id w \<in> ts) (workers d)
         \<and> list_all (\<lambda>t. ref_ok ts (t_parent_team_id t) \<and> ref_ok cs (t_channel_id t)) (teams d)
         \<and> list_all (\<lambda>m. tm_team_id m \<in> ts) (team_members d)
         \<and> list_all (\<lambda>c. ref_ok ts (c_team_id c)) (channels d)
         \<and> list_all (\<lambda>s. cs_channel_id s \<in> cs) (subscriptions d)
         \<and> list_all (\<lambda>m. m_channel_id m \<in> cs \<and> ref_ok ms (m_parent_id m)) (messages d)
         \<and> list_all (\<lambda>r. mr_message_id r \<in> ms) (message_refs d)
         \<and> list_all (\<lambda>n. n_channel_id n \<in> cs \<and> n_message_id n \<in> ms) (notification_beads d))"

definition foreign_keys_hold :: "db \<Rightarrow> bool" where
  "foreign_keys_hold d = (worker_refs_hold d \<and> place_refs_hold d)"

section \<open>Rows added to a database\<close>

text \<open>
  A database with rows appended to six of its tables. The lemmas say what the deletions do when the
  deleted row is one of the new ones: the old rows are all kept.
\<close>

record new_rows =
  nr_workers :: "worker_row list"
  nr_teams :: "team_row list"
  nr_members :: "team_member_row list"
  nr_channels :: "channel_row list"
  nr_subs :: "subscription_row list"
  nr_okrs :: "okr_row list"

definition with_rows :: "db \<Rightarrow> new_rows \<Rightarrow> db" where
  "with_rows d x = d\<lparr>workers := workers d @ nr_workers x, teams := teams d @ nr_teams x,
     team_members := team_members d @ nr_members x, channels := channels d @ nr_channels x,
     subscriptions := subscriptions d @ nr_subs x, okrs := okrs d @ nr_okrs x\<rparr>"

definition no_rows :: new_rows where
  "no_rows = \<lparr>nr_workers = [], nr_teams = [], nr_members = [], nr_channels = [], nr_subs = [], nr_okrs = []\<rparr>"

lemma with_no_rows [simp]: "with_rows d no_rows = d"
  by (simp add: with_rows_def no_rows_def)

lemma with_rows_simps [simp]:
  "workers (with_rows d x) = workers d @ nr_workers x" "teams (with_rows d x) = teams d @ nr_teams x"
  "team_members (with_rows d x) = team_members d @ nr_members x"
  "channels (with_rows d x) = channels d @ nr_channels x"
  "subscriptions (with_rows d x) = subscriptions d @ nr_subs x" "okrs (with_rows d x) = okrs d @ nr_okrs x"
  by (simp_all add: with_rows_def)

lemma with_rows_update:
  "(with_rows d x)\<lparr>workers := workers d @ ws\<rparr> = with_rows d (x\<lparr>nr_workers := ws\<rparr>)"
  "(with_rows d x)\<lparr>teams := teams d @ ts\<rparr> = with_rows d (x\<lparr>nr_teams := ts\<rparr>)"
  "(with_rows d x)\<lparr>team_members := team_members d @ ms\<rparr> = with_rows d (x\<lparr>nr_members := ms\<rparr>)"
  "(with_rows d x)\<lparr>channels := channels d @ cs\<rparr> = with_rows d (x\<lparr>nr_channels := cs\<rparr>)"
  "(with_rows d x)\<lparr>subscriptions := subscriptions d @ ss\<rparr> = with_rows d (x\<lparr>nr_subs := ss\<rparr>)"
  "(with_rows d x)\<lparr>okrs := okrs d @ qs\<rparr> = with_rows d (x\<lparr>nr_okrs := qs\<rparr>)"
  by (simp_all add: with_rows_def)

lemma delete_where_append [simp]: "delete_where p (xs @ ys) = delete_where p xs @ delete_where p ys"
  by (simp add: delete_where_def)

lemma delete_where_none: "(\<And>r. r \<in> set rows \<Longrightarrow> \<not> p r) \<Longrightarrow> delete_where p rows = rows"
  by (simp add: delete_where_def)

lemma delete_where_all: "(\<And>r. r \<in> set rows \<Longrightarrow> p r) \<Longrightarrow> delete_where p rows = []"
  by (simp add: delete_where_def)

lemma with_replies_nil [simp]: "with_replies n ms [] = []"
  by (induction n) (simp_all split: option.splits)

text \<open>Tables without a row that mentions the worker.\<close>

lemma unreferenced_worker:
  assumes "worker_refs_hold d" and "\<not> worker_exists d i"
  shows "w \<in> set (workers d) \<Longrightarrow> w_id w \<noteq> i \<and> w_manager_id w \<noteq> Some i"
    and "s \<in> set (worker_states d) \<Longrightarrow> ws_worker_id s \<noteq> i"
    and "ss \<in> set (sessions d) \<Longrightarrow> ss_worker_id ss \<noteq> i"
    and "t \<in> set (teams d) \<Longrightarrow> t_lead_id t \<noteq> Some i"
    and "m \<in> set (team_members d) \<Longrightarrow> tm_worker_id m \<noteq> i"
    and "sb \<in> set (subscriptions d) \<Longrightarrow> cs_worker_id sb \<noteq> i"
    and "p \<in> set (effective_permissions d) \<Longrightarrow> ep_worker_id p \<noteq> i"
    and "n \<in> set (notification_beads d) \<Longrightarrow> n_worker_id n \<noteq> i"
    and "al \<in> set (allocations d) \<Longrightarrow> al_worker_id al \<noteq> i \<and> al_source_worker_id al \<noteq> Some i"
    and "tx \<in> set (txns d) \<Longrightarrow> tx_worker_id tx \<noteq> i"
    and "b \<in> set (balances d) \<Longrightarrow> b_worker_id b \<noteq> i"
    and "g \<in> set (grants d) \<Longrightarrow> g_delegator_id g \<noteq> i \<and> g_delegate_id g \<noteq> i"
    and "au \<in> set (audits d) \<Longrightarrow> a_delegator_id au \<noteq> i \<and> a_delegate_id au \<noteq> i"
    and "q \<in> set (okrs d) \<Longrightarrow> ok_owner_worker_id q \<noteq> i \<and> ref_ok (ok_id ` set (okrs d)) (ok_parent_okr_id q)"
    and "l \<in> set (okr_links d) \<Longrightarrow> ol_okr_id l \<in> ok_id ` set (okrs d)"
    and "r \<in> set (worker_resume_states d) \<Longrightarrow> re_worker_id r \<noteq> i"
    and "sg \<in> set (activity_signals d) \<Longrightarrow> sg_worker_id sg \<noteq> i"
    and "ms \<in> set (messages d) \<Longrightarrow> m_from_worker_id ms \<noteq> i"
  using assms by (auto simp: worker_refs_hold_def worker_exists_def list_all_iff Let_def ref_ok_def image_iff)

lemma unpinned_new_worker:
  assumes "worker_refs_hold d" and "\<not> worker_exists d i"
  shows "\<not> worker_pinned i (with_rows d x)" and "grants_of i (with_rows d x) = []"
proof -
  note un = unreferenced_worker [OF assms]
  show g: "grants_of i (with_rows d x) = []"
    using un(12) by (auto simp: grants_of_def with_rows_def fetchall_def filter_empty_conv)
  show "\<not> worker_pinned i (with_rows d x)"
    using un(9,13,18) by (auto simp: worker_pinned_def g [unfolded with_rows_def] list_ex_iff with_rows_def split: option.splits)
qed

text \<open>A new worker is deleted with its memberships, subscriptions and objectives.\<close>

definition drop_worker :: "ident \<Rightarrow> new_rows \<Rightarrow> new_rows" where
  "drop_worker i x = x\<lparr>
     nr_workers := delete_where (\<lambda>w. w_id w = i) (nr_workers x),
     nr_teams := update_where (\<lambda>t. t_lead_id t = Some i) (\<lambda>t. t\<lparr>t_lead_id := None\<rparr>) (nr_teams x),
     nr_members := delete_where (\<lambda>m. tm_worker_id m = i) (nr_members x),
     nr_subs := delete_where (\<lambda>s. cs_worker_id s = i) (nr_subs x),
     nr_okrs := delete_where (\<lambda>q. ok_owner_worker_id q = i) (nr_okrs x)\<rparr>"

lemma delete_new_worker:
  assumes old: "worker_refs_hold d" "\<not> worker_exists d i" and new: "i \<in> w_id ` set (nr_workers x)"
    and parents: "list_all (\<lambda>q. ok_parent_okr_id q = None) (nr_okrs x)"
    and okr_ids: "ok_id ` set (okrs d) \<inter> ok_id ` set (nr_okrs x) = {}"
    and managers: "list_all (\<lambda>w. w_manager_id w \<noteq> Some i) (nr_workers x)"
  shows "delete_worker_row i (with_rows d x) = ok () (with_rows d (drop_worker i x))"
proof -
  note un = unreferenced_worker [OF old]
  define gone where "gone = ok_id ` set (fetchall (\<lambda>q. ok_owner_worker_id q = i) (okrs (with_rows d x)))"
  have gone: "gone \<inter> ok_id ` set (okrs d) = {}"
    using un(14) okr_ids by (auto simp: gone_def)
  have ex: "worker_exists (with_rows d x) i"
    using new by (auto simp: worker_exists_def)
  have 1: "delete_where (\<lambda>w. w_id w = i) (workers d) = workers d"
    "update_where (\<lambda>w. w_manager_id w = Some i) (\<lambda>w. w\<lparr>w_manager_id := None\<rparr>) (workers d) = workers d"
    "delete_where (\<lambda>s. ws_worker_id s = i) (worker_states d) = worker_states d"
    "delete_where (\<lambda>s. ss_worker_id s = i) (sessions d) = sessions d"
    "update_where (\<lambda>t. t_lead_id t = Some i) (\<lambda>t. t\<lparr>t_lead_id := None\<rparr>) (teams d) = teams d"
    "delete_where (\<lambda>m. tm_worker_id m = i) (team_members d) = team_members d"
    "delete_where (\<lambda>s. cs_worker_id s = i) (subscriptions d) = subscriptions d"
    "delete_where (\<lambda>p. ep_worker_id p = i) (effective_permissions d) = effective_permissions d"
    "delete_where (\<lambda>n. n_worker_id n = i) (notification_beads d) = notification_beads d"
    "delete_where (\<lambda>a. al_worker_id a = i) (allocations d) = allocations d"
    "delete_where (\<lambda>t. tx_worker_id t = i) (txns d) = txns d"
    "delete_where (\<lambda>b. b_worker_id b = i) (balances d) = balances d"
    "delete_where (\<lambda>g. g_delegator_id g = i \<or> g_delegate_id g = i) (grants d) = grants d"
    "delete_where (\<lambda>q. ok_owner_worker_id q = i) (okrs d) = okrs d"
    "delete_where (\<lambda>r. re_worker_id r = i) (worker_resume_states d) = worker_resume_states d"
    "delete_where (\<lambda>s. sg_worker_id s = i) (activity_signals d) = activity_signals d"
    by (simp_all add: un delete_where_none update_where_none)
  have 0: "delete_where (\<lambda>l. ol_okr_id l \<in> gone) (okr_links d) = okr_links d"
    using un(15) gone by (intro delete_where_none) blast
  have 2: "update_where (\<lambda>w. w_manager_id w = Some i) (\<lambda>w. w\<lparr>w_manager_id := None\<rparr>)
      (delete_where (\<lambda>w. w_id w = i) (nr_workers x)) = delete_where (\<lambda>w. w_id w = i) (nr_workers x)"
    using managers by (intro update_where_none) (auto simp: list_all_iff)
  have 3: "fetchall (\<lambda>a. al_worker_id a = i) (allocations d) = []"
    using un(9) by (auto simp: fetchall_def filter_empty_conv)
  have 4: "update_where (\<lambda>q. case ok_parent_okr_id q of None \<Rightarrow> False | Some p \<Rightarrow> p \<in> gone)
      (\<lambda>q. q\<lparr>ok_parent_okr_id := None\<rparr>) (okrs d) = okrs d"
    using un(14) gone by (intro update_where_none) (fastforce simp: ref_ok_def split: option.splits)
  have 5: "update_where (\<lambda>q. case ok_parent_okr_id q of None \<Rightarrow> False | Some p \<Rightarrow> p \<in> gone)
      (\<lambda>q. q\<lparr>ok_parent_okr_id := None\<rparr>) (delete_where (\<lambda>q. ok_owner_worker_id q = i) (nr_okrs x))
      = delete_where (\<lambda>q. ok_owner_worker_id q = i) (nr_okrs x)"
    using parents by (intro update_where_none) (auto simp: list_all_iff)
  have same: "worker_states (with_rows d x) = worker_states d" "sessions (with_rows d x) = sessions d"
    "effective_permissions (with_rows d x) = effective_permissions d"
    "notification_beads (with_rows d x) = notification_beads d" "allocations (with_rows d x) = allocations d"
    "txns (with_rows d x) = txns d" "balances (with_rows d x) = balances d" "grants (with_rows d x) = grants d"
    "okr_links (with_rows d x) = okr_links d" "worker_resume_states (with_rows d x) = worker_resume_states d"
    "activity_signals (with_rows d x) = activity_signals d"
    by (simp_all add: with_rows_def)
  show ?thesis
    unfolding delete_worker_row_def gone_def [symmetric] Let_def same
    by (simp add: ex unpinned_new_worker [OF old] 0 1 2 3 4 5) (simp add: with_rows_def drop_worker_def)
qed

text \<open>A new channel is deleted with its subscriptions.\<close>

lemma delete_new_channel:
  assumes refs: "place_refs_hold d" and old: "\<not> channel_exists d c" and new: "c \<in> c_id ` set (nr_channels x)"
  shows "delete_channel_row c (with_rows d x) = with_rows d (x\<lparr>
     nr_channels := delete_where (\<lambda>r. c_id r = c) (nr_channels x),
     nr_subs := delete_where (\<lambda>s. cs_channel_id s = c) (nr_subs x),
     nr_teams := update_where (\<lambda>t. t_channel_id t = Some c) (\<lambda>t. t\<lparr>t_channel_id := None\<rparr>) (nr_teams x)\<rparr>)"
proof -
  have un: "\<forall>r \<in> set (channels d). c_id r \<noteq> c" "\<forall>s \<in> set (subscriptions d). cs_channel_id s \<noteq> c"
    "\<forall>m \<in> set (messages d). m_channel_id m \<noteq> c" "\<forall>n \<in> set (notification_beads d). n_channel_id n \<noteq> c"
    "\<forall>t \<in> set (teams d). t_channel_id t \<noteq> Some c"
    using refs old by (auto simp: place_refs_hold_def channel_exists_def list_all_iff Let_def ref_ok_def image_iff)
  have ex: "channel_exists (with_rows d x) c"
    using new by (auto simp: channel_exists_def)
  have 1: "delete_where (\<lambda>r. c_id r = c) (channels d) = channels d"
    "delete_where (\<lambda>s. cs_channel_id s = c) (subscriptions d) = subscriptions d"
    "delete_where (\<lambda>n. n_channel_id n = c) (notification_beads d) = notification_beads d"
    "update_where (\<lambda>t. t_channel_id t = Some c) (\<lambda>t. t\<lparr>t_channel_id := None\<rparr>) (teams d) = teams d"
    using un by (simp_all add: delete_where_none update_where_none)
  have 2: "fetchall (\<lambda>m. m_channel_id m = c) (messages d) = []"
    using un(3) by (auto simp: fetchall_def filter_empty_conv)
  have 3: "delete_where (\<lambda>r. False) rows = rows" for rows :: "'r list"
    by (simp add: delete_where_def)
  have same: "messages (with_rows d x) = messages d" "message_refs (with_rows d x) = message_refs d"
    "notification_beads (with_rows d x) = notification_beads d"
    by (simp_all add: with_rows_def)
  show ?thesis
    unfolding delete_channel_row_def Let_def same by (simp add: ex 1 2 3) (simp add: with_rows_def)
qed

text \<open>A new team without workers and channels of its own is deleted with its memberships.\<close>

lemma delete_new_team:
  assumes refs: "place_refs_hold d" and old: "\<not> team_exists d i" and new: "i \<in> t_id ` set (nr_teams x)"
    and empty: "nr_workers x = []" "nr_channels x = []"
    and parents: "list_all (\<lambda>t. t_parent_team_id t \<noteq> Some i) (nr_teams x)"
  shows "delete_team_row i (with_rows d x) = ok () (with_rows d (x\<lparr>
     nr_teams := delete_where (\<lambda>t. t_id t = i) (nr_teams x),
     nr_members := delete_where (\<lambda>m. tm_team_id m = i) (nr_members x)\<rparr>))"
proof -
  have un: "\<forall>w \<in> set (workers d). w_team_id w \<noteq> i" "\<forall>c \<in> set (channels d). c_team_id c \<noteq> Some i"
    "\<forall>m \<in> set (team_members d). tm_team_id m \<noteq> i" "\<forall>t \<in> set (teams d). t_id t \<noteq> i \<and> t_parent_team_id t \<noteq> Some i"
    using refs old by (auto simp: place_refs_hold_def team_exists_def list_all_iff Let_def ref_ok_def image_iff)
  have ex: "team_exists (with_rows d x) i"
    using new by (auto simp: team_exists_def)
  have 1: "delete_where (\<lambda>t. t_id t = i) (teams d) = teams d"
    "delete_where (\<lambda>m. tm_team_id m = i) (team_members d) = team_members d"
    "update_where (\<lambda>t. t_parent_team_id t = Some i) (\<lambda>t. t\<lparr>t_parent_team_id := None\<rparr>) (teams d) = teams d"
    using un by (simp_all add: delete_where_none update_where_none)
  have 2: "fetchall (\<lambda>c. c_team_id c = Some i) (channels d) = []"
    using un(2) by (auto simp: fetchall_def filter_empty_conv)
  have 3: "\<not> list_ex (\<lambda>w. w_team_id w = i) (workers d)" using un(1) by (auto simp: list_ex_iff)
  have 4: "update_where (\<lambda>t. t_parent_team_id t = Some i) (\<lambda>t. t\<lparr>t_parent_team_id := None\<rparr>)
      (delete_where (\<lambda>t. t_id t = i) (nr_teams x)) = delete_where (\<lambda>t. t_id t = i) (nr_teams x)"
    using parents by (intro update_where_none) (auto simp: list_all_iff)
  show ?thesis
    unfolding delete_team_row_def Let_def by (simp add: ex empty 1 2 3 4) (simp add: with_rows_def empty)
qed

end
