(* ===== verification/Hire_Team.thy ===== *)
theory Hire_Team
  imports Templates Deletions OKRs
begin

text \<open>
  \<open>cli/core/templates/orchestrator.py\<close> and \<open>_helpers.py\<close>: hiring a whole team from a template, with a
  stack of undo steps that is run when a step fails. The ids \<open>generate_id\<close> draws are the record
  \<open>hire_ids\<close>; the part of a format field after its name (\<open>.attr\<close>, \<open>[i]\<close>, \<open>!r\<close>, \<open>:spec\<close>) is applied by the
  parameter \<open>rest\<close>.
\<close>

section \<open>Text templates\<close>

text \<open>The field up to its closing brace, braces inside being balanced, and what follows it.\<close>

fun field_text :: "nat \<Rightarrow> string \<Rightarrow> (string \<times> string) option" where
  "field_text n [] = None"
| "field_text n (c # cs) =
     (if c = CHR ''}'' then
        (case n of 0 \<Rightarrow> Some ([], cs) | Suc k \<Rightarrow> map_option (\<lambda>(f, r). (c # f, r)) (field_text k cs))
      else map_option (\<lambda>(f, r). (c # f, r)) (field_text (if c = CHR ''{'' then Suc n else n) cs))"

lemma field_text_shorter: "field_text n s = Some (f, r) \<Longrightarrow> length r < length s"
  by (induction n s arbitrary: f r rule: field_text.induct) (auto split: if_splits nat.splits, fastforce+)

type_synonym format_rest = "pyval \<Rightarrow> string \<Rightarrow> py_error + string"

definition format_field :: "format_rest \<Rightarrow> pydict \<Rightarrow> string \<Rightarrow> py_error + string" where
  "format_field rest kw field =
     (let nm = takeWhile (\<lambda>c. c \<notin> set ''!:.['') field
      in if CHR ''{'' \<in> set nm then Inl (ValueError ''unexpected brace in field name'')
         else if list_all (\<lambda>c. c \<in> set ''0123456789'') nm
         then Inl (IndexError ''Replacement index out of range for positional args tuple'')
         else case map_of kw nm of
           None \<Rightarrow> Inl (KeyError nm)
         | Some v \<Rightarrow> if nm = field then Inr (py_str v) else rest v (drop (length nm) field))"

function py_format :: "format_rest \<Rightarrow> pydict \<Rightarrow> string \<Rightarrow> py_error + string" where
  "py_format rest kw [] = Inr []"
| "py_format rest kw (c # cs) =
     (if c = CHR ''{'' then
        (case cs of
           [] \<Rightarrow> Inl (ValueError ''Single { encountered in format string'')
         | c2 # cs2 \<Rightarrow>
             if c2 = CHR ''{'' then sum_then (py_format rest kw cs2) (\<lambda>t. Inr (c # t))
             else case field_text 0 cs of
               None \<Rightarrow> Inl (ValueError ''expected } before end of string'')
             | Some (field, after) \<Rightarrow>
                 sum_then (format_field rest kw field) (\<lambda>t.
                 sum_then (py_format rest kw after) (\<lambda>u. Inr (t @ u))))
      else if c = CHR ''}'' then
        (case cs of
           c2 # cs2 \<Rightarrow> if c2 = CHR ''}'' then sum_then (py_format rest kw cs2) (\<lambda>t. Inr (c # t))
                      else Inl (ValueError ''Single } encountered in format string'')
         | [] \<Rightarrow> Inl (ValueError ''Single } encountered in format string''))
      else sum_then (py_format rest kw cs) (\<lambda>t. Inr (c # t)))"
  by pat_completeness auto
termination
  by (relation "measure (\<lambda>(_, _, s). length s)") (auto simp del: field_text.simps dest!: field_text_shorter)

section \<open>Helpers\<close>

definition latest_team :: "db \<Rightarrow> team_row option" where
  "latest_team d = (case order_by_desc t_created_at (teams d) of [] \<Rightarrow> None | t # _ \<Rightarrow> Some t)"

text \<open>The new worker is recorded in the team created last, whatever team it is hired for.\<close>

definition hire_worker ::
  "env \<Rightarrow> ident \<Rightarrow> string \<Rightarrow> string \<Rightarrow> ident \<Rightarrow> int \<Rightarrow> db \<Rightarrow> (db, worker) outcome" where
  "hire_worker e fresh nm role manager cost d =
     create_worker e fresh
       \<lparr>nw_name = nm, nw_role = role,
        nw_team_id = (case latest_team d of Some t \<Rightarrow> t_id t | None \<Rightarrow> ''team-default''), nw_cost = cost,
        nw_manager_id = Some manager, nw_skills = None, nw_worker_id = None, nw_hiring_authority_scope = None,
        nw_delegated_budget = 0, nw_max_reports = 10, nw_preferred_provider = None\<rparr> d"

definition delete_memberships :: "ident \<Rightarrow> db \<Rightarrow> db" where
  "delete_memberships w d = d\<lparr>team_members := delete_where (\<lambda>m. tm_worker_id m = w) (team_members d)\<rparr>"

definition fire_worker :: "env \<Rightarrow> ident \<Rightarrow> string \<Rightarrow> db \<Rightarrow> (db, unit) outcome" where
  "fire_worker e w reason d =
     (if reason = ''hire-team rollback'' then delete_worker_row w (delete_memberships w d)
      else ok () (set_worker_status_row (e\<lparr>now := current_timestamp e\<rparr>) w Terminated d))"

text \<open>\<open>dict(x)\<close> of one key result: a mapping is copied, a sequence must be one of pairs.\<close>

fun hashable :: "pyval \<Rightarrow> bool" where
  "hashable (VList _) = False"
| "hashable (VDict _) = False"
| "hashable _ = True"

definition pair_of :: "pyval \<Rightarrow> py_error + pyval \<times> pyval" where
  "pair_of x =
     sum_then (py_iter x) (\<lambda>items.
       case items of
         [k, v] \<Rightarrow> if hashable k then Inr (k, v) else Inl (TypeError ''unhashable type'')
       | _ \<Rightarrow> Inl (ValueError ''dictionary update sequence element has the wrong length''))"

definition py_dict :: "pyval \<Rightarrow> py_error + (pyval \<times> pyval) list" where
  "py_dict x =
     (case x of
        VDict kvs \<Rightarrow> Inr kvs
      | _ \<Rightarrow> sum_then (py_iter x) (\<lambda>items. sum_then (sum_map pair_of items) (\<lambda>ps.
              Inr (fold (\<lambda>(k, v). dict_set k v) ps []))))"

text \<open>What \<open>json.dumps\<close> accepts.\<close>

fun json_ok :: "pyval \<Rightarrow> bool" where
  "json_ok (VObj _ _) = False"
| "json_ok (VList xs) = list_all json_ok xs"
| "json_ok (VDict kvs) =
     list_all (\<lambda>(k, v). (case k of VObj _ _ \<Rightarrow> False | VList _ \<Rightarrow> False | VDict _ \<Rightarrow> False | _ \<Rightarrow> True) \<and> json_ok v) kvs"
| "json_ok _ = True"

text \<open>
  The column as the queries read it back: entries with a metric and a target; if one of them lacks
  these, none. An entry whose fields are of other types than \<open>KeyResult\<close> declares also counts as unreadable.
\<close>

definition read_key_result :: "(pyval \<times> pyval) list \<Rightarrow> key_result option" where
  "read_key_result kr =
     (case (vget kr ''metric'' VNone, num_of (vget kr ''target'' VNone),
            num_of (vget kr ''current'' (VInt 0)), vget kr ''unit'' (VStr ''count'')) of
        (VStr m, Some t, Some c, VStr u) \<Rightarrow> Some \<lparr>kr_metric = m, kr_target = t, kr_current = c, kr_unit = u\<rparr>
      | _ \<Rightarrow> None)"

definition key_results_column :: "pyval list \<Rightarrow> py_error + key_result list" where
  "key_results_column krs =
     sum_then (sum_map py_dict krs) (\<lambda>ds.
       if list_all (\<lambda>kr. json_ok (VDict kr)) ds
       then Inr (case those (map read_key_result ds) of None \<Rightarrow> [] | Some rs \<Rightarrow> rs)
       else Inl (TypeError ''Object is not JSON serializable''))"

text \<open>The row has SQLite's time stamps; \<open>create_okr\<close> of the queries is the same statement otherwise.\<close>

definition create_okr_row ::
  "env \<Rightarrow> ident \<Rightarrow> string \<Rightarrow> string \<Rightarrow> ident \<Rightarrow> pyval list \<Rightarrow> ident option \<Rightarrow> db \<Rightarrow> (db, ident) outcome" where
  "create_okr_row e fresh title descr owner krs parent d =
     (case key_results_column krs of
        Inl x \<Rightarrow> raise x d
      | Inr rs \<Rightarrow>
          and_then (create_okr (e\<lparr>now := current_timestamp e\<rparr>) fresh
            \<lparr>no_title = title, no_owner_id = owner, no_parent_id = parent, no_description = Some descr,
             no_status = ''active'', no_okr_id = None, no_key_results = rs, no_due_date = None\<rparr> d)
            (\<lambda>_ d1. ok fresh d1))"

definition close_okr :: "env \<Rightarrow> ident \<Rightarrow> string \<Rightarrow> db \<Rightarrow> (db, unit) outcome" where
  "close_okr e i st d = update_okr_status (e\<lparr>now := current_timestamp e\<rparr>) i st d"

section \<open>Hiring a team\<close>

record hire_ids =
  hi_team :: ident
  hi_channel :: ident
  hi_worker :: "nat \<Rightarrow> ident"
  hi_okr :: "nat \<Rightarrow> ident"

record hire_args =
  ha_template_name :: string
  ha_team_name :: string
  ha_manager_id :: ident
  ha_parent :: "string option"
  ha_sizes :: "string \<rightharpoonup> int"
  ha_costs :: "string \<rightharpoonup> int"
  ha_names :: "string \<rightharpoonup> string list"
  ha_dry_run :: bool

record hire_team_result =
  ht_team_id :: ident
  ht_channel_id :: "ident option"
  ht_worker_ids :: "ident list"
  ht_okr_ids :: "ident list"
  ht_rolled_back :: bool
  ht_failure :: "py_error option"

text \<open>The local variables of \<open>_run_with_rollback\<close>; the undo steps are kept last first.\<close>

datatype undo = UndoTeam ident | UndoChannel ident | UndoWorker ident | UndoOkr ident

record hire_run =
  hr_db :: db
  hr_stack :: "undo list"
  hr_team_id :: "ident option"
  hr_channel_id :: "ident option"
  hr_worker_ids :: "ident list"
  hr_okr_ids :: "ident list"
  hr_lead :: "ident option"

definition on_hire_db :: "(db \<Rightarrow> (db, 'a) outcome) \<Rightarrow> hire_run \<Rightarrow> (hire_run, 'a) outcome" where
  "on_hire_db f h = (case f (hr_db h) of (r, d) \<Rightarrow> (r, h\<lparr>hr_db := d\<rparr>))"

definition derive_channel_name :: "format_rest \<Rightarrow> team_template \<Rightarrow> string \<Rightarrow> py_error + string option" where
  "derive_channel_name rest tp team =
     (case tp_channel tp of
        None \<Rightarrow> Inr None
      | Some c \<Rightarrow> if \<not> chs_auto_create c then Inr None
                 else sum_then (py_format rest [(''team_name'', VStr team)] (chs_name_template c)) (\<lambda>nm. Inr (Some nm)))"

definition expand_members :: "team_template \<Rightarrow> (string \<rightharpoonup> int) \<Rightarrow> template_member list" where
  "expand_members tp sizes =
     map (\<lambda>m. m\<lparr>tpm_count := (case sizes (tpm_role m) of Some n \<Rightarrow> n | None \<Rightarrow> tpm_count m)\<rparr>) (tp_members tp)"

text \<open>The seats in the order they are filled: the manager's first.\<close>

definition seats :: "template_member list \<Rightarrow> (template_member \<times> nat) list" where
  "seats ms = concat (map (\<lambda>m. map (Pair m) [0..<nat (tpm_count m)]) ms)"

definition hiring_order :: "template_member list \<Rightarrow> template_member list" where
  "hiring_order ms = sort_key (\<lambda>m. if tpm_is_manager m then 0 else 1 :: nat) ms"

definition seat_name :: "hire_args \<Rightarrow> template_member \<Rightarrow> nat \<Rightarrow> string" where
  "seat_name a m i =
     (let names = (case ha_names a (tpm_role m) of Some ns \<Rightarrow> ns | None \<Rightarrow> [])
      in if i < length names then names ! i
         else tpm_role m @ ''-'' @ ha_team_name a @ ''-'' @ nat_str (Suc i))"

definition seat_cost :: "hire_args \<Rightarrow> template_member \<Rightarrow> int" where
  "seat_cost a m = (case ha_costs a (tpm_role m) of Some c \<Rightarrow> c | None \<Rightarrow> tpm_cost m)"

definition open_team :: "env \<Rightarrow> hire_ids \<Rightarrow> hire_args \<Rightarrow> hire_run \<Rightarrow> (hire_run, ident) outcome" where
  "open_team e ids a h =
     (let parent = (case ha_parent a of None \<Rightarrow> None | Some nm \<Rightarrow>
                      if nm = [] then None else map_option t_id (get_team_by_name (hr_db h) nm))
      in and_then (on_hire_db (create_team e (hi_team ids) [] (ha_team_name a) parent None None False) h) (\<lambda>t h1.
           ok (t_id t) (h1\<lparr>hr_team_id := Some (t_id t), hr_stack := UndoTeam (t_id t) # hr_stack h1\<rparr>)))"

definition set_team_channel :: "ident \<Rightarrow> ident \<Rightarrow> db \<Rightarrow> db" where
  "set_team_channel t c d =
     d\<lparr>teams := update_where (\<lambda>r. t_id r = t) (\<lambda>r. r\<lparr>t_channel_id := Some c\<rparr>) (teams d)\<rparr>"

definition open_channel ::
  "env \<Rightarrow> hire_ids \<Rightarrow> string option \<Rightarrow> ident \<Rightarrow> hire_run \<Rightarrow> (hire_run, unit) outcome" where
  "open_channel e ids channel_name t h =
     (case channel_name of
        None \<Rightarrow> ok () h
      | Some nm \<Rightarrow>
          if nm = [] then ok () h
          else and_then (on_hire_db (create_channel e (hi_channel ids) nm ''team'' (Some t) None) h) (\<lambda>c h1.
            ok () (h1\<lparr>hr_channel_id := Some (c_id c), hr_stack := UndoChannel (c_id c) # hr_stack h1,
                     hr_db := set_team_channel t (c_id c) (hr_db h1)\<rparr>)))"

definition fill_seat ::
  "env \<Rightarrow> hire_ids \<Rightarrow> hire_args \<Rightarrow> ident \<Rightarrow> template_member \<times> nat \<Rightarrow> hire_run \<Rightarrow> (hire_run, unit) outcome" where
  "fill_seat e ids a t seat h =
     (case seat of (m, i) \<Rightarrow>
      and_then (on_hire_db (hire_worker e (hi_worker ids (length (hr_worker_ids h))) (seat_name a m i)
                  (tpm_role m) (ha_manager_id a) (seat_cost a m)) h) (\<lambda>w h1.
      let h2 = h1\<lparr>hr_worker_ids := hr_worker_ids h1 @ [wk_id w], hr_stack := UndoWorker (wk_id w) # hr_stack h1\<rparr>
      in and_then (on_hire_db (add_team_member e t (wk_id w) (if tpm_is_manager m then ''lead'' else ''member'')) h2)
           (\<lambda>_ h3. ok () (if tpm_is_manager m then h3\<lparr>hr_lead := Some (wk_id w)\<rparr> else h3))))"

fun fill_seats ::
  "env \<Rightarrow> hire_ids \<Rightarrow> hire_args \<Rightarrow> ident \<Rightarrow> (template_member \<times> nat) list \<Rightarrow> hire_run \<Rightarrow> (hire_run, unit) outcome" where
  "fill_seats e ids a t [] h = ok () h"
| "fill_seats e ids a t (s # ss) h = and_then (fill_seat e ids a t s h) (\<lambda>_. fill_seats e ids a t ss)"

definition set_team_lead :: "ident \<Rightarrow> ident \<Rightarrow> db \<Rightarrow> (db, unit) outcome" where
  "set_team_lead t w d =
     (if team_exists d t \<and> \<not> worker_exists d w then raise (IntegrityError ''teams.lead_id'') d
      else ok () (d\<lparr>teams := update_where (\<lambda>r. t_id r = t) (\<lambda>r. r\<lparr>t_lead_id := Some w\<rparr>) (teams d)\<rparr>))"

definition appoint_lead :: "ident \<Rightarrow> hire_run \<Rightarrow> (hire_run, unit) outcome" where
  "appoint_lead t h =
     (case hr_lead h of None \<Rightarrow> ok () h | Some w \<Rightarrow> on_hire_db (set_team_lead t w) h)"

text \<open>An error while subscribing is logged; the subscriptions before it stay.\<close>

fun subscribe_each :: "env \<Rightarrow> ident \<Rightarrow> ident list \<Rightarrow> db \<Rightarrow> db" where
  "subscribe_each e c [] d = d"
| "subscribe_each e c (w # ws) d =
     (case insert_subscription e c w d of (Inl _, d1) \<Rightarrow> d1 | (Inr _, d1) \<Rightarrow> subscribe_each e c ws d1)"

definition subscribe_channel_members :: "env \<Rightarrow> ident list \<Rightarrow> hire_run \<Rightarrow> hire_run" where
  "subscribe_channel_members e ws h =
     (case hr_channel_id h of None \<Rightarrow> h | Some c \<Rightarrow> h\<lparr>hr_db := subscribe_each e c ws (hr_db h)\<rparr>)"

definition okr_fields :: "team_template \<Rightarrow> string \<Rightarrow> pydict" where
  "okr_fields tp team = [(''team_name'', VStr team),
     (''ttl_hours'', case tp_ttl_hours tp of None \<Rightarrow> VNone | Some n \<Rightarrow> VInt n)]"

fun open_okrs ::
  "format_rest \<Rightarrow> env \<Rightarrow> hire_ids \<Rightarrow> hire_args \<Rightarrow> team_template \<Rightarrow> initial_okr list \<Rightarrow> hire_run
   \<Rightarrow> (hire_run, unit) outcome" where
  "open_okrs rest e ids a tp [] h = ok () h"
| "open_okrs rest e ids a tp (q # qs) h =
     (case sum_then (py_format rest (okr_fields tp (ha_team_name a)) (io_title q)) (\<lambda>title.
           sum_then (py_format rest (okr_fields tp (ha_team_name a)) (io_description q)) (\<lambda>descr. Inr (title, descr))) of
        Inl x \<Rightarrow> raise x h
      | Inr (title, descr) \<Rightarrow>
          and_then (on_hire_db (create_okr_row e (hi_okr ids (length (hr_okr_ids h))) title descr
              (case hr_lead h of Some w \<Rightarrow> w | None \<Rightarrow> ha_manager_id a) (io_key_results q) None) h) (\<lambda>i h1.
          open_okrs rest e ids a tp qs
            (h1\<lparr>hr_okr_ids := hr_okr_ids h1 @ [i], hr_stack := UndoOkr i # hr_stack h1\<rparr>)))"

definition tag_team :: "env \<Rightarrow> team_template \<Rightarrow> ident \<Rightarrow> hire_run \<Rightarrow> hire_run" where
  "tag_team e tp t h =
     h\<lparr>hr_db := (hr_db h)\<lparr>teams := update_where (\<lambda>r. t_id r = t)
         (\<lambda>r. r\<lparr>t_template_type := Some (tp_name tp), t_ttl_hours := tp_ttl_hours tp,
               t_ttl_started_at := (case tp_ttl_hours tp of None \<Rightarrow> None | Some n \<Rightarrow> if n = 0 then None else Some (now e))\<rparr>)
         (teams (hr_db h))\<rparr>\<rparr>"

text \<open>The statements of the \<open>try\<close> block.\<close>

definition hire_steps ::
  "format_rest \<Rightarrow> env \<Rightarrow> hire_ids \<Rightarrow> hire_args \<Rightarrow> team_template \<Rightarrow> string option \<Rightarrow> hire_run
   \<Rightarrow> (hire_run, ident) outcome" where
  "hire_steps rest e ids a tp channel_name h =
     and_then (open_team e ids a h) (\<lambda>t h1.
     and_then (open_channel e ids channel_name t h1) (\<lambda>_ h2.
     and_then (fill_seats e ids a t (seats (hiring_order (expand_members tp (ha_sizes a)))) h2) (\<lambda>_ h3.
     and_then (appoint_lead t h3) (\<lambda>_ h4.
     and_then (open_okrs rest e ids a tp (tp_initial_okrs tp)
                 (subscribe_channel_members e (ha_manager_id a # hr_worker_ids h4) h4)) (\<lambda>_ h5.
       ok t (tag_team e tp t h5))))))"

section \<open>Rollback\<close>

text \<open>The first attempt at a worker may fail; the second, outside the \<open>try\<close>, reports its error.\<close>

definition rollback_worker :: "env \<Rightarrow> ident \<Rightarrow> db \<Rightarrow> (db, unit) outcome" where
  "rollback_worker e w d =
     delete_worker_row w (delete_memberships w (snd (fire_worker e w ''hire-team rollback'' d)))"

fun run_undo :: "env \<Rightarrow> undo \<Rightarrow> db \<Rightarrow> (db, unit) outcome" where
  "run_undo e (UndoTeam t) d = delete_team_row t d"
| "run_undo e (UndoChannel c) d = ok () (delete_channel_row c d)"
| "run_undo e (UndoWorker w) d = rollback_worker e w d"
| "run_undo e (UndoOkr q) d = close_okr e q ''cancelled'' d"

fun run_rollback :: "env \<Rightarrow> undo list \<Rightarrow> db \<Rightarrow> py_error list \<times> db" where
  "run_rollback e [] d = ([], d)"
| "run_rollback e (u # us) d =
     (case run_undo e u d of
        (Inl x, d1) \<Rightarrow> (case run_rollback e us d1 of (errs, d2) \<Rightarrow> (x # errs, d2))
      | (Inr _, d1) \<Rightarrow> run_rollback e us d1)"

definition hire_result :: "hire_run \<Rightarrow> py_error option \<Rightarrow> hire_team_result" where
  "hire_result h failure =
     \<lparr>ht_team_id = (case hr_team_id h of None \<Rightarrow> [] | Some t \<Rightarrow> t), ht_channel_id = hr_channel_id h,
      ht_worker_ids = hr_worker_ids h, ht_okr_ids = hr_okr_ids h, ht_rolled_back = (failure \<noteq> None),
      ht_failure = failure\<rparr>"

definition run_with_rollback ::
  "format_rest \<Rightarrow> env \<Rightarrow> hire_ids \<Rightarrow> hire_args \<Rightarrow> team_template \<Rightarrow> string option \<Rightarrow> db
   \<Rightarrow> (db, hire_team_result) outcome" where
  "run_with_rollback rest e ids a tp channel_name d =
     (case hire_steps rest e ids a tp channel_name
             \<lparr>hr_db = d, hr_stack = [], hr_team_id = None, hr_channel_id = None, hr_worker_ids = [],
              hr_okr_ids = [], hr_lead = None\<rparr> of
        (Inr _, h) \<Rightarrow> ok (hire_result h None) (hr_db h)
      | (Inl x, h) \<Rightarrow>
          (case run_rollback e (hr_stack h) (hr_db h) of
             ([], d1) \<Rightarrow> ok (hire_result h (Some x)) d1
           | (errs, d1) \<Rightarrow> raise (HireTeamRollbackFailed x errs) d1))"

definition dry_result :: "team_template \<Rightarrow> hire_args \<Rightarrow> string option \<Rightarrow> hire_team_result" where
  "dry_result tp a channel_name =
     \<lparr>ht_team_id = ''dry:'' @ ha_template_name a,
      ht_channel_id = (case channel_name of None \<Rightarrow> None | Some nm \<Rightarrow>
                         if nm = [] then None else Some (''dry:channel:'' @ nm)),
      ht_worker_ids = map (\<lambda>(m, i). ''dry:'' @ tpm_role m @ ''-'' @ nat_str (Suc i))
                        (seats (expand_members tp (ha_sizes a))),
      ht_okr_ids = map (\<lambda>i. ''dry:okr:'' @ nat_str i) [0..<length (tp_initial_okrs tp)],
      ht_rolled_back = False, ht_failure = None\<rparr>"

text \<open>\<open>hire_team\<close>: the checks that write nothing, the dry run, and the run with its rollback.\<close>

definition hire_checks ::
  "format_rest \<Rightarrow> template_registry \<Rightarrow> hire_args \<Rightarrow> db \<Rightarrow> py_error + team_template \<times> string option" where
  "hire_checks rest reg a d =
     sum_then (get_template reg (ha_template_name a)) (\<lambda>tp.
     sum_then (validate_parent_reference tp (ha_parent a) d) (\<lambda>_.
     sum_then (if get_worker d (ha_manager_id a) = None
               then Inl (TemplateError ''manager_id does not resolve to a known worker'') else Inr ()) (\<lambda>_.
     sum_then (derive_channel_name rest tp (ha_team_name a)) (\<lambda>nm.
       case nm of
         None \<Rightarrow> Inr (tp, nm)
       | Some n \<Rightarrow>
           if n \<noteq> [] \<and> fetchone (\<lambda>c. c_name c = n) (channels d) \<noteq> None
           then Inl (ChannelNameCollision n) else Inr (tp, nm)))))"

definition hire_team ::
  "format_rest \<Rightarrow> env \<Rightarrow> hire_ids \<Rightarrow> template_registry \<Rightarrow> hire_args \<Rightarrow> db \<Rightarrow> (db, hire_team_result) outcome" where
  "hire_team rest e ids reg a d =
     (case hire_checks rest reg a d of
        Inl x \<Rightarrow> raise x d
      | Inr (tp, nm) \<Rightarrow> if ha_dry_run a then ok (dry_result tp a nm) d
                        else run_with_rollback rest e ids a tp nm d)"

end
