(* ===== verification/Hire_Team_Laws.thy ===== *)
theory Hire_Team_Laws
  imports Hire_Team
begin

text \<open>
  What hiring a team leaves behind. The run only appends rows; \<open>journal\<close> relates the appended rows to the
  ids and undo steps the run remembers. Undoing them gives the old database back, so hiring is all or
  nothing, up to cancelled objectives of a team without a manager.
\<close>

section \<open>The journal of a run\<close>

definition fresh_hire_ids :: "hire_ids \<Rightarrow> db \<Rightarrow> bool" where
  "fresh_hire_ids ids d =
     (\<not> team_exists d (hi_team ids) \<and> \<not> channel_exists d (hi_channel ids)
      \<and> inj (hi_worker ids) \<and> (\<forall>n. \<not> worker_exists d (hi_worker ids n))
      \<and> inj (hi_okr ids) \<and> (\<forall>n. hi_okr ids n \<notin> ok_id ` set (okrs d)))"

text \<open>The worker of a seat, and who leads: the worker of the last manager's seat.\<close>

definition seat_worker :: "env \<Rightarrow> hire_ids \<Rightarrow> hire_args \<Rightarrow> db \<Rightarrow> template_member \<times> nat \<Rightarrow> worker_row \<Rightarrow> bool" where
  "seat_worker e ids a d = (\<lambda>(m, i) w. w_name w = seat_name a m i \<and> w_role w = tpm_role m
     \<and> w_cost w = seat_cost a m \<and> w_status w = Pending \<and> w_manager_id w = Some (ha_manager_id a)
     \<and> (list_all (\<lambda>t. t_created_at t < now e) (teams d) \<longrightarrow> w_team_id w = hi_team ids))"

definition seat_member :: "hire_ids \<Rightarrow> template_member \<times> nat \<Rightarrow> team_member_row \<Rightarrow> bool" where
  "seat_member ids = (\<lambda>(m, i) r. tm_team_id r = hi_team ids
     \<and> tm_role r = (if tpm_is_manager m then ''lead'' else ''member''))"

definition lead_of :: "(template_member \<times> nat) list \<Rightarrow> ident list \<Rightarrow> ident option" where
  "lead_of ss ws =
     (let leads = map snd (filter (\<lambda>((m, i), w). tpm_is_manager m) (zip ss ws))
      in if leads = [] then None else Some (last leads))"

lemma lead_of_Nil [simp]: "lead_of [] [] = None"
  by (simp add: lead_of_def)

lemma lead_of_snoc [simp]:
  "length ss = length ws \<Longrightarrow>
   lead_of (ss @ [(m, i)]) (ws @ [w]) = (if tpm_is_manager m then Some w else lead_of ss ws)"
  by (simp add: lead_of_def Let_def)

lemma lead_of_mem:
  assumes "length ss = length ws" and "lead_of ss ws = Some w"
  shows "w \<in> set ws"
proof -
  define leads where "leads = map snd (filter (\<lambda>((m, i), w). tpm_is_manager m) (zip ss ws))"
  have "leads \<noteq> []" and w: "w = last leads"
    using assms(2) by (auto simp: lead_of_def leads_def [symmetric] Let_def split: if_splits)
  then have "w \<in> set leads" by simp
  then show ?thesis by (auto simp: leads_def dest: set_zip_rightD)
qed

record hire_log =
  hl_rows :: new_rows
  hl_seats :: "(template_member \<times> nat) list"

definition channel_undo :: "ident option \<Rightarrow> undo list" where
  "channel_undo c = (case c of None \<Rightarrow> [] | Some c \<Rightarrow> [UndoChannel c])"

definition journal :: "env \<Rightarrow> hire_ids \<Rightarrow> hire_args \<Rightarrow> db \<Rightarrow> hire_run \<Rightarrow> hire_log \<Rightarrow> bool" where
  "journal e ids a d h l =
     (let x = hl_rows l; ss = hl_seats l
      in hr_db h = with_rows d x
       \<and> hr_team_id h = Some (hi_team ids) \<and> map t_id (nr_teams x) = [hi_team ids]
       \<and> map t_name (nr_teams x) = [ha_team_name a]
       \<and> map t_created_at (nr_teams x) = [now e]
       \<and> (\<forall>t \<in> set (nr_teams x). t_parent_team_id t \<noteq> Some (hi_team ids) \<and> t_channel_id t = hr_channel_id h)
       \<and> hr_channel_id h \<in> {None, Some (hi_channel ids)}
       \<and> map c_id (nr_channels x) = (case hr_channel_id h of None \<Rightarrow> [] | Some c \<Rightarrow> [c])
       \<and> hr_worker_ids h = map (hi_worker ids) [0..<length ss] \<and> map w_id (nr_workers x) = hr_worker_ids h
       \<and> list_all2 (seat_worker e ids a d) ss (nr_workers x)
       \<and> list_all2 (seat_member ids) ss (nr_members x) \<and> map tm_worker_id (nr_members x) = hr_worker_ids h
       \<and> hr_lead h = lead_of ss (hr_worker_ids h)
       \<and> (\<forall>s \<in> set (nr_subs x). hr_channel_id h = Some (cs_channel_id s))
       \<and> hr_okr_ids h = map (hi_okr ids) [0..<length (nr_okrs x)] \<and> map ok_id (nr_okrs x) = hr_okr_ids h
       \<and> (\<forall>q \<in> set (nr_okrs x). ok_parent_okr_id q = None
            \<and> ok_owner_worker_id q = (case hr_lead h of Some w \<Rightarrow> w | None \<Rightarrow> ha_manager_id a))
       \<and> hr_stack h = map UndoOkr (rev (hr_okr_ids h)) @ map UndoWorker (rev (hr_worker_ids h))
            @ channel_undo (hr_channel_id h) @ [UndoTeam (hi_team ids)])"

lemma on_hire_db_Inl: "f (hr_db h) = (Inl x, d) \<Longrightarrow> on_hire_db f h = (Inl x, h\<lparr>hr_db := d\<rparr>)"
  by (simp add: on_hire_db_def)

lemma on_hire_db_Inr: "f (hr_db h) = (Inr x, d) \<Longrightarrow> on_hire_db f h = (Inr x, h\<lparr>hr_db := d\<rparr>)"
  by (simp add: on_hire_db_def)

section \<open>Undoing\<close>

definition cancel_okr :: "env \<Rightarrow> okr_row \<Rightarrow> okr_row" where
  "cancel_okr e q = q\<lparr>ok_status := ''cancelled'', ok_updated_at := current_timestamp e\<rparr>"

lemma close_new_okr:
  assumes "i \<notin> ok_id ` set (okrs d)"
  shows "close_okr e i ''cancelled'' (with_rows d x) =
    ok () (with_rows d (x\<lparr>nr_okrs := map (\<lambda>q. if ok_id q = i then cancel_okr e q else q) (nr_okrs x)\<rparr>))"
proof -
  have "update_where (\<lambda>q. ok_id q = i) (\<lambda>q. q\<lparr>ok_status := ''cancelled'', ok_updated_at := current_timestamp e\<rparr>) (okrs d)
      = okrs d"
    using assms by (intro update_where_none) auto
  then show ?thesis
    by (simp add: close_okr_def update_okr_status_def OKR_STATUSES_def)
      (simp add: with_rows_def update_where_def cancel_okr_def)
qed

lemma undo_okrs:
  assumes "set is' \<inter> ok_id ` set (okrs d) = {}"
  shows "run_rollback e (map UndoOkr is' @ us) (with_rows d x) = run_rollback e us
    (with_rows d (x\<lparr>nr_okrs := map (\<lambda>q. if ok_id q \<in> set is' then cancel_okr e q else q) (nr_okrs x)\<rparr>))"
  using assms
proof (induction is' arbitrary: x)
  case Nil
  then show ?case by simp
next
  case (Cons i is')
  have eq: "(\<lambda>q. if ok_id q \<in> set is' then cancel_okr e q else q) \<circ> (\<lambda>q. if ok_id q = i then cancel_okr e q else q)
    = (\<lambda>q. if ok_id q = i \<or> ok_id q \<in> set is' then cancel_okr e q else q)"
    by (auto simp: cancel_okr_def)
  show ?case using Cons by (simp add: close_new_okr eq)
qed

text \<open>A row of workers is dropped one by one.\<close>

definition drop_workers :: "ident set \<Rightarrow> new_rows \<Rightarrow> new_rows" where
  "drop_workers ws x = x\<lparr>
     nr_workers := delete_where (\<lambda>w. w_id w \<in> ws) (nr_workers x),
     nr_teams := update_where (\<lambda>t. \<exists>i \<in> ws. t_lead_id t = Some i) (\<lambda>t. t\<lparr>t_lead_id := None\<rparr>) (nr_teams x),
     nr_members := delete_where (\<lambda>m. tm_worker_id m \<in> ws) (nr_members x),
     nr_subs := delete_where (\<lambda>s. cs_worker_id s \<in> ws) (nr_subs x),
     nr_okrs := delete_where (\<lambda>q. ok_owner_worker_id q \<in> ws) (nr_okrs x)\<rparr>"

lemma drop_workers_empty [simp]: "drop_workers {} x = x"
  by (simp add: drop_workers_def delete_where_def update_where_def)

lemma drop_workers_insert: "drop_workers ws (drop_worker i x) = drop_workers (insert i ws) x"
  by (auto simp: drop_workers_def drop_worker_def delete_where_def update_where_def
      intro!: arg_cong2 [where f = "filter"])

lemma delete_new_memberships:
  assumes "worker_refs_hold d" and "\<not> worker_exists d i"
  shows "delete_memberships i (with_rows d x) =
    with_rows d (x\<lparr>nr_members := delete_where (\<lambda>m. tm_worker_id m = i) (nr_members x)\<rparr>)"
proof -
  have "delete_where (\<lambda>m. tm_worker_id m = i) (team_members d) = team_members d"
    using unreferenced_worker(5) [OF assms] by (intro delete_where_none) blast
  then show ?thesis by (simp add: delete_memberships_def) (simp add: with_rows_def)
qed

lemma undo_worker:
  assumes old: "worker_refs_hold d" "\<not> worker_exists d i" and new: "i \<in> w_id ` set (nr_workers x)"
    and parents: "list_all (\<lambda>q. ok_parent_okr_id q = None) (nr_okrs x)"
    and okr_ids: "ok_id ` set (okrs d) \<inter> ok_id ` set (nr_okrs x) = {}"
    and managers: "list_all (\<lambda>w. w_manager_id w \<noteq> Some i) (nr_workers x)"
  shows "rollback_worker e i (with_rows d x) = ok () (with_rows d (drop_worker i x))"
proof -
  define y where "y = x\<lparr>nr_members := delete_where (\<lambda>m. tm_worker_id m = i) (nr_members x)\<rparr>"
  have y: "drop_worker i y = drop_worker i x"
    by (simp add: y_def drop_worker_def delete_where_def)
  have "delete_worker_row i (with_rows d y) = ok () (with_rows d (drop_worker i y))"
    by (rule delete_new_worker [OF old]) (use new parents okr_ids managers in \<open>simp_all add: y_def\<close>)
  moreover have "delete_memberships i (with_rows d (drop_worker i x)) = with_rows d (drop_worker i x)"
    by (cases x) (simp add: delete_new_memberships [OF old] drop_worker_def delete_where_def)
  moreover have "\<not> worker_exists (with_rows d (drop_worker i x)) i"
    using old(2) by (auto simp: worker_exists_def drop_worker_def)
  ultimately show ?thesis
    by (simp add: rollback_worker_def fire_worker_def delete_new_memberships [OF old] y_def [symmetric] y)
      (simp add: delete_worker_row_def)
qed

lemma undo_workers:
  assumes "worker_refs_hold d" and "\<forall>i \<in> set is'. \<not> worker_exists d i" and "distinct is'"
    and "set is' \<subseteq> w_id ` set (nr_workers x)"
    and "list_all (\<lambda>q. ok_parent_okr_id q = None) (nr_okrs x)"
    and "ok_id ` set (okrs d) \<inter> ok_id ` set (nr_okrs x) = {}"
    and "list_all (\<lambda>w. \<forall>i \<in> set is'. w_manager_id w \<noteq> Some i) (nr_workers x)"
  shows "run_rollback e (map UndoWorker is' @ us) (with_rows d x) =
    run_rollback e us (with_rows d (drop_workers (set is') x))"
  using assms
proof (induction is' arbitrary: x)
  case Nil
  then show ?case by simp
next
  case (Cons i is')
  have "rollback_worker e i (with_rows d x) = ok () (with_rows d (drop_worker i x))"
    by (rule undo_worker) (use Cons.prems in \<open>auto simp: list_all_iff\<close>)
  moreover have sub: "set is' \<subseteq> w_id ` set (nr_workers (drop_worker i x))"
  proof
    fix t assume t: "t \<in> set is'"
    then obtain w where "w \<in> set (nr_workers x)" "t = w_id w" using Cons.prems(4) by auto
    moreover have "t \<noteq> i" using t Cons.prems(3) by auto
    ultimately show "t \<in> w_id ` set (nr_workers (drop_worker i x))" by (simp add: drop_worker_def)
  qed
  have "run_rollback e (map UndoWorker is' @ us) (with_rows d (drop_worker i x)) =
      run_rollback e us (with_rows d (drop_workers (set is') (drop_worker i x)))"
    by (rule Cons.IH [OF _ _ _ sub]) (use Cons.prems in \<open>auto simp: list_all_iff drop_worker_def\<close>)
  with calculation show ?case by (simp add: drop_workers_insert)
qed

text \<open>
  Undoing everything the journal remembers gives back the old rows; what stays is the cancelled
  objectives, and only when the manager who hires owns them.
\<close>

lemma undo_everything:
  assumes fk: "foreign_keys_hold d" and ids: "fresh_hire_ids ids d" and mgr: "worker_exists d (ha_manager_id a)"
    and j: "journal e ids a d h l"
  shows "run_rollback e (hr_stack h) (hr_db h) =
    ([], with_rows d (no_rows\<lparr>nr_okrs := (if hr_lead h = None then map (cancel_okr e) (nr_okrs (hl_rows l)) else [])\<rparr>))"
proof -
  define x where "x = hl_rows l"
  define ws where "ws = hr_worker_ids h"
  note J = j [unfolded journal_def Let_def x_def [symmetric] ws_def [symmetric]]
  have refs: "worker_refs_hold d" "place_refs_hold d" using fk by (simp_all add: foreign_keys_hold_def)
  have new_ws: "\<not> worker_exists d i" if "i \<in> set ws" for i
    using J ids that by (auto simp: fresh_hire_ids_def)
  have dist: "distinct ws"
    using J ids by (auto simp: fresh_hire_ids_def distinct_map inj_on_def)
  have okr_ids: "set (hr_okr_ids h) \<inter> ok_id ` set (okrs d) = {}"
    using J ids by (auto simp: fresh_hire_ids_def)
  have new_okrs: "ok_id ` set (nr_okrs x) = set (hr_okr_ids h)"
    using J by (metis set_map)
  have wids: "w_id ` set (nr_workers x) = set ws" using J by (metis set_map)
  have mgrs: "\<forall>w \<in> set (nr_workers x). w_manager_id w = Some (ha_manager_id a)"
    using list_all2_mem2 [of "seat_worker e ids a d" "hl_seats l" "nr_workers x"] J
    by (fastforce simp: seat_worker_def split: prod.splits)
  define qs where "qs = map (cancel_okr e) (nr_okrs x)"
  have qs: "map (\<lambda>q. if ok_id q \<in> set (rev (hr_okr_ids h)) then cancel_okr e q else q) (nr_okrs x) = qs"
    using new_okrs by (auto simp: qs_def)
  have okrs_disj: "set (rev (hr_okr_ids h)) \<inter> ok_id ` set (okrs d) = {}" using okr_ids by simp
  have st: "hr_stack h = map UndoOkr (rev (hr_okr_ids h)) @ map UndoWorker (rev ws)
      @ channel_undo (hr_channel_id h) @ [UndoTeam (hi_team ids)]" and db: "hr_db h = with_rows d x"
    using J by blast+
  define x1 where "x1 = x\<lparr>nr_okrs := qs\<rparr>"
  define x2 where "x2 = drop_workers (set ws) x1"
  have s1: "run_rollback e (hr_stack h) (hr_db h) = run_rollback e
      (map UndoWorker (rev ws) @ channel_undo (hr_channel_id h) @ [UndoTeam (hi_team ids)]) (with_rows d x1)"
    unfolding st db undo_okrs [OF okrs_disj] qs x1_def ..
  have s2: "\<dots> = run_rollback e (channel_undo (hr_channel_id h) @ [UndoTeam (hi_team ids)]) (with_rows d x2)"
    unfolding x2_def set_rev [symmetric, of ws]
    by (rule undo_workers [OF refs(1)])
      (use new_ws dist wids J okr_ids new_okrs mgrs mgr in
        \<open>auto simp: x1_def qs_def cancel_okr_def list_all_iff image_image\<close>)
  have x2: "nr_workers x2 = []" "map t_id (nr_teams x2) = [hi_team ids]" "nr_members x2 = []"
    "nr_channels x2 = nr_channels x" "\<forall>t \<in> set (nr_teams x2). t_parent_team_id t \<noteq> Some (hi_team ids)"
    "\<forall>s \<in> set (nr_subs x2). hr_channel_id h = Some (cs_channel_id s)"
    "nr_okrs x2 = (if hr_lead h = None then qs else [])"
  proof -
    show "nr_workers x2 = []"
      using wids by (auto simp: x2_def x1_def drop_workers_def delete_where_def filter_empty_conv)
    show "map t_id (nr_teams x2) = [hi_team ids]"
      using J by (auto simp: x2_def x1_def drop_workers_def update_where_def comp_def if_distrib cong: if_cong)
    have "tm_worker_id ` set (nr_members x) = set ws" using J by (metis set_map)
    then show "nr_members x2 = []"
      by (auto simp: x2_def x1_def drop_workers_def delete_where_def filter_empty_conv)
    show "nr_channels x2 = nr_channels x" by (simp add: x2_def x1_def drop_workers_def)
    show "\<forall>t \<in> set (nr_teams x2). t_parent_team_id t \<noteq> Some (hi_team ids)"
      using J by (auto simp: x2_def x1_def drop_workers_def update_where_set)
    show "\<forall>s \<in> set (nr_subs x2). hr_channel_id h = Some (cs_channel_id s)"
      using J by (auto simp: x2_def x1_def drop_workers_def)
    have owner: "\<forall>q \<in> set qs. ok_owner_worker_id q = (case hr_lead h of Some w \<Rightarrow> w | None \<Rightarrow> ha_manager_id a)"
      using J by (auto simp: qs_def cancel_okr_def)
    have "hr_lead h = Some w \<Longrightarrow> w \<in> set ws" for w
      using J lead_of_mem [of "hl_seats l" ws w] by simp
    moreover have "ha_manager_id a \<notin> set ws" using mgr new_ws by blast
    ultimately show "nr_okrs x2 = (if hr_lead h = None then qs else [])"
      using owner by (auto simp: x2_def x1_def drop_workers_def delete_where_def filter_empty_conv
          filter_id_conv)
  qed
  define x3 where "x3 = (case hr_channel_id h of None \<Rightarrow> x2 | Some c \<Rightarrow> x2\<lparr>
     nr_channels := delete_where (\<lambda>r. c_id r = c) (nr_channels x2),
     nr_subs := delete_where (\<lambda>s. cs_channel_id s = c) (nr_subs x2),
     nr_teams := update_where (\<lambda>t. t_channel_id t = Some c) (\<lambda>t. t\<lparr>t_channel_id := None\<rparr>) (nr_teams x2)\<rparr>)"
  have s3: "run_rollback e (channel_undo (hr_channel_id h) @ [UndoTeam (hi_team ids)]) (with_rows d x2)
      = run_rollback e [UndoTeam (hi_team ids)] (with_rows d x3)"
  proof (cases "hr_channel_id h")
    case None
    then show ?thesis by (simp add: x3_def channel_undo_def)
  next
    case (Some c)
    have c: "\<not> channel_exists d c" "c \<in> c_id ` set (nr_channels x2)"
      using J Some ids x2(4) by (auto simp: fresh_hire_ids_def map_eq_Cons_conv)
    show ?thesis
      by (simp add: x3_def channel_undo_def Some delete_new_channel [OF refs(2) c])
  qed
  have x3: "nr_workers x3 = []" "nr_members x3 = []" "nr_channels x3 = []" "nr_subs x3 = []"
    "map t_id (nr_teams x3) = [hi_team ids]" "\<forall>t \<in> set (nr_teams x3). t_parent_team_id t \<noteq> Some (hi_team ids)"
    "nr_okrs x3 = nr_okrs x2"
  proof -
    have chs: "map c_id (nr_channels x2) = (case hr_channel_id h of None \<Rightarrow> [] | Some c \<Rightarrow> [c])"
      using J x2(4) by simp
    show "nr_workers x3 = []" using x2(1) by (simp add: x3_def split: option.splits)
    show "nr_members x3 = []" using x2(3) by (simp add: x3_def split: option.splits)
    show "nr_channels x3 = []" using chs
      by (auto simp: x3_def map_eq_Cons_conv delete_where_def split: option.splits)
    show "nr_subs x3 = []" using x2(6)
      by (auto simp: x3_def delete_where_def filter_empty_conv split: option.splits)
    from x2(2) obtain z where "nr_teams x2 = [z]" "t_id z = hi_team ids" by (auto simp: map_eq_Cons_conv)
    then show "map t_id (nr_teams x3) = [hi_team ids]" by (simp add: x3_def split: option.splits)
    show "\<forall>t \<in> set (nr_teams x3). t_parent_team_id t \<noteq> Some (hi_team ids)" using x2(5)
      by (auto simp: x3_def update_where_set split: option.splits)
    show "nr_okrs x3 = nr_okrs x2" by (simp add: x3_def split: option.splits)
  qed
  have t: "\<not> team_exists d (hi_team ids)" "hi_team ids \<in> t_id ` set (nr_teams x3)"
    "list_all (\<lambda>t. t_parent_team_id t \<noteq> Some (hi_team ids)) (nr_teams x3)"
    using ids x3(5,6) by (auto simp: fresh_hire_ids_def list_all_iff map_eq_Cons_conv)
  have gone: "delete_where (\<lambda>t. t_id t = hi_team ids) (nr_teams x3) = []"
    using x3(5) by (auto simp: map_eq_Cons_conv delete_where_def)
  have "delete_team_row (hi_team ids) (with_rows d x3) = ok () (with_rows d (no_rows\<lparr>nr_okrs := nr_okrs x2\<rparr>))"
    unfolding delete_new_team [OF refs(2) t(1,2) x3(1,3) t(3)] gone
    using x3 by (simp add: with_rows_def no_rows_def delete_where_def)
  then show ?thesis
    unfolding s1 s2 s3 using x2(7) by (simp add: qs_def x_def)
qed

section \<open>The steps keep the journal\<close>

definition hire_ready :: "hire_ids \<Rightarrow> hire_args \<Rightarrow> db \<Rightarrow> bool" where
  "hire_ready ids a d = (foreign_keys_hold d \<and> fresh_hire_ids ids d \<and> worker_exists d (ha_manager_id a))"

definition start_run :: "db \<Rightarrow> hire_run" where
  "start_run d = \<lparr>hr_db = d, hr_stack = [], hr_team_id = None, hr_channel_id = None, hr_worker_ids = [],
     hr_okr_ids = [], hr_lead = None\<rparr>"

lemma start_db: "hr_db (start_run d) = d"
  by (simp add: start_run_def)

lemma hire_readyD:
  assumes "hire_ready ids a d"
  shows "foreign_keys_hold d" and "fresh_hire_ids ids d" and "worker_exists d (ha_manager_id a)"
    and "\<not> team_exists d (hi_team ids)" and "\<not> channel_exists d (hi_channel ids)"
    and "\<And>n. \<not> worker_exists d (hi_worker ids n)" and "\<And>n. hi_okr ids n \<notin> ok_id ` set (okrs d)"
  using assms by (auto simp: hire_ready_def fresh_hire_ids_def)

lemma open_team_journal:
  assumes ready: "hire_ready ids a d"
  shows "\<exists>h l. open_team e ids a (start_run d) = ok (hi_team ids) h \<and> journal e ids a d h l \<and> hl_seats l = [] \<and> nr_okrs (hl_rows l) = []
     \<and> hr_channel_id h = None"
proof -
  note fk = hire_readyD(1) [OF ready] and fresh = hire_readyD(2) [OF ready] and mgr = hire_readyD(3) [OF ready]
    and new_team = hire_readyD(4) [OF ready] and new_channel = hire_readyD(5) [OF ready]
    and new_worker = hire_readyD(6) [OF ready] and new_okr = hire_readyD(7) [OF ready]
  define parent where "parent = (case ha_parent a of None \<Rightarrow> None | Some nm \<Rightarrow>
      if nm = [] then None else map_option t_id (get_team_by_name d nm))"
  have p: "team_exists d i" if "parent = Some i" for i
    using that by (auto simp: parent_def team_exists_def get_team_by_name_def dest: fetchone_SomeD
        split: option.splits if_splits)
  define t where "t = \<lparr>t_id = hi_team ids, t_name = ha_team_name a, t_parent_team_id = parent, t_lead_id = None,
      t_channel_id = None, t_created_at = now e, t_template_type = None, t_ttl_hours = None,
      t_ttl_started_at = None, t_status = ''active''\<rparr>"
  define x where "x = no_rows\<lparr>nr_teams := [t]\<rparr>"
  have "insert_team_row t d = ok () (with_rows d x)"
    using new_team p by (auto simp: insert_team_row_def t_def x_def no_rows_def with_rows_def split: option.splits)
  then have "create_team e (hi_team ids) [] (ha_team_name a) parent None None False d = ok t (with_rows d x)"
    by (simp add: create_team_def t_def)
  then have "open_team e ids a (start_run d) = ok (hi_team ids) ((start_run d)\<lparr>hr_db := with_rows d x,
      hr_team_id := Some (hi_team ids), hr_stack := [UndoTeam (hi_team ids)]\<rparr>)"
    unfolding open_team_def on_hire_db_def start_db parent_def [symmetric] by (simp add: t_def) (simp add: start_run_def)
  moreover have "parent \<noteq> Some (hi_team ids)" using p new_team by blast
  ultimately show ?thesis
    by (intro exI [of _ "\<lparr>hl_rows = x, hl_seats = []\<rparr>"] exI conjI)
      (auto simp: journal_def start_run_def x_def no_rows_def t_def channel_undo_def)
qed

lemma open_channel_journal:
  assumes ready: "hire_ready ids a d" and j: "journal e ids a d h l" and "hl_seats l = []" and "nr_okrs (hl_rows l) = []" and ch: "hr_channel_id h = None"
  shows "\<exists>h1 l1. open_channel e ids nm (hi_team ids) h = ok () h1 \<and> journal e ids a d h1 l1 \<and> hl_seats l1 = []
     \<and> nr_okrs (hl_rows l1) = [] \<and> nr_subs (hl_rows l1) = []
     \<and> hr_channel_id h1 = (case nm of None \<Rightarrow> None | Some n \<Rightarrow> if n = [] then None else Some (hi_channel ids))
     \<and> map c_name (nr_channels (hl_rows l1)) = (case nm of None \<Rightarrow> [] | Some n \<Rightarrow> if n = [] then [] else [n])"
proof (cases "nm = None \<or> nm = Some []")
  case True
  then have "open_channel e ids nm (hi_team ids) h = ok () h" by (auto simp: open_channel_def)
  moreover have "nr_subs (hl_rows l) = []" using j ch by (auto simp: journal_def Let_def)
  ultimately show ?thesis using True assms by (auto simp: journal_def Let_def)
next
  case False
  note fk = hire_readyD(1) [OF ready] and fresh = hire_readyD(2) [OF ready] and mgr = hire_readyD(3) [OF ready]
    and new_team = hire_readyD(4) [OF ready] and new_channel = hire_readyD(5) [OF ready]
    and new_worker = hire_readyD(6) [OF ready] and new_okr = hire_readyD(7) [OF ready]
  from False obtain n where nm: "nm = Some n" "n \<noteq> []" by auto
  define x where "x = hl_rows l"
  note J = j [unfolded journal_def Let_def x_def [symmetric]]
  define c where "c = \<lparr>c_id = hi_channel ids, c_name = n, c_type = TeamChannel, c_team_id = Some (hi_team ids),
      c_created_at = now e\<rparr>"
  obtain t where t: "nr_teams x = [t]" "t_id t = hi_team ids" using J by (auto simp: map_eq_Cons_conv)
  define x1 where "x1 = x\<lparr>nr_channels := nr_channels x @ [c]\<rparr>"
  define x2 where "x2 = x1\<lparr>nr_teams := [t\<lparr>t_channel_id := Some (hi_channel ids)\<rparr>]\<rparr>"
  have db: "hr_db h = with_rows d x" and no_ch: "nr_channels x = []" using J ch by auto
  have "create_channel e (hi_channel ids) n ''team'' (Some (hi_team ids)) None (with_rows d x)
      = ok c (with_rows d x1)"
    using new_channel t
    by (simp add: create_channel_def channel_type_of_def channel_exists_def team_exists_def no_ch Let_def)
      (simp add: c_def x1_def with_rows_update no_ch)
  moreover have "update_where (\<lambda>r. t_id r = hi_team ids) (\<lambda>r. r\<lparr>t_channel_id := Some (hi_channel ids)\<rparr>) (teams d) = teams d"
    using new_team by (intro update_where_none) (auto simp: team_exists_def image_iff)
  then have "set_team_channel (hi_team ids) (hi_channel ids) (with_rows d x1) = with_rows d x2"
    by (simp add: set_team_channel_def x1_def t) (simp add: x2_def x1_def with_rows_update)
  ultimately have o: "open_channel e ids nm (hi_team ids) h = ok () (h\<lparr>hr_db := with_rows d x2,
      hr_channel_id := Some (hi_channel ids), hr_stack := UndoChannel (hi_channel ids) # hr_stack h\<rparr>)"
    using nm by (simp add: open_channel_def on_hire_db_def db c_def)
  show ?thesis
    unfolding o
    by (intro exI [of _ "\<lparr>hl_rows = x2, hl_seats = []\<rparr>"] exI conjI)
      (use J assms t no_ch nm in \<open>auto simp: journal_def x2_def x1_def x_def c_def channel_undo_def\<close>)
qed

lemma latest_is_new:
  assumes "nr_teams x = [t]" and "t_created_at t = now e"
  shows "\<exists>r. latest_team (with_rows d x) = Some r \<and> team_exists (with_rows d x) (t_id r)
    \<and> (list_all (\<lambda>t. t_created_at t < now e) (teams d) \<longrightarrow> r = t)"
proof -
  have "teams (with_rows d x) \<noteq> []" by (simp add: assms)
  from order_by_desc_hd [OF this, of t_created_at] obtain r rs where
    r: "order_by_desc t_created_at (teams (with_rows d x)) = r # rs" "r \<in> set (teams (with_rows d x))"
      "\<forall>y \<in> set (teams (with_rows d x)). t_created_at y \<le> t_created_at r" by blast
  then have "r \<in> set (teams d) \<or> r = t" "now e \<le> t_created_at r" using assms by auto
  then have "list_all (\<lambda>t. t_created_at t < now e) (teams d) \<longrightarrow> r = t" by (auto simp: list_all_iff)
  then show ?thesis using r(1,2) by (auto simp: latest_team_def team_exists_def)
qed

lemma mgr_in: "worker_exists d (ha_manager_id a) \<Longrightarrow> worker_exists (with_rows d x) (ha_manager_id a)"
  by (auto simp: worker_exists_def)

lemma fresh_worker_in:
  assumes ready: "hire_ready ids a d" and "map w_id (nr_workers x) = map (hi_worker ids) [0..<n]"
  shows "\<not> worker_exists (with_rows d x) (hi_worker ids n)"
proof
  note fk = hire_readyD(1) [OF ready] and fresh = hire_readyD(2) [OF ready] and mgr = hire_readyD(3) [OF ready]
    and new_team = hire_readyD(4) [OF ready] and new_channel = hire_readyD(5) [OF ready]
    and new_worker = hire_readyD(6) [OF ready] and new_okr = hire_readyD(7) [OF ready]
  assume "worker_exists (with_rows d x) (hi_worker ids n)"
  then have "hi_worker ids n \<in> set (map w_id (nr_workers x))"
    using new_worker by (auto simp: worker_exists_def)
  then obtain k where "k < n" "hi_worker ids n = hi_worker ids k" unfolding assms by auto
  then show False using fresh by (auto simp: fresh_hire_ids_def dest: injD)
qed

text \<open>A seat is filled exactly when the cost is one the schema allows.\<close>

lemma fill_seat_journal:
  assumes ready: "hire_ready ids a d" and j: "journal e ids a d h l" and q: "nr_okrs (hl_rows l) = []"
  shows "if 0 \<le> seat_cost a (fst s) \<and> seat_cost a (fst s) \<le> 100
    then \<exists>h1 l1. fill_seat e ids a (hi_team ids) s h = ok () h1 \<and> journal e ids a d h1 l1 \<and> hl_seats l1 = hl_seats l @ [s]
      \<and> nr_okrs (hl_rows l1) = [] \<and> hr_channel_id h1 = hr_channel_id h
      \<and> nr_channels (hl_rows l1) = nr_channels (hl_rows l) \<and> nr_subs (hl_rows l1) = nr_subs (hl_rows l)
    else fill_seat e ids a (hi_team ids) s h = raise (IntegrityError ''workers.cost'') h"
proof -
  note fk = hire_readyD(1) [OF ready] and fresh = hire_readyD(2) [OF ready] and mgr = hire_readyD(3) [OF ready]
    and new_team = hire_readyD(4) [OF ready] and new_channel = hire_readyD(5) [OF ready]
    and new_worker = hire_readyD(6) [OF ready] and new_okr = hire_readyD(7) [OF ready]
  obtain m i where s: "s = (m, i)" by force
  define x where "x = hl_rows l"
  note J = j [unfolded journal_def Let_def x_def [symmetric]]
  define n where "n = length (hr_worker_ids h)"
  have n: "n = length (hl_seats l)" using J by (simp add: n_def)
  obtain t where t: "nr_teams x = [t]" "t_id t = hi_team ids" "t_created_at t = now e"
    using J by (auto simp: map_eq_Cons_conv)
  obtain r where r: "latest_team (with_rows d x) = Some r" "team_exists (with_rows d x) (t_id r)"
    "list_all (\<lambda>t. t_created_at t < now e) (teams d) \<longrightarrow> r = t"
    using latest_is_new [OF t(1,3)] by blast
  have ids_n: "map w_id (nr_workers x) = map (hi_worker ids) [0..<n]"
    using J by (simp add: n_def)
  note nw = fresh_worker_in [OF ready ids_n]
  define w where "w = \<lparr>w_id = hi_worker ids n, w_name = seat_name a m i, w_role = tpm_role m, w_team_id = t_id r,
      w_manager_id = Some (ha_manager_id a), w_status = Pending, w_skills = [], w_cost = seat_cost a m,
      w_hiring_authority_scope = None, w_delegated_budget = 0, w_max_reports = 10, w_delegation_version = 0,
      w_delegated_by = None, w_delegation_expires_at = None, w_offboarding_ask_bead_id = None,
      w_preferred_provider = None, w_tools = None, w_created_at = now e, w_updated_at = now e\<rparr>"
  define x1 where "x1 = x\<lparr>nr_workers := nr_workers x @ [w]\<rparr>"
  have db: "hr_db h = with_rows d x" using J by simp
  have hire: "hire_worker e (hi_worker ids n) (seat_name a m i) (tpm_role m) (ha_manager_id a) (seat_cost a m)
      (with_rows d x) = (if seat_cost a m < 0 \<or> 100 < seat_cost a m
        then raise (IntegrityError ''workers.cost'') (with_rows d x) else ok (row_to_worker w) (with_rows d x1))"
    using nw mgr_in [OF mgr, of x] r(1,2)
    by (simp add: hire_worker_def create_worker_def insert_worker_row_def Let_def)
      (simp add: w_def x1_def with_rows_update row_to_worker_def)
  show ?thesis
  proof (cases "0 \<le> seat_cost a m \<and> seat_cost a m \<le> 100")
    case False
    then show ?thesis
      by (auto simp: s fill_seat_def on_hire_db_def db n_def [symmetric] hire)
  next
    case True
    define h2 where "h2 = h\<lparr>hr_db := with_rows d x1, hr_worker_ids := hr_worker_ids h @ [hi_worker ids n],
        hr_stack := UndoWorker (hi_worker ids n) # hr_stack h\<rparr>"
    define mb where "mb = \<lparr>tm_team_id = hi_team ids, tm_worker_id = hi_worker ids n,
        tm_role = (if tpm_is_manager m then ''lead'' else ''member''), tm_joined_at = now e\<rparr>"
    define x2 where "x2 = x1\<lparr>nr_members := nr_members x @ [mb]\<rparr>"
    define h3 where "h3 = (if tpm_is_manager m then h2\<lparr>hr_db := with_rows d x2, hr_lead := Some (hi_worker ids n)\<rparr>
        else h2\<lparr>hr_db := with_rows d x2\<rparr>)"
    have "get_team_member (with_rows d x1) (hi_team ids) (hi_worker ids n) = None"
    proof -
      have "tm_team_id k \<noteq> hi_team ids" if "k \<in> set (team_members d)" for k
      proof -
        have "tm_team_id k \<in> t_id ` set (teams d)"
          using that fk by (simp add: foreign_keys_hold_def place_refs_hold_def list_all_iff Let_def)
        then show ?thesis using new_team by (metis team_exists_def)
      qed
      moreover have "tm_worker_id k \<noteq> hi_worker ids n" if "k \<in> set (nr_members x)" for k
      proof -
        have "map tm_worker_id (nr_members x) = map w_id (nr_workers x)" using J by simp
        then have "tm_worker_id k \<in> set (map w_id (nr_workers x))" using that by (metis image_eqI set_map)
        then show ?thesis using nw by (auto simp: worker_exists_def)
      qed
      ultimately show ?thesis
        by (auto simp: get_team_member_def fetchone_eq_None_iff x1_def simp del: fetchone_append)
    qed
    then have add: "add_team_member e (hi_team ids) (hi_worker ids n)
        (if tpm_is_manager m then ''lead'' else ''member'') (with_rows d x1) = ok mb (with_rows d x2)"
      using t by (simp add: add_team_member_def MEMBER_ROLES_def team_exists_def worker_exists_def Let_def)
        (simp add: x1_def x2_def w_def mb_def with_rows_update)
    have f: "fill_seat e ids a (hi_team ids) s h = ok () h3"
      using True add
      by (cases "tpm_is_manager m")
        (simp_all add: s fill_seat_def on_hire_db_def db n_def [symmetric] hire row_to_worker_def h3_def h2_def
          w_def Let_def)
    have wm: "seat_worker e ids a d s w" "seat_member ids s mb"
      using r(3) t by (auto simp: seat_worker_def seat_member_def s w_def mb_def)
    have la: "list_all2 (seat_worker e ids a d) (hl_seats l @ [(m, i)]) (nr_workers x @ [w])"
      "list_all2 (seat_member ids) (hl_seats l @ [(m, i)]) (nr_members x @ [mb])"
      using J wm by (simp_all add: list_all2_appendI s)
    have ids_new: "w_id w = hi_worker ids n" "tm_worker_id mb = hi_worker ids n"
      by (simp_all add: w_def mb_def)
    have "journal e ids a d h3 \<lparr>hl_rows = x2, hl_seats = hl_seats l @ [s]\<rparr>"
      using J la ids_new n q
      by (auto simp: journal_def Let_def h3_def h2_def x2_def x1_def s x_def [symmetric])
    then show ?thesis using True f q
      by (intro if_P [THEN iffD2] exI [of _ h3] exI) (auto simp: s h3_def h2_def x2_def x1_def x_def)
  qed
qed

lemma fill_seats_journal:
  assumes ready: "hire_ready ids a d" and "journal e ids a d h l" and "nr_okrs (hl_rows l) = []" and "nr_subs (hl_rows l) = []"
  shows "\<exists>h1 l1. (fill_seats e ids a (hi_team ids) ss h = raise (IntegrityError ''workers.cost'') h1
        \<and> list_ex (\<lambda>s. seat_cost a (fst s) < 0 \<or> 100 < seat_cost a (fst s)) ss
      \<or> fill_seats e ids a (hi_team ids) ss h = ok () h1 \<and> hl_seats l1 = hl_seats l @ ss)
    \<and> journal e ids a d h1 l1 \<and> nr_okrs (hl_rows l1) = [] \<and> nr_subs (hl_rows l1) = [] \<and> hr_channel_id h1 = hr_channel_id h
    \<and> nr_channels (hl_rows l1) = nr_channels (hl_rows l)"
  using assms(2,3,4)
proof (induction ss arbitrary: h l)
  case Nil
  then show ?case by auto
next
  case (Cons s ss)
  show ?case
  proof (cases "0 \<le> seat_cost a (fst s) \<and> seat_cost a (fst s) \<le> 100")
    case True
    then obtain h1 l1 where f: "fill_seat e ids a (hi_team ids) s h = ok () h1" "journal e ids a d h1 l1"
      "hl_seats l1 = hl_seats l @ [s]" "nr_okrs (hl_rows l1) = []" "hr_channel_id h1 = hr_channel_id h"
      "nr_channels (hl_rows l1) = nr_channels (hl_rows l)" "nr_subs (hl_rows l1) = []"
      using fill_seat_journal [OF ready Cons.prems(1,2), of s] Cons.prems(3) by auto
    from Cons.IH [OF f(2,4,7)] show ?thesis using f by (auto 0 3)
  next
    case False
    then have "fill_seat e ids a (hi_team ids) s h = raise (IntegrityError ''workers.cost'') h"
      using fill_seat_journal [OF ready Cons.prems(1,2), of s] by simp
    then show ?thesis using False Cons.prems by (intro exI [of _ h] exI [of _ l]) auto
  qed
qed

lemma appoint_lead_journal:
  assumes ready: "hire_ready ids a d" and j: "journal e ids a d h l"
  shows "\<exists>h1 l1. appoint_lead (hi_team ids) h = ok () h1 \<and> journal e ids a d h1 l1 \<and> hl_seats l1 = hl_seats l
    \<and> nr_okrs (hl_rows l1) = nr_okrs (hl_rows l) \<and> nr_subs (hl_rows l1) = nr_subs (hl_rows l)
    \<and> nr_channels (hl_rows l1) = nr_channels (hl_rows l) \<and> hr_channel_id h1 = hr_channel_id h
    \<and> (\<forall>t \<in> set (nr_teams (hl_rows l1)). hr_lead h = None \<or> t_lead_id t = hr_lead h) \<and> hr_lead h1 = hr_lead h"
proof (cases "hr_lead h")
  case None
  then show ?thesis using j by (auto simp: appoint_lead_def)
next
  case (Some w)
  note fk = hire_readyD(1) [OF ready] and fresh = hire_readyD(2) [OF ready] and mgr = hire_readyD(3) [OF ready]
    and new_team = hire_readyD(4) [OF ready] and new_channel = hire_readyD(5) [OF ready]
    and new_worker = hire_readyD(6) [OF ready] and new_okr = hire_readyD(7) [OF ready]
  define x where "x = hl_rows l"
  note J = j [unfolded journal_def Let_def x_def [symmetric]]
  obtain t where t: "nr_teams x = [t]" "t_id t = hi_team ids" using J by (auto simp: map_eq_Cons_conv)
  define x1 where "x1 = x\<lparr>nr_teams := [t\<lparr>t_lead_id := hr_lead h\<rparr>]\<rparr>"
  have "w \<in> set (map w_id (nr_workers x))" using J Some lead_of_mem [of "hl_seats l" "hr_worker_ids h" w] by simp
  then have "worker_exists (with_rows d x) w" by (auto simp: worker_exists_def)
  moreover have "update_where (\<lambda>r. t_id r = hi_team ids) (\<lambda>r. r\<lparr>t_lead_id := Some w\<rparr>) (teams d) = teams d"
    using new_team by (intro update_where_none) (auto simp: team_exists_def image_iff)
  ultimately have "set_team_lead (hi_team ids) w (with_rows d x) = ok () (with_rows d x1)"
    by (simp add: set_team_lead_def t) (simp add: x1_def with_rows_update Some)
  then have f: "appoint_lead (hi_team ids) h = ok () (h\<lparr>hr_db := with_rows d x1\<rparr>)"
    using Some J by (simp add: appoint_lead_def on_hire_db_def)
  show ?thesis
    unfolding f
    by (rule exI [of _ "h\<lparr>hr_db := with_rows d x1\<rparr>"], rule exI [of _ "\<lparr>hl_rows = x1, hl_seats = hl_seats l\<rparr>"])
      (use J t in \<open>auto simp: journal_def x1_def x_def\<close>)
qed

lemma subscribe_each_new:
  assumes "channel_exists d' c" and "list_all (worker_exists d') ws" and "distinct ws"
    and "list_all (\<lambda>w. \<not> is_subscribed_to_channel d' c w) ws"
  shows "subscribe_each e c ws d' = d'\<lparr>subscriptions := subscriptions d' @
    map (\<lambda>w. \<lparr>cs_channel_id = c, cs_worker_id = w, cs_subscribed_at = now e\<rparr>) ws\<rparr>"
  using assms
proof (induction ws arbitrary: d')
  case (Cons w ws)
  define d1 where "d1 = d'\<lparr>subscriptions := subscriptions d' @
    [\<lparr>cs_channel_id = c, cs_worker_id = w, cs_subscribed_at = now e\<rparr>]\<rparr>"
  have "insert_subscription e c w d' = ok () d1"
    using Cons.prems by (simp add: insert_subscription_def d1_def)
  moreover have "subscribe_each e c ws d1 = d1\<lparr>subscriptions := subscriptions d1 @
    map (\<lambda>w. \<lparr>cs_channel_id = c, cs_worker_id = w, cs_subscribed_at = now e\<rparr>) ws\<rparr>"
    by (rule Cons.IH) (use Cons.prems in
      \<open>auto simp: d1_def channel_exists_def worker_exists_def list_all_iff is_subscribed_to_channel_def
        split: option.splits\<close>)
  ultimately show ?case by (simp add: d1_def)
qed simp

lemma subscribe_journal:
  assumes ready: "hire_ready ids a d" and j: "journal e ids a d h l" and none: "nr_subs (hl_rows l) = []"
  shows "\<exists>l1. journal e ids a d (subscribe_channel_members e (ha_manager_id a # hr_worker_ids h) h) l1
    \<and> hl_seats l1 = hl_seats l \<and> nr_okrs (hl_rows l1) = nr_okrs (hl_rows l)
    \<and> nr_channels (hl_rows l1) = nr_channels (hl_rows l) \<and> nr_teams (hl_rows l1) = nr_teams (hl_rows l)
    \<and> (\<forall>c. hr_channel_id h = Some c \<longrightarrow> map cs_worker_id (nr_subs (hl_rows l1)) = ha_manager_id a # hr_worker_ids h)"
proof (cases "hr_channel_id h")
  case None
  then show ?thesis using j by (auto simp: subscribe_channel_members_def)
next
  case (Some c)
  note fk = hire_readyD(1) [OF ready] and fresh = hire_readyD(2) [OF ready] and mgr = hire_readyD(3) [OF ready]
    and new_team = hire_readyD(4) [OF ready] and new_channel = hire_readyD(5) [OF ready]
    and new_worker = hire_readyD(6) [OF ready] and new_okr = hire_readyD(7) [OF ready]
  define x where "x = hl_rows l"
  note J = j [unfolded journal_def Let_def x_def [symmetric]]
  define ws where "ws = ha_manager_id a # hr_worker_ids h"
  define subs where "subs = map (\<lambda>w. \<lparr>cs_channel_id = c, cs_worker_id = w, cs_subscribed_at = now e\<rparr>) ws"
  have c: "c = hi_channel ids" using J Some by simp
  have "map c_id (nr_channels x) = [c]" using J Some by simp
  then have ch: "channel_exists (with_rows d x) c" by (auto simp: channel_exists_def map_eq_Cons_conv)
  have ids_eq: "set (hr_worker_ids h) = w_id ` set (nr_workers x)" using J by (metis set_map)
  have ex: "list_all (worker_exists (with_rows d x)) ws"
    using mgr_in [OF mgr] ids_eq by (auto simp: ws_def list_all_iff worker_exists_def)
  have "distinct (hr_worker_ids h)"
    using J fresh by (auto simp: fresh_hire_ids_def distinct_map inj_on_def)
  moreover have "ha_manager_id a \<notin> set (hr_worker_ids h)"
    using mgr new_worker J by auto
  ultimately have dist: "distinct ws" by (simp add: ws_def)
  have "cs_channel_id s \<noteq> c" if "s \<in> set (subscriptions d)" for s
  proof -
    have "cs_channel_id s \<in> c_id ` set (channels d)"
      using that fk by (simp add: foreign_keys_hold_def place_refs_hold_def list_all_iff Let_def)
    then show ?thesis using new_channel c by (metis channel_exists_def)
  qed
  then have un: "list_all (\<lambda>w. \<not> is_subscribed_to_channel (with_rows d x) c w) ws"
    using none by (auto simp: is_subscribed_to_channel_def list_all_iff fetchone_eq_None_iff x_def)
  define x1 where "x1 = x\<lparr>nr_subs := subs\<rparr>"
  have "subscribe_each e c ws (with_rows d x) = with_rows d x1"
    unfolding subscribe_each_new [OF ch ex dist un] subs_def [symmetric] using none
    by (simp add: x_def [symmetric]) (simp add: x1_def with_rows_update)
  then have f: "subscribe_channel_members e ws h = h\<lparr>hr_db := with_rows d x1\<rparr>"
    using Some J by (simp add: subscribe_channel_members_def)
  show ?thesis
    unfolding f [unfolded ws_def]
    by (intro exI [of _ "\<lparr>hl_rows = x1, hl_seats = hl_seats l\<rparr>"] conjI)
      (use J Some in \<open>auto simp: journal_def x1_def x_def subs_def comp_def ws_def\<close>)
qed

text \<open>What makes the objectives of a template writable: their texts format and their key results serialise.\<close>

definition okr_writable :: "format_rest \<Rightarrow> hire_args \<Rightarrow> team_template \<Rightarrow> initial_okr \<Rightarrow> bool" where
  "okr_writable rest a tp q =
     (\<not> isl (py_format rest (okr_fields tp (ha_team_name a)) (io_title q))
      \<and> \<not> isl (py_format rest (okr_fields tp (ha_team_name a)) (io_description q))
      \<and> \<not> isl (key_results_column (io_key_results q)))"

lemma create_new_okr:
  assumes ready: "hire_ready ids a d" and j: "journal e ids a d h l" and q: "map ok_id (nr_okrs (hl_rows l)) = map (hi_okr ids) [0..<n]"
    and owner: "worker_exists (hr_db h) w" and krs: "key_results_column krs = Inr rs"
  shows "create_okr_row e (hi_okr ids n) title descr w krs None (hr_db h) = ok (hi_okr ids n)
    (with_rows d ((hl_rows l)\<lparr>nr_okrs := nr_okrs (hl_rows l) @ [\<lparr>ok_id = hi_okr ids n, ok_title = title,
       ok_description = Some descr, ok_owner_worker_id = w, ok_parent_okr_id = None, ok_status = ''active'',
       ok_key_results = rs, ok_due_date = None, ok_created_at = current_timestamp e,
       ok_updated_at = current_timestamp e\<rparr>]\<rparr>))"
proof -
  note fk = hire_readyD(1) [OF ready] and fresh = hire_readyD(2) [OF ready] and mgr = hire_readyD(3) [OF ready]
    and new_team = hire_readyD(4) [OF ready] and new_channel = hire_readyD(5) [OF ready]
    and new_worker = hire_readyD(6) [OF ready] and new_okr = hire_readyD(7) [OF ready]
  have db: "hr_db h = with_rows d (hl_rows l)" using j by (simp add: journal_def Let_def)
  have "hi_okr ids n \<notin> ok_id ` set (nr_okrs (hl_rows l))"
  proof
    assume "hi_okr ids n \<in> ok_id ` set (nr_okrs (hl_rows l))"
    then have "hi_okr ids n \<in> set (map (hi_okr ids) [0..<n])" unfolding q [symmetric] by simp
    then obtain k where "k < n" "hi_okr ids n = hi_okr ids k" by auto
    then show False using fresh by (auto simp: fresh_hire_ids_def dest: injD)
  qed
  then show ?thesis
    using new_okr [of n] owner krs
    by (simp add: create_okr_row_def create_okr_def OKR_STATUSES_def db image_Un Let_def) (simp add: with_rows_update)
qed

lemma open_okrs_journal:
  assumes ready: "hire_ready ids a d" and "journal e ids a d h l"
  shows "\<exists>h1 l1. (open_okrs rest e ids a tp qs h = ok () h1 \<and> length (nr_okrs (hl_rows l1)) = length (nr_okrs (hl_rows l)) + length qs
       \<or> (\<exists>x. open_okrs rest e ids a tp qs h = raise x h1) \<and> \<not> list_all (okr_writable rest a tp) qs)
    \<and> journal e ids a d h1 l1 \<and> hl_seats l1 = hl_seats l \<and> nr_channels (hl_rows l1) = nr_channels (hl_rows l)
    \<and> nr_subs (hl_rows l1) = nr_subs (hl_rows l) \<and> nr_teams (hl_rows l1) = nr_teams (hl_rows l)
    \<and> hr_channel_id h1 = hr_channel_id h \<and> hr_lead h1 = hr_lead h \<and> hr_worker_ids h1 = hr_worker_ids h"
  using assms(2)
proof (induction qs arbitrary: h l)
  case Nil
  then show ?case by auto
next
  case (Cons q qs)
  note mgr = hire_readyD(3) [OF ready]
  define texts where "texts = sum_then (py_format rest (okr_fields tp (ha_team_name a)) (io_title q)) (\<lambda>title.
      sum_then (py_format rest (okr_fields tp (ha_team_name a)) (io_description q)) (\<lambda>descr. Inr (title, descr)))"
  define owner where "owner = (case hr_lead h of Some w \<Rightarrow> w | None \<Rightarrow> ha_manager_id a)"
  note J = Cons.prems [unfolded journal_def Let_def]
  have "hr_lead h = Some w \<Longrightarrow> w \<in> set (map w_id (nr_workers (hl_rows l)))" for w
    using J lead_of_mem [of "hl_seats l" "hr_worker_ids h" w] by simp
  moreover have db: "hr_db h = with_rows d (hl_rows l)" using J by blast
  ultimately have ow: "worker_exists (hr_db h) owner"
    using mgr_in [OF mgr, of "hl_rows l"] by (cases "hr_lead h") (simp_all add: owner_def worker_exists_def image_Un)
  show ?case
  proof (cases texts)
    case (Inl x)
    then have "open_okrs rest e ids a tp (q # qs) h = raise x h" by (simp add: texts_def [symmetric])
    moreover have "\<not> okr_writable rest a tp q"
      using Inl by (auto simp: texts_def okr_writable_def sum_then_def split: sum.splits)
    ultimately show ?thesis using Cons.prems by (intro exI [of _ h] exI [of _ l]) auto
  next
    case (Inr td)
    obtain title descr where td: "td = (title, descr)" by force
    define n where "n = length (hr_okr_ids h)"
    show ?thesis
    proof (cases "key_results_column (io_key_results q)")
      case (Inl x)
      then have "create_okr_row e (hi_okr ids n) title descr owner (io_key_results q) None (hr_db h) = raise x (hr_db h)"
        by (simp add: create_okr_row_def)
      then have "open_okrs rest e ids a tp (q # qs) h = raise x h"
        using Inr by (simp add: texts_def [symmetric] td on_hire_db_def n_def owner_def)
      moreover have "\<not> okr_writable rest a tp q" using Inl by (simp add: okr_writable_def)
      ultimately show ?thesis using Cons.prems by (intro exI [of _ h] exI [of _ l]) auto
    next
      case krs: (Inr rs)
      have "map ok_id (nr_okrs (hl_rows l)) = map (hi_okr ids) [0..<n]" using J by (simp add: n_def)
      note new = create_new_okr [OF ready Cons.prems this ow krs, of title descr]
      define row where "row = \<lparr>ok_id = hi_okr ids n, ok_title = title, ok_description = Some descr,
          ok_owner_worker_id = owner, ok_parent_okr_id = None, ok_status = ''active'', ok_key_results = rs,
          ok_due_date = None, ok_created_at = current_timestamp e, ok_updated_at = current_timestamp e\<rparr>"
      define x1 where "x1 = (hl_rows l)\<lparr>nr_okrs := nr_okrs (hl_rows l) @ [row]\<rparr>"
      define h1 where "h1 = h\<lparr>hr_db := with_rows d x1, hr_okr_ids := hr_okr_ids h @ [hi_okr ids n],
          hr_stack := UndoOkr (hi_okr ids n) # hr_stack h\<rparr>"
      define l1 where "l1 = l\<lparr>hl_rows := x1\<rparr>"
      have step: "open_okrs rest e ids a tp (q # qs) h = open_okrs rest e ids a tp qs h1"
        using Inr new
        by (simp add: texts_def [symmetric] td on_hire_db_def n_def [symmetric] owner_def [symmetric])
          (simp add: h1_def x1_def row_def)
      have n: "n = length (nr_okrs (hl_rows l))" using J by (simp add: n_def)
      have j1: "journal e ids a d h1 l1"
        using J n by (auto simp: journal_def h1_def l1_def x1_def row_def owner_def)
      from Cons.IH [OF j1] show ?thesis
        unfolding step by (auto simp: h1_def l1_def x1_def)
    qed
  qed
qed

lemma tag_team_journal:
  assumes ready: "hire_ready ids a d" and j: "journal e ids a d h l"
  shows "\<exists>l1. journal e ids a d (tag_team e tp (hi_team ids) h) l1 \<and> hl_seats l1 = hl_seats l
    \<and> nr_okrs (hl_rows l1) = nr_okrs (hl_rows l) \<and> nr_channels (hl_rows l1) = nr_channels (hl_rows l)
    \<and> nr_subs (hl_rows l1) = nr_subs (hl_rows l)
    \<and> map t_lead_id (nr_teams (hl_rows l1)) = map t_lead_id (nr_teams (hl_rows l))
    \<and> map t_template_type (nr_teams (hl_rows l1)) = [Some (tp_name tp)]
    \<and> map t_ttl_hours (nr_teams (hl_rows l1)) = [tp_ttl_hours tp]"
proof -
  note fk = hire_readyD(1) [OF ready] and fresh = hire_readyD(2) [OF ready] and mgr = hire_readyD(3) [OF ready]
    and new_team = hire_readyD(4) [OF ready] and new_channel = hire_readyD(5) [OF ready]
    and new_worker = hire_readyD(6) [OF ready] and new_okr = hire_readyD(7) [OF ready]
  define x where "x = hl_rows l"
  note J = j [unfolded journal_def Let_def x_def [symmetric]]
  obtain t where t: "nr_teams x = [t]" "t_id t = hi_team ids" using J by (auto simp: map_eq_Cons_conv)
  define upd where "upd = (\<lambda>r :: team_row. r\<lparr>t_template_type := Some (tp_name tp), t_ttl_hours := tp_ttl_hours tp,
      t_ttl_started_at := (case tp_ttl_hours tp of None \<Rightarrow> None | Some n \<Rightarrow> if n = 0 then None else Some (now e))\<rparr>)"
  define x1 where "x1 = x\<lparr>nr_teams := [upd t]\<rparr>"
  have "update_where (\<lambda>r. t_id r = hi_team ids) upd (teams d) = teams d"
    using new_team by (intro update_where_none) (auto simp: team_exists_def image_iff)
  then have "tag_team e tp (hi_team ids) h = h\<lparr>hr_db := with_rows d x1\<rparr>"
    using J t by (simp add: tag_team_def upd_def [symmetric]) (simp add: x1_def with_rows_update)
  then show ?thesis
    by (intro exI [of _ "\<lparr>hl_rows = x1, hl_seats = hl_seats l\<rparr>"])
      (use J t in \<open>auto simp: journal_def x1_def x_def upd_def\<close>)
qed

section \<open>The whole run\<close>

definition all_seats :: "team_template \<Rightarrow> hire_args \<Rightarrow> (template_member \<times> nat) list" where
  "all_seats tp a = seats (hiring_order (expand_members tp (ha_sizes a)))"

text \<open>What decides whether the run succeeds: the costs of the seats and the texts of the objectives.\<close>

definition hire_feasible :: "format_rest \<Rightarrow> hire_args \<Rightarrow> team_template \<Rightarrow> bool" where
  "hire_feasible rest a tp =
     (list_all (\<lambda>s. 0 \<le> seat_cost a (fst s) \<and> seat_cost a (fst s) \<le> 100) (all_seats tp a)
      \<and> list_all (okr_writable rest a tp) (tp_initial_okrs tp))"

text \<open>The rows of a team that has been hired.\<close>

definition hired_team ::
  "env \<Rightarrow> hire_ids \<Rightarrow> hire_args \<Rightarrow> team_template \<Rightarrow> string option \<Rightarrow> db \<Rightarrow> new_rows \<Rightarrow> hire_team_result \<Rightarrow> bool" where
  "hired_team e ids a tp channel_name d x r =
     ((\<exists>t. nr_teams x = [t] \<and> t_id t = ht_team_id r \<and> t_name t = ha_team_name a
         \<and> t_template_type t = Some (tp_name tp) \<and> t_ttl_hours t = tp_ttl_hours tp \<and> t_channel_id t = ht_channel_id r
         \<and> (lead_of (all_seats tp a) (ht_worker_ids r) = None
            \<or> t_lead_id t = lead_of (all_seats tp a) (ht_worker_ids r)))
      \<and> map c_name (nr_channels x) = (case channel_name of None \<Rightarrow> [] | Some n \<Rightarrow> if n = [] then [] else [n])
      \<and> map w_id (nr_workers x) = ht_worker_ids r \<and> distinct (ht_worker_ids r)
      \<and> list_all2 (seat_worker e ids a d) (all_seats tp a) (nr_workers x)
      \<and> list_all2 (seat_member ids) (all_seats tp a) (nr_members x)
      \<and> map tm_worker_id (nr_members x) = ht_worker_ids r
      \<and> (ht_channel_id r = None \<or> map cs_worker_id (nr_subs x) = ha_manager_id a # ht_worker_ids r)
      \<and> length (nr_okrs x) = length (tp_initial_okrs tp) \<and> map ok_id (nr_okrs x) = ht_okr_ids r
      \<and> ht_team_id r = hi_team ids \<and> \<not> ht_rolled_back r)"

lemma hire_steps_journal:
  assumes ready: "hire_ready ids a d"
  shows "\<exists>h l. (hire_steps rest e ids a tp nm (start_run d) = ok (hi_team ids) h
        \<and> hired_team e ids a tp nm d (hl_rows l) (hire_result h None)
      \<or> (\<exists>x. hire_steps rest e ids a tp nm (start_run d) = raise x h) \<and> \<not> hire_feasible rest a tp)
    \<and> journal e ids a d h l \<and> (nr_okrs (hl_rows l) = [] \<or> hl_seats l = all_seats tp a)"
proof -
  define ss where "ss = all_seats tp a"
  obtain h1 l1 where 1: "open_team e ids a (start_run d) = ok (hi_team ids) h1" "journal e ids a d h1 l1"
    "hl_seats l1 = []" "nr_okrs (hl_rows l1) = []" "hr_channel_id h1 = None"
    using open_team_journal [OF ready] by blast
  obtain h2 l2 where 2: "open_channel e ids nm (hi_team ids) h1 = ok () h2" "journal e ids a d h2 l2"
    "hl_seats l2 = []" "nr_okrs (hl_rows l2) = []"
    "map c_name (nr_channels (hl_rows l2)) = (case nm of None \<Rightarrow> [] | Some n \<Rightarrow> if n = [] then [] else [n])"
    "nr_subs (hl_rows l2) = []"
    using open_channel_journal [OF ready 1(2-5), of nm] by blast
  obtain h3 l3 where 3: "(fill_seats e ids a (hi_team ids) ss h2 = raise (IntegrityError ''workers.cost'') h3
        \<and> list_ex (\<lambda>s. seat_cost a (fst s) < 0 \<or> 100 < seat_cost a (fst s)) ss
      \<or> fill_seats e ids a (hi_team ids) ss h2 = ok () h3 \<and> hl_seats l3 = ss)"
    "journal e ids a d h3 l3" "nr_okrs (hl_rows l3) = []" "nr_subs (hl_rows l3) = []"
    "nr_channels (hl_rows l3) = nr_channels (hl_rows l2)"
    using fill_seats_journal [OF ready 2(2,4,6), of ss] 2(3) by auto
  from 3(1) show ?thesis
  proof
    assume f: "fill_seats e ids a (hi_team ids) ss h2 = raise (IntegrityError ''workers.cost'') h3
        \<and> list_ex (\<lambda>s. seat_cost a (fst s) < 0 \<or> 100 < seat_cost a (fst s)) ss"
    then have "hire_steps rest e ids a tp nm (start_run d) = raise (IntegrityError ''workers.cost'') h3"
      using 1(1) 2(1) by (simp add: hire_steps_def ss_def all_seats_def)
    moreover have "\<not> hire_feasible rest a tp"
      using f by (fastforce simp: hire_feasible_def ss_def list_ex_iff list_all_iff)
    ultimately show ?thesis using 3(2,3) by blast
  next
    assume f: "fill_seats e ids a (hi_team ids) ss h2 = ok () h3 \<and> hl_seats l3 = ss"
    obtain h4 l4 where 4: "appoint_lead (hi_team ids) h3 = ok () h4" "journal e ids a d h4 l4" "hl_seats l4 = ss"
      "nr_okrs (hl_rows l4) = []" "nr_subs (hl_rows l4) = []" "nr_channels (hl_rows l4) = nr_channels (hl_rows l3)"
      "\<forall>t \<in> set (nr_teams (hl_rows l4)). hr_lead h3 = None \<or> t_lead_id t = hr_lead h3" "hr_lead h4 = hr_lead h3"
      using appoint_lead_journal [OF ready 3(2)] f 3(3,4) by auto
    define h5 where "h5 = subscribe_channel_members e (ha_manager_id a # hr_worker_ids h4) h4"
    obtain l5 where 5: "journal e ids a d h5 l5" "hl_seats l5 = ss" "nr_okrs (hl_rows l5) = []"
      "nr_channels (hl_rows l5) = nr_channels (hl_rows l4)" "nr_teams (hl_rows l5) = nr_teams (hl_rows l4)"
      "\<forall>c. hr_channel_id h4 = Some c \<longrightarrow> map cs_worker_id (nr_subs (hl_rows l5)) = ha_manager_id a # hr_worker_ids h4"
      using subscribe_journal [OF ready 4(2,5)] 4(3,4) by (auto simp: h5_def)
    have h5: "hr_channel_id h5 = hr_channel_id h4" "hr_worker_ids h5 = hr_worker_ids h4" "hr_lead h5 = hr_lead h4"
      by (simp_all add: h5_def subscribe_channel_members_def split: option.splits)
    obtain h6 l6 where 6: "open_okrs rest e ids a tp (tp_initial_okrs tp) h5 = ok () h6
          \<and> length (nr_okrs (hl_rows l6)) = length (tp_initial_okrs tp)
        \<or> (\<exists>x. open_okrs rest e ids a tp (tp_initial_okrs tp) h5 = raise x h6)
          \<and> \<not> list_all (okr_writable rest a tp) (tp_initial_okrs tp)"
      "journal e ids a d h6 l6" "hl_seats l6 = ss" "nr_channels (hl_rows l6) = nr_channels (hl_rows l5)"
      "nr_subs (hl_rows l6) = nr_subs (hl_rows l5)" "nr_teams (hl_rows l6) = nr_teams (hl_rows l5)"
      "hr_channel_id h6 = hr_channel_id h5" "hr_lead h6 = hr_lead h5" "hr_worker_ids h6 = hr_worker_ids h5"
      using open_okrs_journal [OF ready 5(1), of rest tp "tp_initial_okrs tp"] 5(2,3) by auto
    have steps: "hire_steps rest e ids a tp nm (start_run d) =
        and_then (open_okrs rest e ids a tp (tp_initial_okrs tp) h5) (\<lambda>_ h. ok (hi_team ids) (tag_team e tp (hi_team ids) h))"
      using 1(1) 2(1) f 4(1) by (simp add: hire_steps_def ss_def all_seats_def h5_def)
    from 6(1) show ?thesis
    proof
      assume "(\<exists>x. open_okrs rest e ids a tp (tp_initial_okrs tp) h5 = raise x h6)
          \<and> \<not> list_all (okr_writable rest a tp) (tp_initial_okrs tp)"
      then show ?thesis using 6(2,3) unfolding steps by (auto simp: hire_feasible_def ss_def)
    next
      assume o: "open_okrs rest e ids a tp (tp_initial_okrs tp) h5 = ok () h6
          \<and> length (nr_okrs (hl_rows l6)) = length (tp_initial_okrs tp)"
      define h7 where "h7 = tag_team e tp (hi_team ids) h6"
      obtain l7 where 7: "journal e ids a d h7 l7" "hl_seats l7 = ss" "nr_okrs (hl_rows l7) = nr_okrs (hl_rows l6)"
        "nr_channels (hl_rows l7) = nr_channels (hl_rows l6)" "nr_subs (hl_rows l7) = nr_subs (hl_rows l6)"
        "map t_lead_id (nr_teams (hl_rows l7)) = map t_lead_id (nr_teams (hl_rows l6))"
        "map t_template_type (nr_teams (hl_rows l7)) = [Some (tp_name tp)]"
        "map t_ttl_hours (nr_teams (hl_rows l7)) = [tp_ttl_hours tp]"
        using tag_team_journal [OF ready 6(2), of tp] 6(3) by (auto simp: h7_def)
      have h7: "hr_channel_id h7 = hr_channel_id h6" "hr_worker_ids h7 = hr_worker_ids h6" "hr_lead h7 = hr_lead h6"
        by (simp_all add: h7_def tag_team_def)
      note J = 7(1) [unfolded journal_def Let_def 7(2)]
      have "distinct (hr_worker_ids h7)"
        using J hire_readyD(2) [OF ready] by (auto simp: fresh_hire_ids_def distinct_map inj_on_def)
      moreover obtain t where t: "nr_teams (hl_rows l7) = [t]" using J by (auto simp: map_eq_Cons_conv)
      moreover have "hr_lead h7 = None \<or> t_lead_id t = hr_lead h7"
      proof -
        obtain t4 where t4: "nr_teams (hl_rows l4) = [t4]" "t_lead_id t4 = t_lead_id t"
          using 7(6) t 6(6) 5(5) by (auto simp: map_eq_Cons_conv)
        then show ?thesis using 4(7,8) h5 6(8) h7 by simp
      qed
      moreover have "hr_channel_id h7 = None \<or> map cs_worker_id (nr_subs (hl_rows l7)) = ha_manager_id a # hr_worker_ids h7"
        using 5(6) h5 6(5,7,9) 7(5) h7 by auto
      ultimately have "hired_team e ids a tp nm d (hl_rows l7) (hire_result h7 None)"
        using J 7 o 2(5) 3(5) 4(6) 5(4) 6(4) by (simp add: hired_team_def hire_result_def ss_def)
      then show ?thesis using 7(1,2) o unfolding steps by (auto simp: h7_def ss_def)
    qed
  qed
qed

lemma lead_of_None:
  assumes "length ss = length ws" and "lead_of ss ws = None"
  shows "\<not> list_ex (\<lambda>s. tpm_is_manager (fst s)) ss"
proof -
  have none: "\<forall>p \<in> set (zip ss ws). \<not> tpm_is_manager (fst (fst p))"
    using assms(2) by (auto simp: lead_of_def Let_def filter_empty_conv split: if_splits)
  have "\<not> tpm_is_manager (fst s)" if "s \<in> set ss" for s
  proof -
    from that obtain i where "i < length ss" "s = ss ! i" by (auto simp: in_set_conv_nth)
    then have "(s, ws ! i) \<in> set (zip ss ws)" using assms(1) by (auto simp: set_zip)
    then show ?thesis using none by auto
  qed
  then show ?thesis by (auto simp: list_ex_iff)
qed

text \<open>A run that fails gives the old rows back; its only trace is cancelled objectives of the hiring manager.\<close>

lemma run_with_rollback_cases:
  assumes ready: "hire_ready ids a d"
  shows "(\<exists>x r. run_with_rollback rest e ids a tp nm d = ok r (with_rows d x) \<and> hired_team e ids a tp nm d x r)
    \<or> \<not> hire_feasible rest a tp \<and> (\<exists>r qs. run_with_rollback rest e ids a tp nm d = ok r (d\<lparr>okrs := okrs d @ qs\<rparr>)
        \<and> ht_rolled_back r \<and> ht_failure r \<noteq> None
        \<and> list_all (\<lambda>q. ok_status q = ''cancelled'' \<and> ok_owner_worker_id q = ha_manager_id a) qs
        \<and> (list_ex (\<lambda>s. tpm_is_manager (fst s)) (all_seats tp a) \<longrightarrow> qs = []))"
proof -
  obtain h l where hl: "hire_steps rest e ids a tp nm (start_run d) = ok (hi_team ids) h
        \<and> hired_team e ids a tp nm d (hl_rows l) (hire_result h None)
      \<or> (\<exists>x. hire_steps rest e ids a tp nm (start_run d) = raise x h) \<and> \<not> hire_feasible rest a tp"
    and j: "journal e ids a d h l" and okrs: "nr_okrs (hl_rows l) = [] \<or> hl_seats l = all_seats tp a"
    using hire_steps_journal [OF ready, of rest e tp nm] by blast
  from hl show ?thesis
  proof
    assume "hire_steps rest e ids a tp nm (start_run d) = ok (hi_team ids) h
        \<and> hired_team e ids a tp nm d (hl_rows l) (hire_result h None)"
    moreover have "hr_db h = with_rows d (hl_rows l)" using j by (simp add: journal_def Let_def)
    ultimately show ?thesis by (auto simp: run_with_rollback_def start_run_def)
  next
    assume f: "(\<exists>x. hire_steps rest e ids a tp nm (start_run d) = raise x h) \<and> \<not> hire_feasible rest a tp"
    then obtain x where x: "hire_steps rest e ids a tp nm (start_run d) = raise x h" by blast
    define qs where "qs = (if hr_lead h = None then map (cancel_okr e) (nr_okrs (hl_rows l)) else [])"
    have rb: "run_rollback e (hr_stack h) (hr_db h) = ([], d\<lparr>okrs := okrs d @ qs\<rparr>)"
      unfolding undo_everything [OF hire_readyD(1-3) [OF ready] j] qs_def [symmetric]
      by (simp add: with_rows_def no_rows_def)
    have "run_with_rollback rest e ids a tp nm d = ok (hire_result h (Some x)) (d\<lparr>okrs := okrs d @ qs\<rparr>)"
      using x rb by (simp add: run_with_rollback_def start_run_def)
    moreover have "list_all (\<lambda>q. ok_status q = ''cancelled'' \<and> ok_owner_worker_id q = ha_manager_id a) qs"
      using j by (auto simp: qs_def list_all_iff cancel_okr_def journal_def Let_def)
    moreover have "qs = []" if "list_ex (\<lambda>s. tpm_is_manager (fst s)) (all_seats tp a)"
    proof (cases "hr_lead h")
      case None
      then have "lead_of (hl_seats l) (hr_worker_ids h) = None" "length (hl_seats l) = length (hr_worker_ids h)"
        using j by (auto simp: journal_def Let_def)
      then have "hl_seats l \<noteq> all_seats tp a" using lead_of_None that by metis
      then show ?thesis using okrs by (simp add: qs_def)
    qed (simp add: qs_def)
    ultimately show ?thesis using f by (auto simp: hire_result_def)
  qed
qed

section \<open>Properties\<close>

lemma hire_checks_ready:
  assumes "hire_checks rest reg a d = Inr (tp, nm)" and "foreign_keys_hold d" and "fresh_hire_ids ids d"
  shows "hire_ready ids a d" and "get_template reg (ha_template_name a) = Inr tp"
    and "derive_channel_name rest tp (ha_team_name a) = Inr nm"
proof -
  from assms(1) obtain tp' u nm' where c': "get_template reg (ha_template_name a) = Inr tp'"
    "(if get_worker d (ha_manager_id a) = None
      then Inl (TemplateError ''manager_id does not resolve to a known worker'') else Inr ()) = Inr u"
    "derive_channel_name rest tp' (ha_team_name a) = Inr nm'"
    "(case nm' of None \<Rightarrow> Inr (tp', nm')
      | Some n \<Rightarrow> if n \<noteq> [] \<and> fetchone (\<lambda>c. c_name c = n) (channels d) \<noteq> None
                  then Inl (ChannelNameCollision n) else Inr (tp', nm')) = Inr (tp, nm)"
    unfolding hire_checks_def sum_then_Inr_iff by blast
  have "tp' = tp \<and> nm' = nm" using c'(4) by (cases nm') (simp_all split: if_splits)
  then have c: "get_template reg (ha_template_name a) = Inr tp" "get_worker d (ha_manager_id a) \<noteq> None"
    "derive_channel_name rest tp (ha_team_name a) = Inr nm"
    using c'(1-3) by (simp_all split: if_splits)
  then have "worker_exists d (ha_manager_id a)"
    by (force simp: get_worker_def worker_exists_def dest: fetchone_SomeD)
  then show "hire_ready ids a d" using assms(2,3) by (simp add: hire_ready_def)
  show "get_template reg (ha_template_name a) = Inr tp"
    "derive_channel_name rest tp (ha_team_name a) = Inr nm" using c by simp_all
qed

text \<open>
  C11: Hiring a team is all or nothing. Whatever fails (a cost outside the schema's range, a text of an
  objective that does not format, key results that are not JSON), all undo steps succeed, and
  afterwards every table is as before, even if the team, its channel and subscriptions, workers,
  memberships and objectives had been written; only when nobody was hired as manager may cancelled
  objectives of the hiring manager be left. When the call raises it has written nothing, so
  \<open>HireTeamRollbackFailed\<close>, after a partial rollback, does not happen. The ids drawn are new, and the
  references of the database hold.
\<close>

theorem hire_team_all_or_nothing:
  assumes "foreign_keys_hold d" and "fresh_hire_ids ids d"
  shows "case hire_team rest e ids reg a d of
      (Inl x, d') \<Rightarrow> d' = d
    | (Inr r, d') \<Rightarrow> ht_rolled_back r \<longrightarrow>
        (\<exists>qs. d' = d\<lparr>okrs := okrs d @ qs\<rparr>
          \<and> list_all (\<lambda>q. ok_status q = ''cancelled'' \<and> ok_owner_worker_id q = ha_manager_id a) qs
          \<and> (\<forall>tp. get_template reg (ha_template_name a) = Inr tp \<longrightarrow>
               list_ex (\<lambda>s. tpm_is_manager (fst s)) (all_seats tp a) \<longrightarrow> qs = []))"
proof (cases "hire_checks rest reg a d")
  case (Inl x)
  then show ?thesis by (simp add: hire_team_def)
next
  case (Inr p)
  obtain tp nm where c: "hire_checks rest reg a d = Inr (tp, nm)" using Inr by (cases p) auto
  note ready = hire_checks_ready [OF c assms]
  show ?thesis
  proof (cases "ha_dry_run a")
    case True
    then show ?thesis by (simp add: hire_team_def c dry_result_def)
  next
    case False
    from run_with_rollback_cases [OF ready(1), of rest e tp nm] show ?thesis
    proof (elim disjE exE conjE)
      fix x r assume "run_with_rollback rest e ids a tp nm d = ok r (with_rows d x)" and "hired_team e ids a tp nm d x r"
      then show ?thesis using False by (simp add: hire_team_def c hired_team_def)
    next
      fix r qs assume "run_with_rollback rest e ids a tp nm d = ok r (d\<lparr>okrs := okrs d @ qs\<rparr>)"
        and qs: "list_all (\<lambda>q. ok_status q = ''cancelled'' \<and> ok_owner_worker_id q = ha_manager_id a) qs"
        "list_ex (\<lambda>s. tpm_is_manager (fst s)) (all_seats tp a) \<longrightarrow> qs = []"
      then have "hire_team rest e ids reg a d = ok r (d\<lparr>okrs := okrs d @ qs\<rparr>)"
        using False by (simp add: hire_team_def c)
      then show ?thesis using qs ready(2) by (simp only: prod.case sum.case) (intro impI exI [of _ qs], simp)
    qed
  qed
qed

text \<open>
  C12: When nothing stands in the way the team is hired: a call that passes the checks, for costs in the
  schema's range and objectives that can be written, adds exactly the rows of the new team. The team has
  the name and the template; each seat, the manager's first, gets a pending worker with the role, the cost and the
  name of the seat under the hiring manager, and a membership, as lead for a manager's seat; the worker of the
  last manager's seat leads; all of them and the hiring manager are subscribed to the channel. The workers
  are recorded in the new team if it is younger than every other team.
\<close>

theorem hire_team_builds_team:
  assumes "foreign_keys_hold d" and "fresh_hire_ids ids d"
    and "hire_checks rest reg a d = Inr (tp, nm)" and "hire_feasible rest a tp" and "\<not> ha_dry_run a"
  shows "\<exists>x r. hire_team rest e ids reg a d = ok r (with_rows d x) \<and> hired_team e ids a tp nm d x r"
  using run_with_rollback_cases [OF hire_checks_ready(1) [OF assms(3,1,2)], of rest e tp nm] assms(3-5)
  by (auto simp: hire_team_def)


lemma seat_roles: "list_all2 (seat_worker e ids a d) ss ws \<Longrightarrow> map w_role ws = map (tpm_role \<circ> fst) ss"
  by (induction rule: list_all2_induct) (auto simp: seat_worker_def)

subsection \<open>The shipped data team in a small organisation\<close>

definition data_team :: team_template where
  "data_team = \<lparr>tp_name = ''data_team'', tp_description = ''Data engineering and analytics.'',
     tp_members =
       [\<lparr>tpm_role = ''data-eng'', tpm_count = 1, tpm_cost = 60, tpm_is_manager = True\<rparr>,
        \<lparr>tpm_role = ''data-eng'', tpm_count = 1, tpm_cost = 50, tpm_is_manager = False\<rparr>,
        \<lparr>tpm_role = ''analyst'', tpm_count = 1, tpm_cost = 45, tpm_is_manager = False\<rparr>,
        \<lparr>tpm_role = ''ml-eng'', tpm_count = 1, tpm_cost = 55, tpm_is_manager = False\<rparr>],
     tp_channel = Some \<lparr>chs_auto_create = True, chs_name_template = ''data-{team_name}''\<rparr>,
     tp_requires = [], tp_initial_okrs = [], tp_ttl_hours = None\<rparr>"

definition data_registry :: template_registry where
  "data_registry = \<lparr>tr_version = VInt 1, tr_templates = [data_team], tr_source_path = ''templates.yaml''\<rparr>"

definition hire_data_team :: hire_args where
  "hire_data_team = \<lparr>ha_template_name = ''data_team'', ha_team_name = ''alpha'', ha_manager_id = ''ceo'',
     ha_parent = None, ha_sizes = Map.empty, ha_costs = Map.empty, ha_names = Map.empty, ha_dry_run = False\<rparr>"

text \<open>One cost override is out of range.\<close>

definition hire_too_dear :: hire_args where
  "hire_too_dear = hire_data_team\<lparr>ha_costs := [''ml-eng'' \<mapsto> 150]\<rparr>"

definition sample_hire_ids :: hire_ids where
  "sample_hire_ids = \<lparr>hi_team = ''t-new'', hi_channel = ''c-new'', hi_worker = (\<lambda>n. ''w-'' @ replicate n CHR ''x''),
     hi_okr = (\<lambda>n. ''o-'' @ replicate n CHR ''x'')\<rparr>"

definition plain_rest :: format_rest where
  "plain_rest v t = Inl (ValueError ''not used'')"

lemma sample_hire_ok:
  "foreign_keys_hold org_db" "fresh_hire_ids sample_hire_ids org_db"
  "hire_checks plain_rest data_registry hire_data_team org_db = Inr (data_team, Some ''data-alpha'')"
  "hire_feasible plain_rest hire_data_team data_team"
proof -
  show "foreign_keys_hold org_db"
    by (simp add: foreign_keys_hold_def worker_refs_hold_def place_refs_hold_def ref_ok_def org_defs)
  have "inj (\<lambda>n. ''w-'' @ replicate n CHR ''x'')" "inj (\<lambda>n. ''o-'' @ replicate n CHR ''x'')"
    by (simp_all add: inj_def)
  then show "fresh_hire_ids sample_hire_ids org_db"
    by (auto simp: fresh_hire_ids_def sample_hire_ids_def team_exists_def channel_exists_def worker_exists_def org_defs)
  show "hire_checks plain_rest data_registry hire_data_team org_db = Inr (data_team, Some ''data-alpha'')"
    by code_simp
  show "hire_feasible plain_rest hire_data_team data_team" by code_simp
qed

lemma sample_not_dry: "\<not> ha_dry_run hire_data_team"
  by (simp add: hire_data_team_def)

lemma sample_hired:
  "\<exists>x r. hire_team plain_rest witness_env sample_hire_ids data_registry hire_data_team org_db = ok r (with_rows org_db x)
     \<and> hired_team witness_env sample_hire_ids hire_data_team data_team (Some ''data-alpha'') org_db x r"
  using run_with_rollback_cases [OF hire_checks_ready(1) [OF sample_hire_ok(3,1,2)],
      where rest = plain_rest and e = witness_env and tp = data_team and nm = "Some ''data-alpha''"] sample_hire_ok(3,4) sample_not_dry
  by (simp add: hire_team_def)

theorem hire_team_all_or_nothing_witness:
  "\<exists>r. hire_team plain_rest witness_env sample_hire_ids data_registry hire_too_dear org_db = ok r org_db
     \<and> ht_rolled_back r \<and> ht_worker_ids r = [''w-'', ''w-x'', ''w-xx'']"
proof -
  define out where "out = hire_team plain_rest witness_env sample_hire_ids data_registry hire_too_dear org_db"
  have r: "fst out = Inr \<lparr>ht_team_id = ''t-new'', ht_channel_id = Some ''c-new'',
      ht_worker_ids = [''w-'', ''w-x'', ''w-xx''], ht_okr_ids = [], ht_rolled_back = True,
      ht_failure = Some (IntegrityError ''workers.cost'')\<rparr>"
    unfolding out_def by code_simp
  have t: "get_template data_registry (ha_template_name hire_too_dear) = Inr data_team"
    "list_ex (\<lambda>s. tpm_is_manager (fst s)) (all_seats data_team hire_too_dear)" by code_simp+
  obtain d' where out: "out = (fst out, d')" by (cases out) auto
  have "d' = org_db"
    using hire_team_all_or_nothing [OF sample_hire_ok(1,2), where rest = plain_rest and e = witness_env and reg = data_registry and a = hire_too_dear]
      out r t by (auto simp: out_def [symmetric] split: prod.splits)
  then show ?thesis using out r by (auto simp: out_def)
qed

theorem hire_team_builds_team_witness:
  "\<exists>x r. hire_team plain_rest witness_env sample_hire_ids data_registry hire_data_team org_db = ok r (with_rows org_db x)
     \<and> map w_role (nr_workers x) = [''data-eng'', ''data-eng'', ''analyst'', ''ml-eng'']"
proof -
  obtain x r where x: "hire_team plain_rest witness_env sample_hire_ids data_registry hire_data_team org_db
      = ok r (with_rows org_db x)" "hired_team witness_env sample_hire_ids hire_data_team data_team (Some ''data-alpha'') org_db x r"
    using hire_team_builds_team [OF sample_hire_ok sample_not_dry, where e = witness_env] by blast
  have seats: "all_seats data_team hire_data_team = [(tp_members data_team ! 0, 0), (tp_members data_team ! 1, 0),
      (tp_members data_team ! 2, 0), (tp_members data_team ! 3, 0)]" by code_simp
  have "map w_role (nr_workers x) = map (tpm_role \<circ> fst) (all_seats data_team hire_data_team)"
    using x(2) unfolding hired_team_def by (blast intro: seat_roles)
  then show ?thesis using x(1) unfolding seats by (auto simp: data_team_def)
qed


end
