(* ===== verification/Spec2Isabelle.thy ===== *)
theory Spec2Isabelle
  imports Org_Laws Bead_Gateway_Laws Work_Queue Delegation_Manager Budget_Laws Permission_Laws OKR_Laws Rules_Laws
    Escalation_Laws Idle_Monitor_Laws Providers_Laws Session_Cleanup_Laws Comms_Laws
    Hire_Team_Laws
begin

text \<open>
  A verification development of the orchestration core of Quinn: an organisation of AI workers
  with a manager hierarchy, delegated hiring authority, budgets, teams, channels and sessions, kept in
  one SQLite database, with work items in an external beads tool.

  \<^bold>\<open>How the program is modelled.\<close> The database is a record of tables (theory \<open>Database\<close>, after
  \<open>src/cli/core/db/schema.py\<close>): a table is the list of its rows in insertion order, a row a record
  with one field per column, a \<open>CHECK\<close>, \<open>UNIQUE\<close> or foreign key the error branch of the operation that
  inserts, a trigger part of the statement that fires it. A function of the program that may raise or
  write returns \<open>(error + value) \<times> state\<close> (\<open>outcome\<close> in \<open>QPrelude\<close>): statements before an exception stay
  in effect, because every helper of the program commits on its own. Objects with a cache
  (\<open>Worker\<close>, its session manager, \<open>Org\<close>) are records beside the database, so that a stale cache can
  be stated. Times are integers in microseconds and come with the environment \<open>env\<close>, credits
  are exact rationals (the program uses floats), identifiers drawn by \<open>generate_id\<close> are arguments.
  Code outside the repository is a parameter: the beads tool, terminals, files, the full-text index.

  \<^bold>\<open>Theories, in the order of their dependence, with what their theorems show.\<close>
  \<^item> \<open>QPrelude\<close>: errors, outcomes, SQL statements on tables (the locale \<open>keyed_update\<close> for updates
    that keep a key), strings, forests.
  \<^item> \<open>Worker_States\<close> (\<open>shared/state_machines.py\<close>, \<open>shared/status.py\<close>): the transition tables; the
    locale \<open>transition_table\<close> gives reachability and invariants for all four machines.
  \<^item> \<open>Database\<close>, \<open>Worker_Queries\<close> (\<open>cli/core/queries/worker.py\<close>): rows and triggers, the schema invariant
    \<open>db_wf\<close>, workers and their runtime state; terminating a worker revokes its delegations.
  \<^item> \<open>Delegation_Queries\<close>, \<open>Delegation_Laws\<close>, \<open>Delegation_Manager\<close> (\<open>cli/core/queries/delegation.py\<close>,
    \<open>cli/core/worker/delegation.py\<close>): grants form a forest; cascade revocation revokes exactly the
    subtree, the cycle check is exact, expiry and the version check do what they promise; delegating
    never exceeds the delegator's authority.
  \<^item> \<open>Teams_Channels\<close> (\<open>cli/core/queries/team.py\<close>, \<open>channels.py\<close>): who may subscribe to what.
  \<^item> \<open>Hiring\<close> (\<open>cli/core/worker/hiring.py\<close>): a hire respects scope, cost and number of reports.
  \<^item> \<open>Sessions\<close>, \<open>Lifecycle_Manager\<close> (\<open>cli/core/sessions/persistence.py\<close>,
    \<open>cli/core/worker/session_manager.py\<close>, \<open>lifecycle_manager.py\<close>): all sequences of operations follow
    the tables; what termination cleans up; what a stale cache can do.
  \<^item> \<open>Budget_Queries\<close>, \<open>Budget\<close>, \<open>Budget_Laws\<close> (\<open>cli/core/queries/budget/\<close>, \<open>cli/core/budget/\<close>): balances
    are the sums of the ledger; allocation stays within the pool, delegation conserves credits, the
    enforcer never overdraws.
  \<^item> \<open>Permissions\<close>, \<open>Permission_Laws\<close> (\<open>cli/core/queries/permission.py\<close>, \<open>cli/core/permissions/\<close>,
    \<open>cli/core/authorization.py\<close>): guards let through exactly the levels they ask for; grants; who may
    do what to whom.
  \<^item> \<open>OKRs\<close>, \<open>OKR_Laws\<close> (\<open>cli/core/queries/okr.py\<close>): the hierarchy is a forest and its walks return;
    the exception is an objective that is its own parent.
  \<^item> \<open>Messages\<close>, \<open>Messages_Laws\<close> (\<open>cli/core/queries/messages.py\<close>, \<open>activity.py\<close>, \<open>notification.py\<close>,
    \<open>cli/core/notifications/utils.py\<close>): delivery to exactly the other subscribers, the life of a
    notification, sanitised full-text queries.
  \<^item> \<open>Org\<close>, \<open>Org_Laws\<close> (\<open>cli/core/org.py\<close>, \<open>cli/core/queries/org.py\<close>): initialisation builds a consistent
    organisation; init, start and stop follow the table; what failures half-way leave behind.
  \<^item> \<open>Bead_Lifecycle\<close>, \<open>Bead_Gateway\<close>, \<open>Bead_Gateway_Laws\<close> (\<open>cli/core/lifecycle.py\<close>,
    \<open>cli/core/bd_wrapper.py\<close>): the shipped lifecycles are sound; nothing runs the beads tool without passing
    the checks; how arguments can mislead them; why message notifications are refused.
  \<^item> \<open>Work_Queue\<close> (\<open>shared/wrkr/work/queue.py\<close>, \<open>shared/wrkr/core/task.py\<close>): the locale \<open>priority_work\<close>
    is the contract of a queue of work, interpreted on the in-memory queue; draining yields every
    ready task once, in order of priority.
  \<^item> \<open>Py_Values\<close>: dynamic Python values with their equality, order, truth and text, for the code that
    works on dictionaries and parsed YAML.
  \<^item> \<open>Rules\<close>, \<open>Rules_Laws\<close> (\<open>cli/core/rules/\<close>): the board's rules, from the parsed file to the decision
    on an action. What the loader accepts is well formed, evaluating it never raises, the guard stops
    exactly the forbidden actions; what the command that disables a rule can hit.
  \<^item> \<open>Escalation\<close>, \<open>Escalation_Laws\<close> (\<open>shared/escalation/\<close>, \<open>shared/org/escalation.py\<close>, \<open>topology.py\<close>): the walk
    along the reporting line, the bounded queue of escalations as interleaved locked sections, the board
    at the end of every line; how the timeout thread can settle an entry twice.
  \<^item> \<open>Idle_Monitor\<close>, \<open>Idle_Monitor_Laws\<close> (\<open>cli/core/escalation_monitor.py\<close>, \<open>continuation_engine.py\<close>): the
    escalation state of idle workers follows its table; prompts are spaced; an escalation the gateway
    refuses is lost for good.
  \<^item> \<open>Providers\<close>, \<open>Providers_Laws\<close> (\<open>cli/providers/\<close>, \<open>shared/provider_types.py\<close>): which model a worker
    gets, when the selection fails, how often a call is retried; a completion under a budget is never
    charged.
  \<^item> \<open>Tmux_Spawner\<close>, \<open>Session_Cleanup\<close>, \<open>Session_Cleanup_Laws\<close> (\<open>cli/core/sessions/tmux_spawner.py\<close>,
    \<open>cleanup.py\<close>): stopping sessions, and the clean-up at start: afterwards every recorded session is
    alive and no foreign or tracked session was killed.
  \<^item> \<open>Stop_Controller\<close>, \<open>Stop_Controller_Laws\<close> (\<open>cli/core/stop_controller.py\<close>, \<open>cli/core/queries/lifecycle.py\<close>):
    the sequence that stops an organisation; the locale \<open>worker_pass\<close> for its passes over the active
    workers; what is snapshotted, what is lost, and that a resume state is used once.
  \<^item> \<open>Comms\<close>, \<open>Comms_Laws\<close> (\<open>shared/core/message.py\<close>, \<open>shared/comms/\<close>, \<open>cli/core/notifications/\<close>): messages
    and their constructors, inboxes, outboxes and adapters; the locale \<open>urgency_sorted\<close> for polling.
  \<^item> \<open>Templates\<close>, \<open>Deletions\<close>, \<open>Hire_Team\<close>, \<open>Hire_Team_Laws\<close> (\<open>cli/core/templates/\<close>, the \<open>ON DELETE\<close> clauses of
    \<open>schema.py\<close>): the template catalog, and hiring a whole team with an undo stack: all or nothing.
  \<^item> This theory: properties that span components.

  \<^bold>\<open>Fuel.\<close> Cascade revocation and the walks over the objective hierarchy are recursive in the program
  and carry fuel here, the depth of the call stack; \<open>None\<close> is a walk that has not come back within
  it. The number of rows of the table is always enough on well-formed databases
  (\<open>okr_walks_terminate\<close>, \<open>cascade_revokes_subtree\<close>). The loops over the delegation chain and subtree keep
  the list of visited workers and are total functions with a termination proof. The walk along the bosses
  (\<open>path_loop\<close>) has no bound in the program and is a partial function: \<open>escalation_path_correct\<close> says
  exactly when it returns. The stop controller's wait (\<open>wait_loop\<close>) is a partial function for the same
  reason: it returns once every poll takes the two seconds it sleeps (\<open>stop_sequence_stops\<close>).

  \<^bold>\<open>Not modelled.\<close> Terminals, tmux and the provider processes; the terminal and web boards and the
  command line (presentation and argument parsing around the modelled operations); files on disk
  apart from the existence of storage directories; log lines, org-chart files and best-effort
  messages of the lifecycle manager; migrations and tables no modelled operation touches; the
  start controller and onboarding.
\<close>

section \<open>The first worker\<close>

lemma seeded_powers:
  assumes "0 < budget" and "cost \<le> 100" and "wo_id ob = ii_worker ids" and d_def: "d = seeded e ids nm r budget"
  shows "fst (can_hire e role cost (d, ob)) = Inr HireOK"
    and "fst (auth_can e busy (ii_worker ids) ''hire'' None d) = Inr True"
    and "check_worker_named_permission d (ii_worker ids) p = (p \<in> set (get_role_permissions r))"
    and "check_bead_permission d (ii_worker ids) bead = (if r = ''ceo'' then 5 else 0)"
proof -
  have w: "get_worker d (ii_worker ids) = Some (row_to_worker (ceo_row e ids nm r budget))"
    by (simp add: d_def get_worker_def seeded_defs ceo_row_def)
  have exp: "snd (expire_delegations e d) = d"
    by (simp add: d_def expire_delegations_def seeded_defs fetchall_def)
  have scope: "from_json (Some ceo_scope) = Inr \<lparr>hs_allowed_roles = [''*''], hs_max_cost = 100, hs_max_total_budget = 0\<rparr>"
    by (simp add: from_json_def ceo_scope_def)
  have rows: "get_direct_reports_count d (ii_worker ids) = 0"
    by (simp add: d_def get_direct_reports_count_def get_workers_by_manager_def seeded_defs fetchall_def ceo_row_def)
  have "worker_data d (ob\<lparr>wo_data := None\<rparr>) = ok (row_to_worker (ceo_row e ids nm r budget))
      (ob\<lparr>wo_data := Some (row_to_worker (ceo_row e ids nm r budget))\<rparr>)"
    using w assms(3) by (simp add: worker_data_def load_worker_def)
  then show "fst (can_hire e role cost (d, ob)) = Inr HireOK"
    using assms(2,3) by (simp add: can_hire_def exp Let_def scope hire_decision_def rows can_hire_role_def can_afford_cost_def
        row_to_worker_def ceo_row_def)
  have "has_funds e d (ii_worker ids)"
    using seeded_money(2) [of e ids nm r budget] assms(1) by (auto simp: has_funds_def d_def split: option.splits)
  then show "fst (auth_can e busy (ii_worker ids) ''hire'' None d) = Inr True"
    by (simp add: auth_can_def w auth_can_hire_def has_hiring_authority_def row_to_worker_def ceo_row_def ceo_scope_def)
  show "check_worker_named_permission d (ii_worker ids) p = (p \<in> set (get_role_permissions r))"
    by (simp add: check_worker_named_permission_def w row_to_worker_def ceo_row_def)
  have "get_worker_team_memberships d (ii_worker ids) = [\<lparr>tm_team_id = ii_team ids, tm_worker_id = ii_worker ids, tm_role = ''lead'', tm_joined_at = now e\<rparr>]"
    and "permissions d = []" "effective_permissions d = []"
    by (simp_all add: d_def get_worker_team_memberships_def seeded_defs fetchall_def)
  then show "check_bead_permission d (ii_worker ids) bead = (if r = ''ceo'' then 5 else 0)"
    by (simp add: check_bead_permission_def w row_to_worker_def ceo_row_def get_effective_permission_def granted_level_def
        get_permission_for_grantee_def max_level_def List.map_filter_def)
qed

lemma ceo_can_admin: "''can_admin'' \<in> set (get_role_permissions ''CEO'')"
  by code_simp

text \<open>
  What the first worker of a new organisation may do. With the role \<open>CEO\<close>, the default, it may hire
  any role of a cost up to 100 (the hiring check and the authorization manager agree) and has the named
  permission to administrate; but it has no level at all on any bead, because that check
  compares the role with \<open>ceo\<close> exactly. With the role \<open>ceo\<close> it has the highest level.
\<close>

theorem first_worker_powers:
  assumes "fresh_ids ids" and "0 < budget" and "cost \<le> 100"
  shows "\<exists>ob s'. org_init e ids nm ''CEO'' budget (new_org e) = ok ob s'
    \<and> fst (can_hire e role cost (og_db s', ob)) = Inr HireOK
    \<and> fst (auth_can e busy (wo_id ob) ''hire'' None (og_db s')) = Inr True
    \<and> check_worker_named_permission (og_db s') (wo_id ob) ''can_admin''
    \<and> check_bead_permission (og_db s') (wo_id ob) bead = 0
    \<and> (\<exists>ob2 s2. org_init e ids nm ''ceo'' budget (new_org e) = ok ob2 s2
         \<and> check_bead_permission (og_db s2) (wo_id ob2) bead = 5)"
proof -
  from org_init_new [OF assms(1,2), of e nm "''CEO''"] obtain ob s' where
    1: "org_init e ids nm ''CEO'' budget (new_org e) = ok ob s'" "wo_id ob = ii_worker ids"
      "og_db s' = seeded e ids nm ''CEO'' budget" by blast
  from org_init_new [OF assms(1,2), of e nm "''ceo''"] obtain ob2 s2 where
    2: "org_init e ids nm ''ceo'' budget (new_org e) = ok ob2 s2" "wo_id ob2 = ii_worker ids"
      "og_db s2 = seeded e ids nm ''ceo'' budget" by blast
  show ?thesis
    using 1 2 seeded_powers [OF assms(2,3)] ceo_can_admin by simp
qed

theorem first_worker_powers_witness:
  "\<exists>ob s'. org_init witness_env some_ids ''Ada'' ''CEO'' 1000 (new_org witness_env) = ok ob s'
     \<and> check_bead_permission (og_db s') (wo_id ob) ''bead-1'' = 0"
proof -
  have f: "fresh_ids some_ids" and b: "(0::rat) < 1000" by (simp_all add: fresh_ids_def some_ids_def)
  from first_worker_powers [OF f b, where cost = 1] show ?thesis by (metis one_le_numeral)
qed

end
